(* ===== verification/Prelude.thy ===== *)
theory Prelude
  imports Main "HOL-Library.Char_ord" "HOL-Library.List_Lexorder"
begin

text \<open>
  The vocabulary every other theory shares: the error codes and results of
  \<open>domain/shared/errors.ts\<close> and \<open>domain/shared/result.ts\<close>, the JavaScript values that
  reach the boundary parsers as \<open>unknown\<close>, and the list, option and digit lemmas
  (with the collections \<open>result_simps\<close> and \<open>digit_simps\<close>) that the component proofs rest on.

  A JavaScript string is a list of \<open>char\<close>: its UTF-16 code units, restricted to
  Latin-1. On that range \<open>normalize("NFC")\<close> is the identity; validated texts pass through
  \<open>nfc_latin1\<close>, which says so, and the serializer takes the normalization as an argument.
\<close>

named_theorems result_simps \<open>facts about results and the loops that stop at the first error\<close>
named_theorems digit_simps \<open>facts about decimal digit strings\<close>
named_theorems js_simps \<open>reading fields of JavaScript values\<close>

subsection \<open>Error codes and results\<close>

datatype error_code =
    INVALID_ARGUMENT | INVALID_DECIMAL | INVALID_IDENTIFIER | INVALID_TEXT
  | INVALID_TIMESTAMP | INVALID_HASH | INVALID_VALUE | INVALID_CONSTRAINT
  | INVALID_CAPABILITY | INVALID_EVIDENCE | INVALID_PLAN | INVALID_APPROVAL
  | INVALID_TRANSITION | INVALID_ACCOUNTING | DIVISION_BY_ZERO | CONSTRAINT_VIOLATION
  | QUANTITY_TOO_SMALL | NOTIONAL_TOO_SMALL | STALE_EVIDENCE | INCOMPATIBLE_EVIDENCE
  | CAPABILITY_UNSUPPORTED | CAPABILITY_UNKNOWN | PROTECTION_REQUIRED
  | PLAN_HASH_MISMATCH | PLAN_EXPIRED | UNSUPPORTED_TRANSITION | UNSUPPORTED_CONTRACT
  | OWNERSHIP_MISMATCH | UNRESOLVED_RECONCILIATION | PERSISTENCE_INTEGRITY
  | PERSISTENCE_SCHEMA | PERSISTENCE_RUNTIME | PERSISTENCE_ENVIRONMENT
  | PERSISTENCE_BUSY | RUN_LEASE_HELD | RUN_LEASE_LOST | DUPLICATE_LINEAGE
  | PERSISTENCE_CONFLICT | CHECKPOINT_STALE | HALT_ACTIVE | UNRESOLVED_STATE

text \<open>
  A domain error is its code and, where the source computes one, the name of the offending
  field or the reason word; the fixed human-readable message texts are left out.
\<close>

datatype domain_error = DomainError (err_code: error_code) (err_detail: "string option")

type_synonym 'a result = "domain_error + 'a"

abbreviation Ok :: "'a \<Rightarrow> 'a result" where
  "Ok \<equiv> Inr"

abbreviation Fail :: "error_code \<Rightarrow> 'a result" where
  "Fail c \<equiv> Inl (DomainError c None)"

abbreviation Fail_at :: "error_code \<Rightarrow> string \<Rightarrow> 'a result" where
  "Fail_at c s \<equiv> Inl (DomainError c (Some s))"

primrec is_ok :: "'a result \<Rightarrow> bool" where
  "is_ok (Inl e) = False"
| "is_ok (Inr x) = True"

primrec rbind :: "'a result \<Rightarrow> ('a \<Rightarrow> 'b result) \<Rightarrow> 'b result" where
  "rbind (Inl e) f = Inl e"
| "rbind (Inr x) f = f x"

definition map_result :: "'a result \<Rightarrow> ('a \<Rightarrow> 'b) \<Rightarrow> 'b result" where
  "map_result r f = (case r of Inr x \<Rightarrow> Ok (f x) | Inl e \<Rightarrow> Inl e)"

text \<open>
  A constructor parses its fields and then fails with one code of its own when any parse
  failed: \<open>need\<close> replaces the error of a failed part by that code, \<open>need_some\<close> does the same
  for an optional value, and \<open>guard\<close> is a check of its own.
\<close>

definition need :: "error_code \<Rightarrow> 'a result \<Rightarrow> ('a \<Rightarrow> 'b result) \<Rightarrow> 'b result" where
  "need c r f = (case r of Inr x \<Rightarrow> f x | Inl e \<Rightarrow> Fail c)"

definition need_some :: "error_code \<Rightarrow> 'a option \<Rightarrow> ('a \<Rightarrow> 'b result) \<Rightarrow> 'b result" where
  "need_some c r f = (case r of Some x \<Rightarrow> f x | None \<Rightarrow> Fail c)"

definition guard :: "error_code \<Rightarrow> bool \<Rightarrow> 'b result \<Rightarrow> 'b result" where
  "guard c b r = (if b then r else Fail c)"

lemma need_simps [simp]: "need c (Inr x) f = f x" "need c (Inl e) f = Fail c"
  "need_some c (Some x) f = f x" "need_some c None f = Fail c"
  "guard c True r = r" "guard c False r = Fail c"
  by (simp_all add: need_def need_some_def guard_def)

lemma need_Ok_iff [result_simps]: "need c r f = Inr y \<longleftrightarrow> (\<exists>x. r = Inr x \<and> f x = Inr y)"
  "need_some c q f = Inr y \<longleftrightarrow> (\<exists>x. q = Some x \<and> f x = Inr y)"
  "guard c b s = Inr y \<longleftrightarrow> b \<and> s = Inr y"
  by (cases r; simp) (auto simp: need_some_def guard_def split: option.splits)

text \<open>A \<open>for\<close> loop that parses every element and returns the first error.\<close>

primrec traverse :: "('a \<Rightarrow> 'b result) \<Rightarrow> 'a list \<Rightarrow> 'b list result" where
  "traverse f [] = Ok []"
| "traverse f (x # xs) = rbind (f x) (\<lambda>y. rbind (traverse f xs) (\<lambda>ys. Ok (y # ys)))"

lemma is_ok_iff [result_simps]: "is_ok r \<longleftrightarrow> (\<exists>x. r = Inr x)"
  by (cases r) auto

lemma rbind_Ok_iff [result_simps]: "rbind r f = Inr y \<longleftrightarrow> (\<exists>x. r = Inr x \<and> f x = Inr y)"
  by (cases r) auto

lemma rbind_Fail_iff: "rbind r f = Inl e \<longleftrightarrow> r = Inl e \<or> (\<exists>x. r = Inr x \<and> f x = Inl e)"
  by (cases r) auto

lemma traverse_Ok_iff [result_simps]:
  "traverse f xs = Inr ys \<longleftrightarrow> list_all2 (\<lambda>x y. f x = Inr y) xs ys"
proof (induction xs arbitrary: ys)
  case Nil
  then show ?case by auto
next
  case (Cons x xs)
  then show ?case by (cases ys) (auto simp: rbind_Ok_iff)
qed

lemma list_all2_map_Ok: "list_all2 (\<lambda>x y. f x = Inr y) xs (map g xs) \<longleftrightarrow> (\<forall>x \<in> set xs. f x = Inr (g x))"
  by (induction xs) auto

lemma traverse_length: "traverse f xs = Inr ys \<Longrightarrow> length ys = length xs"
  by (auto simp: traverse_Ok_iff dest: list_all2_lengthD)

lemma traverse_set: "traverse f xs = Inr ys \<Longrightarrow> y \<in> set ys \<Longrightarrow> \<exists>x \<in> set xs. f x = Inr y"
  by (induction xs arbitrary: ys) (auto simp: rbind_Ok_iff)

subsection \<open>JavaScript values\<close>

text \<open>
  What an argument of type \<open>unknown\<close> can be: plain data, and instances of the domain's own
  \<open>DecimalValue\<close> class (over the carrier of the decimal library). \<open>JInt\<close> is a number with an
  integral value, \<open>JFloat\<close> any other number (fractions, infinities, NaN), which the code
  never tells apart. An object is the list of its own enumerable fields, one entry per key.
  Functions, symbols, accessor properties and proxies are outside the model.
\<close>

datatype 'd jsval =
    JUndef | JNull | JBool bool | JInt int | JFloat | JStr string | JDec 'd
  | JArr "'d jsval list" | JObj "(string \<times> 'd jsval) list"

fun is_record :: "'d jsval \<Rightarrow> bool" where
  "is_record (JObj kvs) = True"
| "is_record (JDec d) = True"
| "is_record v = False"

fun has_key :: "'d jsval \<Rightarrow> string \<Rightarrow> bool" where
  "has_key (JObj kvs) k = (k \<in> fst ` set kvs)"
| "has_key v k = False"

fun get :: "'d jsval \<Rightarrow> string \<Rightarrow> 'd jsval" where
  "get (JObj kvs) k = (case map_of kvs k of Some v \<Rightarrow> v | None \<Rightarrow> JUndef)"
| "get v k = JUndef"

fun keys :: "'d jsval \<Rightarrow> string list" where
  "keys (JObj kvs) = map fst kvs"
| "keys v = []"

fun is_array :: "'d jsval \<Rightarrow> bool" where
  "is_array (JArr xs) = True"
| "is_array v = False"

fun elements :: "'d jsval \<Rightarrow> 'd jsval list" where
  "elements (JArr xs) = xs"
| "elements v = []"

text \<open>An optional property of an object literal, and an optional field of an input.\<close>

definition opt_field :: "string \<Rightarrow> 'd jsval option \<Rightarrow> (string \<times> 'd jsval) list" where
  "opt_field k v = (case v of None \<Rightarrow> [] | Some x \<Rightarrow> [(k, x)])"

definition optional :: "('d jsval \<Rightarrow> 'a result) \<Rightarrow> 'd jsval \<Rightarrow> 'a option result" where
  "optional p v = (if v = JUndef then Ok None else rbind (p v) (\<lambda>x. Ok (Some x)))"

lemma opt_field_simps [simp]: "opt_field k None = []" "opt_field k (Some x) = [(k, x)]"
  by (simp_all add: opt_field_def)

lemma optional_Undef [simp]: "optional p JUndef = Ok None"
  by (simp add: optional_def)

lemma optional_Some_iff [result_simps]:
  "optional p v = Inr (Some x) \<longleftrightarrow> v \<noteq> JUndef \<and> p v = Inr x"
  by (auto simp: optional_def rbind_Ok_iff)

lemma optional_None_iff [result_simps]: "optional p v = Inr None \<longleftrightarrow> v = JUndef"
  by (auto simp: optional_def rbind_Ok_iff)

subsection \<open>Lists\<close>

lemma list_all_nth: "list_all P xs \<Longrightarrow> i < length xs \<Longrightarrow> P (xs ! i)"
  by (simp add: list_all_length)

lemma takeWhile_append_stop:
  "list_all P xs \<Longrightarrow> \<not> P y \<Longrightarrow> takeWhile P (xs @ y # ys) = xs \<and> dropWhile P (xs @ y # ys) = y # ys"
  by (induction xs) auto

lemma takeWhile_all: "list_all P xs \<Longrightarrow> takeWhile P xs = xs \<and> dropWhile P xs = []"
  by (induction xs) auto

subsection \<open>Digits\<close>

text \<open>
  Numbers read from digit strings are \<open>int\<close>, whose binary numerals the kernel evaluates
  quickly; the functions are used on non-negative numbers only.
\<close>

abbreviation code_of :: "char \<Rightarrow> int" where
  "code_of c \<equiv> of_char c"

definition is_digit :: "char \<Rightarrow> bool" where
  "is_digit c \<longleftrightarrow> 48 \<le> code_of c \<and> code_of c \<le> 57"

definition digit_val :: "char \<Rightarrow> int" where
  "digit_val c = code_of c - 48"

definition digit_char :: "int \<Rightarrow> char" where
  "digit_char n = char_of (48 + n)"

primrec digits_value :: "string \<Rightarrow> int" where
  "digits_value [] = 0"
| "digits_value (c # s) = digit_val c * 10 ^ length s + digits_value s"

function digits_of :: "int \<Rightarrow> string" where
  "digits_of n = (if n < 10 then [digit_char n] else digits_of (n div 10) @ [digit_char (n mod 10)])"
  by pat_completeness auto
termination
  by (relation "measure nat") auto

declare digits_of.simps [simp del]

definition pad :: "nat \<Rightarrow> string \<Rightarrow> string" where
  "pad k s = replicate (k - length s) (CHR ''0'') @ s"

lemma digit_char_digit [digit_simps]: "0 \<le> n \<Longrightarrow> n < 10 \<Longrightarrow> is_digit (digit_char n)"
  by (simp add: is_digit_def digit_char_def)

lemma digit_val_char [digit_simps]: "0 \<le> n \<Longrightarrow> n < 10 \<Longrightarrow> digit_val (digit_char n) = n"
  by (simp add: digit_val_def digit_char_def)

lemma digit_char_val [digit_simps]: "is_digit c \<Longrightarrow> digit_char (digit_val c) = c"
  by (simp add: is_digit_def digit_char_def digit_val_def)

lemma digit_val_bounds [digit_simps]: "is_digit c \<Longrightarrow> 0 \<le> digit_val c" "is_digit c \<Longrightarrow> digit_val c < 10"
  by (auto simp: is_digit_def digit_val_def)

lemma digit_val_inj: "is_digit c \<Longrightarrow> is_digit d \<Longrightarrow> digit_val c = digit_val d \<Longrightarrow> c = d"
  by (metis digit_char_val)

lemma digit_val_zero_iff: "is_digit c \<Longrightarrow> digit_val c = 0 \<longleftrightarrow> c = CHR ''0''"
  using digit_val_inj [of c "CHR ''0''"] by (auto simp: is_digit_def digit_val_def)

lemma digits_value_append:
  "digits_value (xs @ ys) = digits_value xs * 10 ^ length ys + digits_value ys"
  by (induction xs) (simp_all add: algebra_simps power_add)

lemma digits_value_nonneg: "list_all is_digit xs \<Longrightarrow> 0 \<le> digits_value xs"
  by (induction xs) (auto simp: digit_val_bounds)

lemma digits_value_less: "list_all is_digit xs \<Longrightarrow> digits_value xs < 10 ^ length xs"
proof (induction xs)
  case Nil
  then show ?case by simp
next
  case (Cons c xs)
  define B :: int where "B = 10 ^ length xs"
  from Cons have less: "digits_value xs < B" and "digit_val c \<le> 9"
    using digit_val_bounds [of c] by (auto simp: B_def)
  have "0 < B" by (simp add: B_def)
  with \<open>digit_val c \<le> 9\<close> have "digit_val c * B \<le> 9 * B" by (intro mult_right_mono) auto
  then have "digit_val c * B + digits_value xs < 9 * B + B" using less by (rule add_le_less_mono)
  then show ?case by (simp add: B_def)
qed

lemma digits_value_inj:
  assumes "length xs = length ys" "list_all is_digit xs" "list_all is_digit ys"
    and "digits_value xs = digits_value ys"
  shows "xs = ys"
  using assms
proof (induction xs ys rule: list_induct2)
  case Nil
  then show ?case by simp
next
  case (Cons x xs y ys)
  define B :: int where "B = 10 ^ length ys"
  have bounds: "0 \<le> digits_value xs" "digits_value xs < B" "0 \<le> digits_value ys" "digits_value ys < B"
    using Cons.prems Cons.hyps digits_value_less [of xs] digits_value_less [of ys]
      digits_value_nonneg [of xs] digits_value_nonneg [of ys] by (auto simp: B_def)
  have eq: "digit_val x * B + digits_value xs = digit_val y * B + digits_value ys"
    using Cons.prems Cons.hyps by (simp add: B_def)
  have "(digits_value xs + digit_val x * B) div B = digit_val x"
    "(digits_value ys + digit_val y * B) div B = digit_val y"
    using bounds by (simp_all add: div_pos_pos_trivial)
  then have "digit_val x = digit_val y" using eq by (metis add.commute)
  moreover from this eq have "digits_value xs = digits_value ys" by simp
  ultimately show ?case using Cons.IH Cons.prems digit_val_inj [of x y] by simp
qed

lemma digits_value_zeros [simp]: "digits_value (replicate n (CHR ''0'')) = 0"
  by (induction n) (simp_all add: digit_val_def)

lemma digits_of_digits [digit_simps]: "0 \<le> n \<Longrightarrow> list_all is_digit (digits_of n)"
  by (induction n rule: digits_of.induct)
    (subst digits_of.simps, simp add: digit_char_digit)

lemma digits_value_of [digit_simps]: "0 \<le> n \<Longrightarrow> digits_value (digits_of n) = n"
proof (induction n rule: digits_of.induct)
  case (1 n)
  then show ?case
    by (subst digits_of.simps) (simp add: digits_value_append digit_val_char)
qed

lemma digits_of_nonempty [simp]: "digits_of n \<noteq> []"
  by (subst digits_of.simps) simp

lemma digits_of_length: "n < 10 ^ k \<Longrightarrow> 0 < k \<Longrightarrow> length (digits_of n) \<le> k"
proof (induction n arbitrary: k rule: digits_of.induct)
  case (1 n)
  show ?case
  proof (cases "n < 10")
    case True
    then show ?thesis using "1.prems" by (subst digits_of.simps) simp
  next
    case False
    then obtain j where k: "k = Suc j" and "0 < j"
      using "1.prems" by (cases k; cases "k = 1") auto
    then have "n div 10 < 10 ^ j" using "1.prems" by simp
    then show ?thesis
      using False k \<open>0 < j\<close> "1.IH" by (subst digits_of.simps) simp
  qed
qed

lemma digits_of_leading_zero: "0 \<le> n \<Longrightarrow> hd (digits_of n) = CHR ''0'' \<Longrightarrow> n = 0"
proof (induction n rule: digits_of.induct)
  case (1 n)
  show ?case
  proof (cases "n < 10")
    case True
    then have "digit_char n = CHR ''0''" using "1.prems" by (simp add: digits_of.simps [of n])
    then have "digit_val (digit_char n) = 0" by (simp add: digit_val_def)
    then show ?thesis using True "1.prems" by (simp add: digit_val_char)
  next
    case False
    then have "hd (digits_of (n div 10)) = CHR ''0''"
      using "1.prems" by (simp add: digits_of.simps [of n] hd_append)
    moreover from False have "0 \<le> n div 10" "1 \<le> n div 10" by auto
    ultimately show ?thesis using "1.IH" False by simp
  qed
qed

lemma pad_length [simp]: "length s \<le> k \<Longrightarrow> length (pad k s) = k"
  by (simp add: pad_def)

lemma pad_digits [digit_simps]: "list_all is_digit s \<Longrightarrow> list_all is_digit (pad k s)"
  by (auto simp: pad_def list_all_iff is_digit_def)

lemma digits_value_pad [digit_simps]: "digits_value (pad k s) = digits_value s"
  by (simp add: pad_def digits_value_append)

end
