(* ===== verification/Host.thy ===== *)
theory Host
  imports Prelude Complex_Main
begin

text \<open>
  The code the repository calls and does not contain: the decimal library \<open>big.js\<close> and the
  SHA-256 of \<open>node:crypto\<close>. Both are a parameter \<open>L\<close> of type \<open>'d lib\<close> of every definition
  that uses them; \<open>'d\<close> is the carrier of \<open>Big\<close> instances. The locale \<open>host\<close> states the
  documented behaviour the code relies on, with \<open>v\<close> the rational number a \<open>Big\<close> stands for,
  and \<open>ref_lib\<close> is a concrete library that meets it: a mantissa and a number of
  fraction digits, with an executable toy digest.
\<close>

subsection \<open>Decimal strings\<close>

text \<open>The text a plain decimal string denotes: sign, integer digits, fraction digits.\<close>

definition compose :: "bool \<Rightarrow> string \<Rightarrow> string \<Rightarrow> string" where
  "compose neg i f = (if neg then ''-'' else []) @ i @ (if f = [] then [] else CHR ''.'' # f)"

definition unsigned_part :: "string \<Rightarrow> string" where
  "unsigned_part s = (case s of c # cs \<Rightarrow> if c = CHR ''-'' then cs else s | [] \<Rightarrow> [])"

definition starts_minus :: "string \<Rightarrow> bool" where
  "starts_minus s = (case s of c # cs \<Rightarrow> c = CHR ''-'' | [] \<Rightarrow> False)"

definition matches_decimal :: "string \<Rightarrow> bool" where
  "matches_decimal s =
     (let u = unsigned_part s; r = dropWhile is_digit u in
      takeWhile is_digit u \<noteq> [] \<and>
      (r = [] \<or> hd r = CHR ''.'' \<and> tl r \<noteq> [] \<and> list_all is_digit (tl r)))"

definition decimal_value :: "string \<Rightarrow> rat" where
  "decimal_value s =
     (let u = unsigned_part s; i = takeWhile is_digit u; f = drop 1 (dropWhile is_digit u);
          m = of_int (digits_value (i @ f)) / 10 ^ length f
      in if starts_minus s then - m else m)"

lemma dot_not_digit [simp]: "\<not> is_digit (CHR ''.'')"
  by (simp add: is_digit_def)

lemma minus_not_digit [simp]: "\<not> is_digit (CHR ''-'')"
  by (simp add: is_digit_def)

lemma compose_parts:
  assumes "i \<noteq> []" "list_all is_digit i"
  shows "unsigned_part (compose neg i f) = i @ (if f = [] then [] else CHR ''.'' # f)"
    and "starts_minus (compose neg i f) = neg"
proof -
  obtain c cs where "i = c # cs" "is_digit c" using assms by (cases i) auto
  then have "c \<noteq> CHR ''-''" by auto
  then show "unsigned_part (compose neg i f) = i @ (if f = [] then [] else CHR ''.'' # f)"
    and "starts_minus (compose neg i f) = neg"
    using \<open>i = c # cs\<close> by (auto simp: compose_def unsigned_part_def starts_minus_def)
qed

lemma digit_span:
  assumes "list_all is_digit i"
  shows "takeWhile is_digit (i @ (if f = [] then [] else CHR ''.'' # f)) = i"
    and "dropWhile is_digit (i @ (if f = [] then [] else CHR ''.'' # f)) = (if f = [] then [] else CHR ''.'' # f)"
  using assms takeWhile_append_stop [of is_digit i "CHR ''.''" f] takeWhile_all [of is_digit i]
  by auto

lemma matches_compose:
  assumes "i \<noteq> []" "list_all is_digit i" "list_all is_digit f"
  shows "matches_decimal (compose neg i f)"
  using assms by (simp add: matches_decimal_def compose_parts Let_def digit_span list_all_iff)

lemma decimal_value_compose:
  assumes "i \<noteq> []" "list_all is_digit i"
  shows "decimal_value (compose neg i f) =
    (if neg then -1 else 1) * (of_int (digits_value i) + of_int (digits_value f) / 10 ^ length f)"
  using assms by (simp add: decimal_value_def compose_parts Let_def digit_span digits_value_append
      field_simps)

lemma compose_unsigned: "s = (if starts_minus s then ''-'' else []) @ unsigned_part s"
  by (auto simp: starts_minus_def unsigned_part_def split: list.splits)

lemma matches_decimalE:
  assumes "matches_decimal s"
  obtains neg i f where "s = compose neg i f" "i \<noteq> []" "list_all is_digit i" "list_all is_digit f"
proof -
  let ?u = "unsigned_part s"
  let ?i = "takeWhile is_digit ?u" and ?r = "dropWhile is_digit ?u"
  have i: "?i \<noteq> []" "list_all is_digit ?i"
    using assms by (auto simp: matches_decimal_def Let_def list_all_iff dest: set_takeWhileD)
  have s: "s = (if starts_minus s then ''-'' else []) @ ?i @ ?r"
    using compose_unsigned [of s] by simp
  show ?thesis
  proof (cases "?r = []")
    case True
    then have "s = compose (starts_minus s) ?i []"
      using s by (simp only: compose_def append_Nil2 simp_thms if_True)
    then show ?thesis using i by (rule that) simp
  next
    case False
    then obtain f where r: "?r = CHR ''.'' # f" "f \<noteq> []" "list_all is_digit f"
      using assms False by (cases ?r) (auto simp: matches_decimal_def Let_def simp del: dropWhile_eq_Nil_conv)
    with s have "s = compose (starts_minus s) ?i f" by (simp add: compose_def)
    then show ?thesis using i r(3) by (rule that)
  qed
qed

subsection \<open>Rounding\<close>

datatype big_rounding = RoundDown | RoundHalfUp | RoundHalfEven | RoundUp

text \<open>
  The library's four rounding modes on an exact quotient, to an integer: towards zero,
  to nearest with ties away from zero, to nearest with ties to even, away from zero.
\<close>

fun round_int :: "big_rounding \<Rightarrow> rat \<Rightarrow> int" where
  "round_int RoundDown q = (if q < 0 then \<lceil>q\<rceil> else \<lfloor>q\<rfloor>)"
| "round_int RoundUp q = (if q < 0 then \<lfloor>q\<rfloor> else \<lceil>q\<rceil>)"
| "round_int RoundHalfUp q = (if q < 0 then \<lceil>q - 1 / 2\<rceil> else \<lfloor>q + 1 / 2\<rfloor>)"
| "round_int RoundHalfEven q =
     (let f = \<lfloor>q\<rfloor>; d = q - of_int f in
      if d < 1 / 2 then f else if 1 / 2 < d then f + 1 else if even f then f else f + 1)"

definition round_rat :: "big_rounding \<Rightarrow> nat \<Rightarrow> rat \<Rightarrow> rat" where
  "round_rat rm dp q = of_int (round_int rm (q * 10 ^ dp)) / 10 ^ dp"

lemma round_int_of_int [simp]: "round_int rm (of_int n) = n"
  by (cases rm) (auto simp: ceiling_unique floor_unique)

lemma round_rat_exact: "q * 10 ^ dp = of_int n \<Longrightarrow> round_rat rm dp q = q"
  by (simp add: round_rat_def) (metis nonzero_mult_div_cancel_right power_not_zero zero_neq_numeral)

subsection \<open>The interface\<close>

record 'd lib =
  big_new :: "string \<Rightarrow> 'd option"
  big_to_fixed :: "'d \<Rightarrow> string"
  big_add :: "'d \<Rightarrow> 'd \<Rightarrow> 'd"
  big_minus :: "'d \<Rightarrow> 'd \<Rightarrow> 'd"
  big_times :: "'d \<Rightarrow> 'd \<Rightarrow> 'd"
  big_div :: "nat \<Rightarrow> big_rounding \<Rightarrow> 'd \<Rightarrow> 'd \<Rightarrow> 'd option"
  big_round :: "nat \<Rightarrow> big_rounding \<Rightarrow> 'd \<Rightarrow> 'd option"
  big_cmp :: "'d \<Rightarrow> 'd \<Rightarrow> int"
  sha256_hex :: "string \<Rightarrow> string"

text \<open>
  \<open>big_div dp rm\<close> is \<open>div\<close> under the constructor's \<open>DP = dp\<close> and \<open>RM = rm\<close>,
  \<open>big_round dp rm\<close> is \<open>round(dp, rm)\<close>; \<open>None\<close> is a thrown exception.
\<close>

definition MAX_DP :: nat where
  "MAX_DP = 1000000"

definition is_hex :: "char \<Rightarrow> bool" where
  "is_hex c \<longleftrightarrow> is_digit c \<or> 97 \<le> code_of c \<and> code_of c \<le> 102"

locale big_decimal =
  fixes L :: "'d lib" and v :: "'d \<Rightarrow> rat"
  assumes new_matches: "matches_decimal s \<Longrightarrow> \<exists>d. big_new L s = Some d \<and> v d = decimal_value s"
    and fixed_matches: "matches_decimal (big_to_fixed L d)"
    and fixed_value: "decimal_value (big_to_fixed L d) = v d"
    and v_add: "v (big_add L x y) = v x + v y"
    and v_minus: "v (big_minus L x y) = v x - v y"
    and v_times: "v (big_times L x y) = v x * v y"
    and cmp_value: "big_cmp L x y = (if v x < v y then -1 else if v x = v y then 0 else 1)"
    and div_value: "v y \<noteq> 0 \<Longrightarrow> dp \<le> MAX_DP \<Longrightarrow>
      \<exists>z. big_div L dp rm x y = Some z \<and> v z = round_rat rm dp (v x / v y)"
    and round_value: "dp \<le> MAX_DP \<Longrightarrow> \<exists>z. big_round L dp rm x = Some z \<and> v z = round_rat rm dp (v x)"

locale host = big_decimal +
  assumes sha_length: "length (sha256_hex L s) = 64"
    and sha_hex: "list_all is_hex (sha256_hex L s)"

text \<open>Consequences the clients use: comparison read as an order on values.\<close>

context big_decimal
begin

lemma cmp_iffs [simp]:
  "big_cmp L x y \<le> 0 \<longleftrightarrow> v x \<le> v y" "big_cmp L x y < 0 \<longleftrightarrow> v x < v y"
  "0 \<le> big_cmp L x y \<longleftrightarrow> v y \<le> v x" "0 < big_cmp L x y \<longleftrightarrow> v y < v x"
  "big_cmp L x y = 0 \<longleftrightarrow> v x = v y"
  by (auto simp: cmp_value)

end

subsection \<open>A reference library\<close>

text \<open>Rounding a quotient of integers (with a positive divisor), on integers only.\<close>

fun round_frac :: "big_rounding \<Rightarrow> int \<Rightarrow> int \<Rightarrow> int" where
  "round_frac RoundDown n d = (if n < 0 then - ((- n) div d) else n div d)"
| "round_frac RoundUp n d = (if n < 0 then n div d else - ((- n) div d))"
| "round_frac RoundHalfUp n d =
     (if n < 0 then - ((d - 2 * n) div (2 * d)) else (2 * n + d) div (2 * d))"
| "round_frac RoundHalfEven n d =
     (let f = n div d; r = n mod d in
      if 2 * r < d then f else if d < 2 * r then f + 1 else if even f then f else f + 1)"

lemma floor_frac: "\<lfloor>of_int n / (of_int d :: rat)\<rfloor> = n div d"
  by (rule floor_divide_of_int_eq)

lemma ceiling_frac: "\<lceil>of_int n / (of_int d :: rat)\<rceil> = - ((- n) div d)"
  by (rule ceiling_divide_eq_div)

lemma frac_neg_iff: "0 < d \<Longrightarrow> of_int n / (of_int d :: rat) < 0 \<longleftrightarrow> n < 0"
  by (simp add: divide_less_0_iff)

lemma frac_half:
  assumes "0 < d"
  shows "of_int n / (of_int d :: rat) + 1 / 2 = of_int (2 * n + d) / of_int (2 * d)"
    and "of_int n / (of_int d :: rat) - 1 / 2 = of_int (2 * n - d) / of_int (2 * d)"
  using assms by (simp_all add: field_simps)

lemma frac_mod: "0 < d \<Longrightarrow> of_int n / of_int d - of_int (n div d) = of_int (n mod d) / (of_int d :: rat)"
proof -
  assume d: "0 < d"
  have "(of_int n :: rat) = of_int d * of_int (n div d) + of_int (n mod d)"
    by (metis mult_div_mod_eq of_int_add of_int_mult)
  then show ?thesis using d by (simp add: field_simps)
qed

lemma frac_half_iff:
  assumes "0 < d"
  shows "of_int r / of_int d < (1 / 2 :: rat) \<longleftrightarrow> 2 * r < d"
    and "(1 / 2 :: rat) < of_int r / of_int d \<longleftrightarrow> d < 2 * r"
proof -
  have "(2 * of_int r :: rat) = of_int (2 * r)" by simp
  then have *: "(2 * of_int r :: rat) < of_int d \<longleftrightarrow> 2 * r < d" "of_int d < (2 * of_int r :: rat) \<longleftrightarrow> d < 2 * r"
    by (simp_all only: of_int_less_iff)
  show "of_int r / of_int d < (1 / 2 :: rat) \<longleftrightarrow> 2 * r < d"
    and "(1 / 2 :: rat) < of_int r / of_int d \<longleftrightarrow> d < 2 * r"
    using assms * by (simp_all add: field_simps)
qed

lemma round_frac: "0 < d \<Longrightarrow> round_frac rm n d = round_int rm (of_int n / of_int d)"
proof (cases rm)
  case RoundHalfUp
  assume "0 < d"
  with RoundHalfUp show ?thesis
    by (simp only: round_frac.simps round_int.simps frac_half frac_neg_iff floor_frac ceiling_frac)
      simp
next
  case RoundHalfEven
  assume d: "0 < d"
  then show ?thesis
    using RoundHalfEven
    by (simp only: round_frac.simps round_int.simps Let_def floor_frac frac_mod frac_half_iff)
qed (simp_all add: frac_neg_iff floor_frac ceiling_frac)

datatype sdec = SDec (mant: int) (scale: nat)

definition sval :: "sdec \<Rightarrow> rat" where
  "sval x = of_int (mant x) / 10 ^ scale x"

definition snew :: "string \<Rightarrow> sdec option" where
  "snew s =
     (if matches_decimal s then
        (let u = unsigned_part s; i = takeWhile is_digit u; f = drop 1 (dropWhile is_digit u);
             m = digits_value (i @ f)
         in Some (SDec (if starts_minus s then - m else m) (length f)))
      else None)"

definition sfixed :: "sdec \<Rightarrow> string" where
  "sfixed x =
     (let ds = pad (Suc (scale x)) (digits_of \<bar>mant x\<bar>); k = length ds - scale x
      in compose (mant x < 0) (take k ds) (drop k ds))"

definition sadd :: "sdec \<Rightarrow> sdec \<Rightarrow> sdec" where
  "sadd x y =
     (if scale x \<le> scale y then SDec (mant x * 10 ^ (scale y - scale x) + mant y) (scale y)
      else SDec (mant x + mant y * 10 ^ (scale x - scale y)) (scale x))"

definition stimes :: "sdec \<Rightarrow> sdec \<Rightarrow> sdec" where
  "stimes x y = SDec (mant x * mant y) (scale x + scale y)"

definition sneg :: "sdec \<Rightarrow> sdec" where
  "sneg x = SDec (- mant x) (scale x)"

definition scmp :: "sdec \<Rightarrow> sdec \<Rightarrow> int" where
  "scmp x y = sgn (mant (sadd x (sneg y)))"

text \<open>
  Division first tries eight fraction digits, which is exact for the usual quotients, so
  that a concrete run does not compute a thousand digits.
\<close>

definition sdiv :: "nat \<Rightarrow> big_rounding \<Rightarrow> sdec \<Rightarrow> sdec \<Rightarrow> sdec option" where
  "sdiv dp rm x y =
     (let n = mant x * 10 ^ scale y * sgn (mant y); d = \<bar>mant y\<bar> * 10 ^ scale x in
      if d = 0 then None
      else if 8 \<le> dp \<and> (n * 10 ^ 8) mod d = 0 then Some (SDec ((n * 10 ^ 8) div d) 8)
      else Some (SDec (round_frac rm (n * 10 ^ dp) d) dp))"

definition sround :: "nat \<Rightarrow> big_rounding \<Rightarrow> sdec \<Rightarrow> sdec option" where
  "sround dp rm x =
     (if scale x \<le> dp then Some x else Some (SDec (round_frac rm (mant x) (10 ^ (scale x - dp))) dp))"

definition hex_char :: "int \<Rightarrow> char" where
  "hex_char n = (if n < 10 then digit_char n else char_of (87 + n))"

primrec hex_fixed :: "nat \<Rightarrow> int \<Rightarrow> string" where
  "hex_fixed 0 n = []"
| "hex_fixed (Suc k) n = hex_fixed k (n div 16) @ [hex_char (n mod 16)]"

definition toy_digest :: "string \<Rightarrow> string" where
  "toy_digest s = hex_fixed 64 (foldl (\<lambda>h c. (h * 31 + code_of c) mod 4294967296) 7 s)"

definition ref_lib :: "sdec lib" where
  "ref_lib = \<lparr>big_new = snew, big_to_fixed = sfixed, big_add = sadd,
     big_minus = (\<lambda>x y. sadd x (sneg y)), big_times = stimes, big_div = sdiv, big_round = sround,
     big_cmp = scmp, sha256_hex = toy_digest\<rparr>"

lemma sval_SDec [simp]: "sval (SDec m k) = of_int m / 10 ^ k"
  by (simp add: sval_def)

lemma snew_matches: "matches_decimal s \<Longrightarrow> \<exists>d. snew s = Some d \<and> sval d = decimal_value s"
  by (simp add: snew_def decimal_value_def Let_def)

lemma sfixed_compose:
  obtains i f where "sfixed x = compose (mant x < 0) i f" "i \<noteq> []" "list_all is_digit i"
    "list_all is_digit f" "length f = scale x"
    "digits_value i * 10 ^ scale x + digits_value f = \<bar>mant x\<bar>"
proof -
  define ds where "ds = pad (Suc (scale x)) (digits_of \<bar>mant x\<bar>)"
  define k where "k = length ds - scale x"
  have len: "scale x < length ds" by (simp add: ds_def pad_def)
  have dig: "list_all is_digit ds" by (simp add: ds_def digit_simps)
  have "digits_value (take k ds @ drop k ds) = \<bar>mant x\<bar>" by (simp add: ds_def digit_simps)
  then have "digits_value (take k ds) * 10 ^ scale x + digits_value (drop k ds) = \<bar>mant x\<bar>"
    using len by (simp only: digits_value_append) (simp add: k_def)
  moreover have "sfixed x = compose (mant x < 0) (take k ds) (drop k ds)"
    by (simp add: sfixed_def Let_def ds_def k_def)
  moreover have "list_all is_digit (take k ds)" "list_all is_digit (drop k ds)"
    using dig by (auto simp: list_all_iff dest: in_set_takeD in_set_dropD)
  moreover have "take k ds \<noteq> []" "length (drop k ds) = scale x"
    using len by (auto simp: k_def)
  ultimately show ?thesis using that by blast
qed

lemma sfixed_value: "decimal_value (sfixed x) = sval x"
proof -
  obtain i f where *: "sfixed x = compose (mant x < 0) i f" "i \<noteq> []" "list_all is_digit i"
    "length f = scale x" "digits_value i * 10 ^ scale x + digits_value f = \<bar>mant x\<bar>"
    by (rule sfixed_compose [of x])
  have "of_int (digits_value i) + of_int (digits_value f) / 10 ^ scale x =
    (of_int (digits_value i * 10 ^ scale x + digits_value f) / 10 ^ scale x :: rat)"
    by (simp add: field_simps)
  also have "\<dots> = of_int \<bar>mant x\<bar> / 10 ^ scale x" by (simp only: *)
  finally show ?thesis using * by (simp add: decimal_value_compose sval_def)
qed

lemma sval_add: "sval (sadd x y) = sval x + sval y"
proof (cases "scale x \<le> scale y")
  case True
  then have "(10 ^ scale y :: rat) = 10 ^ scale x * 10 ^ (scale y - scale x)"
    by (simp flip: power_add)
  then show ?thesis using True by (simp add: sadd_def sval_def field_simps)
next
  case False
  then have "(10 ^ scale x :: rat) = 10 ^ scale y * 10 ^ (scale x - scale y)"
    by (simp flip: power_add)
  then show ?thesis using False by (simp add: sadd_def sval_def field_simps)
qed

lemma sval_neg: "sval (sneg x) = - sval x"
  by (simp add: sneg_def sval_def)

lemma sval_times: "sval (stimes x y) = sval x * sval y"
  by (simp add: stimes_def sval_def power_add)

lemma sgn_mant: "of_int (sgn (mant x)) = sgn (sval x)"
  by (simp add: sval_def sgn_if divide_less_0_iff zero_less_divide_iff)

lemma scmp_value: "scmp x y = (if sval x < sval y then -1 else if sval x = sval y then 0 else 1)"
proof -
  have "of_int (scmp x y) = sgn (sval x - sval y)"
    by (simp add: scmp_def sgn_mant sval_add sval_neg)
  also have "\<dots> = of_int (if sval x < sval y then -1 else if sval x = sval y then 0 else 1)"
    by (simp add: sgn_if)
  finally show ?thesis by (simp only: of_int_eq_iff)
qed

lemma sdiv_value:
  assumes "sval y \<noteq> 0"
  shows "\<exists>z. sdiv dp rm x y = Some z \<and> sval z = round_rat rm dp (sval x / sval y)"
proof -
  define n where "n = mant x * 10 ^ scale y * sgn (mant y)"
  define d where "d = \<bar>mant y\<bar> * 10 ^ scale x"
  have d: "0 < d" using assms by (simp add: d_def sval_def)
  have q: "sval x / sval y = of_int n / of_int d"
    using assms by (cases "0 < mant y") (simp_all add: sval_def n_def d_def sgn_if abs_if)
  have rnd: "of_int (round_frac rm (n * 10 ^ dp) d) / 10 ^ dp = round_rat rm dp (sval x / sval y)"
    using d by (simp add: round_rat_def q round_frac)
  have sdiv: "sdiv dp rm x y =
    (if d = 0 then None
     else if 8 \<le> dp \<and> (n * 10 ^ 8) mod d = 0 then Some (SDec ((n * 10 ^ 8) div d) 8)
     else Some (SDec (round_frac rm (n * 10 ^ dp) d) dp))"
    by (simp only: sdiv_def Let_def n_def d_def)
  show ?thesis
  proof (cases "8 \<le> dp \<and> (n * 10 ^ 8) mod d = 0")
    case True
    then obtain k where k: "n * 10 ^ 8 = d * k" by (metis mod_0_imp_dvd dvdE)
    then have "(of_int n * 10 ^ 8 :: rat) = of_int d * of_int k"
      by (metis of_int_mult of_int_numeral of_int_power)
    then have qk: "sval x / sval y = of_int k / 10 ^ 8" using d by (simp add: q field_simps)
    moreover have "(10 ^ dp :: rat) = 10 ^ 8 * 10 ^ (dp - 8)"
      using True by (simp only: flip: power_add) simp
    ultimately have "sval x / sval y * 10 ^ dp = of_int (k * 10 ^ (dp - 8))"
      by (simp only: qk) simp
    then have "round_rat rm dp (sval x / sval y) = of_int k / 10 ^ 8"
      using round_rat_exact qk by metis
    moreover have "sdiv dp rm x y = Some (SDec k 8)"
      using d by (simp only: sdiv True if_True k) simp
    ultimately show ?thesis by simp
  next
    case False
    then have "sdiv dp rm x y = Some (SDec (round_frac rm (n * 10 ^ dp) d) dp)"
      using d by (simp only: sdiv False if_False) simp
    then show ?thesis using rnd by simp
  qed
qed

lemma sround_value: "\<exists>z. sround dp rm x = Some z \<and> sval z = round_rat rm dp (sval x)"
proof (cases "scale x \<le> dp")
  case True
  then have "(10 ^ dp :: rat) = 10 ^ scale x * 10 ^ (dp - scale x)"
    by (simp flip: power_add)
  then have "sval x * 10 ^ dp = of_int (mant x * 10 ^ (dp - scale x))" by (simp add: sval_def)
  then show ?thesis using True by (simp only: sround_def if_True round_rat_exact) simp
next
  case False
  then have "(10 ^ scale x :: rat) = 10 ^ dp * 10 ^ (scale x - dp)"
    by (simp flip: power_add)
  then have "sval x * 10 ^ dp = of_int (mant x) / of_int (10 ^ (scale x - dp))"
    by (simp add: sval_def)
  then show ?thesis using False by (simp add: sround_def round_rat_def round_frac)
qed

lemma hex_char_hex: "0 \<le> n \<Longrightarrow> n < 16 \<Longrightarrow> is_hex (hex_char n)"
  by (auto simp: hex_char_def is_hex_def digit_simps)

lemma hex_fixed_hex: "list_all is_hex (hex_fixed k n)"
  by (induction k arbitrary: n) (auto simp: hex_char_hex)

lemma hex_fixed_length: "length (hex_fixed k n) = k"
  by (induction k arbitrary: n) auto

interpretation ref: host ref_lib sval
proof unfold_locales
  show "length (sha256_hex ref_lib s) = 64" "list_all is_hex (sha256_hex ref_lib s)" for s
    by (simp_all add: ref_lib_def toy_digest_def hex_fixed_hex hex_fixed_length)
  show "matches_decimal (big_to_fixed ref_lib d)" for d
    by (rule sfixed_compose [of d]) (simp add: ref_lib_def matches_compose)
qed (simp_all add: ref_lib_def snew_matches sfixed_value sval_add sval_neg sval_times scmp_value
    sdiv_value sround_value)

lemmas ref_host = ref.host_axioms

end
