(* ===== verification/Decimals.thy ===== *)
theory Decimals
  imports Host
begin

text \<open>
  \<open>domain/shared/decimal.ts\<close>: the class \<open>DecimalValue\<close> over the decimal library \<open>L\<close>. A
  \<open>DecimalValue\<close> is the library number it wraps. The constructor's settings are constants
  (\<open>DP = 1000\<close>) or restored before the function that changes them returns (\<open>RM\<close>), so they
  are passed to the library call that reads them. \<open>squareRoot\<close> is left out.

  Shown here: the printed form is canonical, so two values print alike exactly when they are
  equal; printing and parsing round-trip; division rounds once; rounding to a step floors
  (and, but for quotients within \<open>10^-1000\<close> of an integer, ceils) exactly.
\<close>

datatype rounding_mode = DOWN | UP | HALF_UP | HALF_EVEN

fun library_rounding_mode :: "rounding_mode \<Rightarrow> big_rounding" where
  "library_rounding_mode DOWN = RoundDown"
| "library_rounding_mode UP = RoundUp"
| "library_rounding_mode HALF_EVEN = RoundHalfEven"
| "library_rounding_mode HALF_UP = RoundHalfUp"

definition DECIMAL_DP :: nat where
  "DECIMAL_DP = 1000"

text \<open>\<open>replace(/^0+(?=\d)/u, "")\<close> and \<open>replace(/0+$/u, "")\<close>.\<close>

fun strip_leading_zeros :: "string \<Rightarrow> string" where
  "strip_leading_zeros (c # d # cs) =
     (if c = CHR ''0'' \<and> is_digit d then strip_leading_zeros (d # cs) else c # d # cs)"
| "strip_leading_zeros cs = cs"

definition strip_trailing_zeros :: "string \<Rightarrow> string" where
  "strip_trailing_zeros cs = rev (dropWhile (\<lambda>c. c = CHR ''0'') (rev cs))"

definition canonical_string :: "string \<Rightarrow> string" where
  "canonical_string fixed =
     (let negative = starts_minus fixed;
          unsigned = (if negative then tl fixed else fixed);
          integerPart = takeWhile (\<lambda>c. c \<noteq> CHR ''.'') unsigned;
          fractionPart = takeWhile (\<lambda>c. c \<noteq> CHR ''.'') (drop 1 (dropWhile (\<lambda>c. c \<noteq> CHR ''.'') unsigned));
          stripped = strip_leading_zeros integerPart;
          normalizedInteger = (if stripped = [] then ''0'' else stripped);
          normalizedFraction = strip_trailing_zeros fractionPart;
          result = (if normalizedFraction \<noteq> [] then normalizedInteger @ ''.'' @ normalizedFraction
                    else normalizedInteger)
      in if negative \<and> result \<noteq> ''0'' then CHR ''-'' # result else result)"

definition dec_from_string :: "'d lib \<Rightarrow> 'd jsval \<Rightarrow> 'd result" where
  "dec_from_string L value =
     (case value of
        JStr s \<Rightarrow>
          (if \<not> matches_decimal s then Fail_at INVALID_DECIMAL ''value''
           else (case big_new L s of Some d \<Rightarrow> Ok d | None \<Rightarrow> Fail_at INVALID_DECIMAL ''value''))
      | _ \<Rightarrow> Fail_at INVALID_DECIMAL ''value'')"

definition dec_to_string :: "'d lib \<Rightarrow> 'd \<Rightarrow> string" where
  "dec_to_string L x = canonical_string (big_to_fixed L x)"

definition dec_zero :: "'d lib \<Rightarrow> 'd" where
  "dec_zero L = the (big_new L ''0'')"

definition dec_compare :: "'d lib \<Rightarrow> 'd \<Rightarrow> 'd \<Rightarrow> int" where
  "dec_compare L x y = big_cmp L x y"

definition is_zero :: "'d lib \<Rightarrow> 'd \<Rightarrow> bool" where
  "is_zero L x \<longleftrightarrow> big_cmp L x (dec_zero L) = 0"

definition is_positive :: "'d lib \<Rightarrow> 'd \<Rightarrow> bool" where
  "is_positive L x \<longleftrightarrow> 0 < big_cmp L x (dec_zero L)"

definition is_negative :: "'d lib \<Rightarrow> 'd \<Rightarrow> bool" where
  "is_negative L x \<longleftrightarrow> big_cmp L x (dec_zero L) < 0"

definition dec_add :: "'d lib \<Rightarrow> 'd \<Rightarrow> 'd \<Rightarrow> 'd" where
  "dec_add L x y = big_add L x y"

definition dec_subtract :: "'d lib \<Rightarrow> 'd \<Rightarrow> 'd \<Rightarrow> 'd" where
  "dec_subtract L x y = big_minus L x y"

definition dec_multiply :: "'d lib \<Rightarrow> 'd \<Rightarrow> 'd \<Rightarrow> 'd" where
  "dec_multiply L x y = big_times L x y"

definition is_safe_integer :: "int \<Rightarrow> bool" where
  "is_safe_integer n \<longleftrightarrow> \<bar>n\<bar> \<le> 9007199254740991"

definition dec_divide :: "'d lib \<Rightarrow> 'd \<Rightarrow> 'd \<Rightarrow> int \<Rightarrow> rounding_mode \<Rightarrow> 'd result" where
  "dec_divide L x y decimalPlaces mode =
     (if is_zero L y then Fail DIVISION_BY_ZERO
      else if \<not> is_safe_integer decimalPlaces \<or> decimalPlaces < 0
      then Fail_at INVALID_DECIMAL ''value''
      else (case big_div L DECIMAL_DP (library_rounding_mode mode) x y of
              None \<Rightarrow> Fail_at INVALID_DECIMAL ''value''
            | Some q \<Rightarrow>
                (case big_round L (nat decimalPlaces) (library_rounding_mode mode) q of
                   None \<Rightarrow> Fail_at INVALID_DECIMAL ''value''
                 | Some r \<Rightarrow> Ok r)))"

text \<open>\<open>roundToScale\<close> throws for a scale above the library's maximum; the code calls it at 0.\<close>

definition round_to_scale :: "'d lib \<Rightarrow> 'd \<Rightarrow> nat \<Rightarrow> rounding_mode \<Rightarrow> 'd" where
  "round_to_scale L x s mode = the (big_round L s (library_rounding_mode mode) x)"

definition round_to_step :: "'d lib \<Rightarrow> 'd \<Rightarrow> 'd \<Rightarrow> rounding_mode \<Rightarrow> 'd result" where
  "round_to_step L value step mode =
     (if \<not> is_positive L step then Fail_at INVALID_DECIMAL ''step''
      else rbind (dec_divide L value step 1000 DOWN) (\<lambda>quotient.
        let effectiveMode = (if is_negative L value then (if mode = DOWN then UP else DOWN) else mode);
            rounded = round_to_scale L quotient 0 effectiveMode
        in Ok (dec_multiply L rounded step)))"

definition floor_to_step :: "'d lib \<Rightarrow> 'd \<Rightarrow> 'd \<Rightarrow> 'd result" where
  "floor_to_step L x step = round_to_step L x step DOWN"

definition ceil_to_step :: "'d lib \<Rightarrow> 'd \<Rightarrow> 'd \<Rightarrow> 'd result" where
  "ceil_to_step L x step = round_to_step L x step UP"

fun is_decimal_value :: "'d jsval \<Rightarrow> bool" where
  "is_decimal_value (JDec d) = True"
| "is_decimal_value v = False"

subsection \<open>The canonical form\<close>

text \<open>
  The abstract specification of a printed decimal: no leading zeros, no trailing fraction
  zeros, no negative zero.
\<close>

definition canonical_form :: "bool \<Rightarrow> string \<Rightarrow> string \<Rightarrow> bool" where
  "canonical_form neg i f \<longleftrightarrow>
     list_all is_digit i \<and> list_all is_digit f \<and> i \<noteq> [] \<and> (i = ''0'' \<or> hd i \<noteq> CHR ''0'') \<and>
     (f \<noteq> [] \<longrightarrow> last f \<noteq> CHR ''0'') \<and> \<not> (neg \<and> i = ''0'' \<and> f = [])"

definition canonical_decimal :: "string \<Rightarrow> bool" where
  "canonical_decimal s \<longleftrightarrow> (\<exists>neg i f. s = compose neg i f \<and> canonical_form neg i f)"

lemma strip_leading_zeros_props:
  assumes "list_all is_digit i" "i \<noteq> []"
  shows "list_all is_digit (strip_leading_zeros i)" "strip_leading_zeros i \<noteq> []"
    "digits_value (strip_leading_zeros i) = digits_value i"
    "strip_leading_zeros i = ''0'' \<or> hd (strip_leading_zeros i) \<noteq> CHR ''0''"
  using assms by (induction i rule: strip_leading_zeros.induct) (auto simp: digit_val_def)

lemma strip_trailing_zeros_split:
  "\<exists>n. f = strip_trailing_zeros f @ replicate n (CHR ''0'')"
proof -
  let ?t = "takeWhile (\<lambda>c. c = CHR ''0'') (rev f)"
  have t: "replicate (length ?t) (CHR ''0'') = ?t"
    by (rule replicate_length_same) (auto dest: set_takeWhileD)
  have "f = rev (?t @ dropWhile (\<lambda>c. c = CHR ''0'') (rev f))"
    by (simp only: takeWhile_dropWhile_id rev_rev_ident)
  also have "\<dots> = strip_trailing_zeros f @ rev ?t"
    by (simp only: rev_append strip_trailing_zeros_def)
  also have "rev ?t = replicate (length ?t) (CHR ''0'')"
    by (metis t rev_replicate)
  finally show ?thesis by blast
qed

lemma strip_trailing_zeros_last: "strip_trailing_zeros f \<noteq> [] \<Longrightarrow> last (strip_trailing_zeros f) \<noteq> CHR ''0''"
  using hd_dropWhile [of "\<lambda>c. c = CHR ''0''" "rev f"]
  by (simp add: strip_trailing_zeros_def last_rev del: dropWhile_eq_Nil_conv)

lemma strip_trailing_zeros_props:
  assumes "list_all is_digit f"
  shows "list_all is_digit (strip_trailing_zeros f)"
    "(of_int (digits_value f) / 10 ^ length f :: rat) =
       of_int (digits_value (strip_trailing_zeros f)) / 10 ^ length (strip_trailing_zeros f)"
proof -
  obtain n where f: "f = strip_trailing_zeros f @ replicate n (CHR ''0'')"
    using strip_trailing_zeros_split by blast
  then show "list_all is_digit (strip_trailing_zeros f)"
    using assms by (metis list_all_append)
  have "digits_value f = digits_value (strip_trailing_zeros f) * 10 ^ n"
    using arg_cong [OF f, of digits_value] by (simp add: digits_value_append)
  moreover have "length f = length (strip_trailing_zeros f) + n"
    using arg_cong [OF f, of length] by simp
  ultimately show "(of_int (digits_value f) / 10 ^ length f :: rat) =
       of_int (digits_value (strip_trailing_zeros f)) / 10 ^ length (strip_trailing_zeros f)"
    by (simp add: power_add)
qed

lemma takeWhile_no_dot:
  assumes "list_all is_digit i"
  shows "takeWhile (\<lambda>c. c \<noteq> CHR ''.'') i = i" "dropWhile (\<lambda>c. c \<noteq> CHR ''.'') i = []"
    "takeWhile (\<lambda>c. c \<noteq> CHR ''.'') (i @ CHR ''.'' # f) = i"
    "dropWhile (\<lambda>c. c \<noteq> CHR ''.'') (i @ CHR ''.'' # f) = CHR ''.'' # f"
proof -
  have "list_all (\<lambda>c. c \<noteq> CHR ''.'') i"
    using assms by (auto simp: list_all_iff)
  then show "takeWhile (\<lambda>c. c \<noteq> CHR ''.'') i = i" "dropWhile (\<lambda>c. c \<noteq> CHR ''.'') i = []"
    "takeWhile (\<lambda>c. c \<noteq> CHR ''.'') (i @ CHR ''.'' # f) = i"
    "dropWhile (\<lambda>c. c \<noteq> CHR ''.'') (i @ CHR ''.'' # f) = CHR ''.'' # f"
    using takeWhile_append_stop [of "\<lambda>c. c \<noteq> CHR ''.''" i "CHR ''.''" f]
      takeWhile_all [of "\<lambda>c. c \<noteq> CHR ''.''" i] by auto
qed

lemma canonical_string_compose:
  assumes "i \<noteq> []" "list_all is_digit i" "list_all is_digit f"
  defines "i' \<equiv> strip_leading_zeros i" and "f' \<equiv> strip_trailing_zeros f"
  shows "canonical_string (compose neg i f) = compose (neg \<and> \<not> (i' = ''0'' \<and> f' = [])) i' f'"
proof -
  let ?s = "compose neg i f"
  have u: "(if neg then tl ?s else ?s) = i @ (if f = [] then [] else CHR ''.'' # f)"
    by (simp add: compose_def)
  have ne: "strip_leading_zeros i \<noteq> []" using assms strip_leading_zeros_props by blast
  have f: "takeWhile (\<lambda>c. c \<noteq> CHR ''.'') (drop 1 (dropWhile (\<lambda>c. c \<noteq> CHR ''.'') (i @ (if f = [] then [] else CHR ''.'' # f)))) = f"
    "takeWhile (\<lambda>c. c \<noteq> CHR ''.'') (i @ (if f = [] then [] else CHR ''.'' # f)) = i"
    using takeWhile_no_dot [OF assms(2)] takeWhile_no_dot [OF assms(3)] by simp_all
  have "strip_leading_zeros i @ CHR ''.'' # strip_trailing_zeros f \<noteq> ''0''"
    using ne by (cases "strip_leading_zeros i") auto
  then show ?thesis
    unfolding canonical_string_def Let_def compose_parts(2) [OF assms(1,2)] u f i'_def f'_def
    using ne by (auto simp: compose_def)
qed

lemma canonical_string_canonical:
  assumes "matches_decimal s"
  shows "canonical_decimal (canonical_string s)" "decimal_value (canonical_string s) = decimal_value s"
    "matches_decimal (canonical_string s)"
proof -
  obtain neg i f where s: "s = compose neg i f" "i \<noteq> []" "list_all is_digit i" "list_all is_digit f"
    using assms by (rule matches_decimalE)
  note i = strip_leading_zeros_props [OF s(3,2)] and f = strip_trailing_zeros_props [OF s(4)]
  note eq = canonical_string_compose [OF s(2,3,4), of neg]
  have "canonical_form (neg \<and> \<not> (strip_leading_zeros i = ''0'' \<and> strip_trailing_zeros f = []))
    (strip_leading_zeros i) (strip_trailing_zeros f)"
    using i f strip_trailing_zeros_last [of f] by (auto simp: canonical_form_def)
  then show "canonical_decimal (canonical_string s)"
    unfolding canonical_decimal_def s(1) eq by blast
  show "matches_decimal (canonical_string s)"
    unfolding s(1) eq using i f by (intro matches_compose) auto
  have zero: "digits_value i = 0 \<and> digits_value f = 0"
    if "strip_leading_zeros i = ''0''" "strip_trailing_zeros f = []"
    using i f that by (auto simp: digit_val_def)
  show "decimal_value (canonical_string s) = decimal_value s"
    unfolding s(1) eq using i f s zero
    by (auto simp: decimal_value_compose)
qed

lemma no_leading_zero_ge:
  assumes "list_all is_digit i" "i \<noteq> []" "hd i \<noteq> CHR ''0''"
  shows "10 ^ (length i - 1) \<le> digits_value i"
proof -
  obtain c cs where i: "i = c # cs" "is_digit c" "list_all is_digit cs" "c \<noteq> CHR ''0''"
    using assms by (cases i) auto
  then have "1 \<le> digit_val c" using digit_val_zero_iff [of c] digit_val_bounds [of c] by simp
  then have "1 * 10 ^ length cs \<le> digit_val c * 10 ^ length cs"
    by (rule mult_right_mono) simp
  then have "10 ^ length cs \<le> digit_val c * 10 ^ length cs + digits_value cs"
    using digits_value_nonneg [OF i(3)] by linarith
  then show ?thesis by (simp add: i(1))
qed

lemma integer_part_length:
  assumes "list_all is_digit i" "i \<noteq> []" "list_all is_digit j" "j = ''0'' \<or> hd j \<noteq> CHR ''0''" "j \<noteq> []"
    and "digits_value i = digits_value j"
  shows "length j \<le> length i"
proof (rule ccontr)
  assume "\<not> ?thesis"
  then have less: "length i < length j" by simp
  then have "j \<noteq> ''0''" using assms(2) by (cases i) auto
  then have "10 ^ (length j - 1) \<le> digits_value j" using assms by (intro no_leading_zero_ge) auto
  moreover have "(10 :: int) ^ length i \<le> 10 ^ (length j - 1)"
    using less by (intro power_increasing) auto
  ultimately show False using digits_value_less [OF assms(1)] assms(6) by linarith
qed

lemma fraction_part_length:
  assumes "list_all is_digit f" "list_all is_digit g" "g \<noteq> [] \<longrightarrow> last g \<noteq> CHR ''0''"
    and eq: "(of_int (digits_value f) / 10 ^ length f :: rat) = of_int (digits_value g) / 10 ^ length g"
  shows "length g \<le> length f"
proof (rule ccontr)
  assume "\<not> ?thesis"
  then have "length f < length g" by simp
  then obtain n where "length g = Suc (length f + n)" using less_imp_Suc_add by blast
  then have n: "length g = length f + Suc n" by simp
  then have "g \<noteq> []" by auto
  then obtain h c where g: "g = h @ [c]" by (metis append_butlast_last_id)
  have "(of_int (digits_value g) :: rat) = of_int (digits_value f * 10 ^ Suc n)"
    using eq n by (simp add: field_simps power_add)
  then have "digits_value h * 10 + digit_val c = digits_value f * 10 ^ n * 10"
    unfolding of_int_eq_iff by (simp add: g digits_value_append)
  then have "digit_val c = (digits_value f * 10 ^ n - digits_value h) * 10"
    by (simp add: algebra_simps)
  moreover have c: "is_digit c" using assms(2) g by simp
  ultimately have "digit_val c = 0" using digit_val_bounds [OF c] by auto
  then show False using c digit_val_zero_iff assms(3) g by auto
qed

lemma fraction_bounds:
  assumes "list_all is_digit f"
  shows "0 \<le> (of_int (digits_value f) / 10 ^ length f :: rat)"
    "(of_int (digits_value f) / 10 ^ length f :: rat) < 1"
proof -
  have "(of_int (digits_value f) :: rat) < of_int (10 ^ length f)"
    using digits_value_less [OF assms] by (simp only: of_int_less_iff)
  then show "(of_int (digits_value f) / 10 ^ length f :: rat) < 1" by simp
  show "0 \<le> (of_int (digits_value f) / 10 ^ length f :: rat)"
    using digits_value_nonneg [OF assms] by simp
qed

lemma canonical_magnitude_unique:
  assumes "canonical_form n i f" "canonical_form n' i' f'"
    and "(of_int (digits_value i) + of_int (digits_value f) / 10 ^ length f :: rat) =
      of_int (digits_value i') + of_int (digits_value f') / 10 ^ length f'"
  shows "i = i' \<and> f = f'"
proof -
  define F where "F = (of_int (digits_value f) / 10 ^ length f :: rat)"
  define F' where "F' = (of_int (digits_value f') / 10 ^ length f' :: rat)"
  have bounds: "0 \<le> F" "F < 1" "0 \<le> F'" "F' < 1"
    using assms fraction_bounds [of f] fraction_bounds [of f'] by (auto simp: F_def F'_def canonical_form_def)
  have "\<lfloor>of_int (digits_value i) + F\<rfloor> = digits_value i" "\<lfloor>of_int (digits_value i') + F'\<rfloor> = digits_value i'"
    using bounds by (auto intro: floor_unique)
  moreover have eq: "of_int (digits_value i) + F = of_int (digits_value i') + F'"
    using assms(3) by (simp only: F_def F'_def)
  ultimately have i: "digits_value i = digits_value i'" by metis
  then have F: "F = F'" using eq by simp
  have "length i = length i'"
    using assms i integer_part_length [of i i'] integer_part_length [of i' i]
    by (auto simp: canonical_form_def)
  then have "i = i'"
    using i assms by (auto simp: canonical_form_def intro: digits_value_inj)
  have len: "length f = length f'"
    using assms F fraction_part_length [of f f'] fraction_part_length [of f' f]
    by (auto simp: canonical_form_def F_def F'_def)
  then have "digits_value f = digits_value f'" using F by (simp add: F_def F'_def)
  then have "f = f'"
    using len assms by (auto simp: canonical_form_def intro: digits_value_inj)
  then show ?thesis using \<open>i = i'\<close> by simp
qed

lemma canonical_form_sign:
  assumes "canonical_form n i f"
  shows "decimal_value (compose n i f) < 0 \<longleftrightarrow> n"
proof -
  have i: "i \<noteq> []" "list_all is_digit i" and f: "list_all is_digit f"
    using assms by (auto simp: canonical_form_def)
  have nz: "of_int (digits_value i) + of_int (digits_value f) / 10 ^ length f \<noteq> (0 :: rat)" if n
  proof
    assume "of_int (digits_value i) + of_int (digits_value f) / 10 ^ length f = (0 :: rat)"
    then have zero: "digits_value i = 0" "of_int (digits_value f) / 10 ^ length f = (0 :: rat)"
      using fraction_bounds(1) [OF f] digits_value_nonneg [OF i(2)]
      by (simp_all add: add_nonneg_eq_0_iff)
    have pos: "\<not> (10 :: int) ^ k \<le> 0" for k by (simp add: not_le)
    have "i = ''0''"
      using assms zero(1) no_leading_zero_ge [OF i(2,1)] pos
      by (auto simp: canonical_form_def)
    moreover have "f = []"
      using assms zero(2) fraction_part_length [of "[]" f] f by (auto simp: canonical_form_def)
    ultimately show False using assms that by (auto simp: canonical_form_def)
  qed
  have "0 \<le> (of_int (digits_value i) + of_int (digits_value f) / 10 ^ length f :: rat)"
    using fraction_bounds [OF f] digits_value_nonneg [OF i(2)] by simp
  then show ?thesis
    using nz by (cases n) (auto simp: decimal_value_compose [OF i] less_le)
qed

lemma canonical_decimal_unique:
  assumes "canonical_decimal s" "canonical_decimal t" "decimal_value s = decimal_value t"
  shows "s = t"
proof -
  obtain n i f n' i' f' where s: "s = compose n i f" "canonical_form n i f"
    and t: "t = compose n' i' f'" "canonical_form n' i' f'"
    using assms by (auto simp: canonical_decimal_def)
  have "n = n'" using canonical_form_sign [OF s(2)] canonical_form_sign [OF t(2)] assms(3) s t by simp
  moreover have "i \<noteq> []" "list_all is_digit i" "i' \<noteq> []" "list_all is_digit i'"
    using s t by (auto simp: canonical_form_def)
  ultimately have "(of_int (digits_value i) + of_int (digits_value f) / 10 ^ length f :: rat) =
      of_int (digits_value i') + of_int (digits_value f') / 10 ^ length f'"
    using assms(3) by (cases n) (simp_all add: s t decimal_value_compose)
  then show ?thesis
    using canonical_magnitude_unique [OF s(2) t(2)] \<open>n = n'\<close> s t by simp
qed

subsection \<open>Rounding to a step\<close>

text \<open>
  The quotient of a step rounding is first cut to 1000 digits. That cut is harmless for
  flooring, and for ceiling unless the quotient exceeds an integer by less than \<open>10^-1000\<close>.
\<close>

definition step_exact :: "rat \<Rightarrow> bool" where
  "step_exact q \<longleftrightarrow> q = of_int \<lfloor>q\<rfloor> \<or> 1 \<le> (q - of_int \<lfloor>q\<rfloor>) * 10 ^ DECIMAL_DP"

lemma trunc_eq: "0 \<le> q \<Longrightarrow> round_rat RoundDown dp q = of_int \<lfloor>q * 10 ^ dp\<rfloor> / 10 ^ dp"
proof -
  assume "0 \<le> q"
  then have "\<not> q * 10 ^ dp < 0" by (simp add: not_less)
  then show ?thesis by (simp add: round_rat_def)
qed

lemma floor_trunc:
  assumes "0 \<le> q"
  shows "\<lfloor>round_rat RoundDown dp q\<rfloor> = \<lfloor>q\<rfloor>"
proof (rule floor_unique)
  have pos: "(0 :: rat) < 10 ^ dp" by simp
  have "of_int (\<lfloor>q\<rfloor> * 10 ^ dp) \<le> q * 10 ^ dp" by (simp add: mult_right_mono)
  then have "\<lfloor>q\<rfloor> * 10 ^ dp \<le> \<lfloor>q * 10 ^ dp\<rfloor>" by (simp only: le_floor_iff)
  then have "of_int (\<lfloor>q\<rfloor> * 10 ^ dp) \<le> (of_int \<lfloor>q * 10 ^ dp\<rfloor> :: rat)" by (simp only: of_int_le_iff)
  then show "of_int \<lfloor>q\<rfloor> \<le> round_rat RoundDown dp q"
    using assms by (simp add: trunc_eq pos_le_divide_eq)
  have "of_int \<lfloor>q * 10 ^ dp\<rfloor> \<le> q * 10 ^ dp" by simp
  then have "round_rat RoundDown dp q \<le> q"
    using assms by (simp add: trunc_eq pos_divide_le_eq)
  also have "q < of_int \<lfloor>q\<rfloor> + 1" by linarith
  finally show "round_rat RoundDown dp q < of_int \<lfloor>q\<rfloor> + 1" .
qed

lemma trunc_le: "0 \<le> q \<Longrightarrow> round_rat RoundDown dp q \<le> q" "0 \<le> q \<Longrightarrow> 0 \<le> round_rat RoundDown dp q"
proof -
  assume q: "0 \<le> q"
  have "of_int \<lfloor>q * 10 ^ dp\<rfloor> \<le> q * 10 ^ dp" by simp
  then show "round_rat RoundDown dp q \<le> q" using q by (simp add: trunc_eq pos_divide_le_eq)
  show "0 \<le> round_rat RoundDown dp q" using q by (simp add: trunc_eq)
qed

lemma ceiling_trunc:
  assumes "0 \<le> q" "step_exact q"
  shows "\<lceil>round_rat RoundDown DECIMAL_DP q\<rceil> = \<lceil>q\<rceil>"
proof (cases "q = of_int \<lfloor>q\<rfloor>")
  case True
  then have "round_rat RoundDown DECIMAL_DP q = q"
    by (intro round_rat_exact [where n = "\<lfloor>q\<rfloor> * 10 ^ DECIMAL_DP"]) simp
  then show ?thesis by simp
next
  case False
  let ?N = "10 ^ DECIMAL_DP :: rat" and ?t = "round_rat RoundDown DECIMAL_DP q"
  have pos: "0 < ?N" by simp
  have "of_int (\<lfloor>q\<rfloor> * 10 ^ DECIMAL_DP + 1) \<le> q * ?N"
    using assms False by (simp add: step_exact_def algebra_simps)
  then have "\<lfloor>q\<rfloor> * 10 ^ DECIMAL_DP + 1 \<le> \<lfloor>q * ?N\<rfloor>" by (simp only: le_floor_iff)
  then have "of_int (\<lfloor>q\<rfloor> * 10 ^ DECIMAL_DP) < (of_int \<lfloor>q * ?N\<rfloor> :: rat)"
    by (simp only: of_int_less_iff)
  then have "of_int \<lfloor>q\<rfloor> < ?t" using assms pos by (simp add: trunc_eq pos_less_divide_eq)
  moreover have "?t \<le> q" using trunc_le assms by simp
  moreover have "\<lceil>q\<rceil> = \<lfloor>q\<rfloor> + 1" using False by (intro ceiling_unique) (auto, linarith+)
  ultimately show ?thesis by (intro ceiling_unique) (simp, linarith)
qed

lemma round_int_neg: "rm = RoundDown \<or> rm = RoundUp \<Longrightarrow> round_int rm (- q) = - round_int rm q"
  by (auto simp: ceiling_def)

lemma round_rat_neg: "rm = RoundDown \<or> rm = RoundUp \<Longrightarrow> round_rat rm dp (- q) = - round_rat rm dp q"
  using round_int_neg [of rm "q * 10 ^ dp"] by (simp add: round_rat_def)

lemma ceiling_up:
  assumes "0 \<le> q"
  shows "\<lceil>round_rat RoundUp dp q\<rceil> = \<lceil>q\<rceil>"
proof (rule ceiling_unique)
  have nn: "\<not> q * 10 ^ dp < 0" using assms by (simp add: not_less)
  have "q * 10 ^ dp \<le> of_int (\<lceil>q\<rceil> * 10 ^ dp)" by (simp add: mult_right_mono)
  then have "\<lceil>q * 10 ^ dp\<rceil> \<le> \<lceil>q\<rceil> * 10 ^ dp" by (simp only: ceiling_le_iff)
  then have "(of_int \<lceil>q * 10 ^ dp\<rceil> :: rat) \<le> of_int (\<lceil>q\<rceil> * 10 ^ dp)" by (simp only: of_int_le_iff)
  then show "round_rat RoundUp dp q \<le> of_int \<lceil>q\<rceil>"
    using nn by (simp add: round_rat_def pos_divide_le_eq)
  have "q * 10 ^ dp \<le> of_int \<lceil>q * 10 ^ dp\<rceil>" by simp
  then have "q \<le> round_rat RoundUp dp q"
    using nn by (simp add: round_rat_def pos_le_divide_eq)
  moreover have "of_int \<lceil>q\<rceil> - 1 < q" by linarith
  ultimately show "of_int \<lceil>q\<rceil> - 1 < round_rat RoundUp dp q" by linarith
qed

text \<open>Directed rounding twice, to more digits first, is rounding once.\<close>

lemma round_twice:
  assumes "dp \<le> dq" "rm = RoundDown \<or> rm = RoundUp"
  shows "round_rat rm dp (round_rat rm dq q) = round_rat rm dp q"
proof -
  have pow: "(10 ^ dq :: rat) = 10 ^ dp * 10 ^ (dq - dp)"
    using assms(1) by (simp flip: power_add)
  have pos: "round_rat rm dp (round_rat rm dq q) = round_rat rm dp q" if "0 \<le> q" for q
  proof -
    define p where "p = q * 10 ^ dp"
    have p: "0 \<le> p" "q * 10 ^ dq = p * 10 ^ (dq - dp)" using that by (simp_all add: p_def pow)
    have shift: "round_rat rm dq q * 10 ^ dp = round_rat rm (dq - dp) p"
      unfolding round_rat_def p(2) by (simp add: pow)
    have "0 \<le> p * 10 ^ (dq - dp)" using p(1) by simp
    then have "0 \<le> round_int rm (p * 10 ^ (dq - dp))" using assms(2) by auto
    then have "0 \<le> round_rat rm (dq - dp) p" by (simp add: round_rat_def)
    then have "round_int rm (round_rat rm (dq - dp) p) = round_int rm p"
      using assms(2) p(1) floor_trunc [OF p(1), of "dq - dp"] ceiling_up [OF p(1), of "dq - dp"]
      by auto
    then show ?thesis by (simp add: round_rat_def [of rm dp] shift flip: p_def)
  qed
  show ?thesis
  proof (cases "0 \<le> q")
    case True
    then show ?thesis by (rule pos)
  next
    case False
    then have "round_rat rm dp (round_rat rm dq (- q)) = round_rat rm dp (- q)" by (intro pos) simp
    then show ?thesis by (simp only: round_rat_neg [OF assms(2)] neg_equal_iff_equal)
  qed
qed

text \<open>How many steps the code rounds a quotient to.\<close>

definition step_count :: "rounding_mode \<Rightarrow> rat \<Rightarrow> int" where
  "step_count mode q =
     round_int (library_rounding_mode (if q < 0 then (if mode = DOWN then UP else DOWN) else mode))
       (round_rat RoundDown DECIMAL_DP q)"

context big_decimal
begin

lemma zero_value [simp]: "v (dec_zero L) = 0"
proof -
  have "matches_decimal ''0''" by (simp add: matches_decimal_def unsigned_part_def is_digit_def)
  moreover have "decimal_value ''0'' = 0"
    by (simp add: decimal_value_def unsigned_part_def is_digit_def digit_val_def starts_minus_def)
  ultimately show ?thesis using new_matches [of "''0''"] by (auto simp: dec_zero_def)
qed

lemma sign_iffs [simp]:
  "is_zero L x \<longleftrightarrow> v x = 0" "is_positive L x \<longleftrightarrow> 0 < v x" "is_negative L x \<longleftrightarrow> v x < 0"
  by (simp_all add: is_zero_def is_positive_def is_negative_def)

lemma arith_values [simp]:
  "v (dec_add L x y) = v x + v y" "v (dec_subtract L x y) = v x - v y"
  "v (dec_multiply L x y) = v x * v y"
  by (simp_all add: dec_add_def dec_subtract_def dec_multiply_def v_add v_minus v_times)

lemma compare_iffs [simp]:
  "dec_compare L x y \<le> 0 \<longleftrightarrow> v x \<le> v y" "dec_compare L x y < 0 \<longleftrightarrow> v x < v y"
  "0 \<le> dec_compare L x y \<longleftrightarrow> v y \<le> v x" "0 < dec_compare L x y \<longleftrightarrow> v y < v x"
  "dec_compare L x y = 0 \<longleftrightarrow> v x = v y"
  by (simp_all add: dec_compare_def)

lemma to_string_canonical: "canonical_decimal (dec_to_string L x)" "decimal_value (dec_to_string L x) = v x"
  "matches_decimal (dec_to_string L x)"
  using canonical_string_canonical [OF fixed_matches [of x]]
  by (simp_all add: dec_to_string_def fixed_value)

lemma to_string_eq_iff: "dec_to_string L x = dec_to_string L y \<longleftrightarrow> v x = v y"
  using canonical_decimal_unique [OF to_string_canonical(1) to_string_canonical(1), of x y]
    to_string_canonical(2) [of x] to_string_canonical(2) [of y] by metis

lemma from_string_Ok:
  "dec_from_string L j = Inr d \<Longrightarrow> \<exists>s. j = JStr s \<and> matches_decimal s \<and> v d = decimal_value s"
  using new_matches by (auto simp: dec_from_string_def split: jsval.splits if_splits option.splits) force

lemma from_string_matches:
  "matches_decimal s \<Longrightarrow> \<exists>d. dec_from_string L (JStr s) = Inr d \<and> v d = decimal_value s"
  using new_matches [of s] by (auto simp: dec_from_string_def)

lemma from_to_string: "\<exists>d. dec_from_string L (JStr (dec_to_string L x)) = Inr d \<and> v d = v x"
  using from_string_matches [OF to_string_canonical(3)] by (simp add: to_string_canonical)

lemma divide_value:
  assumes "v y \<noteq> 0" "0 \<le> dp" "dp \<le> int MAX_DP"
  shows "\<exists>r. dec_divide L x y dp mode = Inr r \<and>
    v r = round_rat (library_rounding_mode mode) (nat dp)
            (round_rat (library_rounding_mode mode) DECIMAL_DP (v x / v y))"
proof -
  obtain z where z: "big_div L DECIMAL_DP (library_rounding_mode mode) x y = Some z"
    "v z = round_rat (library_rounding_mode mode) DECIMAL_DP (v x / v y)"
    using div_value [OF assms(1), of DECIMAL_DP] by (auto simp: DECIMAL_DP_def MAX_DP_def)
  obtain r where r: "big_round L (nat dp) (library_rounding_mode mode) z = Some r"
    "v r = round_rat (library_rounding_mode mode) (nat dp) (v z)"
    using round_value [of "nat dp" "library_rounding_mode mode" z] assms(3) by (auto simp: nat_le_iff)
  have "is_safe_integer dp" using assms by (simp add: is_safe_integer_def MAX_DP_def)
  then show ?thesis using assms z r by (simp add: dec_divide_def)
qed

lemma divide_directed:
  assumes "v y \<noteq> 0" "0 \<le> dp" "dp \<le> 1000" "mode = DOWN \<or> mode = UP"
  shows "\<exists>r. dec_divide L x y dp mode = Inr r \<and>
    v r = round_rat (library_rounding_mode mode) (nat dp) (v x / v y)"
proof -
  have "round_rat (library_rounding_mode mode) (nat dp)
      (round_rat (library_rounding_mode mode) DECIMAL_DP (v x / v y)) =
    round_rat (library_rounding_mode mode) (nat dp) (v x / v y)"
    using assms by (intro round_twice) (auto simp: DECIMAL_DP_def)
  then show ?thesis using divide_value [OF assms(1), of dp x mode] assms by (simp add: MAX_DP_def)
qed

lemma round_to_scale_value:
  "v (round_to_scale L x 0 mode) = of_int (round_int (library_rounding_mode mode) (v x))"
  using round_value [of 0 "library_rounding_mode mode" x] by (auto simp: round_to_scale_def round_rat_def)

lemma round_to_step_value:
  assumes "0 < v step"
  shows "\<exists>r. round_to_step L x step mode = Inr r \<and> v r = of_int (step_count mode (v x / v step)) * v step"
proof -
  obtain q where "dec_divide L x step 1000 DOWN = Inr q" "v q = round_rat RoundDown DECIMAL_DP (v x / v step)"
    using divide_directed [of step 1000 DOWN x] assms by (auto simp: DECIMAL_DP_def)
  moreover have "v x / v step < 0 \<longleftrightarrow> v x < 0" using assms by (simp add: divide_less_0_iff)
  ultimately show ?thesis
    using assms by (simp add: round_to_step_def round_to_scale_value step_count_def Let_def)
qed

lemma step_count_floor: "0 \<le> q \<Longrightarrow> step_count DOWN q = \<lfloor>q\<rfloor>"
  using floor_trunc [of q DECIMAL_DP] trunc_le(2) [of q DECIMAL_DP] by (auto simp: step_count_def)

lemma step_count_ceiling: "0 \<le> q \<Longrightarrow> step_exact q \<Longrightarrow> step_count UP q = \<lceil>q\<rceil>"
  using ceiling_trunc [of q] trunc_le(2) [of q DECIMAL_DP] by (auto simp: step_count_def)

lemma step_count_negative: "q < 0 \<Longrightarrow> step_count mode q \<le> 0"
proof -
  assume "q < 0"
  then have "round_rat RoundDown DECIMAL_DP q \<le> 0"
    using trunc_le(2) [of "- q" DECIMAL_DP] round_rat_neg [of RoundDown DECIMAL_DP q] by simp
  then show ?thesis using \<open>q < 0\<close> by (cases mode) (auto simp: step_count_def)
qed

lemma floor_to_step_value:
  assumes "0 < v step" "0 \<le> v x"
  shows "\<exists>r. floor_to_step L x step = Inr r \<and> v r = of_int \<lfloor>v x / v step\<rfloor> * v step"
  using round_to_step_value [OF assms(1), of x DOWN] assms step_count_floor [of "v x / v step"]
  by (simp add: floor_to_step_def)

lemma ceil_to_step_value:
  assumes "0 < v step" "0 \<le> v x" "step_exact (v x / v step)"
  shows "\<exists>r. ceil_to_step L x step = Inr r \<and> v r = of_int \<lceil>v x / v step\<rceil> * v step"
  using round_to_step_value [OF assms(1), of x UP] assms step_count_ceiling [of "v x / v step"]
  by (simp add: ceil_to_step_def)

lemma floor_to_step_Ok:
  assumes "0 < v step" "floor_to_step L x step = Inr r"
  shows "\<exists>k. v r = of_int k * v step" "0 < v r \<Longrightarrow> 0 < v x \<and> v r \<le> v x \<and> v x < v r + v step"
proof -
  have r: "v r = of_int (step_count DOWN (v x / v step)) * v step"
    using round_to_step_value [OF assms(1), of x DOWN] assms(2) by (auto simp: floor_to_step_def)
  then show "\<exists>k. v r = of_int k * v step" by blast
  assume pos: "0 < v r"
  have nn: "0 \<le> v x"
  proof (rule ccontr)
    assume "\<not> 0 \<le> v x"
    then have "step_count DOWN (v x / v step) \<le> 0"
      using assms(1) by (intro step_count_negative) (simp add: divide_neg_pos)
    then show False using r pos assms(1) by (simp add: zero_less_mult_iff)
  qed
  then have "v r = of_int \<lfloor>v x / v step\<rfloor> * v step"
    using r assms(1) by (simp add: step_count_floor)
  moreover have "of_int \<lfloor>v x / v step\<rfloor> * v step \<le> v x"
    using assms(1) by (simp flip: pos_le_divide_eq)
  moreover have "v x / v step < of_int \<lfloor>v x / v step\<rfloor> + 1" by linarith
  then have "v x < (of_int \<lfloor>v x / v step\<rfloor> + 1) * v step"
    by (simp only: pos_divide_less_eq [OF assms(1)])
  ultimately show "0 < v x \<and> v r \<le> v x \<and> v x < v r + v step"
    using pos by (simp add: algebra_simps)
qed

lemma step_exact_of_int [simp]: "step_exact (of_int k)"
  by (simp add: step_exact_def)

lemma aligned_to_step:
  assumes "0 < v step" "0 \<le> v x" "v x = of_int k * v step"
  shows "\<exists>r. floor_to_step L x step = Inr r \<and> v r = v x"
    and "\<exists>r. ceil_to_step L x step = Inr r \<and> v r = v x"
proof -
  have q: "v x / v step = of_int k" using assms by simp
  show "\<exists>r. floor_to_step L x step = Inr r \<and> v r = v x"
    using floor_to_step_value [OF assms(1,2)] unfolding q using assms(3) by simp
  show "\<exists>r. ceil_to_step L x step = Inr r \<and> v r = v x"
    using ceil_to_step_value [OF assms(1,2)] unfolding q using assms(3) by simp
qed

lemma ceil_to_step_aligned:
  assumes "0 < v step" "ceil_to_step L x step = Inr r"
  shows "\<exists>k. v r = of_int k * v step"
  using round_to_step_value [OF assms(1), of x UP] assms(2) by (auto simp: ceil_to_step_def)

end

subsection \<open>Properties\<close>

lemma host_decimal: "host L v \<Longrightarrow> big_decimal L v"
  by (rule host.axioms(1))

text \<open>
  Claim C39: the printed form identifies the value. Two decimals print the same text exactly
  when they are the same number, so hashes over printed decimals neither distinguish
  \<open>1.50\<close> from \<open>1.5\<close> nor confuse different amounts.
\<close>

theorem decimal_text_identifies_value:
  assumes "host L v"
  shows "dec_to_string L x = dec_to_string L y \<longleftrightarrow> v x = v y"
  by (rule big_decimal.to_string_eq_iff [OF host_decimal [OF assms]])

theorem decimal_text_identifies_value_witness:
  "dec_to_string ref_lib (SDec 150 2) = dec_to_string ref_lib (SDec 15 1) \<and>
   dec_to_string ref_lib (SDec 150 2) \<noteq> dec_to_string ref_lib (SDec 151 2)"
  using decimal_text_identifies_value [OF ref_host, of "SDec 150 2" "SDec 15 1"]
    decimal_text_identifies_value [OF ref_host, of "SDec 150 2" "SDec 151 2"] by simp

text \<open>
  Printing and parsing round-trip. Parsing the printed form of any decimal
  succeeds, gives the same number, and printing that again gives the same text.
\<close>

theorem decimal_round_trip:
  assumes "host L v"
  shows "\<exists>d. dec_from_string L (JStr (dec_to_string L x)) = Ok d \<and> v d = v x \<and>
    dec_to_string L d = dec_to_string L x"
  using big_decimal.from_to_string [OF host_decimal [OF assms], of x]
    big_decimal.to_string_eq_iff [OF host_decimal [OF assms]] by metis

theorem decimal_round_trip_witness:
  "\<exists>d. dec_from_string ref_lib (JStr (dec_to_string ref_lib (SDec (-1050) 3))) = Ok d \<and> sval d = - 21 / 20"
  using decimal_round_trip [OF ref_host, of "SDec (-1050) 3"] by auto

text \<open>
  Claim C38: flooring to a step is exact. For a positive step and a non-negative value the
  code returns the largest multiple of the step that does not exceed the value, although it
  goes through a quotient cut to 1000 digits.
\<close>

theorem floor_to_step_exact:
  assumes "host L v" "0 < v step" "0 \<le> v x"
  shows "\<exists>r. floor_to_step L x step = Ok r \<and> v r = of_int \<lfloor>v x / v step\<rfloor> * v step"
  by (rule big_decimal.floor_to_step_value [OF host_decimal [OF assms(1)] assms(2,3)])

theorem floor_to_step_exact_witness:
  "\<exists>r. floor_to_step ref_lib (SDec 10037 2) (SDec 25 2) = Ok r \<and> sval r = 401 / 4"
proof -
  have "\<lfloor>10037 / 25 :: rat\<rfloor> = 401" by (rule floor_unique) auto
  then show ?thesis
    using floor_to_step_exact [OF ref_host, of "SDec 25 2" "SDec 10037 2"] by auto
qed

text \<open>
  Ceiling to a step is exact for a non-negative value, unless the quotient exceeds
  an integer by a positive amount below \<open>10^-1000\<close>: then the code returns the smallest
  multiple of the step that is at least the value.
\<close>

theorem ceil_to_step_exact:
  assumes "host L v" "0 < v step" "0 \<le> v x" "step_exact (v x / v step)"
  shows "\<exists>r. ceil_to_step L x step = Ok r \<and> v r = of_int \<lceil>v x / v step\<rceil> * v step"
  by (rule big_decimal.ceil_to_step_value [OF host_decimal [OF assms(1)] assms(2-4)])

theorem ceil_to_step_exact_witness:
  "\<exists>r. ceil_to_step ref_lib (SDec 10037 2) (SDec 25 2) = Ok r \<and> sval r = 201 / 2"
proof -
  have c: "\<lceil>10037 / 25 :: rat\<rceil> = 402" by (rule ceiling_unique) auto
  have f: "\<lfloor>10037 / 25 :: rat\<rfloor> = 401" by (rule floor_unique) auto
  have "(10 :: rat) ^ 1 \<le> 10 ^ DECIMAL_DP" by (rule power_increasing) (auto simp: DECIMAL_DP_def)
  then have "step_exact (10037 / 25)" by (simp add: step_exact_def f)
  then show ?thesis
    using ceil_to_step_exact [OF ref_host, of "SDec 25 2" "SDec 10037 2"] c by auto
qed

text \<open>
  Division with a directed mode rounds once. Although the quotient is first
  computed to 1000 digits and then rounded again, for \<open>DOWN\<close> and \<open>UP\<close> and at most 1000
  places the result is the exact quotient rounded directly to the requested places.
\<close>

theorem divide_rounds_once:
  assumes "host L v" "v y \<noteq> 0" "0 \<le> dp" "dp \<le> 1000" "mode = DOWN \<or> mode = UP"
  shows "\<exists>r. dec_divide L x y dp mode = Ok r \<and>
    v r = round_rat (library_rounding_mode mode) (nat dp) (v x / v y)"
  by (rule big_decimal.divide_directed [OF host_decimal [OF assms(1)] assms(2-5)])

theorem divide_rounds_once_witness:
  "\<exists>r. dec_divide ref_lib (SDec 10 0) (SDec 3 0) 2 UP = Ok r \<and> sval r = 334 / 100"
proof -
  have "\<lceil>1000 / 3 :: rat\<rceil> = 334" by (rule ceiling_unique) auto
  then have "round_rat RoundUp 2 (10 / 3) = 334 / 100" by (simp add: round_rat_def)
  then show ?thesis
    using divide_rounds_once [OF ref_host, of "SDec 3 0" 2 UP "SDec 10 0"] by auto
qed

end
