(* ===== verification/TimeModel.thy ===== *)
theory TimeModel
  imports Decimals "HOL-Library.Monad_Syntax"
begin

text \<open>
  \<open>domain/shared/time.ts\<close>: instants as the canonical text that \<open>toISOString\<close> prints, with the
  parts of the standard library's \<open>Date\<close> the code uses (\<open>Date.parse\<close> on ISO instants and
  \<open>toISOString\<close>, by the calendar formulas of the ECMAScript specification; more than three
  fraction digits are cut to milliseconds, as the V8 engine does). A \<open>Clock\<close> is the text
  its \<open>now\<close> returns.

  Shown here: the calendar is inverted correctly, so printing an instant and parsing it
  back gives the same epoch for every year of four digits, and every accepted instant in
  those years is in canonical form.
\<close>

subsection \<open>The calendar\<close>

definition leap_year :: "int \<Rightarrow> bool" where
  "leap_year year \<longleftrightarrow> year mod 4 = 0 \<and> (year mod 100 \<noteq> 0 \<or> year mod 400 = 0)"

text \<open>\<open>DayFromYear\<close> of the ECMAScript specification: days from 1970-01-01 to January 1.\<close>

definition day_from_year :: "int \<Rightarrow> int" where
  "day_from_year y = 365 * (y - 1970) + (y - 1969) div 4 - (y - 1901) div 100 + (y - 1601) div 400"

definition month_lengths :: "int \<Rightarrow> int list" where
  "month_lengths year = [31, if leap_year year then 29 else 28, 31, 30, 31, 30, 31, 31, 30, 31, 30, 31]"

text \<open>\<open>YearFromTime\<close>: an estimate from the mean year length, corrected by at most one year.\<close>

definition year_from_day :: "int \<Rightarrow> int" where
  "year_from_day d =
     (let y = 1970 + (400 * d) div 146097 in
      if d < day_from_year y then y - 1
      else if day_from_year (y + 1) \<le> d then y + 1 else y)"

fun month_day :: "int list \<Rightarrow> int \<Rightarrow> int \<Rightarrow> int \<times> int" where
  "month_day [] m d = (m, d + 1)"
| "month_day (l # ls) m d = (if d < l then (m, d + 1) else month_day ls (m + 1) (d - l))"

lemma div_step: "0 < m \<Longrightarrow> (a + 1) div m = a div m + (if (a + 1) mod m = 0 then 1 else (0 :: int))"
proof -
  assume m: "0 < m"
  have a: "m * (a div m) + a mod m = a" and r: "0 \<le> a mod m" "a mod m < m" using m by simp_all
  show ?thesis
  proof (cases "a mod m + 1 = m")
    case True
    have "m * (a div m + 1) = m * (a div m) + m" by (simp add: distrib_left)
    then have "a + 1 = m * (a div m + 1)" using a True by linarith
    then show ?thesis using m by simp
  next
    case False
    then have lt: "a mod m + 1 < m" using r by simp
    have "a + 1 = m * (a div m) + (a mod m + 1)" using a by simp
    then have "(a + 1) mod m = (a mod m + 1) mod m" "(a + 1) div m = (m * (a div m) + (a mod m + 1)) div m"
      by (simp_all only: mod_mult_self4 mult.commute [of m] mod_mult_self3)
    moreover have "(m * (a div m) + (a mod m + 1)) div m = a div m + (a mod m + 1) div m"
      using m by (simp only: div_mult_self4)
    moreover have "(a mod m + 1) div m = 0" "(a mod m + 1) mod m = a mod m + 1"
      using lt r by (simp_all add: div_pos_pos_trivial mod_pos_pos_trivial del: mod_add_left_eq)
    ultimately show ?thesis using r by simp
  qed
qed

lemma year_length: "day_from_year (y + 1) = day_from_year y + (if leap_year y then 366 else 365)"
proof -
  have 4: "(y + 1 - 1969) div 4 = (y - 1969) div 4 + (if y mod 4 = 0 then 1 else 0)"
    using div_step [of 4 "y - 1969"] mod_mult_self1 [of "y - 1968" 492 4] by (simp add: algebra_simps)
  have 100: "(y + 1 - 1901) div 100 = (y - 1901) div 100 + (if y mod 100 = 0 then 1 else 0)"
    using div_step [of 100 "y - 1901"] mod_mult_self1 [of "y - 1900" 19 100] by (simp add: algebra_simps)
  have 400: "(y + 1 - 1601) div 400 = (y - 1601) div 400 + (if y mod 400 = 0 then 1 else 0)"
    using div_step [of 400 "y - 1601"] mod_mult_self1 [of "y - 1600" 4 400] by (simp add: algebra_simps)
  have "y mod 100 mod 4 = y mod 4" "y mod 400 mod 100 = y mod 100"
    by (simp_all add: mod_mod_cancel)
  then have "y mod 100 = 0 \<longrightarrow> y mod 4 = 0" "y mod 400 = 0 \<longrightarrow> y mod 100 = 0" by auto
  then show ?thesis unfolding day_from_year_def 4 100 400 leap_year_def
    by (cases "y mod 4 = 0"; cases "y mod 100 = 0"; cases "y mod 400 = 0") simp_all
qed

lemma div_sandwich: "0 < m \<Longrightarrow> m * (a div m) \<le> a \<and> a - m < m * (a div (m :: int))"
  using pos_mod_sign [of m a] pos_mod_bound [of m a] mult_div_mod_eq [of m a] by linarith

lemma day_from_year_estimate:
  "146097 * (y - 1970) - 506 \<le> 400 * day_from_year y" "400 * day_from_year y \<le> 146097 * (y - 1970) + 589"
proof -
  define A where "A = (y - 1969) div 4"
  define B where "B = (y - 1901) div 100"
  define C where "C = (y - 1601) div 400"
  have d: "day_from_year y = 365 * (y - 1970) + A - B + C" by (simp add: day_from_year_def A_def B_def C_def)
  have "4 * A \<le> y - 1969" "y - 1969 < 4 * A + 4" "100 * B \<le> y - 1901" "y - 1901 < 100 * B + 100"
    "400 * C \<le> y - 1601" "y - 1601 < 400 * C + 400"
    unfolding A_def B_def C_def
    using div_sandwich [of 4 "y - 1969"] div_sandwich [of 100 "y - 1901"] div_sandwich [of 400 "y - 1601"]
    by simp_all
  note bounds = this
  show "146097 * (y - 1970) - 506 \<le> 400 * day_from_year y"
    unfolding d using bounds by (simp add: algebra_simps)
  show "400 * day_from_year y \<le> 146097 * (y - 1970) + 589"
    unfolding d using bounds by (simp add: algebra_simps)
qed

lemma year_from_day_bounds:
  "day_from_year (year_from_day d) \<le> d" "d < day_from_year (year_from_day d + 1)"
proof -
  define q where "q = (400 * d) div 146097"
  define y where "y = 1970 + q"
  have q: "146097 * q \<le> 400 * d" "400 * d < 146097 * q + 146097"
    unfolding q_def using div_sandwich [of 146097 "400 * d"] by simp_all
  have "400 * day_from_year (y - 1) \<le> 400 * d"
    using q day_from_year_estimate(2) [of "y - 1"] by (simp add: y_def)
  then have "day_from_year (y - 1) \<le> d" by simp
  moreover have "400 * d < 400 * day_from_year (y + 2)"
    using q day_from_year_estimate(1) [of "y + 2"] by (simp add: y_def)
  then have "d < day_from_year (y + 2)" by simp
  moreover have "year_from_day d =
    (if d < day_from_year y then y - 1 else if day_from_year (y + 1) \<le> d then y + 1 else y)"
    by (simp add: year_from_day_def Let_def y_def q_def)
  moreover have "day_from_year (y + 1 + 1) = day_from_year (y + 2)" by (simp add: add.assoc)
  ultimately show "day_from_year (year_from_day d) \<le> d" "d < day_from_year (year_from_day d + 1)"
    by (auto simp only: split: if_splits) simp_all
qed

lemma day_from_year_mono: "y \<le> z \<Longrightarrow> day_from_year y \<le> day_from_year z"
proof (induction z rule: int_ge_induct)
  case base
  show ?case by simp
next
  case (step z)
  then show ?case using year_length [of z] by (auto split: if_splits)
qed

lemma year_from_day_unique:
  assumes "day_from_year y \<le> d" "d < day_from_year (y + 1)"
  shows "year_from_day d = y"
  using year_from_day_bounds [of d] assms day_from_year_mono [of "year_from_day d + 1" y]
    day_from_year_mono [of "y + 1" "year_from_day d"] by linarith

text \<open>Cutting the day of the year into a month and a day, and back.\<close>

lemma month_day_correct:
  assumes "0 \<le> d" "d < sum_list ls" "list_all ((<) 0) ls" "month_day ls m d = (m', day)"
  shows "\<exists>k. m' = m + int k \<and> k < length ls \<and> 1 \<le> day \<and> day \<le> ls ! k \<and> sum_list (take k ls) + day - 1 = d"
  using assms
proof (induction ls m d rule: month_day.induct)
  case (1 m d)
  then show ?case by simp
next
  case (2 l ls m d)
  show ?case
  proof (cases "d < l")
    case True
    then show ?thesis using "2.prems" by (intro exI [of _ 0]) auto
  next
    case False
    then obtain k where k: "m' = m + 1 + int k" "k < length ls" "1 \<le> day" "day \<le> ls ! k"
      "sum_list (take k ls) + day - 1 = d - l"
      using "2.IH" "2.prems" by auto
    then show ?thesis by (intro exI [of _ "Suc k"]) auto
  qed
qed

lemma month_lengths_props: "list_all ((<) 0) (month_lengths y)" "length (month_lengths y) = 12"
  "sum_list (month_lengths y) = (if leap_year y then 366 else 365)"
  by (simp_all add: month_lengths_def)

subsection \<open>Matching an instant\<close>

definition split_digits :: "nat \<Rightarrow> string \<Rightarrow> (string \<times> string) option" where
  "split_digits k s =
     (if k \<le> length s \<and> list_all is_digit (take k s) then Some (take k s, drop k s) else None)"

definition expect :: "char \<Rightarrow> string \<Rightarrow> string option" where
  "expect c s = (case s of d # ds \<Rightarrow> if d = c then Some ds else None | [] \<Rightarrow> None)"

text \<open>The groups of \<open>UTC_TIMESTAMP_PATTERN\<close>, and the fraction digits it skips.\<close>

record timestamp_match =
  yearText :: string
  monthText :: string
  dayText :: string
  hourText :: string
  minuteText :: string
  secondText :: string
  fractionText :: string
  zoneText :: string

definition match_fraction :: "string \<Rightarrow> (string \<times> string) option" where
  "match_fraction s =
     (case expect (CHR ''.'') s of
        None \<Rightarrow> Some ([], s)
      | Some r \<Rightarrow>
          (let f = takeWhile is_digit r in
           if 1 \<le> length f \<and> length f \<le> 9 then Some (f, dropWhile is_digit r) else None))"

definition match_zone :: "string \<Rightarrow> bool" where
  "match_zone s \<longleftrightarrow> s = ''Z'' \<or>
     (case s of [] \<Rightarrow> False
      | sign # r \<Rightarrow> (sign = CHR ''+'' \<or> sign = CHR ''-'') \<and> length r = 5 \<and>
          list_all is_digit (take 2 r) \<and> r ! 2 = CHR '':'' \<and> list_all is_digit (drop 3 r))"

definition match_after_year :: "string \<Rightarrow> string \<Rightarrow> timestamp_match option" where
  "match_after_year year s = do {
     s \<leftarrow> expect (CHR ''-'') s; (month, s) \<leftarrow> split_digits 2 s;
     s \<leftarrow> expect (CHR ''-'') s; (day, s) \<leftarrow> split_digits 2 s;
     s \<leftarrow> expect (CHR ''T'') s; (hour, s) \<leftarrow> split_digits 2 s;
     s \<leftarrow> expect (CHR '':'') s; (minute, s) \<leftarrow> split_digits 2 s;
     s \<leftarrow> expect (CHR '':'') s; (second, s) \<leftarrow> split_digits 2 s;
     (fraction, zone) \<leftarrow> match_fraction s;
     if match_zone zone
     then Some \<lparr>yearText = year, monthText = month, dayText = day, hourText = hour,
       minuteText = minute, secondText = second, fractionText = fraction, zoneText = zone\<rparr>
     else None }"

definition match_timestamp :: "string \<Rightarrow> timestamp_match option" where
  "match_timestamp s = do { (year, s) \<leftarrow> split_digits 4 s; match_after_year year s }"

definition valid_components :: "int \<Rightarrow> timestamp_match \<Rightarrow> bool" where
  "valid_components year m \<longleftrightarrow>
     (let month = digits_value (monthText m); day = digits_value (dayText m); zone = zoneText m in
      \<not> (month < 1 \<or> 12 < month \<or> 23 < digits_value (hourText m) \<or>
         59 < digits_value (minuteText m) \<or> 59 < digits_value (secondText m) \<or>
         zone \<noteq> ''Z'' \<and> (23 < digits_value (take 2 (drop 1 zone)) \<or>
                         59 < digits_value (take 2 (drop 4 zone)))) \<and>
      1 \<le> day \<and> day \<le> month_lengths year ! nat (month - 1))"

definition hasValidTimestampComponents :: "timestamp_match \<Rightarrow> bool" where
  "hasValidTimestampComponents m \<longleftrightarrow> valid_components (digits_value (yearText m)) m"

subsection \<open>Instants and milliseconds\<close>

definition ms_per_day :: int where
  "ms_per_day = 86400000"

definition max_time :: int where
  "max_time = 8640000000000000"

definition zone_offset_minutes :: "string \<Rightarrow> int" where
  "zone_offset_minutes zone =
     (if zone = ''Z'' then 0
      else (if hd zone = CHR ''-'' then -1 else 1) *
        (digits_value (take 2 (drop 1 zone)) * 60 + digits_value (take 2 (drop 4 zone))))"

definition epoch_of :: "int \<Rightarrow> timestamp_match \<Rightarrow> int" where
  "epoch_of year m =
     (day_from_year year + sum_list (take (nat (digits_value (monthText m) - 1)) (month_lengths year))
        + digits_value (dayText m) - 1) * ms_per_day
     + digits_value (hourText m) * 3600000 + digits_value (minuteText m) * 60000
     + digits_value (secondText m) * 1000 + digits_value (take 3 (fractionText m @ ''000''))
     - zone_offset_minutes (zoneText m) * 60000"

text \<open>
  \<open>Date.parse\<close> on instants with a four-digit year or an expanded (sign and six digits) one;
  \<open>None\<close> is \<open>NaN\<close>.
\<close>

definition read_year :: "string \<Rightarrow> (int \<times> string \<times> string) option" where
  "read_year s =
     (case s of [] \<Rightarrow> None
      | c # r \<Rightarrow>
          if c = CHR ''+'' \<or> c = CHR ''-'' then do {
            (y, rest) \<leftarrow> split_digits 6 r;
            if c = CHR ''-'' \<and> digits_value y = 0 then None
            else Some ((if c = CHR ''-'' then - digits_value y else digits_value y), y, rest) }
          else do { (y, rest) \<leftarrow> split_digits 4 s; Some (digits_value y, y, rest) })"

definition date_parse :: "string \<Rightarrow> int option" where
  "date_parse s = do {
     (year, text, rest) \<leftarrow> read_year s;
     m \<leftarrow> match_after_year text rest;
     if valid_components year m \<and> \<bar>epoch_of year m\<bar> \<le> max_time then Some (epoch_of year m) else None }"

definition year_text :: "int \<Rightarrow> string" where
  "year_text y =
     (if 0 \<le> y \<and> y \<le> 9999 then pad 4 (digits_of y)
      else (if y < 0 then CHR ''-'' else CHR ''+'') # pad 6 (digits_of \<bar>y\<bar>))"

definition iso_match :: "int \<Rightarrow> int \<times> timestamp_match" where
  "iso_match e =
     (let day = e div ms_per_day; t = e mod ms_per_day; y = year_from_day day;
          (month, d) = month_day (month_lengths y) 1 (day - day_from_year y)
      in (y, \<lparr>yearText = year_text y, monthText = pad 2 (digits_of month), dayText = pad 2 (digits_of d),
           hourText = pad 2 (digits_of (t div 3600000)),
           minuteText = pad 2 (digits_of (t div 60000 mod 60)),
           secondText = pad 2 (digits_of (t div 1000 mod 60)),
           fractionText = pad 3 (digits_of (t mod 1000)), zoneText = ''Z''\<rparr>))"

definition to_iso_string :: "int \<Rightarrow> string" where
  "to_iso_string e =
     (let m = snd (iso_match e) in
      yearText m @ CHR ''-'' # monthText m @ CHR ''-'' # dayText m @ CHR ''T'' # hourText m @
      CHR '':'' # minuteText m @ CHR '':'' # secondText m @ CHR ''.'' # fractionText m @ ''Z'')"

definition parse_utc_timestamp :: "'d jsval \<Rightarrow> string result" where
  "parse_utc_timestamp value =
     (case value of
        JStr s \<Rightarrow>
          (case match_timestamp s of
             None \<Rightarrow> Fail_at INVALID_TIMESTAMP ''timestamp''
           | Some m \<Rightarrow>
               if \<not> hasValidTimestampComponents m then Fail_at INVALID_TIMESTAMP ''timestamp''
               else (case date_parse s of
                       None \<Rightarrow> Fail_at INVALID_TIMESTAMP ''timestamp''
                     | Some epoch \<Rightarrow> Ok (to_iso_string epoch)))
      | _ \<Rightarrow> Fail_at INVALID_TIMESTAMP ''timestamp'')"

text \<open>\<open>toISOString\<close> throws on an epoch outside the range of \<open>Date\<close>.\<close>

definition timestamp_from_epoch_ms :: "int \<Rightarrow> string result" where
  "timestamp_from_epoch_ms epoch =
     (if \<not> is_safe_integer epoch \<or> epoch < 0 then Fail_at INVALID_TIMESTAMP ''epoch''
      else if epoch \<le> max_time then Ok (to_iso_string epoch)
      else Fail_at INVALID_TIMESTAMP ''epoch'')"

definition timestamp_to_epoch_ms :: "string \<Rightarrow> int option" where
  "timestamp_to_epoch_ms timestamp = date_parse timestamp"

text \<open>A comparison with \<open>NaN\<close> is false.\<close>

definition is_at_or_after :: "string \<Rightarrow> string \<Rightarrow> bool" where
  "is_at_or_after timestamp boundary =
     (case (timestamp_to_epoch_ms timestamp, timestamp_to_epoch_ms boundary) of
        (Some t, Some b) \<Rightarrow> b \<le> t | _ \<Rightarrow> False)"

definition add_milliseconds :: "string \<Rightarrow> int \<Rightarrow> string result" where
  "add_milliseconds timestamp milliseconds =
     (if \<not> is_safe_integer milliseconds then Fail_at INVALID_TIMESTAMP ''milliseconds''
      else (case timestamp_to_epoch_ms timestamp of
              None \<Rightarrow> Fail_at INVALID_TIMESTAMP ''epoch''
            | Some t \<Rightarrow> timestamp_from_epoch_ms (t + milliseconds)))"

text \<open>A clock is what its \<open>now\<close> returns; the system clock's reading is an argument.\<close>

definition fixed_clock :: "'d jsval \<Rightarrow> string result" where
  "fixed_clock value = parse_utc_timestamp value"

subsection \<open>Printing and parsing an instant\<close>

lemma split_digits_pad [digit_simps]:
  "0 \<le> n \<Longrightarrow> n < 10 ^ k \<Longrightarrow> 0 < k \<Longrightarrow>
    split_digits k (pad k (digits_of n) @ rest) = Some (pad k (digits_of n), rest)"
  by (simp add: split_digits_def digits_of_length digit_simps)

lemma expect_Cons [simp]: "expect c (c # s) = Some s"
  by (simp add: expect_def)

lemma match_fraction_pad:
  assumes "0 \<le> n" "n < 1000"
  shows "match_fraction (CHR ''.'' # pad 3 (digits_of n) @ ''Z'') = Some (pad 3 (digits_of n), ''Z'')"
proof -
  have "length (digits_of n) \<le> 3" using assms digits_of_length [of n 3] by simp
  moreover have "list_all is_digit (pad 3 (digits_of n))" using assms by (simp add: digit_simps)
  ultimately show ?thesis
    using takeWhile_append_stop [of is_digit "pad 3 (digits_of n)" "CHR ''Z''" "[]"]
    by (simp add: match_fraction_def is_digit_def)
qed

lemma day_fields:
  obtains k day where "month_day (month_lengths (year_from_day d)) 1 (d - day_from_year (year_from_day d)) =
      (1 + int k, day)" "k < 12" "1 \<le> day" "day \<le> month_lengths (year_from_day d) ! k"
    "day_from_year (year_from_day d) + sum_list (take k (month_lengths (year_from_day d))) + day - 1 = d"
proof -
  define y where "y = year_from_day d"
  obtain m' day where md: "month_day (month_lengths y) 1 (d - day_from_year y) = (m', day)"
    by (cases "month_day (month_lengths y) 1 (d - day_from_year y)")
  have range: "0 \<le> d - day_from_year y" "d - day_from_year y < sum_list (month_lengths y)"
    using year_from_day_bounds [of d] year_length [of y]
    by (simp_all add: y_def month_lengths_props split: if_splits)
  obtain k where "m' = 1 + int k" "k < length (month_lengths y)" "1 \<le> day"
    "day \<le> month_lengths y ! k" "sum_list (take k (month_lengths y)) + day - 1 = d - day_from_year y"
    using month_day_correct [OF range month_lengths_props(1) md] by blast
  then show ?thesis using md by (intro that [of k day]) (simp_all add: y_def month_lengths_props)
qed

lemma month_lengths_le: "k < 12 \<Longrightarrow> month_lengths y ! k \<le> 31"
  by (auto simp: month_lengths_def less_Suc_eq numeral_eq_Suc nth_Cons split: nat.splits)

text \<open>Every field of the printed text is in range, and the fields denote the epoch.\<close>

lemma iso_match_fields:
  assumes "iso_match e = (y, m)"
  shows "y = year_from_day (e div ms_per_day)" "yearText m = year_text y" "zoneText m = ''Z''"
    "valid_components y m" "epoch_of y m = e"
    "\<exists>month. 0 \<le> month \<and> month < 100 \<and> monthText m = pad 2 (digits_of month)"
    "\<exists>day. 0 \<le> day \<and> day < 100 \<and> dayText m = pad 2 (digits_of day)"
    "\<exists>hour. 0 \<le> hour \<and> hour < 100 \<and> hourText m = pad 2 (digits_of hour)"
    "\<exists>minute. 0 \<le> minute \<and> minute < 100 \<and> minuteText m = pad 2 (digits_of minute)"
    "\<exists>second. 0 \<le> second \<and> second < 100 \<and> secondText m = pad 2 (digits_of second)"
    "\<exists>ms. 0 \<le> ms \<and> ms < 1000 \<and> fractionText m = pad 3 (digits_of ms)"
proof -
  define d where "d = e div ms_per_day"
  define t where "t = e mod ms_per_day"
  obtain k day where k: "month_day (month_lengths (year_from_day d)) 1 (d - day_from_year (year_from_day d)) =
      (1 + int k, day)" "k < 12" "1 \<le> day" "day \<le> month_lengths (year_from_day d) ! k"
    "day_from_year (year_from_day d) + sum_list (take k (month_lengths (year_from_day d))) + day - 1 = d"
    by (rule day_fields)
  have m: "y = year_from_day d" "m = \<lparr>yearText = year_text y, monthText = pad 2 (digits_of (1 + int k)),
      dayText = pad 2 (digits_of day), hourText = pad 2 (digits_of (t div 3600000)),
      minuteText = pad 2 (digits_of (t div 60000 mod 60)),
      secondText = pad 2 (digits_of (t div 1000 mod 60)),
      fractionText = pad 3 (digits_of (t mod 1000)), zoneText = ''Z''\<rparr>"
    using assms k by (auto simp: iso_match_def Let_def d_def t_def)
  have t: "0 \<le> t" "t < 86400000" "d * ms_per_day + t = e"
    by (simp_all add: t_def d_def ms_per_day_def)
  have day: "day \<le> 31" using k(4) month_lengths_le [OF k(2)] by (rule order.trans)
  have hour: "0 \<le> t div 3600000" "t div 3600000 \<le> 23" using t by simp_all
  have minute: "t div 60000 mod 60 \<le> 59" using pos_mod_bound [of 60 "t div 60000"] by simp
  have second: "t div 1000 mod 60 \<le> 59" using pos_mod_bound [of 60 "t div 1000"] by simp
  have split: "t div 3600000 * 3600000 + t div 60000 mod 60 * 60000 + t div 1000 mod 60 * 1000 + t mod 1000 = t"
  proof -
    have "t div 3600000 = t div 60000 div 60" "t div 60000 = t div 1000 div 60"
      by (simp_all flip: zdiv_zmult2_eq)
    then show ?thesis
      using mult_div_mod_eq [of 60 "t div 60000"] mult_div_mod_eq [of 60 "t div 1000"]
        mult_div_mod_eq [of 1000 t] by linarith
  qed
  have ms: "take 3 (pad 3 (digits_of (t mod 1000)) @ ''000'') = pad 3 (digits_of (t mod 1000))"
    using digits_of_length [of "t mod 1000" 3] by simp
  show "y = year_from_day (e div ms_per_day)" "yearText m = year_text y" "zoneText m = ''Z''"
    by (simp_all add: m d_def)
  have fields: "digits_value (monthText m) = 1 + int k" "digits_value (dayText m) = day"
    "digits_value (hourText m) = t div 3600000" "digits_value (minuteText m) = t div 60000 mod 60"
    "digits_value (secondText m) = t div 1000 mod 60" "zoneText m = ''Z''"
    "digits_value (take 3 (fractionText m @ ''000'')) = t mod 1000"
    using k hour ms by (simp_all add: m digit_simps)
  have n: "nat (1 + int k - 1) = k" and zone: "zone_offset_minutes ''Z'' = 0"
    by (simp_all add: zone_offset_minutes_def)
  show "valid_components y m"
  proof -
    have "\<not> 59 < t div 60000 mod 60" "\<not> 59 < t div 1000 mod 60" "\<not> 23 < t div 3600000"
      "\<not> 1 + int k < 1" "\<not> 12 < 1 + int k"
      using minute second hour k(2) by linarith+
    then show ?thesis unfolding valid_components_def Let_def fields n m(1) using k(3,4) by blast
  qed
  have "day_from_year y + sum_list (take k (month_lengths y)) + day - 1 = d" using k(5) m(1) by simp
  then show "epoch_of y m = e"
    unfolding epoch_of_def fields n using split t(3) by (simp only: zone)
  show "\<exists>month. 0 \<le> month \<and> month < 100 \<and> monthText m = pad 2 (digits_of month)"
    using k(2) by (intro exI [of _ "1 + int k"]) (simp add: m)
  show "\<exists>day. 0 \<le> day \<and> day < 100 \<and> dayText m = pad 2 (digits_of day)"
    using k(3) day by (intro exI [of _ day]) (simp add: m)
  show "\<exists>hour. 0 \<le> hour \<and> hour < 100 \<and> hourText m = pad 2 (digits_of hour)"
    using hour by (intro exI [of _ "t div 3600000"]) (simp add: m)
  show "\<exists>minute. 0 \<le> minute \<and> minute < 100 \<and> minuteText m = pad 2 (digits_of minute)"
    by (intro exI [of _ "t div 60000 mod 60"]) (simp add: m order.strict_trans [OF pos_mod_bound])
  show "\<exists>second. 0 \<le> second \<and> second < 100 \<and> secondText m = pad 2 (digits_of second)"
    by (intro exI [of _ "t div 1000 mod 60"]) (simp add: m order.strict_trans [OF pos_mod_bound])
  show "\<exists>ms. 0 \<le> ms \<and> ms < 1000 \<and> fractionText m = pad 3 (digits_of ms)"
    by (intro exI [of _ "t mod 1000"]) (simp add: m)
qed

lemma match_iso_rest:
  assumes "iso_match e = (y, m)"
  shows "match_after_year (yearText m) (CHR ''-'' # monthText m @ CHR ''-'' # dayText m @
    CHR ''T'' # hourText m @ CHR '':'' # minuteText m @ CHR '':'' # secondText m @ CHR ''.'' #
    fractionText m @ ''Z'') = Some m"
proof -
  note f = iso_match_fields [OF assms]
  obtain month day hour minute second ms where
    r: "0 \<le> month" "month < 100" "0 \<le> day" "day < 100" "0 \<le> hour" "hour < 100"
      "0 \<le> minute" "minute < 100" "0 \<le> second" "second < 100" "0 \<le> ms" "ms < 1000"
    and t: "monthText m = pad 2 (digits_of month)" "dayText m = pad 2 (digits_of day)"
      "hourText m = pad 2 (digits_of hour)" "minuteText m = pad 2 (digits_of minute)"
      "secondText m = pad 2 (digits_of second)" "fractionText m = pad 3 (digits_of ms)"
    using f(6-11) by blast
  have "match_after_year (yearText m) (CHR ''-'' # monthText m @ CHR ''-'' # dayText m @
    CHR ''T'' # hourText m @ CHR '':'' # minuteText m @ CHR '':'' # secondText m @ CHR ''.'' #
    fractionText m @ ''Z'') = Some \<lparr>yearText = yearText m, monthText = monthText m,
      dayText = dayText m, hourText = hourText m, minuteText = minuteText m,
      secondText = secondText m, fractionText = fractionText m, zoneText = ''Z''\<rparr>"
    unfolding match_after_year_def t using r
    by (simp add: split_digits_pad match_fraction_pad match_zone_def)
  then show ?thesis using f(3) by simp
qed

text \<open>The years of an epoch in the range of \<open>Date\<close> fit in six digits.\<close>

lemma year_range:
  assumes "\<bar>e\<bar> \<le> max_time"
  shows "\<bar>year_from_day (e div ms_per_day)\<bar> < 1000000"
proof -
  define d where "d = e div ms_per_day"
  define y where "y = year_from_day d"
  have d: "- 100000000 \<le> d" "d \<le> 100000000"
    using assms zdiv_mono1 [of e max_time ms_per_day] zdiv_mono1 [of "- max_time" e ms_per_day]
    by (auto simp: d_def max_time_def ms_per_day_def)
  have "400 * day_from_year y \<le> 400 * d" "400 * d < 400 * day_from_year (y + 1)"
    using year_from_day_bounds [of d] by (simp_all add: y_def)
  with d day_from_year_estimate(1) [of y] day_from_year_estimate(2) [of "y + 1"]
  have "146097 * (y - 1970) - 506 \<le> 40000000000" "- 40000000000 < 146097 * (y + 1 - 1970) + 589"
    by linarith+
  then show ?thesis unfolding y_def [symmetric] d_def [symmetric] by simp
qed

lemma read_year_text:
  assumes "\<bar>y\<bar> < 1000000"
  shows "\<exists>text. read_year (year_text y @ rest) = Some (y, text, rest) \<and>
    (0 \<le> y \<and> y \<le> 9999 \<longrightarrow> text = year_text y)"
proof (cases "0 \<le> y \<and> y \<le> 9999")
  case True
  have "list_all is_digit (pad 4 (digits_of y))" "length (pad 4 (digits_of y)) = 4"
    using True digits_of_length [of y 4] by (simp_all add: digit_simps)
  then obtain c r where c: "pad 4 (digits_of y) = c # r" "is_digit c"
    by (cases "pad 4 (digits_of y)") auto
  then have "c \<noteq> CHR ''+''" "c \<noteq> CHR ''-''" by (auto simp: is_digit_def)
  then have "read_year (year_text y @ rest) =
    Option.bind (split_digits 4 (pad 4 (digits_of y) @ rest)) (\<lambda>(t, rest). Some (digits_value t, t, rest))"
    using True c by (simp add: read_year_def year_text_def)
  then show ?thesis using True by (simp add: split_digits_pad digit_simps year_text_def)
next
  case False
  then have "read_year (year_text y @ rest) = Some (y, pad 6 (digits_of \<bar>y\<bar>), rest)"
    using assms by (auto simp: read_year_def year_text_def split_digits_pad digit_simps)
  then show ?thesis using False by (intro exI [of _ "pad 6 (digits_of \<bar>y\<bar>)"]) auto
qed

text \<open>The year group is the only one \<open>valid_components\<close> and \<open>epoch_of\<close> take from outside.\<close>

lemma match_after_year_text:
  "match_after_year t s = Some m \<Longrightarrow> match_after_year t' s = Some (m\<lparr>yearText := t'\<rparr>)"
  by (auto simp: match_after_year_def split: bind_splits if_splits)

lemma components_yearText [simp]:
  "valid_components y (m\<lparr>yearText := t\<rparr>) = valid_components y m"
  "epoch_of y (m\<lparr>yearText := t\<rparr>) = epoch_of y m"
  by (simp_all add: valid_components_def epoch_of_def)

lemma date_parse_iso: "\<bar>e\<bar> \<le> max_time \<Longrightarrow> date_parse (to_iso_string e) = Some e"
proof -
  assume e: "\<bar>e\<bar> \<le> max_time"
  obtain y m where im: "iso_match e = (y, m)" by (cases "iso_match e")
  note f = iso_match_fields [OF im]
  define rest where "rest = CHR ''-'' # monthText m @ CHR ''-'' # dayText m @ CHR ''T'' # hourText m @
    CHR '':'' # minuteText m @ CHR '':'' # secondText m @ CHR ''.'' # fractionText m @ ''Z''"
  obtain yt where "read_year (year_text y @ rest) = Some (y, yt, rest)"
    using read_year_text [of y rest] year_range [OF e] f(1) by auto
  moreover have "match_after_year yt rest = Some (m\<lparr>yearText := yt\<rparr>)"
    unfolding rest_def by (rule match_after_year_text) (rule match_iso_rest [OF im])
  moreover have "to_iso_string e = year_text y @ rest"
    using im f(2) by (simp add: to_iso_string_def rest_def)
  ultimately show ?thesis using e f by (simp add: date_parse_def)
qed

lemma parse_iso:
  assumes "\<bar>e\<bar> \<le> max_time" "0 \<le> year_from_day (e div ms_per_day)" "year_from_day (e div ms_per_day) \<le> 9999"
  shows "parse_utc_timestamp (JStr (to_iso_string e)) = Ok (to_iso_string e)"
proof -
  obtain y m where im: "iso_match e = (y, m)" by (cases "iso_match e")
  note f = iso_match_fields [OF im]
  have y: "yearText m = pad 4 (digits_of y)" "0 \<le> y" "y \<le> 9999"
    using f(1,2) assms by (simp_all add: year_text_def)
  have "match_timestamp (to_iso_string e) = Some m"
    using match_iso_rest [OF im] y
    by (simp add: match_timestamp_def to_iso_string_def im split_digits_pad)
  moreover have "hasValidTimestampComponents m"
    using f(4) y by (simp add: hasValidTimestampComponents_def digit_simps)
  ultimately show ?thesis by (simp add: parse_utc_timestamp_def date_parse_iso [OF assms(1)])
qed

subsection \<open>Canonical instants\<close>

text \<open>
  What the rest of the domain holds in a field of type \<open>UtcTimestamp\<close>: text that one of the
  constructors above returned.
\<close>

definition instant :: "string \<Rightarrow> int \<Rightarrow> bool" where
  "instant t e \<longleftrightarrow> \<bar>e\<bar> \<le> max_time \<and> t = to_iso_string e"

lemma instant_epoch: "instant t e \<Longrightarrow> timestamp_to_epoch_ms t = Some e"
  by (simp add: instant_def timestamp_to_epoch_ms_def date_parse_iso)

lemma instant_unique: "instant t e \<Longrightarrow> instant t e' \<Longrightarrow> e = e'"
  using instant_epoch [of t e] instant_epoch [of t e'] by simp

lemma instant_at_or_after: "instant t e \<Longrightarrow> instant b f \<Longrightarrow> is_at_or_after t b \<longleftrightarrow> f \<le> e"
  by (simp add: is_at_or_after_def instant_epoch)

lemma date_parse_range: "date_parse s = Some e \<Longrightarrow> \<bar>e\<bar> \<le> max_time"
  by (auto simp: date_parse_def split: bind_splits if_splits)

lemma parse_utc_timestamp_Ok:
  "parse_utc_timestamp v = Inr t \<Longrightarrow> \<exists>s e. v = JStr s \<and> date_parse s = Some e \<and> instant t e"
  by (auto simp: parse_utc_timestamp_def instant_def date_parse_range
      split: jsval.splits option.splits if_splits)

lemma timestamp_from_epoch_ms_Ok:
  "timestamp_from_epoch_ms e = Inr t \<Longrightarrow> 0 \<le> e \<and> instant t e"
  by (auto simp: timestamp_from_epoch_ms_def instant_def split: if_splits)

lemma add_milliseconds_Ok:
  "add_milliseconds t d = Inr u \<Longrightarrow> instant t e \<Longrightarrow> 0 \<le> e + d \<and> instant u (e + d)"
  by (auto simp: add_milliseconds_def instant_epoch timestamp_from_epoch_ms_Ok split: if_splits)

lemma expanded_iso_refused:
  assumes "y = year_from_day (e div ms_per_day)" "y < 0 \<or> 9999 < y"
  shows "parse_utc_timestamp (JStr (to_iso_string e)) = Fail_at INVALID_TIMESTAMP ''timestamp''"
proof -
  obtain y' m where im: "iso_match e = (y', m)" by (cases "iso_match e")
  note f = iso_match_fields [OF im]
  have "\<exists>rest. to_iso_string e = (if y < 0 then CHR ''-'' else CHR ''+'') # rest"
    using im f(1,2) assms by (auto simp: to_iso_string_def year_text_def)
  then have "match_timestamp (to_iso_string e) = None"
    by (auto simp: match_timestamp_def split_digits_def numeral_eq_Suc is_digit_def)
  then show ?thesis by (simp add: parse_utc_timestamp_def)
qed

text \<open>
  \<open>timestampFromEpochMs\<close> and \<open>addMilliseconds\<close> are exact: an instant made from an epoch
  reads back as that epoch, adding \<open>d\<close> milliseconds gives the instant exactly \<open>d\<close> later, and
  \<open>isAtOrAfter\<close> orders the two as their epochs are ordered.
\<close>

theorem epoch_arithmetic_exact:
  assumes "timestamp_from_epoch_ms e = Ok t" "add_milliseconds t d = Ok u"
  shows "timestamp_to_epoch_ms t = Some e \<and> timestamp_to_epoch_ms u = Some (e + d) \<and>
    (is_at_or_after u t \<longleftrightarrow> 0 \<le> d)"
proof -
  have t: "instant t e" using timestamp_from_epoch_ms_Ok [OF assms(1)] by simp
  then have u: "instant u (e + d)" using add_milliseconds_Ok [OF assms(2)] by simp
  show ?thesis using instant_epoch [OF t] instant_epoch [OF u] instant_at_or_after [OF u t] by simp
qed

theorem epoch_arithmetic_exact_witness:
  "timestamp_to_epoch_ms ''2023-11-14T22:13:21.123Z'' = Some 1700000001123"
proof -
  have "timestamp_from_epoch_ms 1700000000123 = Ok ''2023-11-14T22:13:20.123Z''" by code_simp
  moreover have "add_milliseconds ''2023-11-14T22:13:20.123Z'' 1000 = Ok ''2023-11-14T22:13:21.123Z''"
    by code_simp
  ultimately show ?thesis using epoch_arithmetic_exact by fastforce
qed

text \<open>
  Claim C40: what \<open>parseUtcTimestamp\<close> returns is the text of exactly the epoch it read. It accepts that
  text again, and then unchanged, just when the year of the instant in UTC has four digits; in
  every other year, which an offset in the years 0000 and 9999 can reach, it refuses its own result.
\<close>

theorem instant_reparsed_iff_four_digit_year:
  assumes "parse_utc_timestamp v = Ok t"
  shows "\<exists>s e. v = JStr s \<and> date_parse s = Some e \<and> timestamp_to_epoch_ms t = Some e \<and>
    parse_utc_timestamp (JStr t) =
      (if 0 \<le> year_from_day (e div ms_per_day) \<and> year_from_day (e div ms_per_day) \<le> 9999 then Ok t
       else Fail_at INVALID_TIMESTAMP ''timestamp'')"
proof -
  obtain s e where e: "v = JStr s" "date_parse s = Some e" "instant t e" using parse_utc_timestamp_Ok [OF assms] by blast
  then show ?thesis
    using instant_epoch [OF e(3)] parse_iso [of e] expanded_iso_refused [OF refl, of e]
    by (intro exI [of _ s] exI [of _ e]) (auto simp: instant_def)
qed

theorem instant_reparsed_iff_four_digit_year_witness:
  "\<exists>t. parse_utc_timestamp (JStr ''9999-12-31T23:00:00-02:00'' :: nat jsval) = Ok t \<and>
    parse_utc_timestamp (JStr t :: nat jsval) = Fail_at INVALID_TIMESTAMP ''timestamp''"
proof -
  let ?v = "JStr ''9999-12-31T23:00:00-02:00'' :: nat jsval"
  have parsed: "parse_utc_timestamp ?v = Ok ''+010000-01-01T01:00:00.000Z''" by code_simp
  have "date_parse ''9999-12-31T23:00:00-02:00'' = Some 253402304400000" by code_simp
  moreover have "year_from_day (253402304400000 div ms_per_day) = 10000" by code_simp
  ultimately show ?thesis using instant_reparsed_iff_four_digit_year [OF parsed] parsed by auto
qed

end
