(* ===== verification/Validation.thy ===== *)
theory Validation
  imports TimeModel
begin

text \<open>
  The boundary parsers of \<open>domain/shared/validation.ts\<close> and
  \<open>domain/planning/planning-validation.ts\<close>: text, identifiers, hashes, bounded integers,
  closed records, bounded lists and bounded decimals read from an \<open>unknown\<close> value. Each comes
  with the exact set of values it accepts, in the collection \<open>result_simps\<close>.
\<close>

definition onlyKeys :: "'d jsval \<Rightarrow> string list \<Rightarrow> bool" where
  "onlyKeys value allowed \<longleftrightarrow> (\<forall>key \<in> set (keys value). key \<in> set allowed)"

definition require_string :: "'d jsval \<Rightarrow> string \<Rightarrow> string result" where
  "require_string value field =
     (case value of JStr s \<Rightarrow> Ok s | _ \<Rightarrow> Fail_at INVALID_VALUE field)"

definition is_control :: "char \<Rightarrow> bool" where
  "is_control c \<longleftrightarrow> code_of c \<le> 31 \<or> code_of c = 127"

text \<open>\<open>normalize("NFC")\<close> of a text of Latin-1 characters, all of which are composed already.\<close>

definition nfc_latin1 :: "string \<Rightarrow> string" where
  [simp]: "nfc_latin1 s = s"

definition require_safe_text :: "'d jsval \<Rightarrow> string \<Rightarrow> string result" where
  "require_safe_text value field =
     rbind (require_string value field) (\<lambda>s.
       if s = [] then Fail_at INVALID_TEXT field
       else if list_ex is_control s then Fail_at INVALID_TEXT field
       else Ok (nfc_latin1 s))"

definition is_alphanumeric :: "char \<Rightarrow> bool" where
  "is_alphanumeric c \<longleftrightarrow>
     65 \<le> code_of c \<and> code_of c \<le> 90 \<or> 97 \<le> code_of c \<and> code_of c \<le> 122 \<or> is_digit c"

definition safe_identifier :: "string \<Rightarrow> bool" where
  "safe_identifier s \<longleftrightarrow>
     (case s of [] \<Rightarrow> False
      | c # cs \<Rightarrow> is_alphanumeric c \<and> length cs \<le> 127 \<and>
          list_all (\<lambda>d. is_alphanumeric d \<or> d \<in> {CHR ''.'', CHR ''_'', CHR '':'', CHR ''-''}) cs)"

definition require_identifier :: "'d jsval \<Rightarrow> string \<Rightarrow> string result" where
  "require_identifier value field =
     (case require_string value field of
        Inl e \<Rightarrow> Fail_at INVALID_IDENTIFIER field
      | Inr s \<Rightarrow> if safe_identifier s then Ok s else Fail_at INVALID_IDENTIFIER field)"

definition hash_text :: "string \<Rightarrow> bool" where
  "hash_text s \<longleftrightarrow> take 7 s = ''sha256:'' \<and> length s = 71 \<and> list_all is_hex (drop 7 s)"

definition require_hash :: "'d jsval \<Rightarrow> string \<Rightarrow> string result" where
  "require_hash value field =
     (case require_string value field of
        Inl e \<Rightarrow> Fail_at INVALID_HASH field
      | Inr s \<Rightarrow> if hash_text s then Ok s else Fail_at INVALID_HASH field)"

definition require_finite_integer :: "'d jsval \<Rightarrow> string \<Rightarrow> int \<Rightarrow> int result" where
  "require_finite_integer value field minimum =
     (case value of
        JInt n \<Rightarrow> if is_safe_integer n \<and> minimum \<le> n then Ok n else Fail_at INVALID_VALUE field
      | _ \<Rightarrow> Fail_at INVALID_VALUE field)"

definition required ::
  "'d jsval \<Rightarrow> string \<Rightarrow> ('d jsval \<Rightarrow> string \<Rightarrow> 'a result) \<Rightarrow> 'a result" where
  "required r field parser =
     (if \<not> has_key r field then Fail_at INVALID_VALUE field else parser (get r field) field)"

subsection \<open>Planning input\<close>

text \<open>A \<open>DecimalValue\<close> is a record to \<open>isRecord\<close> but has a prototype of its own.\<close>

definition closed_record :: "'d jsval \<Rightarrow> string list \<Rightarrow> bool" where
  "closed_record value allowed \<longleftrightarrow>
     (case value of JObj kvs \<Rightarrow> (\<forall>key \<in> set (map fst kvs). key \<in> set allowed) | _ \<Rightarrow> False)"

definition planning_decimal :: "'d lib \<Rightarrow> 'd jsval \<Rightarrow> bool \<Rightarrow> 'd option \<Rightarrow> 'd result" where
  "planning_decimal L value positive maximum =
     (if \<not> is_decimal_value value \<and> (case value of JStr s \<Rightarrow> 128 < length s | _ \<Rightarrow> True)
      then Fail INVALID_PLAN
      else (case (case value of JDec d \<Rightarrow> Ok d | _ \<Rightarrow> dec_from_string L value) of
              Inl e \<Rightarrow> Fail INVALID_PLAN
            | Inr d \<Rightarrow>
                if is_negative L d \<or> positive \<and> \<not> is_positive L d \<or>
                   (case maximum of None \<Rightarrow> False | Some m \<Rightarrow> 0 < dec_compare L d m) \<or>
                   128 < length (dec_to_string L d)
                then Fail INVALID_PLAN else Ok d))"

text \<open>\<open>planningConstant\<close> throws on malformed text; it is applied to literals only.\<close>

definition planning_constant :: "'d lib \<Rightarrow> string \<Rightarrow> 'd" where
  "planning_constant L s =
     (case dec_from_string L (JStr s) of Inr d \<Rightarrow> d | Inl e \<Rightarrow> dec_zero L)"

definition bounded_list :: "'d jsval \<Rightarrow> nat \<Rightarrow> bool" where
  "bounded_list value maximum \<longleftrightarrow>
     (case value of JArr xs \<Rightarrow> xs \<noteq> [] \<and> length xs \<le> maximum | _ \<Rightarrow> False)"

definition text_order :: "string \<Rightarrow> string \<Rightarrow> int" where
  "text_order a b = (if a < b then -1 else if b < a then 1 else 0)"

subsection \<open>What the parsers accept\<close>

definition safe_text :: "string \<Rightarrow> bool" where
  "safe_text s \<longleftrightarrow> s \<noteq> [] \<and> \<not> list_ex is_control s"

lemma require_string_Ok [result_simps]: "require_string v f = Inr s \<longleftrightarrow> v = JStr s"
  by (auto simp: require_string_def split: jsval.splits)

lemma require_safe_text_Ok [result_simps]:
  "require_safe_text v f = Inr s \<longleftrightarrow> v = JStr s \<and> safe_text s"
  by (auto simp: require_safe_text_def safe_text_def result_simps)

lemma require_identifier_Ok [result_simps]:
  "require_identifier v f = Inr s \<longleftrightarrow> v = JStr s \<and> safe_identifier s"
  by (auto simp: require_identifier_def result_simps split: sum.splits)
    (auto simp: require_string_def)

lemma require_hash_Ok [result_simps]: "require_hash v f = Inr s \<longleftrightarrow> v = JStr s \<and> hash_text s"
  by (auto simp: require_hash_def result_simps split: sum.splits)
    (auto simp: require_string_def)

lemma require_finite_integer_Ok [result_simps]:
  "require_finite_integer v f m = Inr n \<longleftrightarrow> v = JInt n \<and> is_safe_integer n \<and> m \<le> n"
  by (auto simp: require_finite_integer_def split: jsval.splits)

text \<open>The parsers on values of the right type.\<close>

lemma parser_simps [simp]:
  "require_string (JStr s) f = Ok s"
  "require_safe_text (JStr s) f = (if safe_text s then Ok s else Fail_at INVALID_TEXT f)"
  "require_identifier (JStr s) f = (if safe_identifier s then Ok s else Fail_at INVALID_IDENTIFIER f)"
  "require_hash (JStr s) f = (if hash_text s then Ok s else Fail_at INVALID_HASH f)"
  "require_finite_integer (JInt n) f m =
    (if is_safe_integer n \<and> m \<le> n then Ok n else Fail_at INVALID_VALUE f)"
  by (simp_all add: require_string_def require_safe_text_def require_identifier_def require_hash_def
      require_finite_integer_def safe_text_def)

lemma required_Ok [result_simps]:
  "required r f p = Inr x \<longleftrightarrow> has_key r f \<and> p (get r f) f = Inr x"
  by (auto simp: required_def)

lemma closed_record_iff: "closed_record v allowed \<longleftrightarrow> (\<exists>kvs. v = JObj kvs \<and> fst ` set kvs \<subseteq> set allowed)"
  by (auto simp: closed_record_def split: jsval.splits)

lemma bounded_list_iff: "bounded_list v n \<longleftrightarrow> (\<exists>xs. v = JArr xs \<and> xs \<noteq> [] \<and> length xs \<le> n)"
  by (auto simp: bounded_list_def split: jsval.splits)

text \<open>Text accepted as an identifier is safe text, so the two never disagree.\<close>

lemma alphanumeric_not_control: "is_alphanumeric c \<Longrightarrow> \<not> is_control c"
  by (auto simp: is_alphanumeric_def is_control_def is_digit_def)

lemma identifier_safe_text: "safe_identifier s \<Longrightarrow> safe_text s"
proof (cases s)
  case (Cons c cs)
  assume s: "safe_identifier s"
  have "\<not> is_control d" if "d \<in> set cs" for d
  proof -
    have "is_alphanumeric d \<or> d \<in> {CHR ''.'', CHR ''_'', CHR '':'', CHR ''-''}"
      using s that by (simp add: Cons safe_identifier_def list_all_iff)
    then show ?thesis by (auto simp: alphanumeric_not_control) (auto simp: is_control_def)
  qed
  then show ?thesis
    using s by (auto simp: Cons safe_identifier_def safe_text_def list_ex_iff alphanumeric_not_control)
qed (simp add: safe_identifier_def)

context big_decimal
begin

lemma planning_decimal_Ok:
  assumes "planning_decimal L w positive m = Inr d"
  shows "0 \<le> v d" "positive \<Longrightarrow> 0 < v d" "m = Some b \<Longrightarrow> v d \<le> v b"
    "length (dec_to_string L d) \<le> 128"
  using assms
  by (auto simp: planning_decimal_def sign_iffs compare_iffs not_less
      split: if_splits sum.splits option.splits)

lemma planning_constant_value: "matches_decimal s \<Longrightarrow> v (planning_constant L s) = decimal_value s"
  by (auto simp: planning_constant_def dest!: new_matches simp: dec_from_string_def)

end

end
