(* ===== verification/Canonical.thy ===== *)
theory Canonical
  imports Validation "HOL-Library.Multiset"
begin

text \<open>
  \<open>domain/identity/canonical-serialization.ts\<close> and \<open>canonicalOrder\<close> of
  \<open>planning-validation.ts\<close>: the bytes that are hashed to identify plans, policies and evidence.
  A \<open>jsval\<close> is a tree, so the guard against cycles has no counterpart.

  Shown here: the bytes are those of an abstract value (fields sorted by key, decimals by
  their canonical text), and rendering abstract values is injective, so equal bytes mean
  equal data and equal data, in whatever order its fields were written, has equal bytes.
\<close>

subsection \<open>Serialization\<close>

definition json_char :: "char \<Rightarrow> string" where
  "json_char c =
     (if c = CHR 0x22 then [CHR 0x5C, CHR 0x22]
      else if c = CHR 0x5C then [CHR 0x5C, CHR 0x5C]
      else if c = CHR 0x08 then [CHR 0x5C, CHR ''b'']
      else if c = CHR 0x0C then [CHR 0x5C, CHR ''f'']
      else if c = CHR 0x0A then [CHR 0x5C, CHR ''n'']
      else if c = CHR 0x0D then [CHR 0x5C, CHR ''r'']
      else if c = CHR 0x09 then [CHR 0x5C, CHR ''t'']
      else if code_of c < 32
      then [CHR 0x5C, CHR ''u'', CHR ''0'', CHR ''0'', hex_char (code_of c div 16), hex_char (code_of c mod 16)]
      else [c])"

definition json_string :: "string \<Rightarrow> string" where
  "json_string s = CHR 0x22 # concat (map json_char s) @ [CHR 0x22]"

definition int_text :: "int \<Rightarrow> string" where
  "int_text n = (if n < 0 then CHR ''-'' # digits_of (- n) else digits_of n)"

primrec join_with :: "string \<Rightarrow> string list \<Rightarrow> string" where
  "join_with sep [] = []"
| "join_with sep (x # xs) = (if xs = [] then x else x @ sep @ join_with sep xs)"

lemma traverse_cong [fundef_cong]:
  "xs = ys \<Longrightarrow> (\<And>x. x \<in> set ys \<Longrightarrow> f x = g x) \<Longrightarrow> traverse f xs = traverse g ys"
  by (induction ys arbitrary: xs) auto

fun adjacent_repeat :: "string list \<Rightarrow> bool" where
  "adjacent_repeat (k # l # ks) \<longleftrightarrow> k = l \<or> adjacent_repeat (l # ks)"
| "adjacent_repeat ks \<longleftrightarrow> False"

lemma entry_size: "(k, x) \<in> set kvs \<Longrightarrow> size x < Suc (size_list (size_prod (\<lambda>_. 0) size) kvs)"
  by (induction kvs) (auto simp: less_Suc_eq_le intro: order.trans)

text \<open>
  \<open>nfc\<close> is \<open>normalize("NFC")\<close>: any function on texts here, since everything below holds for all of
  them. Two keys that normalize to the same one collide.
\<close>

function serialize_value :: "(string \<Rightarrow> string) \<Rightarrow> 'd lib \<Rightarrow> 'd jsval \<Rightarrow> string result" where
  "serialize_value nfc L JNull = Ok ''null''"
| "serialize_value nfc L (JDec d) = Ok (CHR ''{'' # json_string ''$decimal'' @ CHR '':'' # json_string (dec_to_string L d) @ ''}'')"
| "serialize_value nfc L (JStr s) = Ok (json_string (nfc s))"
| "serialize_value nfc L (JBool b) = Ok (if b then ''true'' else ''false'')"
| "serialize_value nfc L (JInt n) = (if is_safe_integer n then Ok (int_text n) else Fail INVALID_PLAN)"
| "serialize_value nfc L JFloat = Fail INVALID_PLAN"
| "serialize_value nfc L JUndef = Fail INVALID_PLAN"
| "serialize_value nfc L (JArr xs) =
     rbind (traverse (serialize_value nfc L) xs) (\<lambda>parts. Ok (CHR ''['' # join_with '','' parts @ '']''))"
| "serialize_value nfc L (JObj kvs) =
     (let entries = sort_key fst (map (\<lambda>e. (nfc (fst e), snd e)) kvs) in
      if ''$decimal'' \<in> set (map fst entries) then Fail INVALID_PLAN
      else if adjacent_repeat (map fst entries) then Fail INVALID_PLAN
      else rbind
        (traverse (\<lambda>entry. rbind (serialize_value nfc L (snd entry))
            (\<lambda>part. Ok (json_string (fst entry) @ CHR '':'' # part))) entries)
        (\<lambda>parts. Ok (CHR ''{'' # join_with '','' parts @ ''}'')))"
  by pat_completeness auto
termination
proof (relation "measure (\<lambda>(nfc, L, v). size v)")
  show "((nfc, L, snd entry), nfc, L, JObj kvs) \<in> measure (\<lambda>(nfc, L, v). size v)"
    if "entries = sort_key fst (map (\<lambda>e. (nfc (fst e), snd e)) kvs)" "entry \<in> set entries"
    for nfc :: "string \<Rightarrow> string" and L :: "'d lib" and kvs entries entry
    using that entry_size [of _ "snd entry" kvs] by auto
qed (auto simp: less_Suc_eq_le size_list_estimation')

definition canonical_serialize :: "'d lib \<Rightarrow> 'd jsval \<Rightarrow> string result" where
  "canonical_serialize L value = serialize_value nfc_latin1 L value"

definition hash_canonical :: "'d lib \<Rightarrow> 'd jsval \<Rightarrow> string result" where
  "hash_canonical L value =
     (case canonical_serialize L value of
        Inl e \<Rightarrow> Inl e | Inr s \<Rightarrow> Ok (''sha256:'' @ sha256_hex L s))"

primrec drop_repeats :: "'a option \<Rightarrow> ('a \<times> 'b) list \<Rightarrow> ('a \<times> 'b) list" where
  "drop_repeats previous [] = []"
| "drop_repeats previous (r # rs) =
     (if Some (fst r) = previous then drop_repeats (Some (fst r)) rs
      else r # drop_repeats (Some (fst r)) rs)"

text \<open>Items are compared by their bytes; the first of equal rows is kept.\<close>

definition canonical_order :: "'d lib \<Rightarrow> ('a \<Rightarrow> 'd jsval) \<Rightarrow> 'a list \<Rightarrow> 'a list result" where
  "canonical_order L to_js items =
     rbind (traverse (\<lambda>item. rbind (canonical_serialize L (to_js item)) (\<lambda>bytes. Ok (bytes, item))) items)
       (\<lambda>rows. Ok (map snd (drop_repeats None (sort_key fst rows))))"

subsection \<open>Abstract values\<close>

text \<open>The data the bytes stand for: decimals by canonical text, fields sorted by key.\<close>

datatype cval =
    CNull | CBool bool | CInt int | CText string | CDec string
  | CArr "cval list" | CObj "(string \<times> cval) list"

fun serializable :: "'d jsval \<Rightarrow> bool" where
  "serializable (JInt n) \<longleftrightarrow> is_safe_integer n"
| "serializable JFloat \<longleftrightarrow> False"
| "serializable JUndef \<longleftrightarrow> False"
| "serializable (JArr xs) \<longleftrightarrow> (\<forall>x \<in> set xs. serializable x)"
| "serializable (JObj kvs) \<longleftrightarrow>
     distinct (map fst kvs) \<and> ''$decimal'' \<notin> set (map fst kvs) \<and> (\<forall>e \<in> set kvs. serializable (snd e))"
| "serializable v \<longleftrightarrow> True"

text \<open>The data with its texts and keys normalized.\<close>

fun normalized :: "(string \<Rightarrow> string) \<Rightarrow> 'd jsval \<Rightarrow> 'd jsval" where
  "normalized nfc (JStr s) = JStr (nfc s)"
| "normalized nfc (JArr xs) = JArr (map (normalized nfc) xs)"
| "normalized nfc (JObj kvs) = JObj (map (\<lambda>e. (nfc (fst e), normalized nfc (snd e))) kvs)"
| "normalized nfc v = v"

function abstract_value :: "'d lib \<Rightarrow> 'd jsval \<Rightarrow> cval" where
  "abstract_value L JNull = CNull"
| "abstract_value L JUndef = CNull"
| "abstract_value L JFloat = CNull"
| "abstract_value L (JBool b) = CBool b"
| "abstract_value L (JInt n) = CInt n"
| "abstract_value L (JStr s) = CText s"
| "abstract_value L (JDec d) = CDec (dec_to_string L d)"
| "abstract_value L (JArr xs) = CArr (map (abstract_value L) xs)"
| "abstract_value L (JObj kvs) =
     CObj (map (\<lambda>e. (fst e, abstract_value L (snd e))) (sort_key fst kvs))"
  by pat_completeness auto
termination
proof (relation "measure (\<lambda>(L, v). size v)")
  show "((L, snd e), L, JObj kvs) \<in> measure (\<lambda>(L, v). size v)"
    if "e \<in> set (sort_key fst kvs)" for L :: "'d lib" and kvs e
    using that entry_size [of "fst e" "snd e" kvs] by simp
qed (auto simp: less_Suc_eq_le size_list_estimation')

fun render :: "cval \<Rightarrow> string" where
  "render CNull = ''null''"
| "render (CBool b) = (if b then ''true'' else ''false'')"
| "render (CInt n) = int_text n"
| "render (CText s) = json_string s"
| "render (CDec s) = CHR ''{'' # json_string ''$decimal'' @ CHR '':'' # json_string s @ ''}''"
| "render (CArr cs) = CHR ''['' # join_with '','' (map render cs) @ '']''"
| "render (CObj es) =
     CHR ''{'' # join_with '','' (map (\<lambda>e. json_string (fst e) @ CHR '':'' # render (snd e)) es) @ ''}''"

lemma adjacent_repeat_sorted: "sorted ks \<Longrightarrow> adjacent_repeat ks \<longleftrightarrow> \<not> distinct ks"
proof (induction ks rule: adjacent_repeat.induct)
  case (1 k l ks)
  then show ?case by (auto simp: order.antisym)
qed simp_all

lemma traverse_total:
  "traverse f xs = (if \<forall>x \<in> set xs. P x then Ok (map g xs) else Fail c)"
  if "\<And>x. x \<in> set xs \<Longrightarrow> f x = (if P x then Ok (g x) else Fail c)"
  using that by (induction xs) auto

lemma sort_key_mapped: "sort_key f (map g xs) = map g (sort_key (f \<circ> g) xs)"
proof -
  have "insort_key f (g x) (map g ys) = map g (insort_key (f \<circ> g) x ys)" for x ys by (induction ys) auto
  then show ?thesis by (induction xs) auto
qed

lemma sort_key_values: "sort_key fst (map (\<lambda>e. (f (fst e), g (snd e))) kvs) =
    map (\<lambda>e. (fst e, g (snd e))) (sort_key fst (map (\<lambda>e. (f (fst e), snd e)) kvs))"
  using sort_key_mapped [of fst "\<lambda>e. (fst e, g (snd e))" "map (\<lambda>e. (f (fst e), snd e)) kvs"] by (simp add: comp_def)

text \<open>
  The serializer gives the rendering of the abstract value of the normalized data, and refuses
  exactly what is not serializable after normalization.
\<close>

lemma serialize_refines:
  "serialize_value nfc L v = (if serializable (normalized nfc v) then Ok (render (abstract_value L (normalized nfc v)))
     else Fail INVALID_PLAN)"
proof (induction nfc L v rule: serialize_value.induct)
  case (8 nfc L xs)
  then have "traverse (serialize_value nfc L) xs =
    (if \<forall>x \<in> set xs. serializable (normalized nfc x)
     then Ok (map (\<lambda>x. render (abstract_value L (normalized nfc x))) xs) else Fail INVALID_PLAN)"
    by (intro traverse_total) auto
  then show ?case by (simp add: comp_def)
next
  case (9 nfc L kvs)
  let ?entries = "sort_key fst (map (\<lambda>e. (nfc (fst e), snd e)) kvs)" and ?keys = "map (\<lambda>e. nfc (fst e)) kvs"
  have keys: "set (map fst ?entries) = set ?keys" "distinct (map fst ?entries) = distinct ?keys"
    by (simp add: comp_def image_image, rule mset_eq_imp_distinct_iff, simp add: comp_def image_mset.compositionality)
  have bad: "adjacent_repeat (map fst ?entries) \<longleftrightarrow> \<not> distinct ?keys"
    using keys(2) by (subst adjacent_repeat_sorted) simp_all
  have sorted: "sort_key fst (map (\<lambda>e. (nfc (fst e), normalized nfc (snd e))) kvs) =
      map (\<lambda>e. (fst e, normalized nfc (snd e))) ?entries"
    by (rule sort_key_values)
  have each: "(\<forall>e \<in> set ?entries. P (snd e)) \<longleftrightarrow> (\<forall>e \<in> set kvs. P (snd e))" for P by simp
  show ?case
  proof (cases "''$decimal'' \<in> set ?keys \<or> \<not> distinct ?keys")
    case True
    then show ?thesis using bad keys(1) by (auto simp: Let_def comp_def image_image)
  next
    case False
    then have "traverse (\<lambda>entry. rbind (serialize_value nfc L (snd entry))
        (\<lambda>part. Ok (json_string (fst entry) @ CHR '':'' # part))) ?entries =
      (if \<forall>e \<in> set ?entries. serializable (normalized nfc (snd e))
       then Ok (map (\<lambda>e. json_string (fst e) @ CHR '':'' # render (abstract_value L (normalized nfc (snd e)))) ?entries)
       else Fail INVALID_PLAN)"
      using 9 bad keys by (intro traverse_total) auto
    then show ?thesis
      using False bad keys(1) unfolding each
      by (auto simp: comp_def Let_def sorted image_image)
  qed
qed simp_all

lemma normalized_identity: "\<forall>s. nfc s = s \<Longrightarrow> normalized nfc v = v"
  by (induction nfc v rule: normalized.induct) (auto intro: map_idI)

lemma normalized_latin1 [simp]: "normalized nfc_latin1 v = v"
  by (rule normalized_identity) simp

lemma canonical_serialize_refines:
  "canonical_serialize L v = (if serializable v then Ok (render (abstract_value L v)) else Fail INVALID_PLAN)"
  by (simp add: canonical_serialize_def serialize_refines)

subsection \<open>Rendering is injective\<close>

text \<open>What can follow a value inside an array or an object, or at the end.\<close>

definition stops :: "string \<Rightarrow> bool" where
  "stops r \<longleftrightarrow> (r = [] \<or> hd r \<in> {CHR '','', CHR '']'', CHR ''}''})"

lemma stops_simps [simp]: "stops []" "stops (CHR '','' # r)" "stops (CHR '']'' # r)" "stops (CHR ''}'' # r)"
  by (simp_all add: stops_def)

definition hex_digit_value :: "char \<Rightarrow> int" where
  "hex_digit_value h = (if is_digit h then digit_val h else code_of h - 87)"

definition unescape :: "string \<Rightarrow> (char \<times> string) option" where
  "unescape s =
     (case s of
        c # r \<Rightarrow>
          if c \<noteq> CHR 0x5C then Some (c, r)
          else (case r of
             d # q \<Rightarrow>
               if d = CHR ''b'' then Some (CHR 0x08, q) else if d = CHR ''f'' then Some (CHR 0x0C, q)
               else if d = CHR ''n'' then Some (CHR 0x0A, q) else if d = CHR ''r'' then Some (CHR 0x0D, q)
               else if d = CHR ''t'' then Some (CHR 0x09, q)
               else if d = CHR ''u'' then
                 Some (char_of (hex_digit_value (q ! 2) * 16 + hex_digit_value (q ! 3)), drop 4 q)
               else Some (d, q)
           | [] \<Rightarrow> None)
      | [] \<Rightarrow> None)"

lemma hex_value: "0 \<le> n \<Longrightarrow> n < 16 \<Longrightarrow> hex_digit_value (hex_char n) = n"
  by (auto simp: hex_digit_value_def hex_char_def digit_simps) (auto simp: is_digit_def)

lemma code_of_nonneg: "0 \<le> code_of c"
  by (metis of_nat_0_le_iff of_nat_of_char)

lemma unescape_json_char: "unescape (json_char c @ r) = Some (c, r)"
proof -
  consider (special) "c \<in> {CHR 0x22, CHR 0x5C, CHR 0x08, CHR 0x0C, CHR 0x0A, CHR 0x0D, CHR 0x09}"
    | (control) "c \<notin> {CHR 0x22, CHR 0x5C, CHR 0x08, CHR 0x0C, CHR 0x0A, CHR 0x0D, CHR 0x09}" "code_of c < 32"
    | (plain) "c \<notin> {CHR 0x22, CHR 0x5C, CHR 0x08, CHR 0x0C, CHR 0x0A, CHR 0x0D, CHR 0x09}" "\<not> code_of c < 32"
    by blast
  then show ?thesis
  proof cases
    case special
    then show ?thesis unfolding insert_iff empty_iff
      by (elim disjE FalseE) (simp_all add: json_char_def unescape_def)
  next
    case control
    have j: "json_char c = [CHR 0x5C, CHR ''u'', CHR ''0'', CHR ''0'', hex_char (code_of c div 16), hex_char (code_of c mod 16)]"
      using control by (simp only: json_char_def insert_iff empty_iff de_Morgan_disj simp_thms if_False if_True)
    have h: "0 \<le> code_of c div 16" "code_of c div 16 < 16" "0 \<le> code_of c mod 16" "code_of c mod 16 < 16"
      using control(2) code_of_nonneg [of c] by simp_all
    have "code_of c div 16 * 16 + code_of c mod 16 = code_of c" by simp
    then show ?thesis
      unfolding j unescape_def Let_def using hex_value [OF h(1,2)] hex_value [OF h(3,4)] by simp
  next
    case plain
    have j: "json_char c = [c]"
      using plain by (simp only: json_char_def insert_iff empty_iff de_Morgan_disj simp_thms if_False)
    have "c \<noteq> CHR 0x5C" using plain(1) by blast
    then show ?thesis unfolding j unescape_def by simp
  qed
qed

lemma json_char_inj: "json_char c @ r = json_char d @ s \<Longrightarrow> c = d \<and> r = s"
  by (metis option.inject prod.inject unescape_json_char)

lemma json_char_not_quote: "json_char c @ r \<noteq> CHR 0x22 # s"
proof
  assume eq: "json_char c @ r = CHR 0x22 # s"
  have "unescape (CHR 0x22 # s) = Some (CHR 0x22, s)" by (simp add: unescape_def)
  then have "c = CHR 0x22" using unescape_json_char [of c r] eq by simp
  then show False using eq by (simp add: json_char_def)
qed

lemma json_body_inj:
  "concat (map json_char a) @ CHR 0x22 # r = concat (map json_char b) @ CHR 0x22 # s \<Longrightarrow> a = b \<and> r = s"
proof (induction a arbitrary: b)
  case Nil
  show ?case
  proof (cases b)
    case Nil
    then show ?thesis using Nil.prems by simp
  next
    case (Cons d b')
    then show ?thesis
      using Nil.prems json_char_not_quote [of d "concat (map json_char b') @ CHR 0x22 # s" r] by simp
  qed
next
  case (Cons c a)
  show ?case
  proof (cases b)
    case Nil
    then show ?thesis
      using Cons.prems json_char_not_quote [of c "concat (map json_char a) @ CHR 0x22 # r" s] by simp
  next
    case (Cons d b')
    have "c = d \<and> concat (map json_char a) @ CHR 0x22 # r = concat (map json_char b') @ CHR 0x22 # s"
      using Cons.prems Cons by (intro json_char_inj) simp
    then show ?thesis using Cons.IH Cons by simp
  qed
qed

lemma json_string_inj: "json_string a @ r = json_string b @ s \<Longrightarrow> a = b \<and> r = s"
  by (rule json_body_inj) (simp add: json_string_def)

lemma stops_not_digit: "stops r \<Longrightarrow> r = [] \<or> \<not> is_digit (hd r)"
  by (auto simp: stops_def is_digit_def)

lemma digits_append_inj:
  assumes "list_all is_digit a" "list_all is_digit b" "stops r" "stops s" "a @ r = b @ s"
  shows "a = b \<and> r = s"
proof -
  have "takeWhile is_digit (x @ y) = x \<and> dropWhile is_digit (x @ y) = y"
    if "list_all is_digit x" "stops y" for x y
    using that stops_not_digit [of y] takeWhile_append_stop [of is_digit x "hd y" "tl y"]
      takeWhile_all [of is_digit x] by (cases y) auto
  then show ?thesis using assms by metis
qed

lemma int_text_inj:
  assumes "int_text m @ r = int_text n @ s" "stops r" "stops s"
  shows "m = n \<and> r = s"
proof -
  have pos: "list_all is_digit (digits_of \<bar>k\<bar>)" "digits_value (digits_of \<bar>k\<bar>) = \<bar>k\<bar>" for k
    by (simp_all add: digit_simps)
  have first: "digits_of \<bar>k\<bar> @ x \<noteq> CHR ''-'' # y" for k x y
    using pos(1) [of k] by (cases "digits_of \<bar>k\<bar>") auto
  have t: "int_text k = (if k < 0 then CHR ''-'' # digits_of \<bar>k\<bar> else digits_of \<bar>k\<bar>)" for k
    by (simp add: int_text_def)
  have sgn: "m < 0 \<longleftrightarrow> n < 0"
  proof (rule ccontr)
    assume "\<not> (m < 0 \<longleftrightarrow> n < 0)"
    then consider "m < 0" "\<not> n < 0" | "\<not> m < 0" "n < 0" by blast
    then show False
    proof cases
      case 1
      then show False using assms(1) first [of n s "digits_of \<bar>m\<bar> @ r"] unfolding t by simp
    next
      case 2
      then show False using assms(1) first [of m r "digits_of \<bar>n\<bar> @ s"] unfolding t by simp
    qed
  qed
  then have "digits_of \<bar>m\<bar> @ r = digits_of \<bar>n\<bar> @ s" using assms(1) unfolding t by (simp split: if_splits)
  then have "digits_of \<bar>m\<bar> = digits_of \<bar>n\<bar> \<and> r = s" using digits_append_inj pos(1) assms(2,3) by blast
  then show ?thesis using pos(2) [of m] pos(2) [of n] sgn by (metis abs_of_neg abs_of_nonneg neg_equal_iff_equal not_less)
qed

text \<open>Abstract values in which no object uses the reserved key.\<close>

fun unreserved :: "cval \<Rightarrow> bool" where
  "unreserved (CArr cs) \<longleftrightarrow> (\<forall>c \<in> set cs. unreserved c)"
| "unreserved (CObj es) \<longleftrightarrow> ''$decimal'' \<notin> set (map fst es) \<and> (\<forall>e \<in> set es. unreserved (snd e))"
| "unreserved c \<longleftrightarrow> True"

lemma join_with_Cons: "join_with sep (x # xs) = x @ concat (map (\<lambda>y. sep @ y) xs)"
  by (induction xs arbitrary: x) auto

declare join_with.simps(2) [simp del] join_with_Cons [simp]

text \<open>Elements that are told apart before a stop are told apart in a comma-separated list.\<close>

lemma items_inj:
  assumes "\<And>c d r s. c \<in> set cs \<Longrightarrow> d \<in> set ds \<Longrightarrow> stops r \<Longrightarrow> stops s \<Longrightarrow> f c @ r = f d @ s \<Longrightarrow> c = d \<and> r = s"
    and "z = CHR '']'' \<or> z = CHR ''}''"
    and "concat (map (\<lambda>c. '','' @ f c) cs) @ z # r = concat (map (\<lambda>c. '','' @ f c) ds) @ z # s"
  shows "cs = ds \<and> r = s"
  using assms(1,3)
proof (induction cs arbitrary: ds)
  case Nil
  then show ?case using assms(2) by (cases ds) auto
next
  case (Cons c cs)
  obtain d ds' where ds: "ds = d # ds'" using Cons.prems(2) assms(2) by (cases ds) auto
  have stop: "stops (concat (map (\<lambda>c. '','' @ f c) xs) @ z # q)" for xs q
    using assms(2) by (cases xs) auto
  have "f c @ concat (map (\<lambda>c. '','' @ f c) cs) @ z # r = f d @ concat (map (\<lambda>c. '','' @ f c) ds') @ z # s"
    using Cons.prems(2) by (simp add: ds)
  then have "c = d \<and> concat (map (\<lambda>c. '','' @ f c) cs) @ z # r = concat (map (\<lambda>c. '','' @ f c) ds') @ z # s"
    by (intro Cons.prems(1) stop) (simp_all add: ds)
  moreover have "cs = ds' \<and> r = s" if "concat (map (\<lambda>c. '','' @ f c) cs) @ z # r = concat (map (\<lambda>c. '','' @ f c) ds') @ z # s"
    using that by (intro Cons.IH Cons.prems(1)) (simp_all add: ds)
  ultimately show ?case by (simp add: ds)
qed

lemma joined_inj:
  assumes "\<And>c d r s. c \<in> set cs \<Longrightarrow> d \<in> set ds \<Longrightarrow> stops r \<Longrightarrow> stops s \<Longrightarrow> f c @ r = f d @ s \<Longrightarrow> c = d \<and> r = s"
    and "z = CHR '']'' \<or> z = CHR ''}''"
    and "\<And>c. \<exists>x y. f c = x # y \<and> x \<noteq> z"
    and "join_with '','' (map f cs) @ z # r = join_with '','' (map f ds) @ z # s"
  shows "cs = ds \<and> r = s"
proof (cases cs; cases ds)
  fix c cs' d ds' assume "cs = c # cs'" "ds = d # ds'"
  then have "concat (map (\<lambda>c. '','' @ f c) cs) @ z # r = concat (map (\<lambda>c. '','' @ f c) ds) @ z # s"
    using assms(4) by (simp add: comp_def)
  then show ?thesis using items_inj [OF assms(1,2)] by blast
next
  fix d ds' assume "cs = []" "ds = d # ds'"
  then show ?thesis using assms(3) [of d] assms(4) by auto
next
  fix c cs' assume "cs = c # cs'" "ds = []"
  then show ?thesis using assms(3) [of c] assms(4) by auto
qed (use assms(4) in simp)

lemma digits_of_first: "0 \<le> n \<Longrightarrow> \<exists>c r. digits_of n = c # r \<and> is_digit c"
  using digits_of_digits [of n] by (cases "digits_of n") auto

lemma int_text_first: "\<exists>c r. int_text n = c # r \<and> (c = CHR ''-'' \<or> is_digit c)"
  using digits_of_first [of n] digits_of_first [of "- n"] by (auto simp: int_text_def)

text \<open>The first character of a rendering tells its kind, except that decimals and objects share one.\<close>

fun kind_char :: "cval \<Rightarrow> char \<Rightarrow> bool" where
  "kind_char CNull c \<longleftrightarrow> c = CHR ''n''"
| "kind_char (CBool b) c \<longleftrightarrow> c = (if b then CHR ''t'' else CHR ''f'')"
| "kind_char (CInt n) c \<longleftrightarrow> c = CHR ''-'' \<or> is_digit c"
| "kind_char (CText s) c \<longleftrightarrow> c = CHR 0x22"
| "kind_char (CDec s) c \<longleftrightarrow> c = CHR ''{''"
| "kind_char (CArr cs) c \<longleftrightarrow> c = CHR ''[''"
| "kind_char (CObj es) c \<longleftrightarrow> c = CHR ''{''"

lemma render_first: "\<exists>x y. render c = x # y \<and> kind_char c x"
  using int_text_first by (cases c) (auto simp: json_string_def)

lemma kind_char_stops: "kind_char c x \<Longrightarrow> x \<noteq> CHR '']'' \<and> x \<noteq> CHR ''}''"
  by (cases c) (auto simp: is_digit_def)

lemma render_kind: "render c @ r = render d @ s \<Longrightarrow> \<exists>x. kind_char c x \<and> kind_char d x"
  using render_first [of c] render_first [of d] by auto

lemma render_inj_stop:
  "unreserved c \<Longrightarrow> unreserved d \<Longrightarrow> stops r \<Longrightarrow> stops s \<Longrightarrow> render c @ r = render d @ s \<Longrightarrow> c = d \<and> r = s"
proof (induction c arbitrary: d r s rule: render.induct)
  case (3 n)
  then show ?case
  proof (cases d)
    case (CInt m)
    then show ?thesis using int_text_inj [of n r m s] 3 by simp
  qed (use render_kind [OF 3(5)] in \<open>auto simp: is_digit_def split: if_splits\<close>)
next
  case (4 t)
  then show ?case
  proof (cases d)
    case (CText u)
    then show ?thesis using json_string_inj [of t r u s] 4 by simp
  qed (use render_kind [OF 4(5)] in \<open>auto simp: is_digit_def split: if_splits\<close>)
next
  case (5 t)
  then show ?case
  proof (cases d)
    case (CDec u)
    have "json_string t @ CHR ''}'' # r = json_string u @ CHR ''}'' # s" using 5 CDec by simp
    from json_string_inj [OF this] show ?thesis using CDec by simp
  next
    case (CObj es)
    show ?thesis
    proof (cases es)
      case Nil
      then show ?thesis using 5(5) CObj by (simp add: json_string_def)
    next
      case (Cons e es')
      have "json_string ''$decimal'' @ CHR '':'' # json_string t @ CHR ''}'' # r =
        json_string (fst e) @ CHR '':'' # render (snd e) @
          concat (map (\<lambda>e. CHR '','' # json_string (fst e) @ CHR '':'' # render (snd e)) es') @ CHR ''}'' # s"
        using 5(5) CObj Cons by (simp add: comp_def)
      from json_string_inj [OF this] show ?thesis using 5(2) CObj Cons by auto
    qed
  qed (use render_kind [OF 5(5)] in \<open>auto simp: is_digit_def split: if_splits\<close>)
next
  case (6 cs)
  then show ?case
  proof (cases d)
    case (CArr ds)
    have "join_with '','' (map render cs) @ CHR '']'' # r = join_with '','' (map render ds) @ CHR '']'' # s"
      using 6(6) CArr by simp
    moreover have "\<exists>x y. render c = x # y \<and> x \<noteq> CHR '']''" for c
      using render_first [of c] kind_char_stops by blast
    moreover have "c = d' \<and> r' = s'" if "c \<in> set cs" "d' \<in> set ds" "stops r'" "stops s'"
      "render c @ r' = render d' @ s'" for c d' r' s'
      using 6(1) [of c d' r' s'] that 6(2,3) CArr by simp
    ultimately have "cs = ds \<and> r = s" by (intro joined_inj [where f = render and z = "CHR '']''"]) blast+
    then show ?thesis using CArr by simp
  qed (use render_kind [OF 6(6)] in \<open>auto simp: is_digit_def split: if_splits\<close>)
next
  case (7 es)
  let ?f = "\<lambda>e. json_string (fst e) @ CHR '':'' # render (snd e)"
  show ?case
  proof (cases d)
    case (CObj fs)
    have "join_with '','' (map ?f es) @ CHR ''}'' # r = join_with '','' (map ?f fs) @ CHR ''}'' # s"
      using 7(6) CObj by simp
    moreover have "\<exists>x y. ?f e = x # y \<and> x \<noteq> CHR ''}''" for e
      by (simp add: json_string_def)
    moreover have "e = e' \<and> r' = s'" if "e \<in> set es" "e' \<in> set fs" "stops r'" "stops s'"
      "?f e @ r' = ?f e' @ s'" for e e' r' s'
    proof -
      have "fst e = fst e'" "render (snd e) @ r' = render (snd e') @ s'"
        using json_string_inj [of "fst e" "CHR '':'' # render (snd e) @ r'" "fst e'"
          "CHR '':'' # render (snd e') @ s'"] that(5) by simp_all
      then show ?thesis using 7(1) [of e "snd e'" r' s'] that 7(2,3) CObj by (simp add: prod_eq_iff)
    qed
    ultimately have "es = fs \<and> r = s" by (intro joined_inj [where f = ?f and z = "CHR ''}''"]) blast+
    then show ?thesis using CObj by simp
  next
    case (CDec t)
    show ?thesis
    proof (cases es)
      case Nil
      then show ?thesis using 7(6) CDec by (simp add: json_string_def)
    next
      case (Cons e es')
      have "json_string (fst e) @ CHR '':'' # render (snd e) @
          concat (map (\<lambda>e. CHR '','' # ?f e) es') @ CHR ''}'' # r =
        json_string ''$decimal'' @ CHR '':'' # json_string t @ CHR ''}'' # s"
        using 7(6) CDec Cons by (simp add: comp_def)
      from json_string_inj [OF this] show ?thesis using 7(2) Cons by auto
    qed
  qed (use render_kind [OF 7(6)] in \<open>auto simp: is_digit_def split: if_splits\<close>)
next
  case 1
  then show ?case
    using render_kind [OF 1(5)] by (cases d) (auto simp: is_digit_def split: if_splits)
next
  case (2 b)
  then show ?case
    using render_kind [OF 2(5)] by (cases d) (auto simp: is_digit_def split: if_splits)
qed

lemma render_inj: "unreserved c \<Longrightarrow> unreserved d \<Longrightarrow> render c = render d \<Longrightarrow> c = d"
  using render_inj_stop [of c d "[]" "[]"] by simp

lemma serializable_unreserved: "serializable v \<Longrightarrow> unreserved (abstract_value L v)"
  by (induction L v rule: abstract_value.induct) auto

lemma filter_same: "filter (\<lambda>x. k = x) xs = replicate (count (mset xs) k) k"
  by (induction xs) auto

lemma filter_key:
  assumes "distinct (map fst kvs)" "k \<in> set kvs" "mset xs = mset kvs"
  shows "filter (\<lambda>x. fst k = fst x) xs = [k]"
proof -
  have inj: "inj_on fst (set kvs)" and "distinct kvs" using assms(1) by (simp_all add: distinct_map)
  have "set xs = set kvs" using assms(3) by (rule mset_eq_setD)
  then have "filter (\<lambda>x. fst k = fst x) xs = filter (\<lambda>x. k = x) xs"
    using inj assms(2) by (intro filter_cong) (auto simp: inj_on_def)
  moreover have "count (mset kvs) k = 1"
    using \<open>distinct kvs\<close> assms(2) by (metis distinct_count_atmost_1 set_mset_mset)
  ultimately show ?thesis using assms(3) by (simp add: filter_same)
qed

lemma sort_key_perm:
  assumes "mset kvs = mset kvs'" "distinct (map fst kvs)"
  shows "sort_key fst kvs = sort_key fst kvs'"
proof (rule properties_for_sort_key)
  show "mset (sort_key fst kvs') = mset kvs" using assms(1) by simp
  show "sorted (map fst (sort_key fst kvs'))" by simp
  fix k assume "k \<in> set (sort_key fst kvs')"
  then have "k \<in> set kvs" using mset_eq_setD [OF assms(1)] by simp
  then show "filter (\<lambda>x. fst k = fst x) (sort_key fst kvs') = filter (\<lambda>x. fst k = fst x) kvs"
    using filter_key [OF assms(2), of k "sort_key fst kvs'"] filter_key [OF assms(2), of k kvs] assms(1)
    by simp
qed

text \<open>
  Claim C37: canonical bytes identify data. Whatever the normalization of texts does, the serializer
  accepts exactly the inputs whose integers are safe, which hold no \<open>undefined\<close> or fraction, and
  whose objects have, after normalization, no reserved and no colliding keys; every other input
  fails with \<open>INVALID_PLAN\<close>. Two inputs have the same bytes exactly when both are accepted and
  hold the same data up to normalization: the same values in the same places, fields compared
  by normalized key, texts normalized and decimals by their canonical text.
\<close>

theorem canonical_bytes_identify_data:
  "((\<exists>bytes. serialize_value nfc L v = Ok bytes) \<longleftrightarrow> serializable (normalized nfc v)) \<and>
   (serialize_value nfc L v = Fail INVALID_PLAN \<longleftrightarrow> \<not> serializable (normalized nfc v)) \<and>
   ((\<exists>bytes. serialize_value nfc L v = Ok bytes \<and> serialize_value nfc L w = Ok bytes) \<longleftrightarrow>
     serializable (normalized nfc v) \<and> serializable (normalized nfc w) \<and>
     abstract_value L (normalized nfc v) = abstract_value L (normalized nfc w))"
  using render_inj [of "abstract_value L (normalized nfc v)" "abstract_value L (normalized nfc w)"]
    serializable_unreserved [of "normalized nfc v" L] serializable_unreserved [of "normalized nfc w" L]
  by (auto simp: serialize_refines)

text \<open>
  The hash of an object does not depend on the order in which its fields were written.
\<close>

theorem hash_independent_of_field_order:
  assumes "mset kvs = mset kvs'"
  shows "hash_canonical L (JObj kvs) = hash_canonical L (JObj kvs')"
proof -
  have d: "distinct (map fst kvs) = distinct (map fst kvs')"
    by (rule mset_eq_imp_distinct_iff) (use assms in simp)
  have s: "set kvs = set kvs'" using assms by (rule mset_eq_setD)
  have "serializable (JObj kvs) = serializable (JObj kvs')" by (simp add: d s)
  moreover have "abstract_value L (JObj kvs) = abstract_value L (JObj kvs')" if "serializable (JObj kvs)"
    using sort_key_perm [OF assms] that by simp
  ultimately show ?thesis
    unfolding hash_canonical_def canonical_serialize_refines
    by (cases "serializable (JObj kvs)") (simp_all del: serializable.simps abstract_value.simps)
qed

theorem hash_independent_of_field_order_witness:
  "hash_canonical ref_lib (JObj [(''b'', JInt 2), (''a'', JDec (SDec 150 2))]) =
   hash_canonical ref_lib (JObj [(''a'', JDec (SDec 150 2)), (''b'', JInt 2)])"
  by (rule hash_independent_of_field_order) simp

text \<open>Consequences the plan and the grid use.\<close>

lemma hash_canonical_Ok:
  "hash_canonical L v = Inr h \<longleftrightarrow>
    serializable v \<and> h = ''sha256:'' @ sha256_hex L (render (abstract_value L v))"
  by (auto simp: hash_canonical_def canonical_serialize_refines)

context host
begin

lemma hash_canonical_text: "hash_canonical L w = Inr h \<Longrightarrow> hash_text h"
  by (auto simp: hash_canonical_Ok hash_text_def sha_length sha_hex)

end

end
