(* ===== verification/Evidence.thy ===== *)
theory Evidence
  imports Canonical
begin

text \<open>
  \<open>domain/evidence/evidence-ref.ts\<close>, \<open>domain/capabilities/capability.ts\<close> and
  \<open>domain/capabilities/capability-proof.ts\<close>: references to evidence with a validity window, and
  observations of what an exchange account can do. The two \<open>WeakSet\<close>s that remember which
  observation objects the domain and an adapter produced are two fields of the record: the
  constructors set them, and a value built from plain data has them false.

  Shown here: freshness is exactly the half-open window from \<open>asOf\<close> for \<open>validForMs\<close>
  milliseconds; a trusted capability is supported, in scope, adapter-produced and fresh; and
  the status of a capability is supported only when nothing observed speaks against it.
\<close>

subsection \<open>Validity windows\<close>

text \<open>
  The contract of everything that is valid from one instant until just before another:
  evidence, approvals and clearances. \<open>good\<close> selects the values their constructors return.
\<close>

locale validity_window =
  fixes good :: "'a \<Rightarrow> bool" and valid_at :: "'a \<Rightarrow> string \<Rightarrow> bool"
    and opens :: "'a \<Rightarrow> int" and closes :: "'a \<Rightarrow> int"
  assumes valid_iff: "good x \<Longrightarrow> instant t e \<Longrightarrow> valid_at x t \<longleftrightarrow> opens x \<le> e \<and> e < closes x"
begin

lemma valid_convex:
  assumes "good x" "valid_at x s" "valid_at x u" "instant s a" "instant t b" "instant u c" "a \<le> b" "b \<le> c"
  shows "valid_at x t"
  using assms valid_iff [of x s a] valid_iff [of x t b] valid_iff [of x u c] by simp

lemma expired_stays:
  assumes "good x" "valid_at x s" "\<not> valid_at x t" "instant s a" "instant t b" "instant u c" "a \<le> b" "b \<le> c"
  shows "\<not> valid_at x u"
  using assms valid_iff [of x s a] valid_iff [of x t b] valid_iff [of x u c] by simp

lemma never_empty_before: "good x \<Longrightarrow> instant t e \<Longrightarrow> closes x \<le> e \<Longrightarrow> \<not> valid_at x t"
  using valid_iff [of x t e] by simp

end

subsection \<open>Evidence references\<close>

datatype evidence_kind =
    MarketSnapshot | MarketEvidenceBundle | LiquidationEvidenceBundle | AccountSnapshot
  | AccountEvidenceBundle | CapabilityProbe | RiskInput | ResearchArtifact

fun evidence_kind_text :: "evidence_kind \<Rightarrow> string" where
  "evidence_kind_text MarketSnapshot = ''market-snapshot''"
| "evidence_kind_text MarketEvidenceBundle = ''market-evidence-bundle''"
| "evidence_kind_text LiquidationEvidenceBundle = ''liquidation-evidence-bundle''"
| "evidence_kind_text AccountSnapshot = ''account-snapshot''"
| "evidence_kind_text AccountEvidenceBundle = ''account-evidence-bundle''"
| "evidence_kind_text CapabilityProbe = ''capability-probe''"
| "evidence_kind_text RiskInput = ''risk-input''"
| "evidence_kind_text ResearchArtifact = ''research-artifact''"

definition EVIDENCE_KINDS :: "evidence_kind list" where
  "EVIDENCE_KINDS = [MarketSnapshot, MarketEvidenceBundle, LiquidationEvidenceBundle, AccountSnapshot,
     AccountEvidenceBundle, CapabilityProbe, RiskInput, ResearchArtifact]"

text \<open>\<open>isEvidenceKind\<close>, returning the kind it recognises.\<close>

definition evidence_kind_of :: "'d jsval \<Rightarrow> evidence_kind option" where
  "evidence_kind_of value =
     (case value of JStr s \<Rightarrow> find (\<lambda>k. evidence_kind_text k = s) EVIDENCE_KINDS | _ \<Rightarrow> None)"

record evidence_ref =
  ev_kind :: evidence_kind
  ev_schemaVersion :: string
  ev_producer :: string
  ev_sourceId :: string
  ev_asOf :: string
  ev_validForMs :: int
  ev_contentHash :: string

record evidence_compatibility =
  ex_kind :: "evidence_kind option"
  ex_schemaVersion :: "string option"
  ex_producer :: "string option"
  ex_sourceId :: "string option"
  ex_contentHash :: "string option"

text \<open>The name of the first field that failed, from the list the error branch builds.\<close>

definition first_invalid :: "(string \<times> bool) list \<Rightarrow> string" where
  "first_invalid checks = (case find (\<lambda>c. \<not> snd c) checks of Some c \<Rightarrow> fst c | None \<Rightarrow> [])"

definition create_evidence_ref :: "'d jsval \<Rightarrow> evidence_ref result" where
  "create_evidence_ref input =
     (if \<not> is_record input then Fail INVALID_EVIDENCE
      else (case evidence_kind_of (get input ''kind'') of
        None \<Rightarrow> Fail_at INVALID_EVIDENCE ''kind''
      | Some kind \<Rightarrow>
          (let schemaVersion = require_safe_text (get input ''schemaVersion'') ''schemaVersion'';
               producer = require_safe_text (get input ''producer'') ''producer'';
               sourceId = require_safe_text (get input ''sourceId'') ''sourceId'';
               asOf = parse_utc_timestamp (get input ''asOf'');
               validForMs = require_finite_integer (get input ''validForMs'') ''validForMs'' 1;
               contentHash = require_hash (get input ''contentHash'') ''contentHash''
           in case (schemaVersion, producer, sourceId, asOf, validForMs, contentHash) of
                (Inr sv, Inr p, Inr s, Inr a, Inr n, Inr h) \<Rightarrow>
                  Ok \<lparr>ev_kind = kind, ev_schemaVersion = sv, ev_producer = p, ev_sourceId = s,
                    ev_asOf = a, ev_validForMs = n, ev_contentHash = h\<rparr>
              | _ \<Rightarrow> Fail_at INVALID_EVIDENCE (first_invalid
                  [(''schemaVersion'', is_ok schemaVersion), (''producer'', is_ok producer),
                   (''sourceId'', is_ok sourceId), (''asOf'', is_ok asOf),
                   (''validForMs'', is_ok validForMs), (''contentHash'', is_ok contentHash)]))))"

definition evidence_expires_at :: "evidence_ref \<Rightarrow> string result" where
  "evidence_expires_at ev =
     (case date_parse (ev_asOf ev) of
        None \<Rightarrow> Fail_at INVALID_TIMESTAMP ''epoch''
      | Some a \<Rightarrow> timestamp_from_epoch_ms (a + ev_validForMs ev))"

definition is_evidence_fresh :: "evidence_ref \<Rightarrow> string \<Rightarrow> bool" where
  "is_evidence_fresh ev now =
     (case evidence_expires_at ev of
        Inl e \<Rightarrow> False
      | Inr expiresAt \<Rightarrow>
          (case (date_parse now, date_parse (ev_asOf ev), date_parse expiresAt) of
             (Some n, Some a, Some x) \<Rightarrow> a \<le> n \<and> n < x | _ \<Rightarrow> False))"

definition require_fresh_evidence :: "evidence_ref list \<Rightarrow> string \<Rightarrow> evidence_ref list result" where
  "require_fresh_evidence evidence now =
     (case find (\<lambda>item. \<not> is_evidence_fresh item now) evidence of
        Some stale \<Rightarrow> Fail_at STALE_EVIDENCE (ev_sourceId stale)
      | None \<Rightarrow> Ok evidence)"

definition unset_or :: "'a option \<Rightarrow> 'a \<Rightarrow> bool" where
  "unset_or expected actual = (case expected of None \<Rightarrow> True | Some x \<Rightarrow> actual = x)"

definition require_compatible_evidence ::
  "evidence_ref \<Rightarrow> evidence_compatibility \<Rightarrow> evidence_ref result" where
  "require_compatible_evidence ev expected =
     (if unset_or (ex_kind expected) (ev_kind ev) \<and>
         unset_or (ex_schemaVersion expected) (ev_schemaVersion ev) \<and>
         unset_or (ex_producer expected) (ev_producer ev) \<and>
         unset_or (ex_sourceId expected) (ev_sourceId ev) \<and>
         unset_or (ex_contentHash expected) (ev_contentHash ev)
      then Ok ev else Fail INCOMPATIBLE_EVIDENCE)"

definition parse_evidence_list :: "'d jsval \<Rightarrow> evidence_ref list result" where
  "parse_evidence_list input =
     (case input of
        JArr items \<Rightarrow>
          if items = [] then Fail_at INVALID_EVIDENCE ''evidence'' else traverse create_evidence_ref items
      | _ \<Rightarrow> Fail_at INVALID_EVIDENCE ''evidence'')"

text \<open>An evidence reference as the plain object it is.\<close>

definition evidence_to_js :: "evidence_ref \<Rightarrow> 'd jsval" where
  "evidence_to_js ev = JObj
     [(''kind'', JStr (evidence_kind_text (ev_kind ev))), (''schemaVersion'', JStr (ev_schemaVersion ev)),
      (''producer'', JStr (ev_producer ev)), (''sourceId'', JStr (ev_sourceId ev)),
      (''asOf'', JStr (ev_asOf ev)), (''validForMs'', JInt (ev_validForMs ev)),
      (''contentHash'', JStr (ev_contentHash ev))]"

subsection \<open>Capabilities\<close>

datatype capability_state = Supported | Unsupported | Unknown

datatype position_mode = OneWay | Hedge

record capability_scope =
  sc_exchange :: string
  sc_environment :: string
  sc_category :: string
  sc_positionMode :: position_mode

record capability_requirement =
  rq_capability :: string
  rq_scope :: capability_scope

record capability_observation =
  cap_capability :: string
  cap_status :: capability_state
  cap_observedAt :: string
  cap_source :: string
  cap_evidence :: evidence_ref
  cap_scope :: capability_scope
  cap_produced :: bool
  cap_adapterProduced :: bool

definition position_mode_of :: "'d jsval \<Rightarrow> position_mode option" where
  "position_mode_of value =
     (case value of
        JStr s \<Rightarrow> if s = ''one-way'' then Some OneWay else if s = ''hedge'' then Some Hedge else None
      | _ \<Rightarrow> None)"

definition capability_status_of :: "'d jsval \<Rightarrow> capability_state option" where
  "capability_status_of value =
     (case value of
        JStr s \<Rightarrow> if s = ''supported'' then Some Supported
          else if s = ''unsupported'' then Some Unsupported
          else if s = ''unknown'' then Some Unknown else None
      | _ \<Rightarrow> None)"

definition parse_capability_scope :: "'d jsval \<Rightarrow> capability_scope result" where
  "parse_capability_scope input =
     (if \<not> is_record input then Fail INVALID_CAPABILITY
      else (case (require_identifier (get input ''exchange'') ''scope.exchange'',
                  require_identifier (get input ''environment'') ''scope.environment'',
                  require_identifier (get input ''category'') ''scope.category'',
                  position_mode_of (get input ''positionMode'')) of
              (Inr x, Inr e, Inr c, Some m) \<Rightarrow>
                Ok \<lparr>sc_exchange = x, sc_environment = e, sc_category = c, sc_positionMode = m\<rparr>
            | _ \<Rightarrow> Fail INVALID_CAPABILITY))"

definition scopes_equal :: "capability_scope \<Rightarrow> capability_scope \<Rightarrow> bool" where
  "scopes_equal left right \<longleftrightarrow>
     sc_exchange left = sc_exchange right \<and> sc_environment left = sc_environment right \<and>
     sc_category left = sc_category right \<and> sc_positionMode left = sc_positionMode right"

definition mark_capability_observation :: "capability_observation \<Rightarrow> capability_observation" where
  "mark_capability_observation ob = ob\<lparr>cap_produced := True\<rparr>"

definition is_produced_capability_observation :: "capability_observation \<Rightarrow> bool" where
  "is_produced_capability_observation ob = cap_produced ob"

definition mark_adapter_capability_observation :: "capability_observation \<Rightarrow> capability_observation" where
  "mark_adapter_capability_observation ob =
     (if cap_produced ob then ob\<lparr>cap_adapterProduced := True\<rparr> else ob)"

definition is_adapter_produced_capability_observation :: "capability_observation \<Rightarrow> bool" where
  "is_adapter_produced_capability_observation ob \<longleftrightarrow>
     is_produced_capability_observation ob \<and> cap_adapterProduced ob"

definition create_capability_observation :: "'d jsval \<Rightarrow> capability_observation result" where
  "create_capability_observation input =
     (if \<not> is_record input then Fail INVALID_CAPABILITY
      else (case (require_identifier (get input ''capability'') ''capability'',
                  require_safe_text (get input ''source'') ''source'',
                  parse_utc_timestamp (get input ''observedAt''),
                  create_evidence_ref (get input ''evidence''),
                  parse_capability_scope (get input ''scope''),
                  capability_status_of (get input ''status'')) of
              (Inr c, Inr s, Inr t, Inr ev, Inr sc, Some st) \<Rightarrow>
                if ev_kind ev \<noteq> CapabilityProbe then Fail INVALID_CAPABILITY
                else Ok (mark_capability_observation
                  \<lparr>cap_capability = c, cap_status = st, cap_observedAt = t, cap_source = s,
                   cap_evidence = ev, cap_scope = sc, cap_produced = False, cap_adapterProduced = False\<rparr>)
            | _ \<Rightarrow> Fail INVALID_CAPABILITY))"

definition create_adapter_capability_observation :: "'d jsval \<Rightarrow> capability_observation result" where
  "create_adapter_capability_observation input =
     rbind (create_capability_observation input) (\<lambda>ob. Ok (mark_adapter_capability_observation ob))"

definition require_capability ::
  "capability_observation \<Rightarrow> capability_requirement \<Rightarrow> capability_observation result" where
  "require_capability ob requirement =
     (if \<not> is_produced_capability_observation ob then Fail CAPABILITY_UNKNOWN
      else if cap_capability ob \<noteq> rq_capability requirement \<or>
              \<not> scopes_equal (cap_scope ob) (rq_scope requirement)
      then Fail_at CAPABILITY_UNKNOWN (rq_capability requirement)
      else if cap_status ob = Unsupported then Fail_at CAPABILITY_UNSUPPORTED (rq_capability requirement)
      else if cap_status ob = Unknown then Fail_at CAPABILITY_UNKNOWN (rq_capability requirement)
      else Ok ob)"

definition require_trusted_capability ::
  "capability_observation \<Rightarrow> capability_requirement \<Rightarrow> string option \<Rightarrow> capability_observation result" where
  "require_trusted_capability ob requirement clock =
     rbind (require_capability ob requirement) (\<lambda>gate.
       if cap_status gate = Supported \<and> \<not> is_adapter_produced_capability_observation gate
       then Fail_at CAPABILITY_UNKNOWN (rq_capability requirement)
       else if (case clock of None \<Rightarrow> False | Some now \<Rightarrow> \<not> is_evidence_fresh (cap_evidence gate) now)
       then Fail_at STALE_EVIDENCE (rq_capability requirement)
       else Ok gate)"

definition capability_status ::
  "capability_observation list \<Rightarrow> capability_requirement \<Rightarrow> capability_state" where
  "capability_status observations requirement =
     (let matching = filter (\<lambda>item. cap_capability item = rq_capability requirement \<and>
            scopes_equal (cap_scope item) (rq_scope requirement)) observations in
      if list_ex (\<lambda>item. cap_status item = Unsupported) matching then Unsupported
      else if list_ex (\<lambda>item. cap_status item = Unknown) matching then Unknown
      else if list_ex (\<lambda>item. cap_status item = Supported \<and>
                        is_adapter_produced_capability_observation item) matching then Supported
      else Unknown)"

subsection \<open>What a reference holds\<close>

definition wf_evidence :: "evidence_ref \<Rightarrow> bool" where
  "wf_evidence ev \<longleftrightarrow>
     safe_text (ev_schemaVersion ev) \<and> safe_text (ev_producer ev) \<and> safe_text (ev_sourceId ev) \<and>
     (\<exists>a. instant (ev_asOf ev) a) \<and> is_safe_integer (ev_validForMs ev) \<and> 1 \<le> ev_validForMs ev \<and>
     hash_text (ev_contentHash ev)"

lemma evidence_kind_text_inj [simp]: "evidence_kind_text k = evidence_kind_text l \<longleftrightarrow> k = l"
  by (cases k; cases l; simp)

lemma evidence_kind_of_Some: "evidence_kind_of value = Some k \<longleftrightarrow> value = JStr (evidence_kind_text k)"
  by (cases k; auto simp: evidence_kind_of_def EVIDENCE_KINDS_def split: jsval.splits if_splits)

lemma evidence_kind_of_text [simp]: "evidence_kind_of (JStr (evidence_kind_text k)) = Some k"
  by (simp add: evidence_kind_of_Some)

lemma create_evidence_ref_Ok:
  "create_evidence_ref input = Inr ev \<longleftrightarrow>
    is_record input \<and> get input ''kind'' = JStr (evidence_kind_text (ev_kind ev)) \<and>
    get input ''schemaVersion'' = JStr (ev_schemaVersion ev) \<and> safe_text (ev_schemaVersion ev) \<and>
    get input ''producer'' = JStr (ev_producer ev) \<and> safe_text (ev_producer ev) \<and>
    get input ''sourceId'' = JStr (ev_sourceId ev) \<and> safe_text (ev_sourceId ev) \<and>
    parse_utc_timestamp (get input ''asOf'') = Inr (ev_asOf ev) \<and>
    get input ''validForMs'' = JInt (ev_validForMs ev) \<and> is_safe_integer (ev_validForMs ev) \<and>
    1 \<le> ev_validForMs ev \<and> get input ''contentHash'' = JStr (ev_contentHash ev) \<and> hash_text (ev_contentHash ev)"
  by (cases ev)
    (auto simp: create_evidence_ref_def Let_def result_simps evidence_kind_of_Some
      split: option.splits sum.splits)

lemma create_evidence_ref_wf: "create_evidence_ref input = Inr ev \<Longrightarrow> wf_evidence ev"
  by (auto simp: create_evidence_ref_Ok wf_evidence_def dest: parse_utc_timestamp_Ok)

lemma parse_evidence_list_Ok:
  "parse_evidence_list input = Inr evs \<Longrightarrow> evs \<noteq> [] \<and> list_all wf_evidence evs"
  by (auto simp: parse_evidence_list_def list_all_iff dest: traverse_set traverse_length
      intro: create_evidence_ref_wf split: jsval.splits if_splits)

text \<open>The window as numbers: it closes in the range of instants, or there is no window.\<close>

definition evidence_opens :: "evidence_ref \<Rightarrow> int" where
  "evidence_opens ev = (case date_parse (ev_asOf ev) of Some a \<Rightarrow> a | None \<Rightarrow> 0)"

definition evidence_closes :: "evidence_ref \<Rightarrow> int" where
  "evidence_closes ev = evidence_opens ev + ev_validForMs ev"

lemma is_safe_integer_max_time: "0 \<le> e \<Longrightarrow> e \<le> max_time \<Longrightarrow> is_safe_integer e"
  by (simp add: is_safe_integer_def max_time_def)

lemma is_evidence_fresh_iff:
  assumes "wf_evidence ev" "instant now n"
  shows "is_evidence_fresh ev now \<longleftrightarrow>
    evidence_opens ev \<le> n \<and> n < evidence_closes ev \<and> 0 \<le> evidence_closes ev \<and> evidence_closes ev \<le> max_time"
proof -
  obtain a where a: "instant (ev_asOf ev) a" using assms(1) by (auto simp: wf_evidence_def)
  then have parse: "date_parse (ev_asOf ev) = Some a" using instant_epoch timestamp_to_epoch_ms_def by simp
  have n: "date_parse now = Some n" using assms(2) instant_epoch timestamp_to_epoch_ms_def by simp
  show ?thesis
  proof (cases "0 \<le> a + ev_validForMs ev \<and> a + ev_validForMs ev \<le> max_time")
    case True
    then have "timestamp_from_epoch_ms (a + ev_validForMs ev) = Ok (to_iso_string (a + ev_validForMs ev))"
      by (simp add: timestamp_from_epoch_ms_def is_safe_integer_max_time)
    then show ?thesis using True
      by (simp add: is_evidence_fresh_def evidence_expires_at_def parse n evidence_opens_def
          evidence_closes_def date_parse_iso)
  next
    case False
    then have "\<exists>e. timestamp_from_epoch_ms (a + ev_validForMs ev) = Inl e"
      by (auto simp: timestamp_from_epoch_ms_def)
    then show ?thesis using False
      by (auto simp: is_evidence_fresh_def evidence_expires_at_def parse evidence_opens_def evidence_closes_def)
  qed
qed

interpretation evidence: validity_window
  "\<lambda>ev. wf_evidence ev \<and> 0 \<le> evidence_closes ev \<and> evidence_closes ev \<le> max_time"
  is_evidence_fresh evidence_opens evidence_closes
  by unfold_locales (auto simp: is_evidence_fresh_iff)

text \<open>
  Claim C36: evidence that \<open>createEvidenceRef\<close> accepted is fresh at exactly the instants from its
  \<open>asOf\<close> until just before \<open>asOf + validForMs\<close>; evidence whose window would close beyond the
  range of dates is never fresh.
\<close>

theorem evidence_fresh_window:
  assumes "create_evidence_ref input = Ok ev" "instant now n"
  shows "is_evidence_fresh ev now \<longleftrightarrow>
    (\<exists>a. date_parse (ev_asOf ev) = Some a \<and> a \<le> n \<and> n < a + ev_validForMs ev \<and>
         0 \<le> a + ev_validForMs ev \<and> a + ev_validForMs ev \<le> max_time)"
proof -
  have wf: "wf_evidence ev" using assms(1) by (rule create_evidence_ref_wf)
  then obtain a where "date_parse (ev_asOf ev) = Some a"
    using instant_epoch timestamp_to_epoch_ms_def by (auto simp: wf_evidence_def)
  then show ?thesis
    using is_evidence_fresh_iff [OF wf assms(2)] by (simp add: evidence_closes_def evidence_opens_def)
qed

definition sample_hash :: string where
  "sample_hash = ''sha256:'' @ replicate 64 (CHR ''a'')"

definition sample_evidence :: evidence_ref where
  "sample_evidence = \<lparr>ev_kind = CapabilityProbe, ev_schemaVersion = ''v1'', ev_producer = ''probe'',
     ev_sourceId = ''source-1'', ev_asOf = ''2024-01-01T00:00:00.000Z'', ev_validForMs = 60000,
     ev_contentHash = sample_hash\<rparr>"

lemma sample_evidence_created:
  "create_evidence_ref (evidence_to_js sample_evidence :: nat jsval) = Ok sample_evidence"
  by code_simp

lemma sample_instants:
  "instant ''2024-01-01T00:00:00.000Z'' 1704067200000" "instant ''2024-01-01T00:00:30.000Z'' 1704067230000"
  by (simp_all add: instant_def max_time_def) code_simp+

theorem evidence_fresh_window_witness: "is_evidence_fresh sample_evidence ''2024-01-01T00:00:30.000Z''"
proof -
  have "date_parse (ev_asOf sample_evidence) = Some 1704067200000"
    using date_parse_iso [of 1704067200000] sample_instants(1)
    by (simp add: instant_def sample_evidence_def)
  then show ?thesis
    using evidence_fresh_window [OF sample_evidence_created sample_instants(2)]
    by (simp add: sample_evidence_def max_time_def)
qed

text \<open>
  Claim C28: a capability that \<open>requireTrustedCapability\<close> lets through (with a clock) is the
  observation it was given, was produced by an adapter, says \<open>supported\<close> for exactly the required
  capability and scope, and rests on evidence that is fresh at the clock's time.
\<close>

theorem trusted_capability_sound:
  assumes "require_trusted_capability ob requirement (Some now) = Ok gate"
  shows "gate = ob \<and> cap_status ob = Supported \<and> cap_capability ob = rq_capability requirement \<and>
    cap_scope ob = rq_scope requirement \<and> cap_produced ob \<and> cap_adapterProduced ob \<and>
    is_evidence_fresh (cap_evidence ob) now"
  using assms
  by (cases "cap_status ob")
    (auto simp: require_trusted_capability_def require_capability_def result_simps scopes_equal_def
      is_adapter_produced_capability_observation_def is_produced_capability_observation_def
      split: if_splits)

definition sample_scope :: capability_scope where
  "sample_scope = \<lparr>sc_exchange = ''bybit'', sc_environment = ''mainnet'', sc_category = ''linear'',
     sc_positionMode = OneWay\<rparr>"

definition sample_observation :: capability_observation where
  "sample_observation = \<lparr>cap_capability = ''place-order'', cap_status = Supported,
     cap_observedAt = ''2024-01-01T00:00:00.000Z'', cap_source = ''probe'', cap_evidence = sample_evidence,
     cap_scope = sample_scope, cap_produced = True, cap_adapterProduced = True\<rparr>"

theorem trusted_capability_sound_witness:
  "cap_adapterProduced sample_observation"
proof -
  have "require_trusted_capability sample_observation
    \<lparr>rq_capability = ''place-order'', rq_scope = sample_scope\<rparr> (Some ''2024-01-01T00:00:30.000Z'') =
    Ok sample_observation" by code_simp
  from trusted_capability_sound [OF this] show ?thesis by blast
qed

text \<open>
  \<open>capabilityStatus\<close> fails closed: it answers \<open>supported\<close> exactly when no observation of
  the capability in its scope says \<open>unsupported\<close> or \<open>unknown\<close> and an adapter-produced one says
  \<open>supported\<close>; without any observation the answer is \<open>unknown\<close>.
\<close>

theorem capability_status_fail_closed:
  "(capability_status obs requirement = Supported \<longleftrightarrow>
     (\<forall>ob \<in> set obs. cap_capability ob = rq_capability requirement \<and> cap_scope ob = rq_scope requirement
        \<longrightarrow> cap_status ob = Supported) \<and>
     (\<exists>ob \<in> set obs. cap_capability ob = rq_capability requirement \<and> cap_scope ob = rq_scope requirement
        \<and> cap_produced ob \<and> cap_adapterProduced ob)) \<and>
   capability_status [] requirement = Unknown"
proof -
  have scopes: "scopes_equal a b \<longleftrightarrow> a = b" for a b by (auto simp: scopes_equal_def)
  have status: "s = Supported \<longleftrightarrow> s \<noteq> Unsupported \<and> s \<noteq> Unknown" for s by (cases s) auto
  show ?thesis
    by (auto simp: capability_status_def Let_def list_ex_iff scopes status
        is_adapter_produced_capability_observation_def is_produced_capability_observation_def)
qed

theorem capability_status_fail_closed_witness:
  "capability_status [sample_observation] \<lparr>rq_capability = ''place-order'', rq_scope = sample_scope\<rparr> = Supported"
  using capability_status_fail_closed
    [of "[sample_observation]" "\<lparr>rq_capability = ''place-order'', rq_scope = sample_scope\<rparr>"]
  by (simp add: sample_observation_def)

end
