(* ===== verification/Market.thy ===== *)
theory Market
  imports Evidence
begin

text \<open>
  \<open>domain/market/instrument-constraints.ts\<close>, \<open>strategy-config.ts\<close>, \<open>snapshots.ts\<close> and
  \<open>snapshot-proof.ts\<close>: the trading rules of an instrument, the configuration of the daily
  strategy and the snapshots of a market and an account. The \<open>WeakSet\<close>s of produced snapshots
  are a field of each record.

  Shown here: what the constructors return satisfies the invariants the planning code relies
  on (positive steps, consistent bounds, bid not above ask, no evidence newer than the snapshot).
\<close>

subsection \<open>Instrument constraints\<close>

record 'd instrument_constraints =
  ic_instrument :: string
  ic_version :: string
  ic_priceTickSize :: 'd
  ic_quantityStep :: 'd
  ic_minQuantity :: 'd
  ic_minNotional :: "'d option"
  ic_minPrice :: "'d option"
  ic_maxPrice :: "'d option"
  ic_maxLimitQuantity :: "'d option"

definition parse_constraint_decimal :: "'d lib \<Rightarrow> 'd jsval \<Rightarrow> string \<Rightarrow> 'd result" where
  "parse_constraint_decimal L value field =
     (case value of
        JDec d \<Rightarrow> if \<not> is_positive L d then Fail_at INVALID_CONSTRAINT field else Ok d
      | _ \<Rightarrow> rbind (dec_from_string L value) (\<lambda>d.
          if \<not> is_positive L d then Fail_at INVALID_CONSTRAINT field else Ok d))"

definition create_instrument_constraints :: "'d lib \<Rightarrow> 'd jsval \<Rightarrow> 'd instrument_constraints result" where
  "create_instrument_constraints L input =
     guard INVALID_CONSTRAINT (is_record input) (
     need INVALID_CONSTRAINT (require_identifier (get input ''instrument'') ''instrument'') (\<lambda>i.
     need INVALID_CONSTRAINT
       (if get input ''version'' = JUndef then Ok ''instrument-constraints/v1''
        else require_safe_text (get input ''version'') ''version'') (\<lambda>ver.
     need INVALID_CONSTRAINT (parse_constraint_decimal L (get input ''priceTickSize'') ''priceTickSize'') (\<lambda>tick.
     need INVALID_CONSTRAINT (parse_constraint_decimal L (get input ''quantityStep'') ''quantityStep'') (\<lambda>step.
     need INVALID_CONSTRAINT (parse_constraint_decimal L (get input ''minQuantity'') ''minQuantity'') (\<lambda>minQ.
     need INVALID_CONSTRAINT
       (optional (\<lambda>x. parse_constraint_decimal L x ''minNotional'') (get input ''minNotional'')) (\<lambda>minN.
     rbind (optional (\<lambda>x. parse_constraint_decimal L x ''minPrice'') (get input ''minPrice'')) (\<lambda>minP.
     rbind (optional (\<lambda>x. parse_constraint_decimal L x ''maxPrice'') (get input ''maxPrice'')) (\<lambda>maxP.
     rbind (optional (\<lambda>x. parse_constraint_decimal L x ''maxLimitQuantity'')
              (get input ''maxLimitQuantity'')) (\<lambda>maxQ.
     if (case (minP, maxP) of (Some a, Some b) \<Rightarrow> 0 < dec_compare L a b | _ \<Rightarrow> False) \<or>
        (case maxQ of Some q \<Rightarrow> dec_compare L q minQ < 0 | None \<Rightarrow> False)
     then Fail INVALID_CONSTRAINT
     else Ok \<lparr>ic_instrument = i, ic_version = ver, ic_priceTickSize = tick,
       ic_quantityStep = step, ic_minQuantity = minQ, ic_minNotional = minN,
       ic_minPrice = minP, ic_maxPrice = maxP, ic_maxLimitQuantity = maxQ\<rparr>))))))))))"

subsection \<open>Strategy configuration\<close>

record 'd strategy_config =
  st_strategyId :: string
  st_version :: string
  st_maxOrderNotional :: 'd
  st_requiresProtection :: bool

definition create_strategy_config :: "'d lib \<Rightarrow> 'd jsval \<Rightarrow> 'd strategy_config result" where
  "create_strategy_config L input =
     guard INVALID_VALUE (is_record input) (
     need INVALID_VALUE (dec_from_string L (get input ''maxOrderNotional'')) (\<lambda>notional.
     guard INVALID_VALUE (is_positive L notional) (
     guard INVALID_VALUE (get input ''cadence'' = JStr ''daily'') (
     need_some INVALID_VALUE
       (case get input ''requiresProtection'' of JBool b \<Rightarrow> Some b | _ \<Rightarrow> None) (\<lambda>protection.
     need INVALID_VALUE (require_identifier (get input ''strategyId'') ''strategyId'') (\<lambda>s.
     need INVALID_VALUE (require_identifier (get input ''version'') ''version'') (\<lambda>ver.
     Ok \<lparr>st_strategyId = s, st_version = ver, st_maxOrderNotional = notional,
       st_requiresProtection = protection\<rparr>)))))))"

subsection \<open>Snapshots\<close>

datatype position_side = Long | Short | Flat

datatype order_side = Buy | Sell

record 'd position_snapshot =
  po_instrument :: string
  po_side :: position_side
  po_quantity :: 'd
  po_entryPrice :: "'d option"

record 'd owned_order_snapshot =
  oo_clientOrderId :: string
  oo_instrument :: string
  oo_side :: order_side
  oo_quantity :: 'd

record 'd market_snapshot =
  mk_snapshotId :: string
  mk_instrument :: string
  mk_scope :: capability_scope
  mk_asOf :: string
  mk_bid :: 'd
  mk_ask :: 'd
  mk_last :: 'd
  mk_constraints :: "'d instrument_constraints"
  mk_evidence :: "evidence_ref list"
  mk_produced :: bool

record 'd account_snapshot =
  ac_snapshotId :: string
  ac_accountScope :: string
  ac_scope :: capability_scope
  ac_asOf :: string
  ac_availableBalance :: 'd
  ac_positions :: "'d position_snapshot list"
  ac_ownedOrders :: "'d owned_order_snapshot list"
  ac_evidence :: "evidence_ref list"
  ac_produced :: bool

text \<open>\<open>SnapshotScope\<close> has the fields of \<open>CapabilityScope\<close>.\<close>

definition parse_non_negative_decimal :: "'d lib \<Rightarrow> 'd jsval \<Rightarrow> string \<Rightarrow> 'd result" where
  "parse_non_negative_decimal L value field =
     rbind (dec_from_string L value) (\<lambda>d. if is_negative L d then Fail_at INVALID_VALUE field else Ok d)"

definition parse_positive_decimal :: "'d lib \<Rightarrow> 'd jsval \<Rightarrow> string \<Rightarrow> 'd result" where
  "parse_positive_decimal L value field =
     rbind (dec_from_string L value) (\<lambda>d. if \<not> is_positive L d then Fail_at INVALID_VALUE field else Ok d)"

definition parse_snapshot_scope :: "'d jsval \<Rightarrow> capability_scope result" where
  "parse_snapshot_scope input =
     guard INVALID_VALUE (is_record input) (
     need INVALID_VALUE (require_identifier (get input ''exchange'') ''scope.exchange'') (\<lambda>x.
     need INVALID_VALUE (require_identifier (get input ''environment'') ''scope.environment'') (\<lambda>e.
     need INVALID_VALUE (require_identifier (get input ''category'') ''scope.category'') (\<lambda>c.
     need_some INVALID_VALUE (position_mode_of (get input ''positionMode'')) (\<lambda>m.
     Ok \<lparr>sc_exchange = x, sc_environment = e, sc_category = c, sc_positionMode = m\<rparr>)))))"

definition position_side_of :: "'d jsval \<Rightarrow> position_side option" where
  "position_side_of value =
     (case value of
        JStr s \<Rightarrow> if s = ''long'' then Some Long else if s = ''short'' then Some Short
          else if s = ''flat'' then Some Flat else None
      | _ \<Rightarrow> None)"

definition order_side_of :: "'d jsval \<Rightarrow> order_side option" where
  "order_side_of value =
     (case value of
        JStr s \<Rightarrow> if s = ''buy'' then Some Buy else if s = ''sell'' then Some Sell else None
      | _ \<Rightarrow> None)"

definition parse_position :: "'d lib \<Rightarrow> 'd jsval \<Rightarrow> 'd position_snapshot result" where
  "parse_position L input =
     guard INVALID_VALUE (is_record input) (
     need INVALID_VALUE (require_identifier (get input ''instrument'') ''instrument'') (\<lambda>i.
     need INVALID_VALUE (parse_non_negative_decimal L (get input ''quantity'') ''quantity'') (\<lambda>q.
     need_some INVALID_VALUE (position_side_of (get input ''side'')) (\<lambda>side.
     rbind (optional (\<lambda>x. parse_positive_decimal L x ''entryPrice'') (get input ''entryPrice'')) (\<lambda>entryPrice.
     Ok \<lparr>po_instrument = i, po_side = side, po_quantity = q, po_entryPrice = entryPrice\<rparr>)))))"

definition parse_owned_order :: "'d lib \<Rightarrow> 'd jsval \<Rightarrow> 'd owned_order_snapshot result" where
  "parse_owned_order L input =
     guard INVALID_VALUE (is_record input) (
     need INVALID_VALUE (require_identifier (get input ''clientOrderId'') ''clientOrderId'') (\<lambda>c.
     need INVALID_VALUE (require_identifier (get input ''instrument'') ''instrument'') (\<lambda>i.
     need INVALID_VALUE (parse_positive_decimal L (get input ''quantity'') ''quantity'') (\<lambda>q.
     need_some INVALID_VALUE (order_side_of (get input ''side'')) (\<lambda>side.
     Ok \<lparr>oo_clientOrderId = c, oo_instrument = i, oo_side = side, oo_quantity = q\<rparr>)))))"

text \<open>\<open>Date.parse(a) > Date.parse(b)\<close>; false when either is \<open>NaN\<close>.\<close>

definition later_than :: "string \<Rightarrow> string \<Rightarrow> bool" where
  "later_than a b = (case (date_parse a, date_parse b) of (Some x, Some y) \<Rightarrow> y < x | _ \<Rightarrow> False)"

definition common_snapshot_fields ::
  "'d jsval \<Rightarrow> (string \<times> string \<times> string \<times> evidence_ref list) result" where
  "common_snapshot_fields input =
     need INVALID_VALUE (require_identifier (get input ''snapshotId'') ''snapshotId'') (\<lambda>sid.
     need INVALID_VALUE (require_identifier (get input ''instrument'') ''instrument'') (\<lambda>i.
     need INVALID_VALUE (parse_utc_timestamp (get input ''asOf'')) (\<lambda>asOf.
     need INVALID_VALUE (parse_evidence_list (get input ''evidence'')) (\<lambda>evidence.
     guard INVALID_VALUE (\<not> list_ex (\<lambda>item. later_than (ev_asOf item) asOf) evidence) (
     Ok (sid, i, asOf, evidence))))))"

definition mark_market_snapshot :: "'d market_snapshot \<Rightarrow> 'd market_snapshot" where
  "mark_market_snapshot snapshot = snapshot\<lparr>mk_produced := True\<rparr>"

definition is_produced_market_snapshot :: "'d market_snapshot \<Rightarrow> bool" where
  "is_produced_market_snapshot snapshot = mk_produced snapshot"

definition mark_account_snapshot :: "'d account_snapshot \<Rightarrow> 'd account_snapshot" where
  "mark_account_snapshot snapshot = snapshot\<lparr>ac_produced := True\<rparr>"

definition is_produced_account_snapshot :: "'d account_snapshot \<Rightarrow> bool" where
  "is_produced_account_snapshot snapshot = ac_produced snapshot"

definition create_market_snapshot :: "'d lib \<Rightarrow> 'd jsval \<Rightarrow> 'd market_snapshot result" where
  "create_market_snapshot L input =
     (if \<not> is_record input then Fail INVALID_VALUE
      else rbind (common_snapshot_fields input) (\<lambda>(sid, i, asOf, evidence).
        rbind (parse_positive_decimal L (get input ''bid'') ''bid'') (\<lambda>bid.
        rbind (parse_positive_decimal L (get input ''ask'') ''ask'') (\<lambda>ask.
        rbind (parse_positive_decimal L (get input ''last'') ''last'') (\<lambda>last.
        rbind (create_instrument_constraints L (get input ''constraints'')) (\<lambda>constraints.
        rbind (parse_snapshot_scope (get input ''scope'')) (\<lambda>scope.
        if i \<noteq> ic_instrument constraints \<or> 0 < dec_compare L bid ask then Fail INVALID_VALUE
        else Ok (mark_market_snapshot
          \<lparr>mk_snapshotId = sid, mk_instrument = i, mk_scope = scope, mk_asOf = asOf, mk_bid = bid,
           mk_ask = ask, mk_last = last, mk_constraints = constraints, mk_evidence = evidence,
           mk_produced = False\<rparr>))))))))"

definition create_account_snapshot :: "'d lib \<Rightarrow> 'd jsval \<Rightarrow> 'd account_snapshot result" where
  "create_account_snapshot L input =
     guard INVALID_VALUE (is_record input) (
     guard INVALID_VALUE (is_array (get input ''positions'') \<and> is_array (get input ''ownedOrders'')) (
     rbind (traverse (parse_position L) (elements (get input ''positions''))) (\<lambda>positions.
     rbind (traverse (parse_owned_order L) (elements (get input ''ownedOrders''))) (\<lambda>ownedOrders.
     need INVALID_VALUE (require_identifier (get input ''snapshotId'') ''snapshotId'') (\<lambda>sid.
     need INVALID_VALUE (require_safe_text (get input ''accountScope'') ''accountScope'') (\<lambda>account.
     need INVALID_VALUE (parse_snapshot_scope (get input ''scope'')) (\<lambda>scope.
     need INVALID_VALUE (parse_utc_timestamp (get input ''asOf'')) (\<lambda>asOf.
     need INVALID_VALUE
       (parse_non_negative_decimal L (get input ''availableBalance'') ''availableBalance'') (\<lambda>balance.
     need INVALID_VALUE (parse_evidence_list (get input ''evidence'')) (\<lambda>evidence.
     guard INVALID_VALUE (\<not> list_ex (\<lambda>item. later_than (ev_asOf item) asOf) evidence) (
     Ok (mark_account_snapshot
       \<lparr>ac_snapshotId = sid, ac_accountScope = account, ac_scope = scope, ac_asOf = asOf,
        ac_availableBalance = balance, ac_positions = positions, ac_ownedOrders = ownedOrders,
        ac_evidence = evidence, ac_produced = False\<rparr>))))))))))))"

subsection \<open>What the constructors return\<close>

text \<open>The invariants, over the numbers the decimals stand for.\<close>

definition wf_constraints :: "('d \<Rightarrow> rat) \<Rightarrow> 'd instrument_constraints \<Rightarrow> bool" where
  "wf_constraints v c \<longleftrightarrow>
     safe_identifier (ic_instrument c) \<and> safe_text (ic_version c) \<and>
     0 < v (ic_priceTickSize c) \<and> 0 < v (ic_quantityStep c) \<and> 0 < v (ic_minQuantity c) \<and>
     (\<forall>m. ic_minNotional c = Some m \<longrightarrow> 0 < v m) \<and>
     (\<forall>a. ic_minPrice c = Some a \<longrightarrow> 0 < v a) \<and> (\<forall>b. ic_maxPrice c = Some b \<longrightarrow> 0 < v b) \<and>
     (\<forall>a b. ic_minPrice c = Some a \<longrightarrow> ic_maxPrice c = Some b \<longrightarrow> v a \<le> v b) \<and>
     (\<forall>q. ic_maxLimitQuantity c = Some q \<longrightarrow> v (ic_minQuantity c) \<le> v q)"

definition wf_evidence_list :: "string \<Rightarrow> evidence_ref list \<Rightarrow> bool" where
  "wf_evidence_list asOf evs \<longleftrightarrow> evs \<noteq> [] \<and> list_all wf_evidence evs \<and>
     (\<exists>t. instant asOf t \<and> (\<forall>ev \<in> set evs. \<forall>a. instant (ev_asOf ev) a \<longrightarrow> a \<le> t))"

definition wf_market_snapshot :: "('d \<Rightarrow> rat) \<Rightarrow> 'd market_snapshot \<Rightarrow> bool" where
  "wf_market_snapshot v m \<longleftrightarrow>
     mk_produced m \<and> 0 < v (mk_bid m) \<and> v (mk_bid m) \<le> v (mk_ask m) \<and> 0 < v (mk_last m) \<and>
     wf_constraints v (mk_constraints m) \<and> ic_instrument (mk_constraints m) = mk_instrument m \<and>
     wf_evidence_list (mk_asOf m) (mk_evidence m)"

definition wf_account_snapshot :: "('d \<Rightarrow> rat) \<Rightarrow> 'd account_snapshot \<Rightarrow> bool" where
  "wf_account_snapshot v a \<longleftrightarrow>
     ac_produced a \<and> 0 \<le> v (ac_availableBalance a) \<and>
     (\<forall>p \<in> set (ac_positions a). 0 \<le> v (po_quantity p) \<and> (\<forall>e. po_entryPrice p = Some e \<longrightarrow> 0 < v e)) \<and>
     (\<forall>order \<in> set (ac_ownedOrders a). 0 < v (oo_quantity order)) \<and>
     wf_evidence_list (ac_asOf a) (ac_evidence a)"

lemma later_than_iff: "instant a x \<Longrightarrow> instant b y \<Longrightarrow> later_than a b \<longleftrightarrow> y < x"
  using instant_epoch [of a x] instant_epoch [of b y] by (simp add: later_than_def timestamp_to_epoch_ms_def)

lemma wf_evidence_listI:
  assumes "parse_evidence_list j = Inr evs" "parse_utc_timestamp k = Inr asOf"
    and "\<not> list_ex (\<lambda>item. later_than (ev_asOf item) asOf) evs"
  shows "wf_evidence_list asOf evs"
proof -
  obtain t where t: "instant asOf t" using parse_utc_timestamp_Ok [OF assms(2)] by blast
  have "a \<le> t" if "ev \<in> set evs" "instant (ev_asOf ev) a" for ev a
    using that assms(3) later_than_iff [OF that(2) t] by (auto simp: list_ex_iff not_less)
  then show ?thesis
    using parse_evidence_list_Ok [OF assms(1)] t by (auto simp: wf_evidence_list_def)
qed

lemma common_snapshot_fields_Ok:
  "common_snapshot_fields input = Inr (sid, i, asOf, evs) \<Longrightarrow> wf_evidence_list asOf evs"
  by (auto simp: common_snapshot_fields_def need_Ok_iff intro: wf_evidence_listI)

context big_decimal
begin

lemma parse_constraint_decimal_pos: "parse_constraint_decimal L j f = Inr d \<Longrightarrow> 0 < v d"
  by (auto simp: parse_constraint_decimal_def sign_iffs rbind_Ok_iff split: jsval.splits if_splits)

lemma parse_positive_decimal_pos: "parse_positive_decimal L j f = Inr d \<Longrightarrow> 0 < v d"
  by (auto simp: parse_positive_decimal_def sign_iffs rbind_Ok_iff split: if_splits)

lemma parse_non_negative_decimal_nonneg: "parse_non_negative_decimal L j f = Inr d \<Longrightarrow> 0 \<le> v d"
  by (auto simp: parse_non_negative_decimal_def sign_iffs rbind_Ok_iff split: if_splits)

lemmas parsed_sign = parse_constraint_decimal_pos parse_positive_decimal_pos parse_non_negative_decimal_nonneg

lemma optional_constraint_pos:
  "optional (\<lambda>x. parse_constraint_decimal L x f) j = Inr (Some d) \<Longrightarrow> 0 < v d"
  by (auto simp: optional_Some_iff intro: parsed_sign)

lemma default_version: "safe_text ''instrument-constraints/v1''"
  by code_simp

lemma create_instrument_constraints_wf:
  assumes "create_instrument_constraints L input = Inr c"
  shows "wf_constraints v c"
proof -
  have parts: "require_identifier (get input ''instrument'') ''instrument'' = Inr (ic_instrument c)"
    "(if get input ''version'' = JUndef then Ok ''instrument-constraints/v1''
      else require_safe_text (get input ''version'') ''version'') = Inr (ic_version c)"
    "parse_constraint_decimal L (get input ''priceTickSize'') ''priceTickSize'' = Inr (ic_priceTickSize c)"
    "parse_constraint_decimal L (get input ''quantityStep'') ''quantityStep'' = Inr (ic_quantityStep c)"
    "parse_constraint_decimal L (get input ''minQuantity'') ''minQuantity'' = Inr (ic_minQuantity c)"
    "optional (\<lambda>x. parse_constraint_decimal L x ''minNotional'') (get input ''minNotional'') = Inr (ic_minNotional c)"
    "optional (\<lambda>x. parse_constraint_decimal L x ''minPrice'') (get input ''minPrice'') = Inr (ic_minPrice c)"
    "optional (\<lambda>x. parse_constraint_decimal L x ''maxPrice'') (get input ''maxPrice'') = Inr (ic_maxPrice c)"
    and bounds: "\<not> (case (ic_minPrice c, ic_maxPrice c) of (Some a, Some b) \<Rightarrow> 0 < dec_compare L a b | _ \<Rightarrow> False)"
    "\<not> (case ic_maxLimitQuantity c of Some q \<Rightarrow> dec_compare L q (ic_minQuantity c) < 0 | None \<Rightarrow> False)"
    using assms
    by (auto simp only: create_instrument_constraints_def need_Ok_iff rbind_Ok_iff
        instrument_constraints.simps sum.inject simp_thms split: if_split_asm)
  have "safe_text (ic_version c)" using parts(2) default_version
    by (auto simp: result_simps split: if_split_asm)
  then show ?thesis
    using parts(1) parts(3-5)[THEN parse_constraint_decimal_pos] bounds
      parts(6-8) optional_constraint_pos
    unfolding wf_constraints_def
    by (auto simp: require_identifier_Ok compare_iffs not_less split: option.split_asm)
qed

lemma create_market_snapshot_wf:
  "create_market_snapshot L input = Inr m \<Longrightarrow> wf_market_snapshot v m"
  by (auto simp: create_market_snapshot_def rbind_Ok_iff wf_market_snapshot_def mark_market_snapshot_def
      compare_iffs not_less split: if_split_asm
      intro: parsed_sign create_instrument_constraints_wf common_snapshot_fields_Ok)

lemma parse_position_Ok:
  "parse_position L j = Inr p \<Longrightarrow> 0 \<le> v (po_quantity p) \<and> (\<forall>e. po_entryPrice p = Some e \<longrightarrow> 0 < v e)"
  by (auto simp: parse_position_def result_simps intro: parsed_sign)

lemma parse_owned_order_Ok: "parse_owned_order L j = Inr r \<Longrightarrow> 0 < v (oo_quantity r)"
  by (auto simp: parse_owned_order_def result_simps intro: parsed_sign)

lemma create_account_snapshot_wf:
  assumes "create_account_snapshot L input = Inr a"
  shows "wf_account_snapshot v a"
proof -
  have "ac_produced a" "0 \<le> v (ac_availableBalance a)" "wf_evidence_list (ac_asOf a) (ac_evidence a)"
    "traverse (parse_position L) (elements (get input ''positions'')) = Inr (ac_positions a)"
    "traverse (parse_owned_order L) (elements (get input ''ownedOrders'')) = Inr (ac_ownedOrders a)"
    using assms
    by (auto simp: create_account_snapshot_def need_Ok_iff rbind_Ok_iff mark_account_snapshot_def
        intro: parsed_sign wf_evidence_listI)
  then show ?thesis
    using traverse_set parse_position_Ok parse_owned_order_Ok unfolding wf_account_snapshot_def by metis
qed

lemma create_strategy_config_Ok:
  "create_strategy_config L input = Inr c \<Longrightarrow> 0 < v (st_maxOrderNotional c) \<and> safe_identifier (st_strategyId c)"
  by (auto simp: create_strategy_config_def sign_iffs result_simps)

end

subsection \<open>Properties\<close>

lemmas host_market_wf = big_decimal.create_market_snapshot_wf [OF host_decimal]
lemmas host_account_wf = big_decimal.create_account_snapshot_wf [OF host_decimal]

text \<open>
  Claim C35: a market snapshot that \<open>createMarketSnapshot\<close> returns has a positive bid not above
  its ask, a positive last price, constraints of its own instrument with positive steps and
  consistent bounds, and at least one piece of evidence, none of it newer than the snapshot.
\<close>

theorem market_snapshot_invariants:
  assumes "host L v" "create_market_snapshot L input = Ok m"
  shows "0 < v (mk_bid m) \<and> v (mk_bid m) \<le> v (mk_ask m) \<and> 0 < v (mk_last m) \<and>
    ic_instrument (mk_constraints m) = mk_instrument m \<and> wf_constraints v (mk_constraints m) \<and>
    wf_evidence_list (mk_asOf m) (mk_evidence m) \<and> is_produced_market_snapshot m"
  using host_market_wf [OF assms] by (simp add: wf_market_snapshot_def is_produced_market_snapshot_def)

text \<open>
  An account snapshot that \<open>createAccountSnapshot\<close> returns has a non-negative balance,
  positions of non-negative size with positive entry prices, owned orders of positive size, and
  no evidence newer than the snapshot.
\<close>

theorem account_snapshot_invariants:
  assumes "host L v" "create_account_snapshot L input = Ok a"
  shows "0 \<le> v (ac_availableBalance a) \<and>
    (\<forall>p \<in> set (ac_positions a). 0 \<le> v (po_quantity p) \<and> (\<forall>e. po_entryPrice p = Some e \<longrightarrow> 0 < v e)) \<and>
    (\<forall>r \<in> set (ac_ownedOrders a). 0 < v (oo_quantity r)) \<and>
    wf_evidence_list (ac_asOf a) (ac_evidence a) \<and> is_produced_account_snapshot a"
  using host_account_wf [OF assms] by (simp add: wf_account_snapshot_def is_produced_account_snapshot_def)

definition sample_market_evidence :: evidence_ref where
  "sample_market_evidence = sample_evidence\<lparr>ev_kind := MarketSnapshot\<rparr>"

definition sample_scope_js :: "'d jsval" where
  "sample_scope_js = JObj [(''exchange'', JStr ''bybit''), (''environment'', JStr ''mainnet''),
     (''category'', JStr ''linear''), (''positionMode'', JStr ''one-way'')]"

definition sample_constraints_js :: "'d jsval" where
  "sample_constraints_js = JObj [(''instrument'', JStr ''BTCUSDT''), (''priceTickSize'', JStr ''0.5''),
     (''quantityStep'', JStr ''0.001''), (''minQuantity'', JStr ''0.001''), (''minNotional'', JStr ''5''),
     (''minPrice'', JStr ''1''), (''maxPrice'', JStr ''1000000'')]"

definition sample_market_js :: "'d jsval" where
  "sample_market_js = JObj [(''snapshotId'', JStr ''m-1''), (''instrument'', JStr ''BTCUSDT''),
     (''asOf'', JStr ''2024-01-01T00:00:00.000Z''), (''scope'', sample_scope_js),
     (''bid'', JStr ''40000''), (''ask'', JStr ''40000.5''), (''last'', JStr ''40000''),
     (''constraints'', sample_constraints_js), (''evidence'', JArr [evidence_to_js sample_market_evidence])]"

definition sample_constraints :: "sdec instrument_constraints" where
  "sample_constraints = \<lparr>ic_instrument = ''BTCUSDT'', ic_version = ''instrument-constraints/v1'',
     ic_priceTickSize = SDec 5 1, ic_quantityStep = SDec 1 3, ic_minQuantity = SDec 1 3,
     ic_minNotional = Some (SDec 5 0), ic_minPrice = Some (SDec 1 0), ic_maxPrice = Some (SDec 1000000 0),
     ic_maxLimitQuantity = None\<rparr>"

definition sample_market :: "sdec market_snapshot" where
  "sample_market = \<lparr>mk_snapshotId = ''m-1'', mk_instrument = ''BTCUSDT'', mk_scope = sample_scope,
     mk_asOf = ''2024-01-01T00:00:00.000Z'', mk_bid = SDec 40000 0, mk_ask = SDec 400005 1,
     mk_last = SDec 40000 0, mk_constraints = sample_constraints, mk_evidence = [sample_market_evidence],
     mk_produced = True\<rparr>"

definition sample_account_js :: "'d jsval" where
  "sample_account_js = JObj [(''snapshotId'', JStr ''a-1''), (''accountScope'', JStr ''main''),
     (''asOf'', JStr ''2024-01-01T00:00:00.000Z''), (''scope'', sample_scope_js),
     (''availableBalance'', JStr ''1000''),
     (''positions'', JArr [JObj [(''instrument'', JStr ''BTCUSDT''), (''side'', JStr ''flat''), (''quantity'', JStr ''0'')]]),
     (''ownedOrders'', JArr []),
     (''evidence'', JArr [evidence_to_js (sample_evidence\<lparr>ev_kind := AccountSnapshot\<rparr>)])]"

definition sample_account :: "sdec account_snapshot" where
  "sample_account = \<lparr>ac_snapshotId = ''a-1'', ac_accountScope = ''main'', ac_scope = sample_scope,
     ac_asOf = ''2024-01-01T00:00:00.000Z'', ac_availableBalance = SDec 1000 0,
     ac_positions = [\<lparr>po_instrument = ''BTCUSDT'', po_side = Flat, po_quantity = SDec 0 0, po_entryPrice = None\<rparr>],
     ac_ownedOrders = [], ac_evidence = [sample_evidence\<lparr>ev_kind := AccountSnapshot\<rparr>],
     ac_produced = True\<rparr>"

lemma sample_market_created: "create_market_snapshot ref_lib sample_market_js = Ok sample_market"
  by code_simp

lemma sample_account_created: "create_account_snapshot ref_lib sample_account_js = Ok sample_account"
  by code_simp

theorem market_snapshot_invariants_witness: "wf_constraints sval sample_constraints"
  using market_snapshot_invariants [OF ref_host sample_market_created] by (simp add: sample_market_def)

theorem account_snapshot_invariants_witness: "is_produced_account_snapshot sample_account"
  using account_snapshot_invariants [OF ref_host sample_account_created] by simp

end
