(* ===== verification/Orders.thy ===== *)
theory Orders
  imports Market
begin

text \<open>
  \<open>domain/planning/order-intent.ts\<close> and \<open>normalize-order-intent.ts\<close>: what the bot means to order,
  and how a proposal is rounded to the instrument's tick and step and checked against its
  minimums before it becomes an intent.

  Shown here: an intent has positive price and quantity, a notional that is exactly their
  product and a protection that names an exit; a normalized intent lies on the tick and step
  grids and meets the minimums; rounding what is already on the grid changes nothing.
\<close>

subsection \<open>Order intents\<close>

datatype position_effect = OpenPosition | ClosePosition

datatype rounding_direction = FloorDirection | CeilDirection

text \<open>The one execution policy of a take profit is a constant: a flag says whether it is present.\<close>

record 'd protection_intent =
  pr_stopLoss :: "'d option"
  pr_takeProfit :: "'d option"
  pr_takeProfitPolicy :: bool

record 'd order_intent =
  oi_intentId :: string
  oi_instrument :: string
  oi_side :: order_side
  oi_positionEffect :: position_effect
  oi_price :: 'd
  oi_quantity :: 'd
  oi_notional :: 'd
  oi_priceRounding :: rounding_direction
  oi_quantityRounding :: rounding_direction
  oi_constraintVersion :: string
  oi_protection :: "'d protection_intent option"

definition position_effect_of :: "'d jsval \<Rightarrow> position_effect option" where
  "position_effect_of value =
     (case value of
        JStr s \<Rightarrow> if s = ''open'' then Some OpenPosition else if s = ''close'' then Some ClosePosition else None
      | _ \<Rightarrow> None)"

definition rounding_direction_of :: "'d jsval \<Rightarrow> rounding_direction option" where
  "rounding_direction_of value =
     (case value of
        JStr s \<Rightarrow> if s = ''floor'' then Some FloorDirection else if s = ''ceil'' then Some CeilDirection else None
      | _ \<Rightarrow> None)"

definition decimal_of :: "'d jsval \<Rightarrow> 'd option" where
  "decimal_of value = (case value of JDec d \<Rightarrow> Some d | _ \<Rightarrow> None)"

fun order_side_text :: "order_side \<Rightarrow> string" where
  "order_side_text Buy = ''buy''"
| "order_side_text Sell = ''sell''"

fun position_effect_text :: "position_effect \<Rightarrow> string" where
  "position_effect_text OpenPosition = ''open''"
| "position_effect_text ClosePosition = ''close''"

fun rounding_direction_text :: "rounding_direction \<Rightarrow> string" where
  "rounding_direction_text FloorDirection = ''floor''"
| "rounding_direction_text CeilDirection = ''ceil''"

definition take_profit_policy_js :: "'d jsval" where
  "take_profit_policy_js = JObj
     [(''policyVersion'', JStr ''m1-mainnet-per-leg-tp/v1''), (''tpslMode'', JStr ''Partial''),
      (''orderType'', JStr ''Market''), (''triggerBy'', JStr ''LastPrice'')]"

definition protection_to_js :: "'d protection_intent \<Rightarrow> 'd jsval" where
  "protection_to_js p = JObj
     (opt_field ''stopLoss'' (map_option JDec (pr_stopLoss p)) @
      opt_field ''takeProfit'' (map_option JDec (pr_takeProfit p)) @
      (if pr_takeProfitPolicy p then [(''takeProfitPolicy'', take_profit_policy_js)] else []))"

definition order_intent_to_js :: "'d order_intent \<Rightarrow> 'd jsval" where
  "order_intent_to_js i = JObj
     ([(''intentId'', JStr (oi_intentId i)), (''instrument'', JStr (oi_instrument i)),
       (''orderType'', JStr ''limit''), (''side'', JStr (order_side_text (oi_side i))),
       (''positionEffect'', JStr (position_effect_text (oi_positionEffect i))),
       (''price'', JDec (oi_price i)), (''quantity'', JDec (oi_quantity i)), (''notional'', JDec (oi_notional i)),
       (''normalization'', JObj
         [(''price'', JStr (rounding_direction_text (oi_priceRounding i))),
          (''quantity'', JStr (rounding_direction_text (oi_quantityRounding i))),
          (''constraintVersion'', JStr (oi_constraintVersion i))])]
      @ opt_field ''protection'' (map_option protection_to_js (oi_protection i)))"

definition positive_decimal :: "'d lib \<Rightarrow> 'd jsval \<Rightarrow> bool" where
  "positive_decimal L value = (case decimal_of value of Some d \<Rightarrow> is_positive L d | None \<Rightarrow> False)"

definition valid_take_profit_policy :: "'d jsval \<Rightarrow> bool" where
  "valid_take_profit_policy policy \<longleftrightarrow>
     closed_record policy [''policyVersion'', ''tpslMode'', ''orderType'', ''triggerBy''] \<and>
     length (keys policy) = 4 \<and>
     get policy ''policyVersion'' = JStr ''m1-mainnet-per-leg-tp/v1'' \<and>
     get policy ''tpslMode'' = JStr ''Partial'' \<and> get policy ''orderType'' = JStr ''Market'' \<and>
     get policy ''triggerBy'' = JStr ''LastPrice''"

definition valid_protection :: "'d lib \<Rightarrow> 'd jsval \<Rightarrow> bool" where
  "valid_protection L protection \<longleftrightarrow>
     (let stopLoss = get protection ''stopLoss''; takeProfit = get protection ''takeProfit'';
          policy = get protection ''takeProfitPolicy'' in
      closed_record protection [''stopLoss'', ''takeProfit'', ''takeProfitPolicy''] \<and>
      (stopLoss = JUndef \<or> positive_decimal L stopLoss) \<and>
      (takeProfit = JUndef \<or> positive_decimal L takeProfit) \<and>
      (policy = JUndef \<or> valid_take_profit_policy policy \<and> takeProfit \<noteq> JUndef \<and> stopLoss = JUndef))"

definition create_order_intent :: "'d lib \<Rightarrow> 'd jsval \<Rightarrow> 'd order_intent result" where
  "create_order_intent L input =
     (let protection = get input ''protection''; normalization = get input ''normalization'';
          stopLoss = get protection ''stopLoss''; takeProfit = get protection ''takeProfit'';
          policy = get protection ''takeProfitPolicy'' in
      need CONSTRAINT_VIOLATION (require_identifier (get input ''intentId'') ''intentId'') (\<lambda>intentId.
      need CONSTRAINT_VIOLATION (require_identifier (get input ''instrument'') ''instrument'') (\<lambda>instrument.
      guard CONSTRAINT_VIOLATION (get input ''orderType'' = JStr ''limit'') (
      need_some CONSTRAINT_VIOLATION (order_side_of (get input ''side'')) (\<lambda>side.
      need_some CONSTRAINT_VIOLATION (position_effect_of (get input ''positionEffect'')) (\<lambda>effect.
      need_some CONSTRAINT_VIOLATION (decimal_of (get input ''price'')) (\<lambda>price.
      need_some CONSTRAINT_VIOLATION (decimal_of (get input ''quantity'')) (\<lambda>quantity.
      need_some CONSTRAINT_VIOLATION (decimal_of (get input ''notional'')) (\<lambda>notional.
      guard CONSTRAINT_VIOLATION (is_positive L quantity \<and> is_positive L price) (
      need_some INVALID_CONSTRAINT (rounding_direction_of (get normalization ''price'')) (\<lambda>priceRounding.
      need_some INVALID_CONSTRAINT (rounding_direction_of (get normalization ''quantity'')) (\<lambda>quantityRounding.
      need INVALID_CONSTRAINT
        (require_safe_text (get normalization ''constraintVersion'') ''constraintVersion'') (\<lambda>version.
      guard CONSTRAINT_VIOLATION (dec_compare L (dec_multiply L price quantity) notional = 0) (
      guard PROTECTION_REQUIRED (protection = JUndef \<or> valid_protection L protection) (
      guard PROTECTION_REQUIRED (protection = JUndef \<or> stopLoss \<noteq> JUndef \<or> takeProfit \<noteq> JUndef) (
      Ok \<lparr>oi_intentId = intentId, oi_instrument = instrument, oi_side = side,
        oi_positionEffect = effect, oi_price = price, oi_quantity = quantity, oi_notional = notional,
        oi_priceRounding = priceRounding, oi_quantityRounding = quantityRounding,
        oi_constraintVersion = version,
        oi_protection = (if protection = JUndef then None
          else Some \<lparr>pr_stopLoss = decimal_of stopLoss, pr_takeProfit = decimal_of takeProfit,
                 pr_takeProfitPolicy = (policy \<noteq> JUndef)\<rparr>)\<rparr>))))))))))))))))"

subsection \<open>Normalization\<close>

definition round_by_direction :: "'d lib \<Rightarrow> 'd \<Rightarrow> 'd \<Rightarrow> rounding_direction \<Rightarrow> 'd result" where
  "round_by_direction L value step direction =
     (if direction = FloorDirection then floor_to_step L value step else ceil_to_step L value step)"

definition parse_direction :: "'d jsval \<Rightarrow> string \<Rightarrow> rounding_direction result" where
  "parse_direction value field =
     (case rounding_direction_of value of None \<Rightarrow> Fail_at INVALID_CONSTRAINT field | Some d \<Rightarrow> Ok d)"

definition parse_positive :: "'d lib \<Rightarrow> 'd jsval \<Rightarrow> string \<Rightarrow> 'd result" where
  "parse_positive L value field =
     rbind (dec_from_string L value) (\<lambda>d.
       if \<not> is_positive L d then Fail_at CONSTRAINT_VIOLATION field else Ok d)"

definition parse_exit ::
  "'d lib \<Rightarrow> rounding_direction \<Rightarrow> 'd instrument_constraints \<Rightarrow> string \<Rightarrow> 'd jsval \<Rightarrow> 'd result" where
  "parse_exit L direction constraints key rawValue =
     rbind (parse_positive L rawValue key) (\<lambda>parsed.
       round_by_direction L parsed (ic_priceTickSize constraints) direction)"

definition parse_protection ::
  "'d lib \<Rightarrow> 'd jsval \<Rightarrow> rounding_direction \<Rightarrow> 'd instrument_constraints \<Rightarrow> 'd protection_intent option result" where
  "parse_protection L input direction constraints =
     (if input = JUndef then Ok None
      else guard UNSUPPORTED_CONTRACT (is_record input) (
        rbind (optional (parse_exit L direction constraints ''stopLoss'') (get input ''stopLoss'')) (\<lambda>stopLoss.
        rbind (optional (parse_exit L direction constraints ''takeProfit'') (get input ''takeProfit'')) (\<lambda>takeProfit.
        guard PROTECTION_REQUIRED (stopLoss \<noteq> None \<or> takeProfit \<noteq> None) (
        Ok (Some \<lparr>pr_stopLoss = stopLoss, pr_takeProfit = takeProfit, pr_takeProfitPolicy = False\<rparr>))))))"

definition normalize_order_intent ::
  "'d lib \<Rightarrow> 'd jsval \<Rightarrow> 'd instrument_constraints \<Rightarrow> 'd order_intent result" where
  "normalize_order_intent L input constraints =
     guard INVALID_VALUE (is_record input) (
     guard UNSUPPORTED_CONTRACT (\<not> has_key input ''clientOrderId'') (
     guard UNSUPPORTED_CONTRACT (get input ''positionMode'' = JUndef \<and> get input ''takeProfits'' = JUndef) (
     guard CONSTRAINT_VIOLATION (get input ''instrument'' = JStr (ic_instrument constraints)) (
     guard UNSUPPORTED_CONTRACT (get input ''orderType'' = JStr ''limit'') (
     need_some INVALID_VALUE (order_side_of (get input ''side'')) (\<lambda>side.
     need_some INVALID_VALUE (position_effect_of (get input ''positionEffect'')) (\<lambda>effect.
     rbind (require_identifier (get input ''intentId'') ''intentId'') (\<lambda>intentId.
     guard INVALID_CONSTRAINT (is_record (get input ''rounding'')) (
     rbind (parse_direction (get (get input ''rounding'') ''price'') ''rounding.price'') (\<lambda>priceDirection.
     rbind (parse_direction (get (get input ''rounding'') ''quantity'') ''rounding.quantity'') (\<lambda>quantityDirection.
     rbind (parse_positive L (get input ''price'') ''price'') (\<lambda>rawPrice.
     rbind (parse_positive L (get input ''quantity'') ''quantity'') (\<lambda>rawQuantity.
     rbind (round_by_direction L rawPrice (ic_priceTickSize constraints) priceDirection) (\<lambda>price.
     rbind (round_by_direction L rawQuantity (ic_quantityStep constraints) quantityDirection) (\<lambda>quantity.
     guard CONSTRAINT_VIOLATION (is_positive L price) (
     guard QUANTITY_TOO_SMALL (is_positive L quantity) (
     guard QUANTITY_TOO_SMALL (\<not> dec_compare L quantity (ic_minQuantity constraints) < 0) (
     let notional = dec_multiply L price quantity in
     guard NOTIONAL_TOO_SMALL
       (case ic_minNotional constraints of None \<Rightarrow> True | Some m \<Rightarrow> \<not> dec_compare L notional m < 0) (
     rbind (parse_protection L (get input ''protection'') priceDirection constraints) (\<lambda>protection.
     create_order_intent L (order_intent_to_js
       \<lparr>oi_intentId = intentId, oi_instrument = ic_instrument constraints, oi_side = side,
        oi_positionEffect = effect, oi_price = price, oi_quantity = quantity, oi_notional = notional,
        oi_priceRounding = priceDirection, oi_quantityRounding = quantityDirection,
        oi_constraintVersion = ic_version constraints, oi_protection = protection\<rparr>)))))))))))))))))))))"

subsection \<open>What an intent holds\<close>

definition wf_protection :: "('d \<Rightarrow> rat) \<Rightarrow> 'd protection_intent \<Rightarrow> bool" where
  "wf_protection v p \<longleftrightarrow>
     (\<forall>d. pr_stopLoss p = Some d \<longrightarrow> 0 < v d) \<and> (\<forall>d. pr_takeProfit p = Some d \<longrightarrow> 0 < v d) \<and>
     (pr_stopLoss p \<noteq> None \<or> pr_takeProfit p \<noteq> None) \<and>
     (pr_takeProfitPolicy p \<longrightarrow> pr_takeProfit p \<noteq> None \<and> pr_stopLoss p = None)"

definition wf_order_intent :: "('d \<Rightarrow> rat) \<Rightarrow> 'd order_intent \<Rightarrow> bool" where
  "wf_order_intent v i \<longleftrightarrow>
     safe_identifier (oi_intentId i) \<and> safe_identifier (oi_instrument i) \<and>
     safe_text (oi_constraintVersion i) \<and> 0 < v (oi_price i) \<and> 0 < v (oi_quantity i) \<and>
     v (oi_notional i) = v (oi_price i) * v (oi_quantity i) \<and>
     (\<forall>p. oi_protection i = Some p \<longrightarrow> wf_protection v p)"

lemma text_of_simps [simp]:
  "order_side_of (JStr (order_side_text s)) = Some s"
  "position_effect_of (JStr (position_effect_text e)) = Some e"
  "rounding_direction_of (JStr (rounding_direction_text r)) = Some r"
  "decimal_of (JDec d) = Some d" "decimal_of JUndef = None"
proof -
  show "order_side_of (JStr (order_side_text s)) = Some s" by (cases s) (simp_all add: order_side_of_def)
  show "position_effect_of (JStr (position_effect_text e)) = Some e"
    by (cases e) (simp_all add: position_effect_of_def)
  show "rounding_direction_of (JStr (rounding_direction_text r)) = Some r"
    by (cases r) (simp_all add: rounding_direction_of_def)
qed (simp_all add: decimal_of_def)

lemma get_protection [simp]:
  "get (protection_to_js p) ''stopLoss'' = (case pr_stopLoss p of None \<Rightarrow> JUndef | Some d \<Rightarrow> JDec d)"
  "get (protection_to_js p) ''takeProfit'' = (case pr_takeProfit p of None \<Rightarrow> JUndef | Some d \<Rightarrow> JDec d)"
  "get (protection_to_js p) ''takeProfitPolicy'' = (if pr_takeProfitPolicy p then take_profit_policy_js else JUndef)"
  "closed_record (protection_to_js p) [''stopLoss'', ''takeProfit'', ''takeProfitPolicy'']"
  "protection_to_js p \<noteq> JUndef"
  by (auto simp: protection_to_js_def closed_record_def opt_field_def split: option.splits)

lemma take_profit_policy_valid [simp]: "valid_take_profit_policy take_profit_policy_js"
  "take_profit_policy_js \<noteq> JUndef"
  by (simp_all add: valid_take_profit_policy_def take_profit_policy_js_def closed_record_def)

context big_decimal
begin

lemma valid_protection_iff:
  "valid_protection L (protection_to_js p) \<and> (pr_stopLoss p \<noteq> None \<or> pr_takeProfit p \<noteq> None) \<longleftrightarrow> wf_protection v p"
  by (auto simp: valid_protection_def wf_protection_def positive_decimal_def Let_def split: option.splits)

lemma create_order_intent_typed:
  "create_order_intent L (order_intent_to_js i) = Inr j \<longleftrightarrow> j = i \<and> wf_order_intent v i"
proof -
  define q where "q = get (order_intent_to_js i) ''protection''"
  have q: "q = (case oi_protection i of None \<Rightarrow> JUndef | Some p \<Rightarrow> protection_to_js p)"
    by (auto simp: q_def order_intent_to_js_def opt_field_def split: option.splits)
  have fields: "get (order_intent_to_js i) ''normalization'' = JObj
         [(''price'', JStr (rounding_direction_text (oi_priceRounding i))),
          (''quantity'', JStr (rounding_direction_text (oi_quantityRounding i))),
          (''constraintVersion'', JStr (oi_constraintVersion i))]"
    "get (order_intent_to_js i) ''intentId'' = JStr (oi_intentId i)"
    "get (order_intent_to_js i) ''instrument'' = JStr (oi_instrument i)"
    "get (order_intent_to_js i) ''orderType'' = JStr ''limit''"
    "get (order_intent_to_js i) ''side'' = JStr (order_side_text (oi_side i))"
    "get (order_intent_to_js i) ''positionEffect'' = JStr (position_effect_text (oi_positionEffect i))"
    "get (order_intent_to_js i) ''price'' = JDec (oi_price i)"
    "get (order_intent_to_js i) ''quantity'' = JDec (oi_quantity i)"
    "get (order_intent_to_js i) ''notional'' = JDec (oi_notional i)"
    by (simp_all add: order_intent_to_js_def)
  show ?thesis
  proof (cases "oi_protection i")
    case None
    then have u: "q = JUndef" by (simp add: q)
    show ?thesis
      unfolding create_order_intent_def Let_def q_def [symmetric] u fields
      using None by (cases i) (auto simp: need_Ok_iff wf_order_intent_def require_identifier_Ok require_safe_text_Ok)
  next
    case (Some p)
    then have u: "q = protection_to_js p" by (simp add: q)
    have p: "\<lparr>pr_stopLoss = decimal_of (get (protection_to_js p) ''stopLoss''),
        pr_takeProfit = decimal_of (get (protection_to_js p) ''takeProfit''),
        pr_takeProfitPolicy = (get (protection_to_js p) ''takeProfitPolicy'' \<noteq> JUndef)\<rparr> = p"
      by (cases p) (auto split: option.splits)
    have e: "get (protection_to_js p) ''stopLoss'' \<noteq> JUndef \<or> get (protection_to_js p) ''takeProfit'' \<noteq> JUndef \<longleftrightarrow>
        pr_stopLoss p \<noteq> None \<or> pr_takeProfit p \<noteq> None"
      by (auto split: option.splits)
    show ?thesis
      unfolding create_order_intent_def Let_def q_def [symmetric] u fields p e
      using valid_protection_iff [of p] Some
      by (cases i) (auto simp: need_Ok_iff wf_order_intent_def require_identifier_Ok require_safe_text_Ok)
  qed
qed

end

subsection \<open>Rounding to a grid\<close>

text \<open>
  On the grid and on the side asked for, less than a step away. Rounding up takes the quotient cut
  to 1000 digits, so a value that exceeds a grid point by less than the \<open>10^-1000\<close>th part of
  a step (and is not \<open>step_exact\<close>) stays at that point.
\<close>

definition rounded_to :: "rounding_direction \<Rightarrow> rat \<Rightarrow> rat \<Rightarrow> rat \<Rightarrow> bool" where
  "rounded_to direction step x r \<longleftrightarrow>
     (\<exists>k. r = of_int k * step) \<and>
     (case direction of
        FloorDirection \<Rightarrow> r \<le> x \<and> x < r + step
      | CeilDirection \<Rightarrow> r < x + step \<and> x < r + step / 10 ^ DECIMAL_DP \<and> (step_exact (x / step) \<longrightarrow> x \<le> r))"

text \<open>The text of an input, rounded; an exit of the input that is there, rounded like the price.\<close>

definition field_rounded :: "'d lib \<Rightarrow> ('d \<Rightarrow> rat) \<Rightarrow> rounding_direction \<Rightarrow> rat \<Rightarrow> 'd jsval \<Rightarrow> 'd \<Rightarrow> bool" where
  "field_rounded L v direction step raw r \<longleftrightarrow>
     (\<exists>x. dec_from_string L raw = Ok x \<and> 0 < v x \<and> rounded_to direction step (v x) (v r))"

definition exit_rounded :: "'d lib \<Rightarrow> ('d \<Rightarrow> rat) \<Rightarrow> rounding_direction \<Rightarrow> rat \<Rightarrow> 'd jsval \<Rightarrow> 'd option \<Rightarrow> bool" where
  "exit_rounded L v direction step raw r \<longleftrightarrow>
     (case r of None \<Rightarrow> raw = JUndef | Some d \<Rightarrow> field_rounded L v direction step raw d)"

definition protection_rounded ::
  "'d lib \<Rightarrow> ('d \<Rightarrow> rat) \<Rightarrow> rounding_direction \<Rightarrow> rat \<Rightarrow> 'd jsval \<Rightarrow> 'd protection_intent option \<Rightarrow> bool" where
  "protection_rounded L v direction step raw p \<longleftrightarrow>
     (case p of None \<Rightarrow> raw = JUndef
      | Some exits \<Rightarrow> exit_rounded L v direction step (get raw ''stopLoss'') (pr_stopLoss exits) \<and>
          exit_rounded L v direction step (get raw ''takeProfit'') (pr_takeProfit exits))"

text \<open>
  The contract both roundings meet: they always succeed for a positive step, return a multiple
  of the step and keep a value that is one already.
\<close>

locale step_rounding =
  fixes to_step :: "'d \<Rightarrow> 'd \<Rightarrow> 'd result" and v :: "'d \<Rightarrow> rat"
  assumes total: "0 < v step \<Longrightarrow> \<exists>r. to_step x step = Inr r"
    and aligned: "0 < v step \<Longrightarrow> to_step x step = Inr r \<Longrightarrow> \<exists>k. v r = of_int k * v step"
    and keeps: "0 < v step \<Longrightarrow> 0 \<le> v x \<Longrightarrow> v x = of_int k * v step \<Longrightarrow> to_step x step = Inr r \<Longrightarrow> v r = v x"
begin

lemma idempotent:
  assumes "0 < v step" "to_step x step = Inr r" "0 \<le> v r"
  shows "\<exists>s. to_step r step = Inr s \<and> v s = v r"
proof -
  obtain k where "v r = of_int k * v step" using aligned assms by blast
  then show ?thesis using total [OF assms(1), of r] keeps [OF assms(1,3)] by metis
qed

end

sublocale big_decimal \<subseteq> floor: step_rounding "floor_to_step L" v
proof
  show "\<exists>r. floor_to_step L x step = Inr r" if "0 < v step" for x step
    using round_to_step_value [OF that, of x DOWN] by (auto simp: floor_to_step_def)
  show "\<exists>k. v r = of_int k * v step" if "0 < v step" "floor_to_step L x step = Inr r" for x step r
    using floor_to_step_Ok(1) that by blast
  show "v r = v x" if "0 < v step" "0 \<le> v x" "v x = of_int k * v step" "floor_to_step L x step = Inr r"
    for x step r k
    using aligned_to_step(1) [OF that(1-3)] that(4) by simp
qed

sublocale big_decimal \<subseteq> ceil: step_rounding "ceil_to_step L" v
proof
  show "\<exists>r. ceil_to_step L x step = Inr r" if "0 < v step" for x step
    using round_to_step_value [OF that, of x UP] by (auto simp: ceil_to_step_def)
  show "\<exists>k. v r = of_int k * v step" if "0 < v step" "ceil_to_step L x step = Inr r" for x step r
    using ceil_to_step_aligned that by blast
  show "v r = v x" if "0 < v step" "0 \<le> v x" "v x = of_int k * v step" "ceil_to_step L x step = Inr r"
    for x step r k
    using aligned_to_step(2) [OF that(1-3)] that(4) by simp
qed

sublocale big_decimal \<subseteq> directed: step_rounding "\<lambda>x s. round_by_direction L x s direction" v for direction
proof (cases direction)
  case FloorDirection
  then have "(\<lambda>x s. round_by_direction L x s direction) = floor_to_step L"
    by (simp add: fun_eq_iff round_by_direction_def)
  then show "step_rounding (\<lambda>x s. round_by_direction L x s direction) v"
    using floor.step_rounding_axioms by simp
next
  case CeilDirection
  then have "(\<lambda>x s. round_by_direction L x s direction) = ceil_to_step L"
    by (simp add: fun_eq_iff round_by_direction_def)
  then show "step_rounding (\<lambda>x s. round_by_direction L x s direction) v"
    using ceil.step_rounding_axioms by simp
qed

interpretation ref_floor: step_rounding "floor_to_step ref_lib" sval
  by (rule ref.floor.step_rounding_axioms)

context big_decimal
begin

lemma round_by_direction_aligned:
  "0 < v step \<Longrightarrow> round_by_direction L x step direction = Inr r \<Longrightarrow> \<exists>k. v r = of_int k * v step"
  by (rule directed.aligned)

lemma trunc_above: "0 \<le> q \<Longrightarrow> q < round_rat RoundDown dp q + 1 / 10 ^ dp"
proof -
  assume q: "0 \<le> q"
  have "q * 10 ^ dp < of_int \<lfloor>q * 10 ^ dp\<rfloor> + 1" by linarith
  then have "q < (of_int \<lfloor>q * 10 ^ dp\<rfloor> + 1) / 10 ^ dp" by (simp add: pos_less_divide_eq)
  then show ?thesis using q by (simp add: trunc_eq add_divide_distrib)
qed

lemma round_by_direction_rounded:
  assumes "0 < v step" "0 \<le> v x" "round_by_direction L x step direction = Inr r"
  shows "rounded_to direction (v step) (v x) (v r)"
proof (cases direction)
  case FloorDirection
  then have "v r = of_int \<lfloor>v x / v step\<rfloor> * v step"
    using floor_to_step_value [OF assms(1,2)] assms(3) by (auto simp: round_by_direction_def)
  moreover have "of_int \<lfloor>v x / v step\<rfloor> * v step \<le> v x" using assms(1) by (simp flip: pos_le_divide_eq)
  moreover have "v x / v step < of_int \<lfloor>v x / v step\<rfloor> + 1" by linarith
  then have "v x < (of_int \<lfloor>v x / v step\<rfloor> + 1) * v step" by (simp only: pos_divide_less_eq [OF assms(1)])
  ultimately show ?thesis by (auto simp: rounded_to_def FloorDirection algebra_simps)
next
  case CeilDirection
  let ?q = "v x / v step" and ?t = "round_rat RoundDown DECIMAL_DP (v x / v step)"
  have q: "0 \<le> ?q" using assms(1,2) by simp
  have "round_to_step L x step UP = Inr r" using assms(3) by (simp add: CeilDirection round_by_direction_def ceil_to_step_def)
  then have "v r = of_int (step_count UP ?q) * v step" using round_to_step_value [OF assms(1), of x UP] by auto
  moreover have "step_count UP ?q = \<lceil>?t\<rceil>" using q trunc_le(2) [OF q, of DECIMAL_DP] by (simp add: step_count_def)
  ultimately have r: "v r = of_int \<lceil>?t\<rceil> * v step" by simp
  have "of_int \<lceil>?t\<rceil> < ?q + 1" using trunc_le(1) [OF q, of DECIMAL_DP] by linarith
  then have "v r < (?q + 1) * v step" unfolding r using assms(1) by (simp only: mult_less_cancel_right_pos)
  then have above: "v r < v x + v step" using assms(1) by (simp add: distrib_right)
  have "?q < of_int \<lceil>?t\<rceil> + 1 / 10 ^ DECIMAL_DP" using trunc_above [OF q, of DECIMAL_DP] le_of_int_ceiling [of ?t] by linarith
  then have "v x < (of_int \<lceil>?t\<rceil> + 1 / 10 ^ DECIMAL_DP) * v step" by (simp only: pos_divide_less_eq [OF assms(1)])
  then have below: "v x < v r + v step / 10 ^ DECIMAL_DP" unfolding r by (simp add: distrib_right)
  have "v x \<le> v r" if "step_exact ?q"
  proof -
    have "v r = of_int \<lceil>?q\<rceil> * v step" unfolding r ceiling_trunc [OF q that] ..
    moreover have "?q * v step \<le> of_int \<lceil>?q\<rceil> * v step" using assms(1) by (intro mult_right_mono) auto
    ultimately show ?thesis using assms(1) by simp
  qed
  then show ?thesis using above below r by (auto simp: rounded_to_def CeilDirection)
qed

lemma parse_positive_Ok: "parse_positive L j f = Inr d \<longleftrightarrow> dec_from_string L j = Inr d \<and> 0 < v d"
  by (auto simp: parse_positive_def rbind_Ok_iff split: if_split_asm)

lemma parse_exit_rounded:
  assumes "0 < v (ic_priceTickSize c)" "optional (parse_exit L direction c key) raw = Inr r"
  shows "exit_rounded L v direction (v (ic_priceTickSize c)) raw r"
  using assms round_by_direction_rounded [OF assms(1)]
  by (cases r)
    (auto simp: exit_rounded_def field_rounded_def parse_exit_def parse_positive_Ok rbind_Ok_iff result_simps less_imp_le)

lemma parse_protection_rounded:
  assumes "0 < v (ic_priceTickSize c)" "parse_protection L raw direction c = Inr p"
  shows "protection_rounded L v direction (v (ic_priceTickSize c)) raw p"
  using assms parse_exit_rounded [OF assms(1)]
  by (auto simp: protection_rounded_def parse_protection_def need_Ok_iff rbind_Ok_iff split: if_split_asm)

lemma create_order_intent_wf: "create_order_intent L input = Inr i \<Longrightarrow> wf_order_intent v i"
proof -
  assume ok: "create_order_intent L input = Inr i"
  define q where "q = get input ''protection''"
  have parts: "safe_identifier (oi_intentId i)" "safe_identifier (oi_instrument i)"
    "safe_text (oi_constraintVersion i)" "0 < v (oi_price i)" "0 < v (oi_quantity i)"
    "v (oi_notional i) = v (oi_price i) * v (oi_quantity i)"
    and protection: "q = JUndef \<or> valid_protection L q"
    "q = JUndef \<or> get q ''stopLoss'' \<noteq> JUndef \<or> get q ''takeProfit'' \<noteq> JUndef"
    "oi_protection i = (if q = JUndef then None
       else Some \<lparr>pr_stopLoss = decimal_of (get q ''stopLoss''), pr_takeProfit = decimal_of (get q ''takeProfit''),
         pr_takeProfitPolicy = (get q ''takeProfitPolicy'' \<noteq> JUndef)\<rparr>)"
    using ok unfolding create_order_intent_def Let_def q_def [symmetric]
    by (auto simp: need_Ok_iff require_identifier_Ok require_safe_text_Ok simp del: if_split)
  have "wf_protection v p" if "oi_protection i = Some p" for p
  proof -
    have u: "q \<noteq> JUndef" and p: "p = \<lparr>pr_stopLoss = decimal_of (get q ''stopLoss''),
      pr_takeProfit = decimal_of (get q ''takeProfit''), pr_takeProfitPolicy = (get q ''takeProfitPolicy'' \<noteq> JUndef)\<rparr>"
      using that protection(3) by (auto split: if_split_asm)
    show ?thesis
      using protection(1,2) u
      unfolding p wf_protection_def valid_protection_def positive_decimal_def Let_def
      by (auto split: option.split_asm)
  qed
  then show ?thesis using parts by (simp add: wf_order_intent_def)
qed

lemma normalize_order_intent_fields:
  assumes "normalize_order_intent L input c = Inr i"
  shows "parse_direction (get (get input ''rounding'') ''price'') ''rounding.price'' = Inr (oi_priceRounding i)"
    "parse_direction (get (get input ''rounding'') ''quantity'') ''rounding.quantity'' = Inr (oi_quantityRounding i)"
    "order_side_of (get input ''side'') = Some (oi_side i)"
    "position_effect_of (get input ''positionEffect'') = Some (oi_positionEffect i)"
    "get input ''intentId'' = JStr (oi_intentId i)"
  using assms unfolding normalize_order_intent_def Let_def
  by (auto simp: need_Ok_iff rbind_Ok_iff create_order_intent_typed require_identifier_Ok)

lemma normalize_order_intent_protection:
  assumes "normalize_order_intent L input c = Inr i"
  shows "parse_protection L (get input ''protection'') (oi_priceRounding i) c = Inr (oi_protection i)"
  using assms unfolding normalize_order_intent_def Let_def
  by (auto simp: need_Ok_iff rbind_Ok_iff create_order_intent_typed)

lemma normalize_order_intent_Ok:
  assumes "normalize_order_intent L input c = Inr i"
  shows "\<exists>rawPrice rawQuantity.
      dec_from_string L (get input ''price'') = Inr rawPrice \<and>
      dec_from_string L (get input ''quantity'') = Inr rawQuantity \<and>
      round_by_direction L rawPrice (ic_priceTickSize c) (oi_priceRounding i) = Inr (oi_price i) \<and>
      round_by_direction L rawQuantity (ic_quantityStep c) (oi_quantityRounding i) = Inr (oi_quantity i) \<and>
      0 < v rawPrice \<and> 0 < v rawQuantity"
    "v (ic_minQuantity c) \<le> v (oi_quantity i)"
    "ic_minNotional c = Some m \<Longrightarrow> v m \<le> v (oi_notional i)"
    "oi_instrument i = ic_instrument c" "oi_constraintVersion i = ic_version c" "wf_order_intent v i"
    "get input ''instrument'' = JStr (ic_instrument c)"
proof -
  from assms obtain side effect intentId rawPrice rawQuantity price quantity pd qd protection where
    facts: "get input ''instrument'' = JStr (ic_instrument c)"
      "dec_from_string L (get input ''price'') = Inr rawPrice" "0 < v rawPrice"
      "dec_from_string L (get input ''quantity'') = Inr rawQuantity" "0 < v rawQuantity"
      "round_by_direction L rawPrice (ic_priceTickSize c) pd = Inr price"
      "round_by_direction L rawQuantity (ic_quantityStep c) qd = Inr quantity"
      "v (ic_minQuantity c) \<le> v quantity"
      "case ic_minNotional c of None \<Rightarrow> True | Some m \<Rightarrow> \<not> dec_compare L (dec_multiply L price quantity) m < 0"
    and i: "i = \<lparr>oi_intentId = intentId, oi_instrument = ic_instrument c, oi_side = side,
        oi_positionEffect = effect, oi_price = price, oi_quantity = quantity,
        oi_notional = dec_multiply L price quantity,
        oi_priceRounding = pd, oi_quantityRounding = qd,
        oi_constraintVersion = ic_version c, oi_protection = protection\<rparr>" "wf_order_intent v i"
    unfolding normalize_order_intent_def Let_def
    by (auto simp: need_Ok_iff rbind_Ok_iff parse_positive_Ok create_order_intent_typed not_less)
  show "\<exists>rawPrice rawQuantity.
      dec_from_string L (get input ''price'') = Inr rawPrice \<and>
      dec_from_string L (get input ''quantity'') = Inr rawQuantity \<and>
      round_by_direction L rawPrice (ic_priceTickSize c) (oi_priceRounding i) = Inr (oi_price i) \<and>
      round_by_direction L rawQuantity (ic_quantityStep c) (oi_quantityRounding i) = Inr (oi_quantity i) \<and>
      0 < v rawPrice \<and> 0 < v rawQuantity"
    using facts i(1) by auto
  show "v m \<le> v (oi_notional i)" if "ic_minNotional c = Some m"
    using facts(9) that i(1) by (simp add: not_less)
  show "v (ic_minQuantity c) \<le> v (oi_quantity i)" "oi_instrument i = ic_instrument c"
    "oi_constraintVersion i = ic_version c" "wf_order_intent v i"
    "get input ''instrument'' = JStr (ic_instrument c)"
    using facts i by simp_all
qed

end

subsection \<open>Properties\<close>

text \<open>
  An order intent that \<open>createOrderIntent\<close> accepts has a positive price and quantity,
  a notional that is exactly their product, and, if it has a protection, only positive exits and
  at least one of them, the execution policy going with a take profit alone. Feeding an accepted
  intent back to the constructor returns it unchanged.
\<close>

theorem order_intent_sound:
  assumes "host L v" "create_order_intent L input = Ok i"
  shows "0 < v (oi_price i) \<and> 0 < v (oi_quantity i) \<and>
    v (oi_notional i) = v (oi_price i) * v (oi_quantity i) \<and>
    (\<forall>p. oi_protection i = Some p \<longrightarrow> wf_protection v p) \<and>
    create_order_intent L (order_intent_to_js i) = Ok i"
proof -
  have "wf_order_intent v i"
    by (rule big_decimal.create_order_intent_wf [OF host_decimal [OF assms(1)] assms(2)])
  then show ?thesis
    using big_decimal.create_order_intent_typed [OF host_decimal [OF assms(1)], of i i]
    by (simp add: wf_order_intent_def)
qed

text \<open>
  Claim C31: a normalized intent lies on the instrument's grid, on the side of what was asked for. Its
  price is a multiple of the tick and its quantity of the step, each less than one away from the
  value of the input and, in the direction of its rounding, not above it (floor) or not below
  it (ceil, as \<open>rounded_to\<close> states it: up to the 1000 digits of the quotient). The exits of its
  protection are those of the input, on the tick grid in the direction of the price. The
  quantity meets the minimum quantity, the notional is price times quantity and meets the
  minimum notional. (The constraints are well-formed, as \<open>createInstrumentConstraints\<close> returns them.)
\<close>

theorem normalized_intent_on_grid:
  assumes "host L v" "wf_constraints v c" "normalize_order_intent L input c = Ok i"
  shows "field_rounded L v (oi_priceRounding i) (v (ic_priceTickSize c)) (get input ''price'') (oi_price i) \<and>
    field_rounded L v (oi_quantityRounding i) (v (ic_quantityStep c)) (get input ''quantity'') (oi_quantity i) \<and>
    protection_rounded L v (oi_priceRounding i) (v (ic_priceTickSize c)) (get input ''protection'') (oi_protection i) \<and>
    rounding_direction_of (get (get input ''rounding'') ''price'') = Some (oi_priceRounding i) \<and>
    rounding_direction_of (get (get input ''rounding'') ''quantity'') = Some (oi_quantityRounding i) \<and>
    v (ic_minQuantity c) \<le> v (oi_quantity i) \<and>
    (\<forall>m. ic_minNotional c = Some m \<longrightarrow> v m \<le> v (oi_notional i)) \<and>
    v (oi_notional i) = v (oi_price i) * v (oi_quantity i)"
proof -
  note big = host_decimal [OF assms(1)]
  note facts = big_decimal.normalize_order_intent_Ok [OF big assms(3)]
  note parsed = big_decimal.normalize_order_intent_fields [OF big assms(3)]
  have pos: "0 < v (ic_priceTickSize c)" "0 < v (ic_quantityStep c)"
    using assms(2) by (simp_all add: wf_constraints_def)
  have "field_rounded L v (oi_priceRounding i) (v (ic_priceTickSize c)) (get input ''price'') (oi_price i)"
    "field_rounded L v (oi_quantityRounding i) (v (ic_quantityStep c)) (get input ''quantity'') (oi_quantity i)"
    using facts(1) big_decimal.round_by_direction_rounded [OF big pos(1)] big_decimal.round_by_direction_rounded [OF big pos(2)]
    by (force simp: field_rounded_def)+
  moreover have "rounding_direction_of (get (get input ''rounding'') ''price'') = Some (oi_priceRounding i)"
    "rounding_direction_of (get (get input ''rounding'') ''quantity'') = Some (oi_quantityRounding i)"
    using parsed(1,2) by (simp_all add: parse_direction_def split: option.splits)
  moreover note big_decimal.parse_protection_rounded [OF big pos(1)
    big_decimal.normalize_order_intent_protection [OF big assms(3)]]
  ultimately show ?thesis using facts(2,3,6) by (simp add: wf_order_intent_def)
qed

definition sample_intent_js :: "'d jsval" where
  "sample_intent_js = JObj [(''intentId'', JStr ''leg-1''), (''instrument'', JStr ''BTCUSDT''),
     (''orderType'', JStr ''limit''), (''side'', JStr ''buy''), (''positionEffect'', JStr ''open''),
     (''price'', JStr ''39999.7''), (''quantity'', JStr ''0.0015''),
     (''rounding'', JObj [(''price'', JStr ''floor''), (''quantity'', JStr ''floor'')]),
     (''protection'', JObj [(''takeProfit'', JStr ''41000'')])]"

definition sample_intent :: "sdec order_intent" where
  "sample_intent = \<lparr>oi_intentId = ''leg-1'', oi_instrument = ''BTCUSDT'', oi_side = Buy,
     oi_positionEffect = OpenPosition, oi_price = SDec 399995 1, oi_quantity = SDec 1 3,
     oi_notional = SDec 399995 4, oi_priceRounding = FloorDirection, oi_quantityRounding = FloorDirection,
     oi_constraintVersion = ''instrument-constraints/v1'',
     oi_protection = Some \<lparr>pr_stopLoss = None, pr_takeProfit = Some (SDec 410000 1), pr_takeProfitPolicy = False\<rparr>\<rparr>"

lemma sample_intent_normalized: "normalize_order_intent ref_lib sample_intent_js sample_constraints = Ok sample_intent"
  by code_simp

theorem normalized_intent_on_grid_witness:
  "(\<exists>k. sval (oi_price sample_intent) = of_int k * sval (ic_priceTickSize sample_constraints)) \<and>
   exit_rounded ref_lib sval FloorDirection (sval (ic_priceTickSize sample_constraints)) (JStr ''41000'') (Some (SDec 410000 1))"
proof -
  have "wf_constraints sval sample_constraints"
    using host_market_wf [OF ref_host sample_market_created] by (simp add: wf_market_snapshot_def sample_market_def)
  from normalized_intent_on_grid [OF ref_host this sample_intent_normalized] show ?thesis
    by (auto simp: field_rounded_def rounded_to_def protection_rounded_def sample_intent_js_def sample_intent_def)
qed

theorem order_intent_sound_witness: "0 < sval (oi_price sample_intent)"
proof -
  have "create_order_intent ref_lib (order_intent_to_js sample_intent) = Ok sample_intent" by code_simp
  from order_intent_sound [OF ref_host this] show ?thesis by blast
qed

end
