(* ===== verification/Policies.thy ===== *)
theory Policies
  imports Orders
begin

text \<open>
  \<open>domain/planning/decision-policy.ts\<close> and \<open>planning-policy.ts\<close>: the versioned policies the
  daily decision and the entry grid are computed from. Every parse failure has the code
  \<open>INVALID_PLAN\<close>, so the order of the checks is not observable.

  Shown here: an accepted decision policy has distinct symbols, selectors, groups and rules,
  group weights that sum to exactly one, quorums that its groups can meet, and conditions
  that refer to its own selectors; an accepted planning policy has strictly increasing
  offsets and allocation weights that sum to exactly one.
\<close>

subsection \<open>The data of a decision policy\<close>

definition MARKET_EVIDENCE_SYMBOLS :: "string list" where
  "MARKET_EVIDENCE_SYMBOLS = [''BTCUSDT'', ''ETHUSDT'', ''SOLUSDT'', ''DOGEUSDT'']"

definition LIQUIDATION_EVIDENCE_ASSETS :: "string list" where
  "LIQUIDATION_EVIDENCE_ASSETS = [''BTC'', ''ETH'', ''SOL'', ''DOGE'']"

datatype daily_recommendation = ADD_LONG | REDUCE_LONG | HOLD_LONG

datatype numeric_comparison = CmpLt | CmpLte | CmpEq | CmpGte | CmpGt

datatype external_applicability = GlobalScope "string list" | SymbolScope string

datatype evidence_reference =
    NativeSymbol (nr_requestId: string) (nr_kind: string) (nr_field: string) (nr_symbol: string)
  | NativeAsset (nr_requestId: string) (nr_kind: string) (nr_field: string) (nr_asset: string)
  | TickerReference (tr_symbol: string) (tr_field: string)
  | ExternalReference (er_family: string) (er_field: string) (er_applicability: external_applicability)

record evidence_selector =
  sel_id :: string
  sel_required :: bool
  sel_reference :: evidence_reference

record 'd decision_condition =
  dc_selectorId :: string
  dc_comparison :: numeric_comparison
  dc_threshold :: 'd

record 'd decision_rule =
  dr_id :: string
  dr_target :: daily_recommendation
  dr_support :: 'd
  dr_conditions :: "'d decision_condition list"

record 'd decision_group =
  dg_id :: string
  dg_weight :: 'd
  dg_rules :: "'d decision_rule list"

record 'd directional_qualification =
  dq_supportThreshold :: 'd
  dq_minAgreeingGroups :: int

record 'd decision_policy =
  dp_policyVersion :: string
  dp_symbolApplicability :: "string list"
  dp_selectors :: "evidence_selector list"
  dp_groups :: "'d decision_group list"
  dp_addLong :: "'d directional_qualification"
  dp_reduceLong :: "'d directional_qualification"
  dp_reductionFraction :: 'd

fun recommendation_text :: "daily_recommendation \<Rightarrow> string" where
  "recommendation_text ADD_LONG = ''ADD_LONG''"
| "recommendation_text REDUCE_LONG = ''REDUCE_LONG''"
| "recommendation_text HOLD_LONG = ''HOLD_LONG''"

fun comparison_text :: "numeric_comparison \<Rightarrow> string" where
  "comparison_text CmpLt = ''lt''"
| "comparison_text CmpLte = ''lte''"
| "comparison_text CmpEq = ''eq''"
| "comparison_text CmpGte = ''gte''"
| "comparison_text CmpGt = ''gt''"

definition recommendation_of :: "'d jsval \<Rightarrow> daily_recommendation option" where
  "recommendation_of value =
     (case value of JStr s \<Rightarrow> find (\<lambda>t. recommendation_text t = s) [ADD_LONG, REDUCE_LONG, HOLD_LONG]
      | _ \<Rightarrow> None)"

definition comparison_of :: "'d jsval \<Rightarrow> numeric_comparison option" where
  "comparison_of value =
     (case value of JStr s \<Rightarrow> find (\<lambda>c. comparison_text c = s) [CmpLt, CmpLte, CmpEq, CmpGte, CmpGt]
      | _ \<Rightarrow> None)"

definition native_fields :: "(string \<times> string list) list" where
  "native_fields =
     [(''close-return'', [''percent'']), (''maximum-drawdown'', [''percent'']),
      (''atr'', [''atr'', ''normalizedPercent'']), (''realized-volatility'', [''percent'']),
      (''volatility-comparison'', [''recentPercent'', ''referencePercent'', ''ratio'']),
      (''funding-change'', [''change'']), (''open-interest-absolute-change'', [''change'']),
      (''open-interest-relative-change'', [''percent'']),
      (''liquidation-window'', [''longUsd'', ''shortUsd'', ''totalUsd'', ''imbalance''])]"

definition directions :: "(string \<times> string) list" where
  "directions = [(''market-regime-score'', ''higher-is-healthier''),
     (''early-warning-risk'', ''higher-is-warning''), (''liquidity-stress'', ''higher-is-stress'')]"

definition ticker_fields :: "string list" where
  "ticker_fields = [''bid'', ''ask'', ''last'', ''markPrice'', ''indexPrice'', ''fundingRate'',
     ''openInterest'', ''volume24h'', ''turnover24h'']"

subsection \<open>Parsing selectors\<close>

definition planning_symbol :: "'d jsval \<Rightarrow> string option" where
  "planning_symbol value =
     (case value of JStr s \<Rightarrow> if s \<in> set MARKET_EVIDENCE_SYMBOLS then Some s else None | _ \<Rightarrow> None)"

definition liquidation_asset :: "'d jsval \<Rightarrow> string option" where
  "liquidation_asset value =
     (case value of JStr s \<Rightarrow> if s \<in> set LIQUIDATION_EVIDENCE_ASSETS then Some s else None | _ \<Rightarrow> None)"

definition string_of :: "'d jsval \<Rightarrow> string option" where
  "string_of value = (case value of JStr s \<Rightarrow> Some s | _ \<Rightarrow> None)"

definition bool_of :: "'d jsval \<Rightarrow> bool option" where
  "bool_of value = (case value of JBool b \<Rightarrow> Some b | _ \<Rightarrow> None)"

definition symbol_list :: "'d jsval \<Rightarrow> string list option" where
  "symbol_list value =
     (if bounded_list value (length MARKET_EVIDENCE_SYMBOLS)
      then (case those (map planning_symbol (elements value)) of
              Some symbols \<Rightarrow> if distinct symbols then Some symbols else None | None \<Rightarrow> None)
      else None)"

definition applicability :: "'d jsval \<Rightarrow> string list \<Rightarrow> external_applicability result" where
  "applicability input symbols =
     guard INVALID_PLAN (closed_record input [''scope'', ''symbols'', ''symbol'']) (
     if get input ''scope'' = JStr ''symbol'' \<and> closed_record input [''scope'', ''symbol''] \<and>
        (\<exists>s \<in> set symbols. planning_symbol (get input ''symbol'') = Some s)
     then Ok (SymbolScope (the (planning_symbol (get input ''symbol''))))
     else guard INVALID_PLAN (get input ''scope'' = JStr ''global'' \<and> closed_record input [''scope'', ''symbols'']) (
       need_some INVALID_PLAN (symbol_list (get input ''symbols'')) (\<lambda>listed.
       guard INVALID_PLAN (list_all (\<lambda>s. s \<in> set symbols) listed) (
       Ok (GlobalScope (sort listed))))))"

definition parse_native_reference :: "'d jsval \<Rightarrow> string list \<Rightarrow> evidence_reference result" where
  "parse_native_reference input symbols =
     (let liquidation = (get input ''kind'' = JStr ''liquidation-window'') in
      guard INVALID_PLAN (closed_record input
        [''id'', ''required'', ''source'', ''requestId'', ''kind'', ''field'',
         if liquidation then ''asset'' else ''symbol'']) (
      need INVALID_PLAN (require_identifier (get input ''requestId'') ''requestId'') (\<lambda>request.
      guard INVALID_PLAN (take 9 request \<noteq> ''external:'') (
      need_some INVALID_PLAN (string_of (get input ''kind'')) (\<lambda>kind.
      need_some INVALID_PLAN (string_of (get input ''field'')) (\<lambda>field.
      need_some INVALID_PLAN (map_of native_fields kind) (\<lambda>allowed.
      guard INVALID_PLAN (field \<in> set allowed) (
      if liquidation
      then need_some INVALID_PLAN (liquidation_asset (get input ''asset'')) (\<lambda>asset.
             guard INVALID_PLAN (asset @ ''USDT'' \<in> set symbols) (
             Ok (NativeAsset request kind field asset)))
      else need_some INVALID_PLAN (planning_symbol (get input ''symbol'')) (\<lambda>symbol.
             guard INVALID_PLAN (symbol \<in> set symbols) (
             Ok (NativeSymbol request kind field symbol)))))))))))"

definition parse_ticker_reference :: "'d jsval \<Rightarrow> string list \<Rightarrow> evidence_reference result" where
  "parse_ticker_reference input symbols =
     guard INVALID_PLAN (closed_record input [''id'', ''required'', ''source'', ''symbol'', ''field'']) (
     need_some INVALID_PLAN (planning_symbol (get input ''symbol'')) (\<lambda>symbol.
     guard INVALID_PLAN (symbol \<in> set symbols) (
     need_some INVALID_PLAN (string_of (get input ''field'')) (\<lambda>field.
     guard INVALID_PLAN (field \<in> set ticker_fields) (
     Ok (TickerReference symbol field))))))"

definition parse_external_reference :: "'d jsval \<Rightarrow> string list \<Rightarrow> evidence_reference result" where
  "parse_external_reference input symbols =
     (let trap = (get input ''family'' = JStr ''trap'') in
      guard INVALID_PLAN (closed_record input
        ([''id'', ''required'', ''source'', ''family'', ''field'', ''applicability''] @
         (if trap then [] else [''direction'']))) (
      need INVALID_PLAN (applicability (get input ''applicability'') symbols) (\<lambda>applies.
      need_some INVALID_PLAN (string_of (get input ''field'')) (\<lambda>field.
      if trap
      then guard INVALID_PLAN
             (field \<in> set [''confidence'', ''continuation'', ''reversal'', ''squeeze'', ''range'']) (
           Ok (ExternalReference ''trap'' field applies))
      else need_some INVALID_PLAN (string_of (get input ''family'')) (\<lambda>family.
           need_some INVALID_PLAN (map_of directions family) (\<lambda>direction.
           guard INVALID_PLAN (field \<in> set [''score'', ''confidence'']) (
           guard INVALID_PLAN (get input ''direction'' = JStr direction) (
           Ok (ExternalReference family field applies)))))))))"

definition parse_evidence_selector :: "'d jsval \<Rightarrow> string list \<Rightarrow> evidence_selector result" where
  "parse_evidence_selector input symbols =
     guard INVALID_PLAN (closed_record input
       [''id'', ''required'', ''source'', ''requestId'', ''kind'', ''field'', ''symbol'', ''asset'',
        ''family'', ''direction'', ''applicability'']) (
     need INVALID_PLAN (require_identifier (get input ''id'') ''id'') (\<lambda>id.
     need_some INVALID_PLAN (bool_of (get input ''required'')) (\<lambda>required.
     rbind
       (if get input ''source'' = JStr ''native'' then parse_native_reference input symbols
        else if get input ''source'' = JStr ''ticker'' then parse_ticker_reference input symbols
        else if get input ''source'' = JStr ''external'' then parse_external_reference input symbols
        else Fail INVALID_PLAN)
       (\<lambda>reference. Ok \<lparr>sel_id = id, sel_required = required, sel_reference = reference\<rparr>))))"

subsection \<open>Parsing the policy\<close>

definition planning_one :: "'d lib \<Rightarrow> 'd" where
  "planning_one L = planning_constant L ''1''"

definition planning_hundred :: "'d lib \<Rightarrow> 'd" where
  "planning_hundred L = planning_constant L ''100''"

definition planning_zero :: "'d lib \<Rightarrow> 'd" where
  "planning_zero L = planning_constant L ''0''"

definition qualification :: "'d lib \<Rightarrow> 'd jsval \<Rightarrow> nat \<Rightarrow> 'd directional_qualification result" where
  "qualification L input groupCount =
     guard INVALID_PLAN (closed_record input [''supportThreshold'', ''minAgreeingGroups'']) (
     need INVALID_PLAN
       (planning_decimal L (get input ''supportThreshold'') True (Some (planning_hundred L))) (\<lambda>threshold.
     need INVALID_PLAN (require_finite_integer (get input ''minAgreeingGroups'') ''minAgreeingGroups'' 1) (\<lambda>n.
     guard INVALID_PLAN (n \<le> int groupCount) (
     Ok \<lparr>dq_supportThreshold = threshold, dq_minAgreeingGroups = n\<rparr>))))"

primrec parse_selectors ::
  "string list \<Rightarrow> evidence_selector list \<Rightarrow> 'd jsval list \<Rightarrow> evidence_selector list result" where
  "parse_selectors symbols acc [] = Ok acc"
| "parse_selectors symbols acc (row # rows) =
     need INVALID_PLAN (parse_evidence_selector row symbols) (\<lambda>parsed.
     guard INVALID_PLAN (\<not> list_ex (\<lambda>s. sel_id s = sel_id parsed) acc) (
     parse_selectors symbols (acc @ [parsed]) rows))"

text \<open>A threshold may be negative: it is bounded in length only.\<close>

definition parse_threshold :: "'d lib \<Rightarrow> 'd jsval \<Rightarrow> 'd result" where
  "parse_threshold L value =
     guard INVALID_PLAN
       (is_decimal_value value \<or> (case value of JStr s \<Rightarrow> length s \<le> 128 | _ \<Rightarrow> False)) (
     need INVALID_PLAN (case value of JDec d \<Rightarrow> Ok d | _ \<Rightarrow> dec_from_string L value) (\<lambda>threshold.
     guard INVALID_PLAN (length (dec_to_string L threshold) \<le> 128) (
     Ok threshold)))"

definition parse_condition ::
  "'d lib \<Rightarrow> evidence_selector list \<Rightarrow> 'd jsval \<Rightarrow> 'd decision_condition result" where
  "parse_condition L selectors condition =
     guard INVALID_PLAN (closed_record condition [''selectorId'', ''comparison'', ''threshold'']) (
     need_some INVALID_PLAN (find (\<lambda>s. JStr (sel_id s) = get condition ''selectorId'') selectors) (\<lambda>s.
     need_some INVALID_PLAN (comparison_of (get condition ''comparison'')) (\<lambda>comparison.
     rbind (parse_threshold L (get condition ''threshold'')) (\<lambda>threshold.
     Ok \<lparr>dc_selectorId = sel_id s, dc_comparison = comparison, dc_threshold = threshold\<rparr>))))"

definition condition_to_js :: "'d decision_condition \<Rightarrow> 'd jsval" where
  "condition_to_js c = JObj [(''selectorId'', JStr (dc_selectorId c)),
     (''comparison'', JStr (comparison_text (dc_comparison c))), (''threshold'', JDec (dc_threshold c))]"

definition parse_rule ::
  "'d lib \<Rightarrow> evidence_selector list \<Rightarrow> string list \<Rightarrow> 'd jsval \<Rightarrow> 'd decision_rule result" where
  "parse_rule L selectors ruleIds rule =
     guard INVALID_PLAN (closed_record rule [''id'', ''target'', ''support'', ''conditions'']) (
     need INVALID_PLAN (require_identifier (get rule ''id'') ''id'') (\<lambda>id.
     need INVALID_PLAN (planning_decimal L (get rule ''support'') False (Some (planning_hundred L))) (\<lambda>support.
     guard INVALID_PLAN (id \<notin> set ruleIds) (
     need_some INVALID_PLAN (recommendation_of (get rule ''target'')) (\<lambda>target.
     guard INVALID_PLAN (bounded_list (get rule ''conditions'') 16) (
     rbind (traverse (parse_condition L selectors) (elements (get rule ''conditions''))) (\<lambda>conditions.
     rbind (canonical_order L condition_to_js conditions) (\<lambda>ordered.
     Ok \<lparr>dr_id = id, dr_target = target, dr_support = support, dr_conditions = ordered\<rparr>))))))))"

text \<open>Rule identifiers are unique across all groups: the loops thread the set of those seen.\<close>

primrec parse_rules ::
  "'d lib \<Rightarrow> evidence_selector list \<Rightarrow> string list \<Rightarrow> 'd decision_rule list \<Rightarrow> 'd jsval list \<Rightarrow>
    ('d decision_rule list \<times> string list) result" where
  "parse_rules L selectors ruleIds acc [] = Ok (acc, ruleIds)"
| "parse_rules L selectors ruleIds acc (row # rows) =
     rbind (parse_rule L selectors ruleIds row) (\<lambda>rule.
       parse_rules L selectors (dr_id rule # ruleIds) (acc @ [rule]) rows)"

primrec parse_groups ::
  "'d lib \<Rightarrow> evidence_selector list \<Rightarrow> string list \<Rightarrow> 'd decision_group list \<Rightarrow> 'd jsval list \<Rightarrow>
    'd decision_group list result" where
  "parse_groups L selectors ruleIds acc [] = Ok acc"
| "parse_groups L selectors ruleIds acc (row # rows) =
     guard INVALID_PLAN (closed_record row [''id'', ''weight'', ''rules'']) (
     need INVALID_PLAN (require_identifier (get row ''id'') ''id'') (\<lambda>id.
     need INVALID_PLAN (planning_decimal L (get row ''weight'') True (Some (planning_one L))) (\<lambda>weight.
     guard INVALID_PLAN (\<not> list_ex (\<lambda>g. dg_id g = id) acc \<and> bounded_list (get row ''rules'') 64) (
     rbind (parse_rules L selectors ruleIds [] (elements (get row ''rules''))) (\<lambda>(rules, seen).
     parse_groups L selectors seen
       (acc @ [\<lparr>dg_id = id, dg_weight = weight, dg_rules = sort_key dr_id rules\<rparr>]) rows)))))"

definition sum_decimals :: "'d lib \<Rightarrow> 'd list \<Rightarrow> 'd" where
  "sum_decimals L xs = foldl (dec_add L) (planning_zero L) xs"

definition create_decision_policy :: "'d lib \<Rightarrow> 'd jsval \<Rightarrow> 'd decision_policy result" where
  "create_decision_policy L input =
     guard INVALID_PLAN (closed_record input
       [''schemaVersion'', ''policyVersion'', ''symbolApplicability'', ''selectors'', ''groups'',
        ''addLong'', ''reduceLong'', ''reductionFraction'']) (
     guard INVALID_PLAN (get input ''schemaVersion'' = JStr ''decision-policy/v1'') (
     need INVALID_PLAN (require_identifier (get input ''policyVersion'') ''policyVersion'') (\<lambda>version.
     need_some INVALID_PLAN (symbol_list (get input ''symbolApplicability'')) (\<lambda>listed.
     guard INVALID_PLAN (bounded_list (get input ''selectors'') 128 \<and> bounded_list (get input ''groups'') 32) (
     rbind (parse_selectors (sort listed) [] (elements (get input ''selectors''))) (\<lambda>selectors.
     rbind (parse_groups L selectors [] [] (elements (get input ''groups''))) (\<lambda>groups.
     guard INVALID_PLAN (dec_compare L (sum_decimals L (map dg_weight groups)) (planning_one L) = 0) (
     need INVALID_PLAN (qualification L (get input ''addLong'') (length groups)) (\<lambda>add.
     need INVALID_PLAN (qualification L (get input ''reduceLong'') (length groups)) (\<lambda>reduce.
     need INVALID_PLAN
       (planning_decimal L (get input ''reductionFraction'') True (Some (planning_one L))) (\<lambda>fraction.
     Ok \<lparr>dp_policyVersion = version, dp_symbolApplicability = sort listed,
       dp_selectors = sort_key sel_id selectors, dp_groups = sort_key dg_id groups,
       dp_addLong = add, dp_reduceLong = reduce, dp_reductionFraction = fraction\<rparr>)))))))))))"

subsection \<open>The policies as plain objects\<close>

definition applicability_to_js :: "external_applicability \<Rightarrow> 'd jsval" where
  "applicability_to_js a =
     (case a of
        GlobalScope symbols \<Rightarrow> JObj [(''scope'', JStr ''global''), (''symbols'', JArr (map JStr symbols))]
      | SymbolScope symbol \<Rightarrow> JObj [(''scope'', JStr ''symbol''), (''symbol'', JStr symbol)])"

definition selector_to_js :: "evidence_selector \<Rightarrow> 'd jsval" where
  "selector_to_js s = JObj ([(''id'', JStr (sel_id s)), (''required'', JBool (sel_required s))] @
     (case sel_reference s of
        NativeSymbol request kind field symbol \<Rightarrow>
          [(''source'', JStr ''native''), (''requestId'', JStr request), (''kind'', JStr kind),
           (''field'', JStr field), (''symbol'', JStr symbol)]
      | NativeAsset request kind field asset \<Rightarrow>
          [(''source'', JStr ''native''), (''requestId'', JStr request), (''kind'', JStr kind),
           (''field'', JStr field), (''asset'', JStr asset)]
      | TickerReference symbol field \<Rightarrow>
          [(''source'', JStr ''ticker''), (''symbol'', JStr symbol), (''field'', JStr field)]
      | ExternalReference family field applies \<Rightarrow>
          [(''source'', JStr ''external''), (''family'', JStr family), (''field'', JStr field)] @
          (case map_of directions family of None \<Rightarrow> [] | Some d \<Rightarrow> [(''direction'', JStr d)]) @
          [(''applicability'', applicability_to_js applies)]))"

definition rule_to_js :: "'d decision_rule \<Rightarrow> 'd jsval" where
  "rule_to_js r = JObj [(''id'', JStr (dr_id r)), (''target'', JStr (recommendation_text (dr_target r))),
     (''support'', JDec (dr_support r)), (''conditions'', JArr (map condition_to_js (dr_conditions r)))]"

definition group_to_js :: "'d decision_group \<Rightarrow> 'd jsval" where
  "group_to_js g = JObj [(''id'', JStr (dg_id g)), (''weight'', JDec (dg_weight g)),
     (''rules'', JArr (map rule_to_js (dg_rules g)))]"

definition qualification_to_js :: "'d directional_qualification \<Rightarrow> 'd jsval" where
  "qualification_to_js q = JObj [(''supportThreshold'', JDec (dq_supportThreshold q)),
     (''minAgreeingGroups'', JInt (dq_minAgreeingGroups q))]"

definition decision_policy_to_js :: "'d decision_policy \<Rightarrow> 'd jsval" where
  "decision_policy_to_js p = JObj
     [(''schemaVersion'', JStr ''decision-policy/v1''), (''policyVersion'', JStr (dp_policyVersion p)),
      (''symbolApplicability'', JArr (map JStr (dp_symbolApplicability p))),
      (''selectors'', JArr (map selector_to_js (dp_selectors p))),
      (''groups'', JArr (map group_to_js (dp_groups p))),
      (''addLong'', qualification_to_js (dp_addLong p)), (''reduceLong'', qualification_to_js (dp_reduceLong p)),
      (''reductionFraction'', JDec (dp_reductionFraction p))]"

definition decision_policy_hash :: "'d lib \<Rightarrow> 'd jsval \<Rightarrow> string result" where
  "decision_policy_hash L input =
     rbind (create_decision_policy L input) (\<lambda>policy. hash_canonical L (decision_policy_to_js policy))"

subsection \<open>Planning policies\<close>

record 'd planning_level =
  pl_atrOffset :: 'd
  pl_allocationWeight :: 'd
  pl_takeProfitAtrDistance :: 'd

text \<open>The fields whose type admits one literal only are left out of the record.\<close>

record 'd planning_policy =
  pp_policyVersion :: string
  pp_atrRequestId :: string
  pp_atrSymbol :: string
  pp_levels :: "'d planning_level list"

definition MAX_PLANNING_LEVELS :: nat where
  "MAX_PLANNING_LEVELS = 64"

fun entries :: "'d jsval \<Rightarrow> (string \<times> 'd jsval) list" where
  "entries (JObj kvs) = kvs"
| "entries v = []"

primrec parse_levels ::
  "'d lib \<Rightarrow> 'd planning_level list \<Rightarrow> 'd jsval list \<Rightarrow> 'd planning_level list result" where
  "parse_levels L acc [] = Ok acc"
| "parse_levels L acc (row # rows) =
     guard INVALID_PLAN (closed_record row [''atrOffset'', ''allocationWeight'', ''takeProfitAtrDistance'']) (
     need INVALID_PLAN (planning_decimal L (get row ''atrOffset'') False None) (\<lambda>offset.
     need INVALID_PLAN (planning_decimal L (get row ''allocationWeight'') True (Some (planning_one L))) (\<lambda>weight.
     need INVALID_PLAN (planning_decimal L (get row ''takeProfitAtrDistance'') True None) (\<lambda>tp.
     guard INVALID_PLAN (\<not> (acc \<noteq> [] \<and> dec_compare L offset (pl_atrOffset (last acc)) \<le> 0)) (
     parse_levels L
       (acc @ [\<lparr>pl_atrOffset = offset, pl_allocationWeight = weight, pl_takeProfitAtrDistance = tp\<rparr>]) rows)))))"

definition create_planning_policy :: "'d lib \<Rightarrow> 'd jsval \<Rightarrow> 'd planning_policy result" where
  "create_planning_policy L input =
     guard INVALID_PLAN (closed_record input
       [''schemaVersion'', ''policyVersion'', ''atrSelector'', ''anchor'', ''entryRounding'',
        ''quantityRounding'', ''takeProfitRounding'', ''timeInForce'', ''levels'']) (
     guard INVALID_PLAN
       (get input ''schemaVersion'' = JStr ''planning-policy/v1'' \<and>
        get input ''anchor'' = JStr ''bid-capped-below-ask/v1'' \<and>
        get input ''entryRounding'' = JStr ''floor'' \<and> get input ''quantityRounding'' = JStr ''floor'' \<and>
        get input ''takeProfitRounding'' = JStr ''ceil'' \<and> get input ''timeInForce'' = JStr ''GTC'') (
     need INVALID_PLAN (require_identifier (get input ''policyVersion'') ''policyVersion'') (\<lambda>version.
     guard INVALID_PLAN (closed_record (get input ''atrSelector'')
       [''source'', ''requestId'', ''kind'', ''field'', ''symbol'', ''required'']) (
     need_some INVALID_PLAN (planning_symbol (get (get input ''atrSelector'') ''symbol'')) (\<lambda>symbol.
     guard INVALID_PLAN (bounded_list (get input ''levels'') MAX_PLANNING_LEVELS) (
     need INVALID_PLAN
       (parse_evidence_selector
         (JObj (entries (get input ''atrSelector'') @ [(''id'', JStr ''grid-atr'')])) [symbol]) (\<lambda>selector.
     guard INVALID_PLAN (sel_required selector) (
     need_some INVALID_PLAN
       (case sel_reference selector of
          NativeSymbol request kind field s \<Rightarrow>
            if kind = ''atr'' \<and> field = ''atr'' then Some (request, s) else None
        | _ \<Rightarrow> None) (\<lambda>(request, s).
     rbind (parse_levels L [] (elements (get input ''levels''))) (\<lambda>levels.
     guard INVALID_PLAN
       (dec_compare L (sum_decimals L (map pl_allocationWeight levels)) (planning_one L) = 0) (
     Ok \<lparr>pp_policyVersion = version, pp_atrRequestId = request, pp_atrSymbol = s, pp_levels = levels\<rparr>)))))))))))"

definition level_to_js :: "'d planning_level \<Rightarrow> 'd jsval" where
  "level_to_js l = JObj [(''atrOffset'', JDec (pl_atrOffset l)),
     (''allocationWeight'', JDec (pl_allocationWeight l)),
     (''takeProfitAtrDistance'', JDec (pl_takeProfitAtrDistance l))]"

definition planning_policy_to_js :: "'d planning_policy \<Rightarrow> 'd jsval" where
  "planning_policy_to_js p = JObj
     [(''schemaVersion'', JStr ''planning-policy/v1''), (''policyVersion'', JStr (pp_policyVersion p)),
      (''atrSelector'', JObj [(''source'', JStr ''native''), (''requestId'', JStr (pp_atrRequestId p)),
         (''kind'', JStr ''atr''), (''field'', JStr ''atr''), (''symbol'', JStr (pp_atrSymbol p)),
         (''required'', JBool True)]),
      (''anchor'', JStr ''bid-capped-below-ask/v1''), (''entryRounding'', JStr ''floor''),
      (''quantityRounding'', JStr ''floor''), (''takeProfitRounding'', JStr ''ceil''),
      (''timeInForce'', JStr ''GTC''), (''levels'', JArr (map level_to_js (pp_levels p)))]"

definition planning_policy_hash :: "'d lib \<Rightarrow> 'd jsval \<Rightarrow> string result" where
  "planning_policy_hash L input =
     rbind (create_planning_policy L input) (\<lambda>policy. hash_canonical L (planning_policy_to_js policy))"

subsection \<open>What the policies hold\<close>

definition wf_rule :: "('d \<Rightarrow> rat) \<Rightarrow> string set \<Rightarrow> 'd decision_rule \<Rightarrow> bool" where
  "wf_rule v selectorIds r \<longleftrightarrow> 0 \<le> v (dr_support r) \<and> v (dr_support r) \<le> 100 \<and>
     (\<forall>c \<in> set (dr_conditions r). dc_selectorId c \<in> selectorIds)"

definition wf_group :: "('d \<Rightarrow> rat) \<Rightarrow> string set \<Rightarrow> 'd decision_group \<Rightarrow> bool" where
  "wf_group v selectorIds g \<longleftrightarrow> 0 < v (dg_weight g) \<and> v (dg_weight g) \<le> 1 \<and>
     (\<forall>r \<in> set (dg_rules g). wf_rule v selectorIds r)"

definition rule_ids :: "'d decision_group list \<Rightarrow> string list" where
  "rule_ids groups = concat (map (\<lambda>g. map dr_id (dg_rules g)) groups)"

definition wf_qualification :: "('d \<Rightarrow> rat) \<Rightarrow> nat \<Rightarrow> 'd directional_qualification \<Rightarrow> bool" where
  "wf_qualification v n q \<longleftrightarrow> 0 < v (dq_supportThreshold q) \<and> v (dq_supportThreshold q) \<le> 100 \<and>
     1 \<le> dq_minAgreeingGroups q \<and> dq_minAgreeingGroups q \<le> int n"

definition wf_decision_policy :: "('d \<Rightarrow> rat) \<Rightarrow> 'd decision_policy \<Rightarrow> bool" where
  "wf_decision_policy v p \<longleftrightarrow>
     distinct (dp_symbolApplicability p) \<and> set (dp_symbolApplicability p) \<subseteq> set MARKET_EVIDENCE_SYMBOLS \<and>
     distinct (map sel_id (dp_selectors p)) \<and> distinct (map dg_id (dp_groups p)) \<and>
     distinct (rule_ids (dp_groups p)) \<and>
     (\<forall>g \<in> set (dp_groups p). wf_group v (sel_id ` set (dp_selectors p)) g) \<and>
     sum_list (map (v \<circ> dg_weight) (dp_groups p)) = 1 \<and>
     wf_qualification v (length (dp_groups p)) (dp_addLong p) \<and>
     wf_qualification v (length (dp_groups p)) (dp_reduceLong p) \<and>
     0 < v (dp_reductionFraction p) \<and> v (dp_reductionFraction p) \<le> 1"

definition wf_planning_policy :: "('d \<Rightarrow> rat) \<Rightarrow> 'd planning_policy \<Rightarrow> bool" where
  "wf_planning_policy v p \<longleftrightarrow>
     pp_levels p \<noteq> [] \<and> length (pp_levels p) \<le> 64 \<and>
     sorted_wrt (\<lambda>l m. v (pl_atrOffset l) < v (pl_atrOffset m)) (pp_levels p) \<and>
     (\<forall>l \<in> set (pp_levels p). 0 \<le> v (pl_atrOffset l) \<and> 0 < v (pl_allocationWeight l) \<and>
        v (pl_allocationWeight l) \<le> 1 \<and> 0 < v (pl_takeProfitAtrDistance l)) \<and>
     sum_list (map (v \<circ> pl_allocationWeight) (pp_levels p)) = 1"

lemma drop_repeats_set: "set (drop_repeats q rs) \<subseteq> set rs"
  by (induction rs arbitrary: q) auto

lemma canonical_order_set: "canonical_order L f items = Inr ys \<Longrightarrow> set ys \<subseteq> set items"
proof -
  assume "canonical_order L f items = Inr ys"
  then obtain rows where rows: "traverse (\<lambda>item. rbind (canonical_serialize L (f item)) (\<lambda>b. Ok (b, item))) items = Inr rows"
    "ys = map snd (drop_repeats None (sort_key fst rows))"
    by (auto simp: canonical_order_def rbind_Ok_iff)
  have "snd r \<in> set items" if "r \<in> set rows" for r
    using traverse_set [OF rows(1) that] by (auto simp: rbind_Ok_iff)
  then show ?thesis using rows(2) drop_repeats_set [of None "sort_key fst rows"] by auto
qed

lemma parse_selectors_Ok:
  "parse_selectors symbols acc rows = Inr ss \<Longrightarrow> distinct (map sel_id acc) \<Longrightarrow> distinct (map sel_id ss)"
proof (induction rows arbitrary: acc)
  case (Cons row rows)
  then obtain x where x: "\<forall>s \<in> set acc. sel_id s \<noteq> sel_id x" "parse_selectors symbols (acc @ [x]) rows = Inr ss"
    by (auto simp: need_Ok_iff list_ex_iff)
  then have "distinct (map sel_id (acc @ [x]))" using Cons.prems(2) by auto
  then show ?case using Cons.IH x(2) by blast
qed simp

lemma symbol_list_Some:
  "symbol_list j = Some symbols \<Longrightarrow> distinct symbols \<and> set symbols \<subseteq> set MARKET_EVIDENCE_SYMBOLS"
proof -
  assume a: "symbol_list j = Some symbols"
  then have those: "those (map planning_symbol (elements j)) = Some symbols" and d: "distinct symbols"
    by (auto simp: symbol_list_def split: if_split_asm option.split_asm)
  have "set ys \<subseteq> set MARKET_EVIDENCE_SYMBOLS" if "those (map planning_symbol xs) = Some ys" for xs ys
    using that
    by (induction xs arbitrary: ys)
      (auto simp: planning_symbol_def split: jsval.split_asm if_split_asm option.split_asm)
  then show ?thesis using those d by blast
qed

context big_decimal
begin

lemma planning_constants [simp]: "v (planning_one L) = 1" "v (planning_hundred L) = 100" "v (planning_zero L) = 0"
proof -
  have m: "matches_decimal ''1''" "matches_decimal ''100''" "matches_decimal ''0''" by code_simp+
  have d: "decimal_value ''1'' = 1" "decimal_value ''100'' = 100" "decimal_value ''0'' = 0"
    by (simp_all add: decimal_value_def unsigned_part_def starts_minus_def is_digit_def digit_val_def)
  show "v (planning_one L) = 1" "v (planning_hundred L) = 100" "v (planning_zero L) = 0"
    unfolding planning_one_def planning_hundred_def planning_zero_def
    by (simp_all add: planning_constant_value m d)
qed

lemma sum_decimals_value: "v (sum_decimals L xs) = sum_list (map v xs)"
proof -
  have "v (foldl (dec_add L) z xs) = v z + sum_list (map v xs)" for z
    by (induction xs arbitrary: z) simp_all
  then show ?thesis by (simp add: sum_decimals_def)
qed

lemma parse_condition_Ok: "parse_condition L ss j = Inr c \<Longrightarrow> dc_selectorId c \<in> sel_id ` set ss"
  by (auto simp: parse_condition_def need_Ok_iff rbind_Ok_iff find_Some_iff)

lemma parse_rule_Ok:
  assumes "parse_rule L ss ids j = Inr r"
  shows "dr_id r \<notin> set ids" "wf_rule v (sel_id ` set ss) r"
proof -
  obtain conditions where c: "traverse (parse_condition L ss) (elements (get j ''conditions'')) = Inr conditions"
    "canonical_order L condition_to_js conditions = Inr (dr_conditions r)"
    and s: "planning_decimal L (get j ''support'') False (Some (planning_hundred L)) = Inr (dr_support r)"
    and d: "dr_id r \<notin> set ids"
    using assms by (auto simp: parse_rule_def need_Ok_iff rbind_Ok_iff)
  have "dc_selectorId c \<in> sel_id ` set ss" if "c \<in> set (dr_conditions r)" for c
    using that canonical_order_set [OF c(2)] traverse_set [OF c(1)] parse_condition_Ok by blast
  then show "wf_rule v (sel_id ` set ss) r"
    using planning_decimal_Ok [OF s] by (auto simp: wf_rule_def)
  show "dr_id r \<notin> set ids" by (rule d)
qed

lemma parse_rules_Ok:
  "parse_rules L ss ids acc rows = Inr (rs, seen) \<Longrightarrow>
    \<exists>new. rs = acc @ new \<and> set seen = set (map dr_id new) \<union> set ids \<and> distinct (map dr_id new) \<and>
      set (map dr_id new) \<inter> set ids = {} \<and> (\<forall>r \<in> set new. wf_rule v (sel_id ` set ss) r)"
proof (induction rows arbitrary: ids acc)
  case Nil
  then show ?case by auto
next
  case (Cons row rows)
  then obtain r where r: "parse_rule L ss ids row = Inr r"
    "parse_rules L ss (dr_id r # ids) (acc @ [r]) rows = Inr (rs, seen)"
    by (auto simp: rbind_Ok_iff)
  obtain new where "rs = (acc @ [r]) @ new" "set seen = set (map dr_id new) \<union> set (dr_id r # ids)"
    "distinct (map dr_id new)" "set (map dr_id new) \<inter> set (dr_id r # ids) = {}"
    "\<forall>r \<in> set new. wf_rule v (sel_id ` set ss) r"
    using Cons.IH [OF r(2)] by blast
  then show ?case using parse_rule_Ok [OF r(1)] by (intro exI [of _ "r # new"]) auto
qed

lemma parse_groups_Ok:
  "parse_groups L ss ids acc rows = Inr gs \<Longrightarrow> distinct (map dg_id acc) \<Longrightarrow>
    \<exists>new. gs = acc @ new \<and> distinct (map dg_id gs) \<and> distinct (rule_ids new) \<and>
      set (rule_ids new) \<inter> set ids = {} \<and> (\<forall>g \<in> set new. wf_group v (sel_id ` set ss) g)"
proof (induction rows arbitrary: ids acc)
  case Nil
  then show ?case by (auto simp: rule_ids_def)
next
  case (Cons row rows)
  then obtain i w rules seen where
    w: "planning_decimal L (get row ''weight'') True (Some (planning_one L)) = Inr w"
    and i: "\<forall>g \<in> set acc. dg_id g \<noteq> i"
    and rules: "parse_rules L ss ids [] (elements (get row ''rules'')) = Inr (rules, seen)"
    and rest: "parse_groups L ss seen (acc @ [\<lparr>dg_id = i, dg_weight = w, dg_rules = sort_key dr_id rules\<rparr>]) rows = Inr gs"
    by (auto simp: need_Ok_iff rbind_Ok_iff list_ex_iff)
  define g where "g = \<lparr>dg_id = i, dg_weight = w, dg_rules = sort_key dr_id rules\<rparr>"
  have r: "set seen = set (map dr_id rules) \<union> set ids" "distinct (map dr_id rules)"
    "set (map dr_id rules) \<inter> set ids = {}" "\<forall>r \<in> set rules. wf_rule v (sel_id ` set ss) r"
    using parse_rules_Ok [OF rules] by auto
  have "distinct (map dg_id (acc @ [g]))" using Cons.prems(2) i by (auto simp: g_def)
  then obtain new where new: "gs = (acc @ [g]) @ new" "distinct (map dg_id gs)" "distinct (rule_ids new)"
    "set (rule_ids new) \<inter> set seen = {}" "\<forall>g \<in> set new. wf_group v (sel_id ` set ss) g"
    using Cons.IH [OF rest [folded g_def]] by blast
  have "distinct (map dr_id (dg_rules g)) = distinct (map dr_id rules)"
    by (rule mset_eq_imp_distinct_iff) (simp add: g_def)
  moreover have "set (map dr_id (dg_rules g)) = set (map dr_id rules)" by (simp add: g_def)
  moreover have "wf_group v (sel_id ` set ss) g"
    using planning_decimal_Ok [OF w] r(4) by (simp add: wf_group_def g_def)
  moreover have "rule_ids (g # new) = map dr_id (dg_rules g) @ rule_ids new" by (simp add: rule_ids_def)
  ultimately show ?case
    using new r by (intro exI [of _ "g # new"]) (simp only: distinct_append set_append, auto)
qed

lemma qualification_Ok: "qualification L j n = Inr q \<Longrightarrow> wf_qualification v n q"
  by (auto simp: qualification_def need_Ok_iff wf_qualification_def require_finite_integer_Ok
      dest: planning_decimal_Ok)

lemma create_decision_policy_wf:
  assumes "create_decision_policy L input = Inr p"
  shows "wf_decision_policy v p"
proof -
  obtain listed selectors groups where
    l: "symbol_list (get input ''symbolApplicability'') = Some listed" "dp_symbolApplicability p = sort listed"
    and s: "parse_selectors (sort listed) [] (elements (get input ''selectors'')) = Inr selectors"
      "dp_selectors p = sort_key sel_id selectors"
    and g: "parse_groups L selectors [] [] (elements (get input ''groups'')) = Inr groups"
      "dp_groups p = sort_key dg_id groups"
    and w: "dec_compare L (sum_decimals L (map dg_weight groups)) (planning_one L) = 0"
    and q: "qualification L (get input ''addLong'') (length groups) = Inr (dp_addLong p)"
      "qualification L (get input ''reduceLong'') (length groups) = Inr (dp_reduceLong p)"
    and f: "planning_decimal L (get input ''reductionFraction'') True (Some (planning_one L)) = Inr (dp_reductionFraction p)"
    using assms unfolding create_decision_policy_def by (auto simp: need_Ok_iff rbind_Ok_iff)
  have gs: "distinct (map dg_id groups)" "distinct (rule_ids groups)"
    "\<forall>g \<in> set groups. wf_group v (sel_id ` set selectors) g"
    using parse_groups_Ok [OF g(1)] by auto
  have perm: "mset (sort_key dg_id groups) = mset groups" "mset (sort_key sel_id selectors) = mset selectors"
    by simp_all
  have "distinct (rule_ids (sort_key dg_id groups)) = distinct (rule_ids groups)"
    unfolding rule_ids_def by (rule mset_eq_imp_distinct_iff) (simp add: mset_concat comp_def flip: sum_mset_sum_list)
  moreover have "distinct (map dg_id (sort_key dg_id groups)) = distinct (map dg_id groups)"
    by (rule mset_eq_imp_distinct_iff) simp
  moreover have "distinct (map sel_id (sort_key sel_id selectors)) = distinct (map sel_id selectors)"
    by (rule mset_eq_imp_distinct_iff) simp
  moreover have "sum_list (map (v \<circ> dg_weight) (sort_key dg_id groups)) = sum_list (map (v \<circ> dg_weight) groups)"
    by (simp flip: sum_mset_sum_list)
  moreover have "sum_list (map (v \<circ> dg_weight) groups) = 1"
    using w by (simp add: sum_decimals_value comp_def)
  ultimately show ?thesis
    using gs l s g parse_selectors_Ok [OF s(1)] symbol_list_Some [OF l(1)] qualification_Ok [OF q(1)]
      qualification_Ok [OF q(2)] planning_decimal_Ok [OF f]
    by (simp add: wf_decision_policy_def)
qed

end

context big_decimal
begin

lemma parse_levels_Ok:
  "parse_levels L acc rows = Inr ls \<Longrightarrow>
    sorted_wrt (\<lambda>l m. v (pl_atrOffset l) < v (pl_atrOffset m)) acc \<Longrightarrow>
    \<forall>l \<in> set acc. 0 \<le> v (pl_atrOffset l) \<and> 0 < v (pl_allocationWeight l) \<and>
      v (pl_allocationWeight l) \<le> 1 \<and> 0 < v (pl_takeProfitAtrDistance l) \<Longrightarrow>
    sorted_wrt (\<lambda>l m. v (pl_atrOffset l) < v (pl_atrOffset m)) ls \<and> length ls = length acc + length rows \<and>
    (\<forall>l \<in> set ls. 0 \<le> v (pl_atrOffset l) \<and> 0 < v (pl_allocationWeight l) \<and>
      v (pl_allocationWeight l) \<le> 1 \<and> 0 < v (pl_takeProfitAtrDistance l))"
proof (induction rows arbitrary: acc)
  case Nil
  then show ?case by simp
next
  case (Cons row rows)
  from Cons.prems(1) obtain offset weight tp where
    p: "planning_decimal L (get row ''atrOffset'') False None = Inr offset"
      "planning_decimal L (get row ''allocationWeight'') True (Some (planning_one L)) = Inr weight"
      "planning_decimal L (get row ''takeProfitAtrDistance'') True None = Inr tp"
    and o: "\<not> (acc \<noteq> [] \<and> dec_compare L offset (pl_atrOffset (last acc)) \<le> 0)"
    and rest: "parse_levels L
       (acc @ [\<lparr>pl_atrOffset = offset, pl_allocationWeight = weight, pl_takeProfitAtrDistance = tp\<rparr>]) rows = Inr ls"
    by (auto simp: need_Ok_iff)
  have "v (pl_atrOffset l) < v offset" if mem: "l \<in> set acc" for l
  proof -
    obtain xs x where acc: "acc = xs @ [x]" using mem by (cases acc rule: rev_cases) auto
    then have "v (pl_atrOffset x) < v offset" using o by (simp add: not_le)
    moreover have "v (pl_atrOffset l) \<le> v (pl_atrOffset x)"
      using mem Cons.prems(2) by (auto simp: acc sorted_wrt_append)
    ultimately show ?thesis by simp
  qed
  then show ?case
    using Cons.IH [OF rest] Cons.prems(2,3) planning_decimal_Ok [OF p(1)] planning_decimal_Ok [OF p(2)]
      planning_decimal_Ok [OF p(3)]
    by (simp add: sorted_wrt_append)
qed

lemma create_planning_policy_wf:
  assumes "create_planning_policy L input = Inr p"
  shows "wf_planning_policy v p"
proof -
  have l: "parse_levels L [] (elements (get input ''levels'')) = Inr (pp_levels p)"
    and b: "bounded_list (get input ''levels'') MAX_PLANNING_LEVELS"
    and w: "dec_compare L (sum_decimals L (map pl_allocationWeight (pp_levels p))) (planning_one L) = 0"
    using assms unfolding create_planning_policy_def by (auto simp: need_Ok_iff rbind_Ok_iff)
  have "elements (get input ''levels'') \<noteq> []" "length (elements (get input ''levels'')) \<le> 64"
    using b by (auto simp: bounded_list_iff MAX_PLANNING_LEVELS_def)
  then show ?thesis
    using parse_levels_Ok [OF l] w
    by (auto simp: wf_planning_policy_def sum_decimals_value comp_def simp del: length_greater_0_conv)
qed

end

subsection \<open>Properties\<close>

text \<open>
  A decision policy that \<open>createDecisionPolicy\<close> accepts has distinct supported symbols,
  distinct selectors, groups and (across all groups) rules, group weights in \<open>(0, 1]\<close> that sum
  to exactly one, rule supports between 0 and 100 with conditions on its own selectors only,
  support thresholds in \<open>(0, 100]\<close>, quorums between one and the number of groups, and a
  reduction fraction in \<open>(0, 1]\<close>.
\<close>

theorem decision_policy_sound:
  assumes "host L v" "create_decision_policy L input = Ok p"
  shows "distinct (dp_symbolApplicability p) \<and> set (dp_symbolApplicability p) \<subseteq> set MARKET_EVIDENCE_SYMBOLS \<and>
    distinct (map sel_id (dp_selectors p)) \<and> distinct (map dg_id (dp_groups p)) \<and>
    distinct (rule_ids (dp_groups p)) \<and>
    (\<forall>g \<in> set (dp_groups p). 0 < v (dg_weight g) \<and> v (dg_weight g) \<le> 1 \<and>
      (\<forall>r \<in> set (dg_rules g). 0 \<le> v (dr_support r) \<and> v (dr_support r) \<le> 100 \<and>
        (\<forall>c \<in> set (dr_conditions r). dc_selectorId c \<in> sel_id ` set (dp_selectors p)))) \<and>
    sum_list (map (v \<circ> dg_weight) (dp_groups p)) = 1 \<and>
    wf_qualification v (length (dp_groups p)) (dp_addLong p) \<and>
    wf_qualification v (length (dp_groups p)) (dp_reduceLong p) \<and>
    0 < v (dp_reductionFraction p) \<and> v (dp_reductionFraction p) \<le> 1"
  using big_decimal.create_decision_policy_wf [OF host_decimal [OF assms(1)] assms(2)]
  by (simp add: wf_decision_policy_def wf_group_def wf_rule_def)

text \<open>
  A planning policy that \<open>createPlanningPolicy\<close> accepts has between 1 and 64 levels with
  strictly increasing non-negative ATR offsets, positive take-profit distances and positive
  allocation weights that sum to exactly one.
\<close>

theorem planning_policy_sound:
  assumes "host L v" "create_planning_policy L input = Ok p"
  shows "pp_levels p \<noteq> [] \<and> length (pp_levels p) \<le> 64 \<and>
    sorted_wrt (\<lambda>l m. v (pl_atrOffset l) < v (pl_atrOffset m)) (pp_levels p) \<and>
    (\<forall>l \<in> set (pp_levels p). 0 \<le> v (pl_atrOffset l) \<and> 0 < v (pl_allocationWeight l) \<and>
       0 < v (pl_takeProfitAtrDistance l)) \<and>
    sum_list (map (v \<circ> pl_allocationWeight) (pp_levels p)) = 1"
  using big_decimal.create_planning_policy_wf [OF host_decimal [OF assms(1)] assms(2)]
  by (simp add: wf_planning_policy_def)

definition sample_decision_policy_js :: "'d jsval" where
  "sample_decision_policy_js = JObj
     [(''schemaVersion'', JStr ''decision-policy/v1''), (''policyVersion'', JStr ''p1''),
      (''symbolApplicability'', JArr [JStr ''ETHUSDT'', JStr ''BTCUSDT'']),
      (''selectors'', JArr [JObj [(''id'', JStr ''price''), (''required'', JBool True),
         (''source'', JStr ''ticker''), (''symbol'', JStr ''BTCUSDT''), (''field'', JStr ''last'')]]),
      (''groups'', JArr [JObj [(''id'', JStr ''g1''), (''weight'', JStr ''1''),
         (''rules'', JArr [JObj [(''id'', JStr ''r1''), (''target'', JStr ''ADD_LONG''), (''support'', JStr ''80''),
            (''conditions'', JArr [JObj [(''selectorId'', JStr ''price''), (''comparison'', JStr ''lt''),
               (''threshold'', JStr ''50000'')]])]])]]),
      (''addLong'', JObj [(''supportThreshold'', JStr ''60''), (''minAgreeingGroups'', JInt 1)]),
      (''reduceLong'', JObj [(''supportThreshold'', JStr ''60''), (''minAgreeingGroups'', JInt 1)]),
      (''reductionFraction'', JStr ''0.5'')]"

definition sample_decision_policy :: "sdec decision_policy" where
  "sample_decision_policy = \<lparr>dp_policyVersion = ''p1'', dp_symbolApplicability = [''BTCUSDT'', ''ETHUSDT''],
     dp_selectors = [\<lparr>sel_id = ''price'', sel_required = True,
       sel_reference = TickerReference ''BTCUSDT'' ''last''\<rparr>],
     dp_groups = [\<lparr>dg_id = ''g1'', dg_weight = SDec 1 0,
       dg_rules = [\<lparr>dr_id = ''r1'', dr_target = ADD_LONG, dr_support = SDec 80 0,
         dr_conditions = [\<lparr>dc_selectorId = ''price'', dc_comparison = CmpLt, dc_threshold = SDec 50000 0\<rparr>]\<rparr>]\<rparr>],
     dp_addLong = \<lparr>dq_supportThreshold = SDec 60 0, dq_minAgreeingGroups = 1\<rparr>,
     dp_reduceLong = \<lparr>dq_supportThreshold = SDec 60 0, dq_minAgreeingGroups = 1\<rparr>,
     dp_reductionFraction = SDec 5 1\<rparr>"

definition sample_planning_policy_js :: "'d jsval" where
  "sample_planning_policy_js = JObj
     [(''schemaVersion'', JStr ''planning-policy/v1''), (''policyVersion'', JStr ''pp1''),
      (''atrSelector'', JObj [(''source'', JStr ''native''), (''requestId'', JStr ''atr-1''),
         (''kind'', JStr ''atr''), (''field'', JStr ''atr''), (''symbol'', JStr ''BTCUSDT''), (''required'', JBool True)]),
      (''anchor'', JStr ''bid-capped-below-ask/v1''), (''entryRounding'', JStr ''floor''),
      (''quantityRounding'', JStr ''floor''), (''takeProfitRounding'', JStr ''ceil''), (''timeInForce'', JStr ''GTC''),
      (''levels'', JArr
        [JObj [(''atrOffset'', JStr ''0''), (''allocationWeight'', JStr ''0.5''), (''takeProfitAtrDistance'', JStr ''1'')],
         JObj [(''atrOffset'', JStr ''1''), (''allocationWeight'', JStr ''0.5''), (''takeProfitAtrDistance'', JStr ''2'')]])]"

definition sample_planning_policy :: "sdec planning_policy" where
  "sample_planning_policy = \<lparr>pp_policyVersion = ''pp1'', pp_atrRequestId = ''atr-1'', pp_atrSymbol = ''BTCUSDT'',
     pp_levels = [\<lparr>pl_atrOffset = SDec 0 0, pl_allocationWeight = SDec 5 1, pl_takeProfitAtrDistance = SDec 1 0\<rparr>,
       \<lparr>pl_atrOffset = SDec 1 0, pl_allocationWeight = SDec 5 1, pl_takeProfitAtrDistance = SDec 2 0\<rparr>]\<rparr>"

lemma sample_decision_policy_created:
  "create_decision_policy ref_lib sample_decision_policy_js = Ok sample_decision_policy"
  by code_simp

lemma sample_planning_policy_created:
  "create_planning_policy ref_lib sample_planning_policy_js = Ok sample_planning_policy"
  by code_simp

theorem decision_policy_sound_witness: "distinct (map dg_id (dp_groups sample_decision_policy))"
  using decision_policy_sound [OF ref_host sample_decision_policy_created] by blast

theorem planning_policy_sound_witness: "pp_levels sample_planning_policy \<noteq> []"
  using planning_policy_sound [OF ref_host sample_planning_policy_created] by blast

end
