(* ===== verification/Decision.thy ===== *)
theory Decision
  imports Policies
begin

text \<open>
  \<open>domain/planning/daily-decision.ts\<close>: the evaluation of a decision policy on the observations of
  a day. The input is the object the function receives; it parses the policy again and checks
  every operand itself, so the model takes it as a JavaScript value.

  Shown here: the trace-building loops compute the decision that the policy's comment
  describes (the abstract specification \<open>decide\<close> over rational numbers): weighted maximum
  supports, strict agreement of groups, threshold and quorum per direction, and \<open>HOLD\<close> unless
  exactly one direction qualifies. The selected support is between 0 and 100 and the confidence
  is its minimum with the confidence of the evidence.
\<close>

subsection \<open>Traces\<close>

datatype 'd observation = Available 'd | Unavailable | Absent

datatype condition_status = Matched | Unmatched | UnavailableStatus | AbsentStatus

record 'd condition_trace =
  ct_selectorId :: string
  ct_comparison :: numeric_comparison
  ct_threshold :: 'd
  ct_value :: "'d option"
  ct_status :: condition_status

record 'd rule_trace =
  rt_ruleId :: string
  rt_target :: daily_recommendation
  rt_support :: 'd
  rt_matched :: bool
  rt_conditions :: "'d condition_trace list"

record 'd group_trace =
  gt_groupId :: string
  gt_weight :: 'd
  gt_addSupport :: 'd
  gt_reduceSupport :: 'd
  gt_holdSupport :: 'd
  gt_addWeightedSupport :: 'd
  gt_reduceWeightedSupport :: 'd
  gt_holdWeightedSupport :: 'd
  gt_agreeingDirection :: "daily_recommendation option"
  gt_rules :: "'d rule_trace list"

record 'd daily_evaluation =
  de_recommendation :: daily_recommendation
  de_decisionSupport :: 'd
  de_decisionConfidence :: 'd
  de_reasons :: "string list"
  de_addWeightedSupport :: 'd
  de_reduceWeightedSupport :: 'd
  de_addAgreeingGroupCount :: nat
  de_reduceAgreeingGroupCount :: nat
  de_groups :: "'d group_trace list"

definition dec_maximum :: "'d lib \<Rightarrow> 'd \<Rightarrow> 'd \<Rightarrow> 'd" where
  "dec_maximum L a b = (if 0 \<le> dec_compare L a b then a else b)"

fun comparison_matches :: "numeric_comparison \<Rightarrow> int \<Rightarrow> bool" where
  "comparison_matches CmpLt c = (c < 0)"
| "comparison_matches CmpLte c = (c \<le> 0)"
| "comparison_matches CmpEq c = (c = 0)"
| "comparison_matches CmpGte c = (0 \<le> c)"
| "comparison_matches CmpGt c = (0 < c)"

definition condition_trace_of :: "'d lib \<Rightarrow> 'd decision_condition \<Rightarrow> 'd observation \<Rightarrow> 'd condition_trace" where
  "condition_trace_of L c ob =
     (case ob of
        Available x \<Rightarrow>
          \<lparr>ct_selectorId = dc_selectorId c, ct_comparison = dc_comparison c, ct_threshold = dc_threshold c,
           ct_value = Some x,
           ct_status = (if comparison_matches (dc_comparison c) (dec_compare L x (dc_threshold c))
                        then Matched else Unmatched)\<rparr>
      | _ \<Rightarrow>
          \<lparr>ct_selectorId = dc_selectorId c, ct_comparison = dc_comparison c, ct_threshold = dc_threshold c,
           ct_value = None, ct_status = (if ob = Absent then AbsentStatus else UnavailableStatus)\<rparr>)"

subsection \<open>Evaluation\<close>

definition parse_observation ::
  "'d lib \<Rightarrow> 'd decision_policy \<Rightarrow> 'd jsval \<Rightarrow> (string \<times> 'd observation) result" where
  "parse_observation L policy row =
     guard INVALID_PLAN (closed_record row [''selectorId'', ''status'', ''value'']) (
     need_some INVALID_PLAN (string_of (get row ''selectorId'')) (\<lambda>selectorId.
     need_some INVALID_PLAN (find (\<lambda>item. sel_id item = selectorId) (dp_selectors policy)) (\<lambda>selector.
     if get row ''status'' = JStr ''available''
     then need_some INVALID_PLAN (decimal_of (get row ''value'')) (\<lambda>x.
            guard INVALID_PLAN (length (dec_to_string L x) \<le> 128) (
            Ok (selectorId, Available x)))
     else guard INVALID_PLAN
            ((get row ''status'' = JStr ''unavailable'' \<or> get row ''status'' = JStr ''absent'') \<and>
             \<not> has_key row ''value'' \<and> \<not> sel_required selector) (
          Ok (selectorId, if get row ''status'' = JStr ''absent'' then Absent else Unavailable)))))"

primrec parse_observations ::
  "'d lib \<Rightarrow> 'd decision_policy \<Rightarrow> (string \<rightharpoonup> 'd observation) \<Rightarrow> 'd jsval list \<Rightarrow>
    (string \<rightharpoonup> 'd observation) result" where
  "parse_observations L policy acc [] = Ok acc"
| "parse_observations L policy acc (row # rows) =
     rbind (parse_observation L policy row) (\<lambda>(selectorId, ob).
       guard INVALID_PLAN (acc selectorId = None) (
       parse_observations L policy (acc(selectorId \<mapsto> ob)) rows))"

definition evaluate_rule ::
  "'d lib \<Rightarrow> (string \<rightharpoonup> 'd observation) \<Rightarrow> 'd decision_rule \<Rightarrow> 'd rule_trace result" where
  "evaluate_rule L obs rule =
     rbind (traverse (\<lambda>c. case obs (dc_selectorId c) of
                None \<Rightarrow> Fail INVALID_PLAN | Some ob \<Rightarrow> Ok (condition_trace_of L c ob)) (dr_conditions rule))
       (\<lambda>conditions. Ok \<lparr>rt_ruleId = dr_id rule, rt_target = dr_target rule, rt_support = dr_support rule,
          rt_matched = list_all (\<lambda>c. ct_status c = Matched) conditions, rt_conditions = conditions\<rparr>)"

text \<open>The \<open>switch\<close> of the rule loop, for one target: the maximum over the matched rules.\<close>

definition target_support :: "'d lib \<Rightarrow> daily_recommendation \<Rightarrow> 'd rule_trace list \<Rightarrow> 'd" where
  "target_support L target rules =
     foldl (\<lambda>acc r. if rt_matched r \<and> rt_target r = target then dec_maximum L acc (rt_support r) else acc)
       (planning_zero L) rules"

definition evaluate_group ::
  "'d lib \<Rightarrow> (string \<rightharpoonup> 'd observation) \<Rightarrow> 'd decision_group \<Rightarrow> 'd group_trace result" where
  "evaluate_group L obs grp =
     rbind (traverse (evaluate_rule L obs) (dg_rules grp)) (\<lambda>rules.
       let addSupport = target_support L ADD_LONG rules;
           reduceSupport = target_support L REDUCE_LONG rules;
           holdSupport = target_support L HOLD_LONG rules
       in Ok \<lparr>gt_groupId = dg_id grp, gt_weight = dg_weight grp, gt_addSupport = addSupport,
         gt_reduceSupport = reduceSupport, gt_holdSupport = holdSupport,
         gt_addWeightedSupport = dec_multiply L (dg_weight grp) addSupport,
         gt_reduceWeightedSupport = dec_multiply L (dg_weight grp) reduceSupport,
         gt_holdWeightedSupport = dec_multiply L (dg_weight grp) holdSupport,
         gt_agreeingDirection =
           (if is_positive L addSupport \<and> 0 < dec_compare L addSupport reduceSupport then Some ADD_LONG
            else if is_positive L reduceSupport \<and> 0 < dec_compare L reduceSupport addSupport
            then Some REDUCE_LONG else None),
         gt_rules = rules\<rparr>)"

definition evaluate_daily_decision :: "'d lib \<Rightarrow> 'd jsval \<Rightarrow> 'd daily_evaluation result" where
  "evaluate_daily_decision L inputs =
     guard INVALID_PLAN (is_record inputs) (
     rbind (create_decision_policy L (get inputs ''decisionPolicy'')) (\<lambda>policy.
     guard INVALID_PLAN
       (is_decimal_value (get inputs ''evidenceConfidence'') \<and>
        bounded_list (get inputs ''selectors'') (length (dp_selectors policy)) \<and>
        length (elements (get inputs ''selectors'')) = length (dp_selectors policy) \<and>
        list_ex (\<lambda>s. JStr s = get inputs ''symbol'') (dp_symbolApplicability policy)) (
     rbind (planning_decimal L (get inputs ''evidenceConfidence'') False (Some (planning_hundred L))) (\<lambda>confidence.
     rbind (parse_observations L policy Map.empty (elements (get inputs ''selectors''))) (\<lambda>obs.
     rbind (traverse (evaluate_group L obs) (dp_groups policy)) (\<lambda>groups.
     let addWeighted = sum_decimals L (map gt_addWeightedSupport groups);
         reduceWeighted = sum_decimals L (map gt_reduceWeightedSupport groups);
         holdWeighted = sum_decimals L (map gt_holdWeightedSupport groups);
         addCount = length (filter (\<lambda>g. gt_agreeingDirection g = Some ADD_LONG) groups);
         reduceCount = length (filter (\<lambda>g. gt_agreeingDirection g = Some REDUCE_LONG) groups);
         addQualified = (0 \<le> dec_compare L addWeighted (dq_supportThreshold (dp_addLong policy)) \<and>
           dq_minAgreeingGroups (dp_addLong policy) \<le> int addCount);
         reduceQualified = (0 \<le> dec_compare L reduceWeighted (dq_supportThreshold (dp_reduceLong policy)) \<and>
           dq_minAgreeingGroups (dp_reduceLong policy) \<le> int reduceCount);
         recommendation = (if addQualified = reduceQualified then HOLD_LONG
           else if addQualified then ADD_LONG else REDUCE_LONG);
         decisionSupport = (if recommendation = ADD_LONG then addWeighted
           else if recommendation = REDUCE_LONG then reduceWeighted else holdWeighted);
         reasons = (if recommendation = HOLD_LONG
           then [if addQualified then ''DIRECTIONAL_CONFLICT'' else ''INSUFFICIENT_DIRECTIONAL_AGREEMENT'']
           else [recommendation_text recommendation @ ''_QUALIFIED''])
     in Ok \<lparr>de_recommendation = recommendation, de_decisionSupport = decisionSupport,
          de_decisionConfidence =
            (if dec_compare L confidence decisionSupport \<le> 0 then confidence else decisionSupport),
          de_reasons = reasons, de_addWeightedSupport = addWeighted, de_reduceWeightedSupport = reduceWeighted,
          de_addAgreeingGroupCount = addCount, de_reduceAgreeingGroupCount = reduceCount,
          de_groups = groups\<rparr>))))))"

subsection \<open>The specification\<close>

text \<open>The mechanics that the comment on \<open>DecisionPolicy\<close> fixes for version 1.\<close>

fun comparison_holds :: "numeric_comparison \<Rightarrow> rat \<Rightarrow> rat \<Rightarrow> bool" where
  "comparison_holds CmpLt x y = (x < y)"
| "comparison_holds CmpLte x y = (x \<le> y)"
| "comparison_holds CmpEq x y = (x = y)"
| "comparison_holds CmpGte x y = (y \<le> x)"
| "comparison_holds CmpGt x y = (y < x)"

definition rule_matches :: "('d \<Rightarrow> rat) \<Rightarrow> (string \<rightharpoonup> 'd observation) \<Rightarrow> 'd decision_rule \<Rightarrow> bool" where
  "rule_matches v obs r \<longleftrightarrow>
     (\<forall>c \<in> set (dr_conditions r). \<exists>x. obs (dc_selectorId c) = Some (Available x) \<and>
        comparison_holds (dc_comparison c) (v x) (v (dc_threshold c)))"

definition group_support ::
  "('d \<Rightarrow> rat) \<Rightarrow> (string \<rightharpoonup> 'd observation) \<Rightarrow> daily_recommendation \<Rightarrow> 'd decision_group \<Rightarrow> rat" where
  "group_support v obs t g =
     Max (insert 0 {v (dr_support r) | r. r \<in> set (dg_rules g) \<and> dr_target r = t \<and> rule_matches v obs r})"

definition weighted_support ::
  "('d \<Rightarrow> rat) \<Rightarrow> (string \<rightharpoonup> 'd observation) \<Rightarrow> daily_recommendation \<Rightarrow> 'd decision_group list \<Rightarrow> rat" where
  "weighted_support v obs t gs = sum_list (map (\<lambda>g. v (dg_weight g) * group_support v obs t g) gs)"

definition agreeing_groups ::
  "('d \<Rightarrow> rat) \<Rightarrow> (string \<rightharpoonup> 'd observation) \<Rightarrow> daily_recommendation \<Rightarrow> daily_recommendation \<Rightarrow>
    'd decision_group list \<Rightarrow> nat" where
  "agreeing_groups v obs t other gs =
     length (filter (\<lambda>g. group_support v obs other g < group_support v obs t g) gs)"

definition qualifies ::
  "('d \<Rightarrow> rat) \<Rightarrow> (string \<rightharpoonup> 'd observation) \<Rightarrow> daily_recommendation \<Rightarrow> daily_recommendation \<Rightarrow>
    'd directional_qualification \<Rightarrow> 'd decision_group list \<Rightarrow> bool" where
  "qualifies v obs t other q gs \<longleftrightarrow>
     v (dq_supportThreshold q) \<le> weighted_support v obs t gs \<and>
     dq_minAgreeingGroups q \<le> int (agreeing_groups v obs t other gs)"

definition decide :: "('d \<Rightarrow> rat) \<Rightarrow> (string \<rightharpoonup> 'd observation) \<Rightarrow> 'd decision_policy \<Rightarrow> daily_recommendation" where
  "decide v obs p =
     (let add = qualifies v obs ADD_LONG REDUCE_LONG (dp_addLong p) (dp_groups p);
          reduce = qualifies v obs REDUCE_LONG ADD_LONG (dp_reduceLong p) (dp_groups p)
      in if add \<and> \<not> reduce then ADD_LONG else if reduce \<and> \<not> add then REDUCE_LONG else HOLD_LONG)"

text \<open>Why: the direction that won, a conflict of both, or that none qualified.\<close>

definition decision_reasons :: "('d \<Rightarrow> rat) \<Rightarrow> (string \<rightharpoonup> 'd observation) \<Rightarrow> 'd decision_policy \<Rightarrow> string list" where
  "decision_reasons v obs p =
     (case decide v obs p of
        ADD_LONG \<Rightarrow> [''ADD_LONG_QUALIFIED'']
      | REDUCE_LONG \<Rightarrow> [''REDUCE_LONG_QUALIFIED'']
      | HOLD_LONG \<Rightarrow>
          if qualifies v obs ADD_LONG REDUCE_LONG (dp_addLong p) (dp_groups p) then [''DIRECTIONAL_CONFLICT'']
          else [''INSUFFICIENT_DIRECTIONAL_AGREEMENT''])"

lemma group_support_nonneg: "0 \<le> group_support v obs t g"
  unfolding group_support_def by (rule Max_ge) auto

lemma group_support_le:
  assumes "\<And>r. r \<in> set (dg_rules g) \<Longrightarrow> v (dr_support r) \<le> b" "0 \<le> b"
  shows "group_support v obs t g \<le> b"
  unfolding group_support_def using assms by (subst Max_le_iff) auto

subsection \<open>The loops compute the specification\<close>

context big_decimal
begin

lemma dec_maximum_value [simp]: "v (dec_maximum L a b) = max (v a) (v b)"
  by (simp add: dec_maximum_def max_def)

lemma comparison_matches_iff [simp]:
  "comparison_matches c (dec_compare L x y) \<longleftrightarrow> comparison_holds c (v x) (v y)"
  by (cases c) auto

lemma condition_matched:
  "ct_status (condition_trace_of L c ob) = Matched \<longleftrightarrow>
    (\<exists>x. ob = Available x \<and> comparison_holds (dc_comparison c) (v x) (v (dc_threshold c)))"
  by (auto simp: condition_trace_of_def split: observation.split)

lemma evaluate_rule_Ok:
  assumes "evaluate_rule L obs r = Inr t"
  shows "rt_target t = dr_target r" "rt_support t = dr_support r" "rt_ruleId t = dr_id r"
    "rt_matched t \<longleftrightarrow> rule_matches v obs r"
proof -
  let ?f = "\<lambda>c. case obs (dc_selectorId c) of None \<Rightarrow> Fail INVALID_PLAN | Some ob \<Rightarrow> Ok (condition_trace_of L c ob)"
  obtain cs where cs: "traverse ?f (dr_conditions r) = Inr cs"
    and t: "t = \<lparr>rt_ruleId = dr_id r, rt_target = dr_target r, rt_support = dr_support r,
      rt_matched = list_all (\<lambda>c. ct_status c = Matched) cs, rt_conditions = cs\<rparr>"
    using assms by (auto simp: evaluate_rule_def rbind_Ok_iff)
  then show "rt_target t = dr_target r" "rt_support t = dr_support r" "rt_ruleId t = dr_id r" by simp_all
  have "list_all2 (\<lambda>c tr. ?f c = Inr tr) (dr_conditions r) cs" using cs by (simp add: traverse_Ok_iff)
  then have "list_all (\<lambda>c. ct_status c = Matched) cs \<longleftrightarrow>
    (\<forall>c \<in> set (dr_conditions r). \<exists>x. obs (dc_selectorId c) = Some (Available x) \<and>
       comparison_holds (dc_comparison c) (v x) (v (dc_threshold c)))"
    by (induction rule: list_all2_induct) (auto simp: condition_matched split: option.split_asm)
  then show "rt_matched t \<longleftrightarrow> rule_matches v obs r" by (simp add: t rule_matches_def)
qed

lemma target_support_value:
  "v (target_support L t rules) =
    Max (insert 0 {v (rt_support r) | r. r \<in> set rules \<and> rt_matched r \<and> rt_target r = t})"
proof -
  let ?S = "\<lambda>rules. {v (rt_support r) | r. r \<in> set rules \<and> rt_matched r \<and> rt_target r = t}"
  have fin: "finite (?S rules)" for rules by simp
  have "v (foldl (\<lambda>acc r. if rt_matched r \<and> rt_target r = t then dec_maximum L acc (rt_support r) else acc) a rules) =
    Max (insert (v a) (?S rules))" for a
  proof (induction rules arbitrary: a)
    case Nil
    then show ?case by simp
  next
    case (Cons r rules)
    show ?case
    proof (cases "rt_matched r \<and> rt_target r = t")
      case True
      then have "?S (r # rules) = insert (v (rt_support r)) (?S rules)" by auto
      moreover have "Max (insert (max x y) A) = Max (insert x (insert y A))" if "finite A" for x y :: rat and A
        using that by (cases "A = {}") (simp_all add: Max_insert max.assoc)
      ultimately show ?thesis using True Cons fin by simp
    next
      case False
      then have "?S (r # rules) = ?S rules" by auto
      then show ?thesis using False Cons by auto
    qed
  qed
  then show ?thesis by (simp add: target_support_def)
qed

lemma evaluated_support:
  assumes "traverse (evaluate_rule L obs) (dg_rules g) = Inr rules"
  shows "v (target_support L t rules) = group_support v obs t g"
proof -
  have all: "list_all2 (\<lambda>r tr. evaluate_rule L obs r = Inr tr) (dg_rules g) rules"
    using assms by (simp add: traverse_Ok_iff)
  have "{v (rt_support r) | r. r \<in> set rules \<and> rt_matched r \<and> rt_target r = t} =
    {v (dr_support r) | r. r \<in> set (dg_rules g) \<and> dr_target r = t \<and> rule_matches v obs r}"
    using all
  proof (induction rule: list_all2_induct)
    case Nil
    then show ?case by simp
  next
    case (Cons r rs tr trs)
    have "{v (rt_support x) | x. x \<in> set (tr # trs) \<and> rt_matched x \<and> rt_target x = t} =
      (if rt_matched tr \<and> rt_target tr = t then {v (rt_support tr)} else {}) \<union>
      {v (rt_support x) | x. x \<in> set trs \<and> rt_matched x \<and> rt_target x = t}" by auto
    moreover have "{v (dr_support x) | x. x \<in> set (r # rs) \<and> dr_target x = t \<and> rule_matches v obs x} =
      (if dr_target r = t \<and> rule_matches v obs r then {v (dr_support r)} else {}) \<union>
      {v (dr_support x) | x. x \<in> set rs \<and> dr_target x = t \<and> rule_matches v obs x}" by auto
    ultimately show ?case using Cons evaluate_rule_Ok [of obs r tr] by auto
  qed
  then show ?thesis by (simp add: target_support_value group_support_def)
qed

lemma evaluate_group_Ok:
  assumes "evaluate_group L obs g = Inr t"
  shows "v (gt_addWeightedSupport t) = v (dg_weight g) * group_support v obs ADD_LONG g"
    "v (gt_reduceWeightedSupport t) = v (dg_weight g) * group_support v obs REDUCE_LONG g"
    "v (gt_holdWeightedSupport t) = v (dg_weight g) * group_support v obs HOLD_LONG g"
    "gt_agreeingDirection t = Some ADD_LONG \<longleftrightarrow> group_support v obs REDUCE_LONG g < group_support v obs ADD_LONG g"
    "gt_agreeingDirection t = Some REDUCE_LONG \<longleftrightarrow> group_support v obs ADD_LONG g < group_support v obs REDUCE_LONG g"
  using assms evaluated_support [of obs g] group_support_nonneg [of v obs ADD_LONG g]
    group_support_nonneg [of v obs REDUCE_LONG g]
  by (auto simp: evaluate_group_def rbind_Ok_iff Let_def split: if_split_asm)

lemma evaluate_groups_Ok:
  assumes "traverse (evaluate_group L obs) gs = Inr ts"
  shows "v (sum_decimals L (map gt_addWeightedSupport ts)) = weighted_support v obs ADD_LONG gs"
    "v (sum_decimals L (map gt_reduceWeightedSupport ts)) = weighted_support v obs REDUCE_LONG gs"
    "v (sum_decimals L (map gt_holdWeightedSupport ts)) = weighted_support v obs HOLD_LONG gs"
    "length (filter (\<lambda>g. gt_agreeingDirection g = Some ADD_LONG) ts) = agreeing_groups v obs ADD_LONG REDUCE_LONG gs"
    "length (filter (\<lambda>g. gt_agreeingDirection g = Some REDUCE_LONG) ts) = agreeing_groups v obs REDUCE_LONG ADD_LONG gs"
proof -
  have "list_all2 (\<lambda>g t. evaluate_group L obs g = Inr t) gs ts" using assms by (simp add: traverse_Ok_iff)
  then have "sum_list (map v (map gt_addWeightedSupport ts)) = weighted_support v obs ADD_LONG gs \<and>
    sum_list (map v (map gt_reduceWeightedSupport ts)) = weighted_support v obs REDUCE_LONG gs \<and>
    sum_list (map v (map gt_holdWeightedSupport ts)) = weighted_support v obs HOLD_LONG gs \<and>
    length (filter (\<lambda>g. gt_agreeingDirection g = Some ADD_LONG) ts) = agreeing_groups v obs ADD_LONG REDUCE_LONG gs \<and>
    length (filter (\<lambda>g. gt_agreeingDirection g = Some REDUCE_LONG) ts) = agreeing_groups v obs REDUCE_LONG ADD_LONG gs"
    by (induction rule: list_all2_induct)
      (auto simp: weighted_support_def agreeing_groups_def evaluate_group_Ok)
  then show "v (sum_decimals L (map gt_addWeightedSupport ts)) = weighted_support v obs ADD_LONG gs"
    "v (sum_decimals L (map gt_reduceWeightedSupport ts)) = weighted_support v obs REDUCE_LONG gs"
    "v (sum_decimals L (map gt_holdWeightedSupport ts)) = weighted_support v obs HOLD_LONG gs"
    "length (filter (\<lambda>g. gt_agreeingDirection g = Some ADD_LONG) ts) = agreeing_groups v obs ADD_LONG REDUCE_LONG gs"
    "length (filter (\<lambda>g. gt_agreeingDirection g = Some REDUCE_LONG) ts) = agreeing_groups v obs REDUCE_LONG ADD_LONG gs"
    by (simp_all add: sum_decimals_value)
qed

lemma weighted_support_bounds:
  assumes "wf_decision_policy v p"
  shows "0 \<le> weighted_support v obs t (dp_groups p)" "weighted_support v obs t (dp_groups p) \<le> 100"
proof -
  have g: "0 < v (dg_weight g)" "group_support v obs t g \<le> 100" if "g \<in> set (dp_groups p)" for g
    using assms that by (auto simp: wf_decision_policy_def wf_group_def wf_rule_def intro!: group_support_le)
  show "0 \<le> weighted_support v obs t (dp_groups p)"
    unfolding weighted_support_def
    using g(1) group_support_nonneg [of v obs t]
    by (intro sum_list_nonneg) (auto simp: less_imp_le)
  have "weighted_support v obs t (dp_groups p) \<le> sum_list (map (\<lambda>g. v (dg_weight g) * 100) (dp_groups p))"
    unfolding weighted_support_def using g by (intro sum_list_mono) (simp add: mult_left_mono less_imp_le)
  also have "\<dots> = sum_list (map (v \<circ> dg_weight) (dp_groups p)) * 100"
    by (simp add: sum_list_mult_const comp_def)
  also have "\<dots> = 100" using assms by (simp add: wf_decision_policy_def)
  finally show "weighted_support v obs t (dp_groups p) \<le> 100" .
qed

end

context big_decimal
begin

lemma evaluate_daily_decision_Ok:
  assumes "evaluate_daily_decision L inputs = Inr e"
  shows "\<exists>p obs confidence.
    create_decision_policy L (get inputs ''decisionPolicy'') = Inr p \<and>
    parse_observations L p Map.empty (elements (get inputs ''selectors'')) = Inr obs \<and>
    get inputs ''evidenceConfidence'' = JDec confidence \<and>
    de_recommendation e = decide v obs p \<and>
    v (de_decisionSupport e) = weighted_support v obs (de_recommendation e) (dp_groups p) \<and>
    v (de_decisionConfidence e) = min (v confidence) (v (de_decisionSupport e)) \<and>
    v (de_addWeightedSupport e) = weighted_support v obs ADD_LONG (dp_groups p) \<and>
    v (de_reduceWeightedSupport e) = weighted_support v obs REDUCE_LONG (dp_groups p) \<and>
    de_addAgreeingGroupCount e = agreeing_groups v obs ADD_LONG REDUCE_LONG (dp_groups p) \<and>
    de_reduceAgreeingGroupCount e = agreeing_groups v obs REDUCE_LONG ADD_LONG (dp_groups p) \<and>
    de_reasons e = decision_reasons v obs p \<and>
    0 \<le> v (de_decisionSupport e) \<and> v (de_decisionSupport e) \<le> 100 \<and> 0 \<le> v confidence \<and> v confidence \<le> 100"
proof -
  obtain p c obs groups where
    p: "create_decision_policy L (get inputs ''decisionPolicy'') = Inr p"
    and o: "parse_observations L p Map.empty (elements (get inputs ''selectors'')) = Inr obs"
    and d: "is_decimal_value (get inputs ''evidenceConfidence'')"
    and c: "planning_decimal L (get inputs ''evidenceConfidence'') False (Some (planning_hundred L)) = Inr c"
    and g: "traverse (evaluate_group L obs) (dp_groups p) = Inr groups"
    using assms by (auto simp: evaluate_daily_decision_def need_Ok_iff rbind_Ok_iff Let_def simp del: if_split)
  obtain conf where j: "get inputs ''evidenceConfidence'' = JDec conf"
    using d by (cases "get inputs ''evidenceConfidence''") auto
  then have conf: "c = conf" using c by (auto simp: planning_decimal_def split: if_split_asm)
  note sums = evaluate_groups_Ok [OF g]
  have bounds: "0 \<le> v conf" "v conf \<le> 100" using planning_decimal_Ok [OF c] conf by simp_all
  define add where "add = qualifies v obs ADD_LONG REDUCE_LONG (dp_addLong p) (dp_groups p)"
  define reduce where "reduce = qualifies v obs REDUCE_LONG ADD_LONG (dp_reduceLong p) (dp_groups p)"
  have e: "de_recommendation e = (if add = reduce then HOLD_LONG else if add then ADD_LONG else REDUCE_LONG)"
    "v (de_decisionSupport e) = weighted_support v obs (de_recommendation e) (dp_groups p)"
    "v (de_decisionConfidence e) = min (v conf) (v (de_decisionSupport e))"
    "v (de_addWeightedSupport e) = weighted_support v obs ADD_LONG (dp_groups p)"
    "v (de_reduceWeightedSupport e) = weighted_support v obs REDUCE_LONG (dp_groups p)"
    "de_addAgreeingGroupCount e = agreeing_groups v obs ADD_LONG REDUCE_LONG (dp_groups p)"
    "de_reduceAgreeingGroupCount e = agreeing_groups v obs REDUCE_LONG ADD_LONG (dp_groups p)"
    "de_reasons e = (if add = reduce then [if add then ''DIRECTIONAL_CONFLICT'' else ''INSUFFICIENT_DIRECTIONAL_AGREEMENT'']
      else if add then [''ADD_LONG_QUALIFIED''] else [''REDUCE_LONG_QUALIFIED''])"
    using assms
    by (auto simp: evaluate_daily_decision_def need_Ok_iff rbind_Ok_iff Let_def p o c g sums conf
        add_def reduce_def qualifies_def min_def)
  moreover have "de_recommendation e = decide v obs p" "de_reasons e = decision_reasons v obs p"
    using e(1,8) by (auto simp: decision_reasons_def decide_def add_def reduce_def Let_def)
  moreover note weighted_support_bounds [OF create_decision_policy_wf [OF p], of obs "de_recommendation e"]
  ultimately show ?thesis using p o j bounds by (intro exI conjI) auto
qed

end

subsection \<open>Every observation a rule asks for is there\<close>

lemma parse_observation_Ok: "parse_observation L p row = Inr (i, ob) \<Longrightarrow> i \<in> sel_id ` set (dp_selectors p)"
  by (auto simp: parse_observation_def need_Ok_iff find_Some_iff split: if_split_asm)

lemma parse_observations_dom:
  "parse_observations L p acc rows = Inr obs \<Longrightarrow> finite (dom acc) \<Longrightarrow>
    card (dom obs) = card (dom acc) + length rows \<and> dom obs \<subseteq> dom acc \<union> sel_id ` set (dp_selectors p) \<and>
    finite (dom obs)"
proof (induction rows arbitrary: acc)
  case Nil
  then show ?case by auto
next
  case (Cons row rows)
  then obtain i ob where i: "parse_observation L p row = Inr (i, ob)" "acc i = None"
    "parse_observations L p (acc(i \<mapsto> ob)) rows = Inr obs"
    by (auto simp: rbind_Ok_iff need_Ok_iff)
  have "card (insert i (dom acc)) = Suc (card (dom acc))"
    using Cons.prems(2) i(2) by (intro card_insert_disjoint) auto
  moreover have d: "dom (acc(i \<mapsto> ob)) = insert i (dom acc)" by simp
  ultimately show ?case
    using Cons.IH [OF i(3), unfolded d] Cons.prems(2) parse_observation_Ok [OF i(1)] by simp blast
qed

lemma traverse_ex: "(\<And>x. x \<in> set xs \<Longrightarrow> \<exists>y. f x = Inr y) \<Longrightarrow> \<exists>ys. traverse f xs = Inr ys"
proof (induction xs)
  case (Cons x xs)
  then obtain y ys where "f x = Inr y" "traverse f xs = Inr ys" by (metis list.set_intros)
  then show ?case by simp
qed simp

lemma evaluate_groups_total:
  assumes "\<forall>g \<in> set gs. \<forall>r \<in> set (dg_rules g). \<forall>c \<in> set (dr_conditions r). dc_selectorId c \<in> dom obs"
  shows "\<exists>ts. traverse (evaluate_group L obs) gs = Inr ts"
proof (rule traverse_ex)
  fix g assume g: "g \<in> set gs"
  have "\<exists>t. evaluate_rule L obs r = Inr t" if r: "r \<in> set (dg_rules g)" for r
  proof -
    have "\<exists>cs. traverse (\<lambda>c. case obs (dc_selectorId c) of None \<Rightarrow> Fail INVALID_PLAN
        | Some ob \<Rightarrow> Ok (condition_trace_of L c ob)) (dr_conditions r) = Inr cs"
      using assms g r by (intro traverse_ex) force
    then show ?thesis by (auto simp: evaluate_rule_def)
  qed
  then obtain ts where "traverse (evaluate_rule L obs) (dg_rules g) = Inr ts" using traverse_ex by meson
  then show "\<exists>t. evaluate_group L obs g = Inr t" by (auto simp: evaluate_group_def Let_def)
qed

subsection \<open>Properties\<close>

text \<open>
  Claim C30: \<open>evaluateDailyDecision\<close> computes the decision its policy specifies. The recommendation
  is the one of \<open>decide\<close>: a direction wins when its weighted support reaches its threshold and
  enough groups strictly agree with it while the other direction does not qualify, and it is
  \<open>HOLD_LONG\<close> otherwise. The support reported is the weighted support of that recommendation,
  between 0 and 100, and the confidence is its minimum with the confidence of the evidence. The
  weighted supports and the counts of agreeing groups of both directions are the specified ones,
  and the reason names the direction that won, the conflict, or that no direction qualified.
\<close>

theorem daily_decision_matches_specification:
  assumes "host L v" "evaluate_daily_decision L inputs = Ok e"
  shows "\<exists>p obs confidence.
    create_decision_policy L (get inputs ''decisionPolicy'') = Ok p \<and>
    parse_observations L p Map.empty (elements (get inputs ''selectors'')) = Ok obs \<and>
    get inputs ''evidenceConfidence'' = JDec confidence \<and>
    de_recommendation e = decide v obs p \<and>
    v (de_decisionSupport e) = weighted_support v obs (de_recommendation e) (dp_groups p) \<and>
    v (de_decisionConfidence e) = min (v confidence) (v (de_decisionSupport e)) \<and>
    v (de_addWeightedSupport e) = weighted_support v obs ADD_LONG (dp_groups p) \<and>
    v (de_reduceWeightedSupport e) = weighted_support v obs REDUCE_LONG (dp_groups p) \<and>
    de_addAgreeingGroupCount e = agreeing_groups v obs ADD_LONG REDUCE_LONG (dp_groups p) \<and>
    de_reduceAgreeingGroupCount e = agreeing_groups v obs REDUCE_LONG ADD_LONG (dp_groups p) \<and>
    de_reasons e = decision_reasons v obs p \<and>
    0 \<le> v (de_decisionSupport e) \<and> v (de_decisionSupport e) \<le> 100 \<and> 0 \<le> v confidence \<and> v confidence \<le> 100"
  by (rule big_decimal.evaluate_daily_decision_Ok [OF host_decimal [OF assms(1)] assms(2)])

lemma daily_decision_returns:
  assumes "host L v" "is_record inputs" "create_decision_policy L (get inputs ''decisionPolicy'') = Ok p"
    and "get inputs ''evidenceConfidence'' = JDec c" "0 \<le> v c" "v c \<le> 100" "length (dec_to_string L c) \<le> 128"
    and "get inputs ''symbol'' = JStr s" "s \<in> set (dp_symbolApplicability p)"
    and "get inputs ''selectors'' = JArr rows" "rows \<noteq> []" "length rows = length (dp_selectors p)"
    and "parse_observations L p Map.empty rows = Ok obs"
  shows "\<exists>e. evaluate_daily_decision L inputs = Ok e"
proof -
  note big = host_decimal [OF assms(1)]
  have wf: "wf_decision_policy v p" by (rule big_decimal.create_decision_policy_wf [OF big assms(3)])
  have card: "card (dom obs) = length rows" "dom obs \<subseteq> sel_id ` set (dp_selectors p)"
    using parse_observations_dom [OF assms(13)] by auto
  have "card (sel_id ` set (dp_selectors p)) = length (dp_selectors p)"
    using wf distinct_card [of "map sel_id (dp_selectors p)"] by (simp add: wf_decision_policy_def)
  then have "dom obs = sel_id ` set (dp_selectors p)"
    using card assms(12) by (intro card_subset_eq) auto
  then have "\<forall>g \<in> set (dp_groups p). \<forall>r \<in> set (dg_rules g). \<forall>c \<in> set (dr_conditions r). dc_selectorId c \<in> dom obs"
    using wf by (auto simp: wf_decision_policy_def wf_group_def wf_rule_def)
  then obtain ts where ts: "traverse (evaluate_group L obs) (dp_groups p) = Inr ts"
    using evaluate_groups_total by blast
  have "planning_decimal L (JDec c) False (Some (planning_hundred L)) = Inr c"
    using assms(5-7) by (simp add: planning_decimal_def big_decimal.sign_iffs [OF big]
        big_decimal.compare_iffs [OF big] big_decimal.planning_constants [OF big])
  then show ?thesis
    using assms ts by (auto simp: evaluate_daily_decision_def Let_def bounded_list_def list_ex_iff)
qed

text \<open>
  Claim C32: the evaluation returns a decision exactly when its inputs are complete: the policy parses, the
  confidence is a decimal from 0 to 100 whose text has at most 128 characters, the symbol is one
  the policy applies to, and there is one well-formed observation for every selector of the
  policy. Then no rule can ask for a missing observation; in every other case it fails.
\<close>

theorem daily_decision_total:
  assumes "host L v"
  shows "(\<exists>e. evaluate_daily_decision L inputs = Ok e) \<longleftrightarrow>
    is_record inputs \<and> (\<exists>p c s rows obs. create_decision_policy L (get inputs ''decisionPolicy'') = Ok p \<and>
      get inputs ''evidenceConfidence'' = JDec c \<and> 0 \<le> v c \<and> v c \<le> 100 \<and> length (dec_to_string L c) \<le> 128 \<and>
      get inputs ''symbol'' = JStr s \<and> s \<in> set (dp_symbolApplicability p) \<and>
      get inputs ''selectors'' = JArr rows \<and> rows \<noteq> [] \<and> length rows = length (dp_selectors p) \<and>
      parse_observations L p Map.empty rows = Ok obs)"
    (is "?returns \<longleftrightarrow> ?complete")
proof
  note big = host_decimal [OF assms]
  assume ?returns
  then obtain p c obs where p: "is_record inputs" "create_decision_policy L (get inputs ''decisionPolicy'') = Ok p"
      "is_decimal_value (get inputs ''evidenceConfidence'')"
      "bounded_list (get inputs ''selectors'') (length (dp_selectors p))"
      "length (elements (get inputs ''selectors'')) = length (dp_selectors p)"
      "list_ex (\<lambda>s. JStr s = get inputs ''symbol'') (dp_symbolApplicability p)"
      "planning_decimal L (get inputs ''evidenceConfidence'') False (Some (planning_hundred L)) = Ok c"
      "parse_observations L p Map.empty (elements (get inputs ''selectors'')) = Ok obs"
    by (auto simp: evaluate_daily_decision_def need_Ok_iff rbind_Ok_iff Let_def simp del: if_split)
  obtain d where d: "get inputs ''evidenceConfidence'' = JDec d" using p(3) by (cases "get inputs ''evidenceConfidence''") auto
  then have "c = d" using p(7) by (auto simp: planning_decimal_def split: if_split_asm)
  then have bounds: "0 \<le> v d" "v d \<le> 100" "length (dec_to_string L d) \<le> 128"
    using big_decimal.planning_decimal_Ok [OF big p(7)] big_decimal.planning_constants [OF big] by simp_all
  obtain rows where "get inputs ''selectors'' = JArr rows" "rows \<noteq> []"
    using p(4) by (auto simp: bounded_list_def split: jsval.splits)
  then show ?complete using p(1,2,5,6,8) d bounds by (auto simp: list_ex_iff eq_commute [of "JStr _"])
next
  assume ?complete
  then obtain p c s rows obs where p: "is_record inputs" "create_decision_policy L (get inputs ''decisionPolicy'') = Ok p"
    "get inputs ''evidenceConfidence'' = JDec c" "0 \<le> v c" "v c \<le> 100" "length (dec_to_string L c) \<le> 128"
    "get inputs ''symbol'' = JStr s" "s \<in> set (dp_symbolApplicability p)"
    "get inputs ''selectors'' = JArr rows" "rows \<noteq> []" "length rows = length (dp_selectors p)"
    "parse_observations L p Map.empty rows = Ok obs" by blast
  then show ?returns using daily_decision_returns [OF assms p] by blast
qed

definition sample_inputs_js :: "sdec jsval" where
  "sample_inputs_js = JObj [(''decisionPolicy'', sample_decision_policy_js), (''symbol'', JStr ''BTCUSDT''),
     (''evidenceConfidence'', JDec (SDec 70 0)),
     (''selectors'', JArr [JObj [(''selectorId'', JStr ''price''), (''status'', JStr ''available''),
        (''value'', JDec (SDec 40000 0))]])]"

theorem daily_decision_matches_specification_witness:
  "\<exists>e. evaluate_daily_decision ref_lib sample_inputs_js = Ok e \<and> de_recommendation e = ADD_LONG \<and>
    sval (de_decisionSupport e) \<le> 100"
proof -
  have "(case evaluate_daily_decision ref_lib sample_inputs_js of
      Inr e \<Rightarrow> de_recommendation e = ADD_LONG | Inl e \<Rightarrow> False)" by code_simp
  then obtain e where e: "evaluate_daily_decision ref_lib sample_inputs_js = Ok e" "de_recommendation e = ADD_LONG"
    by (cases "evaluate_daily_decision ref_lib sample_inputs_js") auto
  then show ?thesis using daily_decision_matches_specification [OF ref_host e(1)] by blast
qed

definition sample_observation_row :: "sdec jsval" where
  "sample_observation_row = JObj [(''selectorId'', JStr ''price''), (''status'', JStr ''available''),
     (''value'', JDec (SDec 40000 0))]"

definition sample_observation_map :: "string \<rightharpoonup> sdec observation" where
  "sample_observation_map = Map.empty(''price'' \<mapsto> Available (SDec 40000 0))"

theorem daily_decision_total_witness: "\<exists>e. evaluate_daily_decision ref_lib sample_inputs_js = Ok e"
proof -
  have "parse_observation ref_lib sample_decision_policy sample_observation_row =
    Ok (''price'', Available (SDec 40000 0))" by code_simp
  then have "parse_observations ref_lib sample_decision_policy Map.empty [sample_observation_row] = Ok sample_observation_map"
    by (simp add: sample_observation_map_def)
  moreover have "create_decision_policy ref_lib (get sample_inputs_js ''decisionPolicy'') = Ok sample_decision_policy"
    using sample_decision_policy_created by (simp add: sample_inputs_js_def)
  moreover have "length (dec_to_string ref_lib (SDec 70 0)) \<le> 128" by code_simp
  moreover have "is_record sample_inputs_js" "get sample_inputs_js ''evidenceConfidence'' = JDec (SDec 70 0)"
    "0 \<le> sval (SDec 70 0)" "sval (SDec 70 0) \<le> 100" "get sample_inputs_js ''symbol'' = JStr ''BTCUSDT''"
    "''BTCUSDT'' \<in> set (dp_symbolApplicability sample_decision_policy)"
    "get sample_inputs_js ''selectors'' = JArr [sample_observation_row]"
    "[sample_observation_row] \<noteq> []" "length [sample_observation_row] = length (dp_selectors sample_decision_policy)"
    by (simp_all add: sample_inputs_js_def sample_observation_row_def sample_decision_policy_def sval_def)
  ultimately show ?thesis unfolding daily_decision_total [OF ref_host] by blast
qed

end
