(* ===== verification/Grid.thy ===== *)
theory Grid
  imports Decision
begin

text \<open>
  \<open>domain/planning/daily-entry-grid.ts\<close>: the ladder of limit buys that an \<open>ADD_LONG\<close> decision is
  turned into. The record holds the fields of \<open>DailyPlanningInputs\<close> that the function reads.

  Shown here: every leg of a compiled grid is a buy on the tick and step grids, inside the
  static bounds, at or below the bid and below the ask, worth no more than its share of the
  allocation, with a take profit above its price and no stop loss; prices are distinct and
  the legs together cost no more than the allocation.
\<close>

record 'd grid_input =
  gi_symbol :: string
  gi_allocation :: 'd
  gi_planningPolicy :: "'d planning_policy"
  gi_constraints :: "'d instrument_constraints"
  gi_bid :: 'd
  gi_ask :: 'd
  gi_atr :: 'd

record 'd candidate_leg =
  cl_legId :: string
  cl_index :: int
  cl_allocation :: 'd
  cl_intent :: "'d order_intent"

text \<open>\<open>invalid(reason)\<close>: the reason word is the error's message.\<close>

definition invalid_grid :: "string \<Rightarrow> 'a result" where
  "invalid_grid reason = Fail_at CONSTRAINT_VIOLATION reason"

definition grid_need :: "string \<Rightarrow> 'a result \<Rightarrow> ('a \<Rightarrow> 'b result) \<Rightarrow> 'b result" where
  "grid_need reason r f = (case r of Inr x \<Rightarrow> f x | Inl e \<Rightarrow> invalid_grid reason)"

definition grid_guard :: "string \<Rightarrow> bool \<Rightarrow> 'b result \<Rightarrow> 'b result" where
  "grid_guard reason b r = (if b then r else invalid_grid reason)"

definition daily_id_js :: "string \<Rightarrow> string \<Rightarrow> int \<Rightarrow> 'd jsval" where
  "daily_id_js schema seed index =
     JObj [(''schemaVersion'', JStr schema), (''seed'', JStr seed), (''index'', JInt index)]"

definition grid_intent_js :: "'d lib \<Rightarrow> string \<Rightarrow> string \<Rightarrow> 'd \<Rightarrow> 'd \<Rightarrow> 'd \<Rightarrow> 'd jsval" where
  "grid_intent_js L intentHash symbol entry quantity tp = JObj
     [(''intentId'', JStr (''daily-intent:'' @ intentHash)), (''instrument'', JStr symbol),
      (''orderType'', JStr ''limit''), (''side'', JStr ''buy''), (''positionEffect'', JStr ''open''),
      (''price'', JStr (dec_to_string L entry)), (''quantity'', JStr (dec_to_string L quantity)),
      (''protection'', JObj [(''takeProfit'', JStr (dec_to_string L tp))]),
      (''rounding'', JObj [(''price'', JStr ''floor''), (''quantity'', JStr ''floor'')])]"

text \<open>The body of the loop over the levels: the printed entry price and the leg.\<close>

definition compile_leg ::
  "'d lib \<Rightarrow> 'd grid_input \<Rightarrow> 'd \<Rightarrow> 'd \<Rightarrow> 'd \<Rightarrow> 'd \<Rightarrow> string \<Rightarrow> string list \<Rightarrow> int \<Rightarrow> 'd planning_level \<Rightarrow>
    (string \<times> 'd candidate_leg) result" where
  "compile_leg L input minPrice maxPrice maxLimitQuantity anchor seed prices index level =
     (let constraints = gi_constraints input; tick = ic_priceTickSize constraints in
      grid_need ''INVALID_GRID'' (floor_to_step L (dec_subtract L anchor
          (dec_multiply L (gi_atr input) (pl_atrOffset level))) tick) (\<lambda>entry.
      grid_guard ''INVALID_GRID''
        (is_positive L entry \<and> \<not> dec_compare L entry minPrice < 0 \<and> \<not> 0 < dec_compare L entry maxPrice \<and>
         \<not> 0 < dec_compare L entry (gi_bid input) \<and> \<not> 0 \<le> dec_compare L entry (gi_ask input) \<and>
         dec_to_string L entry \<notin> set prices) (
      let budget = dec_multiply L (gi_allocation input) (pl_allocationWeight level) in
      grid_need ''INVALID_GRID'' (dec_divide L budget (dec_multiply L entry (ic_quantityStep constraints)) 0 DOWN) (\<lambda>steps.
      let quantity = dec_multiply L steps (ic_quantityStep constraints) in
      grid_guard ''INVALID_GRID''
        (is_positive L quantity \<and> \<not> 0 < dec_compare L quantity maxLimitQuantity) (
      grid_need ''PROTECTION_REQUIRED'' (ceil_to_step L (dec_add L entry
          (dec_multiply L (gi_atr input) (pl_takeProfitAtrDistance level))) tick) (\<lambda>tp.
          grid_guard ''PROTECTION_REQUIRED''
            (\<not> dec_compare L tp entry \<le> 0 \<and> \<not> dec_compare L tp minPrice < 0 \<and> \<not> 0 < dec_compare L tp maxPrice) (
          grid_need ''INVALID_GRID'' (hash_canonical L (daily_id_js ''daily-leg-id/v1'' seed index :: 'd jsval)) (\<lambda>legHash.
          grid_need ''INVALID_GRID'' (hash_canonical L (daily_id_js ''daily-intent-id/v1'' seed index :: 'd jsval)) (\<lambda>intentHash.
          grid_need ''INVALID_GRID'' (normalize_order_intent L
              (grid_intent_js L intentHash (gi_symbol input) entry quantity tp) constraints) (\<lambda>intent.
          grid_guard ''INVALID_GRID''
            ((case oi_protection intent of
                None \<Rightarrow> False
              | Some p \<Rightarrow>
                  (case pr_takeProfit p of None \<Rightarrow> False | Some t \<Rightarrow> dec_compare L t tp = 0) \<and>
                  pr_stopLoss p = None) \<and>
             \<not> 0 < dec_compare L (oi_notional intent) budget) (
          Ok (dec_to_string L entry,
            \<lparr>cl_legId = ''daily-leg:'' @ legHash, cl_index = index, cl_allocation = budget,
             cl_intent = intent\<rparr>))))))))))))"

primrec compile_legs ::
  "'d lib \<Rightarrow> 'd grid_input \<Rightarrow> 'd \<Rightarrow> 'd \<Rightarrow> 'd \<Rightarrow> 'd \<Rightarrow> string \<Rightarrow> string list \<Rightarrow> int \<Rightarrow> 'd planning_level list \<Rightarrow>
    'd candidate_leg list result" where
  "compile_legs L input minPrice maxPrice maxLimitQuantity anchor seed prices index [] = Ok []"
| "compile_legs L input minPrice maxPrice maxLimitQuantity anchor seed prices index (level # levels) =
     rbind (compile_leg L input minPrice maxPrice maxLimitQuantity anchor seed prices index level) (\<lambda>(price, leg).
     rbind (compile_legs L input minPrice maxPrice maxLimitQuantity anchor seed (price # prices) (index + 1) levels)
       (\<lambda>legs. Ok (leg # legs)))"

definition compile_daily_entry_grid ::
  "'d lib \<Rightarrow> 'd grid_input \<Rightarrow> daily_recommendation \<Rightarrow> 'd jsval \<Rightarrow> 'd candidate_leg list result" where
  "compile_daily_entry_grid L input recommendation seed =
     grid_guard ''INVALID_GRID'' (recommendation = ADD_LONG) (
     grid_need ''INVALID_GRID'' (require_hash seed ''seed'') (\<lambda>seedText.
     (case (ic_minPrice (gi_constraints input), ic_maxPrice (gi_constraints input),
            ic_maxLimitQuantity (gi_constraints input)) of
        (Some minPrice, Some maxPrice, Some maxLimitQuantity) \<Rightarrow>
          grid_guard ''INVALID_GRID'' (is_positive L (gi_atr input) \<and> is_positive L (gi_allocation input)) (
          let tick = ic_priceTickSize (gi_constraints input);
              belowAsk = dec_subtract L (gi_ask input) tick;
              rawAnchor = (if dec_compare L (gi_bid input) belowAsk \<le> 0 then gi_bid input else belowAsk)
          in grid_need ''INVALID_GRID'' (floor_to_step L rawAnchor tick) (\<lambda>anchor.
             grid_guard ''INVALID_GRID'' (is_positive L anchor) (
             rbind (compile_legs L input minPrice maxPrice maxLimitQuantity anchor seedText [] 0
               (pp_levels (gi_planningPolicy input))) (\<lambda>legs.
             grid_guard ''INVALID_GRID''
               (legs \<noteq> [] \<and>
                \<not> 0 < dec_compare L (sum_decimals L (map (\<lambda>leg. oi_notional (cl_intent leg)) legs))
                    (gi_allocation input)) (
             Ok legs)))))
      | _ \<Rightarrow> invalid_grid ''MISSING_STATIC_BOUNDS'')))"

lemma grid_Ok_iff [result_simps]:
  "grid_need reason r f = Inr y \<longleftrightarrow> (\<exists>x. r = Inr x \<and> f x = Inr y)"
  "grid_guard reason b s = Inr y \<longleftrightarrow> b \<and> s = Inr y"
  "invalid_grid reason \<noteq> Inr y"
  by (auto simp: grid_need_def grid_guard_def invalid_grid_def split: sum.splits)

subsection \<open>What a leg holds\<close>

definition wf_leg ::
  "('d \<Rightarrow> rat) \<Rightarrow> 'd grid_input \<Rightarrow> 'd \<Rightarrow> 'd \<Rightarrow> 'd \<Rightarrow> 'd candidate_leg \<Rightarrow> bool" where
  "wf_leg v input minPrice maxPrice maxLimitQuantity leg \<longleftrightarrow>
     (let i = cl_intent leg; c = gi_constraints input in
      oi_side i = Buy \<and> oi_positionEffect i = OpenPosition \<and> oi_instrument i = ic_instrument c \<and>
      (\<exists>k. v (oi_price i) = of_int k * v (ic_priceTickSize c)) \<and>
      (\<exists>k. v (oi_quantity i) = of_int k * v (ic_quantityStep c)) \<and>
      v minPrice \<le> v (oi_price i) \<and> v (oi_price i) \<le> v maxPrice \<and>
      v (oi_price i) \<le> v (gi_bid input) \<and> v (oi_price i) < v (gi_ask input) \<and>
      0 < v (oi_price i) \<and> 0 < v (oi_quantity i) \<and>
      v (ic_minQuantity c) \<le> v (oi_quantity i) \<and> v (oi_quantity i) \<le> v maxLimitQuantity \<and>
      v (oi_notional i) = v (oi_price i) * v (oi_quantity i) \<and>
      v (oi_notional i) \<le> v (cl_allocation leg) \<and>
      (\<exists>p tp. oi_protection i = Some p \<and> pr_takeProfit p = Some tp \<and> pr_stopLoss p = None \<and>
        v (oi_price i) < v tp \<and> v minPrice \<le> v tp \<and> v tp \<le> v maxPrice \<and>
        (\<exists>k. v tp = of_int k * v (ic_priceTickSize c))))"

lemma grid_intent_js_get [simp]:
  "get (grid_intent_js L h symbol entry quantity tp) ''rounding'' =
    JObj [(''price'', JStr ''floor''), (''quantity'', JStr ''floor'')]"
  "get (grid_intent_js L h symbol entry quantity tp) ''side'' = JStr ''buy''"
  "get (grid_intent_js L h symbol entry quantity tp) ''positionEffect'' = JStr ''open''"
  "get (grid_intent_js L h symbol entry quantity tp) ''price'' = JStr (dec_to_string L entry)"
  "get (grid_intent_js L h symbol entry quantity tp) ''quantity'' = JStr (dec_to_string L quantity)"
  by (simp_all add: grid_intent_js_def)

text \<open>The entry price of a level: the anchor less the offset in ATRs, rounded down to the tick.\<close>

definition entry_price :: "('d \<Rightarrow> rat) \<Rightarrow> 'd grid_input \<Rightarrow> 'd \<Rightarrow> 'd planning_level \<Rightarrow> rat" where
  "entry_price v input anchor level =
     (let tick = v (ic_priceTickSize (gi_constraints input)) in
      of_int \<lfloor>(v anchor - v (gi_atr input) * v (pl_atrOffset level)) / tick\<rfloor> * tick)"

context big_decimal
begin

text \<open>Normalizing what is on the grid already keeps its value.\<close>

lemma normalized_aligned:
  assumes "dec_from_string L (JStr (dec_to_string L x)) = Inr y" "0 < v step" "0 \<le> v x"
    "v x = of_int k * v step" "floor_to_step L y step = Inr r"
  shows "v r = v x"
proof -
  have y: "v y = v x" using from_to_string [of x] assms(1) by auto
  then have "0 \<le> v y" "v y = of_int k * v step" using assms by simp_all
  from floor.keeps [OF assms(2) this assms(5)] show ?thesis using y by simp
qed

lemma whole_steps:
  assumes "dec_divide L budget unit 0 DOWN = Inr steps" "v unit \<noteq> 0"
  shows "\<exists>k. v steps = of_int k"
proof -
  have "v steps = round_rat RoundDown 0 (v budget / v unit)"
    using divide_directed [of unit 0 DOWN budget] assms by auto
  then show ?thesis by (auto simp: round_rat_def)
qed

lemma compile_leg_Ok:
  assumes "wf_constraints v (gi_constraints input)"
    and "compile_leg L input minPrice maxPrice maxQ anchor seed prices index level = Inr (txt, leg)"
  shows "wf_leg v input minPrice maxPrice maxQ leg" "txt = dec_to_string L (oi_price (cl_intent leg))"
    "txt \<notin> set prices" "cl_index leg = index"
    "v (cl_allocation leg) = v (gi_allocation input) * v (pl_allocationWeight level)"
    "v (oi_price (cl_intent leg)) = entry_price v input anchor level"
proof -
  define c where "c = gi_constraints input"
  define budget where "budget = dec_multiply L (gi_allocation input) (pl_allocationWeight level)"
  obtain entry steps tp legHash intentHash intent where
    entry: "floor_to_step L (dec_subtract L anchor (dec_multiply L (gi_atr input) (pl_atrOffset level)))
      (ic_priceTickSize c) = Inr entry" "0 < v entry" "v minPrice \<le> v entry" "v entry \<le> v maxPrice"
      "v entry \<le> v (gi_bid input)" "v entry < v (gi_ask input)" "dec_to_string L entry \<notin> set prices"
    and steps: "dec_divide L budget (dec_multiply L entry (ic_quantityStep c)) 0 DOWN = Inr steps"
      "0 < v (dec_multiply L steps (ic_quantityStep c))" "v (dec_multiply L steps (ic_quantityStep c)) \<le> v maxQ"
    and tp: "ceil_to_step L (dec_add L entry (dec_multiply L (gi_atr input) (pl_takeProfitAtrDistance level)))
      (ic_priceTickSize c) = Inr tp" "v entry < v tp" "v minPrice \<le> v tp" "v tp \<le> v maxPrice"
    and intent: "normalize_order_intent L (grid_intent_js L intentHash (gi_symbol input) entry
        (dec_multiply L steps (ic_quantityStep c)) tp) c = Inr intent"
    and protection: "case oi_protection intent of None \<Rightarrow> False
      | Some p \<Rightarrow> (case pr_takeProfit p of None \<Rightarrow> False | Some t \<Rightarrow> dec_compare L t tp = 0) \<and> pr_stopLoss p = None"
    and notional: "v (oi_notional intent) \<le> v budget"
    and leg: "txt = dec_to_string L entry" "leg = \<lparr>cl_legId = ''daily-leg:'' @ legHash, cl_index = index,
      cl_allocation = budget, cl_intent = intent\<rparr>"
    using assms(2) unfolding compile_leg_def Let_def c_def [symmetric] budget_def [symmetric]
    by (auto simp: grid_Ok_iff not_less not_le simp del: arith_values)
  have pos: "0 < v (ic_priceTickSize c)" "0 < v (ic_quantityStep c)"
    using assms(1) by (simp_all add: wf_constraints_def c_def)
  define quantity where "quantity = dec_multiply L steps (ic_quantityStep c)"
  note norm = normalize_order_intent_fields [OF intent] normalize_order_intent_Ok [OF intent]
  have floor: "oi_priceRounding intent = FloorDirection" "oi_quantityRounding intent = FloorDirection"
    "oi_side intent = Buy" "oi_positionEffect intent = OpenPosition"
    using norm(1-4) by (simp_all add: parse_direction_def rounding_direction_of_def order_side_of_def position_effect_of_def)
  obtain k where k: "v entry = of_int k * v (ic_priceTickSize c)" using floor_to_step_Ok(1) [OF pos(1) entry(1)] by blast
  obtain n where n: "v steps = of_int n"
    using whole_steps [OF steps(1)] entry(2) pos(2) by auto
  then have q: "v quantity = of_int n * v (ic_quantityStep c)" "0 < v quantity" "v quantity \<le> v maxQ"
    using steps by (simp_all add: quantity_def)
  obtain rawPrice rawQuantity where raw:
    "dec_from_string L (JStr (dec_to_string L entry)) = Inr rawPrice"
    "dec_from_string L (JStr (dec_to_string L quantity)) = Inr rawQuantity"
    "floor_to_step L rawPrice (ic_priceTickSize c) = Inr (oi_price intent)"
    "floor_to_step L rawQuantity (ic_quantityStep c) = Inr (oi_quantity intent)"
    using norm(6) floor by (auto simp: round_by_direction_def quantity_def)
  have price: "v (oi_price intent) = v entry"
    by (rule normalized_aligned [OF raw(1) pos(1) _ k raw(3)]) (use entry(2) in simp)
  have quant: "v (oi_quantity intent) = v quantity"
    by (rule normalized_aligned [OF raw(2) pos(2) _ q(1) raw(4)]) (use q(2) in simp)
  obtain p t where p: "oi_protection intent = Some p" "pr_takeProfit p = Some t" "v t = v tp" "pr_stopLoss p = None"
    using protection by (auto split: option.split_asm)
  obtain m where m: "v tp = of_int m * v (ic_priceTickSize c)" using ceil_to_step_aligned [OF pos(1) tp(1)] by blast
  have wf: "v (oi_notional intent) = v (oi_price intent) * v (oi_quantity intent)"
    using norm(11) by (simp add: wf_order_intent_def)
  show "wf_leg v input minPrice maxPrice maxQ leg"
    unfolding wf_leg_def Let_def c_def [symmetric] leg(2)
    using entry q price quant p tp m k floor norm(7,9) wf notional by auto
  show "txt = dec_to_string L (oi_price (cl_intent leg))"
    using leg price by (simp add: to_string_eq_iff)
  show "txt \<notin> set prices" "cl_index leg = index"
    "v (cl_allocation leg) = v (gi_allocation input) * v (pl_allocationWeight level)"
    using leg entry(7) by (simp_all add: budget_def)
  have raw: "0 \<le> v (dec_subtract L anchor (dec_multiply L (gi_atr input) (pl_atrOffset level)))"
    using floor_to_step_Ok(2) [OF pos(1) entry(1,2)] by simp
  show "v (oi_price (cl_intent leg)) = entry_price v input anchor level"
    using floor_to_step_value [OF pos(1) raw] entry(1) price leg(2)
    by (simp add: entry_price_def c_def Let_def)
qed

lemma compile_legs_Ok:
  assumes "wf_constraints v (gi_constraints input)"
  shows "compile_legs L input minPrice maxPrice maxQ anchor seed prices index levels = Inr legs \<Longrightarrow>
    (\<forall>leg \<in> set legs. wf_leg v input minPrice maxPrice maxQ leg) \<and>
    distinct (map (\<lambda>leg. dec_to_string L (oi_price (cl_intent leg))) legs) \<and>
    set (map (\<lambda>leg. dec_to_string L (oi_price (cl_intent leg))) legs) \<inter> set prices = {} \<and>
    map cl_index legs = map (\<lambda>n. index + int n) [0..<length levels] \<and>
    map (v \<circ> cl_allocation) legs = map (\<lambda>l. v (gi_allocation input) * v (pl_allocationWeight l)) levels \<and>
    map (\<lambda>leg. v (oi_price (cl_intent leg))) legs = map (entry_price v input anchor) levels"
proof (induction levels arbitrary: prices index legs)
  case Nil
  then show ?case by simp
next
  case (Cons level levels)
  then obtain price leg rest where
    leg: "compile_leg L input minPrice maxPrice maxQ anchor seed prices index level = Inr (price, leg)"
    and rest: "compile_legs L input minPrice maxPrice maxQ anchor seed (price # prices) (index + 1) levels = Inr rest"
    and legs: "legs = leg # rest"
    by (auto simp: rbind_Ok_iff)
  have shift: "map (\<lambda>n. index + int n) [0..<length (level # levels)] =
    index # map (\<lambda>n. index + 1 + int n) [0..<length levels]"
    by (simp add: upt_conv_Cons map_Suc_upt [symmetric] del: upt_Suc)
  note l = compile_leg_Ok [OF assms leg] and r = Cons.IH [OF rest]
  show ?case unfolding shift legs using l r by auto
qed

end

lemma entry_price_antimono:
  assumes "0 < v (ic_priceTickSize (gi_constraints input))" "0 < v (gi_atr input)"
    "v (pl_atrOffset l) \<le> v (pl_atrOffset m)"
  shows "entry_price v input anchor m \<le> entry_price v input anchor l"
proof -
  have "v anchor - v (gi_atr input) * v (pl_atrOffset m) \<le> v anchor - v (gi_atr input) * v (pl_atrOffset l)"
    using assms by (simp add: mult_left_mono)
  then have "\<lfloor>(v anchor - v (gi_atr input) * v (pl_atrOffset m)) / v (ic_priceTickSize (gi_constraints input))\<rfloor> \<le>
    \<lfloor>(v anchor - v (gi_atr input) * v (pl_atrOffset l)) / v (ic_priceTickSize (gi_constraints input))\<rfloor>"
    using assms(1) by (intro floor_mono divide_right_mono) auto
  then show ?thesis using assms(1) by (simp add: entry_price_def Let_def)
qed

lemma sorted_distinct_strict:
  assumes "sorted_wrt R xs" "\<And>x y. R x y \<Longrightarrow> g y \<le> g x" "distinct (map g xs)"
  shows "sorted_wrt (\<lambda>a b. b < (a :: rat)) (map g xs)"
  using assms(1,3)
proof (induction xs)
  case (Cons x xs)
  have "g y < g x" if y: "y \<in> set xs" for y
  proof -
    have "g x \<notin> g ` set xs" using Cons.prems(2) by simp
    then have "g y \<noteq> g x" using y by (metis imageI)
    then show ?thesis using y Cons.prems(1) assms(2) [of x y] by simp
  qed
  then show ?case using Cons by auto
qed simp

context big_decimal
begin

lemma compile_daily_entry_grid_Ok:
  assumes "wf_constraints v (gi_constraints input)"
    and "compile_daily_entry_grid L input recommendation seed = Inr legs"
  shows "\<exists>minPrice maxPrice maxQ anchor.
      ic_minPrice (gi_constraints input) = Some minPrice \<and> ic_maxPrice (gi_constraints input) = Some maxPrice \<and>
      ic_maxLimitQuantity (gi_constraints input) = Some maxQ \<and>
      (\<forall>leg \<in> set legs. wf_leg v input minPrice maxPrice maxQ leg) \<and>
      map (\<lambda>leg. v (oi_price (cl_intent leg))) legs =
        map (entry_price v input anchor) (pp_levels (gi_planningPolicy input))"
    "recommendation = ADD_LONG" "legs \<noteq> []" "0 < v (gi_atr input)"
    "distinct (map (\<lambda>leg. v (oi_price (cl_intent leg))) legs)"
    "map (v \<circ> cl_allocation) legs =
      map (\<lambda>l. v (gi_allocation input) * v (pl_allocationWeight l)) (pp_levels (gi_planningPolicy input))"
    "map cl_index legs = map int [0..<length (pp_levels (gi_planningPolicy input))]"
    "sum_list (map (\<lambda>leg. v (oi_notional (cl_intent leg))) legs) \<le> v (gi_allocation input)"
proof -
  obtain minPrice maxPrice maxQ where
    m: "ic_minPrice (gi_constraints input) = Some minPrice" "ic_maxPrice (gi_constraints input) = Some maxPrice"
      "ic_maxLimitQuantity (gi_constraints input) = Some maxQ"
    using assms(2)
    by (cases "ic_minPrice (gi_constraints input)"; cases "ic_maxPrice (gi_constraints input)";
        cases "ic_maxLimitQuantity (gi_constraints input)")
      (auto simp: compile_daily_entry_grid_def grid_Ok_iff)
  obtain anchor seedText where
    legs: "compile_legs L input minPrice maxPrice maxQ anchor seedText [] 0
      (pp_levels (gi_planningPolicy input)) = Inr legs"
    and rest: "recommendation = ADD_LONG" "legs \<noteq> []" "0 < v (gi_atr input)"
      "v (sum_decimals L (map (\<lambda>leg. oi_notional (cl_intent leg)) legs)) \<le> v (gi_allocation input)"
    using assms(2) m by (auto simp: compile_daily_entry_grid_def Let_def grid_Ok_iff rbind_Ok_iff not_less)
  note all = compile_legs_Ok [OF assms(1) legs]
  have "map (\<lambda>leg. dec_to_string L (oi_price (cl_intent leg))) legs =
    map (dec_to_string L) (map (\<lambda>leg. oi_price (cl_intent leg)) legs)" by simp
  have "distinct (map (\<lambda>leg. dec_to_string L (oi_price (cl_intent leg))) legs)" using all by blast
  then show "distinct (map (\<lambda>leg. v (oi_price (cl_intent leg))) legs)"
    by (auto simp: distinct_map inj_on_def to_string_eq_iff)
  show "\<exists>minPrice maxPrice maxQ anchor.
      ic_minPrice (gi_constraints input) = Some minPrice \<and> ic_maxPrice (gi_constraints input) = Some maxPrice \<and>
      ic_maxLimitQuantity (gi_constraints input) = Some maxQ \<and>
      (\<forall>leg \<in> set legs. wf_leg v input minPrice maxPrice maxQ leg) \<and>
      map (\<lambda>leg. v (oi_price (cl_intent leg))) legs =
        map (entry_price v input anchor) (pp_levels (gi_planningPolicy input))"
    using m all by blast
  show "recommendation = ADD_LONG" "legs \<noteq> []" "0 < v (gi_atr input)" by (rule rest)+
  show "map (v \<circ> cl_allocation) legs =
      map (\<lambda>l. v (gi_allocation input) * v (pl_allocationWeight l)) (pp_levels (gi_planningPolicy input))"
    "map cl_index legs = map int [0..<length (pp_levels (gi_planningPolicy input))]"
    using all by simp_all
  show "sum_list (map (\<lambda>leg. v (oi_notional (cl_intent leg))) legs) \<le> v (gi_allocation input)"
    using rest(4) by (simp add: sum_decimals_value comp_def)
qed

end

subsection \<open>Properties\<close>

text \<open>
  Claim C29: every leg of a grid that \<open>compileDailyEntryGrid\<close> returns opens a position by buying the
  instrument, at a price on the tick grid within the static bounds, not above the bid and below
  the ask; its quantity is on the step grid between the minimum and the maximum; its notional is
  the product and not above the leg's share of the allocation; and it has a take profit on the
  tick grid, above the price and within the bounds, and no stop loss.
\<close>

theorem grid_legs_within_bounds:
  assumes "host L v" "wf_constraints v (gi_constraints input)"
    and "compile_daily_entry_grid L input recommendation seed = Ok legs"
  shows "recommendation = ADD_LONG \<and> legs \<noteq> [] \<and>
    (\<exists>minPrice maxPrice maxQ. ic_minPrice (gi_constraints input) = Some minPrice \<and>
      ic_maxPrice (gi_constraints input) = Some maxPrice \<and>
      ic_maxLimitQuantity (gi_constraints input) = Some maxQ \<and>
      (\<forall>leg \<in> set legs. wf_leg v input minPrice maxPrice maxQ leg))"
  using big_decimal.compile_daily_entry_grid_Ok(1-3) [OF host_decimal [OF assms(1)] assms(2,3)] by blast

text \<open>
  The legs of a compiled grid follow the levels of the policy in order: each gets its
  weight of the allocation as its budget, their prices strictly decrease, and together their
  notionals do not exceed the allocation.
\<close>

theorem grid_respects_allocation:
  assumes "host L v" "wf_constraints v (gi_constraints input)" "wf_planning_policy v (gi_planningPolicy input)"
    and "compile_daily_entry_grid L input recommendation seed = Ok legs"
  shows "map (v \<circ> cl_allocation) legs =
      map (\<lambda>l. v (gi_allocation input) * v (pl_allocationWeight l)) (pp_levels (gi_planningPolicy input)) \<and>
    map cl_index legs = map int [0..<length (pp_levels (gi_planningPolicy input))] \<and>
    sorted_wrt (\<lambda>p q. q < p) (map (\<lambda>leg. v (oi_price (cl_intent leg))) legs) \<and>
    sum_list (map (v \<circ> cl_allocation) legs) = v (gi_allocation input) \<and>
    sum_list (map (\<lambda>leg. v (oi_notional (cl_intent leg))) legs) \<le> v (gi_allocation input)"
proof -
  note g = big_decimal.compile_daily_entry_grid_Ok [OF host_decimal [OF assms(1)] assms(2,4)]
  obtain anchor where prices: "map (\<lambda>leg. v (oi_price (cl_intent leg))) legs =
    map (entry_price v input anchor) (pp_levels (gi_planningPolicy input))" using g(1) by blast
  have "0 < v (ic_priceTickSize (gi_constraints input))" using assms(2) by (simp add: wf_constraints_def)
  then have "sorted_wrt (\<lambda>p q. q < p) (map (\<lambda>leg. v (oi_price (cl_intent leg))) legs)"
    unfolding prices
    using assms(3) g(4,5) prices
    by (intro sorted_distinct_strict [where R = "\<lambda>l m. v (pl_atrOffset l) < v (pl_atrOffset m)"]
        entry_price_antimono) (auto simp: wf_planning_policy_def)
  moreover have "sum_list (map (v \<circ> cl_allocation) legs) = v (gi_allocation input)"
    unfolding g(6) using assms(3) by (simp add: sum_list_const_mult wf_planning_policy_def comp_def)
  ultimately show ?thesis using g(6-8) by simp
qed

definition sample_grid_constraints :: "sdec instrument_constraints" where
  "sample_grid_constraints = sample_constraints\<lparr>ic_maxLimitQuantity := Some (SDec 100 0)\<rparr>"

definition sample_grid_input :: "sdec grid_input" where
  "sample_grid_input = \<lparr>gi_symbol = ''BTCUSDT'', gi_allocation = SDec 1000 0,
     gi_planningPolicy = sample_planning_policy, gi_constraints = sample_grid_constraints,
     gi_bid = SDec 40000 0, gi_ask = SDec 400005 1, gi_atr = SDec 8000 0\<rparr>"

definition sample_leg_0 :: "sdec candidate_leg" where
  "sample_leg_0 = \<lparr>cl_legId = ''daily-leg:sha256:0000000000000000000000000000000000000000000000000000000042f7dfce'',
     cl_index = 0, cl_allocation = SDec 5000 1,
     cl_intent = \<lparr>oi_intentId = ''daily-intent:sha256:00000000000000000000000000000000000000000000000000000000124cad7e'',
       oi_instrument = ''BTCUSDT'', oi_side = Buy, oi_positionEffect = OpenPosition, oi_price = SDec 400000 1,
       oi_quantity = SDec 12 3, oi_notional = SDec 4800000 4, oi_priceRounding = FloorDirection,
       oi_quantityRounding = FloorDirection, oi_constraintVersion = ''instrument-constraints/v1'',
       oi_protection = Some \<lparr>pr_stopLoss = None, pr_takeProfit = Some (SDec 480000 1), pr_takeProfitPolicy = False\<rparr>\<rparr>\<rparr>"

definition sample_leg_1 :: "sdec candidate_leg" where
  "sample_leg_1 = \<lparr>cl_legId = ''daily-leg:sha256:000000000000000000000000000000000000000000000000000000008fa6094f'',
     cl_index = 1, cl_allocation = SDec 5000 1,
     cl_intent = \<lparr>oi_intentId = ''daily-intent:sha256:0000000000000000000000000000000000000000000000000000000071bc885d'',
       oi_instrument = ''BTCUSDT'', oi_side = Buy, oi_positionEffect = OpenPosition, oi_price = SDec 320000 1,
       oi_quantity = SDec 15 3, oi_notional = SDec 4800000 4, oi_priceRounding = FloorDirection,
       oi_quantityRounding = FloorDirection, oi_constraintVersion = ''instrument-constraints/v1'',
       oi_protection = Some \<lparr>pr_stopLoss = None, pr_takeProfit = Some (SDec 480000 1), pr_takeProfitPolicy = False\<rparr>\<rparr>\<rparr>"

text \<open>A concrete run, one guard of the code at a time.\<close>

lemma grid_run:
  "r = Inr x \<Longrightarrow> f x = y \<Longrightarrow> grid_need reason r f = y"
  "b \<Longrightarrow> s = y \<Longrightarrow> grid_guard reason b s = y"
  by (simp_all add: grid_need_def grid_guard_def)

lemma sample_leg_0_compiles:
  "compile_leg ref_lib sample_grid_input (SDec 1 0) (SDec 1000000 0) (SDec 100 0) (SDec 400000 1) sample_hash
    [] 0 (pp_levels sample_planning_policy ! 0) = Inr (''40000'', sample_leg_0)"
  unfolding compile_leg_def Let_def
  apply (rule grid_run(1) [where x = "SDec 400000 1"], code_simp)
  apply (rule grid_run(2), code_simp)
  apply (rule grid_run(1) [where x = "SDec 12 0"], code_simp)
  apply (rule grid_run(2), code_simp)
  apply (rule grid_run(1) [where x = "SDec 480000 1"], code_simp)
  apply (rule grid_run(2), code_simp)
  apply (rule grid_run(1) [where x = "''sha256:0000000000000000000000000000000000000000000000000000000042f7dfce''"], code_simp)
  apply (rule grid_run(1) [where x = "''sha256:00000000000000000000000000000000000000000000000000000000124cad7e''"], code_simp)
  apply (rule grid_run(1) [where x = "cl_intent sample_leg_0"], code_simp)
  by (rule grid_run(2); code_simp)

lemma sample_leg_1_compiles:
  "compile_leg ref_lib sample_grid_input (SDec 1 0) (SDec 1000000 0) (SDec 100 0) (SDec 400000 1) sample_hash
    [''40000''] 1 (pp_levels sample_planning_policy ! 1) = Inr (''32000'', sample_leg_1)"
  unfolding compile_leg_def Let_def
  apply (rule grid_run(1) [where x = "SDec 320000 1"], code_simp)
  apply (rule grid_run(2), code_simp)
  apply (rule grid_run(1) [where x = "SDec 15 0"], code_simp)
  apply (rule grid_run(2), code_simp)
  apply (rule grid_run(1) [where x = "SDec 480000 1"], code_simp)
  apply (rule grid_run(2), code_simp)
  apply (rule grid_run(1) [where x = "''sha256:000000000000000000000000000000000000000000000000000000008fa6094f''"], code_simp)
  apply (rule grid_run(1) [where x = "''sha256:0000000000000000000000000000000000000000000000000000000071bc885d''"], code_simp)
  apply (rule grid_run(1) [where x = "cl_intent sample_leg_1"], code_simp)
  by (rule grid_run(2); code_simp)

lemma sample_grid_compiles:
  "compile_daily_entry_grid ref_lib sample_grid_input ADD_LONG (JStr sample_hash) = Inr [sample_leg_0, sample_leg_1]"
proof -
  have levels: "pp_levels (gi_planningPolicy sample_grid_input) =
    [pp_levels sample_planning_policy ! 0, pp_levels sample_planning_policy ! 1]"
    by (simp add: sample_grid_input_def sample_planning_policy_def)
  have legs: "compile_legs ref_lib sample_grid_input (SDec 1 0) (SDec 1000000 0) (SDec 100 0) (SDec 400000 1)
    sample_hash [] 0 (pp_levels (gi_planningPolicy sample_grid_input)) = Inr [sample_leg_0, sample_leg_1]"
    unfolding levels compile_legs.simps by (simp only: sample_leg_0_compiles sample_leg_1_compiles rbind_def sum.case prod.case add_0)
  have bounds: "ic_minPrice (gi_constraints sample_grid_input) = Some (SDec 1 0)"
    "ic_maxPrice (gi_constraints sample_grid_input) = Some (SDec 1000000 0)"
    "ic_maxLimitQuantity (gi_constraints sample_grid_input) = Some (SDec 100 0)"
    by (simp_all add: sample_grid_input_def sample_grid_constraints_def sample_constraints_def)
  show ?thesis
    unfolding compile_daily_entry_grid_def Let_def bounds option.case prod.case
    apply (rule grid_run(2), simp)
    apply (rule grid_run(1) [where x = sample_hash], code_simp)
    apply (rule grid_run(2), code_simp)
    apply (rule grid_run(1) [where x = "SDec 400000 1"], code_simp)
    apply (rule grid_run(2), code_simp)
    unfolding legs
    by code_simp
qed

lemma sample_grid_constraints_wf: "wf_constraints sval sample_grid_constraints"
  using host_market_wf [OF ref_host sample_market_created]
  by (auto simp: wf_market_snapshot_def sample_market_def wf_constraints_def sample_grid_constraints_def
      sample_constraints_def)

theorem grid_legs_within_bounds_witness:
  "sval (oi_price (cl_intent sample_leg_0)) < sval (gi_ask sample_grid_input)"
  using grid_legs_within_bounds [OF ref_host _ sample_grid_compiles] sample_grid_constraints_wf
  by (simp add: sample_grid_input_def wf_leg_def Let_def) blast

theorem grid_respects_allocation_witness:
  "sval (oi_price (cl_intent sample_leg_1)) < sval (oi_price (cl_intent sample_leg_0))"
proof -
  have "wf_planning_policy sval sample_planning_policy"
    by (rule big_decimal.create_planning_policy_wf [OF host_decimal [OF ref_host] sample_planning_policy_created])
  then show ?thesis
    using grid_respects_allocation [OF ref_host _ _ sample_grid_compiles] sample_grid_constraints_wf
    by (simp add: sample_grid_input_def)
qed

end
