(* ===== verification/MarketSeries.thy ===== *)
theory MarketSeries
  imports TimeModel Host "HOL-Library.Multiset"
begin

text \<open>
  \<open>domain/market/market-series-normalization.ts\<close> and \<open>market-evidence-windows.ts\<close>: the time
  series that the market evidence carries. Observations are cut off, sorted, freed of repeats,
  and the newest of them are kept; the series is complete when they fill the window without a
  gap. The lemmas show that what is kept depends only on the instants, never on the order in
  which the observations arrived.
\<close>

subsection \<open>Intervals and windows\<close>

datatype series_interval = Interval_1h | Interval_4h | Interval_1d | Interval_1w

datatype open_interest_interval = OI_1h | OI_4h | OI_1d

fun market_ohlcv_windows :: "series_interval \<Rightarrow> int" where
  "market_ohlcv_windows Interval_1h = 250"
| "market_ohlcv_windows Interval_4h = 250"
| "market_ohlcv_windows Interval_1d = 250"
| "market_ohlcv_windows Interval_1w = 104"

definition MARKET_FUNDING_WINDOW :: int where
  "MARKET_FUNDING_WINDOW = 30"

fun market_open_interest_windows :: "open_interest_interval \<Rightarrow> int" where
  "market_open_interest_windows OI_1h = 168"
| "market_open_interest_windows OI_4h = 180"
| "market_open_interest_windows OI_1d = 90"

text \<open>The argument type is the union: the intervals of open interest are series intervals.\<close>

fun series_interval_of :: "open_interest_interval \<Rightarrow> series_interval" where
  "series_interval_of OI_1h = Interval_1h"
| "series_interval_of OI_4h = Interval_4h"
| "series_interval_of OI_1d = Interval_1d"

fun market_interval_milliseconds :: "series_interval \<Rightarrow> int" where
  "market_interval_milliseconds Interval_1h = 60 * 60 * 1000"
| "market_interval_milliseconds Interval_4h = 4 * 60 * 60 * 1000"
| "market_interval_milliseconds Interval_1d = 24 * 60 * 60 * 1000"
| "market_interval_milliseconds Interval_1w = 7 * 24 * 60 * 60 * 1000"

definition funding_interval_milliseconds :: "int \<Rightarrow> int" where
  "funding_interval_milliseconds minutes = minutes * 60 * 1000"

text \<open>Intervals are ordered by their length.\<close>

instantiation series_interval :: linorder
begin

definition less_eq_series_interval :: "series_interval \<Rightarrow> series_interval \<Rightarrow> bool" where
  "a \<le> b \<longleftrightarrow> market_interval_milliseconds a \<le> market_interval_milliseconds b"

definition less_series_interval :: "series_interval \<Rightarrow> series_interval \<Rightarrow> bool" where
  "a < b \<longleftrightarrow> market_interval_milliseconds a < market_interval_milliseconds b"

instance
proof
  fix a b :: series_interval
  show "a \<le> b \<Longrightarrow> b \<le> a \<Longrightarrow> a = b"
    by (cases a; cases b) (simp_all add: less_eq_series_interval_def)
qed (auto simp: less_eq_series_interval_def less_series_interval_def)

end

subsection \<open>Instants as numbers\<close>

text \<open>
  \<open>Date.parse\<close> of a \<open>UtcTimestamp\<close>. Only the constructors of \<open>TimeModel\<close> make values of that
  type, and \<open>Date.parse\<close> reads all of them; the value for other text is never used.
\<close>

definition epoch_ms :: "string \<Rightarrow> int" where
  "epoch_ms t = (case date_parse t of Some e \<Rightarrow> e | None \<Rightarrow> 0)"

lemma epoch_ms_instant [simp]: "instant t e \<Longrightarrow> epoch_ms t = e"
  using instant_epoch [of t e] by (simp add: epoch_ms_def timestamp_to_epoch_ms_def)

definition BYBIT_WEEK_START_MS :: int where
  "BYBIT_WEEK_START_MS = epoch_ms ''1970-01-05T00:00:00.000Z''"

definition interval_bucket :: "string \<Rightarrow> series_interval \<Rightarrow> int" where
  "interval_bucket value interval =
     (let timestamp = epoch_ms value; size = market_interval_milliseconds interval in
      if interval = Interval_1w then (timestamp - BYBIT_WEEK_START_MS) div size
      else timestamp div size)"

definition interval_boundary_crossed :: "string \<Rightarrow> string \<Rightarrow> series_interval \<Rightarrow> bool" where
  "interval_boundary_crossed first second interval \<longleftrightarrow>
     interval_bucket first interval \<noteq> interval_bucket second interval"

definition funding_boundary_crossed :: "string \<Rightarrow> string \<Rightarrow> int \<Rightarrow> bool" where
  "funding_boundary_crossed first second fundingIntervalMinutes =
     (if \<not> is_safe_integer fundingIntervalMinutes \<or> fundingIntervalMinutes < 1 then True
      else let size = funding_interval_milliseconds fundingIntervalMinutes in
        epoch_ms first div size \<noteq> epoch_ms second div size)"

subsection \<open>Observations\<close>

record 'd ohlcv_observation =
  oh_timestamp :: string
  oh_open :: 'd
  oh_high :: 'd
  oh_low :: 'd
  oh_close :: 'd
  oh_volume :: 'd
  oh_turnover :: 'd
  oh_closed :: bool

record 'd ohlcv_series =
  os_interval :: series_interval
  os_observations :: "'d ohlcv_observation list"

record 'd funding_observation =
  fo_timestamp :: string
  fo_rate :: 'd

record 'd open_interest_observation =
  oo_timestamp :: string
  oo_openInterest :: 'd

record 'd open_interest_series =
  is_interval :: open_interest_interval
  is_observations :: "'d open_interest_observation list"

datatype normalization_reason = Underfilled | Duplicate | Gap | Future | Unfinished

record 'a normalization_result =
  nr_value :: 'a
  nr_complete :: bool
  nr_reason :: "normalization_reason option"
  nr_latest :: "string option"

text \<open>Generic over the kind of observation: \<open>ts\<close> reads the timestamp of one.\<close>

definition has_expected_cadence :: "('a \<Rightarrow> string) \<Rightarrow> 'a list \<Rightarrow> int \<Rightarrow> bool" where
  "has_expected_cadence ts observations stepMs \<longleftrightarrow>
     list_all (\<lambda>index. index = 0 \<or>
       epoch_ms (ts (observations ! index)) - epoch_ms (ts (observations ! (index - 1))) = stepMs)
       [0..<length observations]"

definition unique_step :: "('a \<Rightarrow> string) \<Rightarrow> 'a list \<times> bool \<Rightarrow> 'a \<Rightarrow> 'a list \<times> bool" where
  "unique_step ts state observation =
     (let (values, duplicate) = state in
      if values \<noteq> [] \<and> epoch_ms (ts (last values)) = epoch_ms (ts observation) then (values, True)
      else (values @ [observation], duplicate))"

definition sorted_unique :: "('a \<Rightarrow> string) \<Rightarrow> 'a list \<Rightarrow> 'a list \<times> bool" where
  "sorted_unique ts observations =
     foldl (unique_step ts) ([], False) (sort_key (\<lambda>x. epoch_ms (ts x)) observations)"

text \<open>\<open>slice(-count)\<close>; \<open>slice(-0)\<close> is the whole list.\<close>

definition slice_from_end :: "int \<Rightarrow> 'a list \<Rightarrow> 'a list" where
  "slice_from_end kept xs = (if 0 < kept then drop (length xs - nat kept) xs else drop (nat (- kept)) xs)"

definition latest_timestamp :: "('a \<Rightarrow> string) \<Rightarrow> 'a list \<Rightarrow> string option" where
  "latest_timestamp ts selected = (if selected = [] then None else Some (ts (last selected)))"

subsection \<open>Normalization\<close>

definition finished :: "series_interval \<Rightarrow> int \<Rightarrow> 'd ohlcv_observation \<Rightarrow> bool" where
  "finished interval cutoffMs observation \<longleftrightarrow>
     (let start = epoch_ms (oh_timestamp observation) in
      start \<le> cutoffMs \<and> oh_closed observation \<and>
      start + market_interval_milliseconds interval \<le> cutoffMs)"

definition normalize_ohlcv_series ::
  "series_interval \<Rightarrow> 'd ohlcv_observation list \<Rightarrow> string \<Rightarrow> int \<Rightarrow> 'd ohlcv_series normalization_result" where
  "normalize_ohlcv_series interval observations cutoff requestedCount =
     (let cutoffMs = epoch_ms cutoff;
          filtered = filter (finished interval cutoffMs) observations;
          (values, duplicate) = sorted_unique oh_timestamp filtered;
          selected = slice_from_end requestedCount values;
          cadence = has_expected_cadence oh_timestamp selected (market_interval_milliseconds interval);
          reason =
            (if duplicate then Some Duplicate
             else if int (length selected) = requestedCount \<and> \<not> cadence then Some Gap
             else if int (length selected) < requestedCount then
               (if (\<exists>item \<in> set filtered. \<not> oh_closed item) \<or>
                   (\<exists>item \<in> set observations. \<not> oh_closed item \<and> epoch_ms (oh_timestamp item) \<le> cutoffMs) \<or>
                   (\<exists>item \<in> set observations. epoch_ms (oh_timestamp item) > cutoffMs)
                then Some Unfinished else Some Underfilled)
             else None)
      in \<lparr>nr_value = \<lparr>os_interval = interval, os_observations = selected\<rparr>,
          nr_complete = (\<not> duplicate \<and> int (length selected) = requestedCount \<and> cadence),
          nr_reason = reason, nr_latest = latest_timestamp oh_timestamp selected\<rparr>)"

text \<open>The funding interval is an optional argument; without one the cadence is not checked.\<close>

definition normalize_funding_observations ::
  "'d funding_observation list \<Rightarrow> string \<Rightarrow> int \<Rightarrow> int option \<Rightarrow> 'd funding_observation list normalization_result" where
  "normalize_funding_observations observations cutoff requestedCount fundingIntervalMinutes =
     (let cutoffMs = epoch_ms cutoff;
          filtered = filter (\<lambda>observation. epoch_ms (fo_timestamp observation) \<le> cutoffMs) observations;
          (values, duplicate) = sorted_unique fo_timestamp filtered;
          selected = slice_from_end requestedCount values;
          cadence = (case fundingIntervalMinutes of None \<Rightarrow> True
            | Some minutes \<Rightarrow> has_expected_cadence fo_timestamp selected (funding_interval_milliseconds minutes));
          reason =
            (if duplicate then Some Duplicate
             else if int (length selected) = requestedCount \<and> fundingIntervalMinutes \<noteq> None \<and> \<not> cadence
             then Some Gap
             else if int (length selected) < requestedCount then Some Underfilled else None)
      in \<lparr>nr_value = selected,
          nr_complete = (\<not> duplicate \<and> int (length selected) = requestedCount \<and> cadence),
          nr_reason = reason, nr_latest = latest_timestamp fo_timestamp selected\<rparr>)"

definition normalize_open_interest_series ::
  "open_interest_interval \<Rightarrow> 'd open_interest_observation list \<Rightarrow> string \<Rightarrow> int
     \<Rightarrow> 'd open_interest_series normalization_result" where
  "normalize_open_interest_series interval observations cutoff requestedCount =
     (let cutoffMs = epoch_ms cutoff;
          filtered = filter (\<lambda>observation. epoch_ms (oo_timestamp observation) \<le> cutoffMs) observations;
          (values, duplicate) = sorted_unique oo_timestamp filtered;
          selected = slice_from_end requestedCount values;
          cadence = has_expected_cadence oo_timestamp selected
            (market_interval_milliseconds (series_interval_of interval));
          reason =
            (if duplicate then Some Duplicate
             else if int (length selected) = requestedCount \<and> \<not> cadence then Some Gap
             else if int (length selected) < requestedCount then Some Underfilled else None)
      in \<lparr>nr_value = \<lparr>is_interval = interval, is_observations = selected\<rparr>,
          nr_complete = (\<not> duplicate \<and> int (length selected) = requestedCount \<and> cadence),
          nr_reason = reason, nr_latest = latest_timestamp oo_timestamp selected\<rparr>)"

subsection \<open>What sorting and dropping repeats does\<close>

text \<open>The facts about one run of the loop that all three normalizations rest on.\<close>

definition strictly_ascending :: "('a \<Rightarrow> string) \<Rightarrow> 'a list \<Rightarrow> bool" where
  "strictly_ascending ts xs \<longleftrightarrow> sorted_wrt (<) (map (\<lambda>x. epoch_ms (ts x)) xs)"

lemma sorted_last: "sorted (map k xs) \<Longrightarrow> x \<in> set xs \<Longrightarrow> k x \<le> k (last xs)"
  by (induction xs rule: rev_induct) (auto simp: sorted_append)

lemma mset_distinct: "mset xs = mset ys \<Longrightarrow> distinct xs \<longleftrightarrow> distinct ys"
  by (metis distinct_count_atmost_1 set_mset_mset)

lemma unique_steps:
  assumes "sorted (map (\<lambda>x. epoch_ms (ts x)) ys)" "foldl (unique_step ts) ([], False) ys = (vals, duplicate)"
  shows "strictly_ascending ts vals \<and> (\<lambda>x. epoch_ms (ts x)) ` set vals = (\<lambda>x. epoch_ms (ts x)) ` set ys \<and>
    set vals \<subseteq> set ys \<and> (ys \<noteq> [] \<longrightarrow> vals \<noteq> [] \<and> epoch_ms (ts (last vals)) = epoch_ms (ts (last ys))) \<and>
    (duplicate \<longleftrightarrow> \<not> distinct (map (\<lambda>x. epoch_ms (ts x)) ys)) \<and> (\<not> duplicate \<longrightarrow> vals = ys)"
  using assms
proof (induction ys arbitrary: vals duplicate rule: rev_induct)
  case Nil
  then show ?case by (simp add: strictly_ascending_def)
next
  case (snoc y ys)
  let ?k = "\<lambda>x. epoch_ms (ts x)"
  obtain vs d where run: "foldl (unique_step ts) ([], False) ys = (vs, d)" by fastforce
  have sorted: "sorted (map ?k ys)" "\<forall>x \<in> set ys. ?k x \<le> ?k y"
    using snoc.prems(1) by (auto simp: sorted_append)
  note IH = snoc.IH [OF sorted(1) run]
  have step: "unique_step ts (vs, d) y = (vals, duplicate)" using snoc.prems(2) run by simp
  show ?case
  proof (cases "vs \<noteq> [] \<and> ?k (last vs) = ?k y")
    case True
    then have eq: "vals = vs" "duplicate" using step by (auto simp: unique_step_def)
    have "?k y \<in> ?k ` set ys" using True IH by (metis image_eqI last_in_set)
    then show ?thesis using IH True eq by (auto simp: image_iff)
  next
    case False
    then have eq: "vals = vs @ [y]" "duplicate = d" using step by (auto simp: unique_step_def)
    have less: "?k x < ?k y" if "x \<in> set ys" for x
    proof -
      have "?k (last ys) < ?k y"
        using False IH sorted(2) that by (metis empty_iff last_in_set le_neq_trans list.set(1))
      moreover have "?k x \<le> ?k (last ys)" using sorted_last [OF sorted(1) that] .
      ultimately show ?thesis by simp
    qed
    have "strictly_ascending ts vals"
      using IH less eq by (auto simp: strictly_ascending_def sorted_wrt_append)
    moreover have "?k y \<notin> ?k ` set ys" using less by force
    ultimately show ?thesis using IH eq by (auto simp: inj_on_def)
  qed
qed

lemma sorted_unique_props:
  assumes "sorted_unique ts xs = (vals, duplicate)"
  shows "strictly_ascending ts vals" "(\<lambda>x. epoch_ms (ts x)) ` set vals = (\<lambda>x. epoch_ms (ts x)) ` set xs"
    "set vals \<subseteq> set xs" "duplicate \<longleftrightarrow> \<not> distinct (map (\<lambda>x. epoch_ms (ts x)) xs)"
    "\<not> duplicate \<Longrightarrow> vals = sort_key (\<lambda>x. epoch_ms (ts x)) xs"
proof -
  let ?k = "\<lambda>x. epoch_ms (ts x)"
  have "distinct (map ?k (sort_key ?k xs)) \<longleftrightarrow> distinct (map ?k xs)"
    by (rule mset_distinct) (simp add: mset_map)
  then show "strictly_ascending ts vals" "?k ` set vals = ?k ` set xs" "set vals \<subseteq> set xs"
    "duplicate \<longleftrightarrow> \<not> distinct (map ?k xs)" "\<not> duplicate \<Longrightarrow> vals = sort_key ?k xs"
    using unique_steps [of ts "sort_key ?k xs" vals duplicate] assms by (auto simp: sorted_unique_def)
qed

lemma ascending_keys:
  "strictly_ascending ts xs \<Longrightarrow> map (\<lambda>x. epoch_ms (ts x)) xs = sorted_list_of_set ((\<lambda>x. epoch_ms (ts x)) ` set xs)"
  by (simp add: strictly_ascending_def strict_sorted_equal [symmetric] flip: set_map)

subsection \<open>The newest window\<close>

text \<open>
  What is returned: of every instant only the observation that arrived first, and of these the
  newest \<open>n\<close>, oldest first. This determines the list.
\<close>

definition newest_kept :: "('a \<Rightarrow> string) \<Rightarrow> 'a list \<Rightarrow> int \<Rightarrow> 'a list \<Rightarrow> bool" where
  "newest_kept ts xs n sel \<longleftrightarrow>
     strictly_ascending ts sel \<and>
     (\<forall>y \<in> set sel. find (\<lambda>x. epoch_ms (ts x) = epoch_ms (ts y)) xs = Some y) \<and>
     int (length sel) = min n (int (card ((\<lambda>x. epoch_ms (ts x)) ` set xs))) \<and>
     (\<forall>x \<in> set xs. \<forall>y \<in> set sel. epoch_ms (ts y) \<le> epoch_ms (ts x) \<longrightarrow>
        epoch_ms (ts x) \<in> (\<lambda>z. epoch_ms (ts z)) ` set sel)"

text \<open>
  When that is complete: no instant was repeated, the window is full, and its instants follow one
  another at \<open>step\<close> milliseconds up to the last (when a step is known).
\<close>

definition unbroken :: "('a \<Rightarrow> string) \<Rightarrow> 'a list \<Rightarrow> int \<Rightarrow> int option \<Rightarrow> 'a list \<Rightarrow> bool" where
  "unbroken ts xs n step sel \<longleftrightarrow>
     distinct (map (\<lambda>x. epoch_ms (ts x)) xs) \<and> int (length sel) = n \<and>
     (case step of None \<Rightarrow> True | Some ms \<Rightarrow>
       (\<forall>i < length sel. epoch_ms (ts (sel ! i)) = epoch_ms (ts (last sel)) - int (length sel - 1 - i) * ms))"

lemma cadence_iff:
  "has_expected_cadence ts xs step \<longleftrightarrow>
     (\<forall>i < length xs. epoch_ms (ts (xs ! i)) = epoch_ms (ts (last xs)) - int (length xs - 1 - i) * step)"
proof -
  let ?k = "\<lambda>i. epoch_ms (ts (xs ! i))"
  have last: "epoch_ms (ts (last xs)) = ?k (length xs - 1)" if "xs \<noteq> []"
    using that by (simp add: last_conv_nth)
  have forward: "?k i = ?k 0 + int i * step" if "has_expected_cadence ts xs step" "i < length xs" for i
    using that(2)
  proof (induction i)
    case (Suc i)
    then have "?k (Suc i) - ?k i = step"
      using that(1) by (force simp: has_expected_cadence_def list_all_iff dest: bspec [of _ _ "Suc i"])
    with Suc show ?case by (simp add: algebra_simps)
  qed simp
  have "?k i = epoch_ms (ts (last xs)) - int (length xs - 1 - i) * step"
    if "has_expected_cadence ts xs step" "i < length xs" for i
  proof -
    from that(2) have "length xs - 1 < length xs" "xs \<noteq> []"
      "int (length xs - 1) = int (length xs - 1 - i) + int i" by auto
    with forward [OF that] forward [OF that(1), of "length xs - 1"] last show ?thesis
      using that(2) by (simp only: distrib_right) (simp add: of_nat_diff)
  qed
  moreover have "has_expected_cadence ts xs step"
    if "\<forall>i < length xs. ?k i = epoch_ms (ts (last xs)) - int (length xs - 1 - i) * step"
  proof -
    have "?k i - ?k (i - 1) = step" if "i < length xs" "i \<noteq> 0" for i
    proof -
      have "int (length xs - 1 - (i - 1)) = int (length xs - 1 - i) + 1" using that by auto
      then show ?thesis
        using that \<open>\<forall>i < length xs. _ i\<close> [rule_format, of i] \<open>\<forall>i < length xs. _ i\<close> [rule_format, of "i - 1"]
        by (simp only: distrib_right)
    qed
    then show ?thesis unfolding has_expected_cadence_def list_all_iff by (metis atLeastLessThan_iff set_upt)
  qed
  ultimately show ?thesis by blast
qed

lemma slice_suffix:
  assumes "0 < n" "strictly_ascending ts xs" "slice_from_end n xs = sel"
  obtains front where "xs = front @ sel" "\<And>x y. x \<in> set front \<Longrightarrow> y \<in> set sel \<Longrightarrow> epoch_ms (ts x) < epoch_ms (ts y)"
    "int (length sel) = min n (int (length xs))"
proof (rule that [of "take (length xs - nat n) xs"])
  show xs: "xs = take (length xs - nat n) xs @ sel"
    using assms(1) append_take_drop_id [of "length xs - nat n" xs] by (simp add: slice_from_end_def flip: assms(3))
  show "epoch_ms (ts x) < epoch_ms (ts y)" if "x \<in> set (take (length xs - nat n) xs)" "y \<in> set sel" for x y
    using assms(2) that unfolding strictly_ascending_def
    by (subst (asm) xs) (auto simp: sorted_wrt_append)
  show "int (length sel) = min n (int (length xs))" using assms(1,3) by (auto simp: slice_from_end_def)
qed

lemma ascending_unique:
  assumes "strictly_ascending ts xs" "strictly_ascending ts ys" "set xs = set ys"
  shows "xs = ys"
proof (rule map_inj_on)
  let ?k = "\<lambda>x. epoch_ms (ts x)"
  show "map ?k xs = map ?k ys" using ascending_keys [OF assms(1)] ascending_keys [OF assms(2)] assms(3) by simp
  have "distinct (map ?k xs)" using assms(1) by (simp add: strictly_ascending_def strict_sorted_iff)
  then show "inj_on ?k (set xs \<union> set ys)" using assms(3) by (simp add: distinct_map)
qed

lemma find_filter: "find P xs = (if filter P xs = [] then None else Some (hd (filter P xs)))"
  by (induction xs) auto

lemma unique_steps_first:
  assumes "sorted (map (\<lambda>x. epoch_ms (ts x)) ys)" "foldl (unique_step ts) ([], False) ys = (vals, duplicate)" "x \<in> set vals"
  shows "find (\<lambda>y. epoch_ms (ts y) = epoch_ms (ts x)) ys = Some x"
  using assms
proof (induction ys arbitrary: vals duplicate x rule: rev_induct)
  case (snoc y ys)
  let ?k = "\<lambda>x. epoch_ms (ts x)"
  obtain vs d where run: "foldl (unique_step ts) ([], False) ys = (vs, d)" by fastforce
  have sorted: "sorted (map ?k ys)" using snoc.prems(1) by (simp add: sorted_append)
  have old: "find (\<lambda>z. ?k z = ?k w) (ys @ [y]) = Some w" if "w \<in> set vs" for w
    using snoc.IH [OF sorted run that] by (auto simp: find_filter split: if_splits)
  have step: "unique_step ts (vs, d) y = (vals, duplicate)" using snoc.prems(2) run by simp
  consider "x \<in> set vs" | "x = y" "vals = vs @ [y]"
    using step snoc.prems(3) by (auto simp: unique_step_def split: if_splits)
  then show ?case
  proof cases
    case 2
    have "strictly_ascending ts vals" "?k ` set vs = ?k ` set ys"
      using unique_steps [OF snoc.prems(1,2)] unique_steps [OF sorted run] by simp_all
    then have "?k y \<notin> ?k ` set ys" using 2(2) by (auto simp: strictly_ascending_def sorted_wrt_append)
    then have "filter (\<lambda>z. ?k z = ?k y) ys = []" unfolding filter_empty_conv image_iff by metis
    then show ?thesis using 2 by (simp add: find_filter)
  qed (rule old)
qed simp

lemma sorted_unique_first:
  assumes "sorted_unique ts xs = (vals, duplicate)" "x \<in> set vals"
  shows "find (\<lambda>y. epoch_ms (ts y) = epoch_ms (ts x)) xs = Some x"
  using unique_steps_first [of ts "sort_key (\<lambda>x. epoch_ms (ts x)) xs" vals duplicate x] assms
  by (auto simp: sorted_unique_def find_filter sort_key_stable split: if_splits)

lemma interval_positive [simp]: "0 < market_interval_milliseconds interval"
  by (cases interval) simp_all

text \<open>The three normalizations as one: \<open>window_run\<close> is what each computes from its filtered input.\<close>

definition window_run :: "('a \<Rightarrow> string) \<Rightarrow> 'a list \<Rightarrow> int \<Rightarrow> 'a list \<times> bool" where
  "window_run ts filtered requestedCount =
     (let (vals, duplicate) = sorted_unique ts filtered in (slice_from_end requestedCount vals, duplicate))"

lemma window_run_kept:
  assumes "0 < n" "window_run ts xs n = (sel, duplicate)"
  shows "newest_kept ts xs n sel"
proof -
  let ?k = "\<lambda>x. epoch_ms (ts x)"
  obtain vals where u: "sorted_unique ts xs = (vals, duplicate)" and slice: "slice_from_end n vals = sel"
    using assms(2) by (auto simp: window_run_def split: prod.splits)
  note p = sorted_unique_props [OF u]
  obtain front where front: "vals = front @ sel" "\<And>x y. x \<in> set front \<Longrightarrow> y \<in> set sel \<Longrightarrow> ?k x < ?k y"
    "int (length sel) = min n (int (length vals))"
    using slice_suffix [OF assms(1) p(1) slice] by metis
  have "distinct (map ?k vals)" using p(1) by (simp add: strictly_ascending_def strict_sorted_iff)
  then have count: "length vals = card (?k ` set xs)" using distinct_card [of "map ?k vals"] p(2) by simp
  have newest: "?k x \<in> ?k ` set sel" if "x \<in> set xs" "y \<in> set sel" "?k y \<le> ?k x" for x y
  proof -
    have "?k x \<in> ?k ` set vals" using that(1) by (simp add: p(2))
    then obtain z where z: "?k x = ?k z" "z \<in> set vals" by (rule imageE)
    then have "z \<notin> set front" using front(2) [of z y] that by auto
    then have "z \<in> set sel" using z(2) front(1) by simp
    then show ?thesis using z(1) by simp
  qed
  have ascending: "strictly_ascending ts sel" using p(1) front(1) by (simp add: strictly_ascending_def sorted_wrt_append)
  have first: "\<forall>y \<in> set sel. find (\<lambda>x. ?k x = ?k y) xs = Some y"
    using sorted_unique_first [OF u] front(1) by simp
  show ?thesis unfolding newest_kept_def
    by (intro conjI ballI impI ascending first) (simp add: front(3) count, rule newest)
qed

lemma window_run_length:
  assumes "0 < n" "window_run ts xs n = (sel, duplicate)"
  shows "int (length sel) \<le> n" "duplicate \<longleftrightarrow> \<not> distinct (map (\<lambda>x. epoch_ms (ts x)) xs)"
  using assms sorted_unique_props(4) [of ts xs]
  by (auto simp: window_run_def slice_from_end_def split: prod.splits)

lemma normalize_ohlcv_eq:
  assumes "window_run oh_timestamp (filter (finished interval (epoch_ms cutoff)) obs) n = (sel, duplicate)"
  shows "normalize_ohlcv_series interval obs cutoff n =
    \<lparr>nr_value = \<lparr>os_interval = interval, os_observations = sel\<rparr>,
     nr_complete = (\<not> duplicate \<and> int (length sel) = n \<and>
       has_expected_cadence oh_timestamp sel (market_interval_milliseconds interval)),
     nr_reason =
       (if duplicate then Some Duplicate
        else if int (length sel) = n \<and>
          \<not> has_expected_cadence oh_timestamp sel (market_interval_milliseconds interval) then Some Gap
        else if int (length sel) < n then
          (if (\<exists>item \<in> set (filter (finished interval (epoch_ms cutoff)) obs). \<not> oh_closed item) \<or>
              (\<exists>item \<in> set obs. \<not> oh_closed item \<and> epoch_ms (oh_timestamp item) \<le> epoch_ms cutoff) \<or>
              (\<exists>item \<in> set obs. epoch_ms (oh_timestamp item) > epoch_ms cutoff)
           then Some Unfinished else Some Underfilled)
        else None),
     nr_latest = latest_timestamp oh_timestamp sel\<rparr>"
  unfolding normalize_ohlcv_series_def
  using assms by (simp only: window_run_def Let_def split: prod.splits) simp

lemma normalize_open_interest_eq:
  assumes "window_run oo_timestamp (filter (\<lambda>x. epoch_ms (oo_timestamp x) \<le> epoch_ms cutoff) obs) n = (sel, duplicate)"
  shows "normalize_open_interest_series interval obs cutoff n =
    \<lparr>nr_value = \<lparr>is_interval = interval, is_observations = sel\<rparr>,
     nr_complete = (\<not> duplicate \<and> int (length sel) = n \<and>
       has_expected_cadence oo_timestamp sel (market_interval_milliseconds (series_interval_of interval))),
     nr_reason =
       (if duplicate then Some Duplicate
        else if int (length sel) = n \<and>
          \<not> has_expected_cadence oo_timestamp sel (market_interval_milliseconds (series_interval_of interval))
        then Some Gap else if int (length sel) < n then Some Underfilled else None),
     nr_latest = latest_timestamp oo_timestamp sel\<rparr>"
  unfolding normalize_open_interest_series_def
  using assms by (simp only: window_run_def Let_def split: prod.splits) simp

definition funding_cadence :: "int option \<Rightarrow> 'd funding_observation list \<Rightarrow> bool" where
  "funding_cadence minutes sel \<longleftrightarrow> (case minutes of None \<Rightarrow> True
     | Some m \<Rightarrow> has_expected_cadence fo_timestamp sel (funding_interval_milliseconds m))"

lemma funding_cadence_simps [simp]: "funding_cadence None sel"
  "funding_cadence (Some m) sel = has_expected_cadence fo_timestamp sel (funding_interval_milliseconds m)"
  by (simp_all add: funding_cadence_def)

lemma normalize_funding_eq:
  assumes "window_run fo_timestamp (filter (\<lambda>x. epoch_ms (fo_timestamp x) \<le> epoch_ms cutoff) obs) n = (sel, duplicate)"
  shows "normalize_funding_observations obs cutoff n minutes =
    \<lparr>nr_value = sel,
     nr_complete = (\<not> duplicate \<and> int (length sel) = n \<and> funding_cadence minutes sel),
     nr_reason =
       (if duplicate then Some Duplicate
        else if int (length sel) = n \<and> \<not> funding_cadence minutes sel then Some Gap
        else if int (length sel) < n then Some Underfilled else None),
     nr_latest = latest_timestamp fo_timestamp sel\<rparr>"
  unfolding normalize_funding_observations_def
  using assms by (cases minutes) (simp_all only: window_run_def Let_def option.case split: prod.splits, simp_all)

lemmas normalize_eqs = normalize_ohlcv_eq normalize_open_interest_eq normalize_funding_eq

text \<open>
  Claim C8: every normalized series, complete or not, consists of the newest \<open>n\<close> instants of the
  usable observations (all of them when there are fewer), each once, oldest first, and of several
  observations of an instant of the one that arrived first. Usable are the candles that are
  closed and ended by the cutoff, and the open interest and funding observations that are not
  after it. The series is reported complete exactly when no two usable observations share an
  instant, \<open>n\<close> of them are returned, and these follow one another at exactly the interval (of
  funding only when an interval is given); the reason is missing exactly then. The latest
  timestamp is that of the last observation. The number asked for is positive, as in every window
  of \<open>market-evidence-windows.ts\<close>.
\<close>

theorem complete_series_is_newest_window:
  fixes obs :: "'d ohlcv_observation list" and ois :: "'d open_interest_observation list"
    and rates :: "'d funding_observation list" and cutoff :: string and interval :: series_interval
    and oi :: open_interest_interval and minutes :: "int option"
  assumes "0 < n"
  defines "candles \<equiv> filter (\<lambda>x. oh_closed x \<and>
        epoch_ms (oh_timestamp x) + market_interval_milliseconds interval \<le> epoch_ms cutoff) obs"
    and "interests \<equiv> filter (\<lambda>x. epoch_ms (oo_timestamp x) \<le> epoch_ms cutoff) ois"
    and "funding \<equiv> filter (\<lambda>x. epoch_ms (fo_timestamp x) \<le> epoch_ms cutoff) rates"
    and "R \<equiv> normalize_ohlcv_series interval obs cutoff n"
    and "I \<equiv> normalize_open_interest_series oi ois cutoff n"
    and "F \<equiv> normalize_funding_observations rates cutoff n minutes"
  shows "newest_kept oh_timestamp candles n (os_observations (nr_value R)) \<and>
    (nr_complete R \<longleftrightarrow>
      unbroken oh_timestamp candles n (Some (market_interval_milliseconds interval)) (os_observations (nr_value R))) \<and>
    (nr_reason R = None \<longleftrightarrow> nr_complete R) \<and>
    nr_latest R = latest_timestamp oh_timestamp (os_observations (nr_value R)) \<and>
    newest_kept oo_timestamp interests n (is_observations (nr_value I)) \<and>
    (nr_complete I \<longleftrightarrow>
      unbroken oo_timestamp interests n (Some (market_interval_milliseconds (series_interval_of oi)))
        (is_observations (nr_value I))) \<and>
    (nr_reason I = None \<longleftrightarrow> nr_complete I) \<and>
    nr_latest I = latest_timestamp oo_timestamp (is_observations (nr_value I)) \<and>
    newest_kept fo_timestamp funding n (nr_value F) \<and>
    (nr_complete F \<longleftrightarrow>
      unbroken fo_timestamp funding n (map_option funding_interval_milliseconds minutes) (nr_value F)) \<and>
    (nr_reason F = None \<longleftrightarrow> nr_complete F) \<and>
    nr_latest F = latest_timestamp fo_timestamp (nr_value F)"
proof -
  have usable: "candles = filter (finished interval (epoch_ms cutoff)) obs"
    unfolding candles_def using interval_positive [of interval]
    by (intro filter_cong) (auto simp: finished_def Let_def simp del: interval_positive)
  obtain c cd where c: "window_run oh_timestamp candles n = (c, cd)" by fastforce
  obtain i ic where i: "window_run oo_timestamp interests n = (i, ic)" by fastforce
  obtain f fd where f: "window_run fo_timestamp funding n = (f, fd)" by fastforce
  note R = normalize_ohlcv_eq [OF c [unfolded usable], folded R_def usable]
  note I = normalize_open_interest_eq [OF i [unfolded interests_def], of oi, folded I_def]
  note F = normalize_funding_eq [OF f [unfolded funding_def], of minutes, folded F_def]
  note flag = window_run_length [OF assms(1) c] window_run_length [OF assms(1) i] window_run_length [OF assms(1) f]
  have "newest_kept oh_timestamp candles n c" "newest_kept oo_timestamp interests n i" "newest_kept fo_timestamp funding n f"
    using window_run_kept [OF assms(1)] c i f by blast+
  moreover have "nr_complete R \<longleftrightarrow> unbroken oh_timestamp candles n (Some (market_interval_milliseconds interval)) c"
    "nr_complete I \<longleftrightarrow> unbroken oo_timestamp interests n (Some (market_interval_milliseconds (series_interval_of oi))) i"
    "nr_complete F \<longleftrightarrow> unbroken fo_timestamp funding n (map_option funding_interval_milliseconds minutes) f"
    using flag by (simp_all add: R I F unbroken_def cadence_iff funding_cadence_def split: option.split)
  moreover have "nr_reason R = None \<longleftrightarrow> nr_complete R" "nr_reason I = None \<longleftrightarrow> nr_complete I"
    "nr_reason F = None \<longleftrightarrow> nr_complete F"
    using flag by (simp_all add: R I F)
  ultimately show ?thesis by (simp add: R I F)
qed

definition sample_candle :: "string \<Rightarrow> sdec ohlcv_observation" where
  "sample_candle t = \<lparr>oh_timestamp = t, oh_open = SDec 100 0, oh_high = SDec 120 0, oh_low = SDec 90 0,
     oh_close = SDec 110 0, oh_volume = SDec 1 0, oh_turnover = SDec 110 0, oh_closed = True\<rparr>"

definition sample_candles :: "sdec ohlcv_observation list" where
  "sample_candles = map sample_candle
     [''2024-01-01T02:00:00.000Z'', ''2024-01-01T00:00:00.000Z'', ''2024-01-01T01:00:00.000Z'']"

theorem complete_series_is_newest_window_witness:
  "newest_kept oh_timestamp
     (filter (\<lambda>x. oh_closed x \<and> epoch_ms (oh_timestamp x) + 3600000 \<le> epoch_ms ''2024-01-01T03:00:00.000Z'') sample_candles) 2
     (os_observations (nr_value (normalize_ohlcv_series Interval_1h sample_candles ''2024-01-01T03:00:00.000Z'' 2)))"
  using complete_series_is_newest_window [where n = 2 and minutes = None and cutoff = "''2024-01-01T03:00:00.000Z''"
      and interval = Interval_1h and obs = sample_candles and ois = "[]" and rates = "[]" and oi = OI_1h]
  by (simp only: market_interval_milliseconds.simps) simp

text \<open>
  The reason of a result is present exactly when the series is not complete, and says
  why: a repeated instant, else a full window with a gap, else too few observations (unfinished,
  for candles, when an open or a future one was seen). The reason \<open>future\<close> is never given, and
  no window is longer than asked for.
\<close>

theorem series_reason_classifies:
  fixes obs :: "'d ohlcv_observation list" and ois :: "'d open_interest_observation list"
    and rates :: "'d funding_observation list" and cutoff :: string and interval :: series_interval
    and oi :: open_interest_interval and minutes :: "int option"
  assumes "0 < n"
  defines "candles \<equiv> filter (finished interval (epoch_ms cutoff)) obs"
    and "R \<equiv> normalize_ohlcv_series interval obs cutoff n"
    and "I \<equiv> normalize_open_interest_series oi ois cutoff n"
    and "F \<equiv> normalize_funding_observations rates cutoff n minutes"
  shows "(nr_reason R = None \<longleftrightarrow> nr_complete R) \<and> (nr_reason I = None \<longleftrightarrow> nr_complete I) \<and>
    (nr_reason F = None \<longleftrightarrow> nr_complete F) \<and>
    nr_reason R \<noteq> Some Future \<and> nr_reason I \<notin> {Some Future, Some Unfinished} \<and>
    nr_reason F \<notin> {Some Future, Some Unfinished} \<and>
    (nr_reason R = Some Duplicate \<longleftrightarrow> \<not> distinct (map (\<lambda>x. epoch_ms (oh_timestamp x)) candles)) \<and>
    (nr_reason R = Some Gap \<longrightarrow> int (length (os_observations (nr_value R))) = n) \<and>
    (nr_reason R \<in> {Some Underfilled, Some Unfinished} \<longrightarrow> int (length (os_observations (nr_value R))) < n) \<and>
    (nr_reason R = Some Unfinished \<longrightarrow>
      (\<exists>x \<in> set obs. \<not> oh_closed x \<or> epoch_ms cutoff < epoch_ms (oh_timestamp x))) \<and>
    int (length (os_observations (nr_value R))) \<le> n \<and> int (length (is_observations (nr_value I))) \<le> n \<and>
    int (length (nr_value F)) \<le> n"
proof -
  obtain c cd where c: "window_run oh_timestamp candles n = (c, cd)" by fastforce
  obtain i ic where i: "window_run oo_timestamp (filter (\<lambda>x. epoch_ms (oo_timestamp x) \<le> epoch_ms cutoff) ois) n = (i, ic)"
    by fastforce
  obtain f fd where f: "window_run fo_timestamp (filter (\<lambda>x. epoch_ms (fo_timestamp x) \<le> epoch_ms cutoff) rates) n = (f, fd)"
    by fastforce
  note lengths = window_run_length [OF assms(1) c] window_run_length [OF assms(1) i] window_run_length [OF assms(1) f]
  note R = normalize_ohlcv_eq [OF c [unfolded candles_def], folded R_def candles_def]
  note I = normalize_open_interest_eq [OF i, of oi, folded I_def]
  note F = normalize_funding_eq [OF f, of minutes, folded F_def]
  have "nr_reason R = None \<longleftrightarrow> nr_complete R" using lengths(1) by (simp add: R)
  moreover have "nr_reason I = None \<longleftrightarrow> nr_complete I" using lengths(3) by (simp add: I)
  moreover have "nr_reason F = None \<longleftrightarrow> nr_complete F" using lengths(5) by (simp add: F)
  moreover have "nr_reason R \<noteq> Some Future" "nr_reason R = Some Duplicate \<longleftrightarrow> cd"
    "nr_reason R = Some Gap \<longrightarrow> int (length c) = n"
    "nr_reason R \<in> {Some Underfilled, Some Unfinished} \<longrightarrow> int (length c) < n"
    "nr_reason R = Some Unfinished \<longrightarrow>
      (\<exists>x \<in> set obs. \<not> oh_closed x \<or> epoch_ms cutoff < epoch_ms (oh_timestamp x))"
    by (auto simp: R candles_def)
  moreover have "nr_reason I \<notin> {Some Future, Some Unfinished}" "nr_reason F \<notin> {Some Future, Some Unfinished}"
    by (auto simp: I F)
  moreover have "os_observations (nr_value R) = c" "is_observations (nr_value I) = i" "nr_value F = f"
    by (simp_all add: R I F)
  ultimately show ?thesis using lengths by blast
qed

theorem series_reason_classifies_witness:
  "nr_reason (normalize_ohlcv_series Interval_1h sample_candles ''2024-01-01T02:30:00.000Z'' 3) = Some Underfilled \<and>
   \<not> nr_complete (normalize_ohlcv_series Interval_1h sample_candles ''2024-01-01T02:30:00.000Z'' 3)"
proof -
  have "nr_reason (normalize_ohlcv_series Interval_1h sample_candles ''2024-01-01T02:30:00.000Z'' 3) = Some Underfilled"
    by code_simp
  with series_reason_classifies [where n = 3 and minutes = None and cutoff = "''2024-01-01T02:30:00.000Z''"
      and interval = Interval_1h and obs = sample_candles and ois = "[]" and rates = "[]" and oi = OI_1h]
  show ?thesis by simp
qed

lemma slice_map: "map f (slice_from_end n xs) = slice_from_end n (map f xs)"
  by (simp add: slice_from_end_def drop_map)

lemma window_run_perm:
  assumes "mset xs = mset ys" "window_run ts xs n = (c, cd)" "window_run ts ys n = (e, ed)"
  shows "cd = ed" "map (\<lambda>x. epoch_ms (ts x)) c = map (\<lambda>x. epoch_ms (ts x)) e" "\<not> cd \<Longrightarrow> c = e"
proof -
  let ?k = "\<lambda>x. epoch_ms (ts x)"
  obtain a b where u: "sorted_unique ts xs = (a, cd)" "sorted_unique ts ys = (b, ed)"
    and sel: "c = slice_from_end n a" "e = slice_from_end n b"
    using assms(2,3) by (auto simp: window_run_def split: prod.splits)
  note p = sorted_unique_props [OF u(1)] and q = sorted_unique_props [OF u(2)]
  have set: "set xs = set ys" using assms(1) by (rule mset_eq_setD)
  show flag: "cd = ed"
    using p(4) q(4) mset_distinct [of "map ?k xs" "map ?k ys"] assms(1) by simp
  have "map ?k a = map ?k b" using ascending_keys [OF p(1)] ascending_keys [OF q(1)] p(2) q(2) set by simp
  then show "map ?k c = map ?k e" by (simp add: sel slice_map)
  show "c = e" if "\<not> cd"
  proof -
    have "set a = set b" using p(5) q(5) that flag set by simp
    then have "a = b" using ascending_unique [OF p(1) q(1)] by simp
    then show ?thesis by (simp add: sel)
  qed
qed

lemma cadence_keys:
  assumes "map (\<lambda>x. epoch_ms (ts x)) xs = map (\<lambda>x. epoch_ms (ts x)) ys"
  shows "has_expected_cadence ts xs step = has_expected_cadence ts ys step"
proof -
  have len: "length xs = length ys" using assms by (rule map_eq_imp_length_eq)
  have "epoch_ms (ts (xs ! i)) = epoch_ms (ts (ys ! i))" if "i < length xs" for i
    using arg_cong [OF assms, of "\<lambda>zs. zs ! i"] that len by simp
  then show ?thesis unfolding has_expected_cadence_def len
    by (intro arg_cong [of _ _ "\<lambda>p. list_all p _"] list.pred_cong) (auto simp: len)
qed

text \<open>
  The order in which observations arrive does not matter: permuting them leaves
  completeness and reason unchanged, and the whole result when no instant repeats.
\<close>

theorem series_order_irrelevant:
  fixes obs obs' :: "'d ohlcv_observation list" and rates rates' :: "'d funding_observation list"
    and interval :: series_interval and cutoff :: string and n :: int and minutes :: "int option"
  assumes "mset obs = mset obs'" "mset rates = mset rates'"
  defines "R \<equiv> \<lambda>os. normalize_ohlcv_series interval os cutoff n"
    and "F \<equiv> \<lambda>os. normalize_funding_observations os cutoff n minutes"
  shows "nr_complete (R obs) = nr_complete (R obs') \<and> nr_reason (R obs) = nr_reason (R obs') \<and>
    (nr_reason (R obs) \<noteq> Some Duplicate \<longrightarrow> R obs = R obs') \<and>
    nr_complete (F rates) = nr_complete (F rates') \<and> nr_reason (F rates) = nr_reason (F rates') \<and>
    (nr_reason (F rates) \<noteq> Some Duplicate \<longrightarrow> F rates = F rates')"
proof -
  let ?c = "filter (finished interval (epoch_ms cutoff))"
  let ?f = "filter (\<lambda>x. epoch_ms (fo_timestamp x) \<le> epoch_ms cutoff)"
  obtain c cd where c: "window_run oh_timestamp (?c obs) n = (c, cd)" by fastforce
  obtain e ed where e: "window_run oh_timestamp (?c obs') n = (e, ed)" by fastforce
  obtain f fd where f: "window_run fo_timestamp (?f rates) n = (f, fd)" by fastforce
  obtain g gd where g: "window_run fo_timestamp (?f rates') n = (g, gd)" by fastforce
  have perms: "mset (?c obs) = mset (?c obs')" "mset (?f rates) = mset (?f rates')"
    using assms(1,2) by simp_all
  note C = window_run_perm [OF perms(1) c e] and G = window_run_perm [OF perms(2) f g]
  have sets: "set obs = set obs'" using assms(1) by (rule mset_eq_setD)
  have lens: "length c = length e" "length f = length g"
    using C(2) G(2) by (metis length_map)+
  note cad = cadence_keys [OF C(2)] cadence_keys [OF G(2)]
  have fcad: "funding_cadence minutes f = funding_cadence minutes g" using cad(2) by (cases minutes) simp_all
  note eqs = normalize_ohlcv_eq [OF c] normalize_ohlcv_eq [OF e] normalize_funding_eq [OF f] normalize_funding_eq [OF g]
  have R: "R obs = R obs'" if "\<not> cd"
    using C(1) C(3) [OF that] unfolding R_def by (simp only: eqs(1,2) sets set_filter)
  have F: "F rates = F rates'" if "\<not> fd"
    using G(1) G(3) [OF that] unfolding F_def by (simp only: eqs(3,4))
  have dup: "nr_reason (R obs) = Some Duplicate \<longleftrightarrow> cd" "nr_reason (F rates) = Some Duplicate \<longleftrightarrow> fd"
    by (simp_all add: R_def F_def eqs)
  have "nr_complete (R obs) = nr_complete (R obs')" "nr_reason (R obs) = nr_reason (R obs')"
    using R C(1) by (cases cd; simp add: R_def eqs)+
  moreover have "nr_complete (F rates) = nr_complete (F rates')" "nr_reason (F rates) = nr_reason (F rates')"
    using F G(1) by (cases fd; simp add: F_def eqs)+
  ultimately show ?thesis using R F dup by blast
qed

theorem series_order_irrelevant_witness:
  "nr_complete (normalize_ohlcv_series Interval_1h (rev sample_candles) ''2024-01-01T03:00:00.000Z'' 2)"
proof -
  have "nr_complete (normalize_ohlcv_series Interval_1h sample_candles ''2024-01-01T03:00:00.000Z'' 2)"
    by code_simp
  with series_order_irrelevant [of sample_candles "rev sample_candles" "[]" "[]" Interval_1h
      "''2024-01-01T03:00:00.000Z''" 2 None]
  show ?thesis by simp
qed

lemma div_differs_iff: "a \<le> b \<Longrightarrow> 0 < s \<Longrightarrow> a div s \<noteq> b div s \<longleftrightarrow> (\<exists>k. a < k * s \<and> k * s \<le> (b :: int))"
proof
  assume ab: "a \<le> b" "0 < s" and "a div s \<noteq> b div s"
  then have "a div s + 1 \<le> b div s" using zdiv_mono1 [OF ab] by simp
  then have "(a div s + 1) * s \<le> b div s * s" using ab(2) by (intro mult_right_mono) auto
  moreover have "a < (a div s + 1) * s" "b div s * s \<le> b"
    using ab(2) div_mult_mod_eq [of a s] div_mult_mod_eq [of b s] pos_mod_bound [of s a] pos_mod_sign [of s b]
    by (simp only: distrib_right, linarith)+
  ultimately show "\<exists>k. a < k * s \<and> k * s \<le> b" by (meson less_le_trans)
next
  assume "0 < s" and "\<exists>k. a < k * s \<and> k * s \<le> b"
  then obtain k where k: "a < k * s" "k * s \<le> b" by blast
  have "k \<le> b div s" using zdiv_mono1 [OF k(2) \<open>0 < s\<close>] \<open>0 < s\<close> by simp
  moreover have "a div s \<le> (k * s - 1) div s" using k(1) \<open>0 < s\<close> by (intro zdiv_mono1) auto
  moreover have "(k * s - 1) div s = k - 1"
  proof -
    have "k * s - 1 = (s - 1) + (k - 1) * s" by (simp add: algebra_simps)
    then show ?thesis using \<open>0 < s\<close> by (simp only: div_mult_self3 div_pos_pos_trivial) (simp add: div_pos_pos_trivial)
  qed
  ultimately show "a div s \<noteq> b div s" by simp
qed

text \<open>
  Two instants are reported to lie on different sides of an interval boundary exactly
  when a boundary (a multiple of the interval, weeks counted from Monday 1970-01-05) lies after the first
  and not after the second; funding boundaries likewise, with an unusable interval always
  counting as crossed.
\<close>

theorem boundary_crossed_iff:
  assumes "epoch_ms first \<le> epoch_ms second"
  shows "(interval_boundary_crossed first second interval \<longleftrightarrow>
      (\<exists>k. epoch_ms first < (if interval = Interval_1w then 345600000 else 0) + k * market_interval_milliseconds interval \<and>
        (if interval = Interval_1w then 345600000 else 0) + k * market_interval_milliseconds interval \<le> epoch_ms second)) \<and>
    (funding_boundary_crossed first second minutes \<longleftrightarrow>
      \<not> is_safe_integer minutes \<or> minutes < 1 \<or>
      (\<exists>k. epoch_ms first < k * (minutes * 60000) \<and> k * (minutes * 60000) \<le> epoch_ms second))"
proof -
  have week: "BYBIT_WEEK_START_MS = 345600000" unfolding BYBIT_WEEK_START_MS_def by code_simp
  have "interval_boundary_crossed first second interval \<longleftrightarrow>
      (\<exists>k. epoch_ms first < (if interval = Interval_1w then 345600000 else 0) + k * market_interval_milliseconds interval \<and>
        (if interval = Interval_1w then 345600000 else 0) + k * market_interval_milliseconds interval \<le> epoch_ms second)"
  proof (cases "interval = Interval_1w")
    case True
    then show ?thesis
      using div_differs_iff [of "epoch_ms first - 345600000" "epoch_ms second - 345600000" 604800000] assms
      by (simp add: interval_boundary_crossed_def interval_bucket_def Let_def week less_diff_eq diff_le_eq
          diff_less_eq le_diff_eq add.commute)
  next
    case False
    then show ?thesis
      using div_differs_iff [OF assms interval_positive [of interval]]
      by (simp add: interval_boundary_crossed_def interval_bucket_def Let_def)
  qed
  moreover have "funding_boundary_crossed first second minutes \<longleftrightarrow>
      \<not> is_safe_integer minutes \<or> minutes < 1 \<or>
      (\<exists>k. epoch_ms first < k * (minutes * 60000) \<and> k * (minutes * 60000) \<le> epoch_ms second)"
    using div_differs_iff [OF assms, of "minutes * 60000"]
    by (auto simp: funding_boundary_crossed_def funding_interval_milliseconds_def Let_def mult.commute)
  ultimately show ?thesis by blast
qed

theorem boundary_crossed_iff_witness:
  "interval_boundary_crossed ''2024-01-01T00:59:59.000Z'' ''2024-01-01T01:00:00.000Z'' Interval_1h"
proof -
  have "epoch_ms ''2024-01-01T00:59:59.000Z'' = 1704070799000" "epoch_ms ''2024-01-01T01:00:00.000Z'' = 1704070800000"
    by code_simp+
  with boundary_crossed_iff [of "''2024-01-01T00:59:59.000Z''" "''2024-01-01T01:00:00.000Z''" Interval_1h 1]
  show ?thesis by (auto intro: exI [of _ 473353])
qed

end
