(* ===== verification/PortfolioEvidence.thy ===== *)
theory PortfolioEvidence
  imports MarketSeries Grid
begin

text \<open>
  What the portfolio gate decides on: the facts of an account evidence bundle
  (\<open>domain/account/account-evidence-bundle.ts\<close>, the record types), the gate's policy and reason
  codes (\<open>domain/risk/portfolio-risk-policy.ts\<close>, \<open>portfolio-risk-diagnostics.ts\<close>) and the
  supplemental leverage evidence (\<open>domain/risk/portfolio-risk-evidence.ts\<close>). Plain objects are
  \<open>JObj\<close>; getters and prototypes of their own do not exist in the model.

  Shown here: an accepted policy has a reserve ratio in [0, 1) and non-negative rates; evidence
  with a contradicting hash is refused and accepted evidence is its own fixed point; leverage
  evidence is admitted only as one positive leverage of a flat row, for the very account bundle
  it was observed for.
\<close>

subsection \<open>Account facts\<close>

text \<open>The records hold the fields that the gate reads; the bundle's schema has more.\<close>

datatype unavailable_reason =
    NotReturned | UnsupportedField | InvalidField | PermissionDenied | CollectionFailed

datatype 'a fact = Known (known_value: 'a) | UnavailableFact unavailable_reason | NotApplicable

datatype fact_unit =
    Unit_coin | Unit_USD | Unit_rate | Unit_contracts | Unit_price | Unit_base_coin | Unit_quote_coin | Unit_unknown

record 'd decimal_fact =
  df_fact :: "'d fact"
  df_unit :: fact_unit

definition known :: "'a fact \<Rightarrow> bool" where
  "known f \<longleftrightarrow> (case f of Known x \<Rightarrow> True | _ \<Rightarrow> False)"

text \<open>A known value of a unit, \<open>fact.state === "known" && fact.unit === unit\<close>.\<close>

definition known_in :: "fact_unit \<Rightarrow> 'd decimal_fact \<Rightarrow> 'd option" where
  "known_in u f = (case df_fact f of Known x \<Rightarrow> if df_unit f = u then Some x else None | _ \<Rightarrow> None)"

record 'd account_position =
  ap_category :: string
  ap_symbol :: string
  ap_positionIdx :: int
  ap_side :: string
  ap_size :: "'d decimal_fact"
  ap_markPrice :: "'d decimal_fact"
  ap_positionValue :: "'d decimal_fact"
  ap_leverage :: "'d decimal_fact"
  ap_isReduceOnly :: "bool fact"

record 'd account_order =
  ao_category :: string
  ao_symbol :: string
  ao_side :: string
  ao_orderType :: string
  ao_price :: "'d decimal_fact"
  ao_leavesQty :: "'d decimal_fact"
  ao_positionIdx :: "int fact"
  ao_reduceOnly :: "bool fact"
  ao_closeOnTrigger :: "bool fact"

datatype restriction = RestrictionUnknown | Unrestricted | NearLimit | Restricted

record 'd account_asset =
  aa_coin :: string
  aa_walletBalance :: "'d decimal_fact"
  aa_usdValue :: "'d decimal_fact"
  aa_borrowAmount :: "'d decimal_fact"
  aa_spotBorrow :: "'d decimal_fact"
  aa_accruedInterest :: "'d decimal_fact"
  aa_collateralEligible :: "bool fact"
  aa_collateralSwitch :: "bool fact"
  aa_restricted :: "restriction fact"

record 'd account_collateral =
  ac_borrowAmount :: "'d decimal_fact"
  ac_otherBorrowAmount :: "'d decimal_fact"

text \<open>The fields of a critical pass and of the bundle that the gate reads.\<close>

record 'd critical_pass =
  cp_marginMode :: "string fact"
  cp_totalAvailableBalance :: "'d decimal_fact"
  cp_assets :: "'d account_asset list"
  cp_collateral :: "'d account_collateral list"
  cp_positions :: "'d account_position list"
  cp_orders :: "'d account_order list"

datatype collection_status = CollectionComplete | CollectionIncomplete | CollectionFailedStatus

datatype margin_compatibility = RegularMargin | UnsupportedMargin | UnknownMargin

datatype symbol_mode = ModeOneWay | ModeHedge | ModeUnknown

text \<open>\<open>ab_contentHash\<close> stands for \<open>accountEvidenceContentHash\<close> of the bundle.\<close>

record 'd account_bundle =
  ab_environment :: string
  ab_accountIdentityHash :: string
  ab_contentHash :: string
  ab_collectionEndedAt :: "string option"
  ab_bundleCutoff :: "string option"
  ab_collectionStatus :: collection_status
  ab_configuredM1Symbols :: "string list"
  ab_passB :: "'d critical_pass option"
  ab_consistent :: bool
  ab_marginCompatibility :: margin_compatibility
  ab_positionModes :: "(string \<times> symbol_mode) list"

subsection \<open>Reason codes\<close>

datatype block_reason =
    ACCOUNT_EVIDENCE_FUTURE | ACCOUNT_EVIDENCE_INCOMPLETE | ACCOUNT_EVIDENCE_INVALID
  | ACCOUNT_EVIDENCE_STALE | ACCOUNT_LIABILITY_UNMODELED | ACCOUNT_MODE_UNSUPPORTED
  | ACCOUNT_RESTRICTION_ACTIVE | AVAILABLE_BALANCE_UNKNOWN | CAPACITY_EXCEEDED
  | CURRENT_STATE_UNVALUABLE | ECONOMICS_INPUT_UNKNOWN | ECONOMICS_INSUFFICIENT
  | INPUT_IDENTITY_MISMATCH | INVALID_RISK_POLICY | LEVERAGE_EXCEEDS_POLICY | LEVERAGE_UNKNOWN
  | POSITION_MODE_UNSUPPORTED | REDUCTION_STATE_INVALID | REQUIRED_ACCOUNT_FACT_UNKNOWN
  | REQUIRED_EVIDENCE_STALE | SUPPLEMENTAL_EVIDENCE_CONFLICT | SUPPLEMENTAL_EVIDENCE_INVALID
  | SUPPLEMENTAL_EVIDENCE_STALE | TARGET_INSTRUMENT_NOT_TRADING | UNSUPPORTED_EXPOSURE

fun block_reason_text :: "block_reason \<Rightarrow> string" where
  "block_reason_text ACCOUNT_EVIDENCE_FUTURE = ''ACCOUNT_EVIDENCE_FUTURE''"
| "block_reason_text ACCOUNT_EVIDENCE_INCOMPLETE = ''ACCOUNT_EVIDENCE_INCOMPLETE''"
| "block_reason_text ACCOUNT_EVIDENCE_INVALID = ''ACCOUNT_EVIDENCE_INVALID''"
| "block_reason_text ACCOUNT_EVIDENCE_STALE = ''ACCOUNT_EVIDENCE_STALE''"
| "block_reason_text ACCOUNT_LIABILITY_UNMODELED = ''ACCOUNT_LIABILITY_UNMODELED''"
| "block_reason_text ACCOUNT_MODE_UNSUPPORTED = ''ACCOUNT_MODE_UNSUPPORTED''"
| "block_reason_text ACCOUNT_RESTRICTION_ACTIVE = ''ACCOUNT_RESTRICTION_ACTIVE''"
| "block_reason_text AVAILABLE_BALANCE_UNKNOWN = ''AVAILABLE_BALANCE_UNKNOWN''"
| "block_reason_text CAPACITY_EXCEEDED = ''CAPACITY_EXCEEDED''"
| "block_reason_text CURRENT_STATE_UNVALUABLE = ''CURRENT_STATE_UNVALUABLE''"
| "block_reason_text ECONOMICS_INPUT_UNKNOWN = ''ECONOMICS_INPUT_UNKNOWN''"
| "block_reason_text ECONOMICS_INSUFFICIENT = ''ECONOMICS_INSUFFICIENT''"
| "block_reason_text INPUT_IDENTITY_MISMATCH = ''INPUT_IDENTITY_MISMATCH''"
| "block_reason_text INVALID_RISK_POLICY = ''INVALID_RISK_POLICY''"
| "block_reason_text LEVERAGE_EXCEEDS_POLICY = ''LEVERAGE_EXCEEDS_POLICY''"
| "block_reason_text LEVERAGE_UNKNOWN = ''LEVERAGE_UNKNOWN''"
| "block_reason_text POSITION_MODE_UNSUPPORTED = ''POSITION_MODE_UNSUPPORTED''"
| "block_reason_text REDUCTION_STATE_INVALID = ''REDUCTION_STATE_INVALID''"
| "block_reason_text REQUIRED_ACCOUNT_FACT_UNKNOWN = ''REQUIRED_ACCOUNT_FACT_UNKNOWN''"
| "block_reason_text REQUIRED_EVIDENCE_STALE = ''REQUIRED_EVIDENCE_STALE''"
| "block_reason_text SUPPLEMENTAL_EVIDENCE_CONFLICT = ''SUPPLEMENTAL_EVIDENCE_CONFLICT''"
| "block_reason_text SUPPLEMENTAL_EVIDENCE_INVALID = ''SUPPLEMENTAL_EVIDENCE_INVALID''"
| "block_reason_text SUPPLEMENTAL_EVIDENCE_STALE = ''SUPPLEMENTAL_EVIDENCE_STALE''"
| "block_reason_text TARGET_INSTRUMENT_NOT_TRADING = ''TARGET_INSTRUMENT_NOT_TRADING''"
| "block_reason_text UNSUPPORTED_EXPOSURE = ''UNSUPPORTED_EXPOSURE''"

definition PORTFOLIO_RISK_BLOCK_REASON_CODES :: "block_reason list" where
  "PORTFOLIO_RISK_BLOCK_REASON_CODES =
     [ACCOUNT_EVIDENCE_FUTURE, ACCOUNT_EVIDENCE_INCOMPLETE, ACCOUNT_EVIDENCE_INVALID,
      ACCOUNT_EVIDENCE_STALE, ACCOUNT_LIABILITY_UNMODELED, ACCOUNT_MODE_UNSUPPORTED,
      ACCOUNT_RESTRICTION_ACTIVE, AVAILABLE_BALANCE_UNKNOWN, CAPACITY_EXCEEDED,
      CURRENT_STATE_UNVALUABLE, ECONOMICS_INPUT_UNKNOWN, ECONOMICS_INSUFFICIENT,
      INPUT_IDENTITY_MISMATCH, INVALID_RISK_POLICY, LEVERAGE_EXCEEDS_POLICY, LEVERAGE_UNKNOWN,
      POSITION_MODE_UNSUPPORTED, REDUCTION_STATE_INVALID, REQUIRED_ACCOUNT_FACT_UNKNOWN,
      REQUIRED_EVIDENCE_STALE, SUPPLEMENTAL_EVIDENCE_CONFLICT, SUPPLEMENTAL_EVIDENCE_INVALID,
      SUPPLEMENTAL_EVIDENCE_STALE, TARGET_INSTRUMENT_NOT_TRADING, UNSUPPORTED_EXPOSURE]"

text \<open>Codes are ordered by their text, as \<open>sort()\<close> orders them.\<close>

lemma all_block_reasons: "r \<in> set PORTFOLIO_RISK_BLOCK_REASON_CODES"
  by (cases r) (simp_all add: PORTFOLIO_RISK_BLOCK_REASON_CODES_def)

lemma block_reason_texts: "distinct (map block_reason_text PORTFOLIO_RISK_BLOCK_REASON_CODES)"
  by code_simp

lemma block_reason_text_inj [simp]: "block_reason_text r = block_reason_text s \<longleftrightarrow> r = s"
  using block_reason_texts all_block_reasons [of r] all_block_reasons [of s]
  by (auto simp: distinct_map inj_on_def)

instantiation block_reason :: linorder
begin

definition less_eq_block_reason :: "block_reason \<Rightarrow> block_reason \<Rightarrow> bool" where
  "less_eq_block_reason r s \<longleftrightarrow> block_reason_text r \<le> block_reason_text s"

definition less_block_reason :: "block_reason \<Rightarrow> block_reason \<Rightarrow> bool" where
  "less_block_reason r s \<longleftrightarrow> block_reason_text r < block_reason_text s"

instance
  by intro_classes (auto simp: less_eq_block_reason_def less_block_reason_def less_le_not_le linear
      intro: order.trans dest: antisym)

end
text \<open>\<open>parseReasonCodes\<close> and its use: an array of allowed codes, made distinct and sorted.\<close>

definition parse_reason_codes :: "('a::linorder \<Rightarrow> string) \<Rightarrow> 'a list \<Rightarrow> unit jsval \<Rightarrow> 'a list result" where
  "parse_reason_codes code_text allowed input =
     (case input of
        JArr values \<Rightarrow>
          guard INVALID_VALUE (length values \<le> length allowed) (
          rbind (traverse (\<lambda>value. need_some INVALID_VALUE
              (case value of JStr s \<Rightarrow> find (\<lambda>c. code_text c = s) allowed | _ \<Rightarrow> None) Ok) values) (\<lambda>codes.
          Ok (sort (remdups codes))))
      | _ \<Rightarrow> Fail INVALID_VALUE)"

definition create_block_reason_codes :: "unit jsval \<Rightarrow> block_reason list result" where
  "create_block_reason_codes input = parse_reason_codes block_reason_text PORTFOLIO_RISK_BLOCK_REASON_CODES input"

text \<open>
  A \<open>Set\<close> of codes is a set; \<open>createPortfolioRiskBlockReasonCodes([...codes])\<close> on it is its sorted
  list, and does not fail.
\<close>

definition normalized_reasons :: "block_reason set \<Rightarrow> block_reason list" where
  "normalized_reasons codes = sorted_list_of_set codes"

lemma finite_block_reasons [simp]: "finite (codes :: block_reason set)"
  by (rule finite_subset [of _ "set PORTFOLIO_RISK_BLOCK_REASON_CODES"]) (auto simp: all_block_reasons)

lemma normalized_reasons_set [simp]: "set (normalized_reasons codes) = codes"
  "normalized_reasons codes = [] \<longleftrightarrow> codes = {}"
  by (simp_all add: normalized_reasons_def)

lemma create_block_reason_codes_set:
  assumes "distinct codes"
  shows "create_block_reason_codes (JArr (map (\<lambda>c. JStr (block_reason_text c)) codes)) = Ok (normalized_reasons (set codes))"
proof -
  have "find (\<lambda>c. block_reason_text c = block_reason_text r) PORTFOLIO_RISK_BLOCK_REASON_CODES = Some r" for r
  proof -
    have "find (\<lambda>c. block_reason_text c = block_reason_text r) PORTFOLIO_RISK_BLOCK_REASON_CODES \<noteq> None"
      using all_block_reasons [of r] by (auto simp: find_None_iff)
    then show ?thesis by (auto simp: find_Some_iff)
  qed
  then have "traverse (\<lambda>value :: unit jsval. need_some INVALID_VALUE
      (case value of JStr s \<Rightarrow> find (\<lambda>c. block_reason_text c = s) PORTFOLIO_RISK_BLOCK_REASON_CODES | _ \<Rightarrow> None) Ok)
      (map (\<lambda>c. JStr (block_reason_text c)) codes) = Ok codes"
    by (auto simp: traverse_Ok_iff list_all2_conv_all_nth)
  moreover have "length codes \<le> length PORTFOLIO_RISK_BLOCK_REASON_CODES"
    using card_mono [OF finite_set, of "set codes" PORTFOLIO_RISK_BLOCK_REASON_CODES] all_block_reasons assms
      card_length [of PORTFOLIO_RISK_BLOCK_REASON_CODES]
    by (simp add: distinct_card subset_iff)
  ultimately show ?thesis
    using assms by (simp add: create_block_reason_codes_def parse_reason_codes_def normalized_reasons_def
        sorted_list_of_set_sort_remdups distinct_remdups_id)
qed

subsection \<open>The policy\<close>

record 'd risk_policy =
  rp_policyVersion :: string
  rp_maxAccountEvidenceAgeMs :: int
  rp_marginReserveRatio :: 'd
  rp_maxDerivativesLeverage :: 'd
  rp_entryFeeRate :: 'd
  rp_exitFeeRate :: 'd
  rp_slippageBufferRate :: 'd
  rp_minimumNetEdgeRate :: 'd

definition policy_fields :: "string list" where
  "policy_fields =
     [''schemaVersion'', ''policyVersion'', ''maxAccountEvidenceAgeMs'', ''marginReserveRatio'',
      ''maxDerivativesLeverage'', ''entryFeeRate'', ''exitFeeRate'', ''slippageBufferRate'', ''minimumNetEdgeRate'']"

text \<open>A plain object with exactly these keys.\<close>

definition exact_record :: "'d jsval \<Rightarrow> string list \<Rightarrow> bool" where
  "exact_record value allowed \<longleftrightarrow> closed_record value allowed \<and> length (keys value) = length allowed"

definition policy_decimal :: "'d lib \<Rightarrow> 'd jsval \<Rightarrow> bool \<Rightarrow> bool \<Rightarrow> 'd result" where
  "policy_decimal L value positive belowOne =
     (if \<not> is_decimal_value value \<and> (case value of JStr s \<Rightarrow> 128 < length s | _ \<Rightarrow> True)
      then Fail INVALID_VALUE
      else
        need INVALID_VALUE (case value of JDec d \<Rightarrow> Ok d | _ \<Rightarrow> dec_from_string L value) (\<lambda>parsed.
        guard INVALID_VALUE (\<not> is_negative L parsed \<and> (positive \<longrightarrow> is_positive L parsed) \<and>
          (belowOne \<longrightarrow> dec_compare L parsed (planning_constant L ''1'') < 0) \<and>
          length (dec_to_string L parsed) \<le> 128) (
        Ok parsed)))"

definition create_risk_policy :: "'d lib \<Rightarrow> 'd jsval \<Rightarrow> 'd risk_policy result" where
  "create_risk_policy L input =
     guard INVALID_VALUE (exact_record input policy_fields \<and>
       get input ''schemaVersion'' = JStr ''portfolio-risk-policy/v1'') (
     need INVALID_VALUE (require_identifier (get input ''policyVersion'') ''policyVersion'') (\<lambda>version.
     need INVALID_VALUE (require_finite_integer (get input ''maxAccountEvidenceAgeMs'') ''maxAccountEvidenceAgeMs'' 1) (\<lambda>maxAge.
     need INVALID_VALUE (policy_decimal L (get input ''marginReserveRatio'') False True) (\<lambda>reserveRatio.
     need INVALID_VALUE (policy_decimal L (get input ''maxDerivativesLeverage'') True False) (\<lambda>leverage.
     need INVALID_VALUE (policy_decimal L (get input ''entryFeeRate'') False False) (\<lambda>entryFee.
     need INVALID_VALUE (policy_decimal L (get input ''exitFeeRate'') False False) (\<lambda>exitFee.
     need INVALID_VALUE (policy_decimal L (get input ''slippageBufferRate'') False False) (\<lambda>slippage.
     need INVALID_VALUE (policy_decimal L (get input ''minimumNetEdgeRate'') False False) (\<lambda>minimumEdge.
     Ok \<lparr>rp_policyVersion = version, rp_maxAccountEvidenceAgeMs = maxAge, rp_marginReserveRatio = reserveRatio,
         rp_maxDerivativesLeverage = leverage, rp_entryFeeRate = entryFee, rp_exitFeeRate = exitFee,
         rp_slippageBufferRate = slippage, rp_minimumNetEdgeRate = minimumEdge\<rparr>)))))))))"

definition risk_policy_js :: "'d risk_policy \<Rightarrow> 'd jsval" where
  "risk_policy_js p = JObj
     [(''schemaVersion'', JStr ''portfolio-risk-policy/v1''), (''policyVersion'', JStr (rp_policyVersion p)),
      (''maxAccountEvidenceAgeMs'', JInt (rp_maxAccountEvidenceAgeMs p)),
      (''marginReserveRatio'', JDec (rp_marginReserveRatio p)),
      (''maxDerivativesLeverage'', JDec (rp_maxDerivativesLeverage p)), (''entryFeeRate'', JDec (rp_entryFeeRate p)),
      (''exitFeeRate'', JDec (rp_exitFeeRate p)), (''slippageBufferRate'', JDec (rp_slippageBufferRate p)),
      (''minimumNetEdgeRate'', JDec (rp_minimumNetEdgeRate p))]"

definition portfolio_risk_policy_hash :: "'d lib \<Rightarrow> 'd risk_policy \<Rightarrow> string result" where
  "portfolio_risk_policy_hash L policy = hash_canonical L (risk_policy_js policy)"

subsection \<open>Supplemental leverage evidence\<close>

record 'd leverage_row =
  lv_positionIdx :: int
  lv_side :: string
  lv_size :: 'd
  lv_leverage :: "'d option"
  lv_isReduceOnly :: bool

record 'd leverage_evidence =
  le_environment :: string
  le_accountIdentityHash :: string
  le_accountEvidenceHash :: string
  le_symbol :: string
  le_observedAt :: string
  le_rows :: "'d leverage_row list"
  le_contentHash :: string

definition evidence_keys :: "string list" where
  "evidence_keys = [''schemaVersion'', ''kind'', ''environment'', ''accountIdentityHash'', ''accountEvidenceHash'',
     ''symbol'', ''observedAt'', ''rows'', ''contentHash'']"

definition payload_keys :: "string list" where
  "payload_keys = filter (\<lambda>key. key \<noteq> ''contentHash'') evidence_keys"

definition evidence_decimal :: "'d lib \<Rightarrow> 'd jsval \<Rightarrow> bool \<Rightarrow> 'd result" where
  "evidence_decimal L value positive =
     (if \<not> is_decimal_value value \<and> (case value of JStr s \<Rightarrow> 128 < length s | _ \<Rightarrow> True)
      then Fail INVALID_EVIDENCE
      else
        need INVALID_EVIDENCE (case value of JDec d \<Rightarrow> Ok d | _ \<Rightarrow> dec_from_string L value) (\<lambda>parsed.
        guard INVALID_EVIDENCE (\<not> is_negative L parsed \<and> (positive \<longrightarrow> is_positive L parsed)) (
        Ok parsed)))"

definition parse_leverage_row :: "'d lib \<Rightarrow> 'd jsval \<Rightarrow> 'd leverage_row result" where
  "parse_leverage_row L value =
     guard INVALID_EVIDENCE (exact_record value [''positionIdx'', ''side'', ''size'', ''leverage'', ''isReduceOnly'']) (
     need_some INVALID_EVIDENCE
       (case get value ''positionIdx'' of JInt i \<Rightarrow> if i \<in> {0, 1, 2} then Some i else None | _ \<Rightarrow> None) (\<lambda>positionIdx.
     need_some INVALID_EVIDENCE
       (case get value ''side'' of JStr s \<Rightarrow> if s \<in> {''Buy'', ''Sell'', ''None''} then Some s else None | _ \<Rightarrow> None) (\<lambda>side.
     need_some INVALID_EVIDENCE (case get value ''isReduceOnly'' of JBool b \<Rightarrow> Some b | _ \<Rightarrow> None) (\<lambda>isReduceOnly.
     need INVALID_EVIDENCE (evidence_decimal L (get value ''size'') False) (\<lambda>size.
     need INVALID_EVIDENCE
       (if get value ''leverage'' = JNull then Ok None
        else rbind (evidence_decimal L (get value ''leverage'') True) (\<lambda>l. Ok (Some l))) (\<lambda>leverage.
     Ok \<lparr>lv_positionIdx = positionIdx, lv_side = side, lv_size = size, lv_leverage = leverage,
         lv_isReduceOnly = isReduceOnly\<rparr>))))))"

text \<open>The loop fails at the first row that is malformed or repeats an index.\<close>

definition parse_leverage_rows :: "'d lib \<Rightarrow> 'd jsval \<Rightarrow> 'd leverage_row list result" where
  "parse_leverage_rows L value =
     (case value of
        JArr values \<Rightarrow>
          guard INVALID_EVIDENCE (values \<noteq> [] \<and> length values \<le> 10) (
          need INVALID_EVIDENCE (traverse (parse_leverage_row L) values) (\<lambda>rows.
          guard INVALID_EVIDENCE (distinct (map lv_positionIdx rows)) (
          Ok (sort_key lv_positionIdx rows))))
      | _ \<Rightarrow> Fail INVALID_EVIDENCE)"

definition leverage_row_js :: "'d leverage_row \<Rightarrow> 'd jsval" where
  "leverage_row_js r = JObj
     [(''positionIdx'', JInt (lv_positionIdx r)), (''side'', JStr (lv_side r)), (''size'', JDec (lv_size r)),
      (''leverage'', case lv_leverage r of None \<Rightarrow> JNull | Some l \<Rightarrow> JDec l),
      (''isReduceOnly'', JBool (lv_isReduceOnly r))]"

definition leverage_payload_fields :: "'d leverage_evidence \<Rightarrow> (string \<times> 'd jsval) list" where
  "leverage_payload_fields e =
     [(''schemaVersion'', JStr ''portfolio-risk-evidence/v1''), (''kind'', JStr ''target-leverage''),
      (''environment'', JStr (le_environment e)), (''accountIdentityHash'', JStr (le_accountIdentityHash e)),
      (''accountEvidenceHash'', JStr (le_accountEvidenceHash e)), (''symbol'', JStr (le_symbol e)),
      (''observedAt'', JStr (le_observedAt e)), (''rows'', JArr (map leverage_row_js (le_rows e)))]"

definition leverage_payload_js :: "'d leverage_evidence \<Rightarrow> 'd jsval" where
  "leverage_payload_js e = JObj (leverage_payload_fields e)"

text \<open>The evidence as data, as it is stored and passed on.\<close>

definition leverage_evidence_js :: "'d leverage_evidence \<Rightarrow> 'd jsval" where
  "leverage_evidence_js e = JObj (leverage_payload_fields e @ [(''contentHash'', JStr (le_contentHash e))])"

definition parse_leverage_payload :: "'d lib \<Rightarrow> 'd jsval \<Rightarrow> 'd leverage_evidence result" where
  "parse_leverage_payload L input =
     guard INVALID_EVIDENCE (exact_record input payload_keys) (
     need INVALID_EVIDENCE (require_hash (get input ''accountIdentityHash'') ''accountIdentityHash'') (\<lambda>accountIdentityHash.
     need INVALID_EVIDENCE (require_hash (get input ''accountEvidenceHash'') ''accountEvidenceHash'') (\<lambda>accountEvidenceHash.
     need INVALID_EVIDENCE (require_identifier (get input ''symbol'') ''symbol'') (\<lambda>symbol.
     need INVALID_EVIDENCE (parse_utc_timestamp (get input ''observedAt'')) (\<lambda>observedAt.
     need INVALID_EVIDENCE (parse_leverage_rows L (get input ''rows'')) (\<lambda>rows.
     guard INVALID_EVIDENCE (get input ''schemaVersion'' = JStr ''portfolio-risk-evidence/v1'' \<and>
       get input ''kind'' = JStr ''target-leverage'') (
     need_some INVALID_EVIDENCE
       (case get input ''environment'' of
          JStr s \<Rightarrow> if s \<in> {''demo'', ''testnet'', ''mainnet''} then Some s else None | _ \<Rightarrow> None) (\<lambda>environment.
     Ok \<lparr>le_environment = environment, le_accountIdentityHash = accountIdentityHash,
         le_accountEvidenceHash = accountEvidenceHash, le_symbol = symbol, le_observedAt = observedAt,
         le_rows = rows, le_contentHash = []\<rparr>))))))))"

text \<open>\<open>Object.fromEntries(payloadKeys.map(...))\<close> has every payload key, \<open>undefined\<close> where the input has none.\<close>

definition create_leverage_evidence :: "'d lib \<Rightarrow> 'd jsval \<Rightarrow> 'd leverage_evidence result" where
  "create_leverage_evidence L input =
     guard INVALID_EVIDENCE (closed_record input evidence_keys \<and>
       (length (keys input) = length payload_keys \<or> length (keys input) = length evidence_keys)) (
     rbind (parse_leverage_payload L (JObj (map (\<lambda>key. (key, get input key)) payload_keys))) (\<lambda>payload.
     need INVALID_EVIDENCE (hash_canonical L (leverage_payload_js payload)) (\<lambda>hash.
     if has_key input ''contentHash'' then
       need INVALID_EVIDENCE (require_hash (get input ''contentHash'') ''contentHash'') (\<lambda>suppliedHash.
       if suppliedHash \<noteq> hash then Fail PLAN_HASH_MISMATCH
       else Ok (payload\<lparr>le_contentHash := hash\<rparr>))
     else Ok (payload\<lparr>le_contentHash := hash\<rparr>))))"

text \<open>
  \<open>createPortfolioRiskEvidenceSet\<close>. \<open>collate\<close> is \<open>localeCompare\<close>, whose order of texts depends on the
  locale of the host; the sort is stable.
\<close>

primrec insert_by :: "('a \<Rightarrow> 'a \<Rightarrow> int) \<Rightarrow> 'a \<Rightarrow> 'a list \<Rightarrow> 'a list" where
  "insert_by cmp x [] = [x]"
| "insert_by cmp x (y # ys) = (if cmp x y \<le> 0 then x # y # ys else y # insert_by cmp x ys)"

definition sort_with :: "('a \<Rightarrow> 'a \<Rightarrow> int) \<Rightarrow> 'a list \<Rightarrow> 'a list" where
  "sort_with cmp xs = foldr (insert_by cmp) xs []"

definition leverage_identity :: "'d leverage_evidence \<Rightarrow> string" where
  "leverage_identity e = join_with [CHR 0x00] [le_environment e, le_accountIdentityHash e, le_symbol e]"

definition create_leverage_evidence_set ::
  "(string \<Rightarrow> string \<Rightarrow> int) \<Rightarrow> 'd lib \<Rightarrow> 'd jsval \<Rightarrow> 'd leverage_evidence list result" where
  "create_leverage_evidence_set collate L input =
     (case input of
        JArr values \<Rightarrow>
          guard INVALID_EVIDENCE (length values \<le> 100) (
          rbind (foldl (\<lambda>acc raw.
              rbind acc (\<lambda>evidence.
              rbind (create_leverage_evidence L raw) (\<lambda>parsed.
              guard INVALID_EVIDENCE (leverage_identity parsed \<notin> set (map leverage_identity evidence)) (
              Ok (evidence @ [parsed]))))) (Ok []) values) (\<lambda>evidence.
          Ok (sort_with (\<lambda>left right. collate (leverage_identity left) (leverage_identity right)) evidence)))
      | _ \<Rightarrow> Fail INVALID_EVIDENCE)"

text \<open>
  \<open>validatePortfolioRiskLeverageEvidence\<close>. The options and the account bundle are typed; the
  evidence is parsed again.
\<close>

record 'd validated_leverage =
  vl_evidence :: "'d leverage_evidence"
  vl_leverage :: 'd
  vl_isReduceOnly :: bool

definition risk_eligible_account :: "'d account_bundle \<Rightarrow> bool" where
  "risk_eligible_account bundle \<longleftrightarrow>
     ab_collectionStatus bundle = CollectionComplete \<and> ab_consistent bundle \<and>
     ab_bundleCutoff bundle \<noteq> None \<and> ab_collectionEndedAt bundle \<noteq> None \<and>
     ab_marginCompatibility bundle = RegularMargin \<and>
     (case ab_passB bundle of None \<Rightarrow> False | Some pass \<Rightarrow> cp_marginMode pass = Known ''REGULAR_MARGIN'')"

definition evidence_bound_to_account :: "'d leverage_evidence \<Rightarrow> 'd account_bundle \<Rightarrow> string \<Rightarrow> bool" where
  "evidence_bound_to_account e bundle symbol \<longleftrightarrow>
     le_accountEvidenceHash e = ab_contentHash bundle \<and>
     le_accountIdentityHash e = ab_accountIdentityHash bundle \<and>
     le_environment e = ab_environment bundle \<and> le_symbol e = symbol \<and>
     symbol \<in> set (ab_configuredM1Symbols bundle)"

text \<open>The existing position of the target is proven flat and one-way, and reports no leverage.\<close>

definition flat_without_leverage :: "'d lib \<Rightarrow> 'd account_position \<Rightarrow> bool" where
  "flat_without_leverage L existing \<longleftrightarrow>
     ap_positionIdx existing = 0 \<and> ap_side existing = ''None'' \<and>
     (case known_in Unit_contracts (ap_size existing) of None \<Rightarrow> False | Some quantity \<Rightarrow> is_zero L quantity) \<and>
     \<not> known (df_fact (ap_leverage existing))"

definition validate_leverage_evidence ::
  "'d lib \<Rightarrow> 'd jsval \<Rightarrow> 'd account_bundle \<Rightarrow> string \<Rightarrow> string \<Rightarrow> 'd risk_policy \<Rightarrow> 'd validated_leverage result" where
  "validate_leverage_evidence L evidenceInput bundle expected evaluation policy =
     need INVALID_EVIDENCE (create_leverage_evidence L evidenceInput) (\<lambda>evidence.
     need INVALID_EVIDENCE (parse_utc_timestamp (JStr evaluation :: 'd jsval)) (\<lambda>evaluationTime.
     need INVALID_EVIDENCE (require_identifier (JStr expected :: 'd jsval) ''symbol'') (\<lambda>symbol.
     guard INCOMPATIBLE_EVIDENCE (risk_eligible_account bundle) (
     guard INCOMPATIBLE_EVIDENCE (evidence_bound_to_account evidence bundle symbol) (
     let endedAt = epoch_ms (the (ab_collectionEndedAt bundle));
         accountAge = epoch_ms evaluationTime - endedAt;
         observationTime = epoch_ms (le_observedAt evidence);
         observationAge = epoch_ms evaluationTime - observationTime;
         positions = filter (\<lambda>position. ap_symbol position = symbol) (cp_positions (the (ab_passB bundle)))
     in
     guard STALE_EVIDENCE (0 \<le> accountAge \<and> accountAge \<le> rp_maxAccountEvidenceAgeMs policy \<and>
       0 \<le> observationAge \<and> observationAge \<le> rp_maxAccountEvidenceAgeMs policy) (
     guard INCOMPATIBLE_EVIDENCE (endedAt \<le> observationTime) (
     guard INCOMPATIBLE_EVIDENCE (map_of (ab_positionModes bundle) symbol = Some ModeOneWay) (
     guard INCOMPATIBLE_EVIDENCE (\<forall>position \<in> set positions. ap_category position = ''linear'') (
     guard INCOMPATIBLE_EVIDENCE (length positions \<le> 1) (
     guard INCOMPATIBLE_EVIDENCE (\<forall>existing \<in> set positions. flat_without_leverage L existing) (
     guard INCOMPATIBLE_EVIDENCE (length (le_rows evidence) = 1) (
     let row = hd (le_rows evidence) in
     need_some INCOMPATIBLE_EVIDENCE (lv_leverage row) (\<lambda>leverage.
     guard INCOMPATIBLE_EVIDENCE (lv_positionIdx row = 0 \<and> lv_side row = ''None'' \<and> is_zero L (lv_size row) \<and>
       is_positive L leverage) (
     guard INCOMPATIBLE_EVIDENCE (\<forall>existing \<in> set positions.
       ap_positionIdx existing = lv_positionIdx row \<and> ap_side existing = lv_side row \<and>
       (case df_fact (ap_size existing) of Known quantity \<Rightarrow> dec_compare L quantity (lv_size row) = 0 | _ \<Rightarrow> False)) (
     Ok \<lparr>vl_evidence = evidence, vl_leverage = leverage, vl_isReduceOnly = lv_isReduceOnly row\<rparr>)))))))))))))))"

subsection \<open>Accepted leverage evidence\<close>

definition wf_leverage_row :: "'d lib \<Rightarrow> 'd leverage_row \<Rightarrow> bool" where
  "wf_leverage_row L r \<longleftrightarrow> lv_positionIdx r \<in> {0, 1, 2} \<and> lv_side r \<in> {''Buy'', ''Sell'', ''None''} \<and>
     \<not> is_negative L (lv_size r) \<and> (\<forall>l. lv_leverage r = Some l \<longrightarrow> \<not> is_negative L l \<and> is_positive L l)"

definition wf_leverage_evidence :: "'d lib \<Rightarrow> 'd leverage_evidence \<Rightarrow> bool" where
  "wf_leverage_evidence L e \<longleftrightarrow>
     le_environment e \<in> {''demo'', ''testnet'', ''mainnet''} \<and> hash_text (le_accountIdentityHash e) \<and>
     hash_text (le_accountEvidenceHash e) \<and> safe_identifier (le_symbol e) \<and>
     le_rows e \<noteq> [] \<and> length (le_rows e) \<le> 10 \<and> (\<forall>r \<in> set (le_rows e). wf_leverage_row L r) \<and>
     sorted (map lv_positionIdx (le_rows e)) \<and> distinct (map lv_positionIdx (le_rows e))"

lemma evidence_decimal_wf:
  "evidence_decimal L value positive = Ok d \<Longrightarrow> \<not> is_negative L d \<and> (positive \<longrightarrow> is_positive L d)"
  by (auto simp: evidence_decimal_def need_Ok_iff split: if_splits)

lemma evidence_decimal_again:
  "\<not> is_negative L d \<Longrightarrow> (positive \<Longrightarrow> is_positive L d) \<Longrightarrow> evidence_decimal L (JDec d) positive = Ok d"
  by (simp add: evidence_decimal_def)

lemma parse_leverage_row_wf: "parse_leverage_row L value = Ok r \<Longrightarrow> wf_leverage_row L r"
  by (auto simp: parse_leverage_row_def wf_leverage_row_def need_Ok_iff rbind_Ok_iff
      dest!: evidence_decimal_wf split: jsval.splits if_splits)

lemma parse_leverage_row_again: "wf_leverage_row L r \<Longrightarrow> parse_leverage_row L (leverage_row_js r) = Ok r"
  by (cases "lv_leverage r")
    (auto simp: parse_leverage_row_def leverage_row_js_def wf_leverage_row_def exact_record_def closed_record_def
      evidence_decimal_again)

lemma parse_leverage_rows_again:
  assumes "rows \<noteq> []" "length rows \<le> 10" "\<forall>r \<in> set rows. wf_leverage_row L r"
    "sorted (map lv_positionIdx rows)" "distinct (map lv_positionIdx rows)"
  shows "parse_leverage_rows L (JArr (map leverage_row_js rows)) = Ok rows"
proof -
  have "traverse (parse_leverage_row L) (map leverage_row_js rows) = Ok rows"
    using assms(3) by (auto simp: traverse_Ok_iff list_all2_conv_all_nth parse_leverage_row_again)
  then show ?thesis using assms by (simp add: parse_leverage_rows_def sort_key_id_if_sorted)
qed

lemma parse_leverage_rows_wf:
  assumes "parse_leverage_rows L value = Ok rows"
  shows "rows \<noteq> [] \<and> length rows \<le> 10 \<and> (\<forall>r \<in> set rows. wf_leverage_row L r) \<and>
    sorted (map lv_positionIdx rows) \<and> distinct (map lv_positionIdx rows)"
proof -
  obtain parsed where p: "distinct (map lv_positionIdx parsed)" "rows = sort_key lv_positionIdx parsed"
    "\<exists>values. values \<noteq> [] \<and> length values \<le> 10 \<and> list_all2 (\<lambda>x r. parse_leverage_row L x = Ok r) values parsed"
    using assms by (auto simp: parse_leverage_rows_def need_Ok_iff traverse_Ok_iff split: jsval.splits)
  have "\<forall>r \<in> set parsed. wf_leverage_row L r"
    using p(3) parse_leverage_row_wf by (fastforce simp: list_all2_conv_all_nth in_set_conv_nth)
  then show ?thesis
    using p by (auto simp: list_all2_lengthD distinct_map simp flip: length_greater_0_conv)
qed

lemma leverage_payload_parsed:
  assumes "parse_leverage_payload L input = Ok e"
  shows "wf_leverage_evidence L e"
  using assms
  by (auto simp: parse_leverage_payload_def wf_leverage_evidence_def need_Ok_iff result_simps
      dest!: parse_leverage_rows_wf split: jsval.splits if_splits simp del: parser_simps)

lemma payload_js_parsed:
  assumes "wf_leverage_evidence L e" "parse_utc_timestamp (JStr (le_observedAt e) :: 'd jsval) = Ok (le_observedAt e)"
  shows "parse_leverage_payload L (leverage_payload_js (e :: 'd leverage_evidence)) = Ok (e\<lparr>le_contentHash := []\<rparr>)"
  using assms
  by (auto simp: parse_leverage_payload_def leverage_payload_js_def leverage_payload_fields_def wf_leverage_evidence_def
      exact_record_def closed_record_def payload_keys_def evidence_keys_def parse_leverage_rows_again)

lemma create_leverage_evidence_accepted:
  assumes "create_leverage_evidence L input = Ok e"
  shows "wf_leverage_evidence L e" "hash_canonical L (leverage_payload_js e) = Ok (le_contentHash e)"
    "has_key input ''contentHash'' \<Longrightarrow> get input ''contentHash'' = JStr (le_contentHash e)"
proof -
  obtain payload hash where p: "parse_leverage_payload L (JObj (map (\<lambda>key. (key, get input key)) payload_keys)) = Ok payload"
    "hash_canonical L (leverage_payload_js payload) = Ok hash" "e = payload\<lparr>le_contentHash := hash\<rparr>"
    "has_key input ''contentHash'' \<Longrightarrow> require_hash (get input ''contentHash'') ''contentHash'' = Ok hash"
    using assms by (auto simp: create_leverage_evidence_def need_Ok_iff rbind_Ok_iff split: if_splits)
  then show "wf_leverage_evidence L e" "hash_canonical L (leverage_payload_js e) = Ok (le_contentHash e)"
    "has_key input ''contentHash'' \<Longrightarrow> get input ''contentHash'' = JStr (le_contentHash e)"
    using leverage_payload_parsed [OF p(1)]
    by (simp_all add: wf_leverage_evidence_def leverage_payload_js_def leverage_payload_fields_def require_hash_Ok)
qed

text \<open>
  Claim C34: leverage evidence that was accepted is accepted again as it was stored, unchanged,
  when its timestamp parses to itself; stored under another hash it is refused as a mismatch.
\<close>

theorem leverage_evidence_round_trip:
  fixes e :: "'d leverage_evidence"
  assumes "host L v" "create_leverage_evidence L input = Ok e"
    "parse_utc_timestamp (JStr (le_observedAt e) :: 'd jsval) = Ok (le_observedAt e)"
  shows "create_leverage_evidence L (leverage_evidence_js e) = Ok e \<and>
    (hash_text other \<longrightarrow> other \<noteq> le_contentHash e \<longrightarrow>
      create_leverage_evidence L (leverage_evidence_js (e\<lparr>le_contentHash := other\<rparr>)) = Fail PLAN_HASH_MISMATCH)"
proof -
  note acc = create_leverage_evidence_accepted [OF assms(2)]
  have hash: "hash_text (le_contentHash e)" using host.hash_canonical_text [OF assms(1) acc(2)] .
  have payload: "JObj (map (\<lambda>key. (key, get (leverage_evidence_js (e\<lparr>le_contentHash := h\<rparr>)) key)) payload_keys) =
      leverage_payload_js e" for h
    by (simp add: leverage_payload_js_def leverage_evidence_js_def leverage_payload_fields_def payload_keys_def evidence_keys_def)
  have shape: "closed_record (leverage_evidence_js e') evidence_keys" "length (keys (leverage_evidence_js e')) = length evidence_keys"
    "has_key (leverage_evidence_js e') ''contentHash''" "get (leverage_evidence_js e') ''contentHash'' = JStr (le_contentHash e')"
    for e' :: "'d leverage_evidence"
    by (simp_all add: leverage_evidence_js_def leverage_payload_fields_def evidence_keys_def closed_record_def)
  have "create_leverage_evidence L (leverage_evidence_js (e\<lparr>le_contentHash := h\<rparr>)) =
      (if h = le_contentHash e then Ok e else Fail PLAN_HASH_MISMATCH)" if "hash_text h" for h
    using payload_js_parsed [OF acc(1) assms(3)] acc(2) that
    by (simp add: create_leverage_evidence_def payload shape leverage_payload_js_def leverage_payload_fields_def)
  from this [of "le_contentHash e"] this [of other] show ?thesis using hash by simp
qed

definition sample_leverage_input :: "sdec jsval" where
  "sample_leverage_input = JObj
     [(''schemaVersion'', JStr ''portfolio-risk-evidence/v1''), (''kind'', JStr ''target-leverage''),
      (''environment'', JStr ''testnet''), (''accountIdentityHash'', JStr sample_hash),
      (''accountEvidenceHash'', JStr sample_hash), (''symbol'', JStr ''ETHUSDT''),
      (''observedAt'', JStr ''2024-01-01T00:00:00Z''),
      (''rows'', JArr [JObj [(''positionIdx'', JInt 0), (''side'', JStr ''None''), (''size'', JStr ''0''),
        (''leverage'', JStr ''2''), (''isReduceOnly'', JBool False)]])]"

theorem leverage_evidence_round_trip_witness:
  "\<exists>e. create_leverage_evidence ref_lib sample_leverage_input = Ok e \<and>
     create_leverage_evidence ref_lib (leverage_evidence_js e) = Ok e"
proof -
  let ?r = "create_leverage_evidence ref_lib sample_leverage_input"
  have "map_sum (\<lambda>e. ()) le_observedAt ?r = Inr ''2024-01-01T00:00:00.000Z''" by code_simp
  then obtain e where e: "?r = Ok e" "le_observedAt e = ''2024-01-01T00:00:00.000Z''" by (cases ?r) auto
  have "parse_utc_timestamp (JStr (le_observedAt e) :: sdec jsval) = Ok (le_observedAt e)"
    unfolding e(2) by code_simp
  from leverage_evidence_round_trip [OF ref_host e(1) this] show ?thesis using e(1) by blast
qed

text \<open>What an accepted policy means, and what admitted supplemental leverage rests on.\<close>

context big_decimal
begin

lemma policy_decimal_value:
  assumes "policy_decimal L value positive belowOne = Ok d"
  shows "0 \<le> v d \<and> (positive \<longrightarrow> 0 < v d) \<and> (belowOne \<longrightarrow> v d < 1)"
proof -
  have "matches_decimal ''1''" "decimal_value ''1'' = 1" by code_simp+
  then have "v (planning_constant L ''1'') = 1" by (simp add: planning_constant_value)
  then show ?thesis using assms by (auto simp: policy_decimal_def need_Ok_iff split: if_splits)
qed

lemma create_risk_policy_bounds:
  assumes "create_risk_policy L input = Ok p"
  shows "0 \<le> v (rp_marginReserveRatio p) \<and> v (rp_marginReserveRatio p) < 1 \<and> 0 < v (rp_maxDerivativesLeverage p) \<and>
    0 \<le> v (rp_entryFeeRate p) \<and> 0 \<le> v (rp_exitFeeRate p) \<and> 0 \<le> v (rp_slippageBufferRate p) \<and>
    0 \<le> v (rp_minimumNetEdgeRate p) \<and> 1 \<le> rp_maxAccountEvidenceAgeMs p"
  using assms
  by (auto simp: create_risk_policy_def need_Ok_iff require_finite_integer_Ok dest: policy_decimal_value)

lemma validated_leverage_bound:
  assumes "validate_leverage_evidence L input bundle expected t policy = Ok r"
  shows "evidence_bound_to_account (vl_evidence r) bundle expected" "risk_eligible_account bundle" "0 < v (vl_leverage r)"
    "\<exists>row. le_rows (vl_evidence r) = [row] \<and> lv_leverage row = Some (vl_leverage r) \<and> v (lv_size row) = 0"
  using assms
  by (auto simp: validate_leverage_evidence_def need_Ok_iff require_identifier_Ok Let_def length_Suc_conv
      simp del: parser_simps)

end

end
