(* ===== verification/Exposure.thy ===== *)
theory Exposure
  imports PortfolioEvidence
begin

text \<open>
  \<open>domain/risk/portfolio-risk-projection.ts\<close>: what an \<open>ADD_LONG\<close> plan would leave the account
  exposed to. Positions, open orders, the planned legs and the wallet are added up in dollars
  line by line; anything that cannot be valued adds a reason code instead, and one reason is
  enough to withhold all totals.

  The plan, the account bundle and the policy are the typed values that their own parsers
  return; the content hashes that name them in the result are left out. Of the market bundle
  the records hold what the projection and the economics read.

  Shown here: the projection is complete exactly when an abstract valuation over rationals of
  positions, orders, legs and wallet is defined, and then its totals are that valuation; so no
  exposure is dropped silently, and none is counted twice.
\<close>

subsection \<open>Market data and plan\<close>

datatype instrument_status = Trading | NonTrading | StatusUnavailable

record 'd market_instrument =
  mi_symbol :: string
  mi_status :: instrument_status
  mi_contractType :: string
  mi_quoteCoin :: string
  mi_settleCoin :: string
  mi_constraints :: "'d instrument_constraints"

record 'd market_ticker =
  mt_observedAt :: string
  mt_fundingRate :: "'d option"

record 'd market_symbol =
  ms_symbol :: string
  ms_instrument :: "'d market_instrument option"
  ms_ticker :: "'d market_ticker option"

record 'd market_bundle =
  mb_symbols :: "'d market_symbol list"
  mb_collectionStartedAt :: string
  mb_collectionEndedAt :: string
  mb_bundleCutoff :: string
  mb_evidence :: "evidence_ref list"

record 'd risk_plan =
  pl_symbol :: string
  pl_recommendation :: daily_recommendation
  pl_candidateLegs :: "'d candidate_leg list option"
  pl_orderIntents :: "'d order_intent list option"
  pl_market :: "'d market_bundle"

subsection \<open>Lines and totals\<close>

datatype 'd projection_fact = KnownAmount 'd | UnavailableAmount | NotEvaluated

datatype line_source = FromPosition | FromOpenOrder | FromPlannedOrder | FromSpotInventory | FromCash

datatype supported_category = LinearCategory | InverseCategory | SpotCategory | OptionsCategory

datatype treatment = GrossExposure | ProtectiveClose | CashVisibility | Unvalued

record 'd exposure_line =
  el_source :: line_source
  el_category :: "supported_category option"
  el_symbol :: string
  el_side :: "string option"
  el_quantity :: "'d option"
  el_quantityUnit :: "fact_unit option"
  el_notionalUsd :: "'d option"
  el_treatment :: treatment

record 'd exposure_totals =
  et_derivatives :: 'd
  et_pending :: 'd
  et_planned :: 'd
  et_spot :: 'd
  et_exposures :: "'d exposure_line list"
  et_reasonCodes :: "block_reason set"

definition add_line :: "'d exposure_line \<Rightarrow> 'd exposure_totals \<Rightarrow> 'd exposure_totals" where
  "add_line l totals = totals\<lparr>et_exposures := et_exposures totals @ [l]\<rparr>"

definition add_reason :: "block_reason \<Rightarrow> 'd exposure_totals \<Rightarrow> 'd exposure_totals" where
  "add_reason r totals = totals\<lparr>et_reasonCodes := insert r (et_reasonCodes totals)\<rparr>"

definition category_of :: "string \<Rightarrow> supported_category option" where
  "category_of category =
     (if category = ''linear'' then Some LinearCategory else if category = ''inverse'' then Some InverseCategory
      else if category = ''spot'' then Some SpotCategory else if category = ''option'' then Some OptionsCategory
      else None)"

definition find_symbol :: "'d market_bundle \<Rightarrow> string \<Rightarrow> 'd market_symbol option" where
  "find_symbol market symbol = find (\<lambda>row. ms_symbol row = symbol) (mb_symbols market)"

definition supported_linear_instrument :: "'d market_bundle \<Rightarrow> string \<Rightarrow> 'd market_instrument option" where
  "supported_linear_instrument market symbol =
     (case Option.bind (find_symbol market symbol) ms_instrument of
        None \<Rightarrow> None
      | Some instrument \<Rightarrow>
          if mi_symbol instrument \<noteq> symbol \<or> ic_instrument (mi_constraints instrument) \<noteq> symbol \<or>
             mi_contractType instrument \<noteq> ''LinearPerpetual'' \<or> mi_quoteCoin instrument \<noteq> ''USDT'' \<or>
             mi_settleCoin instrument \<noteq> ''USDT''
          then None else Some instrument)"

subsection \<open>Positions\<close>

definition position_notional :: "'d lib \<Rightarrow> 'd account_position \<Rightarrow> 'd market_instrument option \<Rightarrow> 'd option" where
  "position_notional L position instrument =
     (case known_in Unit_contracts (ap_size position) of
        None \<Rightarrow> None
      | Some quantity \<Rightarrow>
          if is_zero L quantity then Some quantity
          else if instrument = None \<or> ap_category position \<noteq> ''linear'' then None
          else
            (case (case known_in Unit_USD (ap_positionValue position) of
                     Some worth \<Rightarrow> if is_positive L worth then Some worth else None | None \<Rightarrow> None) of
               Some worth \<Rightarrow> Some worth
             | None \<Rightarrow>
                 (case df_fact (ap_positionValue position) of
                    UnavailableFact r \<Rightarrow>
                      (case known_in Unit_price (ap_markPrice position) of
                         Some mark \<Rightarrow> if is_positive L mark then Some (dec_multiply L quantity mark) else None
                       | None \<Rightarrow> None)
                  | _ \<Rightarrow> None)))"

definition position_side_valid :: "'d lib \<Rightarrow> 'd account_position \<Rightarrow> bool" where
  "position_side_valid L position \<longleftrightarrow>
     (if (case df_fact (ap_size position) of Known quantity \<Rightarrow> is_zero L quantity | _ \<Rightarrow> True)
      then ap_side position \<in> {''None'', ''Buy'', ''Sell''}
      else ap_side position \<in> {''Buy'', ''Sell''} \<and>
        (ap_positionIdx position = 0 \<or> ap_positionIdx position = 1 \<and> ap_side position = ''Buy'' \<or>
         ap_positionIdx position = 2 \<and> ap_side position = ''Sell''))"

definition position_line ::
  "'d account_position \<Rightarrow> 'd option \<Rightarrow> 'd option \<Rightarrow> treatment \<Rightarrow> 'd exposure_line" where
  "position_line position quantity notional tr =
     \<lparr>el_source = FromPosition, el_category = category_of (ap_category position), el_symbol = ap_symbol position,
      el_side = Some (ap_side position), el_quantity = quantity, el_quantityUnit = Some (df_unit (ap_size position)),
      el_notionalUsd = notional, el_treatment = tr\<rparr>"

definition known_decimal :: "'d decimal_fact \<Rightarrow> 'd option" where
  "known_decimal f = (case df_fact f of Known x \<Rightarrow> Some x | _ \<Rightarrow> None)"

definition project_position ::
  "'d lib \<Rightarrow> 'd market_bundle \<Rightarrow> 'd account_position \<Rightarrow> 'd exposure_totals \<Rightarrow> 'd exposure_totals" where
  "project_position L market position totals =
     (let category = category_of (ap_category position);
          quantity = known_decimal (ap_size position);
          instrument = (if category = Some LinearCategory then supported_linear_instrument market (ap_symbol position) else None);
          notional = position_notional L position instrument;
          positive = (case quantity of Some q \<Rightarrow> is_positive L q | None \<Rightarrow> True);
          zeroSizeHasNotional = (case quantity of Some q \<Rightarrow> is_zero L q | None \<Rightarrow> False) \<and>
            (case df_fact (ap_positionValue position) of Known worth \<Rightarrow> \<not> is_zero L worth | _ \<Rightarrow> False)
      in
      if zeroSizeHasNotional
      then add_line (position_line position quantity None Unvalued) (add_reason CURRENT_STATE_UNVALUABLE totals)
      else if \<not> positive
      then add_line (position_line position quantity notional GrossExposure) totals
      else
        (case (category = Some LinearCategory, instrument, quantity, notional) of
           (True, Some i, Some q, Some n) \<Rightarrow>
             if position_side_valid L position \<and> is_positive L n
             then add_line (position_line position quantity notional GrossExposure\<lparr>el_quantityUnit := Some Unit_contracts\<rparr>)
               (totals\<lparr>et_derivatives := dec_add L (et_derivatives totals) n\<rparr>)
             else add_line (position_line position quantity None Unvalued) (add_reason CURRENT_STATE_UNVALUABLE totals)
         | _ \<Rightarrow>
             add_line (position_line position quantity None Unvalued)
               (add_reason (if category \<noteq> Some LinearCategory \<or> instrument = None then UNSUPPORTED_EXPOSURE
                 else CURRENT_STATE_UNVALUABLE) totals)))"

definition project_positions ::
  "'d lib \<Rightarrow> 'd critical_pass \<Rightarrow> 'd market_bundle \<Rightarrow> 'd exposure_totals \<Rightarrow> 'd exposure_totals" where
  "project_positions L pass market totals = fold (project_position L market) (cp_positions pass) totals"

subsection \<open>Planned legs and open orders\<close>

definition planned_line :: "'d candidate_leg \<Rightarrow> 'd exposure_line" where
  "planned_line leg =
     \<lparr>el_source = FromPlannedOrder, el_category = Some LinearCategory, el_symbol = oi_instrument (cl_intent leg),
      el_side = Some (case oi_side (cl_intent leg) of Buy \<Rightarrow> ''buy'' | Sell \<Rightarrow> ''sell''),
      el_quantity = Some (oi_quantity (cl_intent leg)), el_quantityUnit = Some Unit_contracts,
      el_notionalUsd = Some (oi_notional (cl_intent leg)), el_treatment = GrossExposure\<rparr>"

definition project_planned_leg :: "'d lib \<Rightarrow> 'd candidate_leg \<Rightarrow> 'd exposure_totals \<Rightarrow> 'd exposure_totals" where
  "project_planned_leg L leg totals =
     add_line (planned_line leg) (totals\<lparr>et_planned := dec_add L (et_planned totals) (oi_notional (cl_intent leg))\<rparr>)"

definition project_planned_orders :: "'d lib \<Rightarrow> 'd candidate_leg list \<Rightarrow> 'd exposure_totals \<Rightarrow> 'd exposure_totals" where
  "project_planned_orders L legs totals = fold (project_planned_leg L) legs totals"

definition projected_quantity_unit :: "fact_unit \<Rightarrow> fact_unit option" where
  "projected_quantity_unit u =
     (if u \<in> {Unit_contracts, Unit_coin, Unit_base_coin, Unit_quote_coin} then Some u else None)"

definition position_for_close :: "'d critical_pass \<Rightarrow> 'd account_order \<Rightarrow> 'd account_position option" where
  "position_for_close pass order =
     (case filter (\<lambda>position. ap_category position = ''linear'' \<and> ap_symbol position = ao_symbol order \<and>
         ap_positionIdx position = (case ao_positionIdx order of Known i \<Rightarrow> i | _ \<Rightarrow> -1)) (cp_positions pass) of
        [position] \<Rightarrow> Some position
      | _ \<Rightarrow> None)"

definition order_line :: "'d account_order \<Rightarrow> fact_unit option \<Rightarrow> 'd option \<Rightarrow> treatment \<Rightarrow> 'd exposure_line" where
  "order_line order u notional tr =
     \<lparr>el_source = FromOpenOrder, el_category = category_of (ao_category order), el_symbol = ao_symbol order,
      el_side = Some (ao_side order), el_quantity = known_decimal (ao_leavesQty order), el_quantityUnit = u,
      el_notionalUsd = notional, el_treatment = tr\<rparr>"

definition unvalued_order :: "'d account_order \<Rightarrow> 'd exposure_line" where
  "unvalued_order order = order_line order (projected_quantity_unit (df_unit (ao_leavesQty order))) None Unvalued"

definition order_price :: "'d lib \<Rightarrow> 'd account_order \<Rightarrow> 'd option" where
  "order_price L order =
     (case known_in Unit_price (ao_price order) of
        Some price \<Rightarrow> if is_positive L price then Some price else None | None \<Rightarrow> None)"

definition order_protective :: "'d account_order \<Rightarrow> bool" where
  "order_protective order \<longleftrightarrow> ao_reduceOnly order = Known True \<or> ao_closeOnTrigger order = Known True"

text \<open>The order closes no more than the one position it can belong to.\<close>

definition closes_position :: "'d lib \<Rightarrow> 'd critical_pass \<Rightarrow> 'd account_order \<Rightarrow> bool" where
  "closes_position L pass order \<longleftrightarrow>
     (case (position_for_close pass order, known_in Unit_contracts (ao_leavesQty order)) of
        (Some position, Some quantity) \<Rightarrow>
          known (ao_positionIdx order) \<and> ao_side order \<noteq> ap_side position \<and>
          ap_side position \<in> {''Buy'', ''Sell''} \<and>
          (case known_in Unit_contracts (ap_size position) of
             Some held \<Rightarrow> is_positive L held \<and> dec_compare L quantity held \<le> 0 | None \<Rightarrow> False)
      | _ \<Rightarrow> False)"

definition project_order ::
  "'d lib \<Rightarrow> 'd critical_pass \<Rightarrow> 'd market_bundle \<Rightarrow> string \<Rightarrow> 'd account_order \<Rightarrow> 'd exposure_totals \<Rightarrow> 'd exposure_totals" where
  "project_order L pass market targetSymbol order totals =
     (let quantity = known_decimal (ao_leavesQty order);
          contracts = known_in Unit_contracts (ao_leavesQty order);
          category = category_of (ao_category order);
          instrument = (if category = Some LinearCategory then supported_linear_instrument market (ao_symbol order) else None);
          supported = (category = Some LinearCategory \<and> instrument \<noteq> None)
      in
      if (case contracts of Some q \<Rightarrow> is_zero L q | None \<Rightarrow> False) then totals
      else if (case quantity of Some q \<Rightarrow> \<not> is_positive L q | None \<Rightarrow> False) then totals
      else if ao_symbol order = targetSymbol \<and> ao_positionIdx order \<noteq> Known 0
      then add_line (unvalued_order order) (add_reason POSITION_MODE_UNSUPPORTED totals)
      else if order_protective order
      then if \<not> supported \<or> \<not> closes_position L pass order
        then add_line (unvalued_order order) (add_reason CURRENT_STATE_UNVALUABLE totals)
        else add_line (order_line order (Some Unit_contracts)
               (case (order_price L order, quantity) of (Some price, Some q) \<Rightarrow> Some (dec_multiply L price q) | _ \<Rightarrow> None)
               ProtectiveClose) totals
      else
        (case (supported, contracts, order_price L order) of
           (True, Some q, Some price) \<Rightarrow>
             if is_positive L q \<and> ao_orderType order = ''Limit'' \<and> ao_side order \<in> {''Buy'', ''Sell''} \<and>
                known (ao_positionIdx order)
             then add_line (order_line order (Some Unit_contracts) (Some (dec_multiply L q price)) GrossExposure)
               (totals\<lparr>et_pending := dec_add L (et_pending totals) (dec_multiply L q price)\<rparr>)
             else add_line (unvalued_order order) (add_reason CURRENT_STATE_UNVALUABLE totals)
         | _ \<Rightarrow>
             add_line (unvalued_order order)
               (add_reason (if \<not> supported then UNSUPPORTED_EXPOSURE else CURRENT_STATE_UNVALUABLE) totals)))"

definition project_orders ::
  "'d lib \<Rightarrow> 'd critical_pass \<Rightarrow> 'd market_bundle \<Rightarrow> string \<Rightarrow> 'd exposure_totals \<Rightarrow> 'd exposure_totals" where
  "project_orders L pass market targetSymbol totals =
     fold (project_order L pass market targetSymbol) (cp_orders pass) totals"

subsection \<open>The wallet\<close>

definition check_liability_fact :: "'d lib \<Rightarrow> 'd decimal_fact \<Rightarrow> 'd exposure_totals \<Rightarrow> 'd exposure_totals" where
  "check_liability_fact L f totals =
     (case known_in Unit_coin f of
        None \<Rightarrow> add_reason REQUIRED_ACCOUNT_FACT_UNKNOWN totals
      | Some x \<Rightarrow> if is_zero L x then totals else add_reason ACCOUNT_LIABILITY_UNMODELED totals)"

definition check_liability_facts :: "'d lib \<Rightarrow> 'd decimal_fact list \<Rightarrow> 'd exposure_totals \<Rightarrow> 'd exposure_totals" where
  "check_liability_facts L facts totals = fold (check_liability_fact L) facts totals"

definition restriction_reason :: "'d account_asset \<Rightarrow> 'd exposure_totals \<Rightarrow> 'd exposure_totals" where
  "restriction_reason asset totals =
     (case aa_restricted asset of
        Known r \<Rightarrow>
          if r = RestrictionUnknown then add_reason REQUIRED_ACCOUNT_FACT_UNKNOWN totals
          else if r \<noteq> Unrestricted then add_reason ACCOUNT_RESTRICTION_ACTIVE totals else totals
      | _ \<Rightarrow> add_reason REQUIRED_ACCOUNT_FACT_UNKNOWN totals)"

definition collateral_established :: "'d account_asset \<Rightarrow> bool" where
  "collateral_established asset \<longleftrightarrow>
     known_in Unit_coin (aa_walletBalance asset) \<noteq> None \<and>
     (case aa_collateralEligible asset of
        Known eligible \<Rightarrow>
          if eligible then known (aa_collateralSwitch asset)
          else aa_collateralSwitch asset = NotApplicable \<or> aa_collateralSwitch asset = Known False
      | _ \<Rightarrow> False)"

definition is_cash :: "'d account_asset \<Rightarrow> bool" where
  "is_cash asset \<longleftrightarrow> aa_coin asset = ''USDT'' \<or> aa_coin asset = ''USDC''"

definition wallet_line :: "'d account_asset \<Rightarrow> line_source \<Rightarrow> 'd option \<Rightarrow> treatment \<Rightarrow> 'd exposure_line" where
  "wallet_line asset source notional tr =
     \<lparr>el_source = source, el_category = Some SpotCategory, el_symbol = aa_coin asset, el_side = None,
      el_quantity = known_decimal (aa_walletBalance asset), el_quantityUnit = Some Unit_coin,
      el_notionalUsd = notional, el_treatment = tr\<rparr>"

definition wallet_source :: "'d account_asset \<Rightarrow> line_source" where
  "wallet_source asset = (if is_cash asset then FromCash else FromSpotInventory)"

text \<open>The balance of one asset, after the checks of its restriction, liabilities and collateral facts.\<close>

definition project_balance :: "'d lib \<Rightarrow> 'd account_asset \<Rightarrow> 'd exposure_totals \<Rightarrow> 'd exposure_totals" where
  "project_balance L asset totals =
     (case known_decimal (aa_walletBalance asset) of
        None \<Rightarrow>
          add_line (wallet_line asset (wallet_source asset) None (if is_cash asset then CashVisibility else Unvalued))
            (if is_cash asset then totals else add_reason CURRENT_STATE_UNVALUABLE totals)
      | Some balance \<Rightarrow>
          if is_negative L balance
          then add_line (wallet_line asset (wallet_source asset) None Unvalued) (add_reason CURRENT_STATE_UNVALUABLE totals)
          else if is_zero L balance
          then
            (if (case known_decimal (aa_usdValue asset) of Some worth \<Rightarrow> is_positive L worth | None \<Rightarrow> False)
             then add_line (wallet_line asset (wallet_source asset) None Unvalued) (add_reason CURRENT_STATE_UNVALUABLE totals)
             else if is_cash asset
             then add_line (wallet_line asset FromCash (known_decimal (aa_usdValue asset)) CashVisibility) totals
             else totals)
          else if is_cash asset
          then add_line (wallet_line asset FromCash (known_decimal (aa_usdValue asset)) CashVisibility) totals
          else
            (case known_in Unit_USD (aa_usdValue asset) of
               Some worth \<Rightarrow>
                 if is_positive L worth
                 then add_line (wallet_line asset FromSpotInventory (Some worth) GrossExposure)
                   (totals\<lparr>et_spot := dec_add L (et_spot totals) worth\<rparr>)
                 else add_line (wallet_line asset FromSpotInventory None Unvalued) (add_reason CURRENT_STATE_UNVALUABLE totals)
             | None \<Rightarrow>
                 add_line (wallet_line asset FromSpotInventory None Unvalued) (add_reason CURRENT_STATE_UNVALUABLE totals)))"

definition project_asset :: "'d lib \<Rightarrow> 'd account_asset \<Rightarrow> 'd exposure_totals \<Rightarrow> 'd exposure_totals" where
  "project_asset L asset totals =
     (let totals = restriction_reason asset totals;
          totals = check_liability_facts L [aa_borrowAmount asset, aa_spotBorrow asset, aa_accruedInterest asset] totals;
          totals = (if collateral_established asset then totals else add_reason REQUIRED_ACCOUNT_FACT_UNKNOWN totals)
      in project_balance L asset totals)"

definition project_wallet :: "'d lib \<Rightarrow> 'd critical_pass \<Rightarrow> 'd exposure_totals \<Rightarrow> 'd exposure_totals" where
  "project_wallet L pass totals =
     (let totals = fold (\<lambda>c. check_liability_facts L [ac_borrowAmount c, ac_otherBorrowAmount c]) (cp_collateral pass) totals
      in fold (project_asset L) (cp_assets pass) totals)"

subsection \<open>The projection\<close>

datatype projection_status = ProjectionComplete | ProjectionBlocked | ProjectionNotEvaluated

record 'd add_projection =
  ad_status :: projection_status
  ad_reasonCodes :: "block_reason list"
  ad_availableBalance :: "'d projection_fact"
  ad_currentDerivatives :: "'d projection_fact"
  ad_pendingDerivatives :: "'d projection_fact"
  ad_plannedDerivatives :: "'d projection_fact"
  ad_spotInventory :: "'d projection_fact"
  ad_totalGrossExposure :: "'d projection_fact"
  ad_exposures :: "'d exposure_line list"

datatype 'd target_position = TargetAbsent | TargetKnown "'d account_position" | TargetAmbiguous

record 'd risk_projection =
  pj_targetSymbol :: string
  pj_recommendation :: daily_recommendation
  pj_evaluationTime :: string
  pj_sharedReasonCodes :: "block_reason list"
  pj_addProjection :: "'d add_projection"
  pj_targetPosition :: "'d target_position"

definition incomplete_account :: "'d account_bundle \<Rightarrow> bool" where
  "incomplete_account bundle \<longleftrightarrow>
     ab_collectionStatus bundle \<noteq> CollectionComplete \<or> \<not> ab_consistent bundle \<or> ab_passB bundle = None \<or>
     ab_collectionEndedAt bundle = None \<or> ab_bundleCutoff bundle = None"

definition age_reasons :: "'d account_bundle \<Rightarrow> 'd risk_policy \<Rightarrow> string \<Rightarrow> block_reason set" where
  "age_reasons bundle policy evaluationTime =
     (case ab_collectionEndedAt bundle of
        None \<Rightarrow> {}
      | Some endedAt \<Rightarrow>
          let age = epoch_ms evaluationTime - epoch_ms endedAt in
          if age < 0 then {ACCOUNT_EVIDENCE_FUTURE}
          else if rp_maxAccountEvidenceAgeMs policy < age then {ACCOUNT_EVIDENCE_STALE} else {})"

definition regular_margin :: "'d account_bundle \<Rightarrow> bool" where
  "regular_margin bundle \<longleftrightarrow>
     ab_marginCompatibility bundle = RegularMargin \<and>
     (case ab_passB bundle of None \<Rightarrow> False | Some pass \<Rightarrow> cp_marginMode pass = Known ''REGULAR_MARGIN'')"

definition shared_reasons :: "'d account_bundle \<Rightarrow> 'd risk_policy \<Rightarrow> string \<Rightarrow> string \<Rightarrow> block_reason set" where
  "shared_reasons bundle policy evaluationTime symbol =
     (if incomplete_account bundle then {ACCOUNT_EVIDENCE_INCOMPLETE} else {}) \<union>
     age_reasons bundle policy evaluationTime \<union>
     (if regular_margin bundle then {} else {ACCOUNT_MODE_UNSUPPORTED}) \<union>
     (if map_of (ab_positionModes bundle) symbol = Some ModeOneWay then {} else {POSITION_MODE_UNSUPPORTED}) \<union>
     (if symbol \<in> set (ab_configuredM1Symbols bundle) then {} else {INPUT_IDENTITY_MISMATCH})"

definition target_position_of :: "'d account_bundle \<Rightarrow> string \<Rightarrow> 'd target_position" where
  "target_position_of bundle symbol =
     (case (case ab_passB bundle of None \<Rightarrow> []
        | Some pass \<Rightarrow> filter (\<lambda>position. ap_symbol position = symbol) (cp_positions pass)) of
        [] \<Rightarrow> TargetAbsent
      | [position] \<Rightarrow> if ap_category position = ''linear'' then TargetKnown position else TargetAmbiguous
      | _ \<Rightarrow> TargetAmbiguous)"

definition empty_add_projection :: "'d add_projection" where
  "empty_add_projection =
     \<lparr>ad_status = ProjectionNotEvaluated, ad_reasonCodes = [], ad_availableBalance = NotEvaluated,
      ad_currentDerivatives = NotEvaluated, ad_pendingDerivatives = NotEvaluated, ad_plannedDerivatives = NotEvaluated,
      ad_spotInventory = NotEvaluated, ad_totalGrossExposure = NotEvaluated, ad_exposures = []\<rparr>"

definition zero_totals :: "'d lib \<Rightarrow> 'd exposure_totals" where
  "zero_totals L =
     \<lparr>et_derivatives = dec_zero L, et_pending = dec_zero L, et_planned = dec_zero L, et_spot = dec_zero L,
      et_exposures = [], et_reasonCodes = {}\<rparr>"

definition trading_target :: "'d market_bundle \<Rightarrow> string \<Rightarrow> bool" where
  "trading_target market symbol \<longleftrightarrow>
     (case Option.bind (find_symbol market symbol) ms_instrument of
        Some instrument \<Rightarrow> mi_status instrument = Trading | None \<Rightarrow> False)"

definition projected_totals ::
  "'d lib \<Rightarrow> 'd critical_pass \<Rightarrow> 'd market_bundle \<Rightarrow> string \<Rightarrow> 'd candidate_leg list \<Rightarrow> 'd exposure_totals" where
  "projected_totals L pass market symbol legs =
     (let totals = zero_totals L;
          totals = (if known_in Unit_USD (cp_totalAvailableBalance pass) = None
            then add_reason AVAILABLE_BALANCE_UNKNOWN totals else totals);
          totals = (if trading_target market symbol then totals else add_reason TARGET_INSTRUMENT_NOT_TRADING totals);
          totals = project_positions L pass market totals;
          totals = project_orders L pass market symbol totals;
          totals = project_planned_orders L legs totals
      in project_wallet L pass totals)"

definition add_projection_of :: "'d lib \<Rightarrow> 'd critical_pass \<Rightarrow> 'd exposure_totals \<Rightarrow> 'd add_projection" where
  "add_projection_of L pass totals =
     (let reasonCodes = normalized_reasons (et_reasonCodes totals);
          complete = (reasonCodes = []);
          totalGross = dec_add L (dec_add L (dec_add L (et_derivatives totals) (et_pending totals)) (et_planned totals))
            (et_spot totals);
          amount = (\<lambda>x. if complete then KnownAmount x else UnavailableAmount)
      in \<lparr>ad_status = (if complete then ProjectionComplete else ProjectionBlocked), ad_reasonCodes = reasonCodes,
          ad_availableBalance = (case known_in Unit_USD (cp_totalAvailableBalance pass) of
            Some x \<Rightarrow> KnownAmount x | None \<Rightarrow> UnavailableAmount),
          ad_currentDerivatives = amount (et_derivatives totals), ad_pendingDerivatives = amount (et_pending totals),
          ad_plannedDerivatives = amount (et_planned totals), ad_spotInventory = amount (et_spot totals),
          ad_totalGrossExposure = amount totalGross, ad_exposures = et_exposures totals\<rparr>)"

definition planned_legs :: "'d risk_plan \<Rightarrow> string option \<Rightarrow> 'd candidate_leg list result" where
  "planned_legs plan selectedLegId =
     need_some INVALID_EVIDENCE (pl_candidateLegs plan) (\<lambda>legs.
     (case selectedLegId of
        None \<Rightarrow> Ok legs
      | Some legId \<Rightarrow>
          let selected = filter (\<lambda>leg. cl_legId leg = legId) legs in
          guard INVALID_EVIDENCE (length selected = 1) (Ok selected)))"

definition build_projection ::
  "'d lib \<Rightarrow> 'd risk_plan \<Rightarrow> 'd account_bundle \<Rightarrow> 'd risk_policy \<Rightarrow> string \<Rightarrow> string option \<Rightarrow> 'd risk_projection result" where
  "build_projection L plan bundle policy evaluationTime selectedLegId =
     (let symbol = pl_symbol plan;
          shared = normalized_reasons (shared_reasons bundle policy evaluationTime symbol) in
      rbind
        (case ab_passB bundle of
           Some pass \<Rightarrow>
             if shared = [] \<and> pl_recommendation plan = ADD_LONG
             then rbind (planned_legs plan selectedLegId) (\<lambda>legs.
               Ok (add_projection_of L pass (projected_totals L pass (pl_market plan) symbol legs)))
             else Ok empty_add_projection
         | None \<Rightarrow> Ok empty_add_projection) (\<lambda>addProjection.
      Ok \<lparr>pj_targetSymbol = symbol, pj_recommendation = pl_recommendation plan, pj_evaluationTime = evaluationTime,
          pj_sharedReasonCodes = shared, pj_addProjection = addProjection,
          pj_targetPosition = target_position_of bundle symbol\<rparr>))"

subsection \<open>The abstract valuation\<close>

text \<open>
  What each item is worth in dollars, over rationals; \<open>None\<close> when it cannot be valued or must
  not be accepted.
\<close>

definition marked_value :: "('d \<Rightarrow> rat) \<Rightarrow> 'd account_position \<Rightarrow> rat \<Rightarrow> rat option" where
  "marked_value v position quantity =
     (case df_fact (ap_positionValue position) of
        Known worth \<Rightarrow> if df_unit (ap_positionValue position) = Unit_USD \<and> 0 < v worth then Some (v worth) else None
      | NotApplicable \<Rightarrow> None
      | UnavailableFact r \<Rightarrow>
          (case known_in Unit_price (ap_markPrice position) of
             Some mark \<Rightarrow> if 0 < v mark then Some (quantity * v mark) else None | None \<Rightarrow> None))"

definition side_fits :: "'d account_position \<Rightarrow> bool" where
  "side_fits position \<longleftrightarrow> (ap_side position, ap_positionIdx position) \<in>
     {(''Buy'', 0), (''Sell'', 0), (''Buy'', 1), (''Sell'', 2)}"

definition position_exposure :: "('d \<Rightarrow> rat) \<Rightarrow> 'd market_bundle \<Rightarrow> 'd account_position \<Rightarrow> rat option" where
  "position_exposure v market position =
     (case known_decimal (ap_size position) of
        None \<Rightarrow> None
      | Some quantity \<Rightarrow>
          if v quantity < 0 then Some 0
          else if v quantity = 0 then
            (case df_fact (ap_positionValue position) of Known worth \<Rightarrow> if v worth = 0 then Some 0 else None | _ \<Rightarrow> Some 0)
          else if ap_category position = ''linear'' \<and> supported_linear_instrument market (ap_symbol position) \<noteq> None \<and>
            df_unit (ap_size position) = Unit_contracts \<and> side_fits position
          then marked_value v position (v quantity) else None)"

definition order_exposure ::
  "('d \<Rightarrow> rat) \<Rightarrow> 'd lib \<Rightarrow> 'd critical_pass \<Rightarrow> 'd market_bundle \<Rightarrow> string \<Rightarrow> 'd account_order \<Rightarrow> rat option" where
  "order_exposure v L pass market target order =
     (let supported = ao_category order = ''linear'' \<and> supported_linear_instrument market (ao_symbol order) \<noteq> None in
      case known_decimal (ao_leavesQty order) of
        Some quantity \<Rightarrow>
          if v quantity \<le> 0 then Some 0
          else if ao_symbol order = target \<and> ao_positionIdx order \<noteq> Known 0 then None
          else if order_protective order then (if supported \<and> closes_position L pass order then Some 0 else None)
          else
            (case known_in Unit_price (ao_price order) of
               None \<Rightarrow> None
             | Some price \<Rightarrow>
                 if supported \<and> df_unit (ao_leavesQty order) = Unit_contracts \<and> 0 < v price \<and>
                    ao_orderType order = ''Limit'' \<and> ao_side order \<in> {''Buy'', ''Sell''} \<and> known (ao_positionIdx order)
                 then Some (v quantity * v price) else None)
      | None \<Rightarrow> None)"

definition free_of_debt :: "('d \<Rightarrow> rat) \<Rightarrow> 'd decimal_fact list \<Rightarrow> bool" where
  "free_of_debt v facts \<longleftrightarrow>
     (\<forall>f \<in> set facts. case known_in Unit_coin f of Some x \<Rightarrow> v x = 0 | None \<Rightarrow> False)"

definition asset_exposure :: "('d \<Rightarrow> rat) \<Rightarrow> 'd account_asset \<Rightarrow> rat option" where
  "asset_exposure v asset =
     (if aa_restricted asset = Known Unrestricted \<and> collateral_established asset \<and>
         free_of_debt v [aa_borrowAmount asset, aa_spotBorrow asset, aa_accruedInterest asset]
      then
        (case known_decimal (aa_walletBalance asset) of
           None \<Rightarrow> None
         | Some balance \<Rightarrow>
             if v balance < 0 then None
             else if v balance = 0 then
               (case known_decimal (aa_usdValue asset) of Some worth \<Rightarrow> if 0 < v worth then None else Some 0 | None \<Rightarrow> Some 0)
             else if is_cash asset then Some 0
             else (case known_in Unit_USD (aa_usdValue asset) of
                     Some worth \<Rightarrow> if 0 < v worth then Some (v worth) else None | None \<Rightarrow> None))
      else None)"

text \<open>
  A step of one of the loops: it adds a reason exactly when its item has no worth, and otherwise
  the item's worth to the amount it is responsible for.
\<close>

locale valued_step =
  fixes step :: "'x \<Rightarrow> 'd exposure_totals \<Rightarrow> 'd exposure_totals"
    and worth :: "'x \<Rightarrow> rat option"
    and amount :: "'d exposure_totals \<Rightarrow> rat"
    and others :: "'d exposure_totals \<Rightarrow> rat list"
  assumes reasons_step: "et_reasonCodes (step x t) = {} \<longleftrightarrow> et_reasonCodes t = {} \<and> worth x \<noteq> None"
    and amount_step: "worth x = Some w \<Longrightarrow> amount (step x t) = amount t + w"
    and others_step: "others (step x t) = others t"
begin

lemma reasons_fold: "et_reasonCodes (fold step xs t) = {} \<longleftrightarrow> et_reasonCodes t = {} \<and> (\<forall>x \<in> set xs. worth x \<noteq> None)"
  by (induction xs arbitrary: t) (auto simp: reasons_step)

lemma amount_fold: "\<forall>x \<in> set xs. worth x \<noteq> None \<Longrightarrow> amount (fold step xs t) = amount t + (\<Sum>x \<leftarrow> xs. the (worth x))"
  by (induction xs arbitrary: t) (auto simp: amount_step)

lemma others_fold: "others (fold step xs t) = others t"
  by (induction xs arbitrary: t) (auto simp: others_step)

end

lemma add_simps [simp]:
  "et_reasonCodes (add_line l t) = et_reasonCodes t" "et_reasonCodes (add_reason r t) = insert r (et_reasonCodes t)"
  "et_derivatives (add_line l t) = et_derivatives t" "et_derivatives (add_reason r t) = et_derivatives t"
  "et_pending (add_line l t) = et_pending t" "et_pending (add_reason r t) = et_pending t"
  "et_planned (add_line l t) = et_planned t" "et_planned (add_reason r t) = et_planned t"
  "et_spot (add_line l t) = et_spot t" "et_spot (add_reason r t) = et_spot t"
  by (simp_all add: add_line_def add_reason_def)

lemma category_linear [simp]: "category_of c = Some LinearCategory \<longleftrightarrow> c = ''linear''"
  by (simp add: category_of_def)

subsection \<open>The loops compute the valuation\<close>

text \<open>
  Everything can be valued: the available balance is known in dollars, the target instrument is
  trading, every position and open order and every asset has a worth, and no collateral is owed.
\<close>

definition fully_valued ::
  "('d \<Rightarrow> rat) \<Rightarrow> 'd lib \<Rightarrow> 'd critical_pass \<Rightarrow> 'd market_bundle \<Rightarrow> string \<Rightarrow> bool" where
  "fully_valued v L pass market target \<longleftrightarrow>
     known_in Unit_USD (cp_totalAvailableBalance pass) \<noteq> None \<and> trading_target market target \<and>
     (\<forall>p \<in> set (cp_positions pass). position_exposure v market p \<noteq> None) \<and>
     (\<forall>order \<in> set (cp_orders pass). order_exposure v L pass market target order \<noteq> None) \<and>
     (\<forall>c \<in> set (cp_collateral pass). free_of_debt v [ac_borrowAmount c, ac_otherBorrowAmount c]) \<and>
     (\<forall>asset \<in> set (cp_assets pass). asset_exposure v asset \<noteq> None)"

text \<open>All loops together.\<close>

definition gross_exposure ::
  "('d \<Rightarrow> rat) \<Rightarrow> 'd lib \<Rightarrow> 'd critical_pass \<Rightarrow> 'd market_bundle \<Rightarrow> string \<Rightarrow> 'd candidate_leg list \<Rightarrow> rat option" where
  "gross_exposure v L pass market target legs =
     (if fully_valued v L pass market target
      then Some ((\<Sum>p \<leftarrow> cp_positions pass. the (position_exposure v market p)) +
        (\<Sum>order \<leftarrow> cp_orders pass. the (order_exposure v L pass market target order)) +
        (\<Sum>leg \<leftarrow> legs. v (oi_notional (cl_intent leg))) +
        (\<Sum>asset \<leftarrow> cp_assets pass. the (asset_exposure v asset)))
      else None)"

text \<open>What one step may do to the totals: block them, or add a worth to its amount.\<close>

definition blocks :: "'d exposure_totals \<Rightarrow> 'd exposure_totals \<Rightarrow> bool" where
  "blocks t t' \<longleftrightarrow> et_reasonCodes t' \<noteq> {} \<and> et_derivatives t' = et_derivatives t \<and> et_pending t' = et_pending t \<and>
     et_planned t' = et_planned t \<and> et_spot t' = et_spot t"

lemma blocks_simps [simp]: "blocks t (add_line l (add_reason r t))" "blocks t (add_reason r t)"
  by (simp_all add: blocks_def)

lemma known_in_decimal: "known_in u f = (if df_unit f = u then known_decimal f else None)"
  by (simp add: known_in_def known_decimal_def split: fact.splits)

context big_decimal
begin

lemma position_notional_value:
  assumes "known_in Unit_contracts (ap_size p) = Some q" "0 < v q" "ap_category p = ''linear''" "instrument \<noteq> None"
  shows "(case position_notional L p instrument of Some n \<Rightarrow> if 0 < v n then Some (v n) else None | None \<Rightarrow> None) =
    marked_value v p (v q)"
proof -
  have "0 < v q * v m" if "0 < v m" for m using assms(2) that by simp
  then show ?thesis using assms
    by (auto simp: position_notional_def marked_value_def known_in_def split: fact.splits option.splits)
qed

lemma open_position_effect:
  assumes "known_decimal (ap_size p) = Some q" "0 < v q"
  shows "case position_exposure v market p of None \<Rightarrow> blocks t (project_position L market p t)
    | Some w \<Rightarrow> \<exists>n l. v n = w \<and> project_position L market p t = add_line l (t\<lparr>et_derivatives := dec_add L (et_derivatives t) n\<rparr>)"
proof -
  have side: "position_side_valid L p \<longleftrightarrow> side_fits p"
    using assms(1,2) by (auto simp: position_side_valid_def side_fits_def known_decimal_def split: fact.splits)
  let ?i = "supported_linear_instrument market (ap_symbol p)"
  consider (no) "ap_category p \<noteq> ''linear'' \<or> ?i = None" | (unit) "ap_category p = ''linear''" "?i \<noteq> None" "df_unit (ap_size p) \<noteq> Unit_contracts"
    | (yes) i where "ap_category p = ''linear''" "?i = Some i" "df_unit (ap_size p) = Unit_contracts"
    by blast
  then show ?thesis
  proof cases
    case no
    then show ?thesis using assms(1,2) by (auto simp: project_position_def position_exposure_def Let_def)
  next
    case unit
    then show ?thesis using assms(1,2)
      by (auto simp: project_position_def position_exposure_def Let_def position_notional_def known_in_decimal)
  next
    case yes
    then have q: "known_in Unit_contracts (ap_size p) = Some q" using assms(1) by (simp add: known_in_decimal)
    note n = position_notional_value [OF q assms(2) yes(1), of "Some i"]
    show ?thesis
    proof (cases "position_notional L p (Some i)")
      case None
      then show ?thesis using yes assms(1,2) n
        by (auto simp: project_position_def position_exposure_def Let_def)
    next
      case (Some w)
      then have "marked_value v p (v q) = (if 0 < v w then Some (v w) else None)" using n by simp
      then show ?thesis using yes assms(1,2) side Some
        by (auto simp: project_position_def position_exposure_def Let_def)
    qed
  qed
qed

lemma position_step:
  "valued_step (project_position L market) (position_exposure v market) (\<lambda>t. v (et_derivatives t))
     (\<lambda>t. [v (et_pending t), v (et_planned t), v (et_spot t)])"
proof -
  have effect: "case position_exposure v market p of None \<Rightarrow> blocks t (project_position L market p t)
    | Some w \<Rightarrow> \<exists>n l. v n = w \<and> project_position L market p t = add_line l (t\<lparr>et_derivatives := dec_add L (et_derivatives t) n\<rparr>)
        \<or> w = 0 \<and> project_position L market p t = add_line l t" for p t
  proof (cases "known_decimal (ap_size p)")
    case None
    then show ?thesis by (auto simp: project_position_def position_exposure_def Let_def split: option.splits)
  next
    case (Some q)
    consider "v q < 0" | "v q = 0" | "0 < v q" by linarith
    then show ?thesis
    proof cases
      case 1
      then show ?thesis using Some by (auto simp: project_position_def position_exposure_def Let_def)
    next
      case 2
      then show ?thesis using Some
        by (auto simp: project_position_def position_exposure_def Let_def split: fact.splits)
    next
      case 3
      then show ?thesis using open_position_effect [OF Some 3, where market = market and t = t] by (auto split: option.splits)
    qed
  qed
  show ?thesis
  proof
    fix x t w
    show "et_reasonCodes (project_position L market x t) = {} \<longleftrightarrow> et_reasonCodes t = {} \<and> position_exposure v market x \<noteq> None"
      using effect [where p = x and t = t] by (cases "position_exposure v market x") (auto simp: blocks_def)
    show "position_exposure v market x = Some w \<Longrightarrow>
        v (et_derivatives (project_position L market x t)) = v (et_derivatives t) + w"
      using effect [where p = x and t = t] by auto
    show "[v (et_pending (project_position L market x t)), v (et_planned (project_position L market x t)),
        v (et_spot (project_position L market x t))] = [v (et_pending t), v (et_planned t), v (et_spot t)]"
      using effect [where p = x and t = t] by (cases "position_exposure v market x") (auto simp: blocks_def)
  qed
qed

lemma order_price_value:
  "order_price L order = Some price \<longleftrightarrow> known_in Unit_price (ao_price order) = Some price \<and> 0 < v price"
  by (auto simp: order_price_def split: option.splits)

lemma order_step:
  "valued_step (project_order L pass market target) (order_exposure v L pass market target) (\<lambda>t. v (et_pending t))
     (\<lambda>t. [v (et_derivatives t), v (et_planned t), v (et_spot t)])"
proof -
  have effect: "case order_exposure v L pass market target order of None \<Rightarrow> blocks t (project_order L pass market target order t)
    | Some w \<Rightarrow> (let t' = project_order L pass market target order t in et_reasonCodes t' = et_reasonCodes t \<and>
        v (et_pending t') = v (et_pending t) + w \<and> et_derivatives t' = et_derivatives t \<and> et_planned t' = et_planned t \<and>
        et_spot t' = et_spot t)" for order t
  proof (cases "known_decimal (ao_leavesQty order)")
    case None
    then have "\<not> closes_position L pass order"
      by (auto simp: closes_position_def known_in_decimal split: option.splits)
    then show ?thesis using None
      by (auto simp: project_order_def order_exposure_def Let_def known_in_decimal [of _ "ao_leavesQty order"])
  next
    case (Some q)
    let ?supported = "ao_category order = ''linear'' \<and> supported_linear_instrument market (ao_symbol order) \<noteq> None"
    consider (gone) "v q \<le> 0" | (mode) "0 < v q" "ao_symbol order = target" "ao_positionIdx order \<noteq> Known 0"
      | (protective) "0 < v q" "\<not> (ao_symbol order = target \<and> ao_positionIdx order \<noteq> Known 0)" "order_protective order"
      | (entry) "0 < v q" "\<not> (ao_symbol order = target \<and> ao_positionIdx order \<noteq> Known 0)" "\<not> order_protective order"
      by linarith
    then show ?thesis
    proof cases
      case gone
      then show ?thesis using Some by (auto simp: project_order_def order_exposure_def Let_def)
    next
      case mode
      then show ?thesis using Some by (auto simp: project_order_def order_exposure_def Let_def known_in_decimal)
    next
      case protective
      then show ?thesis using Some
        by (cases ?supported) (auto simp: project_order_def order_exposure_def Let_def known_in_decimal)
    next
      case entry
      show ?thesis
      proof (cases "?supported \<and> df_unit (ao_leavesQty order) = Unit_contracts \<and> order_price L order \<noteq> None")
        case False
        then show ?thesis using Some entry
          by (cases ?supported; cases "known_in Unit_price (ao_price order)")
            (auto simp: project_order_def order_exposure_def Let_def known_in_decimal [of _ "ao_leavesQty order"]
              order_price_def split: option.splits if_splits)
      next
        case True
        then obtain price where "known_in Unit_price (ao_price order) = Some price" "0 < v price" "order_price L order = Some price"
          by (auto simp: order_price_value)
        then show ?thesis using Some entry True
          by (auto simp: project_order_def order_exposure_def Let_def known_in_decimal [of _ "ao_leavesQty order"])
      qed
    qed
  qed
  show ?thesis
  proof
    fix x t w
    show "et_reasonCodes (project_order L pass market target x t) = {} \<longleftrightarrow>
        et_reasonCodes t = {} \<and> order_exposure v L pass market target x \<noteq> None"
      using effect [where order = x and t = t]
      by (cases "order_exposure v L pass market target x") (auto simp: blocks_def Let_def)
    show "order_exposure v L pass market target x = Some w \<Longrightarrow>
        v (et_pending (project_order L pass market target x t)) = v (et_pending t) + w"
      using effect [where order = x and t = t] by (auto simp: Let_def)
    show "[v (et_derivatives (project_order L pass market target x t)), v (et_planned (project_order L pass market target x t)),
        v (et_spot (project_order L pass market target x t))] = [v (et_derivatives t), v (et_planned t), v (et_spot t)]"
      using effect [where order = x and t = t]
      by (cases "order_exposure v L pass market target x") (auto simp: blocks_def Let_def)
  qed
qed

lemma planned_step:
  "valued_step (project_planned_leg L) (\<lambda>leg. Some (v (oi_notional (cl_intent leg)))) (\<lambda>t. v (et_planned t))
     (\<lambda>t. [v (et_derivatives t), v (et_pending t), v (et_spot t)])"
  by unfold_locales (auto simp: project_planned_leg_def)

text \<open>The checks of the wallet change no amount.\<close>

lemma liability_reasons:
  "et_reasonCodes (check_liability_facts L facts t) = {} \<longleftrightarrow> et_reasonCodes t = {} \<and> free_of_debt v facts"
  by (induction facts arbitrary: t)
    (auto simp: check_liability_facts_def check_liability_fact_def free_of_debt_def split: option.splits)

lemma liability_amounts:
  "et_derivatives (check_liability_facts L facts t) = et_derivatives t" "et_pending (check_liability_facts L facts t) = et_pending t"
  "et_planned (check_liability_facts L facts t) = et_planned t" "et_spot (check_liability_facts L facts t) = et_spot t"
  by (induction facts arbitrary: t)
    (auto simp: check_liability_facts_def check_liability_fact_def split: option.splits)

lemma restriction_effect:
  "et_reasonCodes (restriction_reason asset t) = {} \<longleftrightarrow> et_reasonCodes t = {} \<and> aa_restricted asset = Known Unrestricted"
  "et_derivatives (restriction_reason asset t) = et_derivatives t" "et_pending (restriction_reason asset t) = et_pending t"
  "et_planned (restriction_reason asset t) = et_planned t" "et_spot (restriction_reason asset t) = et_spot t"
  by (auto simp: restriction_reason_def split: fact.splits)

lemma collateral_step:
  "valued_step (\<lambda>c. check_liability_facts L [ac_borrowAmount c, ac_otherBorrowAmount c])
     (\<lambda>c. if free_of_debt v [ac_borrowAmount c, ac_otherBorrowAmount c] then Some 0 else None) (\<lambda>t. v (et_spot t))
     (\<lambda>t. [v (et_derivatives t), v (et_pending t), v (et_planned t)])"
  by unfold_locales (auto simp: liability_reasons liability_amounts split: if_splits)

lemma established_balance: "collateral_established asset \<Longrightarrow> known_decimal (aa_walletBalance asset) \<noteq> None"
  by (auto simp: collateral_established_def known_in_decimal split: if_splits)

lemma asset_step:
  "valued_step (project_asset L) (asset_exposure v) (\<lambda>t. v (et_spot t))
     (\<lambda>t. [v (et_derivatives t), v (et_pending t), v (et_planned t)])"
proof -
  define checked where "checked asset t = (let totals = check_liability_facts L
      [aa_borrowAmount asset, aa_spotBorrow asset, aa_accruedInterest asset] (restriction_reason asset t)
    in if collateral_established asset then totals else add_reason REQUIRED_ACCOUNT_FACT_UNKNOWN totals)"
    for asset :: "'d account_asset" and t
  have checked: "et_reasonCodes (checked asset t) = {} \<longleftrightarrow> et_reasonCodes t = {} \<and> aa_restricted asset = Known Unrestricted \<and>
      collateral_established asset \<and> free_of_debt v [aa_borrowAmount asset, aa_spotBorrow asset, aa_accruedInterest asset]"
    "et_derivatives (checked asset t) = et_derivatives t" "et_pending (checked asset t) = et_pending t"
    "et_planned (checked asset t) = et_planned t" "et_spot (checked asset t) = et_spot t" for asset t
    by (auto simp: checked_def Let_def liability_reasons liability_amounts restriction_effect)
  have project: "project_asset L asset t = project_balance L asset (checked asset t)" for asset t
    by (simp add: project_asset_def checked_def Let_def)
  have amounts: "et_derivatives (project_balance L asset t) = et_derivatives t" "et_pending (project_balance L asset t) = et_pending t"
    "et_planned (project_balance L asset t) = et_planned t" for asset t
    by (auto simp: project_balance_def split: option.splits)
  show ?thesis
  proof
    fix x t w
    show "et_reasonCodes (project_asset L x t) = {} \<longleftrightarrow> et_reasonCodes t = {} \<and> asset_exposure v x \<noteq> None"
      by (auto simp: project project_balance_def asset_exposure_def checked(1) dest: established_balance split: option.splits)
    show "asset_exposure v x = Some w \<Longrightarrow> v (et_spot (project_asset L x t)) = v (et_spot t) + w"
      by (auto simp: project project_balance_def asset_exposure_def checked(5) split: option.splits if_splits)
    show "[v (et_derivatives (project_asset L x t)), v (et_pending (project_asset L x t)), v (et_planned (project_asset L x t))] =
        [v (et_derivatives t), v (et_pending t), v (et_planned t)]"
      by (simp add: project amounts checked)
  qed
qed

lemma wallet_effect:
  "et_reasonCodes (project_wallet L pass t) = {} \<longleftrightarrow> et_reasonCodes t = {} \<and>
     (\<forall>c \<in> set (cp_collateral pass). free_of_debt v [ac_borrowAmount c, ac_otherBorrowAmount c]) \<and>
     (\<forall>asset \<in> set (cp_assets pass). asset_exposure v asset \<noteq> None)"
  "v (et_derivatives (project_wallet L pass t)) = v (et_derivatives t)" "v (et_pending (project_wallet L pass t)) = v (et_pending t)"
  "v (et_planned (project_wallet L pass t)) = v (et_planned t)"
  "\<forall>c \<in> set (cp_collateral pass). free_of_debt v [ac_borrowAmount c, ac_otherBorrowAmount c] \<Longrightarrow>
    \<forall>asset \<in> set (cp_assets pass). asset_exposure v asset \<noteq> None \<Longrightarrow>
    v (et_spot (project_wallet L pass t)) = v (et_spot t) + (\<Sum>asset \<leftarrow> cp_assets pass. the (asset_exposure v asset))"
proof -
  note c = valued_step.reasons_fold [OF collateral_step] valued_step.others_fold [OF collateral_step]
  note a = valued_step.reasons_fold [OF asset_step] valued_step.others_fold [OF asset_step]
  show "et_reasonCodes (project_wallet L pass t) = {} \<longleftrightarrow> et_reasonCodes t = {} \<and>
     (\<forall>c \<in> set (cp_collateral pass). free_of_debt v [ac_borrowAmount c, ac_otherBorrowAmount c]) \<and>
     (\<forall>asset \<in> set (cp_assets pass). asset_exposure v asset \<noteq> None)"
    by (auto simp: project_wallet_def c a split: if_splits)
  show "v (et_derivatives (project_wallet L pass t)) = v (et_derivatives t)" "v (et_pending (project_wallet L pass t)) = v (et_pending t)"
    "v (et_planned (project_wallet L pass t)) = v (et_planned t)"
    using c(2) [of "cp_collateral pass" t] a(2) [of "cp_assets pass"] by (simp_all add: project_wallet_def)
  assume debt: "\<forall>c \<in> set (cp_collateral pass). free_of_debt v [ac_borrowAmount c, ac_otherBorrowAmount c]"
    and worth: "\<forall>asset \<in> set (cp_assets pass). asset_exposure v asset \<noteq> None"
  have "(\<Sum>c \<leftarrow> cp_collateral pass. the (if free_of_debt v [ac_borrowAmount c, ac_otherBorrowAmount c] then Some 0 else None)) = (0 :: rat)"
    using debt by (simp cong: map_cong)
  then show "v (et_spot (project_wallet L pass t)) = v (et_spot t) + (\<Sum>asset \<leftarrow> cp_assets pass. the (asset_exposure v asset))"
    using valued_step.amount_fold [OF asset_step worth] valued_step.amount_fold [OF collateral_step, of "cp_collateral pass" t] debt
    by (simp add: project_wallet_def)
qed

lemma projected_totals_value:
  "case gross_exposure v L pass market target legs of
     None \<Rightarrow> et_reasonCodes (projected_totals L pass market target legs) \<noteq> {}
   | Some worth \<Rightarrow> (let t = projected_totals L pass market target legs in et_reasonCodes t = {} \<and>
       v (et_derivatives t) = (\<Sum>p \<leftarrow> cp_positions pass. the (position_exposure v market p)) \<and>
       v (et_pending t) = (\<Sum>order \<leftarrow> cp_orders pass. the (order_exposure v L pass market target order)) \<and>
       v (et_planned t) = (\<Sum>leg \<leftarrow> legs. v (oi_notional (cl_intent leg))) \<and>
       v (et_spot t) = (\<Sum>asset \<leftarrow> cp_assets pass. the (asset_exposure v asset)) \<and>
       v (et_derivatives t) + v (et_pending t) + v (et_planned t) + v (et_spot t) = worth)"
proof -
  define t0 where "t0 = (let totals = zero_totals L;
      totals = (if known_in Unit_USD (cp_totalAvailableBalance pass) = None
        then add_reason AVAILABLE_BALANCE_UNKNOWN totals else totals)
    in if trading_target market target then totals else add_reason TARGET_INSTRUMENT_NOT_TRADING totals)"
  have t0: "et_reasonCodes t0 = {} \<longleftrightarrow> known_in Unit_USD (cp_totalAvailableBalance pass) \<noteq> None \<and> trading_target market target"
    "v (et_derivatives t0) = 0" "v (et_pending t0) = 0" "v (et_planned t0) = 0" "v (et_spot t0) = 0"
    by (auto simp: t0_def zero_totals_def Let_def)
  define t1 where "t1 = project_positions L pass market t0"
  define t2 where "t2 = project_orders L pass market target t1"
  define t3 where "t3 = project_planned_orders L legs t2"
  have totals: "projected_totals L pass market target legs = project_wallet L pass t3"
    by (simp add: projected_totals_def t3_def t2_def t1_def t0_def Let_def)
  note p = valued_step.reasons_fold [OF position_step, of market "cp_positions pass" t0]
    valued_step.others_fold [OF position_step, of market "cp_positions pass" t0]
  note q = valued_step.reasons_fold [OF order_step, of pass market target "cp_orders pass" t1]
    valued_step.others_fold [OF order_step, of pass market target "cp_orders pass" t1]
  note r = valued_step.reasons_fold [OF planned_step, of legs t2] valued_step.others_fold [OF planned_step, of legs t2]
    valued_step.amount_fold [OF planned_step, of legs t2]
  have reasons: "et_reasonCodes (projected_totals L pass market target legs) = {} \<longleftrightarrow> gross_exposure v L pass market target legs \<noteq> None"
    using p(1) q(1) r(1) t0(1)
    by (auto simp: totals wallet_effect(1) t3_def t2_def t1_def project_planned_orders_def project_orders_def
        project_positions_def gross_exposure_def fully_valued_def)
  show ?thesis
  proof (cases "gross_exposure v L pass market target legs")
    case None
    then show ?thesis using reasons by simp
  next
    case (Some worth)
    then have ok: "\<forall>p \<in> set (cp_positions pass). position_exposure v market p \<noteq> None"
      "\<forall>order \<in> set (cp_orders pass). order_exposure v L pass market target order \<noteq> None"
      "\<forall>c \<in> set (cp_collateral pass). free_of_debt v [ac_borrowAmount c, ac_otherBorrowAmount c]"
      "\<forall>asset \<in> set (cp_assets pass). asset_exposure v asset \<noteq> None"
      and worth: "worth = (\<Sum>p \<leftarrow> cp_positions pass. the (position_exposure v market p)) +
        (\<Sum>order \<leftarrow> cp_orders pass. the (order_exposure v L pass market target order)) +
        (\<Sum>leg \<leftarrow> legs. v (oi_notional (cl_intent leg))) +
        (\<Sum>asset \<leftarrow> cp_assets pass. the (asset_exposure v asset))"
      by (simp_all add: gross_exposure_def fully_valued_def split: if_splits)
    have "v (et_derivatives t1) = (\<Sum>p \<leftarrow> cp_positions pass. the (position_exposure v market p))"
      "v (et_pending t2) = v (et_pending t1) + (\<Sum>order \<leftarrow> cp_orders pass. the (order_exposure v L pass market target order))"
      "v (et_planned t3) = v (et_planned t2) + (\<Sum>leg \<leftarrow> legs. v (oi_notional (cl_intent leg)))"
      using valued_step.amount_fold [OF position_step ok(1), of t0] valued_step.amount_fold [OF order_step ok(2), of t1] r(3) t0
      by (simp_all add: t1_def t2_def t3_def project_planned_orders_def project_orders_def project_positions_def)
    then show ?thesis
      using Some reasons p(2) q(2) r(2) t0 wallet_effect(2-4) [of pass t3] wallet_effect(5) [OF ok(3,4), of t3]
      by (simp add: totals worth Let_def t1_def t2_def t3_def project_planned_orders_def project_orders_def project_positions_def)
  qed
qed

end

subsection \<open>The projection on the executable host\<close>

interpretation positions: valued_step "project_position ref_lib market" "position_exposure sval market"
  "\<lambda>t. sval (et_derivatives t)" "\<lambda>t. [sval (et_pending t), sval (et_planned t), sval (et_spot t)]"
  for market :: "sdec market_bundle"
  by (rule ref.position_step)

interpretation orders: valued_step "project_order ref_lib pass market target" "order_exposure sval ref_lib pass market target"
  "\<lambda>t. sval (et_pending t)" "\<lambda>t. [sval (et_derivatives t), sval (et_planned t), sval (et_spot t)]"
  for pass :: "sdec critical_pass" and market :: "sdec market_bundle" and target :: string
  by (rule ref.order_step)

interpretation assets: valued_step "project_asset ref_lib" "asset_exposure sval" "\<lambda>t. sval (et_spot t)"
  "\<lambda>t. [sval (et_derivatives t), sval (et_pending t), sval (et_planned t)]"
  by (rule ref.asset_step)

text \<open>
  The account the projection may be made on, at the time of evaluation: two equal passes were
  collected to the end, not after now and not longer ago than the policy allows; the margin mode
  is the regular one both in the comparison and in the second pass; the target is held in one-way
  mode and is one of the configured symbols.
\<close>

definition admissible_account ::
  "'d account_bundle \<Rightarrow> 'd risk_policy \<Rightarrow> string \<Rightarrow> string \<Rightarrow> 'd critical_pass \<Rightarrow> bool" where
  "admissible_account bundle policy t symbol pass \<longleftrightarrow>
     ab_collectionStatus bundle = CollectionComplete \<and> ab_consistent bundle \<and> ab_passB bundle = Some pass \<and>
     ab_bundleCutoff bundle \<noteq> None \<and>
     (\<exists>endedAt. ab_collectionEndedAt bundle = Some endedAt \<and> epoch_ms endedAt \<le> epoch_ms t \<and>
        epoch_ms t \<le> epoch_ms endedAt + rp_maxAccountEvidenceAgeMs policy) \<and>
     ab_marginCompatibility bundle = RegularMargin \<and> cp_marginMode pass = Known ''REGULAR_MARGIN'' \<and>
     map_of (ab_positionModes bundle) symbol = Some ModeOneWay \<and> symbol \<in> set (ab_configuredM1Symbols bundle)"

lemma shared_reasons_admissible:
  "shared_reasons bundle policy t symbol = {} \<longleftrightarrow> (\<exists>pass. admissible_account bundle policy t symbol pass)"
  by (cases "ab_passB bundle"; cases "ab_collectionEndedAt bundle")
    (auto simp: shared_reasons_def incomplete_account_def age_reasons_def regular_margin_def admissible_account_def
      Let_def not_less split: if_splits)

text \<open>A fact of the projection that states a worth.\<close>

definition worth_known :: "('d \<Rightarrow> rat) \<Rightarrow> 'd projection_fact \<Rightarrow> rat \<Rightarrow> bool" where
  "worth_known v f worth \<longleftrightarrow> (\<exists>x. f = KnownAmount x \<and> v x = worth)"

lemma projection_not_evaluated:
  assumes "build_projection L plan bundle policy evaluationTime selected = Ok pj"
  shows "ad_status (pj_addProjection pj) = ProjectionNotEvaluated \<longleftrightarrow>
    \<not> (shared_reasons bundle policy evaluationTime (pl_symbol plan) = {} \<and> pl_recommendation plan = ADD_LONG)"
  using assms
  by (auto simp: build_projection_def Let_def rbind_Ok_iff empty_add_projection_def add_projection_of_def
      shared_reasons_def incomplete_account_def split: option.splits if_splits)

lemma projection_evaluated:
  assumes "build_projection L plan bundle policy evaluationTime selected = Ok pj"
    "ad_status (pj_addProjection pj) \<noteq> ProjectionNotEvaluated"
  obtains pass legs where "ab_passB bundle = Some pass" "planned_legs plan selected = Ok legs" "pl_recommendation plan = ADD_LONG"
    "pj_addProjection pj = add_projection_of L pass (projected_totals L pass (pl_market plan) (pl_symbol plan) legs)"
  using assms
  by (auto simp: build_projection_def Let_def rbind_Ok_iff empty_add_projection_def split: option.splits if_splits)

context big_decimal
begin

lemma add_projection_value:
  assumes "add = add_projection_of L pass (projected_totals L pass market target legs)"
  shows "if fully_valued v L pass market target
    then ad_status add = ProjectionComplete \<and>
      worth_known v (ad_currentDerivatives add) (\<Sum>p \<leftarrow> cp_positions pass. the (position_exposure v market p)) \<and>
      worth_known v (ad_pendingDerivatives add)
        (\<Sum>order \<leftarrow> cp_orders pass. the (order_exposure v L pass market target order)) \<and>
      worth_known v (ad_plannedDerivatives add) (\<Sum>leg \<leftarrow> legs. v (oi_notional (cl_intent leg))) \<and>
      worth_known v (ad_spotInventory add) (\<Sum>asset \<leftarrow> cp_assets pass. the (asset_exposure v asset)) \<and>
      worth_known v (ad_totalGrossExposure add)
        ((\<Sum>p \<leftarrow> cp_positions pass. the (position_exposure v market p)) +
         (\<Sum>order \<leftarrow> cp_orders pass. the (order_exposure v L pass market target order)) +
         (\<Sum>leg \<leftarrow> legs. v (oi_notional (cl_intent leg))) +
         (\<Sum>asset \<leftarrow> cp_assets pass. the (asset_exposure v asset)))
    else ad_status add = ProjectionBlocked \<and> ad_currentDerivatives add = UnavailableAmount \<and>
      ad_pendingDerivatives add = UnavailableAmount \<and> ad_plannedDerivatives add = UnavailableAmount \<and>
      ad_spotInventory add = UnavailableAmount \<and> ad_totalGrossExposure add = UnavailableAmount"
proof (cases "fully_valued v L pass market target")
  case True
  then obtain worth where "gross_exposure v L pass market target legs = Some worth" by (simp add: gross_exposure_def)
  then show ?thesis using True projected_totals_value [of pass market target legs]
    by (simp add: assms add_projection_of_def worth_known_def Let_def)
next
  case False
  then have "gross_exposure v L pass market target legs = None" by (simp add: gross_exposure_def)
  then show ?thesis using False projected_totals_value [of pass market target legs]
    by (simp add: assms add_projection_of_def Let_def)
qed

end

text \<open>
  Claim C21: an add projection is evaluated exactly for an \<open>ADD_LONG\<close> plan on an admissible
  account: completely and consistently collected, no older than the policy allows and not from
  the future, with regular margin, the target in one-way mode and configured. It is then complete
  exactly when the available balance is known in dollars, the target instrument is trading, no
  collateral is owed, every position and open order can be valued, and so can every asset, which
  must be unrestricted, free of debt and interest and of established collateral. Each of its four
  amounts is then the exact sum of the worths it stands for (a leg's being the notional of its
  intent) and the gross exposure the sum of all; otherwise it is blocked and shows no amount.
\<close>

theorem projection_matches_valuation:
  assumes "host L v" "build_projection L plan bundle policy evaluationTime selected = Ok pj"
  shows "if (\<exists>pass. admissible_account bundle policy evaluationTime (pl_symbol plan) pass) \<and> pl_recommendation plan = ADD_LONG
    then \<exists>pass legs. admissible_account bundle policy evaluationTime (pl_symbol plan) pass \<and>
      planned_legs plan selected = Ok legs \<and>
      (let market = pl_market plan; target = pl_symbol plan; add = pj_addProjection pj in
       if known_in Unit_USD (cp_totalAvailableBalance pass) \<noteq> None \<and> trading_target market target \<and>
          (\<forall>p \<in> set (cp_positions pass). position_exposure v market p \<noteq> None) \<and>
          (\<forall>order \<in> set (cp_orders pass). order_exposure v L pass market target order \<noteq> None) \<and>
          (\<forall>c \<in> set (cp_collateral pass). free_of_debt v [ac_borrowAmount c, ac_otherBorrowAmount c]) \<and>
          (\<forall>asset \<in> set (cp_assets pass). asset_exposure v asset \<noteq> None)
       then ad_status add = ProjectionComplete \<and>
         worth_known v (ad_currentDerivatives add) (\<Sum>p \<leftarrow> cp_positions pass. the (position_exposure v market p)) \<and>
         worth_known v (ad_pendingDerivatives add)
           (\<Sum>order \<leftarrow> cp_orders pass. the (order_exposure v L pass market target order)) \<and>
         worth_known v (ad_plannedDerivatives add) (\<Sum>leg \<leftarrow> legs. v (oi_notional (cl_intent leg))) \<and>
         worth_known v (ad_spotInventory add) (\<Sum>asset \<leftarrow> cp_assets pass. the (asset_exposure v asset)) \<and>
         worth_known v (ad_totalGrossExposure add)
           ((\<Sum>p \<leftarrow> cp_positions pass. the (position_exposure v market p)) +
            (\<Sum>order \<leftarrow> cp_orders pass. the (order_exposure v L pass market target order)) +
            (\<Sum>leg \<leftarrow> legs. v (oi_notional (cl_intent leg))) +
            (\<Sum>asset \<leftarrow> cp_assets pass. the (asset_exposure v asset)))
       else ad_status add = ProjectionBlocked \<and> ad_currentDerivatives add = UnavailableAmount \<and>
         ad_pendingDerivatives add = UnavailableAmount \<and> ad_plannedDerivatives add = UnavailableAmount \<and>
         ad_spotInventory add = UnavailableAmount \<and> ad_totalGrossExposure add = UnavailableAmount)
    else pj_addProjection pj = empty_add_projection"
proof (cases "(\<exists>pass. admissible_account bundle policy evaluationTime (pl_symbol plan) pass) \<and> pl_recommendation plan = ADD_LONG")
  case True
  then have "shared_reasons bundle policy evaluationTime (pl_symbol plan) = {} \<and> pl_recommendation plan = ADD_LONG"
    by (simp add: shared_reasons_admissible)
  then obtain pass legs where p: "ab_passB bundle = Some pass" "planned_legs plan selected = Ok legs"
    "pj_addProjection pj = add_projection_of L pass (projected_totals L pass (pl_market plan) (pl_symbol plan) legs)"
    using projection_evaluated [OF assms(2)] projection_not_evaluated [OF assms(2)] by metis
  have "admissible_account bundle policy evaluationTime (pl_symbol plan) pass"
    using True p(1) shared_reasons_admissible [where symbol = "pl_symbol plan"]
    by (auto simp: admissible_account_def)
  then show ?thesis
    using p(2) big_decimal.add_projection_value [OF host_decimal [OF assms(1)] p(3)]
    unfolding if_P [OF True] Let_def fully_valued_def by blast
next
  case False
  then have "\<not> (shared_reasons bundle policy evaluationTime (pl_symbol plan) = {} \<and> pl_recommendation plan = ADD_LONG)"
    by (simp add: shared_reasons_admissible)
  then show ?thesis unfolding if_not_P [OF False] using assms(2)
    by (auto simp: build_projection_def Let_def rbind_Ok_iff split: option.splits if_splits)
qed


text \<open>An account with a position, an open order and cash, and a plan of two legs.\<close>

definition sample_portfolio_market :: "sdec market_bundle" where
  "sample_portfolio_market = \<lparr>mb_symbols = [\<lparr>ms_symbol = ''BTCUSDT'',
       ms_instrument = Some \<lparr>mi_symbol = ''BTCUSDT'', mi_status = Trading, mi_contractType = ''LinearPerpetual'',
         mi_quoteCoin = ''USDT'', mi_settleCoin = ''USDT'', mi_constraints = sample_grid_constraints\<rparr>,
       ms_ticker = Some \<lparr>mt_observedAt = ''2024-01-01T00:00:00.000Z'', mt_fundingRate = Some (SDec 1 4)\<rparr>\<rparr>],
     mb_collectionStartedAt = ''2024-01-01T00:00:00.000Z'', mb_collectionEndedAt = ''2024-01-01T00:00:00.000Z'',
     mb_bundleCutoff = ''2024-01-01T00:00:00.000Z'',
     mb_evidence = [sample_evidence\<lparr>ev_kind := MarketEvidenceBundle\<rparr>]\<rparr>"

definition sample_risk_plan :: "sdec risk_plan" where
  "sample_risk_plan = \<lparr>pl_symbol = ''BTCUSDT'', pl_recommendation = ADD_LONG,
     pl_candidateLegs = Some [sample_leg_0, sample_leg_1],
     pl_orderIntents = Some [cl_intent sample_leg_0, cl_intent sample_leg_1], pl_market = sample_portfolio_market\<rparr>"

abbreviation known_fact :: "'d \<Rightarrow> fact_unit \<Rightarrow> 'd decimal_fact" where
  "known_fact x u \<equiv> \<lparr>df_fact = Known x, df_unit = u\<rparr>"

definition sample_position :: "sdec account_position" where
  "sample_position = \<lparr>ap_category = ''linear'', ap_symbol = ''BTCUSDT'', ap_positionIdx = 0, ap_side = ''Buy'',
     ap_size = known_fact (SDec 1 2) Unit_contracts, ap_markPrice = known_fact (SDec 40000 0) Unit_price,
     ap_positionValue = known_fact (SDec 400 0) Unit_USD, ap_leverage = known_fact (SDec 2 0) Unit_rate,
     ap_isReduceOnly = Known False\<rparr>"

definition sample_open_order :: "sdec account_order" where
  "sample_open_order = \<lparr>ao_category = ''linear'', ao_symbol = ''BTCUSDT'', ao_side = ''Buy'', ao_orderType = ''Limit'',
     ao_price = known_fact (SDec 39000 0) Unit_price, ao_leavesQty = known_fact (SDec 1 2) Unit_contracts,
     ao_positionIdx = Known 0, ao_reduceOnly = Known False, ao_closeOnTrigger = Known False\<rparr>"

definition sample_asset :: "sdec account_asset" where
  "sample_asset = \<lparr>aa_coin = ''USDT'', aa_walletBalance = known_fact (SDec 2000 0) Unit_coin,
     aa_usdValue = known_fact (SDec 2000 0) Unit_USD, aa_borrowAmount = known_fact (SDec 0 0) Unit_coin,
     aa_spotBorrow = known_fact (SDec 0 0) Unit_coin, aa_accruedInterest = known_fact (SDec 0 0) Unit_coin,
     aa_collateralEligible = Known True, aa_collateralSwitch = Known True, aa_restricted = Known Unrestricted\<rparr>"

definition sample_pass :: "sdec critical_pass" where
  "sample_pass = \<lparr>cp_marginMode = Known ''REGULAR_MARGIN'',
     cp_totalAvailableBalance = known_fact (SDec 2000 0) Unit_USD, cp_assets = [sample_asset], cp_collateral = [],
     cp_positions = [sample_position], cp_orders = [sample_open_order]\<rparr>"

definition sample_account :: "sdec account_bundle" where
  "sample_account = \<lparr>ab_environment = ''testnet'', ab_accountIdentityHash = sample_hash, ab_contentHash = sample_hash,
     ab_collectionEndedAt = Some ''2024-01-01T00:00:00.000Z'', ab_bundleCutoff = Some ''2024-01-01T00:00:00.000Z'',
     ab_collectionStatus = CollectionComplete, ab_configuredM1Symbols = [''BTCUSDT''], ab_passB = Some sample_pass,
     ab_consistent = True, ab_marginCompatibility = RegularMargin, ab_positionModes = [(''BTCUSDT'', ModeOneWay)]\<rparr>"

definition sample_risk_policy :: "sdec risk_policy" where
  "sample_risk_policy = \<lparr>rp_policyVersion = ''portfolio-risk/v1'', rp_maxAccountEvidenceAgeMs = 60000,
     rp_marginReserveRatio = SDec 2 1, rp_maxDerivativesLeverage = SDec 3 0, rp_entryFeeRate = SDec 6 4,
     rp_exitFeeRate = SDec 6 4, rp_slippageBufferRate = SDec 1 3, rp_minimumNetEdgeRate = SDec 1 2\<rparr>"

lemma sample_epochs [simp]:
  "epoch_ms ''2024-01-01T00:00:00.000Z'' = 1704067200000" "epoch_ms ''2024-01-01T00:00:30.000Z'' = 1704067230000"
  using epoch_ms_instant [OF sample_instants(1)] epoch_ms_instant [OF sample_instants(2)] by simp_all

lemma sample_shared_reasons:
  "shared_reasons sample_account sample_risk_policy ''2024-01-01T00:00:30.000Z'' ''BTCUSDT'' = {}"
  by (simp add: shared_reasons_def incomplete_account_def age_reasons_def regular_margin_def sample_account_def
      sample_risk_policy_def sample_pass_def)

lemma sample_admissible:
  "admissible_account sample_account sample_risk_policy ''2024-01-01T00:00:30.000Z'' ''BTCUSDT'' pass \<longleftrightarrow> pass = sample_pass"
  by (auto simp: admissible_account_def sample_account_def sample_risk_policy_def sample_pass_def)

lemma sample_valuation:
  "\<exists>b. known_in Unit_USD (cp_totalAvailableBalance sample_pass) = Some b"
  "trading_target sample_portfolio_market ''BTCUSDT''"
  "cp_positions sample_pass = [sample_position]" "cp_orders sample_pass = [sample_open_order]"
  "cp_assets sample_pass = [sample_asset]" "cp_collateral sample_pass = []"
  "position_exposure sval sample_portfolio_market sample_position = Some 400"
  "order_exposure sval ref_lib sample_pass sample_portfolio_market ''BTCUSDT'' sample_open_order = Some 390"
  "asset_exposure sval sample_asset = Some 0"
  "sval (oi_notional (cl_intent sample_leg_0)) + sval (oi_notional (cl_intent sample_leg_1)) = 960"
proof -
  have "supported_linear_instrument sample_portfolio_market ''BTCUSDT'' \<noteq> None" "trading_target sample_portfolio_market ''BTCUSDT''"
    by code_simp+
  then show "\<exists>b. known_in Unit_USD (cp_totalAvailableBalance sample_pass) = Some b"
    "trading_target sample_portfolio_market ''BTCUSDT''"
    "cp_positions sample_pass = [sample_position]" "cp_orders sample_pass = [sample_open_order]"
    "cp_assets sample_pass = [sample_asset]" "cp_collateral sample_pass = []"
    "position_exposure sval sample_portfolio_market sample_position = Some 400"
    "order_exposure sval ref_lib sample_pass sample_portfolio_market ''BTCUSDT'' sample_open_order = Some 390"
    "asset_exposure sval sample_asset = Some 0"
    "sval (oi_notional (cl_intent sample_leg_0)) + sval (oi_notional (cl_intent sample_leg_1)) = 960"
    by (simp_all add: position_exposure_def order_exposure_def asset_exposure_def free_of_debt_def marked_value_def
        side_fits_def sample_pass_def sample_position_def sample_open_order_def sample_asset_def sample_leg_0_def sample_leg_1_def
        known_in_def known_decimal_def order_protective_def known_def collateral_established_def is_cash_def)
qed

theorem projection_matches_valuation_witness:
  "\<exists>pj x. build_projection ref_lib sample_risk_plan sample_account sample_risk_policy ''2024-01-01T00:00:30.000Z'' None = Ok pj \<and>
     ad_status (pj_addProjection pj) = ProjectionComplete \<and>
     ad_totalGrossExposure (pj_addProjection pj) = KnownAmount x \<and> sval x = 1750"
proof -
  have plan: "pl_symbol sample_risk_plan = ''BTCUSDT''" "pl_recommendation sample_risk_plan = ADD_LONG"
    "pl_market sample_risk_plan = sample_portfolio_market" "planned_legs sample_risk_plan None = Ok [sample_leg_0, sample_leg_1]"
    "ab_passB sample_account = Some sample_pass"
    by (simp_all add: sample_risk_plan_def planned_legs_def sample_account_def)
  have "\<exists>pj. build_projection ref_lib sample_risk_plan sample_account sample_risk_policy ''2024-01-01T00:00:30.000Z'' None = Ok pj"
    by (simp add: build_projection_def plan sample_shared_reasons Let_def)
  then obtain pj where pj: "build_projection ref_lib sample_risk_plan sample_account sample_risk_policy
      ''2024-01-01T00:00:30.000Z'' None = Ok pj" by blast
  then show ?thesis
    using projection_matches_valuation [OF ref_host pj]
    by (auto simp: plan sample_admissible sample_valuation worth_known_def Let_def)
qed

end
