(* ===== verification/Capacity.thy ===== *)
theory Capacity
  imports Exposure
begin

text \<open>
  The gates on the projection: \<open>domain/risk/portfolio-risk-capacity.ts\<close> (balance and leverage)
  and \<open>portfolio-risk-economics.ts\<close> (profit of every leg against its modelled costs). As in
  \<open>Exposure\<close> the inputs are the parsed values and the identities in the results are left out.

  Shown here: what a passed capacity check promises over rationals (a fresh, complete account,
  a valued exposure, the requested notional within the unreserved balance, the leverage of
  every relevant position known and within the limit), and that a leg passes the economics
  exactly when it earns the minimum edge after fees, slippage and funding, on fresh evidence.
\<close>

subsection \<open>Capacity\<close>

datatype gate_status = GatePass | GateBlock | GateNotEvaluated

datatype leverage_source = FromPassB | FromSupplemental | NoLeverageSource

record 'd leverage_check =
  lc_check_symbol :: string
  lc_check_positionIdx :: "int option"
  lc_check_pass :: bool
  lc_check_source :: leverage_source
  lc_check_leverage :: "'d projection_fact"

definition relevant_position :: "'d lib \<Rightarrow> 'd account_position \<Rightarrow> bool" where
  "relevant_position L position \<longleftrightarrow>
     ap_category position = ''linear'' \<and>
     (case df_fact (ap_size position) of Known quantity \<Rightarrow> is_positive L quantity | _ \<Rightarrow> True)"

definition leverage_value :: "'d lib \<Rightarrow> 'd account_position \<Rightarrow> 'd option" where
  "leverage_value L position =
     (case known_in Unit_rate (ap_leverage position) of
        Some leverage \<Rightarrow> if is_positive L leverage then Some leverage else None | None \<Rightarrow> None)"

definition flat_target :: "'d lib \<Rightarrow> 'd account_position \<Rightarrow> bool" where
  "flat_target L position \<longleftrightarrow>
     ap_category position = ''linear'' \<and> ap_positionIdx position = 0 \<and> ap_side position = ''None'' \<and>
     (case known_in Unit_contracts (ap_size position) of Some quantity \<Rightarrow> is_zero L quantity | None \<Rightarrow> False)"

definition supplemental_failure_code :: "error_code \<Rightarrow> block_reason" where
  "supplemental_failure_code code =
     (if code = STALE_EVIDENCE then SUPPLEMENTAL_EVIDENCE_STALE
      else if code = INCOMPATIBLE_EVIDENCE then SUPPLEMENTAL_EVIDENCE_CONFLICT
      else SUPPLEMENTAL_EVIDENCE_INVALID)"

definition add_notional :: "'d lib \<Rightarrow> 'd result \<Rightarrow> 'd order_intent \<Rightarrow> 'd result" where
  "add_notional L subtotal intent =
     rbind subtotal (\<lambda>notional.
     guard INVALID_EVIDENCE (is_positive L (oi_notional intent)) (Ok (dec_add L notional (oi_notional intent))))"

definition derive_requested_notional :: "'d lib \<Rightarrow> 'd risk_plan \<Rightarrow> 'd result" where
  "derive_requested_notional L plan =
     (if pl_recommendation plan \<noteq> ADD_LONG then Ok (dec_zero L)
      else
        need_some INVALID_EVIDENCE (pl_orderIntents plan) (\<lambda>intents.
        rbind (foldl (add_notional L) (Ok (dec_zero L)) intents) (\<lambda>notional.
        guard INVALID_EVIDENCE (\<not> is_zero L notional) (Ok notional))))"

definition increasing_order :: "'d exposure_line \<Rightarrow> bool" where
  "increasing_order l \<longleftrightarrow>
     el_source l = FromOpenOrder \<and> el_category l = Some LinearCategory \<and> el_treatment l = GrossExposure"

text \<open>A \<open>Set\<close> of symbols, sorted.\<close>

definition relevant_symbols :: "'d lib \<Rightarrow> 'd critical_pass \<Rightarrow> 'd risk_projection \<Rightarrow> string list" where
  "relevant_symbols L pass projection = sort (remdups (pj_targetSymbol projection #
     map ap_symbol (filter (relevant_position L) (cp_positions pass)) @
     map el_symbol (filter increasing_order (ad_exposures (pj_addProjection projection)))))"

definition projection_has_increasing_order :: "'d risk_projection \<Rightarrow> string \<Rightarrow> bool" where
  "projection_has_increasing_order projection symbol \<longleftrightarrow>
     (\<exists>l \<in> set (ad_exposures (pj_addProjection projection)). increasing_order l \<and> el_symbol l = symbol)"

record 'd incremental_capacity =
  ic_reserve :: 'd
  ic_incrementalCapacity :: 'd
  ic_withinCapacity :: bool

definition incremental_capacity_of :: "'d lib \<Rightarrow> 'd \<Rightarrow> 'd \<Rightarrow> 'd \<Rightarrow> 'd incremental_capacity" where
  "incremental_capacity_of L availableBalance requestedNotional marginReserveRatio =
     (let zero = dec_zero L;
          nonNegativeAvailable = (if 0 < dec_compare L availableBalance zero then availableBalance else zero);
          reserve = dec_multiply L nonNegativeAvailable marginReserveRatio;
          rawCapacity = dec_subtract L availableBalance reserve;
          capacity = (if 0 < dec_compare L rawCapacity zero then rawCapacity else zero)
      in \<lparr>ic_reserve = reserve, ic_incrementalCapacity = capacity,
          ic_withinCapacity = dec_compare L requestedNotional capacity \<le> 0\<rparr>)"

subsection \<open>Leverage\<close>

text \<open>The supplemental leverage of the target, if any, and the reasons against it.\<close>

definition supplemental_leverage ::
  "(string \<Rightarrow> string \<Rightarrow> int) \<Rightarrow> 'd lib \<Rightarrow> 'd account_bundle \<Rightarrow> 'd risk_projection \<Rightarrow> 'd risk_policy \<Rightarrow> string \<Rightarrow> 'd jsval
     \<Rightarrow> 'd option \<times> block_reason set" where
  "supplemental_leverage collate L bundle projection policy evaluationTime rawEvidence =
     (case create_leverage_evidence_set collate L rawEvidence of
        Inl e \<Rightarrow> (None, {SUPPLEMENTAL_EVIDENCE_INVALID})
      | Inr [] \<Rightarrow> (None, {})
      | Inr [evidence] \<Rightarrow>
          if le_symbol evidence \<noteq> pj_targetSymbol projection then (None, {SUPPLEMENTAL_EVIDENCE_INVALID})
          else
            (case validate_leverage_evidence L (leverage_evidence_js evidence) bundle (pj_targetSymbol projection)
                evaluationTime policy of
               Inr validated \<Rightarrow> (Some (vl_leverage validated),
                 if vl_isReduceOnly validated then {ACCOUNT_RESTRICTION_ACTIVE} else {})
             | Inl e \<Rightarrow> (None, {supplemental_failure_code (err_code e)}))
      | Inr _ \<Rightarrow> (None, {SUPPLEMENTAL_EVIDENCE_INVALID}))"

definition leverage_check_of ::
  "'d lib \<Rightarrow> 'd \<Rightarrow> string \<Rightarrow> int option \<Rightarrow> leverage_source \<Rightarrow> 'd option \<Rightarrow> 'd leverage_check \<times> block_reason set" where
  "leverage_check_of L limit symbol positionIdx source leverage =
     (case leverage of
        None \<Rightarrow>
          (\<lparr>lc_check_symbol = symbol, lc_check_positionIdx = positionIdx, lc_check_pass = False,
            lc_check_source = NoLeverageSource, lc_check_leverage = UnavailableAmount\<rparr>, {LEVERAGE_UNKNOWN})
      | Some value \<Rightarrow>
          let exceeds = 0 < dec_compare L value limit in
          (\<lparr>lc_check_symbol = symbol, lc_check_positionIdx = positionIdx, lc_check_pass = \<not> exceeds,
            lc_check_source = source, lc_check_leverage = KnownAmount value\<rparr>,
           if exceeds then {LEVERAGE_EXCEEDS_POLICY} else {}))"

definition check_position_leverage ::
  "'d lib \<Rightarrow> 'd \<Rightarrow> 'd option \<Rightarrow> bool \<Rightarrow> nat \<Rightarrow> 'd account_position \<Rightarrow> 'd leverage_check \<times> block_reason set" where
  "check_position_leverage L limit supplemental target rows position =
     (let restricted = target \<and> relevant_position L position \<and> ap_isReduceOnly position = Known True;
          value = leverage_value L position;
          useSupplement = target \<and> flat_target L position \<and> value = None \<and> supplemental \<noteq> None \<and> rows = 1;
          (check, reasons) = leverage_check_of L limit (ap_symbol position) (Some (ap_positionIdx position))
            (if useSupplement then FromSupplemental else FromPassB) (if useSupplement then supplemental else value)
      in (check, reasons \<union> (if restricted then {ACCOUNT_RESTRICTION_ACTIVE} else {})))"

definition check_symbol_leverage ::
  "'d lib \<Rightarrow> 'd \<Rightarrow> 'd option \<Rightarrow> 'd critical_pass \<Rightarrow> 'd risk_projection \<Rightarrow> string
     \<Rightarrow> ('d leverage_check \<times> block_reason set) list" where
  "check_symbol_leverage L limit supplemental pass projection symbol =
     (let rows = filter (\<lambda>position. ap_category position = ''linear'' \<and> ap_symbol position = symbol) (cp_positions pass);
          relevantRows = filter (relevant_position L) rows;
          target = (symbol = pj_targetSymbol projection);
          rowsToCheck = (if relevantRows \<noteq> [] \<or> target \<or> projection_has_increasing_order projection symbol
            then rows else [])
      in if rowsToCheck = []
         then [leverage_check_of L limit symbol None FromSupplemental (if target then supplemental else None)]
         else map (check_position_leverage L limit supplemental target (length rowsToCheck)) rowsToCheck)"

record 'd leverage_assessment =
  la_checks :: "'d leverage_check list"
  la_reasonCodes :: "block_reason list"
  la_status :: gate_status

definition assess_leverage ::
  "(string \<Rightarrow> string \<Rightarrow> int) \<Rightarrow> 'd lib \<Rightarrow> 'd account_bundle \<Rightarrow> 'd risk_projection \<Rightarrow> 'd risk_policy \<Rightarrow> string \<Rightarrow> 'd jsval
     \<Rightarrow> 'd leverage_assessment" where
  "assess_leverage collate L bundle projection policy evaluationTime rawEvidence =
     (case ab_passB bundle of
        None \<Rightarrow> \<lparr>la_checks = [], la_reasonCodes = [ACCOUNT_EVIDENCE_INCOMPLETE], la_status = GateBlock\<rparr>
      | Some pass \<Rightarrow>
          let (supplemental, reasons) = supplemental_leverage collate L bundle projection policy evaluationTime rawEvidence;
              results = concat (map (check_symbol_leverage L (rp_maxDerivativesLeverage policy) supplemental pass projection)
                (relevant_symbols L pass projection));
              reasonCodes = normalized_reasons (reasons \<union> \<Union> (set (map snd results)))
          in \<lparr>la_checks = map fst results, la_reasonCodes = reasonCodes,
              la_status = (if reasonCodes \<noteq> [] then GateBlock else GatePass)\<rparr>)"

subsection \<open>The capacity gate\<close>

record 'd capacity_part =
  cy_status :: gate_status
  cy_availableBalance :: "'d projection_fact"
  cy_reserve :: "'d projection_fact"
  cy_incrementalCapacity :: "'d projection_fact"
  cy_requestedNotional :: "'d projection_fact"
  cy_withinCapacity :: "bool option"

record 'd risk_capacity =
  rc_outcome :: gate_status
  rc_reasonCodes :: "block_reason list"
  rc_projection :: "'d risk_projection"
  rc_capacity :: "'d capacity_part"
  rc_leverage :: "'d leverage_assessment"

definition unevaluated_capacity :: "gate_status \<Rightarrow> block_reason list \<Rightarrow> 'd risk_projection \<Rightarrow> 'd risk_capacity" where
  "unevaluated_capacity outcome reasons projection =
     \<lparr>rc_outcome = outcome, rc_reasonCodes = reasons, rc_projection = projection,
      rc_capacity = \<lparr>cy_status = GateNotEvaluated, cy_availableBalance = NotEvaluated, cy_reserve = NotEvaluated,
        cy_incrementalCapacity = NotEvaluated, cy_requestedNotional = NotEvaluated, cy_withinCapacity = None\<rparr>,
      rc_leverage = \<lparr>la_checks = [], la_reasonCodes = [], la_status = GateNotEvaluated\<rparr>\<rparr>"

definition capacity_part_of :: "'d lib \<Rightarrow> 'd risk_policy \<Rightarrow> 'd projection_fact \<Rightarrow> 'd \<Rightarrow> 'd capacity_part \<times> block_reason set" where
  "capacity_part_of L policy available requested =
     (case available of
        KnownAmount balance \<Rightarrow>
          let assessment = incremental_capacity_of L balance requested (rp_marginReserveRatio policy) in
          (\<lparr>cy_status = (if ic_withinCapacity assessment then GatePass else GateBlock),
            cy_availableBalance = KnownAmount balance, cy_reserve = KnownAmount (ic_reserve assessment),
            cy_incrementalCapacity = KnownAmount (ic_incrementalCapacity assessment),
            cy_requestedNotional = KnownAmount requested, cy_withinCapacity = Some (ic_withinCapacity assessment)\<rparr>,
           if ic_withinCapacity assessment then {} else {CAPACITY_EXCEEDED})
      | _ \<Rightarrow>
          (\<lparr>cy_status = GateBlock, cy_availableBalance = UnavailableAmount, cy_reserve = UnavailableAmount,
            cy_incrementalCapacity = UnavailableAmount, cy_requestedNotional = KnownAmount requested,
            cy_withinCapacity = None\<rparr>, {AVAILABLE_BALANCE_UNKNOWN}))"

definition build_capacity ::
  "(string \<Rightarrow> string \<Rightarrow> int) \<Rightarrow> 'd lib \<Rightarrow> 'd risk_plan \<Rightarrow> 'd account_bundle \<Rightarrow> 'd risk_policy \<Rightarrow> string \<Rightarrow> 'd jsval
     \<Rightarrow> 'd risk_capacity result" where
  "build_capacity collate L plan bundle policy evaluationTime supplementalEvidence =
     guard INVALID_EVIDENCE (is_array supplementalEvidence) (
     need INVALID_EVIDENCE (build_projection L plan bundle policy evaluationTime None) (\<lambda>projection.
     if pj_sharedReasonCodes projection \<noteq> []
     then Ok (unevaluated_capacity GateBlock (normalized_reasons (set (pj_sharedReasonCodes projection))) projection)
     else if pl_recommendation plan \<noteq> ADD_LONG then Ok (unevaluated_capacity GateNotEvaluated [] projection)
     else
       rbind (derive_requested_notional L plan) (\<lambda>requested.
       let (capacity, capacityReasons) = capacity_part_of L policy (ad_availableBalance (pj_addProjection projection)) requested;
           leverage = assess_leverage collate L bundle projection policy evaluationTime supplementalEvidence;
           reasons = normalized_reasons (set (ad_reasonCodes (pj_addProjection projection)) \<union> capacityReasons \<union>
             set (la_reasonCodes leverage))
       in Ok \<lparr>rc_outcome = (if reasons \<noteq> [] then GateBlock else GatePass), rc_reasonCodes = reasons,
              rc_projection = projection, rc_capacity = capacity, rc_leverage = leverage\<rparr>)))"

subsection \<open>Economics\<close>

datatype funding_status = FundingFresh | FundingStale | FundingUnavailable | FundingInconsistent | FundingNotEvaluated

datatype funding_reason =
    MarketRoleMissing | MarketCutoffFuture | MarketCutoffStale | MarketReferenceMissing | MarketReferenceExpired
  | MarketMetadataAfterEvaluation | TickerMissing | TickerAfterCutoff | FundingRateMissing

record 'd funding_evidence =
  fe_status :: funding_status
  fe_reason :: "funding_reason option"
  fe_bundleCutoff :: "string option"
  fe_tickerObservedAt :: "string option"
  fe_maxAgeMs :: "int option"
  fe_rate :: "'d projection_fact"

text \<open>The parts of the quality profile that are read: the ages of the roles and the clock skew.\<close>

record quality_profile =
  qp_roles :: "(string \<times> int) list"
  qp_metadataSkewMs :: int

definition age_expired :: "string \<Rightarrow> string \<Rightarrow> int \<Rightarrow> bool" where
  "age_expired evaluationTime asOf maxAgeMs \<longleftrightarrow> epoch_ms asOf + maxAgeMs \<le> epoch_ms evaluationTime"

definition metadata_is_future :: "string \<Rightarrow> string \<Rightarrow> int \<Rightarrow> bool" where
  "metadata_is_future timestamp evaluationTime metadataSkewMs \<longleftrightarrow>
     epoch_ms evaluationTime + metadataSkewMs < epoch_ms timestamp"

definition funding_evidence_of ::
  "'d market_bundle \<Rightarrow> 'd market_ticker option \<Rightarrow> quality_profile \<Rightarrow> string \<Rightarrow> 'd funding_evidence" where
  "funding_evidence_of market ticker profile evaluationTime =
     (let role = map_of (qp_roles profile) ''market'';
          base = \<lparr>fe_status = FundingUnavailable, fe_reason = None, fe_bundleCutoff = Some (mb_bundleCutoff market),
            fe_tickerObservedAt = map_option mt_observedAt ticker, fe_maxAgeMs = role, fe_rate = UnavailableAmount\<rparr>;
          unavailable = (\<lambda>status reason. base\<lparr>fe_status := status, fe_reason := Some reason\<rparr>)
      in
      case role of None \<Rightarrow> unavailable FundingUnavailable MarketRoleMissing
      | Some maxAgeMs \<Rightarrow>
          if epoch_ms evaluationTime < epoch_ms (mb_bundleCutoff market) then unavailable FundingInconsistent MarketCutoffFuture
          else if age_expired evaluationTime (mb_bundleCutoff market) maxAgeMs then unavailable FundingStale MarketCutoffStale
          else
            (case find (\<lambda>row. ev_kind row = MarketEvidenceBundle) (mb_evidence market) of
               None \<Rightarrow> unavailable FundingUnavailable MarketReferenceMissing
             | Some reference \<Rightarrow>
                 if ev_asOf reference \<noteq> mb_bundleCutoff market then unavailable FundingUnavailable MarketReferenceMissing
                 else if age_expired evaluationTime (ev_asOf reference) (ev_validForMs reference)
                 then unavailable FundingStale MarketReferenceExpired
                 else if metadata_is_future (mb_collectionStartedAt market) evaluationTime (qp_metadataSkewMs profile) \<or>
                   metadata_is_future (mb_collectionEndedAt market) evaluationTime (qp_metadataSkewMs profile)
                 then unavailable FundingInconsistent MarketMetadataAfterEvaluation
                 else
                   (case ticker of
                      None \<Rightarrow> unavailable FundingUnavailable TickerMissing
                    | Some tick \<Rightarrow>
                        if epoch_ms (mb_bundleCutoff market) < epoch_ms (mt_observedAt tick)
                        then unavailable FundingInconsistent TickerAfterCutoff
                        else
                          (case mt_fundingRate tick of
                             None \<Rightarrow> unavailable FundingUnavailable FundingRateMissing
                           | Some rate \<Rightarrow> base\<lparr>fe_status := FundingFresh, fe_reason := None, fe_rate := KnownAmount rate\<rparr>))))"

record 'd economic_leg =
  eg_legId :: string
  eg_index :: int
  eg_entryPrice :: 'd
  eg_quantity :: 'd
  eg_takeProfit :: 'd
  eg_entryNotional :: 'd
  eg_exitNotional :: 'd
  eg_grossProfit :: 'd
  eg_entryFee :: 'd
  eg_exitFee :: 'd
  eg_slippageBuffer :: 'd
  eg_minimumEdge :: 'd
  eg_fundingCost :: "'d projection_fact"
  eg_requiredProfit :: "'d projection_fact"
  eg_netAfterModeledCosts :: "'d projection_fact"
  eg_passes :: bool
  eg_reasonCodes :: "block_reason list"

definition leg_economics ::
  "'d lib \<Rightarrow> string \<Rightarrow> int \<Rightarrow> 'd \<Rightarrow> 'd \<Rightarrow> 'd \<Rightarrow> 'd \<Rightarrow> 'd risk_policy \<Rightarrow> 'd funding_evidence \<Rightarrow> 'd economic_leg result" where
  "leg_economics L legId index entryPrice quantity takeProfit expectedNotional policy funding =
     (let entryNotional = dec_multiply L entryPrice quantity in
      guard INVALID_EVIDENCE (dec_compare L entryNotional expectedNotional = 0) (
      let exitNotional = dec_multiply L takeProfit quantity;
          grossProfit = dec_subtract L exitNotional entryNotional;
          entryFee = dec_multiply L entryNotional (rp_entryFeeRate policy);
          exitFee = dec_multiply L exitNotional (rp_exitFeeRate policy);
          slippageBuffer = dec_multiply L entryNotional (rp_slippageBufferRate policy);
          minimumEdge = dec_multiply L entryNotional (rp_minimumNetEdgeRate policy);
          leg = \<lparr>eg_legId = legId, eg_index = index, eg_entryPrice = entryPrice, eg_quantity = quantity,
            eg_takeProfit = takeProfit, eg_entryNotional = entryNotional, eg_exitNotional = exitNotional,
            eg_grossProfit = grossProfit, eg_entryFee = entryFee, eg_exitFee = exitFee,
            eg_slippageBuffer = slippageBuffer, eg_minimumEdge = minimumEdge, eg_fundingCost = UnavailableAmount,
            eg_requiredProfit = UnavailableAmount, eg_netAfterModeledCosts = UnavailableAmount, eg_passes = False,
            eg_reasonCodes = [ECONOMICS_INPUT_UNKNOWN]\<rparr>
      in
      if fe_status funding \<noteq> FundingFresh then Ok leg
      else
        (case fe_rate funding of
           KnownAmount rate \<Rightarrow>
             let zero = dec_zero L;
                 positiveFundingRate = (if 0 < dec_compare L rate zero then rate else zero);
                 fundingCost = dec_multiply L entryNotional positiveFundingRate;
                 requiredProfit = dec_add L (dec_add L (dec_add L (dec_add L entryFee exitFee) slippageBuffer) minimumEdge) fundingCost;
                 net = dec_subtract L (dec_subtract L (dec_subtract L (dec_subtract L grossProfit entryFee) exitFee) slippageBuffer)
                   fundingCost;
                 passes = 0 \<le> dec_compare L grossProfit requiredProfit
             in Ok (leg\<lparr>eg_fundingCost := KnownAmount fundingCost, eg_requiredProfit := KnownAmount requiredProfit,
                  eg_netAfterModeledCosts := KnownAmount net, eg_passes := passes,
                  eg_reasonCodes := if passes then [] else [ECONOMICS_INSUFFICIENT]\<rparr>)
         | _ \<Rightarrow> Fail INVALID_EVIDENCE)))"

record 'd risk_economics =
  re_outcome :: gate_status
  re_reasonCodes :: "block_reason list"
  re_fundingEvidence :: "'d funding_evidence"
  re_legs :: "'d economic_leg list"

definition not_evaluated_funding :: "'d funding_evidence" where
  "not_evaluated_funding =
     \<lparr>fe_status = FundingNotEvaluated, fe_reason = None, fe_bundleCutoff = None, fe_tickerObservedAt = None,
      fe_maxAgeMs = None, fe_rate = NotEvaluated\<rparr>"

definition economics_of_leg ::
  "'d lib \<Rightarrow> 'd risk_policy \<Rightarrow> 'd funding_evidence \<Rightarrow> 'd candidate_leg \<Rightarrow> 'd economic_leg result" where
  "economics_of_leg L policy funding leg =
     need_some INVALID_EVIDENCE (Option.bind (oi_protection (cl_intent leg)) pr_takeProfit) (\<lambda>takeProfit.
     leg_economics L (cl_legId leg) (cl_index leg) (oi_price (cl_intent leg)) (oi_quantity (cl_intent leg)) takeProfit
       (oi_notional (cl_intent leg)) policy funding)"

definition build_economics ::
  "'d lib \<Rightarrow> 'd risk_plan \<Rightarrow> quality_profile \<Rightarrow> 'd risk_policy \<Rightarrow> string \<Rightarrow> 'd risk_economics result" where
  "build_economics L plan profile policy evaluationTime =
     (if pl_recommendation plan \<noteq> ADD_LONG
      then Ok \<lparr>re_outcome = GateNotEvaluated, re_reasonCodes = [], re_fundingEvidence = not_evaluated_funding, re_legs = []\<rparr>
      else
        let market = pl_market plan;
            funding = funding_evidence_of market (Option.bind (find_symbol market (pl_symbol plan)) ms_ticker) profile evaluationTime
        in
        need_some INVALID_EVIDENCE (pl_candidateLegs plan) (\<lambda>candidateLegs.
        rbind (traverse (economics_of_leg L policy funding) candidateLegs) (\<lambda>legs.
        let reasons = normalized_reasons (\<Union> (set (map (\<lambda>leg. set (eg_reasonCodes leg)) legs)))
        in Ok \<lparr>re_outcome = (if reasons \<noteq> [] then GateBlock else GatePass), re_reasonCodes = reasons,
               re_fundingEvidence = funding, re_legs = legs\<rparr>)))"

subsection \<open>What a pass promises\<close>

text \<open>The position's own leverage is known and within the limit.\<close>

definition leverage_within :: "('d \<Rightarrow> rat) \<Rightarrow> 'd \<Rightarrow> 'd account_position \<Rightarrow> bool" where
  "leverage_within v limit position \<longleftrightarrow>
     (case known_in Unit_rate (ap_leverage position) of
        Some leverage \<Rightarrow> 0 < v leverage \<and> v leverage \<le> v limit | None \<Rightarrow> False)"

definition exposed :: "('d \<Rightarrow> rat) \<Rightarrow> 'd account_position \<Rightarrow> bool" where
  "exposed v position \<longleftrightarrow> ap_category position = ''linear'' \<and>
     (case known_decimal (ap_size position) of Some quantity \<Rightarrow> 0 < v quantity | None \<Rightarrow> True)"

context big_decimal
begin

lemma incremental_capacity_value:
  "ic_withinCapacity (incremental_capacity_of L available requested ratio) \<longleftrightarrow>
     v requested \<le> max 0 (v available - max 0 (v available) * v ratio)"
  by (auto simp: incremental_capacity_of_def Let_def max_def)

lemma exposed_iff: "relevant_position L p \<longleftrightarrow> exposed v p"
  by (auto simp: relevant_position_def exposed_def known_decimal_def split: fact.splits)

lemma leverage_check_reasons:
  "snd (leverage_check_of L limit symbol i source leverage) = {} \<longleftrightarrow> (\<exists>l. leverage = Some l \<and> v l \<le> v limit)"
  by (auto simp: leverage_check_of_def Let_def not_less split: option.splits)

lemma position_leverage_reasons:
  assumes "snd (check_position_leverage L limit supplemental target rows position) = {}" "exposed v position"
  shows "leverage_within v limit position" "target \<Longrightarrow> ap_isReduceOnly position \<noteq> Known True"
proof -
  have "\<not> flat_target L position"
    using assms(2) by (auto simp: flat_target_def exposed_def known_in_decimal split: option.splits if_splits)
  then have "snd (leverage_check_of L limit (ap_symbol position) (Some (ap_positionIdx position)) FromPassB
      (leverage_value L position)) = {}" and restricted: "\<not> (target \<and> relevant_position L position \<and> ap_isReduceOnly position = Known True)"
    using assms(1) by (auto simp: check_position_leverage_def Let_def split: prod.splits if_splits)
  then show "leverage_within v limit position"
    by (auto simp: leverage_check_reasons leverage_within_def leverage_value_def split: option.splits if_splits)
  show "target \<Longrightarrow> ap_isReduceOnly position \<noteq> Known True"
    using restricted assms(2) by (auto simp: exposed_iff)
qed

lemma assessed_leverage:
  assumes "la_reasonCodes (assess_leverage collate L bundle projection policy t raw) = []" "ab_passB bundle = Some pass"
    "position \<in> set (cp_positions pass)" "exposed v position"
  shows "leverage_within v (rp_maxDerivativesLeverage policy) position"
    "ap_symbol position = pj_targetSymbol projection \<Longrightarrow> ap_isReduceOnly position \<noteq> Known True"
proof -
  obtain supplemental reasons where s: "supplemental_leverage collate L bundle projection policy t raw = (supplemental, reasons)"
    by (cases "supplemental_leverage collate L bundle projection policy t raw")
  let ?check = "check_symbol_leverage L (rp_maxDerivativesLeverage policy) supplemental pass projection"
  have "ap_symbol position \<in> set (relevant_symbols L pass projection)"
    using assms(3,4) by (auto simp: relevant_symbols_def exposed_iff)
  then have all: "\<forall>r \<in> set (?check (ap_symbol position)). snd r = {}"
    using assms(1,2) by (fastforce simp: assess_leverage_def s Let_def)
  let ?rows = "filter (\<lambda>p. ap_category p = ''linear'' \<and> ap_symbol p = ap_symbol position) (cp_positions pass)"
  have rows: "position \<in> set ?rows" "filter (relevant_position L) ?rows \<noteq> []"
    using assms(3,4) by (auto simp: exposed_def filter_empty_conv exposed_iff)
  then have "?rows \<noteq> []" by (metis empty_iff list.set(1))
  then have "?check (ap_symbol position) = map (check_position_leverage L (rp_maxDerivativesLeverage policy) supplemental
      (ap_symbol position = pj_targetSymbol projection) (length ?rows)) ?rows"
    using rows(2) by (simp add: check_symbol_leverage_def Let_def)
  then have "snd (check_position_leverage L (rp_maxDerivativesLeverage policy) supplemental
      (ap_symbol position = pj_targetSymbol projection) (length ?rows) position) = {}"
    using all rows(1) by simp
  from position_leverage_reasons [OF this assms(4)]
  show "leverage_within v (rp_maxDerivativesLeverage policy) position"
    "ap_symbol position = pj_targetSymbol projection \<Longrightarrow> ap_isReduceOnly position \<noteq> Known True" by blast+
qed

lemma requested_value:
  assumes "derive_requested_notional L plan = Inr requested" "pl_recommendation plan = ADD_LONG"
  obtains intents where "pl_orderIntents plan = Some intents" "v requested = (\<Sum>intent \<leftarrow> intents. v (oi_notional intent))"
    "0 < v requested"
proof -
  have fails: "foldl (add_notional L) (Inl e) intents = Inl e" for intents e
    by (induction intents) (auto simp: add_notional_def)
  have sums: "foldl (add_notional L) (Inr s) intents = Inr r \<Longrightarrow>
      v r = v s + (\<Sum>intent \<leftarrow> intents. v (oi_notional intent)) \<and> v s \<le> v r" for intents s r
  proof (induction intents arbitrary: s)
    case (Cons i intents)
    have step: "add_notional L (Inr s) i = (if 0 < v (oi_notional i) then Ok (dec_add L s (oi_notional i)) else Fail INVALID_EVIDENCE)"
      by (simp add: add_notional_def guard_def)
    show ?case using Cons.prems Cons.IH [of "dec_add L s (oi_notional i)"] by (auto simp: step fails split: if_splits)
  qed simp
  from assms obtain intents where "pl_orderIntents plan = Some intents"
    "foldl (add_notional L) (Inr (dec_zero L)) intents = Inr requested" "v requested \<noteq> 0"
    by (auto simp: derive_requested_notional_def need_Ok_iff rbind_Ok_iff)
  then show ?thesis using that sums by force
qed

end

lemma capacity_evaluated:
  assumes "build_capacity collate L plan bundle policy t raw = Ok c" "rc_outcome c = GatePass"
  obtains pj requested where "build_projection L plan bundle policy t None = Ok pj" "pj_sharedReasonCodes pj = []"
    "pl_recommendation plan = ADD_LONG" "derive_requested_notional L plan = Ok requested"
    "ad_reasonCodes (pj_addProjection pj) = []"
    "snd (capacity_part_of L policy (ad_availableBalance (pj_addProjection pj)) requested) = {}"
    "la_reasonCodes (assess_leverage collate L bundle pj policy t raw) = []"
proof -
  obtain pj where pj: "build_projection L plan bundle policy t None = Ok pj"
    and raw: "is_array raw"
    using assms(1) by (auto simp: build_capacity_def need_Ok_iff)
  have run: "pj_sharedReasonCodes pj = [] \<and> pl_recommendation plan = ADD_LONG"
    using assms by (auto simp: build_capacity_def pj raw unevaluated_capacity_def split: if_splits)
  then obtain requested where requested: "derive_requested_notional L plan = Ok requested"
    using assms(1) by (auto simp: build_capacity_def pj raw rbind_Ok_iff)
  show thesis
    by (rule that [OF pj _ _ requested])
      (use assms run in \<open>auto simp: build_capacity_def pj raw requested Let_def split: prod.splits if_splits\<close>)
qed

context big_decimal
begin

lemma projected_reasons:
  "ad_reasonCodes (add_projection_of L pass (projected_totals L pass market target legs)) = [] \<longleftrightarrow>
     fully_valued v L pass market target"
  using projected_totals_value [of pass market target legs]
  by (auto simp: add_projection_of_def gross_exposure_def Let_def split: if_splits)

end

text \<open>
  Claim C20: when the capacity gate passes, the account evidence was collected completely and its
  two passes agreed, it ended not after the evaluation and no longer before it than the policy's
  maximal age, the margin mode is regular (in the comparison and in the second pass), the target
  is in one-way mode and among the configured symbols. The plan is to add; the target instrument
  is trading, no debt is open, and every position, order and asset can be valued. The requested
  notional is positive and at most the known available balance less its reserve, and every open
  linear position has a known leverage within the policy, the target's not being reduce-only.
\<close>

theorem capacity_pass_sound:
  assumes "host L v" "build_capacity collate L plan bundle policy t raw = Ok c" "rc_outcome c = GatePass"
  shows "\<exists>pass endedAt cutoff legs intents balance.
    ab_collectionStatus bundle = CollectionComplete \<and> ab_consistent bundle \<and> ab_passB bundle = Some pass \<and>
    ab_bundleCutoff bundle = Some cutoff \<and> ab_collectionEndedAt bundle = Some endedAt \<and>
    epoch_ms endedAt \<le> epoch_ms t \<and> epoch_ms t - epoch_ms endedAt \<le> rp_maxAccountEvidenceAgeMs policy \<and>
    ab_marginCompatibility bundle = RegularMargin \<and> cp_marginMode pass = Known ''REGULAR_MARGIN'' \<and>
    map_of (ab_positionModes bundle) (pl_symbol plan) = Some ModeOneWay \<and>
    pl_symbol plan \<in> set (ab_configuredM1Symbols bundle) \<and>
    pl_recommendation plan = ADD_LONG \<and> planned_legs plan None = Ok legs \<and>
    trading_target (pl_market plan) (pl_symbol plan) \<and>
    (\<forall>p \<in> set (cp_positions pass). position_exposure v (pl_market plan) p \<noteq> None) \<and>
    (\<forall>order \<in> set (cp_orders pass). order_exposure v L pass (pl_market plan) (pl_symbol plan) order \<noteq> None) \<and>
    (\<forall>c \<in> set (cp_collateral pass). free_of_debt v [ac_borrowAmount c, ac_otherBorrowAmount c]) \<and>
    (\<forall>asset \<in> set (cp_assets pass). asset_exposure v asset \<noteq> None) \<and>
    pl_orderIntents plan = Some intents \<and> known_in Unit_USD (cp_totalAvailableBalance pass) = Some balance \<and>
    0 < (\<Sum>intent \<leftarrow> intents. v (oi_notional intent)) \<and>
    (\<Sum>intent \<leftarrow> intents. v (oi_notional intent)) \<le> v balance - v balance * v (rp_marginReserveRatio policy) \<and>
    (\<forall>position \<in> set (cp_positions pass). exposed v position \<longrightarrow>
       leverage_within v (rp_maxDerivativesLeverage policy) position \<and>
       (ap_symbol position = pl_symbol plan \<longrightarrow> ap_isReduceOnly position \<noteq> Known True))"
proof -
  note big = host_decimal [OF assms(1)]
  obtain pj requested where pj: "build_projection L plan bundle policy t None = Ok pj" "pj_sharedReasonCodes pj = []"
    and plan: "pl_recommendation plan = ADD_LONG" "derive_requested_notional L plan = Ok requested"
    and reasons: "ad_reasonCodes (pj_addProjection pj) = []"
      "snd (capacity_part_of L policy (ad_availableBalance (pj_addProjection pj)) requested) = {}"
      "la_reasonCodes (assess_leverage collate L bundle pj policy t raw) = []"
    using capacity_evaluated [OF assms(2,3)] .
  have shared: "shared_reasons bundle policy t (pl_symbol plan) = {}" and target: "pj_targetSymbol pj = pl_symbol plan"
    using pj by (auto simp: build_projection_def Let_def rbind_Ok_iff split: option.splits if_splits)
  obtain pass legs where p: "ab_passB bundle = Some pass" "planned_legs plan None = Ok legs"
    "pj_addProjection pj = add_projection_of L pass (projected_totals L pass (pl_market plan) (pl_symbol plan) legs)"
    using projection_evaluated [OF pj(1)] projection_not_evaluated [OF pj(1)] shared plan(1) by metis
  have admissible: "admissible_account bundle policy t (pl_symbol plan) pass"
    using shared p(1) shared_reasons_admissible [where symbol = "pl_symbol plan"] by (auto simp: admissible_account_def)
  then obtain endedAt cutoff where account: "ab_collectionEndedAt bundle = Some endedAt" "ab_bundleCutoff bundle = Some cutoff"
    "epoch_ms endedAt \<le> epoch_ms t" "epoch_ms t - epoch_ms endedAt \<le> rp_maxAccountEvidenceAgeMs policy"
    by (auto simp: admissible_account_def)
  have gross: "fully_valued v L pass (pl_market plan) (pl_symbol plan)"
    using reasons(1) by (simp add: p(3) big_decimal.projected_reasons [OF big])
  then obtain balance where balance: "known_in Unit_USD (cp_totalAvailableBalance pass) = Some balance"
    by (auto simp: fully_valued_def)
  obtain intents where intents: "pl_orderIntents plan = Some intents"
    "v requested = (\<Sum>intent \<leftarrow> intents. v (oi_notional intent))" "0 < v requested"
    using big_decimal.requested_value [OF big plan(2,1)] .
  have "v requested \<le> max 0 (v balance - max 0 (v balance) * v (rp_marginReserveRatio policy))"
    using reasons(2) balance
    by (simp add: p(3) add_projection_of_def Let_def capacity_part_of_def big_decimal.incremental_capacity_value [OF big]
        split: if_splits)
  then have "v requested \<le> v balance - v balance * v (rp_marginReserveRatio policy)"
    using intents(3) by (auto simp: max_def split: if_splits)
  then show ?thesis
    using plan(1) p(2) admissible account gross balance intents
      big_decimal.assessed_leverage [OF big reasons(3) p(1), unfolded target]
    by (intro exI [of _ pass] exI [of _ endedAt] exI [of _ cutoff] exI [of _ legs] exI [of _ intents] exI [of _ balance])
      (simp add: admissible_account_def fully_valued_def)
qed

theorem capacity_pass_sound_witness:
  "\<exists>balance. known_in Unit_USD (cp_totalAvailableBalance sample_pass) = Some balance \<and>
     (\<Sum>intent \<leftarrow> [cl_intent sample_leg_0, cl_intent sample_leg_1]. sval (oi_notional intent)) \<le>
       sval balance - sval balance * sval (rp_marginReserveRatio sample_risk_policy) \<and>
     leverage_within sval (rp_maxDerivativesLeverage sample_risk_policy) sample_position"
proof -
  let ?collate = "\<lambda>a b :: string. 0 :: int"
  let ?c = "build_capacity ?collate ref_lib sample_risk_plan sample_account sample_risk_policy ''2024-01-01T00:00:30.000Z'' (JArr [])"
  have "map_sum (\<lambda>e. ()) rc_outcome ?c = Inr GatePass" by code_simp
  then obtain c where "?c = Ok c" "rc_outcome c = GatePass" by (cases ?c) auto
  from capacity_pass_sound [OF ref_host this]
  show ?thesis
    by (auto simp: sample_account_def sample_risk_plan_def sample_pass_def exposed_def sample_position_def known_decimal_def)
qed

subsection \<open>What passes the economics\<close>

text \<open>The funding rate may be used: the market evidence is fresh and no part of it is in the future.\<close>

definition usable_rate :: "'d market_bundle \<Rightarrow> string \<Rightarrow> quality_profile \<Rightarrow> string \<Rightarrow> 'd \<Rightarrow> bool" where
  "usable_rate market symbol profile t rate \<longleftrightarrow>
     (\<exists>maxAgeMs reference ticker.
       map_of (qp_roles profile) ''market'' = Some maxAgeMs \<and>
       epoch_ms (mb_bundleCutoff market) \<le> epoch_ms t \<and> epoch_ms t < epoch_ms (mb_bundleCutoff market) + maxAgeMs \<and>
       find (\<lambda>row. ev_kind row = MarketEvidenceBundle) (mb_evidence market) = Some reference \<and>
       ev_asOf reference = mb_bundleCutoff market \<and> epoch_ms t < epoch_ms (ev_asOf reference) + ev_validForMs reference \<and>
       epoch_ms (mb_collectionStartedAt market) \<le> epoch_ms t + qp_metadataSkewMs profile \<and>
       epoch_ms (mb_collectionEndedAt market) \<le> epoch_ms t + qp_metadataSkewMs profile \<and>
       Option.bind (find_symbol market symbol) ms_ticker = Some ticker \<and>
       epoch_ms (mt_observedAt ticker) \<le> epoch_ms (mb_bundleCutoff market) \<and> mt_fundingRate ticker = Some rate)"

text \<open>The profit of a leg at its take-profit covers its fees, slippage, edge and funding.\<close>

definition earns_edge :: "('d \<Rightarrow> rat) \<Rightarrow> 'd risk_policy \<Rightarrow> 'd \<Rightarrow> 'd candidate_leg \<Rightarrow> bool" where
  "earns_edge v policy rate leg \<longleftrightarrow>
     (case Option.bind (oi_protection (cl_intent leg)) pr_takeProfit of
        None \<Rightarrow> False
      | Some takeProfit \<Rightarrow>
          let entry = v (oi_price (cl_intent leg)) * v (oi_quantity (cl_intent leg));
              exit = v takeProfit * v (oi_quantity (cl_intent leg)) in
          entry * v (rp_entryFeeRate policy) + exit * v (rp_exitFeeRate policy) + entry * v (rp_slippageBufferRate policy) +
            entry * v (rp_minimumNetEdgeRate policy) + entry * max 0 (v rate) \<le> exit - entry)"

lemma funding_rate_of:
  "fe_status (funding_evidence_of market ticker profile t) = FundingFresh \<Longrightarrow>
     \<exists>rate. fe_rate (funding_evidence_of market ticker profile t) = KnownAmount rate"
  by (auto simp: funding_evidence_of_def Let_def split: option.splits if_splits)

lemma funding_fresh_iff:
  "fe_status (funding_evidence_of market (Option.bind (find_symbol market symbol) ms_ticker) profile t) = FundingFresh \<and>
     fe_rate (funding_evidence_of market (Option.bind (find_symbol market symbol) ms_ticker) profile t) = KnownAmount rate \<longleftrightarrow>
   usable_rate market symbol profile t rate"
  unfolding usable_rate_def
  by (cases "Option.bind (find_symbol market symbol) ms_ticker")
    (auto simp: funding_evidence_of_def Let_def age_expired_def metadata_is_future_def not_le not_less
      split: option.splits if_splits)

context big_decimal
begin

lemma leg_passes:
  assumes "economics_of_leg L policy funding leg = Ok r"
    "fe_status funding = FundingFresh \<Longrightarrow> \<exists>rate. fe_rate funding = KnownAmount rate"
  shows "eg_reasonCodes r = [] \<longleftrightarrow>
    (\<exists>rate. fe_status funding = FundingFresh \<and> fe_rate funding = KnownAmount rate \<and> earns_edge v policy rate leg)"
proof (cases "fe_status funding = FundingFresh")
  case True
  then obtain rate where rate: "fe_rate funding = KnownAmount rate" using assms(2) by blast
  obtain takeProfit where tp: "Option.bind (oi_protection (cl_intent leg)) pr_takeProfit = Some takeProfit"
    using assms(1) by (cases "Option.bind (oi_protection (cl_intent leg)) pr_takeProfit") (auto simp: economics_of_leg_def)
  have "max 0 (v rate) = v (if 0 < dec_compare L rate (dec_zero L) then rate else dec_zero L)"
    by (auto simp: max_def)
  then show ?thesis
    using assms(1) True rate tp
    by (auto simp: economics_of_leg_def leg_economics_def Let_def earns_edge_def guard_def algebra_simps split: if_splits)
next
  case False
  then show ?thesis using assms(1)
    by (auto simp: economics_of_leg_def leg_economics_def need_some_def guard_def Let_def split: option.splits if_splits)
qed

end

text \<open>
  The economics of an \<open>ADD_LONG\<close> plan pass exactly when it has no legs or the funding
  rate rests on fresh market evidence and every leg's profit at its take-profit covers fees,
  slippage, the minimum edge and a positive funding rate, all computed exactly.
\<close>

theorem economics_pass_iff:
  assumes "host L v" "build_economics L plan profile policy t = Ok r" "pl_recommendation plan = ADD_LONG"
  shows "\<exists>legs. pl_candidateLegs plan = Some legs \<and> length (re_legs r) = length legs \<and>
    (re_outcome r = GatePass \<longleftrightarrow> legs = [] \<or>
      (\<exists>rate. usable_rate (pl_market plan) (pl_symbol plan) profile t rate \<and> (\<forall>leg \<in> set legs. earns_edge v policy rate leg)))"
proof -
  define funding where "funding = funding_evidence_of (pl_market plan)
    (Option.bind (find_symbol (pl_market plan) (pl_symbol plan)) ms_ticker) profile t"
  from assms(2,3) obtain legs where legs: "pl_candidateLegs plan = Some legs"
    "list_all2 (\<lambda>leg r. economics_of_leg L policy funding leg = Ok r) legs (re_legs r)"
    "re_outcome r = GatePass \<longleftrightarrow> (\<forall>r \<in> set (re_legs r). eg_reasonCodes r = [])"
    by (auto simp: build_economics_def Let_def need_Ok_iff rbind_Ok_iff traverse_Ok_iff funding_def)
  have fresh: "fe_status funding = FundingFresh \<Longrightarrow> \<exists>rate. fe_rate funding = KnownAmount rate"
    unfolding funding_def by (rule funding_rate_of)
  have rates: "fe_status funding = FundingFresh \<and> fe_rate funding = KnownAmount rate \<longleftrightarrow>
      usable_rate (pl_market plan) (pl_symbol plan) profile t rate" for rate
    unfolding funding_def by (rule funding_fresh_iff)
  have unique: "usable_rate (pl_market plan) (pl_symbol plan) profile t rate \<Longrightarrow>
      usable_rate (pl_market plan) (pl_symbol plan) profile t rate' \<Longrightarrow> rate = rate'" for rate rate'
    by (auto simp: usable_rate_def)
  have leg: "eg_reasonCodes x = [] \<longleftrightarrow>
      (\<exists>rate. usable_rate (pl_market plan) (pl_symbol plan) profile t rate \<and> earns_edge v policy rate leg)"
    if "economics_of_leg L policy funding leg = Ok x" for leg x
    using big_decimal.leg_passes [OF host_decimal [OF assms(1)] that fresh] by (simp add: rates [symmetric])
  have "(\<forall>x \<in> set (re_legs r). eg_reasonCodes x = []) \<longleftrightarrow> (\<forall>leg \<in> set legs.
      \<exists>rate. usable_rate (pl_market plan) (pl_symbol plan) profile t rate \<and> earns_edge v policy rate leg)"
    using legs(2) by (induction rule: list_all2_induct) (simp_all add: leg)
  also have "\<dots> \<longleftrightarrow> legs = [] \<or>
      (\<exists>rate. usable_rate (pl_market plan) (pl_symbol plan) profile t rate \<and> (\<forall>leg \<in> set legs. earns_edge v policy rate leg))"
  proof (cases legs)
    case (Cons first rest)
    show ?thesis
    proof
      assume all: "\<forall>leg \<in> set legs. \<exists>rate. usable_rate (pl_market plan) (pl_symbol plan) profile t rate \<and>
        earns_edge v policy rate leg"
      then obtain rate where rate: "usable_rate (pl_market plan) (pl_symbol plan) profile t rate" using Cons by auto
      then have "\<forall>leg \<in> set legs. earns_edge v policy rate leg" using all unique [OF rate] by blast
      then show "legs = [] \<or> (\<exists>rate. usable_rate (pl_market plan) (pl_symbol plan) profile t rate \<and>
          (\<forall>leg \<in> set legs. earns_edge v policy rate leg))" using rate by blast
    qed (use Cons in auto)
  qed simp
  finally show ?thesis
    using legs(1,3) list_all2_lengthD [OF legs(2)] by (intro exI [of _ legs]) simp
qed

theorem economics_pass_iff_witness:
  "\<exists>rate. usable_rate sample_portfolio_market ''BTCUSDT'' \<lparr>qp_roles = [(''market'', 60000)], qp_metadataSkewMs = 0\<rparr>
       ''2024-01-01T00:00:30.000Z'' rate \<and>
     (\<forall>leg \<in> set [sample_leg_0, sample_leg_1]. earns_edge sval sample_risk_policy rate leg)"
proof -
  let ?r = "build_economics ref_lib sample_risk_plan \<lparr>qp_roles = [(''market'', 60000)], qp_metadataSkewMs = 0\<rparr> sample_risk_policy
    ''2024-01-01T00:00:30.000Z''"
  have "map_sum (\<lambda>e. ()) re_outcome ?r = Inr GatePass" by code_simp
  then obtain r where "?r = Ok r" "re_outcome r = GatePass" by (cases ?r) auto
  then show ?thesis
    using economics_pass_iff [OF ref_host] by (fastforce simp: sample_risk_plan_def)
qed

end
