(* ===== verification/Risk.thy ===== *)
theory Risk
  imports Orders
begin

text \<open>
  \<open>domain/risk/risk-decision.ts\<close>, \<open>risk-proof.ts\<close> and the candidate half of
  \<open>domain/planning/execution-plan.ts\<close>: the plan candidate, its hash and the risk evaluation that
  accepts or blocks it. Order intents are JavaScript values here, because \<open>evaluateRisk\<close> checks
  their shape again; the snapshots, the strategy and the requirements are the records their
  constructors return. A clock is the instant it shows.

  Shown here: a passed decision means that every intent is on the exchange grids, exact, within
  the limits and protected, that the evidence is fresh and every required capability observed as
  supported, and that the positions cover what the intents close.
\<close>

subsection \<open>The candidate\<close>

record 'd plan_candidate =
  pc_strategy :: "'d strategy_config"
  pc_marketSnapshot :: "'d market_snapshot"
  pc_accountSnapshot :: "'d account_snapshot"
  pc_evidence :: "evidence_ref list"
  pc_desiredCurrentDiff :: "'d jsval"
  pc_orderIntents :: "'d jsval list"
  pc_requiredCapabilities :: "capability_requirement list"
  pc_executionScope :: capability_scope

fun position_mode_text :: "position_mode \<Rightarrow> string" where
  "position_mode_text OneWay = ''one-way''"
| "position_mode_text Hedge = ''hedge''"

fun position_side_text :: "position_side \<Rightarrow> string" where
  "position_side_text Long = ''long''"
| "position_side_text Short = ''short''"
| "position_side_text Flat = ''flat''"

definition scope_to_js :: "capability_scope \<Rightarrow> 'd jsval" where
  "scope_to_js s = JObj
     [(''exchange'', JStr (sc_exchange s)), (''environment'', JStr (sc_environment s)),
      (''category'', JStr (sc_category s)), (''positionMode'', JStr (position_mode_text (sc_positionMode s)))]"

definition requirement_to_js :: "capability_requirement \<Rightarrow> 'd jsval" where
  "requirement_to_js r = JObj
     [(''capability'', JStr (rq_capability r)), (''scope'', scope_to_js (rq_scope r))]"

definition strategy_to_js :: "'d strategy_config \<Rightarrow> 'd jsval" where
  "strategy_to_js s = JObj
     [(''strategyId'', JStr (st_strategyId s)), (''version'', JStr (st_version s)),
      (''cadence'', JStr ''daily''), (''maxOrderNotional'', JDec (st_maxOrderNotional s)),
      (''requiresProtection'', JBool (st_requiresProtection s))]"

definition constraints_to_js :: "'d instrument_constraints \<Rightarrow> 'd jsval" where
  "constraints_to_js c = JObj
     ([(''instrument'', JStr (ic_instrument c)), (''version'', JStr (ic_version c)),
       (''priceTickSize'', JDec (ic_priceTickSize c)), (''quantityStep'', JDec (ic_quantityStep c)),
       (''minQuantity'', JDec (ic_minQuantity c))]
      @ opt_field ''minNotional'' (map_option JDec (ic_minNotional c))
      @ opt_field ''minPrice'' (map_option JDec (ic_minPrice c))
      @ opt_field ''maxPrice'' (map_option JDec (ic_maxPrice c))
      @ opt_field ''maxLimitQuantity'' (map_option JDec (ic_maxLimitQuantity c)))"

definition market_to_js :: "'d market_snapshot \<Rightarrow> 'd jsval" where
  "market_to_js m = JObj
     [(''snapshotId'', JStr (mk_snapshotId m)), (''instrument'', JStr (mk_instrument m)),
      (''scope'', scope_to_js (mk_scope m)), (''asOf'', JStr (mk_asOf m)), (''bid'', JDec (mk_bid m)),
      (''ask'', JDec (mk_ask m)), (''last'', JDec (mk_last m)),
      (''constraints'', constraints_to_js (mk_constraints m)),
      (''evidence'', JArr (map evidence_to_js (mk_evidence m)))]"

definition position_to_js :: "'d position_snapshot \<Rightarrow> 'd jsval" where
  "position_to_js p = JObj
     ([(''instrument'', JStr (po_instrument p)), (''side'', JStr (position_side_text (po_side p))),
       (''quantity'', JDec (po_quantity p))] @ opt_field ''entryPrice'' (map_option JDec (po_entryPrice p)))"

definition owned_order_to_js :: "'d owned_order_snapshot \<Rightarrow> 'd jsval" where
  "owned_order_to_js r = JObj
     [(''clientOrderId'', JStr (oo_clientOrderId r)), (''instrument'', JStr (oo_instrument r)),
      (''side'', JStr (order_side_text (oo_side r))), (''quantity'', JDec (oo_quantity r))]"

definition account_to_js :: "'d account_snapshot \<Rightarrow> 'd jsval" where
  "account_to_js a = JObj
     [(''snapshotId'', JStr (ac_snapshotId a)), (''accountScope'', JStr (ac_accountScope a)),
      (''scope'', scope_to_js (ac_scope a)), (''asOf'', JStr (ac_asOf a)),
      (''availableBalance'', JDec (ac_availableBalance a)),
      (''positions'', JArr (map position_to_js (ac_positions a))),
      (''ownedOrders'', JArr (map owned_order_to_js (ac_ownedOrders a))),
      (''evidence'', JArr (map evidence_to_js (ac_evidence a)))]"

definition candidate_fields :: "'d plan_candidate \<Rightarrow> (string \<times> 'd jsval) list" where
  "candidate_fields c =
     [(''strategy'', strategy_to_js (pc_strategy c)),
      (''marketSnapshot'', market_to_js (pc_marketSnapshot c)),
      (''accountSnapshot'', account_to_js (pc_accountSnapshot c)),
      (''evidence'', JArr (map evidence_to_js (pc_evidence c))),
      (''desiredCurrentDiff'', pc_desiredCurrentDiff c),
      (''orderIntents'', JArr (pc_orderIntents c)),
      (''requiredCapabilities'', JArr (map requirement_to_js (pc_requiredCapabilities c))),
      (''executionScope'', scope_to_js (pc_executionScope c))]"

definition candidate_to_js :: "'d plan_candidate \<Rightarrow> 'd jsval" where
  "candidate_to_js c = JObj (candidate_fields c)"

definition CANONICAL_SERIALIZATION_VERSION :: string where
  "CANONICAL_SERIALIZATION_VERSION = ''canonical/v1''"

definition hash_plan_candidate :: "'d lib \<Rightarrow> 'd plan_candidate \<Rightarrow> string result" where
  "hash_plan_candidate L candidate =
     hash_canonical L (JObj
       [(''canonicalSerializationVersion'', JStr CANONICAL_SERIALIZATION_VERSION),
        (''candidate'', candidate_to_js candidate)])"

subsection \<open>Risk decisions\<close>

datatype risk_status = RiskPass | RiskBlocked

record risk_decision =
  rk_decisionId :: string
  rk_inputHash :: string
  rk_intentIds :: "string list"
  rk_status :: risk_status
  rk_reasonCodes :: "error_code list"
  rk_asOf :: string
  rk_evidence :: "evidence_ref list"
  rk_requiredCapabilities :: "capability_requirement list"
  rk_produced :: bool

definition mark_risk_decision :: "risk_decision \<Rightarrow> risk_decision" where
  "mark_risk_decision d = d\<lparr>rk_produced := True\<rparr>"

definition is_produced_risk_decision :: "risk_decision \<Rightarrow> bool" where
  "is_produced_risk_decision d = rk_produced d"

definition same_evidence :: "evidence_ref \<Rightarrow> evidence_ref \<Rightarrow> bool" where
  "same_evidence left right \<longleftrightarrow>
     ev_kind left = ev_kind right \<and> ev_schemaVersion left = ev_schemaVersion right \<and>
     ev_producer left = ev_producer right \<and> ev_sourceId left = ev_sourceId right \<and>
     ev_asOf left = ev_asOf right \<and> ev_validForMs left = ev_validForMs right \<and>
     ev_contentHash left = ev_contentHash right"

definition same_scope :: "capability_scope \<Rightarrow> capability_scope \<Rightarrow> bool" where
  "same_scope left right \<longleftrightarrow>
     sc_exchange left = sc_exchange right \<and> sc_environment left = sc_environment right \<and>
     sc_category left = sc_category right \<and> sc_positionMode left = sc_positionMode right"

text \<open>\<open>sameSnapshotScope\<close>, on the scope of either snapshot.\<close>

definition same_snapshot_scope :: "capability_scope \<Rightarrow> capability_scope \<Rightarrow> bool" where
  "same_snapshot_scope snapshotScope executionScope \<longleftrightarrow>
     sc_exchange snapshotScope = sc_exchange executionScope \<and>
     sc_environment snapshotScope = sc_environment executionScope \<and>
     sc_category snapshotScope = sc_category executionScope \<and>
     sc_positionMode snapshotScope = sc_positionMode executionScope"

definition has_capability_requirement ::
  "capability_requirement list \<Rightarrow> string \<Rightarrow> capability_scope \<Rightarrow> bool" where
  "has_capability_requirement requirements capability scope =
     list_ex (\<lambda>r. rq_capability r = capability \<and> same_scope (rq_scope r) scope) requirements"

definition is_valid_protection :: "'d lib \<Rightarrow> 'd jsval \<Rightarrow> bool" where
  "is_valid_protection L value =
     (if value = JUndef then True
      else if \<not> is_record value then False
      else (let stopLoss = get value ''stopLoss''; takeProfit = get value ''takeProfit'' in
        \<not> (stopLoss = JUndef \<and> takeProfit = JUndef) \<and>
        (stopLoss = JUndef \<or> positive_decimal L stopLoss) \<and>
        (takeProfit = JUndef \<or> positive_decimal L takeProfit)))"

text \<open>\<open>intentIds\<close>: the ids of the intents that have one.\<close>

definition intent_ids :: "'d jsval list \<Rightarrow> string list" where
  "intent_ids intents =
     concat (map (\<lambda>i. if is_record i then (case get i ''intentId'' of JStr s \<Rightarrow> [s] | _ \<Rightarrow> []) else []) intents)"

text \<open>The total size of the positions of one instrument and side.\<close>

definition position_total :: "'d lib \<Rightarrow> 'd position_snapshot list \<Rightarrow> 'd jsval \<Rightarrow> position_side \<Rightarrow> 'd \<Rightarrow> 'd" where
  "position_total L positions instrument side quantity =
     foldl (\<lambda>total p. dec_add L total (po_quantity p)) (dec_subtract L quantity quantity)
       (filter (\<lambda>p. JStr (po_instrument p) = instrument \<and> po_side p = side) positions)"

text \<open>The conditional pushes onto \<open>reasonCodes\<close>.\<close>

definition reason_if :: "bool \<Rightarrow> error_code \<Rightarrow> error_code list" where
  "reason_if b c = (if b then [c] else [])"

definition off_step :: "'d lib \<Rightarrow> 'd \<Rightarrow> 'd \<Rightarrow> bool" where
  "off_step L value step =
     (case floor_to_step L value step of Inl e \<Rightarrow> True | Inr r \<Rightarrow> dec_compare L r value \<noteq> 0)"

text \<open>The checks of one well-shaped intent after the position check, in the order of the code.\<close>

definition priced_intent_reasons ::
  "'d lib \<Rightarrow> 'd plan_candidate \<Rightarrow> 'd jsval \<Rightarrow> order_side \<Rightarrow> position_effect \<Rightarrow> 'd \<Rightarrow> 'd \<Rightarrow> 'd \<Rightarrow> error_code list" where
  "priced_intent_reasons L candidate intent side effect price quantity notional =
     (let constraints = mk_constraints (pc_marketSnapshot candidate);
          strategy = pc_strategy candidate;
          protection = get intent ''protection'';
          stopLoss = decimal_of (get protection ''stopLoss'');
          takeProfit = decimal_of (get protection ''takeProfit'');
          computedNotional = dec_multiply L price quantity
      in
      reason_if (st_requiresProtection strategy \<and> effect = OpenPosition \<and>
          (protection = JUndef \<or> get protection ''takeProfit'' = JUndef)) PROTECTION_REQUIRED @
      reason_if (get intent ''instrument'' \<noteq> JStr (mk_instrument (pc_marketSnapshot candidate)) \<or>
          get (get intent ''normalization'') ''constraintVersion'' \<noteq> JStr (ic_version constraints))
        CONSTRAINT_VIOLATION @
      reason_if (dec_compare L computedNotional notional \<noteq> 0) CONSTRAINT_VIOLATION @
      reason_if (is_positive L (st_maxOrderNotional strategy) \<and>
          0 < dec_compare L computedNotional (st_maxOrderNotional strategy)) CONSTRAINT_VIOLATION @
      reason_if (off_step L price (ic_priceTickSize constraints) \<or>
          off_step L quantity (ic_quantityStep constraints)) CONSTRAINT_VIOLATION @
      concat (map (\<lambda>p. case p of None \<Rightarrow> []
          | Some d \<Rightarrow> reason_if (off_step L d (ic_priceTickSize constraints)) CONSTRAINT_VIOLATION)
        [stopLoss, takeProfit]) @
      reason_if (dec_compare L quantity (ic_minQuantity constraints) < 0) QUANTITY_TOO_SMALL @
      (case ic_minNotional constraints of None \<Rightarrow> []
        | Some m \<Rightarrow> reason_if (dec_compare L computedNotional m < 0) NOTIONAL_TOO_SMALL) @
      reason_if (effect = OpenPosition \<and> protection \<noteq> JUndef \<and>
          ((case stopLoss of None \<Rightarrow> False
            | Some s \<Rightarrow> if side = Buy then 0 \<le> dec_compare L s price else dec_compare L s price \<le> 0) \<or>
           (case takeProfit of None \<Rightarrow> False
            | Some t \<Rightarrow> if side = Buy then dec_compare L t price \<le> 0 else 0 \<le> dec_compare L t price)))
        PROTECTION_REQUIRED)"

text \<open>
  One turn of the loop over the intents, with \<open>closeQuantities\<close>, the map from instruments to the
  quantity closed so far; the result is the new map and the pushed reasons.
\<close>

definition intent_step ::
  "'d lib \<Rightarrow> 'd plan_candidate \<Rightarrow> ('d jsval \<rightharpoonup> 'd) \<Rightarrow> 'd jsval \<Rightarrow> ('d jsval \<rightharpoonup> 'd) \<times> error_code list" where
  "intent_step L candidate closes intent =
     (case (if is_record intent \<and> get intent ''orderType'' = JStr ''limit'' \<and>
               is_record (get intent ''normalization'')
            then (order_side_of (get intent ''side''), position_effect_of (get intent ''positionEffect''))
            else (None, None)) of
        (Some side, Some effect) \<Rightarrow>
          if \<not> is_valid_protection L (get intent ''protection'') then (closes, [PROTECTION_REQUIRED])
          else (case (decimal_of (get intent ''price''), decimal_of (get intent ''quantity''),
                      decimal_of (get intent ''notional'')) of
            (Some price, Some quantity, Some notional) \<Rightarrow>
              if \<not> is_positive L price \<or> \<not> is_positive L quantity then (closes, [INVALID_PLAN])
              else if effect = ClosePosition \<and> get intent ''protection'' \<noteq> JUndef
              then (closes, [PROTECTION_REQUIRED])
              else if effect = ClosePosition then
                (let instrument = get intent ''instrument'';
                     total = (case closes instrument of None \<Rightarrow> quantity | Some q \<Rightarrow> dec_add L q quantity);
                     held = position_total L (ac_positions (pc_accountSnapshot candidate)) instrument
                       (if side = Sell then Long else Short) quantity
                 in (closes(instrument \<mapsto> total),
                     reason_if (is_zero L held \<or> 0 < dec_compare L total held) CONSTRAINT_VIOLATION @
                     priced_intent_reasons L candidate intent side effect price quantity notional))
              else (closes, priced_intent_reasons L candidate intent side effect price quantity notional)
          | _ \<Rightarrow> (closes, [INVALID_PLAN]))
      | _ \<Rightarrow> (closes, [INVALID_PLAN]))"

primrec intents_reasons ::
  "'d lib \<Rightarrow> 'd plan_candidate \<Rightarrow> ('d jsval \<rightharpoonup> 'd) \<Rightarrow> 'd jsval list \<Rightarrow> error_code list" where
  "intents_reasons L candidate closes [] = []"
| "intents_reasons L candidate closes (i # is) =
     (let (closes', reasons) = intent_step L candidate closes i
      in reasons @ intents_reasons L candidate closes' is)"

text \<open>The loop over the required capabilities: one requirement.\<close>

definition requirement_reasons ::
  "'d plan_candidate \<Rightarrow> capability_observation list \<Rightarrow> string \<Rightarrow> capability_requirement \<Rightarrow> error_code list" where
  "requirement_reasons candidate capabilities now requirement =
     (let observations = filter (\<lambda>item. is_produced_capability_observation item \<and>
            cap_capability item = rq_capability requirement \<and>
            same_scope (cap_scope item) (rq_scope requirement)) capabilities
      in if observations = [] then [CAPABILITY_UNKNOWN]
         else concat (map (\<lambda>ob.
           reason_if (\<not> list_ex (\<lambda>item. same_evidence item (cap_evidence ob)) (pc_evidence candidate))
             INCOMPATIBLE_EVIDENCE @
           reason_if (\<not> is_evidence_fresh (cap_evidence ob) now) STALE_EVIDENCE @
           (case require_capability ob requirement of Inl e \<Rightarrow> [err_code e] | Inr x \<Rightarrow> [])) observations))"

definition candidate_reasons :: "'d lib \<Rightarrow> 'd plan_candidate \<Rightarrow> error_code list" where
  "candidate_reasons L c =
     (let market = pc_marketSnapshot c; account = pc_accountSnapshot c; intents = pc_orderIntents c;
          ids = intent_ids intents; required = pc_requiredCapabilities c; scope = pc_executionScope c in
      reason_if (\<not> is_produced_market_snapshot market \<or> \<not> is_produced_account_snapshot account \<or>
          mk_evidence market = [] \<or> ac_evidence account = []) INVALID_EVIDENCE @
      reason_if (\<not> is_positive L (st_maxOrderNotional (pc_strategy c))) INVALID_PLAN @
      reason_if (intents = [] \<or> length ids \<noteq> length intents \<or> \<not> distinct ids) INVALID_PLAN @
      reason_if (intents \<noteq> [] \<and> required = []) CAPABILITY_UNKNOWN @
      reason_if (intents \<noteq> [] \<and> \<not> has_capability_requirement required ''order-create'' scope)
        CAPABILITY_UNKNOWN @
      reason_if (list_ex (\<lambda>i. is_record i \<and> get i ''protection'' \<noteq> JUndef) intents \<and>
          \<not> has_capability_requirement required ''attached-protection'' scope) CAPABILITY_UNKNOWN @
      reason_if (list_ex (\<lambda>r. \<not> same_scope (rq_scope r) scope) required) CAPABILITY_UNKNOWN @
      reason_if (\<not> same_snapshot_scope (mk_scope market) scope \<or> \<not> same_snapshot_scope (ac_scope account) scope)
        INCOMPATIBLE_EVIDENCE)"

definition evidence_reasons :: "'d plan_candidate \<Rightarrow> string \<Rightarrow> error_code list" where
  "evidence_reasons c now =
     (let snapshotEvidence = mk_evidence (pc_marketSnapshot c) @ ac_evidence (pc_accountSnapshot c) in
      (if pc_evidence c = [] then [INVALID_EVIDENCE]
       else (case require_fresh_evidence (pc_evidence c @ snapshotEvidence) now of
               Inl e \<Rightarrow> [STALE_EVIDENCE] | Inr x \<Rightarrow> [])) @
      reason_if (list_ex (\<lambda>s. \<not> list_ex (\<lambda>item. same_evidence item s) (pc_evidence c)) snapshotEvidence)
        INCOMPATIBLE_EVIDENCE)"

text \<open>\<open>[...new Set(xs)]\<close>: the first occurrence of each element, in order.\<close>

definition first_occurrences :: "'a list \<Rightarrow> 'a list" where
  "first_occurrences xs = rev (remdups (rev xs))"

definition evaluate_risk ::
  "'d lib \<Rightarrow> 'd jsval \<Rightarrow> 'd plan_candidate \<Rightarrow> capability_observation list \<Rightarrow> string \<Rightarrow> risk_decision result" where
  "evaluate_risk L decisionId candidate capabilities now =
     rbind (require_identifier decisionId ''decisionId'') (\<lambda>decision.
     rbind (hash_plan_candidate L candidate) (\<lambda>candidateHash.
     let reasons = first_occurrences (candidate_reasons L candidate @
           intents_reasons L candidate Map.empty (pc_orderIntents candidate) @
           evidence_reasons candidate now @
           concat (map (requirement_reasons candidate capabilities now) (pc_requiredCapabilities candidate)))
     in Ok (mark_risk_decision
       \<lparr>rk_decisionId = decision, rk_inputHash = candidateHash,
        rk_intentIds = intent_ids (pc_orderIntents candidate),
        rk_status = (if reasons = [] then RiskPass else RiskBlocked), rk_reasonCodes = reasons,
        rk_asOf = now, rk_evidence = pc_evidence candidate,
        rk_requiredCapabilities = pc_requiredCapabilities candidate, rk_produced = False\<rparr>)))"

definition create_blocked_risk_decision ::
  "'d jsval \<Rightarrow> 'd jsval \<Rightarrow> 'd jsval \<Rightarrow> error_code \<Rightarrow> string \<Rightarrow> risk_decision result" where
  "create_blocked_risk_decision decisionId intentId inputHash reasonCode now =
     rbind (require_identifier decisionId ''decisionId'') (\<lambda>decision.
     rbind (require_hash inputHash ''inputHash'') (\<lambda>hash.
     rbind (require_identifier intentId ''intentId'') (\<lambda>intent.
     Ok (mark_risk_decision
       \<lparr>rk_decisionId = decision, rk_inputHash = hash, rk_intentIds = [intent], rk_status = RiskBlocked,
        rk_reasonCodes = [reasonCode], rk_asOf = now, rk_evidence = [], rk_requiredCapabilities = [],
        rk_produced = False\<rparr>))))"

text \<open>\<open>domainErrorCodes\<close>: the codes with their texts.\<close>

definition domain_error_codes :: "(string \<times> error_code) list" where
  "domain_error_codes =
    [(''INVALID_ARGUMENT'', INVALID_ARGUMENT),
     (''INVALID_DECIMAL'', INVALID_DECIMAL),
     (''INVALID_IDENTIFIER'', INVALID_IDENTIFIER),
     (''INVALID_TEXT'', INVALID_TEXT),
     (''INVALID_TIMESTAMP'', INVALID_TIMESTAMP),
     (''INVALID_HASH'', INVALID_HASH),
     (''INVALID_VALUE'', INVALID_VALUE),
     (''INVALID_CONSTRAINT'', INVALID_CONSTRAINT),
     (''INVALID_CAPABILITY'', INVALID_CAPABILITY),
     (''INVALID_EVIDENCE'', INVALID_EVIDENCE),
     (''INVALID_PLAN'', INVALID_PLAN),
     (''INVALID_APPROVAL'', INVALID_APPROVAL),
     (''INVALID_TRANSITION'', INVALID_TRANSITION),
     (''INVALID_ACCOUNTING'', INVALID_ACCOUNTING),
     (''DIVISION_BY_ZERO'', DIVISION_BY_ZERO),
     (''CONSTRAINT_VIOLATION'', CONSTRAINT_VIOLATION),
     (''QUANTITY_TOO_SMALL'', QUANTITY_TOO_SMALL),
     (''NOTIONAL_TOO_SMALL'', NOTIONAL_TOO_SMALL),
     (''STALE_EVIDENCE'', STALE_EVIDENCE),
     (''INCOMPATIBLE_EVIDENCE'', INCOMPATIBLE_EVIDENCE),
     (''CAPABILITY_UNSUPPORTED'', CAPABILITY_UNSUPPORTED),
     (''CAPABILITY_UNKNOWN'', CAPABILITY_UNKNOWN),
     (''PROTECTION_REQUIRED'', PROTECTION_REQUIRED),
     (''PLAN_HASH_MISMATCH'', PLAN_HASH_MISMATCH),
     (''PLAN_EXPIRED'', PLAN_EXPIRED),
     (''UNSUPPORTED_TRANSITION'', UNSUPPORTED_TRANSITION),
     (''UNSUPPORTED_CONTRACT'', UNSUPPORTED_CONTRACT),
     (''OWNERSHIP_MISMATCH'', OWNERSHIP_MISMATCH),
     (''UNRESOLVED_RECONCILIATION'', UNRESOLVED_RECONCILIATION),
     (''PERSISTENCE_INTEGRITY'', PERSISTENCE_INTEGRITY),
     (''PERSISTENCE_SCHEMA'', PERSISTENCE_SCHEMA),
     (''PERSISTENCE_RUNTIME'', PERSISTENCE_RUNTIME),
     (''PERSISTENCE_ENVIRONMENT'', PERSISTENCE_ENVIRONMENT),
     (''PERSISTENCE_BUSY'', PERSISTENCE_BUSY),
     (''RUN_LEASE_HELD'', RUN_LEASE_HELD),
     (''RUN_LEASE_LOST'', RUN_LEASE_LOST),
     (''DUPLICATE_LINEAGE'', DUPLICATE_LINEAGE),
     (''PERSISTENCE_CONFLICT'', PERSISTENCE_CONFLICT),
     (''CHECKPOINT_STALE'', CHECKPOINT_STALE),
     (''HALT_ACTIVE'', HALT_ACTIVE),
     (''UNRESOLVED_STATE'', UNRESOLVED_STATE)]"

definition error_code_of :: "'d jsval \<Rightarrow> error_code option" where
  "error_code_of value = (case value of JStr s \<Rightarrow> map_of domain_error_codes s | _ \<Rightarrow> None)"

definition error_code_text :: "error_code \<Rightarrow> string" where
  "error_code_text c = (case find (\<lambda>p. snd p = c) domain_error_codes of Some p \<Rightarrow> fst p | None \<Rightarrow> [])"

definition risk_status_of :: "'d jsval \<Rightarrow> risk_status option" where
  "risk_status_of value =
     (case value of
        JStr s \<Rightarrow> if s = ''pass'' then Some RiskPass else if s = ''blocked'' then Some RiskBlocked else None
      | _ \<Rightarrow> None)"

definition parse_requirement :: "'d jsval \<Rightarrow> capability_requirement result" where
  "parse_requirement item =
     guard INVALID_CAPABILITY (is_record item) (
     rbind (require_safe_text (get item ''capability'') ''capability'') (\<lambda>capability.
     rbind (parse_capability_scope (get item ''scope'')) (\<lambda>scope.
     Ok \<lparr>rq_capability = capability, rq_scope = scope\<rparr>)))"

definition rehydrate_risk_decision :: "'d jsval \<Rightarrow> risk_decision result" where
  "rehydrate_risk_decision input =
     guard INVALID_VALUE (is_record input) (
     need INVALID_VALUE (require_identifier (get input ''decisionId'') ''decisionId'') (\<lambda>decisionId.
     need INVALID_VALUE (require_hash (get input ''inputHash'') ''inputHash'') (\<lambda>inputHash.
     need INVALID_VALUE (parse_utc_timestamp (get input ''asOf'')) (\<lambda>asOf.
     need_some INVALID_VALUE (risk_status_of (get input ''status'')) (\<lambda>status.
     guard INVALID_VALUE (is_array (get input ''intentIds'')) (
     need INVALID_VALUE
       (traverse (\<lambda>i. require_identifier i ''intentId'') (elements (get input ''intentIds''))) (\<lambda>intentIds.
     guard INVALID_VALUE (is_array (get input ''reasonCodes'') \<and> is_array (get input ''evidence'') \<and>
       is_array (get input ''requiredCapabilities'')) (
     rbind (traverse (\<lambda>r. need_some INVALID_VALUE (error_code_of r) Ok)
       (elements (get input ''reasonCodes''))) (\<lambda>reasonCodes.
     rbind (traverse create_evidence_ref (elements (get input ''evidence''))) (\<lambda>evidence.
     rbind (traverse parse_requirement (elements (get input ''requiredCapabilities''))) (\<lambda>requirements.
     Ok (mark_risk_decision
       \<lparr>rk_decisionId = decisionId, rk_inputHash = inputHash, rk_intentIds = intentIds, rk_status = status,
        rk_reasonCodes = reasonCodes, rk_asOf = asOf, rk_evidence = evidence,
        rk_requiredCapabilities = requirements, rk_produced = False\<rparr>))))))))))))"

subsection \<open>What a passed decision means\<close>

text \<open>The conditions on one intent, over the numbers the decimals stand for.\<close>

definition amount :: "('d \<Rightarrow> rat) \<Rightarrow> 'd jsval \<Rightarrow> string \<Rightarrow> rat" where
  "amount v i k = (case decimal_of (get i k) of Some d \<Rightarrow> v d | None \<Rightarrow> 0)"

definition on_grid :: "rat \<Rightarrow> rat \<Rightarrow> bool" where
  "on_grid x step \<longleftrightarrow> (\<exists>k. x = of_int k * step)"

definition closing :: "'d jsval \<Rightarrow> bool" where
  "closing i \<longleftrightarrow> position_effect_of (get i ''positionEffect'') = Some ClosePosition"

definition sound_exit :: "('d \<Rightarrow> rat) \<Rightarrow> rat \<Rightarrow> 'd jsval \<Rightarrow> bool" where
  "sound_exit v tick x \<longleftrightarrow> x = JUndef \<or> (\<exists>d. x = JDec d \<and> 0 < v d \<and> on_grid (v d) tick)"

definition right_side :: "('d \<Rightarrow> rat) \<Rightarrow> order_side \<Rightarrow> rat \<Rightarrow> 'd jsval \<Rightarrow> bool" where
  "right_side v side price protection \<longleftrightarrow>
     (\<forall>s. get protection ''stopLoss'' = JDec s \<longrightarrow> (if side = Buy then v s < price else price < v s)) \<and>
     (\<forall>t. get protection ''takeProfit'' = JDec t \<longrightarrow> (if side = Buy then price < v t else v t < price))"

definition sound_protection :: "('d \<Rightarrow> rat) \<Rightarrow> 'd plan_candidate \<Rightarrow> order_side \<Rightarrow> position_effect \<Rightarrow> rat \<Rightarrow> 'd jsval \<Rightarrow> bool" where
  "sound_protection v c side effect price p \<longleftrightarrow>
     (if p = JUndef then effect = OpenPosition \<longrightarrow> \<not> st_requiresProtection (pc_strategy c)
      else is_record p \<and> effect = OpenPosition \<and>
        (get p ''stopLoss'' \<noteq> JUndef \<or> get p ''takeProfit'' \<noteq> JUndef) \<and>
        (st_requiresProtection (pc_strategy c) \<longrightarrow> get p ''takeProfit'' \<noteq> JUndef) \<and>
        sound_exit v (v (ic_priceTickSize (mk_constraints (pc_marketSnapshot c)))) (get p ''stopLoss'') \<and>
        sound_exit v (v (ic_priceTickSize (mk_constraints (pc_marketSnapshot c)))) (get p ''takeProfit'') \<and>
        right_side v side price p)"

definition sound_intent :: "('d \<Rightarrow> rat) \<Rightarrow> 'd plan_candidate \<Rightarrow> 'd jsval \<Rightarrow> bool" where
  "sound_intent v c i \<longleftrightarrow>
     (let k = mk_constraints (pc_marketSnapshot c) in
      \<exists>side effect price quantity notional.
        is_record i \<and> get i ''orderType'' = JStr ''limit'' \<and> is_record (get i ''normalization'') \<and>
        order_side_of (get i ''side'') = Some side \<and> position_effect_of (get i ''positionEffect'') = Some effect \<and>
        get i ''price'' = JDec price \<and> get i ''quantity'' = JDec quantity \<and> get i ''notional'' = JDec notional \<and>
        0 < v price \<and> 0 < v quantity \<and> v notional = v price * v quantity \<and>
        v notional \<le> v (st_maxOrderNotional (pc_strategy c)) \<and>
        on_grid (v price) (v (ic_priceTickSize k)) \<and> on_grid (v quantity) (v (ic_quantityStep k)) \<and>
        v (ic_minQuantity k) \<le> v quantity \<and>
        (\<forall>m. ic_minNotional k = Some m \<longrightarrow> v m \<le> v notional) \<and>
        get i ''instrument'' = JStr (mk_instrument (pc_marketSnapshot c)) \<and>
        get (get i ''normalization'') ''constraintVersion'' = JStr (ic_version k) \<and>
        sound_protection v c side effect (v price) (get i ''protection''))"

text \<open>What the account holds against a closing intent, and what the intents up to one close.\<close>

definition held :: "('d \<Rightarrow> rat) \<Rightarrow> 'd plan_candidate \<Rightarrow> 'd jsval \<Rightarrow> rat" where
  "held v c i =
     sum_list (map (v \<circ> po_quantity) (filter (\<lambda>p. JStr (po_instrument p) = get i ''instrument'' \<and>
       po_side p = (if order_side_of (get i ''side'') = Some Sell then Long else Short))
       (ac_positions (pc_accountSnapshot c))))"

definition closed_by :: "('d \<Rightarrow> rat) \<Rightarrow> 'd jsval list \<Rightarrow> 'd jsval \<Rightarrow> rat" where
  "closed_by v intents instrument =
     sum_list (map (\<lambda>i. amount v i ''quantity'')
       (filter (\<lambda>i. closing i \<and> get i ''instrument'' = instrument) intents))"

definition closes_covered :: "('d \<Rightarrow> rat) \<Rightarrow> 'd plan_candidate \<Rightarrow> ('d jsval \<Rightarrow> rat) \<Rightarrow> 'd jsval list \<Rightarrow> bool" where
  "closes_covered v c before intents \<longleftrightarrow>
     (\<forall>n < length intents. closing (intents ! n) \<longrightarrow> held v c (intents ! n) \<noteq> 0 \<and>
        before (get (intents ! n) ''instrument'') +
          closed_by v (take (Suc n) intents) (get (intents ! n) ''instrument'') \<le> held v c (intents ! n))"

definition acceptable ::
  "('d \<Rightarrow> rat) \<Rightarrow> 'd plan_candidate \<Rightarrow> capability_observation list \<Rightarrow> string \<Rightarrow> bool" where
  "acceptable v c capabilities now \<longleftrightarrow>
     (let m = pc_marketSnapshot c; a = pc_accountSnapshot c; scope = pc_executionScope c;
          required = pc_requiredCapabilities c; snapshotEvidence = mk_evidence m @ ac_evidence a in
      mk_produced m \<and> ac_produced a \<and> mk_evidence m \<noteq> [] \<and> ac_evidence a \<noteq> [] \<and>
      0 < v (st_maxOrderNotional (pc_strategy c)) \<and>
      pc_orderIntents c \<noteq> [] \<and>
      (\<exists>ids. map (\<lambda>i. get i ''intentId'') (pc_orderIntents c) = map JStr ids \<and> distinct ids) \<and>
      \<lparr>rq_capability = ''order-create'', rq_scope = scope\<rparr> \<in> set required \<and>
      ((\<exists>i \<in> set (pc_orderIntents c). get i ''protection'' \<noteq> JUndef) \<longrightarrow>
        \<lparr>rq_capability = ''attached-protection'', rq_scope = scope\<rparr> \<in> set required) \<and>
      (\<forall>r \<in> set required. rq_scope r = scope) \<and> mk_scope m = scope \<and> ac_scope a = scope \<and>
      (\<forall>i \<in> set (pc_orderIntents c). sound_intent v c i) \<and>
      closes_covered v c (\<lambda>_. 0) (pc_orderIntents c) \<and>
      pc_evidence c \<noteq> [] \<and> (\<forall>e \<in> set (pc_evidence c @ snapshotEvidence). is_evidence_fresh e now) \<and>
      set snapshotEvidence \<subseteq> set (pc_evidence c) \<and>
      (\<forall>r \<in> set required.
        (let matching = {ob \<in> set capabilities. cap_produced ob \<and> cap_capability ob = rq_capability r \<and>
               cap_scope ob = rq_scope r} in
         matching \<noteq> {} \<and> (\<forall>ob \<in> matching. cap_status ob = Supported \<and>
           is_evidence_fresh (cap_evidence ob) now \<and> cap_evidence ob \<in> set (pc_evidence c)))))"

lemma reason_if_Nil [simp]: "reason_if b c = [] \<longleftrightarrow> \<not> b"
  by (simp add: reason_if_def)

lemma same_evidence_iff [simp]: "same_evidence x y \<longleftrightarrow> x = y"
  by (auto simp: same_evidence_def)

lemma same_scope_iff [simp]: "same_scope x y \<longleftrightarrow> x = y" "same_snapshot_scope x y \<longleftrightarrow> x = y"
  by (auto simp: same_scope_def same_snapshot_scope_def)

lemma has_capability_requirement_iff [simp]:
  "has_capability_requirement rs c s \<longleftrightarrow> \<lparr>rq_capability = c, rq_scope = s\<rparr> \<in> set rs"
proof -
  have "rq_capability r = c \<and> rq_scope r = s \<longleftrightarrow> r = \<lparr>rq_capability = c, rq_scope = s\<rparr>" for r
    by (cases r) auto
  then show ?thesis by (auto simp: has_capability_requirement_def list_ex_iff)
qed

lemma first_occurrences_Nil [simp]: "first_occurrences xs = [] \<longleftrightarrow> xs = []"
  by (simp add: first_occurrences_def)

lemma intent_ids_complete:
  "length (intent_ids is) = length is \<longleftrightarrow> map (\<lambda>i. get i ''intentId'') is = map JStr (intent_ids is)"
  "length (intent_ids is) \<le> length is"
proof (induction "is")
  case (Cons i "is")
  have "get i ''intentId'' = JStr s \<Longrightarrow> is_record i" for s by (cases i) simp_all
  then show "length (intent_ids (i # is)) = length (i # is) \<longleftrightarrow>
      map (\<lambda>i. get i ''intentId'') (i # is) = map JStr (intent_ids (i # is))"
    "length (intent_ids (i # is)) \<le> length (i # is)"
    using Cons by (auto simp: intent_ids_def split: jsval.splits)
qed (simp_all add: intent_ids_def)

lemma intent_ids_eq: "map (\<lambda>i. get i ''intentId'') is = map JStr ids \<Longrightarrow> intent_ids is = ids"
proof (induction "is" arbitrary: ids)
  case (Cons i "is")
  then obtain s ids' where ids: "ids = s # ids'" "get i ''intentId'' = JStr s"
    "map (\<lambda>i. get i ''intentId'') is = map JStr ids'" by (cases ids) auto
  then have "is_record i" by (cases i) simp_all
  then show ?case using Cons.IH [OF ids(3)] ids by (simp add: intent_ids_def)
qed (simp add: intent_ids_def)

lemma distinct_ids_iff:
  "length (intent_ids is) = length is \<and> distinct (intent_ids is) \<longleftrightarrow>
    (\<exists>ids. map (\<lambda>i. get i ''intentId'') is = map JStr ids \<and> distinct ids)"
  using intent_ids_complete(1) [of "is"] intent_ids_eq [of "is"] by auto

lemma require_fresh_Ok: "require_fresh_evidence evs now = Inr xs \<longleftrightarrow> xs = evs \<and> (\<forall>e \<in> set evs. is_evidence_fresh e now)"
  by (auto simp: require_fresh_evidence_def find_None_iff split: option.splits) (metis find_None_iff option.discI)+

lemma decimal_of_Some: "decimal_of x = Some d \<longleftrightarrow> x = JDec d"
  by (auto simp: decimal_of_def split: jsval.splits)

text \<open>What the loop has closed so far, as a number.\<close>

definition closed_value :: "('d \<Rightarrow> rat) \<Rightarrow> ('d jsval \<rightharpoonup> 'd) \<Rightarrow> 'd jsval \<Rightarrow> rat" where
  "closed_value v closes instrument = (case closes instrument of None \<Rightarrow> 0 | Some q \<Rightarrow> v q)"

lemma closes_covered_Cons:
  "closes_covered v c before (i # is) \<longleftrightarrow>
    (closing i \<longrightarrow> held v c i \<noteq> 0 \<and> before (get i ''instrument'') + amount v i ''quantity'' \<le> held v c i) \<and>
    closes_covered v c (if closing i then before(get i ''instrument'' :=
      before (get i ''instrument'') + amount v i ''quantity'') else before) is"
proof -
  have split: "(\<forall>n < length (i # is). P n) \<longleftrightarrow> P 0 \<and> (\<forall>n < length is. P (Suc n))" for P
    by (auto simp: less_Suc_eq_0_disj)
  have head: "closed_by v (take (Suc 0) (i # is)) ins =
    (if closing i \<and> get i ''instrument'' = ins then amount v i ''quantity'' else 0)" for ins
    by (simp add: closed_by_def)
  have tail: "closed_by v (take (Suc (Suc n)) (i # is)) ins =
    (if closing i \<and> get i ''instrument'' = ins then amount v i ''quantity'' else 0) + closed_by v (take (Suc n) is) ins" for n ins
    by (simp add: closed_by_def)
  have shift: "before x + ((if closing i \<and> get i ''instrument'' = x then amount v i ''quantity'' else 0) + y) =
    (if closing i then before(get i ''instrument'' := before (get i ''instrument'') + amount v i ''quantity'')
     else before) x + y" for x y
    by simp
  show ?thesis
    unfolding closes_covered_def split head tail nth_Cons_0 nth_Cons_Suc shift by simp
qed

context big_decimal
begin

lemma off_step_iff: "0 < v step \<Longrightarrow> 0 < v x \<Longrightarrow> off_step L x step \<longleftrightarrow> \<not> on_grid (v x) (v step)"
proof -
  assume pos: "0 < v step" "0 < v x"
  obtain r where r: "floor_to_step L x step = Inr r" using floor.total [OF pos(1), of x] by blast
  show ?thesis
    using floor_to_step_Ok(1) [OF pos(1) r] floor.keeps [OF pos(1) _ _ r] pos r
    by (auto simp: off_step_def on_grid_def compare_iffs)
qed

lemma position_total_value:
  "v (position_total L ps instrument side q) = sum_list (map (v \<circ> po_quantity)
     (filter (\<lambda>p. JStr (po_instrument p) = instrument \<and> po_side p = side) ps))"
proof -
  have "v (foldl (\<lambda>total p. dec_add L total (po_quantity p)) z xs) = v z + sum_list (map (v \<circ> po_quantity) xs)"
    for z and xs :: "'d position_snapshot list"
    by (induction xs arbitrary: z) simp_all
  then show ?thesis by (simp add: position_total_def)
qed

lemma positive_decimal_iff: "positive_decimal L x \<longleftrightarrow> (\<exists>d. x = JDec d \<and> 0 < v d)"
  by (auto simp: positive_decimal_def decimal_of_def sign_iffs split: jsval.splits)

lemma priced_intent_sound:
  assumes k: "k = mk_constraints (pc_marketSnapshot c)" "0 < v (ic_priceTickSize k)" "0 < v (ic_quantityStep k)"
    and max: "0 < v (st_maxOrderNotional (pc_strategy c))"
    and valid: "is_valid_protection L (get i ''protection'')" "effect = ClosePosition \<longrightarrow> get i ''protection'' = JUndef"
    and pos: "0 < v price" "0 < v quantity"
  shows "priced_intent_reasons L c i side effect price quantity notional = [] \<longleftrightarrow>
    v notional = v price * v quantity \<and> v notional \<le> v (st_maxOrderNotional (pc_strategy c)) \<and>
    on_grid (v price) (v (ic_priceTickSize k)) \<and> on_grid (v quantity) (v (ic_quantityStep k)) \<and>
    v (ic_minQuantity k) \<le> v quantity \<and> (\<forall>m. ic_minNotional k = Some m \<longrightarrow> v m \<le> v notional) \<and>
    get i ''instrument'' = JStr (mk_instrument (pc_marketSnapshot c)) \<and>
    get (get i ''normalization'') ''constraintVersion'' = JStr (ic_version k) \<and>
    sound_protection v c side effect (v price) (get i ''protection'')"
proof -
  define p where "p = get i ''protection''"
  have steps: "off_step L price (ic_priceTickSize k) \<longleftrightarrow> \<not> on_grid (v price) (v (ic_priceTickSize k))"
    "off_step L quantity (ic_quantityStep k) \<longleftrightarrow> \<not> on_grid (v quantity) (v (ic_quantityStep k))"
    using off_step_iff k pos by simp_all
  have exit: "(case decimal_of x of None \<Rightarrow> [] | Some d \<Rightarrow> reason_if (off_step L d (ic_priceTickSize k)) CONSTRAINT_VIOLATION) = []
      \<longleftrightarrow> sound_exit v (v (ic_priceTickSize k)) x" if "x = JUndef \<or> positive_decimal L x" for x
    using that k(2) by (auto simp: positive_decimal_iff sound_exit_def off_step_iff)
  have exits: "p = JUndef \<or> is_record p \<and> (get p ''stopLoss'' \<noteq> JUndef \<or> get p ''takeProfit'' \<noteq> JUndef) \<and>
      (get p ''stopLoss'' = JUndef \<or> positive_decimal L (get p ''stopLoss'')) \<and>
      (get p ''takeProfit'' = JUndef \<or> positive_decimal L (get p ''takeProfit''))"
    using valid(1) by (auto simp: is_valid_protection_def Let_def p_def split: if_split_asm)
  have open_if: "p \<noteq> JUndef \<Longrightarrow> effect = OpenPosition" using valid(2) by (cases effect) (simp_all add: p_def)
  define tick where "tick = v (ic_priceTickSize k)"
  have opt: "(case ic_minNotional k of None \<Rightarrow> [] | Some m \<Rightarrow>
      reason_if (v price * v quantity < v m) NOTIONAL_TOO_SMALL) = [] \<longleftrightarrow>
      (\<forall>m. ic_minNotional k = Some m \<longrightarrow> v m \<le> v price * v quantity)"
    by (simp add: not_less split: option.split)
  have sides: "(case decimal_of x of None \<Rightarrow> False | Some s \<Rightarrow> P s) \<longleftrightarrow> (\<exists>s. x = JDec s \<and> P s)" for x and P :: "'d \<Rightarrow> bool"
    by (auto simp: decimal_of_def split: jsval.split)
  have wrong: "((\<exists>s. get p ''stopLoss'' = JDec s \<and> (if side = Buy then v price \<le> v s else v s \<le> v price)) \<or>
      (\<exists>t. get p ''takeProfit'' = JDec t \<and> (if side = Buy then v t \<le> v price else v price \<le> v t))) \<longleftrightarrow>
      \<not> right_side v side (v price) p"
    by (auto simp: right_side_def not_le not_less)
  have protection: "\<not> (st_requiresProtection (pc_strategy c) \<and> effect = OpenPosition \<and>
        (p = JUndef \<or> get p ''takeProfit'' = JUndef)) \<and>
      sound_exit v tick (get p ''stopLoss'') \<and> sound_exit v tick (get p ''takeProfit'') \<and>
      \<not> (effect = OpenPosition \<and> p \<noteq> JUndef \<and> \<not> right_side v side (v price) p) \<longleftrightarrow>
      sound_protection v c side effect (v price) p"
  proof (cases "p = JUndef")
    case True
    then show ?thesis by (auto simp: sound_protection_def sound_exit_def)
  next
    case False
    then have "is_record p" "get p ''stopLoss'' \<noteq> JUndef \<or> get p ''takeProfit'' \<noteq> JUndef"
      using exits by simp_all
    then show ?thesis
      using False open_if by (auto simp: sound_protection_def tick_def k(1))
  qed
  have x: "get p ''stopLoss'' = JUndef \<or> positive_decimal L (get p ''stopLoss'')"
    "get p ''takeProfit'' = JUndef \<or> positive_decimal L (get p ''takeProfit'')"
    using exits by auto
  show ?thesis
    unfolding priced_intent_reasons_def Let_def k(1) [symmetric] p_def [symmetric] protection [symmetric]
      append_is_Nil_conv reason_if_Nil opt steps sides list.map concat.simps tick_def
      exit [OF x(1)] exit [OF x(2)] compare_iffs wrong arith_values sign_iffs not_not not_less
    using max by auto
qed

lemma held_value:
  assumes "order_side_of (get i ''side'') = Some side"
  shows "v (position_total L (ac_positions (pc_accountSnapshot c)) (get i ''instrument'')
    (if side = Sell then Long else Short) q) = held v c i"
  using assms by (simp add: position_total_value held_def)

lemma intent_step_sound:
  assumes k: "k = mk_constraints (pc_marketSnapshot c)" "0 < v (ic_priceTickSize k)" "0 < v (ic_quantityStep k)"
    and max: "0 < v (st_maxOrderNotional (pc_strategy c))"
  shows "snd (intent_step L c closes i) = [] \<longleftrightarrow> sound_intent v c i \<and>
      (closing i \<longrightarrow> held v c i \<noteq> 0 \<and>
        closed_value v closes (get i ''instrument'') + amount v i ''quantity'' \<le> held v c i)" (is ?iff)
    and "sound_intent v c i \<Longrightarrow> closed_value v (fst (intent_step L c closes i)) =
      (if closing i then (closed_value v closes)(get i ''instrument'' :=
         closed_value v closes (get i ''instrument'') + amount v i ''quantity'') else closed_value v closes)" (is "_ \<Longrightarrow> ?step")
proof -
  have *: "?iff \<and> (sound_intent v c i \<longrightarrow> ?step)"
  proof (cases "is_record i \<and> get i ''orderType'' = JStr ''limit'' \<and> is_record (get i ''normalization'') \<and>
      order_side_of (get i ''side'') \<noteq> None \<and> position_effect_of (get i ''positionEffect'') \<noteq> None \<and>
      is_valid_protection L (get i ''protection'') \<and>
      decimal_of (get i ''price'') \<noteq> None \<and> decimal_of (get i ''quantity'') \<noteq> None \<and>
      decimal_of (get i ''notional'') \<noteq> None")
    case False
    have "sound_protection v c side effect price p \<Longrightarrow> is_valid_protection L p" for side effect price p
      by (auto simp: sound_protection_def sound_exit_def is_valid_protection_def positive_decimal_iff Let_def
          split: if_split_asm)
    then have "\<not> sound_intent v c i" using False by (auto simp: sound_intent_def Let_def decimal_of_def)
    moreover have "snd (intent_step L c closes i) \<noteq> []"
      using False by (auto simp: intent_step_def split: option.split)
    ultimately show ?thesis by simp
  next
    case True
    then obtain side effect price quantity notional where shape:
      "is_record i" "get i ''orderType'' = JStr ''limit''" "is_record (get i ''normalization'')"
      "order_side_of (get i ''side'') = Some side" "position_effect_of (get i ''positionEffect'') = Some effect"
      "get i ''price'' = JDec price" "get i ''quantity'' = JDec quantity" "get i ''notional'' = JDec notional"
      and valid: "is_valid_protection L (get i ''protection'')"
      by (auto simp: decimal_of_Some)
    have cl: "closing i \<longleftrightarrow> effect = ClosePosition" using shape(5) by (simp add: closing_def)
    have am: "amount v i ''quantity'' = v quantity" using shape by (simp add: amount_def)
    let ?sound = "0 < v price \<and> 0 < v quantity \<and> \<not> (effect = ClosePosition \<and> get i ''protection'' \<noteq> JUndef) \<and>
      priced_intent_reasons L c i side effect price quantity notional = []"
    have protected: "sound_protection v c side effect q p \<Longrightarrow> effect = ClosePosition \<longrightarrow> p = JUndef" for q p
      by (auto simp: sound_protection_def split: if_split_asm)
    have sound: "sound_intent v c i \<longleftrightarrow> ?sound"
    proof (cases "0 < v price \<and> 0 < v quantity \<and> (effect = ClosePosition \<longrightarrow> get i ''protection'' = JUndef)")
      case True
      then show ?thesis
        unfolding sound_intent_def Let_def k(1) [symmetric]
        using shape priced_intent_sound [OF k max valid, of effect price quantity side notional] by simp
    next
      case False
      then show ?thesis using shape protected by (auto simp: sound_intent_def Let_def)
    qed
    have total: "v (case closes ins of None \<Rightarrow> quantity | Some q \<Rightarrow> dec_add L q quantity) =
      closed_value v closes ins + v quantity" for ins
      by (simp add: closed_value_def split: option.split)
    show ?thesis
    proof (cases "0 < v price \<and> 0 < v quantity \<and> effect = ClosePosition \<and> get i ''protection'' = JUndef")
      case True
      have step: "intent_step L c closes i =
        (let instrument = get i ''instrument'';
             total = (case closes instrument of None \<Rightarrow> quantity | Some q \<Rightarrow> dec_add L q quantity);
             hold = position_total L (ac_positions (pc_accountSnapshot c)) instrument
               (if side = Sell then Long else Short) quantity
         in (closes(instrument \<mapsto> total), reason_if (is_zero L hold \<or> 0 < dec_compare L total hold) CONSTRAINT_VIOLATION @
              priced_intent_reasons L c i side effect price quantity notional))"
        unfolding intent_step_def using True shape valid by (simp add: decimal_of_def)
      show ?thesis
        unfolding step Let_def snd_conv fst_conv append_is_Nil_conv reason_if_Nil sign_iffs compare_iffs
          held_value [OF shape(4)] total sound cl am
        using True total [of "get i ''instrument''"] by (auto simp: not_less closed_value_def)
    next
      case False
      then have "fst (intent_step L c closes i) = closes"
        "snd (intent_step L c closes i) = [] \<longleftrightarrow> ?sound \<and> effect \<noteq> ClosePosition"
        unfolding intent_step_def using shape valid by (auto simp: decimal_of_def)
      moreover have "?sound \<longrightarrow> effect \<noteq> ClosePosition" using False by auto
      ultimately show ?thesis unfolding sound cl by auto
    qed
  qed
  then show ?iff "sound_intent v c i \<Longrightarrow> ?step" by simp_all
qed

lemma intents_reasons_sound:
  assumes k: "k = mk_constraints (pc_marketSnapshot c)" "0 < v (ic_priceTickSize k)" "0 < v (ic_quantityStep k)"
    and max: "0 < v (st_maxOrderNotional (pc_strategy c))"
  shows "intents_reasons L c closes is = [] \<longleftrightarrow>
    (\<forall>i \<in> set is. sound_intent v c i) \<and> closes_covered v c (closed_value v closes) is"
proof (induction "is" arbitrary: closes)
  case Nil
  then show ?case by (simp add: closes_covered_def)
next
  case (Cons i "is")
  obtain closes' reasons where step: "intent_step L c closes i = (closes', reasons)" by fastforce
  note s = intent_step_sound [OF k max, where closes = closes and i = i, unfolded step fst_conv snd_conv]
  show ?case
    unfolding intents_reasons.simps step Let_def prod.case append_is_Nil_conv s(1) Cons.IH closes_covered_Cons
    using s(2) by (auto split: if_split_asm)
qed

lemma evaluate_risk_acceptable:
  assumes "0 < v (ic_priceTickSize (mk_constraints (pc_marketSnapshot c)))"
    "0 < v (ic_quantityStep (mk_constraints (pc_marketSnapshot c)))"
    and "evaluate_risk L decisionId c capabilities now = Inr d"
  shows "rk_status d = RiskPass \<longleftrightarrow> acceptable v c capabilities now"
proof -
  let ?m = "pc_marketSnapshot c" and ?a = "pc_accountSnapshot c" and ?is = "pc_orderIntents c"
  let ?ev = "mk_evidence ?m @ ac_evidence ?a"
  have status: "rk_status d = RiskPass \<longleftrightarrow> candidate_reasons L c = [] \<and>
      intents_reasons L c Map.empty ?is = [] \<and> evidence_reasons c now = [] \<and>
      (\<forall>r \<in> set (pc_requiredCapabilities c). requirement_reasons c capabilities now r = [])"
    using assms(3) by (auto simp: evaluate_risk_def rbind_Ok_iff mark_risk_decision_def Let_def split: if_split_asm)
  have protected: "list_ex (\<lambda>i. is_record i \<and> get i ''protection'' \<noteq> JUndef) ?is \<longleftrightarrow>
      (\<exists>i \<in> set ?is. get i ''protection'' \<noteq> JUndef)"
  proof -
    have "get i ''protection'' \<noteq> JUndef \<Longrightarrow> is_record i" for i :: "'d jsval" by (cases i) simp_all
    then show ?thesis by (auto simp: list_ex_iff)
  qed
  have candidate: "candidate_reasons L c = [] \<longleftrightarrow>
      mk_produced ?m \<and> ac_produced ?a \<and> mk_evidence ?m \<noteq> [] \<and> ac_evidence ?a \<noteq> [] \<and>
      0 < v (st_maxOrderNotional (pc_strategy c)) \<and> ?is \<noteq> [] \<and>
      (\<exists>ids. map (\<lambda>i. get i ''intentId'') ?is = map JStr ids \<and> distinct ids) \<and>
      \<lparr>rq_capability = ''order-create'', rq_scope = pc_executionScope c\<rparr> \<in> set (pc_requiredCapabilities c) \<and>
      ((\<exists>i \<in> set ?is. get i ''protection'' \<noteq> JUndef) \<longrightarrow>
        \<lparr>rq_capability = ''attached-protection'', rq_scope = pc_executionScope c\<rparr> \<in> set (pc_requiredCapabilities c)) \<and>
      (\<forall>r \<in> set (pc_requiredCapabilities c). rq_scope r = pc_executionScope c) \<and>
      mk_scope ?m = pc_executionScope c \<and> ac_scope ?a = pc_executionScope c"
    unfolding candidate_reasons_def Let_def append_is_Nil_conv reason_if_Nil protected
      distinct_ids_iff [symmetric]
    by (auto simp: is_produced_market_snapshot_def is_produced_account_snapshot_def list_ex_iff)
  have evidence: "evidence_reasons c now = [] \<longleftrightarrow> pc_evidence c \<noteq> [] \<and>
      (\<forall>e \<in> set (pc_evidence c @ ?ev). is_evidence_fresh e now) \<and> set ?ev \<subseteq> set (pc_evidence c)"
    unfolding evidence_reasons_def Let_def append_is_Nil_conv reason_if_Nil
    using require_fresh_Ok [of "pc_evidence c @ ?ev" now]
    by (cases "require_fresh_evidence (pc_evidence c @ ?ev) now") (auto simp: list_ex_iff)
  have requirement: "requirement_reasons c capabilities now r = [] \<longleftrightarrow>
      (let matching = {ob \<in> set capabilities. cap_produced ob \<and> cap_capability ob = rq_capability r \<and>
             cap_scope ob = rq_scope r} in
       matching \<noteq> {} \<and> (\<forall>ob \<in> matching. cap_status ob = Supported \<and>
         is_evidence_fresh (cap_evidence ob) now \<and> cap_evidence ob \<in> set (pc_evidence c)))" for r
  proof -
    have gate: "(case require_capability ob r of Inl e \<Rightarrow> [err_code e] | Inr x \<Rightarrow> []) = [] \<longleftrightarrow> cap_status ob = Supported"
      if "cap_produced ob" "cap_capability ob = rq_capability r" "cap_scope ob = rq_scope r" for ob
      using that by (cases "cap_status ob")
        (auto simp: require_capability_def is_produced_capability_observation_def scopes_equal_def)
    show ?thesis
      by (auto simp: requirement_reasons_def Let_def filter_empty_conv list_ex_iff gate
          is_produced_capability_observation_def)
  qed
  have start: "closed_value v Map.empty = (\<lambda>_. 0)" by (simp add: closed_value_def fun_eq_iff)
  show ?thesis
  proof (cases "0 < v (st_maxOrderNotional (pc_strategy c))")
    case True
    then show ?thesis
      unfolding status candidate evidence requirement acceptable_def Let_def
        intents_reasons_sound [OF refl assms(1,2) True] start
      by blast
  next
    case False
    then show ?thesis unfolding status candidate acceptable_def Let_def by blast
  qed
qed

end

subsection \<open>Closing orders\<close>

text \<open>All that one side of an instrument closes; only the last such intent matters.\<close>

definition closed_on_side :: "('d \<Rightarrow> rat) \<Rightarrow> 'd jsval list \<Rightarrow> 'd jsval \<Rightarrow> order_side \<Rightarrow> rat" where
  "closed_on_side v intents instrument side =
     sum_list (map (\<lambda>i. amount v i ''quantity'')
       (filter (\<lambda>i. closing i \<and> get i ''instrument'' = instrument \<and> order_side_of (get i ''side'') = Some side) intents))"

lemma sum_filter_mono:
  assumes "\<And>x. x \<in> set xs \<Longrightarrow> 0 \<le> (f x :: rat)" "\<And>x. P x \<Longrightarrow> Q x"
  shows "sum_list (map f (filter P xs)) \<le> sum_list (map f (filter Q xs))"
  using assms by (induction xs) (auto intro: add_increasing)

lemma closes_within_position:
  assumes "closes_covered v c (\<lambda>_. 0) is" "\<forall>i \<in> set is. sound_intent v c i"
    and "i \<in> set is" "closing i" "order_side_of (get i ''side'') = Some side"
  shows "closed_on_side v is (get i ''instrument'') side \<le> held v c i"
proof -
  let ?P = "\<lambda>j. closing j \<and> get j ''instrument'' = get i ''instrument'' \<and> order_side_of (get j ''side'') = Some side"
  have "\<exists>x \<in> set is. ?P x" using assms(3-5) by blast
  then obtain ys x zs where s: "is = ys @ x # zs" "?P x" "\<forall>z \<in> set zs. \<not> ?P z"
    using split_list_last_prop [of "is" ?P] by blast
  have nonneg: "0 \<le> amount v j ''quantity''" if "j \<in> set (ys @ [x])" for j
  proof -
    have "sound_intent v c j" using that assms(2) s(1) by auto
    then show ?thesis by (auto simp: sound_intent_def amount_def decimal_of_def Let_def)
  qed
  have none: "filter ?P zs = []" using s(3) by (simp add: filter_empty_conv)
  have "closed_on_side v is (get i ''instrument'') side =
      sum_list (map (\<lambda>j. amount v j ''quantity'') (filter ?P (ys @ [x])))"
    unfolding closed_on_side_def s(1) using none s(2) by simp
  also have "\<dots> \<le> closed_by v (ys @ [x]) (get i ''instrument'')"
    unfolding closed_by_def by (rule sum_filter_mono) (use nonneg in auto)
  also have "ys @ [x] = take (Suc (length ys)) is" by (simp add: s(1))
  also have "closed_by v (take (Suc (length ys)) is) (get i ''instrument'') \<le> held v c x"
    using assms(1) s(1,2) by (auto simp: closes_covered_def dest!: spec [of _ "length ys"])
  also have "held v c x = held v c i" using s(2) assms(5) by (simp add: held_def)
  finally show ?thesis .
qed

subsection \<open>A stored decision\<close>

definition risk_status_text :: "risk_status \<Rightarrow> string" where
  "risk_status_text s = (case s of RiskPass \<Rightarrow> ''pass'' | RiskBlocked \<Rightarrow> ''blocked'')"

definition risk_decision_to_js :: "risk_decision \<Rightarrow> 'd jsval" where
  "risk_decision_to_js d = JObj
     [(''decisionId'', JStr (rk_decisionId d)), (''inputHash'', JStr (rk_inputHash d)),
      (''intentIds'', JArr (map JStr (rk_intentIds d))), (''status'', JStr (risk_status_text (rk_status d))),
      (''reasonCodes'', JArr (map (JStr \<circ> error_code_text) (rk_reasonCodes d))),
      (''asOf'', JStr (rk_asOf d)), (''evidence'', JArr (map evidence_to_js (rk_evidence d))),
      (''requiredCapabilities'', JArr (map requirement_to_js (rk_requiredCapabilities d)))]"

definition readable_instant :: "string \<Rightarrow> bool" where
  "readable_instant t \<longleftrightarrow>
     (\<exists>e. instant t e \<and> 0 \<le> year_from_day (e div ms_per_day) \<and> year_from_day (e div ms_per_day) \<le> 9999)"

definition wf_requirement :: "capability_requirement \<Rightarrow> bool" where
  "wf_requirement r \<longleftrightarrow> safe_text (rq_capability r) \<and> safe_identifier (sc_exchange (rq_scope r)) \<and>
     safe_identifier (sc_environment (rq_scope r)) \<and> safe_identifier (sc_category (rq_scope r))"

definition wf_risk_decision :: "risk_decision \<Rightarrow> bool" where
  "wf_risk_decision d \<longleftrightarrow>
     rk_produced d \<and> safe_identifier (rk_decisionId d) \<and> hash_text (rk_inputHash d) \<and>
     list_all safe_identifier (rk_intentIds d) \<and> list_all wf_evidence (rk_evidence d) \<and>
     list_all wf_requirement (rk_requiredCapabilities d)"

lemma readable_parse: "readable_instant t \<Longrightarrow> parse_utc_timestamp (JStr t) = Inr t"
  by (auto simp: readable_instant_def instant_def parse_iso)

lemma evidence_round_trip:
  "wf_evidence ev \<Longrightarrow> readable_instant (ev_asOf ev) \<Longrightarrow> create_evidence_ref (evidence_to_js ev) = Inr ev"
  by (auto simp: create_evidence_ref_Ok wf_evidence_def evidence_to_js_def readable_parse)

lemma error_code_round_trip [simp]: "error_code_of (JStr (error_code_text c)) = Some c"
proof -
  have "list_all (\<lambda>p. error_code_of (JStr (error_code_text (snd p)) :: 'd jsval) = Some (snd p)) domain_error_codes"
    by code_simp
  moreover have "list_ex (\<lambda>p. snd p = c) domain_error_codes" by (cases c) (simp_all add: domain_error_codes_def)
  ultimately show ?thesis unfolding list_all_iff list_ex_iff by blast
qed

lemma scope_round_trip:
  "safe_identifier (sc_exchange s) \<Longrightarrow> safe_identifier (sc_environment s) \<Longrightarrow> safe_identifier (sc_category s) \<Longrightarrow>
    parse_capability_scope (scope_to_js s) = Inr s"
  by (cases s; cases "sc_positionMode s")
    (simp_all add: parse_capability_scope_def scope_to_js_def position_mode_of_def)

lemma requirement_round_trip: "wf_requirement r \<Longrightarrow> parse_requirement (requirement_to_js r) = Inr r"
  by (simp add: parse_requirement_def requirement_to_js_def wf_requirement_def scope_round_trip)

lemma parse_requirement_wf: "parse_requirement item = Inr r \<Longrightarrow> wf_requirement r"
  by (auto simp: parse_requirement_def need_Ok_iff rbind_Ok_iff require_safe_text_Ok wf_requirement_def
      parse_capability_scope_def require_identifier_Ok split: if_split_asm sum.splits option.splits)

lemma traverse_map: "(\<And>x. x \<in> set xs \<Longrightarrow> f (g x) = Inr x) \<Longrightarrow> traverse f (map g xs) = Inr xs"
  by (induction xs) simp_all

lemma rehydrate_risk_decision_wf: "rehydrate_risk_decision input = Inr d \<Longrightarrow> wf_risk_decision d"
proof -
  assume "rehydrate_risk_decision input = Inr d"
  then have d: "require_identifier (get input ''decisionId'') ''decisionId'' = Inr (rk_decisionId d)"
    "require_hash (get input ''inputHash'') ''inputHash'' = Inr (rk_inputHash d)" "rk_produced d"
    and ids: "traverse (\<lambda>i. require_identifier i ''intentId'') (elements (get input ''intentIds'')) = Inr (rk_intentIds d)"
    and evidence: "traverse create_evidence_ref (elements (get input ''evidence'')) = Inr (rk_evidence d)"
    and requirements: "traverse parse_requirement (elements (get input ''requiredCapabilities'')) =
      Inr (rk_requiredCapabilities d)"
    unfolding rehydrate_risk_decision_def by (auto simp: need_Ok_iff rbind_Ok_iff mark_risk_decision_def)
  have "list_all safe_identifier (rk_intentIds d)"
    using traverse_set [OF ids] by (auto simp: list_all_iff require_identifier_Ok)
  moreover have "list_all wf_evidence (rk_evidence d)"
    using traverse_set [OF evidence] create_evidence_ref_wf by (fastforce simp: list_all_iff)
  moreover have "list_all wf_requirement (rk_requiredCapabilities d)"
    using traverse_set [OF requirements] parse_requirement_wf by (fastforce simp: list_all_iff)
  ultimately show ?thesis using d by (simp add: wf_risk_decision_def require_identifier_Ok require_hash_Ok)
qed

subsection \<open>Properties\<close>

text \<open>
  Claim C2: \<open>evaluateRisk\<close> passes a candidate exactly when it is acceptable: both snapshots are
  produced and in scope, the intents have distinct ids and each is an exact, protected limit order on
  the grids and within the limits, the positions cover what they close, all evidence is fresh and
  includes the snapshots' own, and every required capability is observed, only as supported and by
  fresh evidence of the candidate. A decision binds the hash of the candidate it was made on.
\<close>

theorem risk_decision_matches_specification:
  assumes "host L v" "0 < v (ic_priceTickSize (mk_constraints (pc_marketSnapshot c)))"
    "0 < v (ic_quantityStep (mk_constraints (pc_marketSnapshot c)))"
    and "evaluate_risk L decisionId c capabilities now = Ok d"
  shows "(rk_status d = RiskPass \<longleftrightarrow> acceptable v c capabilities now) \<and>
    (rk_status d = RiskPass \<longleftrightarrow> rk_reasonCodes d = []) \<and>
    hash_plan_candidate L c = Ok (rk_inputHash d) \<and> rk_intentIds d = intent_ids (pc_orderIntents c) \<and>
    is_produced_risk_decision d"
  using big_decimal.evaluate_risk_acceptable [OF host_decimal [OF assms(1)] assms(2-4)] assms(4)
  by (auto simp: evaluate_risk_def rbind_Ok_iff mark_risk_decision_def is_produced_risk_decision_def Let_def
      split: if_split_asm)

text \<open>
  Claim C27: a candidate that passes never closes more than the account holds: for every closing
  intent, the quantities of all intents that close the same instrument on the same side add up to
  no more than the positions they reduce.
\<close>

theorem passed_closes_within_positions:
  assumes "host L v" "0 < v (ic_priceTickSize (mk_constraints (pc_marketSnapshot c)))"
    "0 < v (ic_quantityStep (mk_constraints (pc_marketSnapshot c)))"
    and "evaluate_risk L decisionId c capabilities now = Ok d" "rk_status d = RiskPass"
    and "i \<in> set (pc_orderIntents c)" "closing i" "order_side_of (get i ''side'') = Some side"
  shows "closed_on_side v (pc_orderIntents c) (get i ''instrument'') side \<le> held v c i"
  using big_decimal.evaluate_risk_acceptable [OF host_decimal [OF assms(1)] assms(2-4)] assms(5-8)
  by (intro closes_within_position) (simp_all add: acceptable_def Let_def)

text \<open>
  Storing a risk decision and reading it back with \<open>rehydrateRiskDecision\<close> gives the
  same decision, whatever its status and reasons, if its instants have four-digit years; and what
  \<open>rehydrateRiskDecision\<close> accepts is always well formed and marked as produced.
\<close>

theorem risk_decision_round_trip:
  assumes "wf_risk_decision d" "readable_instant (rk_asOf d)" "\<forall>ev \<in> set (rk_evidence d). readable_instant (ev_asOf ev)"
  shows "rehydrate_risk_decision (risk_decision_to_js d :: 'd jsval) = Ok d \<and>
    (\<forall>input e. rehydrate_risk_decision (input :: 'd jsval) = Ok e \<longrightarrow> wf_risk_decision e)"
proof -
  have ids: "traverse (\<lambda>i. require_identifier i ''intentId'') (map JStr (rk_intentIds d)) = Inr (rk_intentIds d)"
    by (rule traverse_map) (use assms(1) in \<open>simp add: wf_risk_decision_def list_all_iff\<close>)
  have codes: "traverse (\<lambda>r. need_some INVALID_VALUE (error_code_of r) Ok)
      (map (JStr \<circ> error_code_text) (rk_reasonCodes d)) = Inr (rk_reasonCodes d)"
    by (rule traverse_map) simp
  have evidence: "traverse create_evidence_ref (map evidence_to_js (rk_evidence d)) = Inr (rk_evidence d)"
    by (rule traverse_map) (use assms in \<open>simp add: wf_risk_decision_def list_all_iff evidence_round_trip\<close>)
  have requirements: "traverse parse_requirement (map requirement_to_js (rk_requiredCapabilities d)) =
      Inr (rk_requiredCapabilities d)"
    by (rule traverse_map) (use assms in \<open>simp add: wf_risk_decision_def list_all_iff requirement_round_trip\<close>)
  have status: "risk_status_of (JStr (risk_status_text s)) = Some s" for s
    by (cases s) (simp_all add: risk_status_of_def risk_status_text_def)
  have d: "mark_risk_decision \<lparr>rk_decisionId = rk_decisionId d, rk_inputHash = rk_inputHash d,
      rk_intentIds = rk_intentIds d, rk_status = rk_status d, rk_reasonCodes = rk_reasonCodes d,
      rk_asOf = rk_asOf d, rk_evidence = rk_evidence d, rk_requiredCapabilities = rk_requiredCapabilities d,
      rk_produced = False\<rparr> = d"
    using assms(1) by (cases d) (simp add: mark_risk_decision_def wf_risk_decision_def)
  show ?thesis
    using assms rehydrate_risk_decision_wf
    by (auto simp: rehydrate_risk_decision_def risk_decision_to_js_def ids codes evidence requirements status
        readable_parse d wf_risk_decision_def)
qed

definition sample_risk_evidence :: "evidence_ref list" where
  "sample_risk_evidence = [sample_market_evidence, sample_evidence\<lparr>ev_kind := AccountSnapshot\<rparr>, sample_evidence]"

definition sample_close_js :: "sdec jsval" where
  "sample_close_js = order_intent_to_js
     (sample_intent\<lparr>oi_intentId := ''leg-2'', oi_side := Sell, oi_positionEffect := ClosePosition, oi_protection := None\<rparr>)"

definition sample_requirement :: "string \<Rightarrow> capability_requirement" where
  "sample_requirement capability = \<lparr>rq_capability = capability, rq_scope = sample_scope\<rparr>"

definition sample_candidate :: "sdec plan_candidate" where
  "sample_candidate = \<lparr>pc_strategy = \<lparr>st_strategyId = ''daily'', st_version = ''v1'',
       st_maxOrderNotional = SDec 100 0, st_requiresProtection = True\<rparr>,
     pc_marketSnapshot = sample_market,
     pc_accountSnapshot = sample_account\<lparr>ac_positions := [\<lparr>po_instrument = ''BTCUSDT'', po_side = Long,
       po_quantity = SDec 1 0, po_entryPrice = None\<rparr>]\<rparr>,
     pc_evidence = sample_risk_evidence, pc_desiredCurrentDiff = JObj [],
     pc_orderIntents = [order_intent_to_js sample_intent, sample_close_js],
     pc_requiredCapabilities = [sample_requirement ''order-create'', sample_requirement ''attached-protection''],
     pc_executionScope = sample_scope\<rparr>"

definition sample_capabilities :: "capability_observation list" where
  "sample_capabilities =
     [sample_observation\<lparr>cap_capability := ''order-create''\<rparr>, sample_observation\<lparr>cap_capability := ''attached-protection''\<rparr>]"

lemma sample_candidate_reasons:
  "candidate_reasons ref_lib sample_candidate = []"
  "intents_reasons ref_lib sample_candidate Map.empty (pc_orderIntents sample_candidate) = []"
  "evidence_reasons sample_candidate ''2024-01-01T00:00:30.000Z'' = []"
  "concat (map (requirement_reasons sample_candidate sample_capabilities ''2024-01-01T00:00:30.000Z'')
    (pc_requiredCapabilities sample_candidate)) = []"
  by code_simp+

lemma sample_candidate_serializable:
  "serializable (JObj [(''canonicalSerializationVersion'', JStr CANONICAL_SERIALIZATION_VERSION),
     (''candidate'', candidate_to_js sample_candidate)])"
  by code_simp

lemma sample_candidate_passes:
  "\<exists>d. evaluate_risk ref_lib (JStr ''risk-1'') sample_candidate sample_capabilities ''2024-01-01T00:00:30.000Z'' = Ok d \<and>
    rk_status d = RiskPass"
proof -
  obtain h where "hash_plan_candidate ref_lib sample_candidate = Inr h"
    using sample_candidate_serializable by (auto simp: hash_plan_candidate_def hash_canonical_Ok)
  moreover have "safe_identifier ''risk-1''" by code_simp
  ultimately show ?thesis
    by (simp add: evaluate_risk_def sample_candidate_reasons mark_risk_decision_def Let_def)
qed

lemma sample_candidate_steps: "0 < sval (ic_priceTickSize (mk_constraints (pc_marketSnapshot sample_candidate)))"
  "0 < sval (ic_quantityStep (mk_constraints (pc_marketSnapshot sample_candidate)))"
  by (simp_all add: sample_candidate_def sample_market_def sample_constraints_def)

theorem risk_decision_matches_specification_witness:
  "acceptable sval sample_candidate sample_capabilities ''2024-01-01T00:00:30.000Z''"
proof -
  obtain d where d: "evaluate_risk ref_lib (JStr ''risk-1'') sample_candidate sample_capabilities
      ''2024-01-01T00:00:30.000Z'' = Ok d" "rk_status d = RiskPass"
    using sample_candidate_passes by blast
  then show ?thesis using risk_decision_matches_specification [OF ref_host sample_candidate_steps d(1)] by blast
qed

theorem passed_closes_within_positions_witness:
  "closed_on_side sval (pc_orderIntents sample_candidate) (JStr ''BTCUSDT'') Sell \<le> 1"
proof -
  obtain d where d: "evaluate_risk ref_lib (JStr ''risk-1'') sample_candidate sample_capabilities
      ''2024-01-01T00:00:30.000Z'' = Ok d" "rk_status d = RiskPass"
    using sample_candidate_passes by blast
  have i: "sample_close_js \<in> set (pc_orderIntents sample_candidate)" by (simp add: sample_candidate_def)
  have c: "closing sample_close_js" "order_side_of (get sample_close_js ''side'') = Some Sell"
    "get sample_close_js ''instrument'' = JStr ''BTCUSDT''" "held sval sample_candidate sample_close_js = 1"
    unfolding closing_def held_def sample_close_js_def sample_candidate_def
    by (simp_all add: order_intent_to_js_def sample_intent_def position_effect_of_def order_side_of_def)
  show ?thesis
    using passed_closes_within_positions [OF ref_host sample_candidate_steps d i c(1,2)] c(3,4) by simp
qed

definition sample_risk_decision :: risk_decision where
  "sample_risk_decision = \<lparr>rk_decisionId = ''risk-1'', rk_inputHash = sample_hash, rk_intentIds = [''leg-1''],
     rk_status = RiskBlocked, rk_reasonCodes = [STALE_EVIDENCE], rk_asOf = ''2024-01-01T00:00:00.000Z'',
     rk_evidence = [sample_evidence], rk_requiredCapabilities = [sample_requirement ''order-create''], rk_produced = True\<rparr>"

lemma sample_instant_readable: "readable_instant ''2024-01-01T00:00:00.000Z''"
proof -
  have "year_from_day (1704067200000 div ms_per_day) = 2024" by code_simp
  then show ?thesis using sample_instants(1) unfolding readable_instant_def by (intro exI [of _ 1704067200000]) simp
qed

theorem risk_decision_round_trip_witness:
  "rehydrate_risk_decision (risk_decision_to_js sample_risk_decision :: sdec jsval) = Ok sample_risk_decision"
proof -
  have "wf_evidence sample_evidence" by (rule create_evidence_ref_wf [OF sample_evidence_created])
  moreover have "safe_identifier ''risk-1''" "safe_identifier ''leg-1''" "hash_text sample_hash"
    "wf_requirement (sample_requirement ''order-create'')" by code_simp+
  ultimately have "wf_risk_decision sample_risk_decision"
    by (simp add: wf_risk_decision_def sample_risk_decision_def)
  moreover have "ev_asOf sample_evidence = ''2024-01-01T00:00:00.000Z''" by (simp add: sample_evidence_def)
  ultimately show ?thesis
    using risk_decision_round_trip [where d = sample_risk_decision and 'd = sdec] sample_instant_readable
    by (simp add: sample_risk_decision_def)
qed

end
