(* ===== verification/Plan.thy ===== *)
theory Plan
  imports Risk
begin

text \<open>
  \<open>domain/planning/execution-plan.ts\<close> and \<open>plan-proof.ts\<close>: a plan binds a candidate to the risk
  decision that passed it and is identified by the hash of both. The checks of
  \<open>createExecutionPlan\<close> that the record types already guarantee (arrays, a risk decision with
  string ids, no accessor properties) are not repeated; freezing has no effect on values.

  Shown here: a plan exists only for a passed decision on exactly this candidate, a candidate the
  risk evaluation passed can be planned with that decision, and the identity of a plan depends
  neither on the decision's own id and time nor on the presentation.
\<close>

record plan_presentation =
  pp_generatedAt :: string
  pp_comment :: "string option"

record 'd plan_material =
  pm_candidate :: "'d plan_candidate"
  pm_riskDecision :: risk_decision

record 'd execution_plan =
  ep_planId :: string
  ep_identityVersion :: string
  ep_materialHash :: string
  ep_material :: "'d plan_material"
  ep_presentation :: "plan_presentation option"
  ep_produced :: bool

definition mark_execution_plan :: "'d execution_plan \<Rightarrow> 'd execution_plan" where
  "mark_execution_plan plan = plan\<lparr>ep_produced := True\<rparr>"

definition is_produced_execution_plan :: "'d execution_plan \<Rightarrow> bool" where
  "is_produced_execution_plan plan = ep_produced plan"

text \<open>The risk decision without its id and its time.\<close>

definition risk_identity_js :: "risk_decision \<Rightarrow> 'd jsval" where
  "risk_identity_js d = JObj
     [(''inputHash'', JStr (rk_inputHash d)), (''intentIds'', JArr (map JStr (rk_intentIds d))),
      (''status'', JStr (risk_status_text (rk_status d))),
      (''reasonCodes'', JArr (map (JStr \<circ> error_code_text) (rk_reasonCodes d))),
      (''evidence'', JArr (map evidence_to_js (rk_evidence d))),
      (''requiredCapabilities'', JArr (map requirement_to_js (rk_requiredCapabilities d)))]"

definition material_projection :: "string \<Rightarrow> 'd plan_material \<Rightarrow> 'd jsval" where
  "material_projection identityVersion material = JObj
     (candidate_fields (pm_candidate material) @
      [(''riskDecision'', risk_identity_js (pm_riskDecision material)),
       (''canonicalSerializationVersion'', JStr CANONICAL_SERIALIZATION_VERSION),
       (''identityVersion'', JStr identityVersion)])"

definition parse_presentation :: "'d jsval \<Rightarrow> plan_presentation result" where
  "parse_presentation presentation =
     rbind (parse_utc_timestamp (get presentation ''generatedAt'')) (\<lambda>generatedAt.
     rbind (optional (\<lambda>x. require_safe_text x ''comment'') (get presentation ''comment'')) (\<lambda>comment.
     Ok \<lparr>pp_generatedAt = generatedAt, pp_comment = comment\<rparr>))"

definition create_execution_plan ::
  "'d lib \<Rightarrow> 'd jsval \<Rightarrow> 'd plan_material \<Rightarrow> 'd jsval \<Rightarrow> 'd execution_plan result" where
  "create_execution_plan L identity material presentation =
     (let candidate = pm_candidate material; riskDecision = pm_riskDecision material in
      rbind (require_safe_text identity ''identityVersion'') (\<lambda>identityVersion.
      guard INVALID_PLAN (list_all is_record (pc_orderIntents candidate) \<and> is_record (pc_desiredCurrentDiff candidate)) (
      guard INVALID_PLAN (is_produced_risk_decision riskDecision) (
      need INVALID_PLAN (traverse (\<lambda>i. require_identifier (get i ''intentId'') ''intentId'')
        (pc_orderIntents candidate)) (\<lambda>candidateIntentIds.
      rbind (hash_plan_candidate L candidate) (\<lambda>candidateHash.
      guard PLAN_HASH_MISMATCH (rk_inputHash riskDecision = candidateHash) (
      guard CONSTRAINT_VIOLATION (rk_status riskDecision = RiskPass) (
      guard INVALID_PLAN
        (length (rk_intentIds riskDecision) = length candidateIntentIds \<and>
         distinct (rk_intentIds riskDecision) \<and> distinct candidateIntentIds \<and>
         list_all (\<lambda>i. i \<in> set candidateIntentIds) (rk_intentIds riskDecision) \<and>
         list_all (\<lambda>i. i \<in> set (rk_intentIds riskDecision)) candidateIntentIds) (
      rbind (hash_canonical L (material_projection identityVersion material)) (\<lambda>materialHash.
      rbind (optional parse_presentation presentation) (\<lambda>parsedPresentation.
      Ok (mark_execution_plan
        \<lparr>ep_planId = ''plan-'' @ take 16 (drop 7 materialHash), ep_identityVersion = identityVersion,
         ep_materialHash = materialHash, ep_material = material, ep_presentation = parsedPresentation,
         ep_produced = False\<rparr>))))))))))))"

definition canonical_material :: "'d lib \<Rightarrow> 'd execution_plan \<Rightarrow> string result" where
  "canonical_material L plan =
     canonical_serialize L (material_projection (ep_identityVersion plan) (ep_material plan))"

subsection \<open>What a plan holds\<close>

definition wf_plan :: "'d lib \<Rightarrow> 'd execution_plan \<Rightarrow> bool" where
  "wf_plan L plan \<longleftrightarrow>
     (let c = pm_candidate (ep_material plan); d = pm_riskDecision (ep_material plan) in
      ep_produced plan \<and> rk_produced d \<and> rk_status d = RiskPass \<and>
      hash_plan_candidate L c = Ok (rk_inputHash d) \<and>
      distinct (rk_intentIds d) \<and> list_all safe_identifier (rk_intentIds d) \<and>
      (\<exists>ids. map (\<lambda>i. get i ''intentId'') (pc_orderIntents c) = map JStr ids \<and> distinct ids \<and>
        set ids = set (rk_intentIds d)) \<and>
      hash_canonical L (material_projection (ep_identityVersion plan) (ep_material plan)) = Ok (ep_materialHash plan) \<and>
      ep_planId plan = ''plan-'' @ take 16 (drop 7 (ep_materialHash plan)))"

lemma traverse_identifiers:
  "traverse (\<lambda>i. require_identifier (get i k) f) is = Inr ids \<longleftrightarrow>
    map (\<lambda>i. get i k) is = map JStr ids \<and> list_all safe_identifier ids"
proof (induction "is" arbitrary: ids)
  case (Cons i "is")
  show ?case
    by (cases ids) (auto simp: Cons.IH rbind_Ok_iff require_identifier_Ok)
qed auto

lemma create_execution_plan_Ok:
  assumes "create_execution_plan L identity material presentation = Inr plan"
  shows "wf_plan L plan" "ep_material plan = material" "identity = JStr (ep_identityVersion plan)"
proof -
  obtain ids where parts: "identity = JStr (ep_identityVersion plan)" "rk_produced (pm_riskDecision material)"
    "map (\<lambda>i. get i ''intentId'') (pc_orderIntents (pm_candidate material)) = map JStr ids"
    "list_all safe_identifier ids" "distinct ids"
    "hash_plan_candidate L (pm_candidate material) = Inr (rk_inputHash (pm_riskDecision material))"
    "rk_status (pm_riskDecision material) = RiskPass" "distinct (rk_intentIds (pm_riskDecision material))"
    "list_all (\<lambda>i. i \<in> set ids) (rk_intentIds (pm_riskDecision material))"
    "list_all (\<lambda>i. i \<in> set (rk_intentIds (pm_riskDecision material))) ids"
    "hash_canonical L (material_projection (ep_identityVersion plan) material) = Inr (ep_materialHash plan)"
    "ep_planId plan = ''plan-'' @ take 16 (drop 7 (ep_materialHash plan))"
    "ep_material plan = material" "ep_produced plan"
    using assms unfolding create_execution_plan_def Let_def
    by (auto simp: need_Ok_iff rbind_Ok_iff require_safe_text_Ok traverse_identifiers mark_execution_plan_def
        is_produced_risk_decision_def)
  then show "ep_material plan = material" "identity = JStr (ep_identityVersion plan)" by simp_all
  have "set ids = set (rk_intentIds (pm_riskDecision material))"
    using parts(9,10) by (auto simp: list_all_iff)
  moreover have "list_all safe_identifier (rk_intentIds (pm_riskDecision material))"
    using parts(4,9) by (auto simp: list_all_iff)
  ultimately show "wf_plan L plan" unfolding wf_plan_def Let_def using parts by auto
qed

text \<open>What is canonical in the candidate stays canonical in the material.\<close>

lemma material_serializable:
  assumes "serializable (JObj [(''canonicalSerializationVersion'', JStr CANONICAL_SERIALIZATION_VERSION),
      (''candidate'', candidate_to_js c)])"
    and "rk_evidence d = pc_evidence c" "rk_requiredCapabilities d = pc_requiredCapabilities c"
  shows "serializable (material_projection w \<lparr>pm_candidate = c, pm_riskDecision = d\<rparr>)"
proof -
  have "serializable (JArr (map evidence_to_js (pc_evidence c)) :: 'a jsval)"
    "serializable (JArr (map requirement_to_js (pc_requiredCapabilities c)) :: 'a jsval)"
    using assms(1) by (simp_all add: candidate_to_js_def candidate_fields_def)
  then show ?thesis
    using assms by (simp add: material_projection_def risk_identity_js_def candidate_to_js_def candidate_fields_def)
qed

lemma evaluate_risk_plannable:
  assumes "evaluate_risk L decisionId c capabilities now = Ok d" "rk_status d = RiskPass"
    and "list_all safe_identifier (intent_ids (pc_orderIntents c))" "is_record (pc_desiredCurrentDiff c)"
    and "safe_text identityVersion" "optional parse_presentation presentation = Ok pr"
  shows "\<exists>plan. create_execution_plan L (JStr identityVersion) \<lparr>pm_candidate = c, pm_riskDecision = d\<rparr> presentation =
    Ok plan \<and> ep_presentation plan = pr"
proof -
  have d: "hash_plan_candidate L c = Inr (rk_inputHash d)" "rk_intentIds d = intent_ids (pc_orderIntents c)"
    "rk_produced d" "rk_evidence d = pc_evidence c" "rk_requiredCapabilities d = pc_requiredCapabilities c"
    and reasons: "candidate_reasons L c = []"
    using assms(1,2) by (auto simp: evaluate_risk_def rbind_Ok_iff mark_risk_decision_def Let_def split: if_split_asm)
  obtain ids where ids: "map (\<lambda>i. get i ''intentId'') (pc_orderIntents c) = map JStr ids" "distinct ids"
    using reasons distinct_ids_iff [of "pc_orderIntents c"] by (auto simp: candidate_reasons_def Let_def)
  note same = intent_ids_eq [OF ids(1)]
  have records: "list_all is_record (pc_orderIntents c)"
  proof -
    have "get i ''intentId'' = JStr s \<Longrightarrow> is_record i" for i :: "'a jsval" and s by (cases i) simp_all
    moreover have "\<exists>s. get i ''intentId'' = JStr s" if "i \<in> set (pc_orderIntents c)" for i
    proof -
      have "get i ''intentId'' \<in> set (map (\<lambda>i. get i ''intentId'') (pc_orderIntents c))" using that by simp
      then show ?thesis unfolding ids(1) by auto
    qed
    ultimately show ?thesis unfolding list_all_iff by blast
  qed
  have "serializable (material_projection identityVersion \<lparr>pm_candidate = c, pm_riskDecision = d\<rparr>)"
    by (rule material_serializable) (use d in \<open>auto simp: hash_plan_candidate_def hash_canonical_Ok\<close>)
  then obtain h where h: "hash_canonical L (material_projection identityVersion \<lparr>pm_candidate = c, pm_riskDecision = d\<rparr>) = Inr h"
    by (auto simp: hash_canonical_Ok)
  have tr: "traverse (\<lambda>i. require_identifier (get i ''intentId'') ''intentId'') (pc_orderIntents c) = Inr ids"
    using assms(3) ids(1) same by (simp add: traverse_identifiers)
  show ?thesis
    using assms d ids same records tr h
    by (simp add: create_execution_plan_def is_produced_risk_decision_def list_all_iff mark_execution_plan_def)
qed

subsection \<open>Properties\<close>

text \<open>
  Claim C22: \<open>createExecutionPlan\<close> returns a plan only for a produced, passed risk decision whose
  input hash is the hash of the very candidate in the material and whose intent ids are, without
  repetition, the ids of the candidate's intents; the plan keeps the material it was given and is
  identified by the hash of its projection.
\<close>

theorem plan_binds_passed_decision:
  assumes "create_execution_plan L identity material presentation = Ok plan"
  shows "wf_plan L plan \<and> ep_material plan = material \<and>
    canonical_material L plan \<noteq> Inl e \<and>
    mset (rk_intentIds (pm_riskDecision material)) = mset (intent_ids (pc_orderIntents (pm_candidate material)))"
proof -
  note plan = create_execution_plan_Ok [OF assms]
  obtain ids where ids: "map (\<lambda>i. get i ''intentId'') (pc_orderIntents (pm_candidate material)) = map JStr ids"
    "distinct ids" "set ids = set (rk_intentIds (pm_riskDecision material))" "distinct (rk_intentIds (pm_riskDecision material))"
    using plan(1,2) by (auto simp: wf_plan_def Let_def)
  have "mset (rk_intentIds (pm_riskDecision material)) = mset ids"
    using ids(2-4) set_eq_iff_mset_eq_distinct by metis
  moreover have "canonical_material L plan \<noteq> Inl e"
    using plan(1) by (auto simp: wf_plan_def Let_def canonical_material_def hash_canonical_def split: sum.split_asm)
  ultimately show ?thesis using plan intent_ids_eq [OF ids(1)] by simp
qed

text \<open>
  Whatever candidate \<open>evaluateRisk\<close> passes can be planned with that decision, for any
  identity version that is safe text, when its intents are identified by safe identifiers and its
  difference is an object and the presentation is readable: risk evaluation and plan construction agree on what is executable.
\<close>

theorem passed_candidate_can_be_planned:
  assumes "evaluate_risk L decisionId c capabilities now = Ok d" "rk_status d = RiskPass"
    and "list_all safe_identifier (intent_ids (pc_orderIntents c))" "is_record (pc_desiredCurrentDiff c)"
    and "safe_text identityVersion" "optional parse_presentation presentation = Ok pr"
  shows "\<exists>plan. create_execution_plan L (JStr identityVersion) \<lparr>pm_candidate = c, pm_riskDecision = d\<rparr> presentation =
    Ok plan \<and> ep_presentation plan = pr"
  by (rule evaluate_risk_plannable [OF assms])

text \<open>
  Claim C33: the identity of a plan is that of its material: two decisions that differ only in their
  own id and time give plans with the same hash and id, whatever the presentations say.
\<close>

theorem plan_identity_ignores_presentation:
  assumes "create_execution_plan L identity \<lparr>pm_candidate = c, pm_riskDecision = d\<rparr> p = Ok plan"
    and "create_execution_plan L identity \<lparr>pm_candidate = c, pm_riskDecision = d\<lparr>rk_decisionId := i, rk_asOf := t\<rparr>\<rparr> q = Ok other"
  shows "ep_materialHash plan = ep_materialHash other \<and> ep_planId plan = ep_planId other \<and>
    canonical_material L plan = canonical_material L other"
proof -
  note p = create_execution_plan_Ok [OF assms(1)] and q = create_execution_plan_Ok [OF assms(2)]
  have w: "ep_identityVersion plan = ep_identityVersion other" using p(3) q(3) by simp
  have "material_projection (ep_identityVersion plan) (ep_material plan) =
    material_projection (ep_identityVersion other) (ep_material other)"
    by (simp add: p(2) q(2) w material_projection_def risk_identity_js_def)
  then show ?thesis using p(1) q(1) by (auto simp: wf_plan_def Let_def canonical_material_def)
qed

definition sample_presentation :: "sdec jsval" where
  "sample_presentation = JObj [(''generatedAt'', JStr ''2024-01-01T00:00:30.000Z''), (''comment'', JStr ''daily run'')]"

lemma sample_plan_conditions:
  "list_all safe_identifier (intent_ids (pc_orderIntents sample_candidate))"
  "is_record (pc_desiredCurrentDiff sample_candidate)" "safe_text ''plan/v1''"
  "optional parse_presentation sample_presentation =
    Ok (Some \<lparr>pp_generatedAt = ''2024-01-01T00:00:30.000Z'', pp_comment = Some ''daily run''\<rparr>)"
  by code_simp+

lemma sample_plan_created:
  obtains d plan where
    "evaluate_risk ref_lib (JStr ''risk-1'') sample_candidate sample_capabilities ''2024-01-01T00:00:30.000Z'' = Ok d"
    "rk_status d = RiskPass" "create_execution_plan ref_lib (JStr ''plan/v1'')
      \<lparr>pm_candidate = sample_candidate, pm_riskDecision = d\<rparr> JUndef = Ok plan"
proof -
  obtain d where d: "evaluate_risk ref_lib (JStr ''risk-1'') sample_candidate sample_capabilities
      ''2024-01-01T00:00:30.000Z'' = Ok d" "rk_status d = RiskPass"
    using sample_candidate_passes by blast
  have "optional parse_presentation (JUndef :: sdec jsval) = Ok None" by simp
  from evaluate_risk_plannable [OF d sample_plan_conditions(1-3) this] show ?thesis using that d by blast
qed

theorem passed_candidate_can_be_planned_witness:
  "\<exists>plan d. create_execution_plan ref_lib (JStr ''plan/v1'') \<lparr>pm_candidate = sample_candidate, pm_riskDecision = d\<rparr>
    sample_presentation = Ok plan \<and> rk_decisionId d = ''risk-1''"
proof -
  obtain d where d: "evaluate_risk ref_lib (JStr ''risk-1'') sample_candidate sample_capabilities
      ''2024-01-01T00:00:30.000Z'' = Ok d" "rk_status d = RiskPass"
    using sample_candidate_passes by blast
  have "rk_decisionId d = ''risk-1''"
    using d(1) by (auto simp: evaluate_risk_def rbind_Ok_iff require_identifier_Ok mark_risk_decision_def Let_def
      simp del: parser_simps)
  then show ?thesis
    using passed_candidate_can_be_planned [OF d sample_plan_conditions] by blast
qed

theorem plan_binds_passed_decision_witness:
  "\<exists>plan. wf_plan ref_lib plan \<and> pm_candidate (ep_material plan) = sample_candidate"
proof -
  obtain d plan where "create_execution_plan ref_lib (JStr ''plan/v1'')
      \<lparr>pm_candidate = sample_candidate, pm_riskDecision = d\<rparr> JUndef = Ok plan"
    using sample_plan_created by blast
  from plan_binds_passed_decision [OF this] show ?thesis by (intro exI [of _ plan]) simp
qed

theorem plan_identity_ignores_presentation_witness:
  "\<exists>(plan :: sdec execution_plan) (other :: sdec execution_plan). ep_planId plan = ep_planId other \<and> ep_presentation plan = None \<and> ep_presentation other \<noteq> None"
proof -
  obtain d plan where d: "evaluate_risk ref_lib (JStr ''risk-1'') sample_candidate sample_capabilities
      ''2024-01-01T00:00:30.000Z'' = Ok d" "rk_status d = RiskPass"
    and plan: "create_execution_plan ref_lib (JStr ''plan/v1'')
      \<lparr>pm_candidate = sample_candidate, pm_riskDecision = d\<rparr> JUndef = Ok plan"
    using sample_plan_created by blast
  obtain other where other: "create_execution_plan ref_lib (JStr ''plan/v1'')
      \<lparr>pm_candidate = sample_candidate, pm_riskDecision = d\<rparr> sample_presentation = Ok other" "ep_presentation other \<noteq> None"
    using evaluate_risk_plannable [OF d sample_plan_conditions] by force
  have "ep_presentation plan = None"
    using plan by (auto simp: create_execution_plan_def Let_def need_Ok_iff rbind_Ok_iff mark_execution_plan_def)
  moreover have "create_execution_plan ref_lib (JStr ''plan/v1'') \<lparr>pm_candidate = sample_candidate,
      pm_riskDecision = d\<lparr>rk_decisionId := rk_decisionId d, rk_asOf := rk_asOf d\<rparr>\<rparr> sample_presentation = Ok other"
    using other(1) by simp
  note plan_identity_ignores_presentation [OF plan this]
  ultimately show ?thesis using other(2) by blast
qed

end
