(* ===== verification/Execution.thy ===== *)
theory Execution
  imports Plan
begin

text \<open>
  \<open>domain/execution\<close>: \<open>approval.ts\<close>, \<open>execution-attempt.ts\<close>, \<open>exchange-order.ts\<close>,
  \<open>clearance-evidence.ts\<close> and \<open>reconciliation.ts\<close>. The \<open>WeakSet\<close>s of produced values are a field
  of each record.

  Shown here: an approval is valid exactly in its half-open window and only for its plan; an
  exchange order never reports more than was requested; a reconciliation is owned by its plan and
  says what the order shows; a stored reconciliation reads back unchanged.
\<close>

subsection \<open>Approvals\<close>

record approval =
  apr_approvalId :: string
  apr_planHash :: string
  apr_actor :: string
  apr_approvedAt :: string
  apr_expiresAt :: string
  apr_note :: "string option"

text \<open>\<open>Date.parse(a) <= Date.parse(b)\<close>; false when either is \<open>NaN\<close>.\<close>

definition not_after :: "string \<Rightarrow> string \<Rightarrow> bool" where
  "not_after a b = (case (date_parse a, date_parse b) of (Some x, Some y) \<Rightarrow> x \<le> y | _ \<Rightarrow> False)"

definition create_approval :: "'d jsval \<Rightarrow> approval result" where
  "create_approval input =
     guard INVALID_APPROVAL (is_record input) (
     need INVALID_APPROVAL (require_identifier (get input ''approvalId'') ''approvalId'') (\<lambda>approvalId.
     need INVALID_APPROVAL (require_hash (get input ''planHash'') ''planHash'') (\<lambda>planHash.
     need INVALID_APPROVAL (require_identifier (get input ''actor'') ''actor'') (\<lambda>actor.
     need INVALID_APPROVAL (parse_utc_timestamp (get input ''approvedAt'')) (\<lambda>approvedAt.
     need INVALID_APPROVAL (parse_utc_timestamp (get input ''expiresAt'')) (\<lambda>expiresAt.
     guard INVALID_APPROVAL (\<not> not_after expiresAt approvedAt) (
     need INVALID_APPROVAL (optional (\<lambda>x. require_safe_text x ''note'') (get input ''note'')) (\<lambda>note.
     Ok \<lparr>apr_approvalId = approvalId, apr_planHash = planHash, apr_actor = actor,
       apr_approvedAt = approvedAt, apr_expiresAt = expiresAt, apr_note = note\<rparr>))))))))"

definition approval_to_js :: "approval \<Rightarrow> unit jsval" where
  "approval_to_js a = JObj
     ([(''approvalId'', JStr (apr_approvalId a)), (''planHash'', JStr (apr_planHash a)),
       (''actor'', JStr (apr_actor a)), (''approvedAt'', JStr (apr_approvedAt a)),
       (''expiresAt'', JStr (apr_expiresAt a))] @ opt_field ''note'' (map_option JStr (apr_note a)))"

definition validate_approval :: "approval \<Rightarrow> string \<Rightarrow> string \<Rightarrow> approval result" where
  "validate_approval approval expectedPlanHash now =
     rbind (create_approval (approval_to_js approval)) (\<lambda>validated.
       if apr_planHash validated \<noteq> expectedPlanHash
       then Fail_at PLAN_HASH_MISMATCH (apr_approvalId validated)
       else if later_than (apr_approvedAt validated) now
       then Fail_at INVALID_APPROVAL (apr_approvalId validated)
       else if not_after (apr_expiresAt validated) now
       then Fail_at PLAN_EXPIRED (apr_approvalId validated)
       else Ok validated)"

subsection \<open>Execution attempts\<close>

datatype acknowledgement = AckPending | AckAccepted | AckRejected

datatype terminal_status = TermUnverified | TermOpen | TermFilled | TermCancelled | TermRejected

record execution_attempt =
  at_attemptId :: string
  at_planHash :: string
  at_intentId :: string
  at_clientOrderId :: string
  at_submittedAt :: string
  at_acknowledgement :: acknowledgement
  at_terminalStatus :: terminal_status
  at_exchangeOrderId :: "string option"
  at_produced :: bool

text \<open>A value that must be one of a few strings.\<close>

definition enum_of :: "(string \<times> 'a) list \<Rightarrow> 'd jsval \<Rightarrow> 'a option" where
  "enum_of table value = (case value of JStr s \<Rightarrow> map_of table s | _ \<Rightarrow> None)"

definition acknowledgements :: "(string \<times> acknowledgement) list" where
  "acknowledgements = [(''pending'', AckPending), (''accepted'', AckAccepted), (''rejected'', AckRejected)]"

definition terminal_statuses :: "(string \<times> terminal_status) list" where
  "terminal_statuses = [(''unverified'', TermUnverified), (''open'', TermOpen), (''filled'', TermFilled),
     (''cancelled'', TermCancelled), (''rejected'', TermRejected)]"

definition mark_execution_attempt :: "execution_attempt \<Rightarrow> execution_attempt" where
  "mark_execution_attempt a = a\<lparr>at_produced := True\<rparr>"

definition is_produced_execution_attempt :: "execution_attempt \<Rightarrow> bool" where
  "is_produced_execution_attempt a = at_produced a"

definition create_execution_attempt :: "'d jsval \<Rightarrow> execution_attempt result" where
  "create_execution_attempt input =
     guard INVALID_VALUE (is_record input) (
     need INVALID_VALUE (require_identifier (get input ''attemptId'') ''attemptId'') (\<lambda>attemptId.
     need INVALID_VALUE (require_hash (get input ''planHash'') ''planHash'') (\<lambda>planHash.
     need INVALID_VALUE (require_identifier (get input ''intentId'') ''intentId'') (\<lambda>intentId.
     need INVALID_VALUE (require_identifier (get input ''clientOrderId'') ''clientOrderId'') (\<lambda>clientOrderId.
     need INVALID_VALUE (parse_utc_timestamp (get input ''submittedAt'')) (\<lambda>submittedAt.
     need_some INVALID_VALUE (enum_of acknowledgements (get input ''acknowledgement'')) (\<lambda>ack.
     need_some INVALID_VALUE (enum_of terminal_statuses (get input ''terminalStatus'')) (\<lambda>terminal.
     rbind (optional (\<lambda>x. require_identifier x ''exchangeOrderId'') (get input ''exchangeOrderId'')) (\<lambda>exchangeOrderId.
     Ok (mark_execution_attempt
       \<lparr>at_attemptId = attemptId, at_planHash = planHash, at_intentId = intentId,
        at_clientOrderId = clientOrderId, at_submittedAt = submittedAt, at_acknowledgement = ack,
        at_terminalStatus = terminal, at_exchangeOrderId = exchangeOrderId, at_produced = False\<rparr>))))))))))"

subsection \<open>Exchange orders\<close>

datatype exchange_status = ExOpen | ExFilled | ExPartiallyFilled | ExCancelled | ExRejected

datatype exchange_category = Linear | Inverse | Spot | OptionCategory

datatype exchange_order_type = LimitOrder | MarketOrder

datatype time_in_force = GTC | IOC | FOK | PostOnly

datatype protection_type = TakeProfitOrder | StopLossOrder | TrailingStopOrder | OtherProtection

datatype trigger_by = LastPrice | MarkPrice | IndexPrice

definition exchange_statuses :: "(string \<times> exchange_status) list" where
  "exchange_statuses = [(''open'', ExOpen), (''filled'', ExFilled), (''partially-filled'', ExPartiallyFilled),
     (''cancelled'', ExCancelled), (''rejected'', ExRejected)]"

definition exchange_categories :: "(string \<times> exchange_category) list" where
  "exchange_categories = [(''linear'', Linear), (''inverse'', Inverse), (''spot'', Spot), (''option'', OptionCategory)]"

definition exchange_order_types :: "(string \<times> exchange_order_type) list" where
  "exchange_order_types = [(''limit'', LimitOrder), (''market'', MarketOrder)]"

definition times_in_force :: "(string \<times> time_in_force) list" where
  "times_in_force = [(''GTC'', GTC), (''IOC'', IOC), (''FOK'', FOK), (''PostOnly'', PostOnly)]"

definition protection_types :: "(string \<times> protection_type) list" where
  "protection_types = [(''take-profit'', TakeProfitOrder), (''stop-loss'', StopLossOrder),
     (''trailing-stop'', TrailingStopOrder), (''other'', OtherProtection)]"

definition triggers_by :: "(string \<times> trigger_by) list" where
  "triggers_by = [(''LastPrice'', LastPrice), (''MarkPrice'', MarkPrice), (''IndexPrice'', IndexPrice)]"

text \<open>
  \<open>takeProfit\<close> and \<open>stopLoss\<close> may be absent, \<open>null\<close> (the exchange reports none) or a price, so they
  are an option of an option.
\<close>

record 'd exchange_order =
  xo_exchangeOrderId :: string
  xo_clientOrderId :: string
  xo_instrument :: string
  xo_side :: order_side
  xo_requestedQuantity :: 'd
  xo_filledQuantity :: 'd
  xo_status :: exchange_status
  xo_observedAt :: string
  xo_source :: string
  xo_parentOrderLinkId :: "string option"
  xo_providerOrderLinkId :: "string option"
  xo_providerStopOrderType :: "string option"
  xo_providerTpslMode :: "string option"
  xo_triggerBy :: "trigger_by option"
  xo_takeProfitTriggerBy :: "trigger_by option"
  xo_providerCreatedAt :: "string option"
  xo_providerUpdatedAt :: "string option"
  xo_averagePrice :: "'d option"
  xo_protectionType :: "protection_type option"
  xo_category :: "exchange_category option"
  xo_orderType :: "exchange_order_type option"
  xo_price :: "'d option"
  xo_timeInForce :: "time_in_force option"
  xo_triggerPrice :: "'d option"
  xo_takeProfit :: "'d option option"
  xo_stopLoss :: "'d option option"
  xo_reduceOnly :: "bool option"
  xo_positionIdx :: "int option"
  xo_produced :: bool

definition mark_exchange_order :: "'d exchange_order \<Rightarrow> 'd exchange_order" where
  "mark_exchange_order r = r\<lparr>xo_produced := True\<rparr>"

definition is_produced_exchange_order :: "'d exchange_order \<Rightarrow> bool" where
  "is_produced_exchange_order r = xo_produced r"

definition parse_order_decimal :: "'d lib \<Rightarrow> 'd jsval \<Rightarrow> string \<Rightarrow> 'd result" where
  "parse_order_decimal L value field =
     rbind (dec_from_string L value) (\<lambda>d. if is_negative L d then Fail_at INVALID_VALUE field else Ok d)"

definition positive_from_string :: "'d lib \<Rightarrow> 'd jsval \<Rightarrow> 'd result" where
  "positive_from_string L value = rbind (dec_from_string L value) (\<lambda>d. guard INVALID_VALUE (is_positive L d) (Ok d))"

definition parse_optional_protection_price :: "'d lib \<Rightarrow> 'd jsval \<Rightarrow> 'd option option result" where
  "parse_optional_protection_price L value =
     (if value = JUndef then Ok None
      else if value = JNull then Ok (Some None)
      else need INVALID_VALUE (positive_from_string L value) (\<lambda>d. Ok (Some (Some d))))"

definition parse_enum :: "(string \<times> 'a) list \<Rightarrow> 'd jsval \<Rightarrow> 'a result" where
  "parse_enum table value = need_some INVALID_VALUE (enum_of table value) Ok"

definition parse_bool :: "'d jsval \<Rightarrow> bool result" where
  "parse_bool value = (case value of JBool b \<Rightarrow> Ok b | _ \<Rightarrow> Fail INVALID_VALUE)"

definition parse_position_idx :: "'d jsval \<Rightarrow> int result" where
  "parse_position_idx value =
     (case value of JInt n \<Rightarrow> if n = 0 \<or> n = 1 \<or> n = 2 then Ok n else Fail INVALID_VALUE | _ \<Rightarrow> Fail INVALID_VALUE)"

definition create_exchange_order :: "'d lib \<Rightarrow> 'd jsval \<Rightarrow> 'd exchange_order result" where
  "create_exchange_order L input =
     guard INVALID_VALUE (is_record input) (
     need INVALID_VALUE (require_identifier (get input ''exchangeOrderId'') ''exchangeOrderId'') (\<lambda>exchangeOrderId.
     need INVALID_VALUE (require_identifier (get input ''clientOrderId'') ''clientOrderId'') (\<lambda>clientOrderId.
     need INVALID_VALUE (require_identifier (get input ''instrument'') ''instrument'') (\<lambda>instrument.
     need INVALID_VALUE (require_safe_text (get input ''source'') ''source'') (\<lambda>source.
     need INVALID_VALUE (parse_utc_timestamp (get input ''observedAt'')) (\<lambda>observedAt.
     need INVALID_VALUE (optional (\<lambda>x. require_identifier x ''parentOrderLinkId'') (get input ''parentOrderLinkId'')) (\<lambda>parentOrderLinkId.
     need INVALID_VALUE (optional (\<lambda>x. require_identifier x ''providerOrderLinkId'') (get input ''providerOrderLinkId'')) (\<lambda>providerOrderLinkId.
     need INVALID_VALUE (optional (\<lambda>x. require_safe_text x ''providerStopOrderType'') (get input ''providerStopOrderType'')) (\<lambda>providerStopOrderType.
     need INVALID_VALUE (optional (\<lambda>x. require_safe_text x ''providerTpslMode'') (get input ''providerTpslMode'')) (\<lambda>providerTpslMode.
     need INVALID_VALUE (optional parse_utc_timestamp (get input ''providerCreatedAt'')) (\<lambda>providerCreatedAt.
     need INVALID_VALUE (optional parse_utc_timestamp (get input ''providerUpdatedAt'')) (\<lambda>providerUpdatedAt.
     need INVALID_VALUE (dec_from_string L (get input ''requestedQuantity'')) (\<lambda>requestedQuantity.
     need INVALID_VALUE (parse_order_decimal L (get input ''filledQuantity'') ''filledQuantity'') (\<lambda>filledQuantity.
     guard INVALID_VALUE (is_positive L requestedQuantity) (
     guard INVALID_VALUE (\<not> 0 < dec_compare L filledQuantity requestedQuantity) (
     need_some INVALID_VALUE (order_side_of (get input ''side'')) (\<lambda>side.
     need_some INVALID_VALUE (enum_of exchange_statuses (get input ''status'')) (\<lambda>status.
     guard INVALID_VALUE (status = ExFilled \<longrightarrow> is_positive L filledQuantity) (
     need INVALID_VALUE (optional (positive_from_string L) (get input ''averagePrice'')) (\<lambda>averagePrice.
     need INVALID_VALUE (optional (parse_enum protection_types) (get input ''protectionType'')) (\<lambda>protectionType.
     need INVALID_VALUE (optional (parse_enum exchange_categories) (get input ''category'')) (\<lambda>category.
     need INVALID_VALUE (optional (parse_enum exchange_order_types) (get input ''orderType'')) (\<lambda>orderType.
     need INVALID_VALUE (optional (parse_enum times_in_force) (get input ''timeInForce'')) (\<lambda>timeInForce.
     need INVALID_VALUE (optional (positive_from_string L) (get input ''price'')) (\<lambda>price.
     need INVALID_VALUE (optional (positive_from_string L) (get input ''triggerPrice'')) (\<lambda>triggerPrice.
     need INVALID_VALUE (parse_optional_protection_price L (get input ''takeProfit'')) (\<lambda>takeProfit.
     need INVALID_VALUE (parse_optional_protection_price L (get input ''stopLoss'')) (\<lambda>stopLoss.
     need INVALID_VALUE (optional parse_bool (get input ''reduceOnly'')) (\<lambda>reduceOnly.
     need INVALID_VALUE (optional parse_position_idx (get input ''positionIdx'')) (\<lambda>positionIdx.
     need INVALID_VALUE (optional (parse_enum triggers_by) (get input ''triggerBy'')) (\<lambda>triggerBy.
     need INVALID_VALUE (optional (parse_enum triggers_by) (get input ''takeProfitTriggerBy'')) (\<lambda>takeProfitTriggerBy.
     Ok (mark_exchange_order
       \<lparr>xo_exchangeOrderId = exchangeOrderId, xo_clientOrderId = clientOrderId, xo_instrument = instrument,
        xo_side = side, xo_requestedQuantity = requestedQuantity, xo_filledQuantity = filledQuantity,
        xo_status = status, xo_observedAt = observedAt, xo_source = source,
        xo_parentOrderLinkId = parentOrderLinkId, xo_providerOrderLinkId = providerOrderLinkId,
        xo_providerStopOrderType = providerStopOrderType, xo_providerTpslMode = providerTpslMode,
        xo_triggerBy = triggerBy, xo_takeProfitTriggerBy = takeProfitTriggerBy,
        xo_providerCreatedAt = providerCreatedAt, xo_providerUpdatedAt = providerUpdatedAt,
        xo_averagePrice = averagePrice, xo_protectionType = protectionType, xo_category = category,
        xo_orderType = orderType, xo_price = price, xo_timeInForce = timeInForce,
        xo_triggerPrice = triggerPrice, xo_takeProfit = takeProfit, xo_stopLoss = stopLoss,
        xo_reduceOnly = reduceOnly, xo_positionIdx = positionIdx,
        xo_produced = False\<rparr>)))))))))))))))))))))))))))))))))"

subsection \<open>Clearance evidence\<close>

record clearance_evidence =
  ce_actor :: string
  ce_source :: string
  ce_timestamp :: string
  ce_reason :: string
  ce_affectedLineageRevision :: int
  ce_affectedReconciliationRevision :: int

definition create_clearance_evidence :: "'d jsval \<Rightarrow> clearance_evidence result" where
  "create_clearance_evidence input =
     guard INVALID_VALUE (is_record input) (
     need INVALID_VALUE (require_identifier (get input ''actor'') ''actor'') (\<lambda>actor.
     need INVALID_VALUE (require_safe_text (get input ''source'') ''source'') (\<lambda>source.
     need INVALID_VALUE (parse_utc_timestamp (get input ''timestamp'')) (\<lambda>timestamp.
     need INVALID_VALUE (require_safe_text (get input ''reason'') ''reason'') (\<lambda>reason.
     need INVALID_VALUE
       (require_finite_integer (get input ''affectedLineageRevision'') ''affectedLineageRevision'' 0) (\<lambda>lineage.
     need INVALID_VALUE
       (require_finite_integer (get input ''affectedReconciliationRevision'') ''affectedReconciliationRevision'' 0) (\<lambda>reconciliation.
     guard INVALID_VALUE (get input ''evidenceVersion'' = JStr ''clearance/v1'') (
     Ok \<lparr>ce_actor = actor, ce_source = source, ce_timestamp = timestamp, ce_reason = reason,
       ce_affectedLineageRevision = lineage, ce_affectedReconciliationRevision = reconciliation\<rparr>))))))))"

subsection \<open>Reconciliation\<close>

datatype reconciliation_status = RecReconciled | RecPartial | RecFailed | RecPending | RecUnresolved

definition reconciliation_statuses :: "(string \<times> reconciliation_status) list" where
  "reconciliation_statuses = [(''RECONCILED'', RecReconciled), (''PARTIAL'', RecPartial), (''FAILED'', RecFailed),
     (''PENDING'', RecPending), (''UNRESOLVED'', RecUnresolved)]"

record reconciliation_result =
  rr_attemptId :: string
  rr_intentId :: string
  rr_planHash :: string
  rr_clientOrderId :: string
  rr_status :: reconciliation_status
  rr_observedAt :: string
  rr_exchangeOrderId :: "string option"
  rr_produced :: bool

definition mark_reconciliation_result :: "reconciliation_result \<Rightarrow> reconciliation_result" where
  "mark_reconciliation_result r = r\<lparr>rr_produced := True\<rparr>"

definition is_produced_reconciliation_result :: "reconciliation_result \<Rightarrow> bool" where
  "is_produced_reconciliation_result r = rr_produced r"

definition reconcile_status :: "'d lib \<Rightarrow> 'd exchange_order \<Rightarrow> reconciliation_status" where
  "reconcile_status L order =
     (if xo_status order = ExFilled \<and> dec_compare L (xo_filledQuantity order) (xo_requestedQuantity order) = 0
      then RecReconciled
      else if xo_status order = ExOpen \<or> xo_status order = ExPartiallyFilled then RecPending
      else if is_positive L (xo_filledQuantity order) then RecPartial else RecFailed)"

text \<open>
  The order intents of a plan are JavaScript values; \<open>compare\<close> needs the quantity to be a decimal,
  which the risk evaluation has checked for every produced plan.
\<close>

definition reconcile_attempt ::
  "'d lib \<Rightarrow> execution_attempt \<Rightarrow> 'd exchange_order option \<Rightarrow> 'd execution_plan \<Rightarrow> reconciliation_result result" where
  "reconcile_attempt L attempt order plan =
     guard INVALID_VALUE (is_produced_execution_attempt attempt) (
     guard INVALID_VALUE (case order of None \<Rightarrow> True | Some r \<Rightarrow> is_produced_exchange_order r) (
     guard INVALID_PLAN (is_produced_execution_plan plan) (
     rbind (require_hash (JStr (ep_materialHash plan) :: unit jsval) ''planHash'') (\<lambda>planHash.
     if at_planHash attempt \<noteq> planHash then Fail_at OWNERSHIP_MISMATCH (at_attemptId attempt)
     else (case find (\<lambda>i. get i ''intentId'' = JStr (at_intentId attempt)) (pc_orderIntents (pm_candidate (ep_material plan))) of
       None \<Rightarrow> Fail_at OWNERSHIP_MISMATCH (at_attemptId attempt)
     | Some intent \<Rightarrow>
         (case order of
            None \<Rightarrow> Ok (mark_reconciliation_result
              \<lparr>rr_attemptId = at_attemptId attempt, rr_intentId = at_intentId attempt,
               rr_planHash = at_planHash attempt, rr_clientOrderId = at_clientOrderId attempt,
               rr_status = (if at_acknowledgement attempt = AckRejected then RecFailed else RecUnresolved),
               rr_observedAt = at_submittedAt attempt, rr_exchangeOrderId = None, rr_produced = False\<rparr>)
          | Some r \<Rightarrow>
              if at_exchangeOrderId attempt \<noteq> Some (xo_exchangeOrderId r) \<or>
                 xo_clientOrderId r \<noteq> at_clientOrderId attempt \<or>
                 JStr (xo_instrument r) \<noteq> get intent ''instrument'' \<or>
                 JStr (order_side_text (xo_side r)) \<noteq> get intent ''side'' \<or>
                 (case decimal_of (get intent ''quantity'') of
                    None \<Rightarrow> True | Some q \<Rightarrow> dec_compare L (xo_requestedQuantity r) q \<noteq> 0) \<or>
                 later_than (at_submittedAt attempt) (xo_observedAt r)
              then Fail_at OWNERSHIP_MISMATCH (at_attemptId attempt)
              else Ok (mark_reconciliation_result
                \<lparr>rr_attemptId = at_attemptId attempt, rr_intentId = at_intentId attempt,
                 rr_planHash = at_planHash attempt, rr_clientOrderId = at_clientOrderId attempt,
                 rr_status = reconcile_status L r, rr_observedAt = xo_observedAt r,
                 rr_exchangeOrderId = Some (xo_exchangeOrderId r), rr_produced = False\<rparr>)))))))"

definition rehydrate_reconciliation_result :: "'d jsval \<Rightarrow> reconciliation_result result" where
  "rehydrate_reconciliation_result input =
     guard INVALID_VALUE (is_record input) (
     need INVALID_VALUE (require_identifier (get input ''attemptId'') ''attemptId'') (\<lambda>attemptId.
     need INVALID_VALUE (require_identifier (get input ''intentId'') ''intentId'') (\<lambda>intentId.
     need INVALID_VALUE (require_hash (get input ''planHash'') ''planHash'') (\<lambda>planHash.
     need INVALID_VALUE (require_identifier (get input ''clientOrderId'') ''clientOrderId'') (\<lambda>clientOrderId.
     need INVALID_VALUE (parse_utc_timestamp (get input ''observedAt'')) (\<lambda>observedAt.
     need_some INVALID_VALUE (enum_of reconciliation_statuses (get input ''status'')) (\<lambda>status.
     rbind (optional (\<lambda>x. require_identifier x ''exchangeOrderId'') (get input ''exchangeOrderId'')) (\<lambda>exchangeOrderId.
     guard INVALID_VALUE (\<not> (exchangeOrderId = None \<and>
       (status = RecReconciled \<or> status = RecPartial \<or> status = RecPending))) (
     Ok (mark_reconciliation_result
       \<lparr>rr_attemptId = attemptId, rr_intentId = intentId, rr_planHash = planHash,
        rr_clientOrderId = clientOrderId, rr_status = status, rr_observedAt = observedAt,
        rr_exchangeOrderId = exchangeOrderId, rr_produced = False\<rparr>))))))))))"

subsection \<open>The window of an approval\<close>

definition approval_opens :: "approval \<Rightarrow> int" where
  "approval_opens a = (case date_parse (apr_approvedAt a) of Some e \<Rightarrow> e | None \<Rightarrow> 0)"

definition approval_closes :: "approval \<Rightarrow> int" where
  "approval_closes a = (case date_parse (apr_expiresAt a) of Some e \<Rightarrow> e | None \<Rightarrow> 0)"

definition wf_approval :: "approval \<Rightarrow> bool" where
  "wf_approval a \<longleftrightarrow>
     safe_identifier (apr_approvalId a) \<and> hash_text (apr_planHash a) \<and> safe_identifier (apr_actor a) \<and>
     instant (apr_approvedAt a) (approval_opens a) \<and> instant (apr_expiresAt a) (approval_closes a) \<and>
     approval_opens a < approval_closes a \<and> (\<forall>n. apr_note a = Some n \<longrightarrow> safe_text n)"

text \<open>An approval \<open>validateApproval\<close> can parse again (it does so before looking at the time).\<close>

definition readable_approval :: "approval \<Rightarrow> bool" where
  "readable_approval a \<longleftrightarrow> wf_approval a \<and> readable_instant (apr_approvedAt a) \<and> readable_instant (apr_expiresAt a)"

lemma instant_date_parse: "instant t e \<Longrightarrow> date_parse t = Some e"
  by (simp add: instant_def date_parse_iso)

lemma not_after_iff: "instant a x \<Longrightarrow> instant b y \<Longrightarrow> not_after a b \<longleftrightarrow> x \<le> y"
  by (simp add: not_after_def instant_date_parse)

lemma parse_instant: "parse_utc_timestamp w = Inr t \<Longrightarrow> \<exists>e. instant t e \<and> date_parse t = Some e"
  using parse_utc_timestamp_Ok [of w t] instant_date_parse by blast

lemma create_approval_wf:
  assumes "create_approval input = Inr a"
  shows "wf_approval a"
proof -
  have parts: "safe_identifier (apr_approvalId a)" "hash_text (apr_planHash a)" "safe_identifier (apr_actor a)"
    "parse_utc_timestamp (get input ''approvedAt'') = Inr (apr_approvedAt a)"
    "parse_utc_timestamp (get input ''expiresAt'') = Inr (apr_expiresAt a)"
    "\<not> not_after (apr_expiresAt a) (apr_approvedAt a)" "\<forall>n. apr_note a = Some n \<longrightarrow> safe_text n"
    using assms unfolding create_approval_def
    by (auto simp: need_Ok_iff require_identifier_Ok require_hash_Ok optional_Some_iff require_safe_text_Ok)
  obtain x y where "instant (apr_approvedAt a) x" "instant (apr_expiresAt a) y"
    "date_parse (apr_approvedAt a) = Some x" "date_parse (apr_expiresAt a) = Some y"
    using parse_instant [OF parts(4)] parse_instant [OF parts(5)] by blast
  then show ?thesis
    using parts not_after_iff [of "apr_expiresAt a" y "apr_approvedAt a" x]
    by (simp add: wf_approval_def approval_opens_def approval_closes_def)
qed

lemma approval_round_trip:
  assumes "readable_approval a"
  shows "create_approval (approval_to_js a) = Inr a"
proof -
  have late: "\<not> not_after (apr_expiresAt a) (apr_approvedAt a)"
    using assms not_after_iff [of "apr_expiresAt a" "approval_closes a" "apr_approvedAt a" "approval_opens a"]
    by (simp add: readable_approval_def wf_approval_def)
  have noted: "optional (\<lambda>x. require_safe_text x ''note'') (get (approval_to_js a) ''note'') = Inr (apr_note a)"
    using assms by (cases "apr_note a")
      (simp_all add: approval_to_js_def optional_def readable_approval_def wf_approval_def)
  have fields: "get (approval_to_js a) ''approvalId'' = JStr (apr_approvalId a)"
    "get (approval_to_js a) ''planHash'' = JStr (apr_planHash a)" "get (approval_to_js a) ''actor'' = JStr (apr_actor a)"
    "get (approval_to_js a) ''approvedAt'' = JStr (apr_approvedAt a)"
    "get (approval_to_js a) ''expiresAt'' = JStr (apr_expiresAt a)" "is_record (approval_to_js a)"
    by (simp_all add: approval_to_js_def)
  show ?thesis
    using assms late
    by (simp add: create_approval_def noted fields readable_parse readable_approval_def wf_approval_def)
qed

lemma validate_approval_eq:
  assumes "readable_approval a" "instant now n"
  shows "validate_approval a h now =
    (if apr_planHash a \<noteq> h then Fail_at PLAN_HASH_MISMATCH (apr_approvalId a)
     else if n < approval_opens a then Fail_at INVALID_APPROVAL (apr_approvalId a)
     else if approval_closes a \<le> n then Fail_at PLAN_EXPIRED (apr_approvalId a) else Ok a)"
  using assms later_than_iff [of "apr_approvedAt a" "approval_opens a" now n]
    not_after_iff [of "apr_expiresAt a" "approval_closes a" now n]
  by (simp add: validate_approval_def approval_round_trip readable_approval_def wf_approval_def)

lemma validate_approval_Ok: "validate_approval a h now = Inr b \<Longrightarrow> wf_approval b \<and> apr_planHash b = h"
  by (auto simp: validate_approval_def rbind_Ok_iff dest: create_approval_wf split: if_split_asm)

text \<open>Approvals and evidence share the contract of a validity window.\<close>

interpretation approval: validity_window readable_approval
  "\<lambda>a now. is_ok (validate_approval a (apr_planHash a) now)" approval_opens approval_closes
  by unfold_locales (auto simp: validate_approval_eq)

subsection \<open>What orders and reconciliations hold\<close>

definition wf_exchange_order :: "('d \<Rightarrow> rat) \<Rightarrow> 'd exchange_order \<Rightarrow> bool" where
  "wf_exchange_order v r \<longleftrightarrow>
     xo_produced r \<and> 0 < v (xo_requestedQuantity r) \<and> 0 \<le> v (xo_filledQuantity r) \<and>
     v (xo_filledQuantity r) \<le> v (xo_requestedQuantity r) \<and>
     (xo_status r = ExFilled \<longrightarrow> 0 < v (xo_filledQuantity r)) \<and>
     (\<forall>p. xo_averagePrice r = Some p \<longrightarrow> 0 < v p) \<and> (\<forall>p. xo_price r = Some p \<longrightarrow> 0 < v p) \<and>
     (\<forall>p. xo_triggerPrice r = Some p \<longrightarrow> 0 < v p) \<and> (\<forall>p. xo_takeProfit r = Some (Some p) \<longrightarrow> 0 < v p) \<and>
     (\<forall>p. xo_stopLoss r = Some (Some p) \<longrightarrow> 0 < v p) \<and>
     (\<forall>n. xo_positionIdx r = Some n \<longrightarrow> n \<in> {0, 1, 2}) \<and> (\<exists>e. instant (xo_observedAt r) e)"

context big_decimal
begin

lemma positive_from_string_Ok: "positive_from_string L w = Inr d \<Longrightarrow> 0 < v d"
  by (auto simp: positive_from_string_def rbind_Ok_iff need_Ok_iff)

lemma optional_positive: "optional (positive_from_string L) w = Inr (Some d) \<Longrightarrow> 0 < v d"
  by (auto simp: optional_Some_iff dest: positive_from_string_Ok)

lemma optional_exit: "parse_optional_protection_price L w = Inr (Some (Some d)) \<Longrightarrow> 0 < v d"
  by (auto simp: parse_optional_protection_price_def need_Ok_iff dest: positive_from_string_Ok split: if_split_asm)

lemma create_exchange_order_wf:
  assumes "create_exchange_order L input = Inr r"
  shows "wf_exchange_order v r"
proof -
  have parts: "parse_utc_timestamp (get input ''observedAt'') = Inr (xo_observedAt r)"
    "parse_order_decimal L (get input ''filledQuantity'') ''filledQuantity'' = Inr (xo_filledQuantity r)"
    "0 < v (xo_requestedQuantity r)" "v (xo_filledQuantity r) \<le> v (xo_requestedQuantity r)"
    "xo_status r = ExFilled \<longrightarrow> 0 < v (xo_filledQuantity r)" "xo_produced r"
    and optionals: "optional (positive_from_string L) (get input ''averagePrice'') = Inr (xo_averagePrice r)"
    "optional (positive_from_string L) (get input ''price'') = Inr (xo_price r)"
    "optional (positive_from_string L) (get input ''triggerPrice'') = Inr (xo_triggerPrice r)"
    "parse_optional_protection_price L (get input ''takeProfit'') = Inr (xo_takeProfit r)"
    "parse_optional_protection_price L (get input ''stopLoss'') = Inr (xo_stopLoss r)"
    "optional parse_position_idx (get input ''positionIdx'') = Inr (xo_positionIdx r)"
    using assms unfolding create_exchange_order_def need_Ok_iff mark_exchange_order_def
    by (elim exE conjE; clarsimp simp: not_less)+
  have "xo_positionIdx r = Some n \<Longrightarrow> n \<in> {0, 1, 2}" for n
    using optionals(6) by (auto simp: optional_Some_iff parse_position_idx_def split: jsval.split_asm if_split_asm)
  then show ?thesis
    unfolding wf_exchange_order_def
    using parts optionals(1-5) optional_positive optional_exit parse_instant [OF parts(1)]
    by (auto simp: parse_order_decimal_def rbind_Ok_iff split: if_split_asm)
qed

end

definition reconciliation_status_text :: "reconciliation_status \<Rightarrow> string" where
  "reconciliation_status_text s =
     (case s of RecReconciled \<Rightarrow> ''RECONCILED'' | RecPartial \<Rightarrow> ''PARTIAL'' | RecFailed \<Rightarrow> ''FAILED''
      | RecPending \<Rightarrow> ''PENDING'' | RecUnresolved \<Rightarrow> ''UNRESOLVED'')"

definition reconciliation_to_js :: "reconciliation_result \<Rightarrow> 'd jsval" where
  "reconciliation_to_js r = JObj
     ([(''attemptId'', JStr (rr_attemptId r)), (''intentId'', JStr (rr_intentId r)),
       (''planHash'', JStr (rr_planHash r)), (''clientOrderId'', JStr (rr_clientOrderId r)),
       (''status'', JStr (reconciliation_status_text (rr_status r))), (''observedAt'', JStr (rr_observedAt r))]
      @ opt_field ''exchangeOrderId'' (map_option JStr (rr_exchangeOrderId r)))"

definition wf_reconciliation :: "reconciliation_result \<Rightarrow> bool" where
  "wf_reconciliation r \<longleftrightarrow>
     rr_produced r \<and> safe_identifier (rr_attemptId r) \<and> safe_identifier (rr_intentId r) \<and>
     hash_text (rr_planHash r) \<and> safe_identifier (rr_clientOrderId r) \<and>
     (\<forall>x. rr_exchangeOrderId r = Some x \<longrightarrow> safe_identifier x) \<and>
     (rr_exchangeOrderId r = None \<longrightarrow> rr_status r \<in> {RecFailed, RecUnresolved}) \<and>
     (\<exists>e. instant (rr_observedAt r) e)"

lemma rehydrate_reconciliation_wf:
  assumes "rehydrate_reconciliation_result input = Inr r"
  shows "wf_reconciliation r"
proof -
  have "rr_status r \<in> {RecFailed, RecUnresolved} \<longleftrightarrow> \<not> (rr_status r = RecReconciled \<or> rr_status r = RecPartial \<or> rr_status r = RecPending)"
    by (cases "rr_status r") simp_all
  then show ?thesis
    using assms parse_instant unfolding rehydrate_reconciliation_result_def wf_reconciliation_def
    by (fastforce simp: need_Ok_iff rbind_Ok_iff require_identifier_Ok require_hash_Ok optional_Some_iff
        mark_reconciliation_result_def)
qed

lemma reconciliation_round_trip_Ok:
  assumes "wf_reconciliation r" "readable_instant (rr_observedAt r)"
  shows "rehydrate_reconciliation_result (reconciliation_to_js r :: 'd jsval) = Inr r"
proof -
  define w :: "'d jsval" where "w = reconciliation_to_js r"
  have fields: "is_record w" "get w ''attemptId'' = JStr (rr_attemptId r)" "get w ''intentId'' = JStr (rr_intentId r)"
    "get w ''planHash'' = JStr (rr_planHash r)" "get w ''clientOrderId'' = JStr (rr_clientOrderId r)"
    "get w ''status'' = JStr (reconciliation_status_text (rr_status r))" "get w ''observedAt'' = JStr (rr_observedAt r)"
    by (simp_all add: w_def reconciliation_to_js_def)
  have status: "enum_of reconciliation_statuses (JStr (reconciliation_status_text s)) = Some s" for s
    by (cases s) (simp_all add: enum_of_def reconciliation_statuses_def reconciliation_status_text_def)
  have ex: "optional (\<lambda>x. require_identifier x ''exchangeOrderId'') (get w ''exchangeOrderId'') = Inr (rr_exchangeOrderId r)"
    using assms by (cases "rr_exchangeOrderId r")
      (simp_all add: w_def reconciliation_to_js_def optional_def wf_reconciliation_def)
  have evidence: "\<not> (rr_exchangeOrderId r = None \<and>
      (rr_status r = RecReconciled \<or> rr_status r = RecPartial \<or> rr_status r = RecPending))"
    using assms by (auto simp: wf_reconciliation_def)
  show ?thesis
    unfolding w_def [symmetric]
    using assms evidence
    by (simp add: rehydrate_reconciliation_result_def fields status ex readable_parse mark_reconciliation_result_def
        wf_reconciliation_def)
qed

lemma reconcile_attempt_Ok:
  assumes "reconcile_attempt L attempt order plan = Inr r"
  obtains intent where "intent \<in> set (pc_orderIntents (pm_candidate (ep_material plan)))"
    "get intent ''intentId'' = JStr (at_intentId attempt)" "rr_planHash r = ep_materialHash plan"
    "rr_attemptId r = at_attemptId attempt" "rr_intentId r = at_intentId attempt"
    "rr_clientOrderId r = at_clientOrderId attempt" "rr_produced r" "hash_text (rr_planHash r)"
    "order = None \<Longrightarrow> rr_status r = (if at_acknowledgement attempt = AckRejected then RecFailed else RecUnresolved) \<and>
      rr_exchangeOrderId r = None \<and> rr_observedAt r = at_submittedAt attempt"
    "\<And>x. order = Some x \<Longrightarrow> rr_status r = reconcile_status L x \<and> rr_exchangeOrderId r = Some (xo_exchangeOrderId x) \<and>
      rr_observedAt r = xo_observedAt x \<and> at_exchangeOrderId attempt = Some (xo_exchangeOrderId x) \<and>
      xo_clientOrderId x = at_clientOrderId attempt \<and> get intent ''instrument'' = JStr (xo_instrument x) \<and>
      get intent ''side'' = JStr (order_side_text (xo_side x)) \<and>
      (\<exists>q. get intent ''quantity'' = JDec q \<and> dec_compare L (xo_requestedQuantity x) q = 0) \<and>
      \<not> later_than (at_submittedAt attempt) (xo_observedAt x) \<and> xo_produced x"
proof -
  obtain intent where found: "find (\<lambda>i. get i ''intentId'' = JStr (at_intentId attempt))
      (pc_orderIntents (pm_candidate (ep_material plan))) = Some intent"
    using assms by (auto simp: reconcile_attempt_def need_Ok_iff rbind_Ok_iff split: if_split_asm option.split_asm)
  then have "intent \<in> set (pc_orderIntents (pm_candidate (ep_material plan)))"
    "get intent ''intentId'' = JStr (at_intentId attempt)"
    by (auto simp: find_Some_iff)
  moreover have "(case decimal_of x of None \<Rightarrow> True | Some q \<Rightarrow> P q) = False \<longleftrightarrow> (\<exists>q. x = JDec q \<and> \<not> P q)" for x and P :: "'a \<Rightarrow> bool"
    by (auto simp: decimal_of_def split: jsval.split)
  note this [simp]
  ultimately show thesis
    using that [of intent] assms
    by (cases order)
      (auto simp: reconcile_attempt_def found need_Ok_iff rbind_Ok_iff mark_reconciliation_result_def
        is_produced_exchange_order_def split: if_split_asm)
qed

subsection \<open>Properties\<close>

text \<open>
  \<open>validateApproval\<close> accepts an approval exactly for its own plan hash and from
  \<open>approvedAt\<close> until just before \<open>expiresAt\<close>, returning it unchanged; otherwise it answers with the
  first of a hash mismatch, an approval not yet effective and an expired one.
\<close>

theorem approval_valid_in_window:
  assumes "create_approval input = Ok a" "readable_instant (apr_approvedAt a)" "readable_instant (apr_expiresAt a)"
    and "instant now n"
  shows "(\<exists>s e. instant (apr_approvedAt a) s \<and> instant (apr_expiresAt a) e \<and> s < e \<and>
      validate_approval a h now =
        (if apr_planHash a \<noteq> h then Fail_at PLAN_HASH_MISMATCH (apr_approvalId a)
         else if n < s then Fail_at INVALID_APPROVAL (apr_approvalId a)
         else if e \<le> n then Fail_at PLAN_EXPIRED (apr_approvalId a) else Ok a))"
  using create_approval_wf [OF assms(1)] assms(2,3) validate_approval_eq [OF _ assms(4), of a h]
  by (auto simp: readable_approval_def wf_approval_def)

text \<open>
  An approval that was valid and has expired stays expired: validity is one interval, so
  no later clock makes it valid again.
\<close>

theorem approval_expiry_is_final:
  assumes "readable_approval a" "validate_approval a h s = Ok a" "validate_approval a h t = Inl e"
    and "instant s x" "instant t y" "instant u z" "x \<le> y" "y \<le> z"
  shows "\<not> is_ok (validate_approval a h u)"
proof -
  have "apr_planHash a = h" using validate_approval_Ok [OF assms(2)] by simp
  then show ?thesis using approval.expired_stays [OF assms(1), of s t x y u z] assms by simp
qed

text \<open>
  An exchange order that \<open>createExchangeOrder\<close> accepts requests a positive quantity, has
  filled between nothing and all of it, something if it says it is filled, and reports only
  positive prices.
\<close>

theorem exchange_order_sound:
  assumes "host L v" "create_exchange_order L input = Ok r"
  shows "wf_exchange_order v r"
  by (rule big_decimal.create_exchange_order_wf [OF host_decimal [OF assms(1)] assms(2)])

text \<open>
  Claim C26: reconciling an attempt with the order it placed is owned by the plan: same hash, an
  intent of the plan with the attempt's id and the order's requested quantity. The status says
  exactly what the order shows: reconciled when filled completely, pending while it can still
  fill, partial when it ended with some fill, failed when it ended with none.
\<close>

theorem reconciliation_reflects_order:
  assumes "host L v" "wf_exchange_order v x" "reconcile_attempt L attempt (Some x) plan = Ok r"
  shows "rr_planHash r = ep_materialHash plan \<and> rr_intentId r = at_intentId attempt \<and>
    (\<exists>intent \<in> set (pc_orderIntents (pm_candidate (ep_material plan))). get intent ''intentId'' = JStr (rr_intentId r) \<and>
      (\<exists>q. get intent ''quantity'' = JDec q \<and> v (xo_requestedQuantity x) = v q)) \<and>
    rr_exchangeOrderId r = at_exchangeOrderId attempt \<and>
    (rr_status r = RecReconciled \<longleftrightarrow> xo_status x = ExFilled \<and> v (xo_filledQuantity x) = v (xo_requestedQuantity x)) \<and>
    (rr_status r = RecPending \<longleftrightarrow> xo_status x = ExOpen \<or> xo_status x = ExPartiallyFilled) \<and>
    (rr_status r = RecFailed \<longleftrightarrow> xo_status x \<in> {ExCancelled, ExRejected} \<and> v (xo_filledQuantity x) = 0) \<and>
    rr_status r \<noteq> RecUnresolved"
proof -
  note ci [simp] = big_decimal.compare_iffs [OF host_decimal [OF assms(1)]] big_decimal.sign_iffs [OF host_decimal [OF assms(1)]]
  obtain intent where i: "intent \<in> set (pc_orderIntents (pm_candidate (ep_material plan)))"
    "get intent ''intentId'' = JStr (at_intentId attempt)" "rr_planHash r = ep_materialHash plan"
    "rr_intentId r = at_intentId attempt" "rr_status r = reconcile_status L x"
    "rr_exchangeOrderId r = Some (xo_exchangeOrderId x)" "at_exchangeOrderId attempt = Some (xo_exchangeOrderId x)"
    "\<exists>q. get intent ''quantity'' = JDec q \<and> dec_compare L (xo_requestedQuantity x) q = 0"
    by (rule reconcile_attempt_Ok [OF assms(3)]) auto
  have "(reconcile_status L x = RecReconciled \<longleftrightarrow> xo_status x = ExFilled \<and> v (xo_filledQuantity x) = v (xo_requestedQuantity x)) \<and>
    (reconcile_status L x = RecPending \<longleftrightarrow> xo_status x = ExOpen \<or> xo_status x = ExPartiallyFilled) \<and>
    (reconcile_status L x = RecFailed \<longleftrightarrow> xo_status x \<in> {ExCancelled, ExRejected} \<and> v (xo_filledQuantity x) = 0) \<and>
    reconcile_status L x \<noteq> RecUnresolved"
    using assms(2) by (cases "xo_status x") (auto simp: reconcile_status_def wf_exchange_order_def)
  then show ?thesis using i by auto
qed

text \<open>
  A stored reconciliation reads back unchanged, and everything
  \<open>rehydrateReconciliationResult\<close> accepts names its exchange order unless it failed or is
  unresolved.
\<close>

theorem reconciliation_round_trip:
  assumes "wf_reconciliation r" "readable_instant (rr_observedAt r)"
  shows "rehydrate_reconciliation_result (reconciliation_to_js r :: 'd jsval) = Ok r \<and>
    (\<forall>input s. rehydrate_reconciliation_result (input :: 'd jsval) = Ok s \<longrightarrow> wf_reconciliation s)"
  using reconciliation_round_trip_Ok [OF assms] rehydrate_reconciliation_wf by blast

definition sample_approval_js :: "unit jsval" where
  "sample_approval_js = JObj [(''approvalId'', JStr ''ap-1''), (''planHash'', JStr sample_hash), (''actor'', JStr ''operator''),
     (''approvedAt'', JStr ''2024-01-01T00:00:00.000Z''), (''expiresAt'', JStr ''2024-01-01T00:00:30.000Z'')]"

definition sample_approval :: approval where
  "sample_approval = \<lparr>apr_approvalId = ''ap-1'', apr_planHash = sample_hash, apr_actor = ''operator'',
     apr_approvedAt = ''2024-01-01T00:00:00.000Z'', apr_expiresAt = ''2024-01-01T00:00:30.000Z'', apr_note = None\<rparr>"

lemma sample_approval_created: "create_approval sample_approval_js = Ok sample_approval"
  by code_simp

lemma sample_instant_readable_later: "readable_instant ''2024-01-01T00:00:30.000Z''"
proof -
  have "year_from_day (1704067230000 div ms_per_day) = 2024" by code_simp
  then show ?thesis using sample_instants(2) unfolding readable_instant_def by (intro exI [of _ 1704067230000]) simp
qed

lemma sample_approval_readable: "readable_approval sample_approval"
  using create_approval_wf [OF sample_approval_created] sample_instant_readable sample_instant_readable_later
  by (simp add: readable_approval_def sample_approval_def)

theorem approval_valid_in_window_witness:
  "validate_approval sample_approval sample_hash ''2024-01-01T00:00:30.000Z'' = Fail_at PLAN_EXPIRED ''ap-1''"
proof -
  have "readable_instant (apr_approvedAt sample_approval)" "readable_instant (apr_expiresAt sample_approval)"
    using sample_approval_readable by (simp_all add: readable_approval_def)
  from approval_valid_in_window [OF sample_approval_created this sample_instants(2), of sample_hash]
  obtain s e where w: "instant (apr_approvedAt sample_approval) s" "instant (apr_expiresAt sample_approval) e" "s < e"
    and eq: "validate_approval sample_approval sample_hash ''2024-01-01T00:00:30.000Z'' =
      (if apr_planHash sample_approval \<noteq> sample_hash then Fail_at PLAN_HASH_MISMATCH (apr_approvalId sample_approval)
       else if 1704067230000 < s then Fail_at INVALID_APPROVAL (apr_approvalId sample_approval)
       else if e \<le> 1704067230000 then Fail_at PLAN_EXPIRED (apr_approvalId sample_approval) else Ok sample_approval)"
    by blast
  have "e = 1704067230000"
    using w(2) sample_instants(2) instant_unique by (simp add: sample_approval_def)
  then show ?thesis using w(3) eq by (simp add: sample_approval_def)
qed

theorem approval_expiry_is_final_witness:
  "\<not> is_ok (validate_approval sample_approval sample_hash ''2024-01-01T00:00:30.000Z'')"
proof -
  have "validate_approval sample_approval sample_hash ''2024-01-01T00:00:00.000Z'' = Ok sample_approval"
    "validate_approval sample_approval sample_hash ''2024-01-01T00:00:30.000Z'' = Fail_at PLAN_EXPIRED ''ap-1''"
    by code_simp+
  from approval_expiry_is_final [OF sample_approval_readable this sample_instants(1) sample_instants(2) sample_instants(2)]
  show ?thesis by simp
qed

definition sample_order_js :: "'d jsval" where
  "sample_order_js = JObj [(''exchangeOrderId'', JStr ''x-1''), (''clientOrderId'', JStr ''c-1''),
     (''instrument'', JStr ''BTCUSDT''), (''side'', JStr ''buy''), (''requestedQuantity'', JStr ''0.001''),
     (''filledQuantity'', JStr ''0.001''), (''status'', JStr ''filled''), (''source'', JStr ''probe''),
     (''observedAt'', JStr ''2024-01-01T00:00:30.000Z''), (''takeProfit'', JNull), (''category'', JStr ''linear'')]"

definition sample_order :: "sdec exchange_order" where
  "sample_order = \<lparr>xo_exchangeOrderId = ''x-1'', xo_clientOrderId = ''c-1'', xo_instrument = ''BTCUSDT'', xo_side = Buy,
     xo_requestedQuantity = SDec 1 3, xo_filledQuantity = SDec 1 3, xo_status = ExFilled,
     xo_observedAt = ''2024-01-01T00:00:30.000Z'', xo_source = ''probe'', xo_parentOrderLinkId = None,
     xo_providerOrderLinkId = None, xo_providerStopOrderType = None, xo_providerTpslMode = None, xo_triggerBy = None,
     xo_takeProfitTriggerBy = None, xo_providerCreatedAt = None, xo_providerUpdatedAt = None, xo_averagePrice = None,
     xo_protectionType = None, xo_category = Some Linear, xo_orderType = None, xo_price = None, xo_timeInForce = None,
     xo_triggerPrice = None, xo_takeProfit = Some None, xo_stopLoss = None, xo_reduceOnly = None,
     xo_positionIdx = None, xo_produced = True\<rparr>"

lemma sample_order_created: "create_exchange_order ref_lib sample_order_js = Ok sample_order"
  by code_simp

theorem exchange_order_sound_witness: "wf_exchange_order sval sample_order"
  by (rule exchange_order_sound [OF ref_host sample_order_created])

definition sample_attempt :: "string \<Rightarrow> execution_attempt" where
  "sample_attempt hash = \<lparr>at_attemptId = ''at-1'', at_planHash = hash, at_intentId = ''leg-1'', at_clientOrderId = ''c-1'',
     at_submittedAt = ''2024-01-01T00:00:00.000Z'', at_acknowledgement = AckAccepted, at_terminalStatus = TermFilled,
     at_exchangeOrderId = Some ''x-1'', at_produced = True\<rparr>"

lemma sample_reconciliation:
  obtains plan r where "reconcile_attempt ref_lib (sample_attempt (ep_materialHash plan)) (Some sample_order) plan = Ok r"
    "rr_status r = RecReconciled" "wf_plan ref_lib plan"
proof -
  obtain d plan where "create_execution_plan ref_lib (JStr ''plan/v1'')
      \<lparr>pm_candidate = sample_candidate, pm_riskDecision = d\<rparr> JUndef = Ok plan"
    using sample_plan_created by blast
  note plan = create_execution_plan_Ok [OF this]
  have hash: "hash_text (ep_materialHash plan)"
    using plan(1) host.hash_canonical_text [OF ref_host] by (auto simp: wf_plan_def Let_def)
  have found: "find (\<lambda>i. get i ''intentId'' = JStr ''leg-1'') (pc_orderIntents sample_candidate) =
      Some (order_intent_to_js sample_intent)"
    by code_simp
  have checks: "get (order_intent_to_js sample_intent) ''instrument'' = JStr ''BTCUSDT''"
    "get (order_intent_to_js sample_intent) ''side'' = JStr ''buy''"
    "get (order_intent_to_js sample_intent) ''quantity'' = JDec (SDec 1 3)"
    "dec_compare ref_lib (SDec 1 3) (SDec 1 3) = 0" "reconcile_status ref_lib sample_order = RecReconciled"
    "later_than ''2024-01-01T00:00:00.000Z'' ''2024-01-01T00:00:30.000Z'' = False"
    by code_simp+
  show thesis
  proof (rule that [OF _ _ plan(1)])
    show "reconcile_attempt ref_lib (sample_attempt (ep_materialHash plan)) (Some sample_order) plan = Ok
      \<lparr>rr_attemptId = ''at-1'', rr_intentId = ''leg-1'', rr_planHash = ep_materialHash plan, rr_clientOrderId = ''c-1'',
       rr_status = RecReconciled, rr_observedAt = ''2024-01-01T00:00:30.000Z'', rr_exchangeOrderId = Some ''x-1'',
       rr_produced = True\<rparr>"
      using plan(1,2) hash
      by (simp add: reconcile_attempt_def sample_attempt_def is_produced_execution_attempt_def found checks
          is_produced_exchange_order_def is_produced_execution_plan_def wf_plan_def Let_def decimal_of_def
          mark_reconciliation_result_def) (simp add: sample_order_def checks)
  qed simp
qed

theorem reconciliation_reflects_order_witness:
  "\<exists>(plan :: sdec execution_plan) (r :: reconciliation_result). rr_planHash r = ep_materialHash plan \<and> rr_status r = RecReconciled \<and> rr_intentId r = ''leg-1''"
proof -
  obtain plan r where r: "reconcile_attempt ref_lib (sample_attempt (ep_materialHash plan)) (Some sample_order) plan = Ok r"
    "rr_status r = RecReconciled"
    using sample_reconciliation by blast
  have "wf_exchange_order sval sample_order"
    by (rule big_decimal.create_exchange_order_wf [OF host_decimal [OF ref_host] sample_order_created])
  from reconciliation_reflects_order [OF ref_host this r(1)] r(2)
  have "rr_planHash r = ep_materialHash plan \<and> rr_status r = RecReconciled \<and> rr_intentId r = ''leg-1''"
    by (simp add: sample_attempt_def)
  then show ?thesis by blast
qed

definition sample_result :: reconciliation_result where
  "sample_result = \<lparr>rr_attemptId = ''at-1'', rr_intentId = ''leg-1'', rr_planHash = sample_hash, rr_clientOrderId = ''c-1'',
     rr_status = RecReconciled, rr_observedAt = ''2024-01-01T00:00:30.000Z'', rr_exchangeOrderId = Some ''x-1'', rr_produced = True\<rparr>"

theorem reconciliation_round_trip_witness:
  "rehydrate_reconciliation_result (reconciliation_to_js sample_result :: sdec jsval) = Ok sample_result"
proof -
  have "safe_identifier ''at-1''" "safe_identifier ''leg-1''" "safe_identifier ''c-1''" "safe_identifier ''x-1''"
    "hash_text sample_hash"
    by code_simp+
  then have "wf_reconciliation sample_result"
    using sample_instants(2) by (auto simp: wf_reconciliation_def sample_result_def)
  then show ?thesis
    using reconciliation_round_trip [where r = sample_result and 'd = sdec] sample_instant_readable_later
    by (simp add: sample_result_def)
qed

end
