(* ===== verification/Authority.thy ===== *)
theory Authority
  imports Execution
begin

text \<open>
  The authority over an account in the SQLite journal: \<open>adapters/sqlite/transaction.ts\<close>,
  \<open>sqlite-helpers.ts\<close>, \<open>sqlite-authority.ts\<close> and the lease and HALT operations of
  \<open>adapters/sqlite/execution-store.ts\<close>. One run at a time holds the lease of an account; a
  lease that is taken over raises a HALT and must be reconciled before it can be released; the
  HALT state carries a revision and every change of it is logged.

  The database is the three tables these operations read and write, and the SQL statements are
  the updates they make on them; the keys and uniqueness constraints are those of
  \<open>adapters/sqlite/migrations/004-authority-account-scope.ts\<close>. A row is the value
  \<open>node:sqlite\<close> hands out for it, and every read parses it again, as the code does. Readings of the trusted
  clock, and failures of \<open>BEGIN\<close> and \<open>COMMIT\<close>, are arguments; \<open>ROLLBACK\<close> restores
  the state before the transaction.
\<close>

subsection \<open>Scopes and rows\<close>

type_synonym row = "unit jsval"

record persistence_scope =
  ps_exchange :: string
  ps_environment :: string
  ps_accountId :: string
  ps_category :: string
  ps_positionMode :: string

definition is_environment :: "string \<Rightarrow> bool" where
  "is_environment value \<longleftrightarrow> value = ''demo'' \<or> value = ''testnet'' \<or> value = ''mainnet''"

definition scope_values :: "persistence_scope \<Rightarrow> string list" where
  "scope_values scope =
     [ps_exchange scope, ps_environment scope, ps_accountId scope, ps_category scope, ps_positionMode scope]"

text \<open>The key of the leases and of the HALT state: the account, whatever the category and mode.\<close>

definition authority_scope_values :: "persistence_scope \<Rightarrow> string list" where
  "authority_scope_values scope = [ps_exchange scope, ps_environment scope, ps_accountId scope]"

definition persistence_scopes_equal :: "persistence_scope \<Rightarrow> persistence_scope \<Rightarrow> bool" where
  "persistence_scopes_equal left right \<longleftrightarrow>
     ps_exchange left = ps_exchange right \<and> ps_environment left = ps_environment right \<and>
     ps_accountId left = ps_accountId right \<and> ps_category left = ps_category right \<and>
     ps_positionMode left = ps_positionMode right"

text \<open>The environment of the connection is the second argument.\<close>

definition validate_scope :: "persistence_scope \<Rightarrow> string \<Rightarrow> persistence_scope result" where
  "validate_scope scope connectionEnvironment =
     need PERSISTENCE_ENVIRONMENT (require_identifier (JStr (ps_exchange scope)) ''scope.exchange'') (\<lambda>exchange.
     need PERSISTENCE_ENVIRONMENT (require_safe_text (JStr (ps_accountId scope)) ''scope.accountId'') (\<lambda>accountId.
     need PERSISTENCE_ENVIRONMENT (require_identifier (JStr (ps_category scope)) ''scope.category'') (\<lambda>category.
     guard PERSISTENCE_ENVIRONMENT
       (is_environment (ps_environment scope) \<and>
        (ps_positionMode scope = ''one-way'' \<or> ps_positionMode scope = ''hedge'')) (
     guard PERSISTENCE_ENVIRONMENT (ps_environment scope = connectionEnvironment) (
     Ok \<lparr>ps_exchange = exchange, ps_environment = ps_environment scope, ps_accountId = accountId,
         ps_category = category, ps_positionMode = ps_positionMode scope\<rparr>)))))"

definition persistence_failure :: "'a result" where
  "persistence_failure = Fail PERSISTENCE_INTEGRITY"

definition stored_string :: "row \<Rightarrow> string \<Rightarrow> string result" where
  "stored_string row field = (case get row field of JStr s \<Rightarrow> Ok s | _ \<Rightarrow> persistence_failure)"

definition stored_identifier :: "row \<Rightarrow> string \<Rightarrow> string result" where
  "stored_identifier row field =
     rbind (stored_string row field) (\<lambda>value.
     need PERSISTENCE_INTEGRITY (require_identifier (JStr value :: row) field) (\<lambda>parsed. Ok parsed))"

definition stored_timestamp :: "row \<Rightarrow> string \<Rightarrow> string result" where
  "stored_timestamp row field =
     rbind (stored_string row field) (\<lambda>value.
     need PERSISTENCE_INTEGRITY (parse_utc_timestamp (JStr value :: row)) (\<lambda>parsed. Ok parsed))"

definition stored_optional_string :: "row \<Rightarrow> string \<Rightarrow> string option result" where
  "stored_optional_string row field =
     (case get row field of JNull \<Rightarrow> Ok None | JUndef \<Rightarrow> Ok None | JStr s \<Rightarrow> Ok (Some s) | _ \<Rightarrow> persistence_failure)"

definition stored_boolean :: "row \<Rightarrow> string \<Rightarrow> bool result" where
  "stored_boolean row field =
     (if get row field = JInt 1 then Ok True else if get row field = JInt 0 then Ok False else persistence_failure)"

text \<open>\<open>deterministicId\<close>: the first forty digits of the hash.\<close>

definition deterministic_id :: "'d lib \<Rightarrow> string \<Rightarrow> string \<Rightarrow> string" where
  "deterministic_id L prefix value = prefix @ ''-'' @ take 40 (sha256_hex L value)"

text \<open>A reading of the trusted clock is an untrusted value, or \<open>None\<close> when it throws.\<close>

type_synonym clock_reading = "row option"

definition trusted_now :: "clock_reading \<Rightarrow> string result" where
  "trusted_now reading =
     (case reading of None \<Rightarrow> persistence_failure | Some value \<Rightarrow> parse_utc_timestamp value)"

subsection \<open>The tables\<close>

record database =
  db_leases :: "string list \<rightharpoonup> row"
  db_halts :: "string list \<rightharpoonup> row"
  db_halt_events :: "row list"

definition empty_database :: database where
  "empty_database = \<lparr>db_leases = Map.empty, db_halts = Map.empty, db_halt_events = []\<rparr>"

text \<open>What is thrown: a domain error, or an \<open>Error\<close> with its message.\<close>

datatype exn = Thrown_domain domain_error | Thrown_error string

text \<open>What a SQL operation does: it returns a result, asks to commit a failure, or throws.\<close>

datatype 'a sql_outcome = Returned "'a result" | Committed "'a result" | Raised exn

subsection \<open>Transactions\<close>

definition lower_char :: "char \<Rightarrow> char" where
  "lower_char c = (if 65 \<le> code_of c \<and> code_of c \<le> 90 then char_of (code_of c + 32) else c)"

definition word_char :: "char \<Rightarrow> bool" where
  "word_char c \<longleftrightarrow> is_alphanumeric c \<or> c = CHR ''_''"

text \<open>The word occurs at the start of the text, or after a character that is not part of a word.\<close>

fun has_word :: "bool \<Rightarrow> string \<Rightarrow> string \<Rightarrow> bool" where
  "has_word inside word [] = False"
| "has_word inside word (c # cs) =
     (\<not> inside \<and> map lower_char (take (length word) (c # cs)) = word \<and>
        (drop (length word) (c # cs) = [] \<or> \<not> word_char (hd (drop (length word) (c # cs))))
      \<or> has_word (word_char c) word cs)"

definition is_busy_error :: "exn \<Rightarrow> bool" where
  "is_busy_error value =
     (case value of
        Thrown_error message \<Rightarrow> has_word False ''busy'' message \<or> has_word False ''locked'' message
      | Thrown_domain e \<Rightarrow> False)"

definition sqlite_error :: "exn \<Rightarrow> error_code \<Rightarrow> domain_error" where
  "sqlite_error value fallbackCode =
     (case value of Thrown_domain e \<Rightarrow> e
      | Thrown_error message \<Rightarrow>
          if is_busy_error value then DomainError PERSISTENCE_BUSY None else DomainError fallbackCode None)"

text \<open>What \<open>BEGIN IMMEDIATE\<close> and \<open>COMMIT\<close> throw, if anything.\<close>

record sql_faults =
  begin_throws :: "exn option"
  commit_throws :: "exn option"

definition no_faults :: sql_faults where
  "no_faults = \<lparr>begin_throws = None, commit_throws = None\<rparr>"

definition run_in_transaction ::
  "sql_faults \<Rightarrow> ('s \<Rightarrow> 'a sql_outcome \<times> 's) \<Rightarrow> error_code \<Rightarrow> 's \<Rightarrow> 'a result \<times> 's" where
  "run_in_transaction faults operation fallbackCode db =
     (case begin_throws faults of
        Some e \<Rightarrow> (Inl (sqlite_error e fallbackCode), db)
      | None \<Rightarrow>
          (let (outcome, db') = operation db in
           case outcome of
             Raised e \<Rightarrow> (Inl (sqlite_error e fallbackCode), db)
           | Committed result \<Rightarrow>
               (case commit_throws faults of
                  Some e \<Rightarrow> (Inl (sqlite_error e fallbackCode), db) | None \<Rightarrow> (result, db'))
           | Returned result \<Rightarrow>
               if \<not> is_ok result then (result, db)
               else (case commit_throws faults of
                  Some e \<Rightarrow> (Inl (sqlite_error e fallbackCode), db) | None \<Rightarrow> (result, db'))))"

text \<open>Sequencing inside an operation: an early return, or a throw, ends it.\<close>

definition sql_bind :: "'a sql_outcome \<times> 's \<Rightarrow> ('a \<Rightarrow> 's \<Rightarrow> 'b sql_outcome \<times> 's) \<Rightarrow> 'b sql_outcome \<times> 's" where
  "sql_bind step rest =
     (case step of
        (Raised e, db) \<Rightarrow> (Raised e, db)
      | (Committed r, db) \<Rightarrow> (case r of Inl e \<Rightarrow> (Committed (Inl e), db) | Inr x \<Rightarrow> rest x db)
      | (Returned r, db) \<Rightarrow> (case r of Inl e \<Rightarrow> (Returned (Inl e), db) | Inr x \<Rightarrow> rest x db))"

abbreviation sql_pure :: "'a result \<Rightarrow> 's \<Rightarrow> 'a sql_outcome \<times> 's" where
  "sql_pure r db \<equiv> (Returned r, db)"

text \<open>\<open>INSERT\<close> into the HALT log, whose event ids and revisions per account are unique.\<close>

definition event_clashes :: "row \<Rightarrow> row \<Rightarrow> bool" where
  "event_clashes a b \<longleftrightarrow>
     get a ''event_id'' = get b ''event_id'' \<or>
     (\<forall>field \<in> {''exchange'', ''environment'', ''account_id'', ''revision''}. get a field = get b field)"

definition insert_halt_event :: "row \<Rightarrow> database \<Rightarrow> unit sql_outcome \<times> database" where
  "insert_halt_event event db =
     (if \<exists>other \<in> set (db_halt_events db). event_clashes event other
      then (Raised (Thrown_error ''UNIQUE constraint failed: halt_events''), db)
      else (Returned (Ok ()), db\<lparr>db_halt_events := db_halt_events db @ [event]\<rparr>))"

subsection \<open>Leases and HALT state\<close>

record lease_row =
  lr_ownerRunId :: string
  lr_epoch :: int
  lr_acquiredAt :: string
  lr_expiresAt :: string
  lr_reconciliationRequired :: bool

record lease_state = lease_row +
  ls_scope :: persistence_scope

record lease_authority =
  la_ownerRunId :: string
  la_epoch :: int

record halt_state =
  hs_scope :: persistence_scope
  hs_active :: bool
  hs_revision :: int
  hs_reason :: "string option"
  hs_raisedAt :: "string option"
  hs_reconciliationRequired :: bool

definition lease_row_of :: "database \<Rightarrow> persistence_scope \<Rightarrow> lease_row option result" where
  "lease_row_of db scope =
     (case db_leases db (authority_scope_values scope) of None \<Rightarrow> Ok None
      | Some row \<Rightarrow>
          need PERSISTENCE_INTEGRITY (stored_identifier row ''owner_run_id'') (\<lambda>ownerRunId.
          need PERSISTENCE_INTEGRITY (stored_timestamp row ''acquired_at'') (\<lambda>acquiredAt.
          need PERSISTENCE_INTEGRITY (stored_timestamp row ''expires_at'') (\<lambda>expiresAt.
          need PERSISTENCE_INTEGRITY (stored_boolean row ''reconciliation_required'') (\<lambda>reconciliationRequired.
          need PERSISTENCE_INTEGRITY (require_finite_integer (get row ''epoch'') ''epoch'' 1) (\<lambda>epoch.
          Ok (Some \<lparr>lr_ownerRunId = ownerRunId, lr_epoch = epoch, lr_acquiredAt = acquiredAt,
            lr_expiresAt = expiresAt, lr_reconciliationRequired = reconciliationRequired\<rparr>)))))))"

definition lease_state_of :: "persistence_scope \<Rightarrow> lease_row \<Rightarrow> lease_state" where
  "lease_state_of scope row = lease_row.extend row (lease_state.fields scope)"

definition halt_row :: "database \<Rightarrow> persistence_scope \<Rightarrow> halt_state result" where
  "halt_row db scope =
     (case db_halts db (authority_scope_values scope) of
        None \<Rightarrow> Ok \<lparr>hs_scope = scope, hs_active = False, hs_revision = 0, hs_reason = None,
          hs_raisedAt = None, hs_reconciliationRequired = False\<rparr>
      | Some row \<Rightarrow>
          need PERSISTENCE_INTEGRITY (stored_boolean row ''active'') (\<lambda>active.
          need PERSISTENCE_INTEGRITY (stored_boolean row ''reconciliation_required'') (\<lambda>reconciliationRequired.
          need PERSISTENCE_INTEGRITY (stored_optional_string row ''reason'') (\<lambda>reason.
          need PERSISTENCE_INTEGRITY
            (if get row ''raised_at'' = JNull \<or> get row ''raised_at'' = JUndef then Ok None
             else rbind (stored_timestamp row ''raised_at'') (\<lambda>t. Ok (Some t))) (\<lambda>raisedAt.
          need PERSISTENCE_INTEGRITY (require_finite_integer (get row ''revision'') ''revision'' 0) (\<lambda>revision.
          Ok \<lparr>hs_scope = scope, hs_active = active, hs_revision = revision, hs_reason = reason,
            hs_raisedAt = raisedAt, hs_reconciliationRequired = reconciliationRequired\<rparr>))))))"

definition validate_authority :: "lease_authority \<Rightarrow> lease_authority result" where
  "validate_authority authority =
     need RUN_LEASE_LOST (require_identifier (JStr (la_ownerRunId authority) :: row) ''ownerRunId'') (\<lambda>ownerRunId.
     need RUN_LEASE_LOST (require_finite_integer (JInt (la_epoch authority) :: row) ''epoch'' 1) (\<lambda>epoch.
     Ok \<lparr>la_ownerRunId = ownerRunId, la_epoch = epoch\<rparr>))"

text \<open>The caller's timestamp is ignored: only the trusted clock decides.\<close>

definition assert_current_authority ::
  "database \<Rightarrow> persistence_scope \<Rightarrow> lease_authority \<Rightarrow> clock_reading \<Rightarrow> lease_row result" where
  "assert_current_authority db scope authority clock =
     rbind (validate_authority authority) (\<lambda>parsedAuthority.
     rbind (lease_row_of db scope) (\<lambda>current.
     rbind (trusted_now clock) (\<lambda>now.
     (case current of None \<Rightarrow> Fail RUN_LEASE_LOST
      | Some row \<Rightarrow>
          guard RUN_LEASE_LOST
            (lr_ownerRunId row = la_ownerRunId parsedAuthority \<and> lr_epoch row = la_epoch parsedAuthority \<and>
             \<not> is_at_or_after now (lr_expiresAt row)) (
          Ok row)))))"

definition halt_js :: "persistence_scope \<Rightarrow> bool \<Rightarrow> int \<Rightarrow> string option \<Rightarrow> string option \<Rightarrow> bool \<Rightarrow> row" where
  "halt_js scope active revision reason raisedAt reconciliationRequired = JObj
     [(''exchange'', JStr (ps_exchange scope)), (''environment'', JStr (ps_environment scope)),
      (''account_id'', JStr (ps_accountId scope)), (''category'', JStr (ps_category scope)),
      (''position_mode'', JStr (ps_positionMode scope)), (''active'', JInt (if active then 1 else 0)),
      (''revision'', JInt revision), (''reason'', case reason of None \<Rightarrow> JNull | Some r \<Rightarrow> JStr r),
      (''raised_at'', case raisedAt of None \<Rightarrow> JNull | Some t \<Rightarrow> JStr t),
      (''reconciliation_required'', JInt (if reconciliationRequired then 1 else 0))]"

definition halt_event_js ::
  "string \<Rightarrow> persistence_scope \<Rightarrow> int \<Rightarrow> bool \<Rightarrow> string \<Rightarrow> string \<Rightarrow> string option \<Rightarrow> row" where
  "halt_event_js eventId scope revision active reason recordedAt evidenceJson = JObj
     [(''event_id'', JStr eventId), (''exchange'', JStr (ps_exchange scope)),
      (''environment'', JStr (ps_environment scope)), (''account_id'', JStr (ps_accountId scope)),
      (''category'', JStr (ps_category scope)), (''position_mode'', JStr (ps_positionMode scope)),
      (''revision'', JInt revision), (''active'', JInt (if active then 1 else 0)), (''reason'', JStr reason),
      (''recorded_at'', JStr recordedAt),
      (''evidence_json'', case evidenceJson of None \<Rightarrow> JNull | Some e \<Rightarrow> JStr e)]"

definition halt_event_id :: "'d lib \<Rightarrow> persistence_scope \<Rightarrow> int \<Rightarrow> string \<Rightarrow> string" where
  "halt_event_id L scope revision reason = deterministic_id L ''halt''
     (join_with [CHR 0x00] (authority_scope_values scope) @ CHR '':'' # int_text revision @ CHR '':'' # reason)"

definition raise_halt_within ::
  "'d lib \<Rightarrow> persistence_scope \<Rightarrow> string \<Rightarrow> string \<Rightarrow> string option \<Rightarrow> database \<Rightarrow> halt_state sql_outcome \<times> database" where
  "raise_halt_within L scope reason recordedAt evidenceJson db =
     sql_bind (sql_pure (require_safe_text (JStr reason :: row) ''reason'') db) (\<lambda>safeReason db.
     sql_bind (sql_pure (halt_row db scope) db) (\<lambda>current db.
     let revision = hs_revision current + 1 in
     if \<not> is_safe_integer revision then (Returned persistence_failure, db)
     else
       let db = db\<lparr>db_halts := (db_halts db)(authority_scope_values scope \<mapsto>
             halt_js scope True revision (Some safeReason) (Some recordedAt) True)\<rparr> in
       sql_bind (insert_halt_event (halt_event_js (halt_event_id L scope revision safeReason) scope revision True
           safeReason recordedAt evidenceJson) db) (\<lambda>_ db.
       (Returned (halt_row db scope), db))))"

text \<open>
  The \<open>UPDATE\<close> keeps the columns it does not name: the category and mode of the row it finds.
\<close>

definition set_columns :: "row \<Rightarrow> (string \<times> row) list \<Rightarrow> row" where
  "set_columns row changes =
     (case row of
        JObj kvs \<Rightarrow> JObj (map (\<lambda>(k, v). (k, case map_of changes k of Some w \<Rightarrow> w | None \<Rightarrow> v)) kvs)
      | _ \<Rightarrow> row)"

definition cleared_halt :: "row \<Rightarrow> int \<Rightarrow> row" where
  "cleared_halt row revision = set_columns row
     [(''active'', JInt 0), (''revision'', JInt revision), (''reason'', JNull), (''raised_at'', JNull),
      (''reconciliation_required'', JInt 0)]"

definition update_halt_cleared :: "persistence_scope \<Rightarrow> int \<Rightarrow> int \<Rightarrow> database \<Rightarrow> database" where
  "update_halt_cleared scope expected revision db =
     (case db_halts db (authority_scope_values scope) of None \<Rightarrow> db
      | Some row \<Rightarrow>
          if get row ''revision'' = JInt expected \<and> get row ''active'' = JInt 1
          then db\<lparr>db_halts := (db_halts db)(authority_scope_values scope \<mapsto> cleared_halt row revision)\<rparr>
          else db)"

definition clear_operator_halt_within ::
  "'d lib \<Rightarrow> persistence_scope \<Rightarrow> int \<Rightarrow> string \<Rightarrow> string \<Rightarrow> string \<Rightarrow> database \<Rightarrow> halt_state sql_outcome \<times> database" where
  "clear_operator_halt_within L scope expectedRevision reason recordedAt evidenceJson db =
     sql_bind (sql_pure (need PERSISTENCE_INTEGRITY
        (require_finite_integer (JInt expectedRevision :: row) ''expectedRevision'' 0) (\<lambda>expected.
        need PERSISTENCE_INTEGRITY (require_safe_text (JStr reason :: row) ''reason'') (\<lambda>safeReason.
        need PERSISTENCE_INTEGRITY (halt_row db scope) (\<lambda>current.
        Ok (expected, safeReason, current))))) db) (\<lambda>(expected, safeReason, current) db.
     if \<not> hs_active current \<or> hs_revision current \<noteq> expected then (Returned (Fail HALT_ACTIVE), db)
     else if evidenceJson = [] then (Returned persistence_failure, db)
     else
       let revision = hs_revision current + 1 in
       if \<not> is_safe_integer revision then (Returned persistence_failure, db)
       else
         let db = update_halt_cleared scope expected revision db in
         sql_bind (sql_pure (halt_row db scope) db) (\<lambda>updated db.
         if hs_active updated \<or> hs_revision updated \<noteq> revision then (Returned (Fail HALT_ACTIVE), db)
         else
           sql_bind (insert_halt_event (halt_event_js (halt_event_id L scope revision safeReason) scope revision
               False safeReason recordedAt (Some evidenceJson)) db) (\<lambda>_ db.
           (Returned (halt_row db scope), db))))"

subsection \<open>The lease operations\<close>

definition MAX_LEASE_TTL_MS :: int where
  "MAX_LEASE_TTL_MS = 24 * 60 * 60 * 1000"

record lease_request =
  lq_scope :: persistence_scope
  lq_ownerRunId :: string
  lq_now :: string
  lq_ttlMs :: int

record lease_values =
  lv_ownerRunId :: string
  lv_now :: string
  lv_expiresAt :: string
  lv_ttlMs :: int

text \<open>The request's own time is parsed and then ignored: the lease runs on the trusted clock.\<close>

definition validate_lease_request ::
  "lease_request \<Rightarrow> persistence_scope \<Rightarrow> string \<Rightarrow> lease_values result" where
  "validate_lease_request request scope authoritativeNow =
     guard PERSISTENCE_ENVIRONMENT (persistence_scopes_equal (lq_scope request) scope) (
     need INVALID_ARGUMENT (require_identifier (JStr (lq_ownerRunId request) :: row) ''ownerRunId'') (\<lambda>ownerRunId.
     need INVALID_ARGUMENT (parse_utc_timestamp (JStr (lq_now request) :: row)) (\<lambda>requestNow.
     need INVALID_ARGUMENT (require_finite_integer (JInt (lq_ttlMs request) :: row) ''ttlMs'' 1) (\<lambda>ttlMs.
     guard INVALID_ARGUMENT (ttlMs \<le> MAX_LEASE_TTL_MS) (
     rbind (case timestamp_to_epoch_ms authoritativeNow of
         None \<Rightarrow> Fail_at INVALID_TIMESTAMP ''epoch''
       | Some now \<Rightarrow> timestamp_from_epoch_ms (now + ttlMs)) (\<lambda>expiresAt.
     Ok \<lparr>lv_ownerRunId = ownerRunId, lv_now = authoritativeNow, lv_expiresAt = expiresAt, lv_ttlMs = ttlMs\<rparr>))))))"

definition lease_js :: "persistence_scope \<Rightarrow> string \<Rightarrow> int \<Rightarrow> string \<Rightarrow> string \<Rightarrow> bool \<Rightarrow> row" where
  "lease_js scope ownerRunId epoch acquiredAt expiresAt reconciliationRequired = JObj
     [(''exchange'', JStr (ps_exchange scope)), (''environment'', JStr (ps_environment scope)),
      (''account_id'', JStr (ps_accountId scope)), (''category'', JStr (ps_category scope)),
      (''position_mode'', JStr (ps_positionMode scope)), (''owner_run_id'', JStr ownerRunId),
      (''epoch'', JInt epoch), (''acquired_at'', JStr acquiredAt), (''expires_at'', JStr expiresAt),
      (''reconciliation_required'', JInt (if reconciliationRequired then 1 else 0))]"

text \<open>\<open>UPDATE leases SET ... WHERE\<close> the account's row, and \<open>AND owner_run_id = ? AND epoch = ?\<close>.\<close>

definition update_lease :: "persistence_scope \<Rightarrow> (row \<Rightarrow> bool) \<Rightarrow> (string \<times> row) list \<Rightarrow> database \<Rightarrow> database" where
  "update_lease scope where_clause changes db =
     (case db_leases db (authority_scope_values scope) of None \<Rightarrow> db
      | Some row \<Rightarrow>
          if where_clause row
          then db\<lparr>db_leases := (db_leases db)(authority_scope_values scope \<mapsto> set_columns row changes)\<rparr>
          else db)"

definition held_by :: "string \<Rightarrow> int \<Rightarrow> row \<Rightarrow> bool" where
  "held_by ownerRunId epoch row \<longleftrightarrow> get row ''owner_run_id'' = JStr ownerRunId \<and> get row ''epoch'' = JInt epoch"

definition delete_lease :: "persistence_scope \<Rightarrow> string \<Rightarrow> int \<Rightarrow> database \<Rightarrow> database" where
  "delete_lease scope ownerRunId epoch db =
     (case db_leases db (authority_scope_values scope) of None \<Rightarrow> db
      | Some row \<Rightarrow>
          if held_by ownerRunId epoch row then db\<lparr>db_leases := (db_leases db)(authority_scope_values scope := None)\<rparr>
          else db)"

definition insert_lease :: "persistence_scope \<Rightarrow> row \<Rightarrow> database \<Rightarrow> unit sql_outcome \<times> database" where
  "insert_lease scope row db =
     (if db_leases db (authority_scope_values scope) \<noteq> None
      then (Raised (Thrown_error ''UNIQUE constraint failed: leases''), db)
      else (Returned (Ok ()), db\<lparr>db_leases := (db_leases db)(authority_scope_values scope \<mapsto> row)\<rparr>))"

definition takeover_reason :: string where
  "takeover_reason = ''lease takeover requires reconciliation''"

definition acquire_lease_within ::
  "'d lib \<Rightarrow> persistence_scope \<Rightarrow> lease_request \<Rightarrow> clock_reading \<Rightarrow> database \<Rightarrow> lease_state sql_outcome \<times> database" where
  "acquire_lease_within L scope request clock db =
     sql_bind (sql_pure (rbind (trusted_now clock) (validate_lease_request request scope)) db) (\<lambda>vals db.
     sql_bind (sql_pure (lease_row_of db scope) db) (\<lambda>existing db.
     (case existing of
        Some row \<Rightarrow>
          if \<not> is_at_or_after (lv_now vals) (lr_expiresAt row)
          then (Returned (Fail_at RUN_LEASE_HELD (lr_expiresAt row)), db)
          else
            let epoch = lr_epoch row + 1 in
            if \<not> is_safe_integer epoch then (Returned persistence_failure, db)
            else
              let db = update_lease scope (\<lambda>_. True)
                [(''owner_run_id'', JStr (lv_ownerRunId vals)), (''epoch'', JInt epoch),
                 (''acquired_at'', JStr (lv_now vals)), (''expires_at'', JStr (lv_expiresAt vals)),
                 (''reconciliation_required'', JInt 1)] db in
              sql_bind (raise_halt_within L scope takeover_reason (lv_now vals) None db) (\<lambda>raised db.
              (Returned (Ok (lease_state_of scope \<lparr>lr_ownerRunId = lv_ownerRunId vals, lr_epoch = epoch,
                 lr_acquiredAt = lv_now vals, lr_expiresAt = lv_expiresAt vals,
                 lr_reconciliationRequired = True\<rparr>)), db))
      | None \<Rightarrow>
          sql_bind (insert_lease scope (lease_js scope (lv_ownerRunId vals) 1 (lv_now vals) (lv_expiresAt vals) False) db) (\<lambda>_ db.
          (Returned (Ok (lease_state_of scope \<lparr>lr_ownerRunId = lv_ownerRunId vals, lr_epoch = 1,
             lr_acquiredAt = lv_now vals, lr_expiresAt = lv_expiresAt vals,
             lr_reconciliationRequired = False\<rparr>)), db)))))"

definition acquire_lease ::
  "'d lib \<Rightarrow> sql_faults \<Rightarrow> persistence_scope \<Rightarrow> lease_request \<Rightarrow> clock_reading \<Rightarrow> database
     \<Rightarrow> lease_state result \<times> database" where
  "acquire_lease L faults scope request clock =
     run_in_transaction faults (acquire_lease_within L scope request clock) PERSISTENCE_CONFLICT"

text \<open>Renewal reads the clock twice: once for the new expiry, once for the authority.\<close>

definition renew_lease_within ::
  "persistence_scope \<Rightarrow> lease_request \<Rightarrow> lease_authority \<Rightarrow> clock_reading \<Rightarrow> clock_reading \<Rightarrow> database
     \<Rightarrow> lease_state sql_outcome \<times> database" where
  "renew_lease_within scope request authority clock clock2 db =
     sql_bind (sql_pure (rbind (trusted_now clock) (validate_lease_request request scope)) db) (\<lambda>vals db.
     sql_bind (sql_pure (need RUN_LEASE_LOST (validate_authority authority) (\<lambda>parsed.
       guard RUN_LEASE_LOST (la_ownerRunId parsed = lv_ownerRunId vals) (Ok parsed))) db) (\<lambda>parsed db.
     sql_bind (sql_pure (assert_current_authority db scope parsed clock2) db) (\<lambda>current db.
     let db = update_lease scope (held_by (la_ownerRunId parsed) (la_epoch parsed))
       [(''expires_at'', JStr (lv_expiresAt vals))] db in
     (Returned (Ok (lease_state_of scope (current\<lparr>lr_expiresAt := lv_expiresAt vals\<rparr>))), db))))"

definition renew_lease ::
  "sql_faults \<Rightarrow> persistence_scope \<Rightarrow> lease_request \<Rightarrow> lease_authority \<Rightarrow> clock_reading \<Rightarrow> clock_reading \<Rightarrow> database
     \<Rightarrow> lease_state result \<times> database" where
  "renew_lease faults scope request authority clock clock2 =
     run_in_transaction faults (renew_lease_within scope request authority clock clock2) PERSISTENCE_CONFLICT"

definition release_lease_within ::
  "persistence_scope \<Rightarrow> lease_authority \<Rightarrow> clock_reading \<Rightarrow> clock_reading \<Rightarrow> database \<Rightarrow> unit sql_outcome \<times> database" where
  "release_lease_within scope authority clock clock2 db =
     sql_bind (sql_pure (trusted_now clock) db) (\<lambda>currentTime db.
     sql_bind (sql_pure (assert_current_authority db scope authority clock2) db) (\<lambda>current db.
     if lr_reconciliationRequired current then (Returned (Fail UNRESOLVED_STATE), db)
     else (Returned (Ok ()), delete_lease scope (la_ownerRunId authority) (la_epoch authority) db)))"

definition release_lease ::
  "sql_faults \<Rightarrow> persistence_scope \<Rightarrow> lease_authority \<Rightarrow> clock_reading \<Rightarrow> clock_reading \<Rightarrow> database
     \<Rightarrow> unit result \<times> database" where
  "release_lease faults scope authority clock clock2 db =
     (case validate_authority authority of
        Inl e \<Rightarrow> (Inl e, db)
      | Inr parsed \<Rightarrow>
          run_in_transaction faults (release_lease_within scope parsed clock clock2) PERSISTENCE_CONFLICT db)"

subsection \<open>The HALT operations\<close>

definition validate_timestamp :: "row \<Rightarrow> string \<Rightarrow> string result" where
  "validate_timestamp value field =
     (case parse_utc_timestamp value of Inr t \<Rightarrow> Ok t | Inl e \<Rightarrow> Fail_at INVALID_TIMESTAMP field)"

definition raise_halt_under ::
  "'d lib \<Rightarrow> persistence_scope \<Rightarrow> lease_authority \<Rightarrow> string \<Rightarrow> string \<Rightarrow> clock_reading \<Rightarrow> database
     \<Rightarrow> halt_state sql_outcome \<times> database" where
  "raise_halt_under L scope authority reason timestamp clock db =
     sql_bind (sql_pure (assert_current_authority db scope authority clock) db) (\<lambda>current db.
     raise_halt_within L scope reason timestamp None db)"

definition raise_halt ::
  "'d lib \<Rightarrow> sql_faults \<Rightarrow> persistence_scope \<Rightarrow> lease_authority \<Rightarrow> string \<Rightarrow> string \<Rightarrow> clock_reading \<Rightarrow> database
     \<Rightarrow> halt_state result \<times> database" where
  "raise_halt L faults scope authority reason recordedAt clock db =
     (case validate_timestamp (JStr recordedAt) ''recordedAt'' of
        Inl e \<Rightarrow> (Inl e, db)
      | Inr timestamp \<Rightarrow>
          run_in_transaction faults (raise_halt_under L scope authority reason timestamp clock) PERSISTENCE_CONFLICT db)"

text \<open>\<open>readHalt\<close>; the argument is what the query throws, if anything.\<close>

definition read_halt :: "exn option \<Rightarrow> persistence_scope \<Rightarrow> database \<Rightarrow> halt_state result" where
  "read_halt throws scope db =
     (case throws of Some e \<Rightarrow> Inl (sqlite_error e PERSISTENCE_INTEGRITY) | None \<Rightarrow> halt_row db scope)"

text \<open>\<open>appendConflictAfterHalt\<close>: the operation fails, and the HALT it raised is committed all the same.\<close>

definition append_conflict_after_halt ::
  "'d lib \<Rightarrow> persistence_scope \<Rightarrow> string \<Rightarrow> string \<Rightarrow> database \<Rightarrow> 'a sql_outcome \<times> database" where
  "append_conflict_after_halt L scope reason recordedAt db =
     sql_bind (raise_halt_within L scope reason recordedAt None db) (\<lambda>halted db.
     (Committed (Fail PERSISTENCE_CONFLICT), db))"

text \<open>
  \<open>clearHalt\<close> of the execution store. Between its authority checks and its writes it reads the
  rest of the journal (lineages, reconciliations, accounting facts, owned intents) and stores
  the clearance artifact; those tables are not part of this model, and \<open>journal\<close> is what that
  part of the transaction comes to: success, a failure or a throw. \<open>artifact\<close> is the encoding of the
  evidence (canonical text and hash) or its failure. The lemmas hold for all of them.
\<close>

definition clear_halt_checks ::
  "persistence_scope \<Rightarrow> lease_authority \<Rightarrow> int \<Rightarrow> clock_reading \<Rightarrow> database \<Rightarrow> (lease_row \<times> halt_state) result" where
  "clear_halt_checks scope authority expected clock db =
     rbind (assert_current_authority db scope authority clock) (\<lambda>currentAuthority.
     rbind (halt_row db scope) (\<lambda>halt.
     guard HALT_ACTIVE (hs_active halt) (
     guard PERSISTENCE_CONFLICT (hs_revision halt = expected) (
     Ok (currentAuthority, halt)))))"

definition clear_halt_writes ::
  "'d lib \<Rightarrow> persistence_scope \<Rightarrow> clearance_evidence \<Rightarrow> string \<times> string \<Rightarrow> lease_row \<Rightarrow> halt_state \<Rightarrow> database
     \<Rightarrow> halt_state sql_outcome \<times> database" where
  "clear_halt_writes L scope evidence artifact currentAuthority halt db =
     (let (canonicalJson, canonicalHash) = artifact;
          nextRevision = hs_revision halt + 1;
          db = update_halt_cleared scope (hs_revision halt) nextRevision db
      in sql_bind (insert_halt_event (halt_event_js (deterministic_id L ''halt-clearance'' canonicalHash) scope
           nextRevision False (ce_reason evidence) (ce_timestamp evidence) (Some canonicalJson)) db) (\<lambda>_ db.
         let db = update_lease scope (held_by (lr_ownerRunId currentAuthority) (lr_epoch currentAuthority))
           [(''reconciliation_required'', JInt 0)] db in
         (Returned (Ok \<lparr>hs_scope = scope, hs_active = False, hs_revision = nextRevision, hs_reason = None,
            hs_raisedAt = None, hs_reconciliationRequired = False\<rparr>), db)))"

definition clear_halt_within ::
  "'d lib \<Rightarrow> persistence_scope \<Rightarrow> lease_authority \<Rightarrow> clearance_evidence \<Rightarrow> string \<times> string \<Rightarrow> int
     \<Rightarrow> clock_reading \<Rightarrow> unit sql_outcome \<Rightarrow> database \<Rightarrow> halt_state sql_outcome \<times> database" where
  "clear_halt_within L scope authority evidence artifact expected clock journal db =
     sql_bind (sql_pure (clear_halt_checks scope authority expected clock db) db) (\<lambda>(currentAuthority, halt) db.
     sql_bind (journal, db) (\<lambda>_ db.
     clear_halt_writes L scope evidence artifact currentAuthority halt db))"

definition clear_halt ::
  "'d lib \<Rightarrow> sql_faults \<Rightarrow> persistence_scope \<Rightarrow> lease_authority \<Rightarrow> row \<Rightarrow> (string \<times> string) result \<Rightarrow> int
     \<Rightarrow> clock_reading \<Rightarrow> unit sql_outcome \<Rightarrow> database \<Rightarrow> halt_state result \<times> database" where
  "clear_halt L faults scope authority evidenceInput artifact expectedHaltRevision clock journal db =
     (case need PERSISTENCE_INTEGRITY
        (require_finite_integer (JInt expectedHaltRevision :: row) ''expectedHaltRevision'' 0) (\<lambda>expected.
        need PERSISTENCE_INTEGRITY (create_clearance_evidence evidenceInput) (\<lambda>evidence.
        rbind artifact (\<lambda>encoded. Ok (expected, evidence, encoded)))) of
        Inl e \<Rightarrow> (Inl e, db)
      | Inr (expected, evidence, encoded) \<Rightarrow>
          run_in_transaction faults (clear_halt_within L scope authority evidence encoded expected clock journal)
            PERSISTENCE_CONFLICT db)"

subsection \<open>What a transaction can do\<close>

lemma sql_bind_Returned:
  "sql_bind step rest = (Returned (Inr x), db') \<longleftrightarrow>
     (\<exists>y db. (step = (Returned (Inr y), db) \<or> step = (Committed (Inr y), db)) \<and> rest y db = (Returned (Inr x), db'))"
  by (cases step; cases "fst step") (auto simp: sql_bind_def split: sql_outcome.splits sum.splits)

lemma sql_bind_Committed:
  "sql_bind step rest = (Committed r, db') \<longleftrightarrow>
     (\<exists>e. step = (Committed (Inl e), db') \<and> r = Inl e) \<or>
     (\<exists>y db. (step = (Returned (Inr y), db) \<or> step = (Committed (Inr y), db)) \<and> rest y db = (Committed r, db'))"
  by (cases step; cases "fst step") (auto simp: sql_bind_def split: sql_outcome.splits sum.splits)

lemma sql_bind_pure [simp]:
  "sql_bind (Returned (Inr x), db) rest = rest x db"
  "sql_bind (Returned (Inl e), db) rest = (Returned (Inl e), db)"
  "sql_bind (Raised t, db) rest = (Raised t, db)"
  by (simp_all add: sql_bind_def)

text \<open>Either nothing happened, or the operation returned (or asked to commit) its result.\<close>

lemma run_in_transaction_cases:
  assumes "run_in_transaction faults operation code db = (r, db')"
  obtains (unchanged) "db' = db" "\<And>x. r = Inr x \<Longrightarrow> operation db = (Returned r, db) \<or> operation db = (Committed r, db)"
    | (returned) x where "r = Inr x" "operation db = (Returned (Inr x), db')"
    | (committed) "operation db = (Committed r, db')"
  using assms
  by (auto simp: run_in_transaction_def is_ok_iff split: option.splits sql_outcome.splits prod.splits if_splits)

lemma run_in_transaction_ok:
  "run_in_transaction faults operation code db = (Inr x, db') \<Longrightarrow>
     operation db = (Returned (Inr x), db') \<or> operation db = (Committed (Inr x), db')"
  by (auto simp: run_in_transaction_def is_ok_iff split: option.splits sql_outcome.splits prod.splits if_splits)

lemma run_in_transaction_no_faults:
  "operation db = (Returned (Inr x), db') \<Longrightarrow> run_in_transaction no_faults operation code db = (Inr x, db')"
  by (simp add: run_in_transaction_def no_faults_def)

definition never_commits :: "'a sql_outcome \<times> 's \<Rightarrow> bool" where
  "never_commits step \<longleftrightarrow> (\<forall>r. fst step \<noteq> Committed r)"

lemma never_commits_bind [intro!]:
  "never_commits step \<Longrightarrow> (\<And>x db. never_commits (rest x db)) \<Longrightarrow> never_commits (sql_bind step rest)"
  by (cases step; cases "fst step") (auto simp: never_commits_def sql_bind_def split: sum.splits)

lemma never_commits_simps [simp]: "never_commits (Returned r, db)" "never_commits (Raised e, db)"
  "\<not> never_commits (Committed r, db)"
  by (auto simp: never_commits_def)

lemma insert_halt_event_commits [simp]: "never_commits (insert_halt_event e db)"
  by (simp add: insert_halt_event_def)

lemma raise_halt_within_commits [simp]: "never_commits (raise_halt_within L scope reason t ev db)"
  unfolding raise_halt_within_def by (auto simp: Let_def)

lemma acquire_commits [simp]: "never_commits (acquire_lease_within L scope request clock db)"
  unfolding acquire_lease_within_def by (auto simp: Let_def insert_lease_def split: option.splits)

lemma renew_commits [simp]: "never_commits (renew_lease_within scope request authority clock clock2 db)"
  unfolding renew_lease_within_def by (auto simp: Let_def)

lemma release_commits [simp]: "never_commits (release_lease_within scope authority clock clock2 db)"
  unfolding release_lease_within_def by auto

lemma raise_under_commits [simp]: "never_commits (raise_halt_under L scope authority reason t clock db)"
  unfolding raise_halt_under_def by auto

lemma operator_clear_commits [simp]: "never_commits (clear_operator_halt_within L scope n reason t ev db)"
  unfolding clear_operator_halt_within_def by (auto simp: Let_def split: prod.splits)

lemma clear_writes_commits [simp]: "never_commits (clear_halt_writes L scope evidence artifact a h db)"
  unfolding clear_halt_writes_def by (auto simp: Let_def split: prod.splits)

lemma clear_commits: "(\<And>r. journal \<noteq> Committed r) \<Longrightarrow>
    never_commits (clear_halt_within L scope authority evidence artifact n clock journal db)"
  unfolding clear_halt_within_def by (auto simp: never_commits_def [of "(journal, _)"] split: prod.splits)

text \<open>A transaction that fails changes nothing, unless its operation asked to commit the failure.\<close>

lemma failed_transaction_unchanged:
  "run_in_transaction faults operation code db = (Inl e, db') \<Longrightarrow> never_commits (operation db) \<Longrightarrow> db' = db"
  by (auto simp: run_in_transaction_def never_commits_def is_ok_iff
      split: option.splits sql_outcome.splits prod.splits if_splits)

subsection \<open>Well-formed journals\<close>

text \<open>The rows these operations write, and what the log says about the HALT state.\<close>

definition wf_lease :: "string list \<Rightarrow> row \<Rightarrow> bool" where
  "wf_lease key row \<longleftrightarrow> (\<exists>scope ownerRunId epoch acquiredAt expiresAt pending.
     key = authority_scope_values scope \<and> row = lease_js scope ownerRunId epoch acquiredAt expiresAt pending \<and>
     safe_identifier ownerRunId \<and> is_safe_integer epoch \<and> 1 \<le> epoch \<and>
     readable_instant acquiredAt \<and> readable_instant expiresAt)"

definition wf_halt :: "string list \<Rightarrow> row \<Rightarrow> bool" where
  "wf_halt key row \<longleftrightarrow> (\<exists>scope active revision reason raisedAt pending.
     key = authority_scope_values scope \<and> row = halt_js scope active revision reason raisedAt pending \<and>
     is_safe_integer revision \<and> 0 \<le> revision \<and>
     (\<forall>t. raisedAt = Some t \<longrightarrow> is_ok (parse_utc_timestamp (JStr t :: row))))"

definition event_account :: "row \<Rightarrow> string list" where
  "event_account event = map (\<lambda>field. case get event field of JStr s \<Rightarrow> s | _ \<Rightarrow> [])
     [''exchange'', ''environment'', ''account_id'']"

definition account_events :: "database \<Rightarrow> persistence_scope \<Rightarrow> row list" where
  "account_events db scope = filter (\<lambda>e. event_account e = authority_scope_values scope) (db_halt_events db)"

definition log_ok :: "database \<Rightarrow> bool" where
  "log_ok db \<longleftrightarrow> (\<forall>scope h. halt_row db scope = Inr h \<longrightarrow>
     map (\<lambda>e. get e ''revision'') (account_events db scope) = map JInt [1..hs_revision h] \<and>
     (hs_active h \<longleftrightarrow> account_events db scope \<noteq> [] \<and> get (last (account_events db scope)) ''active'' = JInt 1))"

definition wf_database :: "database \<Rightarrow> bool" where
  "wf_database db \<longleftrightarrow> (\<forall>key row. db_leases db key = Some row \<longrightarrow> wf_lease key row) \<and>
     (\<forall>key row. db_halts db key = Some row \<longrightarrow> wf_halt key row) \<and> log_ok db"

lemma persistence_failure_not_Ok [simp]: "persistence_failure \<noteq> Inr x" "\<not> is_ok persistence_failure"
  by (simp_all add: persistence_failure_def)

lemma wf_halt_js:
  "authority_scope_values sc = key \<Longrightarrow> is_safe_integer revision \<Longrightarrow> 0 \<le> revision \<Longrightarrow>
    (\<And>t. raisedAt = Some t \<Longrightarrow> is_ok (parse_utc_timestamp (JStr t :: row))) \<Longrightarrow>
    wf_halt key (halt_js sc active revision reason raisedAt pending)"
  unfolding wf_halt_def by blast

lemma lease_row_of_js:
  assumes "db_leases db (authority_scope_values scope) = Some (lease_js sc ownerRunId epoch acquiredAt expiresAt pending)"
    "safe_identifier ownerRunId" "is_safe_integer epoch" "1 \<le> epoch" "readable_instant acquiredAt" "readable_instant expiresAt"
  shows "lease_row_of db scope = Inr (Some \<lparr>lr_ownerRunId = ownerRunId, lr_epoch = epoch, lr_acquiredAt = acquiredAt,
    lr_expiresAt = expiresAt, lr_reconciliationRequired = pending\<rparr>)"
  using assms by (simp add: lease_row_of_def lease_js_def stored_identifier_def stored_string_def stored_timestamp_def
      stored_boolean_def readable_parse)

lemma wf_lease_read:
  assumes "wf_database db"
  obtains "db_leases db (authority_scope_values scope) = None" "lease_row_of db scope = Inr None"
  | sc l where "db_leases db (authority_scope_values scope) =
      Some (lease_js sc (lr_ownerRunId l) (lr_epoch l) (lr_acquiredAt l) (lr_expiresAt l) (lr_reconciliationRequired l))"
    "authority_scope_values sc = authority_scope_values scope"
    "lease_row_of db scope = Inr (Some l)" "safe_identifier (lr_ownerRunId l)" "is_safe_integer (lr_epoch l)"
    "1 \<le> lr_epoch l" "readable_instant (lr_acquiredAt l)" "readable_instant (lr_expiresAt l)"
proof (cases "db_leases db (authority_scope_values scope)")
  case None
  then show ?thesis using that(1) by (simp add: lease_row_of_def)
next
  case (Some row)
  then obtain sc ow ep ac ex pe where *: "authority_scope_values scope = authority_scope_values sc" "row = lease_js sc ow ep ac ex pe"
    "safe_identifier ow" "is_safe_integer ep" "1 \<le> ep" "readable_instant ac" "readable_instant ex"
    using assms unfolding wf_database_def wf_lease_def by metis
  let ?l = "\<lparr>lr_ownerRunId = ow, lr_epoch = ep, lr_acquiredAt = ac, lr_expiresAt = ex, lr_reconciliationRequired = pe\<rparr>"
  show ?thesis
    by (rule that(2) [of sc ?l]) (use * Some in \<open>simp_all add: lease_row_of_js\<close>)
qed

lemma halt_row_js:
  assumes "db_halts db (authority_scope_values scope) = Some (halt_js sc active revision reason raisedAt pending)"
    "is_safe_integer revision" "0 \<le> revision"
    "\<And>t. raisedAt = Some t \<Longrightarrow> is_ok (parse_utc_timestamp (JStr t :: row))"
  shows "\<exists>t. halt_row db scope = Inr \<lparr>hs_scope = scope, hs_active = active, hs_revision = revision,
    hs_reason = reason, hs_raisedAt = t, hs_reconciliationRequired = pending\<rparr>"
proof (cases raisedAt)
  case None
  then show ?thesis using assms(1-3)
    by (cases reason) (simp_all add: halt_row_def halt_js_def stored_boolean_def stored_optional_string_def)
next
  case (Some t)
  then obtain u where "parse_utc_timestamp (JStr t :: row) = Inr u" using assms(4) by (auto simp: is_ok_iff)
  then show ?thesis using assms(1-3) Some
    by (cases reason) (simp_all add: halt_row_def halt_js_def stored_boolean_def stored_optional_string_def
        stored_timestamp_def stored_string_def)
qed

lemma wf_halt_read:
  assumes "wf_database db"
  obtains h where "halt_row db scope = Inr h" "0 \<le> hs_revision h" "is_safe_integer (hs_revision h)"
    "db_halts db (authority_scope_values scope) = None \<Longrightarrow> \<not> hs_active h \<and> hs_revision h = 0"
    "\<And>row. db_halts db (authority_scope_values scope) = Some row \<Longrightarrow>
      \<exists>sc reason raisedAt. authority_scope_values sc = authority_scope_values scope \<and>
        row = halt_js sc (hs_active h) (hs_revision h) reason raisedAt (hs_reconciliationRequired h)"
proof (cases "db_halts db (authority_scope_values scope)")
  case None
  then show ?thesis using that by (simp add: halt_row_def is_safe_integer_def)
next
  case (Some row)
  then obtain sc a r re ra pe where *: "authority_scope_values scope = authority_scope_values sc" "row = halt_js sc a r re ra pe"
    "is_safe_integer r" "0 \<le> r" "\<And>t. ra = Some t \<Longrightarrow> is_ok (parse_utc_timestamp (JStr t :: row))"
    using assms unfolding wf_database_def wf_halt_def by metis
  obtain t where "halt_row db scope = Inr \<lparr>hs_scope = scope, hs_active = a, hs_revision = r,
      hs_reason = re, hs_raisedAt = t, hs_reconciliationRequired = pe\<rparr>"
    using halt_row_js [of db scope] Some * by metis
  then show ?thesis using that Some * by fastforce
qed

lemma wf_halt_facts:
  assumes "wf_database db" "halt_row db scope = Inr h"
  shows "0 \<le> hs_revision h" "is_safe_integer (hs_revision h)"
    "db_halts db (authority_scope_values scope) = None \<Longrightarrow> \<not> hs_active h \<and> hs_revision h = 0"
    "db_halts db (authority_scope_values scope) = Some row \<Longrightarrow>
      \<exists>sc reason raisedAt. authority_scope_values sc = authority_scope_values scope \<and>
        row = halt_js sc (hs_active h) (hs_revision h) reason raisedAt (hs_reconciliationRequired h)"
  by (rule wf_halt_read [OF assms(1), of scope], use assms(2) in simp)+

text \<open>What is read depends on the account only.\<close>

lemma row_of_account:
  assumes "db_leases db (authority_scope_values scope) = db_leases db' (authority_scope_values scope')"
  shows "lease_row_of db scope = lease_row_of db' scope'"
  using assms by (simp add: lease_row_of_def)

lemma halt_of_account:
  assumes "db_halts db (authority_scope_values scope) = db_halts db' (authority_scope_values scope')"
    "halt_row db scope = Inr h"
  shows "halt_row db' scope' = Inr (h\<lparr>hs_scope := scope'\<rparr>)"
  using assms by (auto simp: halt_row_def need_Ok_iff split: option.splits)

subsection \<open>Writing the HALT state\<close>

text \<open>One change of the HALT state of an account and its entry in the log.\<close>

definition halt_logged :: "persistence_scope \<Rightarrow> bool \<Rightarrow> database \<Rightarrow> database \<Rightarrow> bool" where
  "halt_logged scope active db db' \<longleftrightarrow> (\<exists>h h' e. halt_row db scope = Inr h \<and> halt_row db' scope = Inr h' \<and>
     hs_active h' = active \<and> hs_revision h' = hs_revision h + 1 \<and>
     (\<forall>key. key \<noteq> authority_scope_values scope \<longrightarrow> db_halts db' key = db_halts db key) \<and>
     db_halt_events db' = db_halt_events db @ [e] \<and> event_account e = authority_scope_values scope \<and>
     get e ''revision'' = JInt (hs_revision h + 1) \<and> get e ''active'' = JInt (if active then 1 else 0))"

lemma halt_logged_log:
  assumes "halt_logged scope active db db'" "wf_database db"
  shows "log_ok db'"
  unfolding log_ok_def
proof (intro allI impI)
  fix scope2 h2 assume h2: "halt_row db' scope2 = Inr h2"
  obtain h h' e where *: "halt_row db scope = Inr h" "halt_row db' scope = Inr h'"
    "hs_active h' = active" "hs_revision h' = hs_revision h + 1"
    "\<forall>key. key \<noteq> authority_scope_values scope \<longrightarrow> db_halts db' key = db_halts db key"
    "db_halt_events db' = db_halt_events db @ [e]" "event_account e = authority_scope_values scope"
    "get e ''revision'' = JInt (hs_revision h + 1)" "get e ''active'' = JInt (if active then 1 else 0)"
    using assms(1) unfolding halt_logged_def by blast
  have log: "log_ok db" using assms(2) by (simp add: wf_database_def)
  show "map (\<lambda>e. get e ''revision'') (account_events db' scope2) = map JInt [1..hs_revision h2] \<and>
     (hs_active h2 \<longleftrightarrow> account_events db' scope2 \<noteq> [] \<and> get (last (account_events db' scope2)) ''active'' = JInt 1)"
  proof (cases "authority_scope_values scope2 = authority_scope_values scope")
    case True
    then have "halt_row db' scope2 = Inr (h'\<lparr>hs_scope := scope2\<rparr>)" using halt_of_account [OF _ *(2)] by simp
    then have eq: "hs_revision h2 = hs_revision h + 1" "hs_active h2 = active" using h2 * by auto
    have "0 \<le> hs_revision h" using wf_halt_facts(1) [OF assms(2) *(1)] .
    then have upto: "[1..hs_revision h2] = [1..hs_revision h] @ [hs_revision h + 1]"
      by (simp add: eq upto_rec2)
    have "account_events db' scope2 = account_events db scope @ [e]"
      using * True by (simp add: account_events_def)
    moreover have "map (\<lambda>e. get e ''revision'') (account_events db scope) = map JInt [1..hs_revision h]"
      using log *(1) by (simp add: log_ok_def)
    ultimately show ?thesis using * upto eq by simp
  next
    case False
    then have "db_halts db' (authority_scope_values scope2) = db_halts db (authority_scope_values scope2)" using * by simp
    then have "halt_row db scope2 = Inr h2"
      using h2 by (simp add: halt_row_def)
    moreover have "account_events db' scope2 = account_events db scope2" using * False by (simp add: account_events_def)
    ultimately show ?thesis using log by (simp add: log_ok_def)
  qed
qed

lemma event_account_js [simp]:
  "event_account (halt_event_js i scope revision active reason t ev) = authority_scope_values scope"
  by (simp add: event_account_def halt_event_js_def authority_scope_values_def)

lemma event_fields [simp]:
  "get (halt_event_js i scope revision active reason t ev) ''revision'' = JInt revision"
  "get (halt_event_js i scope revision active reason t ev) ''active'' = JInt (if active then 1 else 0)"
  by (simp_all add: halt_event_js_def)

lemma insert_halt_event_iff:
  "insert_halt_event e db = (Returned (Inr u), db') \<longleftrightarrow>
     (\<forall>other \<in> set (db_halt_events db). \<not> event_clashes e other) \<and>
     db' = db\<lparr>db_halt_events := db_halt_events db @ [e]\<rparr>"
  by (auto simp: insert_halt_event_def)

lemma halt_js_read:
  assumes "halt_row db scope = Inr h"
    "db_halts db (authority_scope_values scope) = Some (halt_js sc active revision reason (Some t) pending)"
  shows "is_ok (parse_utc_timestamp (JStr t :: row))" "hs_active h = active" "hs_revision h = revision"
  using assms
  by (auto simp: halt_row_def halt_js_def stored_boolean_def stored_timestamp_def stored_string_def need_Ok_iff
      rbind_Ok_iff is_ok_iff result_simps split: if_splits)

lemma wf_database_halts:
  assumes "wf_database db" "halt_logged scope active db db'" "db_leases db' = db_leases db"
    "\<And>row. db_halts db' (authority_scope_values scope) = Some row \<Longrightarrow> wf_halt (authority_scope_values scope) row"
  shows "wf_database db'"
  unfolding wf_database_def
proof (intro conjI allI impI)
  show "log_ok db'" using halt_logged_log [OF assms(2,1)] .
  show "wf_lease key row" if "db_leases db' key = Some row" for key row
    using that assms(1,3) by (simp add: wf_database_def)
  show "wf_halt key row" if "db_halts db' key = Some row" for key row
    using that assms(1,2,4) by (cases "key = authority_scope_values scope") (auto simp: wf_database_def halt_logged_def)
qed

lemma raise_effect:
  assumes "raise_halt_within L scope reason t ev db = (Returned (Inr h'), db')" "wf_database db"
  shows "wf_database db'" "halt_logged scope True db db'" "db_leases db' = db_leases db"
proof -
  from assms(1) obtain h where h: "safe_text reason" "halt_row db scope = Inr h" "is_safe_integer (hs_revision h + 1)"
    and h': "halt_row db' scope = Inr h'" and db': "db' = db\<lparr>db_halts := (db_halts db)(authority_scope_values scope \<mapsto>
        halt_js scope True (hs_revision h + 1) (Some reason) (Some t) True),
      db_halt_events := db_halt_events db @ [halt_event_js (halt_event_id L scope (hs_revision h + 1) reason) scope
        (hs_revision h + 1) True reason t ev]\<rparr>"
    unfolding raise_halt_within_def
    by (auto simp: sql_bind_Returned Let_def insert_halt_event_iff split: if_splits) (auto simp: insert_halt_event_def split: if_splits)
  note read = halt_js_read [OF h', of scope True "hs_revision h + 1" "Some reason" t True]
  note h0 = wf_halt_facts(1) [OF assms(2) h(2)]
  show leases: "db_leases db' = db_leases db" by (simp add: db')
  show logged: "halt_logged scope True db db'"
    unfolding halt_logged_def using h h' read
    by (intro exI [of _ h] exI [of _ h'] conjI exI [of _ "halt_event_js (halt_event_id L scope (hs_revision h + 1) reason)
        scope (hs_revision h + 1) True reason t ev"]) (simp_all add: db')
  show "wf_database db'"
    by (rule wf_database_halts [OF assms(2) logged leases])
      (use h h0 read in \<open>auto simp: db' intro!: wf_halt_js\<close>)
qed

lemma cleared_halt_js [simp]:
  "cleared_halt (halt_js sc active revision reason raisedAt pending) n = halt_js sc False n None None False"
  by (simp add: cleared_halt_def set_columns_def halt_js_def)

lemma update_halt_effect:
  assumes "wf_database db" "halt_row db scope = Inr h" "hs_active h" "is_safe_integer (hs_revision h + 1)"
  defines "db1 \<equiv> update_halt_cleared scope (hs_revision h) (hs_revision h + 1) db"
  shows "db_leases db1 = db_leases db" "db_halt_events db1 = db_halt_events db"
    "\<And>key. key \<noteq> authority_scope_values scope \<Longrightarrow> db_halts db1 key = db_halts db key"
    "\<exists>sc. authority_scope_values sc = authority_scope_values scope \<and>
      db_halts db1 (authority_scope_values scope) = Some (halt_js sc False (hs_revision h + 1) None None False)"
    "\<exists>h'. halt_row db1 scope = Inr h' \<and> \<not> hs_active h' \<and> hs_revision h' = hs_revision h + 1"
proof -
  obtain sc reason raisedAt where row: "authority_scope_values sc = authority_scope_values scope" "0 \<le> hs_revision h"
    "db_halts db (authority_scope_values scope) =
      Some (halt_js sc True (hs_revision h) reason raisedAt (hs_reconciliationRequired h))"
    using wf_halt_facts [OF assms(1,2)] assms(3) by (metis (full_types) not_None_eq)
  have matches: "get (halt_js sc True (hs_revision h) reason raisedAt (hs_reconciliationRequired h)) ''revision'' = JInt (hs_revision h)"
    "get (halt_js sc True (hs_revision h) reason raisedAt (hs_reconciliationRequired h)) ''active'' = JInt 1"
    by (simp_all add: halt_js_def)
  have db1: "db1 = db\<lparr>db_halts := (db_halts db)(authority_scope_values scope \<mapsto>
      halt_js sc False (hs_revision h + 1) None None False)\<rparr>"
    unfolding db1_def update_halt_cleared_def using row(3) matches by simp
  show "db_leases db1 = db_leases db" "db_halt_events db1 = db_halt_events db"
    "\<And>key. key \<noteq> authority_scope_values scope \<Longrightarrow> db_halts db1 key = db_halts db key"
    by (simp_all add: db1)
  show "\<exists>sc. authority_scope_values sc = authority_scope_values scope \<and>
      db_halts db1 (authority_scope_values scope) = Some (halt_js sc False (hs_revision h + 1) None None False)"
    using row(1) by (intro exI [of _ sc]) (simp add: db1)
  show "\<exists>h'. halt_row db1 scope = Inr h' \<and> \<not> hs_active h' \<and> hs_revision h' = hs_revision h + 1"
    using halt_row_js [of db1 scope sc False "hs_revision h + 1" None None False] assms(4) row(2)
    by (fastforce simp: db1)
qed

text \<open>Clearing: the update, then the log entry.\<close>

lemma clear_effect:
  assumes "wf_database db" "halt_row db scope = Inr h" "hs_active h" "is_safe_integer (hs_revision h + 1)"
    and "insert_halt_event (halt_event_js i scope (hs_revision h + 1) False reason t ev)
      (update_halt_cleared scope (hs_revision h) (hs_revision h + 1) db) = (Returned (Inr u), db')"
  shows "wf_database db'" "halt_logged scope False db db'" "db_leases db' = db_leases db"
proof -
  define db1 where "db1 = update_halt_cleared scope (hs_revision h) (hs_revision h + 1) db"
  note e = update_halt_effect [OF assms(1-4), folded db1_def]
  have db': "db' = db1\<lparr>db_halt_events := db_halt_events db @ [halt_event_js i scope (hs_revision h + 1) False reason t ev]\<rparr>"
    using assms(5) e(2) by (simp add: insert_halt_event_iff flip: db1_def)
  obtain h' where h': "halt_row db1 scope = Inr h'" "\<not> hs_active h'" "hs_revision h' = hs_revision h + 1" using e(5) by blast
  have read: "halt_row db' scope = Inr h'" using h'(1) by (simp add: halt_row_def db')
  note h0 = wf_halt_facts(1) [OF assms(1,2)]
  show leases: "db_leases db' = db_leases db" using e(1) by (simp add: db')
  show logged: "halt_logged scope False db db'"
    unfolding halt_logged_def using assms(2) read h' e(3)
    by (intro exI [of _ h] exI [of _ h'] conjI
        exI [of _ "halt_event_js i scope (hs_revision h + 1) False reason t ev"]) (simp_all add: db')
  show "wf_database db'"
    by (rule wf_database_halts [OF assms(1) logged leases])
      (use e(4) assms(4) h0 in \<open>auto simp: db' intro!: wf_halt_js\<close>)
qed

end
