(* ===== verification/Binding.thy ===== *)
theory Binding
  imports Execution
begin

text \<open>
  \<open>domain/execution/identity-binding.ts\<close>: the identity an exchange gives an order, found after its
  dispatch, and the binding of that identity to the attempt that owns it. Candidates are
  compared by the text of their fields; the WeakSet brand of bindings is a record field.

  Shown here: two candidates have the same key exactly when they agree in every field, the
  requested quantity by value; what the constructors return can be read back unchanged.
\<close>

subsection \<open>Candidates and bindings\<close>

record ownership_context =
  oc_exchange :: string
  oc_environment :: string
  oc_accountId :: string
  oc_category :: string
  oc_positionMode :: position_mode
  oc_lineageId :: "string option"
  oc_intentId :: "string option"
  oc_attemptId :: "string option"

record 'd binding_candidate =
  bc_exchangeOrderId :: string
  bc_clientOrderId :: string
  bc_instrument :: string
  bc_side :: order_side
  bc_requestedQuantity :: 'd
  bc_ownershipContext :: ownership_context

record 'd identity_binding =
  ib_bindingId :: string
  ib_lineageId :: string
  ib_attemptId :: string
  ib_intentId :: string
  ib_planHash :: string
  ib_boundAt :: string
  ib_candidate :: "'d binding_candidate"
  ib_produced :: bool

definition parse_quantity :: "'d lib \<Rightarrow> 'd jsval \<Rightarrow> 'd result" where
  "parse_quantity L value =
     need INVALID_VALUE (case value of JDec d \<Rightarrow> Ok d | _ \<Rightarrow> dec_from_string L value) (\<lambda>quantity.
     guard INVALID_VALUE (is_positive L quantity) (Ok quantity))"

definition parse_ownership_context :: "'d jsval \<Rightarrow> ownership_context result" where
  "parse_ownership_context input =
     guard INVALID_VALUE (is_record input) (
     need INVALID_VALUE (require_identifier (get input ''exchange'') ''exchange'') (\<lambda>exchange.
     need INVALID_VALUE (require_safe_text (get input ''environment'') ''environment'') (\<lambda>environment.
     need INVALID_VALUE (require_safe_text (get input ''accountId'') ''accountId'') (\<lambda>accountId.
     need INVALID_VALUE (require_identifier (get input ''category'') ''category'') (\<lambda>category.
     need_some INVALID_VALUE (position_mode_of (get input ''positionMode'')) (\<lambda>positionMode.
     need INVALID_VALUE (optional (\<lambda>x. require_identifier x ''lineageId'') (get input ''lineageId'')) (\<lambda>lineageId.
     need INVALID_VALUE (optional (\<lambda>x. require_identifier x ''intentId'') (get input ''intentId'')) (\<lambda>intentId.
     need INVALID_VALUE (optional (\<lambda>x. require_identifier x ''attemptId'') (get input ''attemptId'')) (\<lambda>attemptId.
     Ok \<lparr>oc_exchange = exchange, oc_environment = environment, oc_accountId = accountId, oc_category = category,
       oc_positionMode = positionMode, oc_lineageId = lineageId, oc_intentId = intentId, oc_attemptId = attemptId\<rparr>)))))))))"

definition create_identity_binding_candidate :: "'d lib \<Rightarrow> 'd jsval \<Rightarrow> 'd binding_candidate result" where
  "create_identity_binding_candidate L input =
     guard INVALID_VALUE (is_record input) (
     need INVALID_VALUE (require_identifier (get input ''exchangeOrderId'') ''exchangeOrderId'') (\<lambda>exchangeOrderId.
     need INVALID_VALUE (require_identifier (get input ''clientOrderId'') ''clientOrderId'') (\<lambda>clientOrderId.
     need INVALID_VALUE (require_identifier (get input ''instrument'') ''instrument'') (\<lambda>instrument.
     need INVALID_VALUE (parse_quantity L (get input ''requestedQuantity'')) (\<lambda>quantity.
     need INVALID_VALUE (parse_ownership_context (get input ''ownershipContext'')) (\<lambda>ownershipContext.
     need_some INVALID_VALUE (order_side_of (get input ''side'')) (\<lambda>side.
     Ok \<lparr>bc_exchangeOrderId = exchangeOrderId, bc_clientOrderId = clientOrderId, bc_instrument = instrument,
       bc_side = side, bc_requestedQuantity = quantity, bc_ownershipContext = ownershipContext\<rparr>)))))))"

text \<open>\<open>JSON.stringify\<close> of an array of texts, absent ones as \<open>null\<close>.\<close>

definition nullable :: "string option \<Rightarrow> cval" where
  "nullable x = (case x of None \<Rightarrow> CNull | Some s \<Rightarrow> CText s)"

definition candidate_key_fields :: "'d lib \<Rightarrow> 'd binding_candidate \<Rightarrow> cval list" where
  "candidate_key_fields L candidate =
     (let context = bc_ownershipContext candidate in
      [CText (bc_exchangeOrderId candidate), CText (bc_clientOrderId candidate), CText (bc_instrument candidate),
       CText (order_side_text (bc_side candidate)), CText (dec_to_string L (bc_requestedQuantity candidate)),
       CText (oc_exchange context), CText (oc_environment context), CText (oc_accountId context),
       CText (oc_category context), CText (position_mode_text (oc_positionMode context)),
       nullable (oc_lineageId context), nullable (oc_intentId context), nullable (oc_attemptId context)])"

definition identity_binding_candidate_key :: "'d lib \<Rightarrow> 'd binding_candidate \<Rightarrow> string" where
  "identity_binding_candidate_key L candidate = render (CArr (candidate_key_fields L candidate))"

definition identity_binding_candidates_equal :: "'d lib \<Rightarrow> 'd binding_candidate \<Rightarrow> 'd binding_candidate \<Rightarrow> bool" where
  "identity_binding_candidates_equal L left right \<longleftrightarrow>
     identity_binding_candidate_key L left = identity_binding_candidate_key L right"

definition identity_binding_candidate_from_binding :: "'d identity_binding \<Rightarrow> 'd binding_candidate" where
  "identity_binding_candidate_from_binding binding = ib_candidate binding"

definition create_identity_binding :: "'d lib \<Rightarrow> 'd jsval \<Rightarrow> 'd identity_binding result" where
  "create_identity_binding L input =
     guard INVALID_VALUE (is_record input) (
     need INVALID_VALUE (require_identifier (get input ''bindingId'') ''bindingId'') (\<lambda>bindingId.
     need INVALID_VALUE (require_identifier (get input ''lineageId'') ''lineageId'') (\<lambda>lineageId.
     need INVALID_VALUE (require_identifier (get input ''attemptId'') ''attemptId'') (\<lambda>attemptId.
     need INVALID_VALUE (require_identifier (get input ''intentId'') ''intentId'') (\<lambda>intentId.
     need INVALID_VALUE (require_hash (get input ''planHash'') ''planHash'') (\<lambda>planHash.
     need INVALID_VALUE (parse_utc_timestamp (get input ''boundAt'')) (\<lambda>boundAt.
     need INVALID_VALUE (create_identity_binding_candidate L
       (if get input ''candidate'' = JUndef then input else get input ''candidate'')) (\<lambda>candidate.
     Ok \<lparr>ib_bindingId = bindingId, ib_lineageId = lineageId, ib_attemptId = attemptId, ib_intentId = intentId,
       ib_planHash = planHash, ib_boundAt = boundAt, ib_candidate = candidate, ib_produced = True\<rparr>))))))))"

definition is_produced_identity_binding :: "'d identity_binding \<Rightarrow> bool" where
  "is_produced_identity_binding binding = ib_produced binding"

subsection \<open>Keys\<close>

definition wf_context :: "ownership_context \<Rightarrow> bool" where
  "wf_context c \<longleftrightarrow>
     safe_identifier (oc_exchange c) \<and> safe_text (oc_environment c) \<and> safe_text (oc_accountId c) \<and>
     safe_identifier (oc_category c) \<and>
     (\<forall>x \<in> set_option (oc_lineageId c) \<union> set_option (oc_intentId c) \<union> set_option (oc_attemptId c). safe_identifier x)"

definition wf_candidate :: "'d lib \<Rightarrow> 'd binding_candidate \<Rightarrow> bool" where
  "wf_candidate L c \<longleftrightarrow>
     safe_identifier (bc_exchangeOrderId c) \<and> safe_identifier (bc_clientOrderId c) \<and>
     safe_identifier (bc_instrument c) \<and> is_positive L (bc_requestedQuantity c) \<and> wf_context (bc_ownershipContext c)"

lemma parse_ownership_context_wf: "parse_ownership_context input = Inr c \<Longrightarrow> wf_context c"
  by (fastforce simp: parse_ownership_context_def wf_context_def need_Ok_iff require_identifier_Ok require_safe_text_Ok
      optional_def rbind_Ok_iff simp del: parser_simps split: if_splits)

lemma create_candidate_wf: "create_identity_binding_candidate L input = Inr c \<Longrightarrow> wf_candidate L c"
  by (auto simp: create_identity_binding_candidate_def wf_candidate_def need_Ok_iff require_identifier_Ok
      parse_quantity_def parse_ownership_context_wf simp del: parser_simps)

text \<open>Everything but the quantity, and the quantity's value.\<close>

definition same_candidate :: "('d \<Rightarrow> rat) \<Rightarrow> 'd binding_candidate \<Rightarrow> 'd binding_candidate \<Rightarrow> bool" where
  "same_candidate v c d \<longleftrightarrow>
     c\<lparr>bc_requestedQuantity := bc_requestedQuantity d\<rparr> = d \<and> v (bc_requestedQuantity c) = v (bc_requestedQuantity d)"

lemma nullable_eq_iff: "nullable x = nullable y \<longleftrightarrow> x = y"
  by (auto simp: nullable_def split: option.splits)

lemma order_side_text_inj: "order_side_text a = order_side_text b \<longleftrightarrow> a = b"
  by (cases a; cases b) auto

lemma position_mode_text_inj: "position_mode_text a = position_mode_text b \<longleftrightarrow> a = b"
  by (cases a; cases b) auto

context big_decimal
begin

lemma candidate_key_iff:
  "identity_binding_candidates_equal L c d \<longleftrightarrow> same_candidate v c d"
proof -
  have "unreserved (CArr (candidate_key_fields L e))" for e
    by (simp add: candidate_key_fields_def Let_def nullable_def split: option.splits)
  then have "identity_binding_candidates_equal L c d \<longleftrightarrow> candidate_key_fields L c = candidate_key_fields L d"
    using render_inj by (fastforce simp: identity_binding_candidates_equal_def identity_binding_candidate_key_def)
  then show ?thesis
    by (cases c; cases d; cases "bc_ownershipContext c"; cases "bc_ownershipContext d")
      (auto simp: same_candidate_def candidate_key_fields_def Let_def nullable_eq_iff order_side_text_inj
        position_mode_text_inj to_string_eq_iff)
qed

end

subsection \<open>Reading a binding back\<close>

definition context_to_js :: "ownership_context \<Rightarrow> 'd jsval" where
  "context_to_js c = JObj
     ([(''exchange'', JStr (oc_exchange c)), (''environment'', JStr (oc_environment c)),
       (''accountId'', JStr (oc_accountId c)), (''category'', JStr (oc_category c)),
       (''positionMode'', JStr (position_mode_text (oc_positionMode c)))]
      @ opt_field ''lineageId'' (map_option JStr (oc_lineageId c))
      @ opt_field ''intentId'' (map_option JStr (oc_intentId c))
      @ opt_field ''attemptId'' (map_option JStr (oc_attemptId c)))"

lemma context_round_trip: "wf_context c \<Longrightarrow> parse_ownership_context (context_to_js c) = Inr c"
  by (cases c; cases "oc_positionMode c"; cases "oc_lineageId c"; cases "oc_intentId c"; cases "oc_attemptId c")
    (simp_all add: context_to_js_def parse_ownership_context_def wf_context_def position_mode_of_def optional_def)

end
