(* ===== verification/Json.thy ===== *)
theory Json
  imports Canonical
begin

text \<open>
  \<open>JSON.parse\<close> of the standard library, on texts of the model's characters: white space, string
  escapes, the number grammar, the last of repeated keys. A number with a fraction or an
  exponent is \<open>JInt\<close> when its exact value is integral and \<open>JFloat\<close> otherwise; rounding to a double is
  left out, and so are escapes of characters beyond the model's: no canonical text has either.

  Shown here: the fuel is enough for every text, and the parser reads back the canonical bytes
  of every value.
\<close>

subsection \<open>Tokens\<close>

definition json_blank :: "char \<Rightarrow> bool" where
  "json_blank c \<longleftrightarrow> c = CHR '' '' \<or> c = CHR 0x09 \<or> c = CHR 0x0A \<or> c = CHR 0x0D"

definition skip_blanks :: "string \<Rightarrow> string" where
  "skip_blanks s = dropWhile json_blank s"

definition hex_digit :: "char \<Rightarrow> int option" where
  "hex_digit c =
     (if is_digit c then Some (digit_val c)
      else if 97 \<le> code_of c \<and> code_of c \<le> 102 then Some (code_of c - 87)
      else if 65 \<le> code_of c \<and> code_of c \<le> 70 then Some (code_of c - 55) else None)"

definition unicode_escape :: "string \<Rightarrow> (char \<times> string) option" where
  "unicode_escape s =
     (case s of
        a # b # c # d # r \<Rightarrow>
          (case (hex_digit a, hex_digit b, hex_digit c, hex_digit d) of
             (Some w, Some x, Some y, Some z) \<Rightarrow>
               if w = 0 \<and> x = 0 then Some (char_of (16 * y + z), r) else None
           | _ \<Rightarrow> None)
      | _ \<Rightarrow> None)"

text \<open>One character of a string body, escaped or not.\<close>

definition string_char :: "string \<Rightarrow> (char \<times> string) option" where
  "string_char s =
     (case s of [] \<Rightarrow> None
      | c # r \<Rightarrow>
          if c \<noteq> CHR 0x5C then (if code_of c < 32 then None else Some (c, r))
          else
            (case r of [] \<Rightarrow> None
             | d # q \<Rightarrow>
                 if d = CHR 0x22 \<or> d = CHR 0x5C \<or> d = CHR ''/'' then Some (d, q)
                 else if d = CHR ''b'' then Some (CHR 0x08, q) else if d = CHR ''f'' then Some (CHR 0x0C, q)
                 else if d = CHR ''n'' then Some (CHR 0x0A, q) else if d = CHR ''r'' then Some (CHR 0x0D, q)
                 else if d = CHR ''t'' then Some (CHR 0x09, q)
                 else if d = CHR ''u'' then unicode_escape q else None))"

lemma unicode_escape_length: "unicode_escape s = Some (c, r) \<Longrightarrow> length r < length s"
  by (auto simp: unicode_escape_def split: list.splits option.splits if_splits)

lemma string_char_length: "string_char s = Some (c, r) \<Longrightarrow> length r < length s"
  by (auto simp: string_char_def dest: unicode_escape_length split: list.splits if_splits)

text \<open>The body of a string, up to its closing quote.\<close>

function string_body :: "string \<Rightarrow> (string \<times> string) option" where
  "string_body s =
     (case s of [] \<Rightarrow> None
      | c # r \<Rightarrow>
          if c = CHR 0x22 then Some ([], r)
          else
            (case string_char s of None \<Rightarrow> None
             | Some (x, q) \<Rightarrow> map_option (\<lambda>(xs, t). (x # xs, t)) (string_body q)))"
  by pat_completeness auto
termination
  by (relation "measure length") (auto dest: string_char_length)

declare string_body.simps [simp del]

text \<open>A number; its integer part has no leading zero.\<close>

definition exponent_part :: "string \<Rightarrow> (int \<times> string) option" where
  "exponent_part s =
     (case s of
        c # r \<Rightarrow>
          if c = CHR ''e'' \<or> c = CHR ''E'' then
            let (negative, q) = (case r of d # q \<Rightarrow> if d = CHR ''-'' then (True, q) else if d = CHR ''+'' then (False, q) else (False, r)
                | [] \<Rightarrow> (False, r));
                digits = takeWhile is_digit q
            in if digits = [] then None
               else Some (if negative then - digits_value digits else digits_value digits, dropWhile is_digit q)
          else Some (0, s)
      | [] \<Rightarrow> Some (0, s))"

definition fraction_part :: "string \<Rightarrow> (string \<times> string) option" where
  "fraction_part s =
     (case s of
        c # r \<Rightarrow>
          if c = CHR ''.'' then
            (if takeWhile is_digit r = [] then None else Some (takeWhile is_digit r, dropWhile is_digit r))
          else Some ([], s)
      | [] \<Rightarrow> Some ([], s))"

definition scaled :: "int \<Rightarrow> int \<Rightarrow> rat" where
  "scaled m e = (if 0 \<le> e then of_int m * 10 ^ nat e else of_int m / 10 ^ nat (- e))"

definition number_of :: "rat \<Rightarrow> 'd jsval" where
  "number_of q = (if of_int \<lfloor>q\<rfloor> = q then JInt \<lfloor>q\<rfloor> else JFloat)"

definition json_number :: "string \<Rightarrow> ('d jsval \<times> string) option" where
  "json_number s =
     (let (negative, s) = (case s of c # r \<Rightarrow> if c = CHR ''-'' then (True, r) else (False, s) | [] \<Rightarrow> (False, s));
          digits = takeWhile is_digit s
      in
      if digits = [] \<or> 1 < length digits \<and> hd digits = CHR ''0'' then None
      else
        (case fraction_part (dropWhile is_digit s) of None \<Rightarrow> None
         | Some (fraction, s) \<Rightarrow>
             (case exponent_part s of None \<Rightarrow> None
              | Some (e, s) \<Rightarrow>
                  let m = digits_value (digits @ fraction) in
                  Some (number_of (scaled (if negative then - m else m) (e - int (length fraction))), s))))"

text \<open>A literal name, or a number.\<close>

definition json_atom :: "string \<Rightarrow> ('d jsval \<times> string) option" where
  "json_atom s =
     (if take 4 s = ''null'' then Some (JNull, drop 4 s)
      else if take 4 s = ''true'' then Some (JBool True, drop 4 s)
      else if take 5 s = ''false'' then Some (JBool False, drop 5 s)
      else json_number s)"

text \<open>A repeated key keeps its place and takes the last value.\<close>

definition put_field :: "string \<times> 'd jsval \<Rightarrow> (string \<times> 'd jsval) list \<Rightarrow> (string \<times> 'd jsval) list" where
  "put_field e kvs =
     (if fst e \<in> fst ` set kvs then map (\<lambda>f. if fst f = fst e then e else f) kvs else kvs @ [e])"

definition object_of :: "(string \<times> 'd jsval) list \<Rightarrow> 'd jsval" where
  "object_of kvs = JObj (fold put_field kvs [])"

subsection \<open>Values\<close>

text \<open>The fuel bounds the nesting of calls; \<open>None\<close> is the \<open>SyntaxError\<close>.\<close>

fun json_value :: "nat \<Rightarrow> string \<Rightarrow> ('d jsval \<times> string) option"
  and json_items :: "nat \<Rightarrow> string \<Rightarrow> ('d jsval list \<times> string) option"
  and json_fields :: "nat \<Rightarrow> string \<Rightarrow> ((string \<times> 'd jsval) list \<times> string) option" where
  "json_value 0 s = None"
| "json_value (Suc n) s =
     (case skip_blanks s of [] \<Rightarrow> None
      | c # r \<Rightarrow>
          if c = CHR 0x22 then map_option (\<lambda>(t, q). (JStr t, q)) (string_body r)
          else if c = CHR ''['' then
            (case skip_blanks r of d # q \<Rightarrow> if d = CHR '']'' then Some (JArr [], q)
                 else map_option (\<lambda>(xs, q). (JArr xs, q)) (json_items n r)
             | [] \<Rightarrow> None)
          else if c = CHR ''{'' then
            (case skip_blanks r of d # q \<Rightarrow> if d = CHR ''}'' then Some (JObj [], q)
                 else map_option (\<lambda>(kvs, q). (object_of kvs, q)) (json_fields n r)
             | [] \<Rightarrow> None)
          else json_atom (c # r))"
| "json_items 0 s = None"
| "json_items (Suc n) s =
     (case json_value n s of None \<Rightarrow> None
      | Some (x, r) \<Rightarrow>
          (case skip_blanks r of [] \<Rightarrow> None
           | c # q \<Rightarrow>
               if c = CHR '']'' then Some ([x], q)
               else if c = CHR '','' then map_option (\<lambda>(xs, t). (x # xs, t)) (json_items n q)
               else None))"
| "json_fields 0 s = None"
| "json_fields (Suc n) s =
     (case skip_blanks s of [] \<Rightarrow> None
      | a # b \<Rightarrow>
          if a \<noteq> CHR 0x22 then None
          else
            (case string_body b of None \<Rightarrow> None
             | Some (k, d) \<Rightarrow>
                 (case skip_blanks d of [] \<Rightarrow> None
                  | e # f \<Rightarrow>
                      if e \<noteq> CHR '':'' then None
                      else
                        (case json_value n f of None \<Rightarrow> None
                         | Some (x, r) \<Rightarrow>
                             (case skip_blanks r of [] \<Rightarrow> None
                              | c # q \<Rightarrow>
                                  if c = CHR ''}'' then Some ([(k, x)], q)
                                  else if c = CHR '','' then map_option (\<lambda>(kvs, t). ((k, x) # kvs, t)) (json_fields n q)
                                  else None)))))"

definition json_fuel :: "string \<Rightarrow> nat" where
  "json_fuel s = Suc (2 * length s)"

definition json_parse :: "string \<Rightarrow> 'd jsval option" where
  "json_parse s =
     (case json_value (json_fuel s) s of
        Some (x, r) \<Rightarrow> if skip_blanks r = [] then Some x else None
      | None \<Rightarrow> None)"

subsection \<open>The fuel is enough\<close>

lemma dropWhile_length: "length (dropWhile p s) \<le> length s"
  by (induction s) auto

lemma skip_blanks_length: "length (skip_blanks s) \<le> length s"
  by (simp add: skip_blanks_def dropWhile_length)

lemma skip_blanks_Cons: "skip_blanks s = c # r \<Longrightarrow> length r < length s"
  using skip_blanks_length [of s] by simp

lemma string_body_length: "string_body s = Some (t, r) \<Longrightarrow> length r < length s"
proof (induction s arbitrary: t rule: string_body.induct)
  case (1 s)
  show ?case
  proof (cases s)
    case (Cons c q)
    show ?thesis
    proof (cases "c = CHR 0x22 \<or> string_char s = None")
      case True
      then show ?thesis using 1(2) Cons by (auto simp: string_body.simps [of "c # q"] split: if_splits)
    next
      case False
      then obtain x p where x: "string_char s = Some (x, p)" by auto
      then obtain t' where "string_body p = Some (t', r)"
        using 1(2) Cons False by (auto simp: string_body.simps [of "c # q"])
      then show ?thesis using 1(1) [OF Cons _ x refl] False string_char_length [OF x] Cons by fastforce
    qed
  qed (use 1(2) in \<open>simp add: string_body.simps\<close>)
qed

lemma json_fraction_length: "fraction_part s = Some (t, r) \<Longrightarrow> length r \<le> length s"
  using dropWhile_length [of is_digit "tl s"] by (cases s) (auto simp: fraction_part_def split: if_splits)

lemma exponent_part_length: "exponent_part s = Some (e, r) \<Longrightarrow> length r \<le> length s"
  using dropWhile_length [of is_digit "tl s"] dropWhile_length [of is_digit "tl (tl s)"]
  by (cases s; cases "tl s") (auto simp: exponent_part_def Let_def split: if_splits)

lemma json_number_length: "json_number s = Some (x, r) \<Longrightarrow> length r < length s"
proof -
  assume a: "json_number s = Some (x, r)"
  define s1 where "s1 = (case s of c # r \<Rightarrow> if c = CHR ''-'' then r else s | [] \<Rightarrow> s)"
  have "takeWhile is_digit s1 \<noteq> []"
    and "\<exists>f q e. fraction_part (dropWhile is_digit s1) = Some (f, q) \<and> exponent_part q = Some (e, r)"
    using a by (auto simp: json_number_def s1_def Let_def split: list.splits option.splits if_splits)
  moreover from this(1) have "length (dropWhile is_digit s1) < length s1"
    by (metis append_self_conv2 dropWhile_length le_neq_implies_less length_append nat_less_le takeWhile_dropWhile_id
        length_0_conv add_cancel_left_left)
  moreover have "length s1 \<le> length s" by (auto simp: s1_def split: list.splits)
  ultimately show ?thesis using json_fraction_length exponent_part_length by fastforce
qed

lemma json_atom_length: "json_atom s = Some (x, r) \<Longrightarrow> length r < length s"
proof -
  assume a: "json_atom s = Some (x, r)"
  have "length (drop n s) < length s" if "take n s = w" "w \<noteq> []" "0 < n" for n w
    using that by (cases s) auto
  then show ?thesis using a json_number_length [of s x r]
    by (cases s) (auto simp: json_atom_def split: if_splits)
qed

lemma json_length:
  fixes x :: "'d jsval" and xs :: "'d jsval list" and kvs :: "(string \<times> 'd jsval) list"
  shows "json_value n s = Some (x, r) \<Longrightarrow> length r < length s"
  "json_items n s = Some (xs, r) \<Longrightarrow> length r < length s"
  "json_fields n s = Some (kvs, r) \<Longrightarrow> length r < length s"
proof (induction n s and n s and n s arbitrary: x r and xs r and kvs r rule: json_value_json_items_json_fields.induct [where 'd = 'd])
  case (2 n s)
  obtain c q where s: "skip_blanks s = c # q" using 2(3) by (auto split: list.splits)
  note l = skip_blanks_Cons [OF s]
  show ?case
  proof (cases "c = CHR 0x22 \<or> c \<noteq> CHR ''['' \<and> c \<noteq> CHR ''{''")
    case True
    then show ?thesis using 2(3) l string_body_length [of q _ r] json_atom_length [of "c # q" x r]
      by (auto simp: s split: if_splits)
  next
    case False
    then obtain d p where q: "skip_blanks q = d # p" using 2(3) by (auto simp: s split: list.splits)
    note m = skip_blanks_Cons [OF q]
    from False consider (arr) "c = CHR ''[''" | (obj) "c = CHR ''{''" by blast
    then show ?thesis
    proof cases
      case arr
      show ?thesis
      proof (cases "d = CHR '']''")
        case False
        then obtain xs where "json_items n q = Some (xs, r)" "x = JArr xs" using 2(3) arr by (auto simp: s q)
        from 2(1) [OF s _ arr q False this(1)] arr l show ?thesis by simp
      qed (use 2(3) arr l m in \<open>auto simp: s q\<close>)
    next
      case obj
      show ?thesis
      proof (cases "d = CHR ''}''")
        case False
        then obtain kvs where "json_fields n q = Some (kvs, r)" "x = object_of kvs" using 2(3) obj by (auto simp: s q)
        from 2(2) [OF s _ _ obj q False this(1)] obj l show ?thesis by simp
      qed (use 2(3) obj l m in \<open>auto simp: s q\<close>)
    qed
  qed
next
  case (4 n s)
  obtain y :: "'d jsval" and q where v: "json_value n s = Some (y, q)" using 4(3) by (auto split: option.splits)
  obtain d p where q: "skip_blanks q = d # p" using 4(3) by (auto simp: v split: list.splits)
  show ?case using 4(1) [OF v] skip_blanks_Cons [OF q] 4(3) 4(2) [OF v refl q]
    by (fastforce simp: v q split: if_splits)
next
  case (6 n s)
  obtain b where s: "skip_blanks s = CHR 0x22 # b" using 6(3) by (auto split: list.splits if_splits)
  obtain k d where k: "string_body b = Some (k, d)" using 6(3) by (auto simp: s split: option.splits)
  obtain f where d: "skip_blanks d = CHR '':'' # f" using 6(3) by (auto simp: s k split: list.splits if_splits)
  obtain y :: "'d jsval" and q where v: "json_value n f = Some (y, q)" using 6(3) by (auto simp: s k d split: option.splits)
  obtain e p where q: "skip_blanks q = e # p" using 6(3) by (auto simp: s k d v split: list.splits)
  have "length p < length s"
    using 6(1) [OF s _ k refl d _ v] skip_blanks_Cons [OF s] skip_blanks_Cons [OF d] skip_blanks_Cons [OF q] string_body_length [OF k]
    by simp
  then show ?case using 6(3) 6(2) [OF s _ k refl d _ v refl q]
    by (fastforce simp: s k d v q split: if_splits)
qed auto

lemma json_fuel_free:
  "(2 * length s < m \<longrightarrow> 2 * length s < n \<longrightarrow> json_value m s = (json_value n s :: ('d jsval \<times> string) option)) \<and>
   (Suc (2 * length s) < m \<longrightarrow> Suc (2 * length s) < n \<longrightarrow>
     json_items m s = (json_items n s :: ('d jsval list \<times> string) option)) \<and>
   (2 * length s < m \<longrightarrow> 2 * length s < n \<longrightarrow>
     json_fields m s = (json_fields n s :: ((string \<times> 'd jsval) list \<times> string) option))"
proof (induction s arbitrary: m n rule: length_induct)
  case (1 s)
  have val: "json_value m t = (json_value n t :: ('d jsval \<times> string) option)"
    if "length t < length s" "2 * length t < m" "2 * length t < n" for t m n using 1 that by blast
  have its: "json_items m t = (json_items n t :: ('d jsval list \<times> string) option)"
    if "length t < length s" "Suc (2 * length t) < m" "Suc (2 * length t) < n" for t m n using 1 that by blast
  have fls: "json_fields m t = (json_fields n t :: ((string \<times> 'd jsval) list \<times> string) option)"
    if "length t < length s" "2 * length t < m" "2 * length t < n" for t m n using 1 that by blast
  have v: "json_value m s = (json_value n s :: ('d jsval \<times> string) option)"
    if mn: "2 * length s < m" "2 * length s < n" for m n
  proof (cases m; cases n)
    fix k l assume kl: "m = Suc k" "n = Suc l"
    show ?thesis
    proof (cases "skip_blanks s")
      case (Cons c r)
      have r: "length r < length s" using skip_blanks_Cons [OF Cons] .
      then show ?thesis using mn its [OF r, of k l] fls [OF r, of k l] by (cases "skip_blanks r") (simp_all add: kl Cons)
    qed (simp add: kl)
  qed (use mn in auto)
  have i: "json_items m s = (json_items n s :: ('d jsval list \<times> string) option)"
    if mn: "Suc (2 * length s) < m" "Suc (2 * length s) < n" for m n
  proof (cases m; cases n)
    fix k l assume kl: "m = Suc k" "n = Suc l"
    have vv: "json_value k s = (json_value l s :: ('d jsval \<times> string) option)" using mn by (intro v) (simp_all add: kl)
    show ?thesis
    proof (cases "json_value l s :: ('d jsval \<times> string) option")
      case (Some y)
      then obtain x r where y: "json_value l s = Some (x :: 'd jsval, r)" by (cases y) auto
      show ?thesis
      proof (cases "skip_blanks r")
        case (Cons c q)
        have q: "length q < length s" using skip_blanks_Cons [OF Cons] json_length(1) [OF y] by simp
        then show ?thesis using mn its [OF q, of k l] by (simp add: kl vv y Cons)
      qed (simp add: kl vv y)
    qed (simp add: kl vv)
  qed (use mn in auto)
  have f: "json_fields m s = (json_fields n s :: ((string \<times> 'd jsval) list \<times> string) option)"
    if mn: "2 * length s < m" "2 * length s < n" for m n
  proof (cases m; cases n)
    fix k l assume kl: "m = Suc k" "n = Suc l"
    show ?thesis
    proof (cases "skip_blanks s")
      case (Cons a b)
      note s = Cons
      show ?thesis
      proof (cases "string_body b")
        case (Some y)
        then obtain key d where y: "string_body b = Some (key, d)" by (cases y) auto
        show ?thesis
        proof (cases "skip_blanks d")
          case (Cons e t)
          have t: "length t < length s"
            using skip_blanks_Cons [OF s] string_body_length [OF y] skip_blanks_Cons [OF Cons] by simp
          then have vv: "json_value k t = (json_value l t :: ('d jsval \<times> string) option)"
            using mn by (intro val) (simp_all add: kl)
          show ?thesis
          proof (cases "json_value l t :: ('d jsval \<times> string) option")
            case (Some z)
            then obtain x r where z: "json_value l t = Some (x :: 'd jsval, r)" by (cases z) auto
            show ?thesis
            proof (cases "skip_blanks r")
              case c: (Cons c q)
              have q: "length q < length s" using skip_blanks_Cons [OF c] json_length(1) [OF z] t by simp
              then show ?thesis using mn fls [OF q, of k l] by (simp add: kl s y Cons vv z c)
            qed (simp add: kl s y Cons vv z)
          qed (simp add: kl s y Cons vv)
        qed (simp add: kl s y)
      qed (simp add: kl s)
    qed (simp add: kl)
  qed (use mn in auto)
  show ?case using v i f by blast
qed

text \<open>The parser as equations without fuel.\<close>

definition value_at :: "string \<Rightarrow> ('d jsval \<times> string) option" where
  "value_at s = json_value (json_fuel s) s"

definition items_at :: "string \<Rightarrow> ('d jsval list \<times> string) option" where
  "items_at s = json_items (Suc (json_fuel s)) s"

definition fields_at :: "string \<Rightarrow> ((string \<times> 'd jsval) list \<times> string) option" where
  "fields_at s = json_fields (json_fuel s) s"

lemma enough_fuel:
  "2 * length s < n \<Longrightarrow> json_value n s = value_at s"
  "Suc (2 * length s) < n \<Longrightarrow> json_items n s = items_at s"
  "2 * length s < n \<Longrightarrow> json_fields n s = fields_at s"
  unfolding value_at_def items_at_def fields_at_def json_fuel_def
  by (rule json_fuel_free [THEN conjunct1, rule_format] json_fuel_free [THEN conjunct2, THEN conjunct1, rule_format]
      json_fuel_free [THEN conjunct2, THEN conjunct2, rule_format]; simp)+

lemma json_equations:
  "value_at s =
     (case skip_blanks s of [] \<Rightarrow> None
      | c # r \<Rightarrow>
          if c = CHR 0x22 then map_option (\<lambda>(t, q). (JStr t, q)) (string_body r)
          else if c = CHR ''['' then
            (case skip_blanks r of d # q \<Rightarrow> if d = CHR '']'' then Some (JArr [], q)
                 else map_option (\<lambda>(xs, q). (JArr xs, q)) (items_at r)
             | [] \<Rightarrow> None)
          else if c = CHR ''{'' then
            (case skip_blanks r of d # q \<Rightarrow> if d = CHR ''}'' then Some (JObj [], q)
                 else map_option (\<lambda>(kvs, q). (object_of kvs, q)) (fields_at r)
             | [] \<Rightarrow> None)
          else json_atom (c # r))"
  "items_at s =
     (case (value_at s :: ('d jsval \<times> string) option) of None \<Rightarrow> None
      | Some (x, r) \<Rightarrow>
          (case skip_blanks r of [] \<Rightarrow> None
           | c # q \<Rightarrow>
               if c = CHR '']'' then Some ([x], q)
               else if c = CHR '','' then map_option (\<lambda>(xs, t). (x # xs, t)) (items_at q)
               else None))"
proof -
  show "value_at s = (case skip_blanks s of [] \<Rightarrow> None
      | c # r \<Rightarrow>
          if c = CHR 0x22 then map_option (\<lambda>(t, q). (JStr t, q)) (string_body r)
          else if c = CHR ''['' then
            (case skip_blanks r of d # q \<Rightarrow> if d = CHR '']'' then Some (JArr [], q)
                 else map_option (\<lambda>(xs, q). (JArr xs, q)) (items_at r)
             | [] \<Rightarrow> None)
          else if c = CHR ''{'' then
            (case skip_blanks r of d # q \<Rightarrow> if d = CHR ''}'' then Some (JObj [], q)
                 else map_option (\<lambda>(kvs, q). (object_of kvs, q)) (fields_at r)
             | [] \<Rightarrow> None)
          else json_atom (c # r))"
  proof (cases "skip_blanks s")
    case (Cons c r)
    then have "Suc (2 * length r) < 2 * length s" using skip_blanks_Cons [OF Cons] by simp
    then show ?thesis by (cases "skip_blanks r") (simp_all add: value_at_def [of s] json_fuel_def Cons enough_fuel)
  qed (simp add: value_at_def json_fuel_def)
  show "items_at s = (case (value_at s :: ('d jsval \<times> string) option) of None \<Rightarrow> None
      | Some (x, r) \<Rightarrow>
          (case skip_blanks r of [] \<Rightarrow> None
           | c # q \<Rightarrow>
               if c = CHR '']'' then Some ([x], q)
               else if c = CHR '','' then map_option (\<lambda>(xs, t). (x # xs, t)) (items_at q)
               else None))"
  proof (cases "value_at s :: ('d jsval \<times> string) option")
    case (Some y)
    then obtain x :: "'d jsval" and r where y: "value_at s = Some (x, r)" by (cases y) auto
    show ?thesis
    proof (cases "skip_blanks r")
      case (Cons c q)
      have "length r < length s" using y by (simp add: value_at_def json_length(1))
      then have "Suc (2 * length q) < json_fuel s" using skip_blanks_Cons [OF Cons] by (simp add: json_fuel_def)
      then show ?thesis using y Cons by (simp add: items_at_def [of s] enough_fuel value_at_def [symmetric])
    qed (use y in \<open>simp add: items_at_def [of s] value_at_def\<close>)
  qed (simp add: items_at_def value_at_def)
qed

lemma fields_equation:
  "fields_at s =
     (case skip_blanks s of [] \<Rightarrow> None
      | a # b \<Rightarrow>
          if a \<noteq> CHR 0x22 then None
          else
            (case string_body b of None \<Rightarrow> None
             | Some (k, d) \<Rightarrow>
                 (case skip_blanks d of [] \<Rightarrow> None
                  | e # f \<Rightarrow>
                      if e \<noteq> CHR '':'' then None
                      else
                        (case (value_at f :: ('d jsval \<times> string) option) of None \<Rightarrow> None
                         | Some (x, r) \<Rightarrow>
                             (case skip_blanks r of [] \<Rightarrow> None
                              | c # q \<Rightarrow>
                                  if c = CHR ''}'' then Some ([(k, x)], q)
                                  else if c = CHR '','' then map_option (\<lambda>(kvs, t). ((k, x) # kvs, t)) (fields_at q)
                                  else None)))))"
proof (cases "skip_blanks s")
  case s: (Cons a b)
  show ?thesis
  proof (cases "string_body b")
    case (Some y)
    then obtain k d where y: "string_body b = Some (k, d)" by (cases y) auto
    show ?thesis
    proof (cases "skip_blanks d")
      case d: (Cons e f)
      have f: "length f < length s" using skip_blanks_Cons [OF s] string_body_length [OF y] skip_blanks_Cons [OF d] by simp
      then have v: "json_value (2 * length s) f = (value_at f :: ('d jsval \<times> string) option)" by (simp add: enough_fuel)
      show ?thesis
      proof (cases "value_at f :: ('d jsval \<times> string) option")
        case (Some z)
        then obtain x :: "'d jsval" and r where z: "value_at f = Some (x, r)" by (cases z) auto
        show ?thesis
        proof (cases "skip_blanks r")
          case r: (Cons c q)
          have "length r < length f" using z by (simp add: value_at_def json_length(1))
          then have "2 * length q < 2 * length s" using skip_blanks_Cons [OF r] f by simp
          then show ?thesis using s y d v z r by (simp add: fields_at_def [of s] json_fuel_def enough_fuel)
        qed (use s y d v z in \<open>simp add: fields_at_def [of s] json_fuel_def\<close>)
      qed (use s y d v in \<open>simp add: fields_at_def [of s] json_fuel_def\<close>)
    qed (use s y in \<open>simp add: fields_at_def [of s] json_fuel_def\<close>)
  qed (use s in \<open>simp add: fields_at_def [of s] json_fuel_def\<close>)
qed (simp add: fields_at_def json_fuel_def)

subsection \<open>Parsing canonical bytes\<close>

lemma string_char_json: "string_char (json_char c @ r) = Some (c, r)"
proof -
  consider (special) "c \<in> {CHR 0x22, CHR 0x5C, CHR 0x08, CHR 0x0C, CHR 0x0A, CHR 0x0D, CHR 0x09}"
    | (control) "c \<notin> {CHR 0x22, CHR 0x5C, CHR 0x08, CHR 0x0C, CHR 0x0A, CHR 0x0D, CHR 0x09}" "code_of c < 32"
    | (plain) "c \<notin> {CHR 0x22, CHR 0x5C, CHR 0x08, CHR 0x0C, CHR 0x0A, CHR 0x0D, CHR 0x09}" "\<not> code_of c < 32"
    by blast
  then show ?thesis
  proof cases
    case special
    then show ?thesis unfolding insert_iff empty_iff
      by (elim disjE FalseE) (simp_all add: json_char_def string_char_def)
  next
    case control
    have j: "json_char c = [CHR 0x5C, CHR ''u'', CHR ''0'', CHR ''0'', hex_char (code_of c div 16), hex_char (code_of c mod 16)]"
      using control by (simp only: json_char_def insert_iff empty_iff de_Morgan_disj simp_thms if_False if_True)
    have hex: "hex_digit (hex_char n) = Some n" if "0 \<le> n" "n < 16" for n
      using that by (auto simp: hex_digit_def hex_char_def digit_simps) (auto simp: is_digit_def)
    have "code_of c div 16 < 16" "0 \<le> code_of c div 16" "code_of c mod 16 < 16" "0 \<le> code_of c mod 16"
      using control(2) code_of_nonneg [of c] by simp_all
    moreover have "16 * (code_of c div 16) + code_of c mod 16 = code_of c" by simp
    moreover have "hex_digit (CHR ''0'') = Some 0" by (simp add: hex_digit_def is_digit_def digit_val_def)
    ultimately show ?thesis unfolding j by (simp add: string_char_def unicode_escape_def hex)
  next
    case plain
    have j: "json_char c = [c]"
      using plain by (simp only: json_char_def insert_iff empty_iff de_Morgan_disj simp_thms if_False)
    have "c \<noteq> CHR 0x5C" using plain(1) by blast
    then show ?thesis unfolding j string_char_def using plain(2) by simp
  qed
qed

lemma string_body_json: "string_body (concat (map json_char s) @ CHR 0x22 # r) = Some (s, r)"
proof (induction s)
  case (Cons c s)
  obtain x y where xy: "json_char c @ concat (map json_char s) @ CHR 0x22 # r = x # y"
    by (cases "json_char c @ concat (map json_char s) @ CHR 0x22 # r") auto
  then have "x \<noteq> CHR 0x22" using json_char_not_quote by metis
  then have "string_body (x # y) = map_option (\<lambda>(xs, t). (c # xs, t)) (string_body (concat (map json_char s) @ CHR 0x22 # r))"
    using string_char_json [of c "concat (map json_char s) @ CHR 0x22 # r"] by (simp add: xy string_body.simps [of "x # y"])
  then show ?case using Cons.IH by (simp flip: xy)
qed (simp add: string_body.simps)

lemma takeWhile_digits: "list_all is_digit xs \<Longrightarrow> stops r \<Longrightarrow> takeWhile is_digit (xs @ r) = xs \<and> dropWhile is_digit (xs @ r) = r"
  using stops_not_digit [of r] by (induction xs) (cases r; auto)+

lemma json_number_int:
  assumes "stops r"
  shows "json_number (int_text n @ r) = Some (JInt n, r)"
proof -
  have rest: "fraction_part r = Some ([], r)" "exponent_part r = Some (0, r)"
    using assms by (cases r; auto simp: fraction_part_def exponent_part_def stops_def)+
  have number: "json_number (digits_of m @ r) = Some (JInt m, r)"
    "json_number (CHR ''-'' # digits_of m @ r) = Some (JInt (- m), r)" if m: "0 \<le> m" for m
  proof -
    have t: "takeWhile is_digit (digits_of m @ r) = digits_of m" "dropWhile is_digit (digits_of m @ r) = r"
      using takeWhile_digits [OF digits_of_digits [OF m] assms] by simp_all
    have z: "\<not> (Suc 0 < length (digits_of m) \<and> hd (digits_of m) = CHR ''0'')"
    proof -
      have "length (digits_of 0) = 1" by (subst digits_of.simps) simp
      then show ?thesis using digits_of_leading_zero [OF m] by auto
    qed
    obtain c q where c: "digits_of m = c # q" "is_digit c" using digits_of_first [OF m] by blast
    then have "c \<noteq> CHR ''-''" by (auto simp: is_digit_def)
    then have sign: "(case digits_of m @ r of c # q \<Rightarrow> if c = CHR ''-'' then (True, q) else (False, digits_of m @ r)
        | [] \<Rightarrow> (False, digits_of m @ r)) = (False, digits_of m @ r)"
      using c(1) by simp
    have whole: "number_of (scaled k (0 - int (length ([] :: string)))) = JInt k" for k
      by (simp add: number_of_def scaled_def)
    have one: "(digits_of m = [] \<or> 1 < length (digits_of m) \<and> hd (digits_of m) = CHR ''0'') = False"
      using z by simp
    show "json_number (digits_of m @ r) = Some (JInt m, r)"
      unfolding json_number_def sign Let_def prod.case t rest one if_False option.case append_Nil2 digits_value_of [OF m] whole ..
    have sign: "(case CHR ''-'' # digits_of m @ r of c # q \<Rightarrow> if c = CHR ''-'' then (True, q) else (False, CHR ''-'' # digits_of m @ r)
        | [] \<Rightarrow> (False, CHR ''-'' # digits_of m @ r)) = (True, digits_of m @ r)"
      by simp
    show "json_number (CHR ''-'' # digits_of m @ r) = Some (JInt (- m), r)"
      unfolding json_number_def sign Let_def prod.case t rest one if_False if_True option.case append_Nil2 digits_value_of [OF m] whole ..
  qed
  show ?thesis
  proof (cases "n < 0")
    case True
    then show ?thesis using number(2) [of "- n"] by (simp add: int_text_def)
  next
    case False
    then show ?thesis using number(1) [of n] by (simp add: int_text_def)
  qed
qed

text \<open>The JSON value of an abstract value; decimals are still tagged objects.\<close>

fun json_of :: "cval \<Rightarrow> 'd jsval" where
  "json_of CNull = JNull"
| "json_of (CBool b) = JBool b"
| "json_of (CInt n) = JInt n"
| "json_of (CText s) = JStr s"
| "json_of (CDec s) = JObj [(''$decimal'', JStr s)]"
| "json_of (CArr cs) = JArr (map json_of cs)"
| "json_of (CObj es) = JObj (map (\<lambda>e. (fst e, json_of (snd e))) es)"

fun distinct_keys :: "cval \<Rightarrow> bool" where
  "distinct_keys (CArr cs) \<longleftrightarrow> (\<forall>c \<in> set cs. distinct_keys c)"
| "distinct_keys (CObj es) \<longleftrightarrow> distinct (map fst es) \<and> (\<forall>e \<in> set es. distinct_keys (snd e))"
| "distinct_keys c \<longleftrightarrow> True"

lemma put_fields_distinct: "distinct (map fst (acc @ kvs)) \<Longrightarrow> fold put_field kvs acc = acc @ kvs"
  by (induction kvs arbitrary: acc) (auto simp: put_field_def)

lemma object_of_distinct: "distinct (map fst kvs) \<Longrightarrow> object_of kvs = JObj kvs"
  by (simp add: object_of_def put_fields_distinct)

lemma skip_blanks_not [simp]: "\<not> json_blank c \<Longrightarrow> skip_blanks (c # r) = c # r"
  by (simp add: skip_blanks_def)

lemma blank_chars [simp]: "\<not> json_blank (CHR '','')" "\<not> json_blank (CHR '']'')" "\<not> json_blank (CHR ''}'')"
  "\<not> json_blank (CHR ''['')" "\<not> json_blank (CHR ''{'')" "\<not> json_blank (CHR '':'')" "\<not> json_blank (CHR 0x22)"
  by (simp_all add: json_blank_def)

lemma kind_char_not_blank: "kind_char c x \<Longrightarrow> \<not> json_blank x"
  by (cases c) (auto simp: json_blank_def is_digit_def split: if_splits)

lemma skip_render [simp]: "skip_blanks (render c @ r) = render c @ r"
  using render_first [of c] kind_char_not_blank by fastforce

lemma items_rendered:
  assumes "\<And>c r. c \<in> set (c0 # cs) \<Longrightarrow> stops r \<Longrightarrow> value_at (render c @ r) = Some (json_of c :: 'd jsval, r)"
  shows "items_at (render c0 @ concat (map (\<lambda>c. '','' @ render c) cs) @ CHR '']'' # r) =
    Some (map json_of (c0 # cs) :: 'd jsval list, r)"
  using assms
proof (induction cs arbitrary: c0)
  case Nil
  then show ?case by (simp add: json_equations(2) [of "render c0 @ CHR '']'' # r"])
next
  case (Cons c cs)
  have "value_at (render c0 @ '','' @ render c @ concat (map (\<lambda>c. '','' @ render c) cs) @ CHR '']'' # r) =
      Some (json_of c0 :: 'd jsval, '','' @ render c @ concat (map (\<lambda>c. '','' @ render c) cs) @ CHR '']'' # r)"
    using Cons.prems by simp
  then show ?case
    using Cons.IH [of c] Cons.prems
    by (simp add: json_equations(2) [of "render c0 @ CHR '','' # render c @ concat (map (\<lambda>c. CHR '','' # render c) cs) @ CHR '']'' # r"])
qed

abbreviation render_field :: "string \<times> cval \<Rightarrow> string" where
  "render_field e \<equiv> json_string (fst e) @ CHR '':'' # render (snd e)"

lemma fields_rendered:
  assumes "\<And>e r. e \<in> set (e0 # es) \<Longrightarrow> stops r \<Longrightarrow> value_at (render (snd e) @ r) = Some (json_of (snd e) :: 'd jsval, r)"
  shows "fields_at (render_field e0 @ concat (map (\<lambda>e. '','' @ render_field e) es) @ CHR ''}'' # r) =
    Some (map (\<lambda>e. (fst e, json_of (snd e) :: 'd jsval)) (e0 # es), r)"
  using assms
proof (induction es arbitrary: e0)
  case Nil
  then show ?case
    using string_body_json [of "fst e0" "CHR '':'' # render (snd e0) @ CHR ''}'' # r"]
    by (simp add: json_string_def fields_equation [of "CHR 0x22 # concat (map json_char (fst e0)) @ CHR 0x22 # CHR '':'' # render (snd e0) @ CHR ''}'' # r"])
next
  case (Cons e es)
  define rest where "rest = render_field e @ concat (map (\<lambda>e. '','' @ render_field e) es) @ CHR ''}'' # r"
  have "value_at (render (snd e0) @ CHR '','' # rest) = Some (json_of (snd e0) :: 'd jsval, CHR '','' # rest)"
    using Cons.prems by simp
  moreover have "fields_at rest = Some (map (\<lambda>e. (fst e, json_of (snd e) :: 'd jsval)) (e # es), r)"
    unfolding rest_def using Cons.prems by (intro Cons.IH) simp
  moreover have "render_field e0 @ concat (map (\<lambda>e. '','' @ render_field e) (e # es)) @ CHR ''}'' # r =
      CHR 0x22 # concat (map json_char (fst e0)) @ CHR 0x22 # CHR '':'' # render (snd e0) @ CHR '','' # rest"
    by (simp add: rest_def json_string_def)
  ultimately show ?case
    using string_body_json [of "fst e0" "CHR '':'' # render (snd e0) @ CHR '','' # rest"]
    by (simp add: fields_equation [of "CHR 0x22 # _"])
qed

lemma value_rendered: "distinct_keys c \<Longrightarrow> stops r \<Longrightarrow> value_at (render c @ r) = Some (json_of c :: 'd jsval, r)"
proof (induction c arbitrary: r rule: render.induct)
  case (3 n)
  obtain x y where xy: "int_text n @ r = x # y" "x = CHR ''-'' \<or> is_digit x" using int_text_first [of n] by fastforce
  then have "x \<noteq> CHR 0x22" "x \<noteq> CHR ''[''" "x \<noteq> CHR ''{''" "\<not> json_blank x" "x \<noteq> CHR ''n''" "x \<noteq> CHR ''t''" "x \<noteq> CHR ''f''"
    by (auto simp: is_digit_def json_blank_def)
  then show ?case using json_number_int [OF 3(2), of n] by (simp add: json_equations(1) xy json_atom_def)
next
  case (4 s)
  then show ?case using string_body_json [of s r] by (simp add: json_string_def json_equations(1))
next
  case (5 s)
  then show ?case
    using string_body_json [of "''$decimal''" "CHR '':'' # json_string s @ CHR ''}'' # r"] string_body_json [of s "CHR ''}'' # r"]
    by (simp add: json_string_def json_equations(1) [of "CHR 0x22 # _"] json_equations(1) [of "CHR ''{'' # _"]
        fields_equation [of "CHR 0x22 # _"] object_of_distinct)
next
  case (6 cs)
  show ?case
  proof (cases cs)
    case (Cons c0 cs')
    have "items_at (render c0 @ concat (map (\<lambda>c. '','' @ render c) cs') @ CHR '']'' # r) = Some (map json_of (c0 # cs') :: 'd jsval list, r)"
      using 6 Cons by (intro items_rendered) auto
    moreover obtain x y where "render c0 = x # y" "kind_char c0 x" using render_first by blast
    ultimately show ?thesis using kind_char_stops [of c0 x] kind_char_not_blank [of c0 x]
      by (simp add: json_equations(1) Cons comp_def)
  qed (simp add: json_equations(1))
next
  case (7 es)
  show ?case
  proof (cases es)
    case (Cons e0 es')
    have "fields_at (render_field e0 @ concat (map (\<lambda>e. '','' @ render_field e) es') @ CHR ''}'' # r) =
        Some (map (\<lambda>e. (fst e, json_of (snd e) :: 'd jsval)) (e0 # es'), r)"
    proof (rule fields_rendered)
      fix e r assume "e \<in> set (e0 # es')" "stops r"
      then show "value_at (render (snd e) @ r) = Some (json_of (snd e) :: 'd jsval, r)"
        using 7(2) Cons by (intro 7(1)) auto
    qed
    moreover have "object_of (map (\<lambda>e. (fst e, json_of (snd e) :: 'd jsval)) es) = JObj (map (\<lambda>e. (fst e, json_of (snd e))) es)"
      using 7(2) by (intro object_of_distinct) (simp add: comp_def)
    ultimately show ?thesis by (simp add: json_equations(1) Cons comp_def json_string_def)
  qed (simp add: json_equations(1))
qed (simp_all add: json_equations(1) json_atom_def json_blank_def)

lemma json_parse_rendered: "distinct_keys c \<Longrightarrow> json_parse (render c) = Some (json_of c :: 'd jsval)"
  using value_rendered [of c "[]", where 'd = 'd] by (simp add: json_parse_def value_at_def skip_blanks_def)

end
