(* ===== verification/Accounting.thy ===== *)
theory Accounting
  imports Validation
begin

text \<open>
  \<open>domain/accounting/fill.ts\<close>, \<open>fee.ts\<close>, \<open>funding.ts\<close> and \<open>ledger-entry.ts\<close>: facts of the account's
  history as validated records. Any invalid field is one error.

  Shown here: an accepted fill trades a positive quantity at a positive price, an accepted fee
  is not negative, and every fact carries identifiers and a canonical instant.
\<close>

datatype fee_kind = TradingFee | SettlementFee

datatype ledger_event_kind = FillEvent | FeeEvent | FundingEvent | CashAdjustment

datatype fill_side = FillBuy | FillSell

record 'd fee =
  fe_feeId :: string
  fe_amount :: 'd
  fe_currency :: string
  fe_kind :: fee_kind
  fe_chargedAt :: string
  fe_source :: string

record 'd fill =
  fi_fillId :: string
  fi_attemptId :: string
  fi_exchangeOrderId :: string
  fi_instrument :: string
  fi_side :: fill_side
  fi_quantity :: 'd
  fi_price :: 'd
  fi_executedAt :: string
  fi_source :: string

record 'd funding =
  fu_fundingId :: string
  fu_amount :: 'd
  fu_currency :: string
  fu_occurredAt :: string
  fu_source :: string

record 'd ledger_entry =
  le_entryId :: string
  le_kind :: ledger_event_kind
  le_amount :: 'd
  le_currency :: string
  le_occurredAt :: string
  le_source :: string
  le_referenceId :: string

definition create_fee :: "'d lib \<Rightarrow> 'd jsval \<Rightarrow> 'd fee result" where
  "create_fee L input =
     guard INVALID_ACCOUNTING (is_record input) (
     need INVALID_ACCOUNTING (require_identifier (get input ''feeId'') ''feeId'') (\<lambda>feeId.
     need INVALID_ACCOUNTING (dec_from_string L (get input ''amount'')) (\<lambda>amount.
     need INVALID_ACCOUNTING (require_identifier (get input ''currency'') ''currency'') (\<lambda>currency.
     need INVALID_ACCOUNTING (parse_utc_timestamp (get input ''chargedAt'')) (\<lambda>chargedAt.
     need INVALID_ACCOUNTING (require_safe_text (get input ''source'') ''source'') (\<lambda>source.
     guard INVALID_ACCOUNTING (\<not> is_negative L amount) (
     need_some INVALID_ACCOUNTING
       (case get input ''kind'' of
          JStr s \<Rightarrow> if s = ''trading'' then Some TradingFee else if s = ''settlement'' then Some SettlementFee else None
        | _ \<Rightarrow> None) (\<lambda>kind.
     Ok \<lparr>fe_feeId = feeId, fe_amount = amount, fe_currency = currency, fe_kind = kind, fe_chargedAt = chargedAt,
         fe_source = source\<rparr>))))))))"

definition create_fill :: "'d lib \<Rightarrow> 'd jsval \<Rightarrow> 'd fill result" where
  "create_fill L input =
     guard INVALID_ACCOUNTING (is_record input) (
     need INVALID_ACCOUNTING (require_identifier (get input ''fillId'') ''fillId'') (\<lambda>fillId.
     need INVALID_ACCOUNTING (require_identifier (get input ''attemptId'') ''attemptId'') (\<lambda>attemptId.
     need INVALID_ACCOUNTING (require_identifier (get input ''exchangeOrderId'') ''exchangeOrderId'') (\<lambda>exchangeOrderId.
     need INVALID_ACCOUNTING (require_identifier (get input ''instrument'') ''instrument'') (\<lambda>instrument.
     need INVALID_ACCOUNTING (dec_from_string L (get input ''quantity'')) (\<lambda>quantity.
     need INVALID_ACCOUNTING (dec_from_string L (get input ''price'')) (\<lambda>price.
     need INVALID_ACCOUNTING (parse_utc_timestamp (get input ''executedAt'')) (\<lambda>executedAt.
     need INVALID_ACCOUNTING (require_safe_text (get input ''source'') ''source'') (\<lambda>source.
     need_some INVALID_ACCOUNTING
       (case get input ''side'' of
          JStr s \<Rightarrow> if s = ''buy'' then Some FillBuy else if s = ''sell'' then Some FillSell else None | _ \<Rightarrow> None) (\<lambda>side.
     guard INVALID_ACCOUNTING (is_positive L quantity \<and> is_positive L price) (
     Ok \<lparr>fi_fillId = fillId, fi_attemptId = attemptId, fi_exchangeOrderId = exchangeOrderId, fi_instrument = instrument,
         fi_side = side, fi_quantity = quantity, fi_price = price, fi_executedAt = executedAt, fi_source = source\<rparr>)))))))))))"

definition create_funding :: "'d lib \<Rightarrow> 'd jsval \<Rightarrow> 'd funding result" where
  "create_funding L input =
     guard INVALID_ACCOUNTING (is_record input) (
     need INVALID_ACCOUNTING (require_identifier (get input ''fundingId'') ''fundingId'') (\<lambda>fundingId.
     need INVALID_ACCOUNTING (dec_from_string L (get input ''amount'')) (\<lambda>amount.
     need INVALID_ACCOUNTING (require_identifier (get input ''currency'') ''currency'') (\<lambda>currency.
     need INVALID_ACCOUNTING (parse_utc_timestamp (get input ''occurredAt'')) (\<lambda>occurredAt.
     need INVALID_ACCOUNTING (require_safe_text (get input ''source'') ''source'') (\<lambda>source.
     Ok \<lparr>fu_fundingId = fundingId, fu_amount = amount, fu_currency = currency, fu_occurredAt = occurredAt,
         fu_source = source\<rparr>))))))"

definition create_ledger_entry :: "'d lib \<Rightarrow> 'd jsval \<Rightarrow> 'd ledger_entry result" where
  "create_ledger_entry L input =
     guard INVALID_ACCOUNTING (is_record input) (
     need INVALID_ACCOUNTING (require_identifier (get input ''entryId'') ''entryId'') (\<lambda>entryId.
     need INVALID_ACCOUNTING (dec_from_string L (get input ''amount'')) (\<lambda>amount.
     need INVALID_ACCOUNTING (require_identifier (get input ''currency'') ''currency'') (\<lambda>currency.
     need INVALID_ACCOUNTING (parse_utc_timestamp (get input ''occurredAt'')) (\<lambda>occurredAt.
     need INVALID_ACCOUNTING (require_identifier (get input ''source'') ''source'') (\<lambda>source.
     need INVALID_ACCOUNTING (require_identifier (get input ''referenceId'') ''referenceId'') (\<lambda>referenceId.
     need_some INVALID_ACCOUNTING
       (case get input ''kind'' of
          JStr s \<Rightarrow> if s = ''fill'' then Some FillEvent else if s = ''fee'' then Some FeeEvent
            else if s = ''funding'' then Some FundingEvent else if s = ''cash-adjustment'' then Some CashAdjustment else None
        | _ \<Rightarrow> None) (\<lambda>kind.
     Ok \<lparr>le_entryId = entryId, le_kind = kind, le_amount = amount, le_currency = currency, le_occurredAt = occurredAt,
         le_source = source, le_referenceId = referenceId\<rparr>))))))))"

context big_decimal
begin

lemma create_fill_facts:
  assumes "create_fill L input = Ok f"
  shows "0 < v (fi_quantity f) \<and> 0 < v (fi_price f) \<and> safe_identifier (fi_fillId f) \<and> safe_identifier (fi_attemptId f) \<and>
    safe_identifier (fi_exchangeOrderId f) \<and> (\<exists>e. instant (fi_executedAt f) e)"
  using assms by (auto simp: create_fill_def need_Ok_iff result_simps dest!: parse_utc_timestamp_Ok)

lemma create_fee_facts:
  assumes "create_fee L input = Ok f"
  shows "0 \<le> v (fe_amount f) \<and> safe_identifier (fe_feeId f) \<and> safe_identifier (fe_currency f) \<and>
    (\<exists>e. instant (fe_chargedAt f) e)"
  using assms by (auto simp: create_fee_def need_Ok_iff result_simps dest!: parse_utc_timestamp_Ok)

end

lemma create_funding_facts:
  assumes "create_funding L input = Ok f"
  shows "safe_identifier (fu_fundingId f) \<and> safe_identifier (fu_currency f) \<and> (\<exists>e. instant (fu_occurredAt f) e)"
  using assms by (auto simp: create_funding_def need_Ok_iff result_simps dest!: parse_utc_timestamp_Ok)

lemma create_ledger_entry_facts:
  assumes "create_ledger_entry L input = Ok f"
  shows "safe_identifier (le_entryId f) \<and> safe_identifier (le_referenceId f) \<and> (\<exists>e. instant (le_occurredAt f) e)"
  using assms by (auto simp: create_ledger_entry_def need_Ok_iff result_simps dest!: parse_utc_timestamp_Ok)

end
