(* ===== verification/Lifecycle.thy ===== *)
theory Lifecycle
  imports Execution
begin

text \<open>
  \<open>domain/execution/lifecycle.ts\<close> and \<open>lifecycle-proof.ts\<close>: the state machine of an approved plan,
  as the function the code has and as a step relation, with the contract of a machine that moves
  through ranked phases stated once as a locale.

  Shown here: the function and the relation agree, every run ends after a bounded number of steps
  in a state that can be left no more, identity and evidence never change, nothing is executed
  without an approval of this plan that was valid at that moment, and the outcome of a
  reconciliation is the one its results add up to.
\<close>

subsection \<open>Machines that move through phases\<close>

text \<open>
  Each step raises the rank, which is bounded: so runs are bounded, too. \<open>keeps\<close> is what no step
  changes.
\<close>

locale phased_machine =
  fixes step :: "'s \<Rightarrow> 'a \<Rightarrow> 's \<Rightarrow> bool" and rank :: "'s \<Rightarrow> nat" and top :: nat
    and keeps :: "'s \<Rightarrow> 'k"
  assumes step_rank: "step s a t \<Longrightarrow> rank s < rank t"
    and rank_top: "rank s \<le> top"
    and step_keeps: "step s a t \<Longrightarrow> keeps t = keeps s"
begin

inductive run :: "'s \<Rightarrow> 'a list \<Rightarrow> 's \<Rightarrow> bool" where
  run_Nil: "run s [] s"
| run_Cons: "step s a t \<Longrightarrow> run t as u \<Longrightarrow> run s (a # as) u"

lemma run_bounded: "run s as t \<Longrightarrow> rank s + length as \<le> rank t"
  by (induction rule: run.induct) (auto dest: step_rank)

lemma run_length: "run s as t \<Longrightarrow> length as \<le> top - rank s"
  using run_bounded [of s as t] rank_top [of t] by simp

lemma run_keeps: "run s as t \<Longrightarrow> keeps t = keeps s"
  by (induction rule: run.induct) (auto dest: step_keeps)

lemma top_stuck: "rank s = top \<Longrightarrow> \<not> step s a t"
  using step_rank [of s a t] rank_top [of t] by auto

lemma run_invariant:
  assumes "run s as t" "I s" "\<And>x a y. I x \<Longrightarrow> step x a y \<Longrightarrow> I y"
  shows "I t"
  using assms(1,2) by (induction rule: run.induct) (auto intro: assms(3))

lemma run_append: "run s as t \<Longrightarrow> run t bs u \<Longrightarrow> run s (as @ bs) u"
  by (induction rule: run.induct) (auto intro: run_Cons)

lemma run_append_cases:
  assumes "run s (as @ bs) u"
  obtains t where "run s as t" "run t bs u"
  using assms
proof (induction as arbitrary: s thesis)
  case Nil
  show ?case by (rule Nil.prems(1) [OF run_Nil]) (use Nil.prems(2) in simp)
next
  case (Cons a as)
  from Cons.prems(2) obtain t where "step s a t" "run t (as @ bs) u" by (auto elim: run.cases)
  moreover from this obtain r where "run t as r" "run r bs u" using Cons.IH by blast
  ultimately show ?case using Cons.prems(1) run_Cons by blast
qed

end

subsection \<open>States and transitions\<close>

datatype lifecycle_name =
    Draft | Validated | Blocked | ReadyForApproval | Approved | Executing
  | PendingReconciliation | Reconciled | Partial | Failed | Expired

record lifecycle_state =
  lc_state :: lifecycle_name
  lc_planHash :: string
  lc_intentIds :: "string list"
  lc_evidence :: "evidence_ref list"
  lc_approval :: "approval option"
  lc_produced :: bool

datatype lifecycle_transition =
    Validate | Block | MakeReady | Approve approval | BeginExecution | MarkPending
  | Reconcile "reconciliation_result list" | Expire

definition mark_lifecycle_state :: "lifecycle_state \<Rightarrow> lifecycle_state" where
  "mark_lifecycle_state s = s\<lparr>lc_produced := True\<rparr>"

definition is_produced_lifecycle_state :: "lifecycle_state \<Rightarrow> bool" where
  "is_produced_lifecycle_state s = lc_produced s"

text \<open>\<open>producedState\<close>, with the fields every transition copies from the current state.\<close>

definition produced_state :: "lifecycle_state \<Rightarrow> lifecycle_name \<Rightarrow> approval option \<Rightarrow> lifecycle_state" where
  "produced_state current name app = mark_lifecycle_state
     \<lparr>lc_state = name, lc_planHash = lc_planHash current, lc_intentIds = lc_intentIds current,
      lc_evidence = lc_evidence current, lc_approval = app, lc_produced = False\<rparr>"

definition create_lifecycle_state :: "'d execution_plan \<Rightarrow> lifecycle_state result" where
  "create_lifecycle_state plan =
     (if \<not> is_produced_execution_plan plan then Fail INVALID_PLAN
      else rbind (require_hash (JStr (ep_materialHash plan) :: unit jsval) ''planHash'') (\<lambda>planHash.
        let evidence = pc_evidence (pm_candidate (ep_material plan)) in
        if evidence = [] then Fail INVALID_EVIDENCE
        else Ok (mark_lifecycle_state
          \<lparr>lc_state = Draft, lc_planHash = planHash,
           lc_intentIds = intent_ids (pc_orderIntents (pm_candidate (ep_material plan))),
           lc_evidence = evidence, lc_approval = None, lc_produced = False\<rparr>)))"

definition lifecycle_names :: "(string \<times> lifecycle_name) list" where
  "lifecycle_names = [(''DRAFT'', Draft), (''VALIDATED'', Validated), (''BLOCKED'', Blocked),
     (''READY_FOR_APPROVAL'', ReadyForApproval), (''APPROVED'', Approved), (''EXECUTING'', Executing),
     (''PENDING_RECONCILIATION'', PendingReconciliation), (''RECONCILED'', Reconciled), (''PARTIAL'', Partial),
     (''FAILED'', Failed), (''EXPIRED'', Expired)]"

definition rehydrate_lifecycle_state :: "'d jsval \<Rightarrow> lifecycle_state result" where
  "rehydrate_lifecycle_state input =
     guard INVALID_TRANSITION (is_record input) (
     need INVALID_TRANSITION (require_hash (get input ''planHash'') ''planHash'') (\<lambda>planHash.
     need INVALID_TRANSITION (parse_evidence_list (get input ''evidence'')) (\<lambda>evidence.
     guard INVALID_TRANSITION (is_array (get input ''intentIds'')) (
     need INVALID_TRANSITION
       (traverse (\<lambda>i. require_identifier i ''intentId'') (elements (get input ''intentIds''))) (\<lambda>intentIds.
     need_some INVALID_TRANSITION (enum_of lifecycle_names (get input ''state'')) (\<lambda>name.
     rbind (optional create_approval (get input ''approval'')) (\<lambda>app.
     Ok (mark_lifecycle_state
       \<lparr>lc_state = name, lc_planHash = planHash, lc_intentIds = intentIds, lc_evidence = evidence,
        lc_approval = app, lc_produced = False\<rparr>))))))))"

text \<open>The loop of \<open>reconciliationState\<close>, with the results seen so far.\<close>

primrec check_results ::
  "lifecycle_state \<Rightarrow> reconciliation_result list \<Rightarrow> reconciliation_result list \<Rightarrow> unit result" where
  "check_results current seen [] = Ok ()"
| "check_results current seen (r # rs) =
     (if \<not> is_produced_reconciliation_result r then Fail INVALID_TRANSITION
      else if rr_planHash r \<noteq> lc_planHash current \<or> rr_intentId r \<notin> set (lc_intentIds current) \<or>
         rr_intentId r \<in> rr_intentId ` set seen \<or> rr_attemptId r \<in> rr_attemptId ` set seen \<or>
         rr_clientOrderId r \<in> rr_clientOrderId ` set seen \<or>
         (rr_exchangeOrderId r \<noteq> None \<and> rr_exchangeOrderId r \<in> rr_exchangeOrderId ` set seen)
      then Fail OWNERSHIP_MISMATCH
      else if rr_status r = RecPending \<or> rr_status r = RecUnresolved then Fail UNRESOLVED_RECONCILIATION
      else check_results current (r # seen) rs)"

definition reconciliation_state :: "lifecycle_state \<Rightarrow> reconciliation_result list \<Rightarrow> lifecycle_name result" where
  "reconciliation_state current results =
     (if length results \<noteq> length (lc_intentIds current) then Fail OWNERSHIP_MISMATCH
      else rbind (check_results current [] results) (\<lambda>_.
        if card (rr_intentId ` set results) \<noteq> card (set (lc_intentIds current)) then Fail OWNERSHIP_MISMATCH
        else if list_all (\<lambda>r. rr_status r = RecReconciled) results then Ok Reconciled
        else if list_all (\<lambda>r. rr_status r = RecFailed) results then Ok Failed
        else Ok Partial))"

definition transition_lifecycle :: "lifecycle_state \<Rightarrow> lifecycle_transition \<Rightarrow> string \<Rightarrow> lifecycle_state result" where
  "transition_lifecycle current transition now =
     (if \<not> is_produced_lifecycle_state current then Fail INVALID_TRANSITION
      else (case transition of
        Validate \<Rightarrow>
          if lc_state current \<noteq> Draft then Fail UNSUPPORTED_TRANSITION
          else Ok (produced_state current Validated None)
      | Block \<Rightarrow>
          if lc_state current \<noteq> Draft \<and> lc_state current \<noteq> Validated \<and> lc_state current \<noteq> ReadyForApproval
          then Fail UNSUPPORTED_TRANSITION
          else Ok (produced_state current Blocked None)
      | MakeReady \<Rightarrow>
          if lc_state current \<noteq> Validated then Fail UNSUPPORTED_TRANSITION
          else Ok (produced_state current ReadyForApproval None)
      | Approve app \<Rightarrow>
          if lc_state current \<noteq> ReadyForApproval then Fail UNSUPPORTED_TRANSITION
          else if apr_planHash app \<noteq> lc_planHash current then Fail PLAN_HASH_MISMATCH
          else rbind (validate_approval app (lc_planHash current) now) (\<lambda>valid.
            Ok (produced_state current Approved (Some valid)))
      | BeginExecution \<Rightarrow>
          (case (lc_state current, lc_approval current) of
             (Approved, Some app) \<Rightarrow>
               rbind (validate_approval app (lc_planHash current) now) (\<lambda>valid.
               rbind (require_fresh_evidence (lc_evidence current) now) (\<lambda>fresh.
               Ok (produced_state current Executing (Some app))))
           | _ \<Rightarrow> Fail UNSUPPORTED_TRANSITION)
      | MarkPending \<Rightarrow>
          if lc_state current \<noteq> Executing then Fail UNSUPPORTED_TRANSITION
          else Ok (produced_state current PendingReconciliation (lc_approval current))
      | Reconcile results \<Rightarrow>
          if lc_state current \<noteq> PendingReconciliation then Fail UNSUPPORTED_TRANSITION
          else rbind (reconciliation_state current results) (\<lambda>name.
            Ok (produced_state current name (lc_approval current)))
      | Expire \<Rightarrow>
          (case (lc_state current, lc_approval current) of
             (Approved, Some app) \<Rightarrow>
               if later_than (apr_expiresAt app) now then Fail UNSUPPORTED_TRANSITION
               else Ok (produced_state current Expired (Some app))
           | _ \<Rightarrow> Fail UNSUPPORTED_TRANSITION)))"

subsection \<open>The machine as a relation\<close>

text \<open>
  What the results of a reconciliation must be to close the lifecycle: produced, for this plan, one
  for each intent, from different attempts and orders, and all settled.
\<close>

definition settles :: "lifecycle_state \<Rightarrow> reconciliation_result list \<Rightarrow> bool" where
  "settles s results \<longleftrightarrow>
     mset (map rr_intentId results) = mset (lc_intentIds s) \<and> distinct (lc_intentIds s) \<and>
     distinct (map rr_attemptId results) \<and> distinct (map rr_clientOrderId results) \<and>
     distinct (filter (\<lambda>x. x \<noteq> None) (map rr_exchangeOrderId results)) \<and>
     (\<forall>r \<in> set results. rr_produced r \<and> rr_planHash r = lc_planHash s \<and>
       rr_status r \<in> {RecReconciled, RecPartial, RecFailed})"

definition outcome :: "reconciliation_result list \<Rightarrow> lifecycle_name" where
  "outcome results =
     (if \<forall>r \<in> set results. rr_status r = RecReconciled then Reconciled
      else if \<forall>r \<in> set results. rr_status r = RecFailed then Failed else Partial)"

inductive lifecycle_step :: "lifecycle_state \<Rightarrow> lifecycle_transition \<times> string \<Rightarrow> lifecycle_state \<Rightarrow> bool" where
  step_validate: "lc_produced s \<Longrightarrow> lc_state s = Draft \<Longrightarrow>
    lifecycle_step s (Validate, now) (s\<lparr>lc_state := Validated, lc_approval := None\<rparr>)"
| step_block: "lc_produced s \<Longrightarrow> lc_state s \<in> {Draft, Validated, ReadyForApproval} \<Longrightarrow>
    lifecycle_step s (Block, now) (s\<lparr>lc_state := Blocked, lc_approval := None\<rparr>)"
| step_ready: "lc_produced s \<Longrightarrow> lc_state s = Validated \<Longrightarrow>
    lifecycle_step s (MakeReady, now) (s\<lparr>lc_state := ReadyForApproval, lc_approval := None\<rparr>)"
| step_approve: "lc_produced s \<Longrightarrow> lc_state s = ReadyForApproval \<Longrightarrow> apr_planHash app = lc_planHash s \<Longrightarrow>
    validate_approval app (lc_planHash s) now = Ok valid \<Longrightarrow>
    lifecycle_step s (Approve app, now) (s\<lparr>lc_state := Approved, lc_approval := Some valid\<rparr>)"
| step_begin: "lc_produced s \<Longrightarrow> lc_state s = Approved \<Longrightarrow> lc_approval s = Some app \<Longrightarrow>
    validate_approval app (lc_planHash s) now = Ok valid \<Longrightarrow> \<forall>e \<in> set (lc_evidence s). is_evidence_fresh e now \<Longrightarrow>
    lifecycle_step s (BeginExecution, now) (s\<lparr>lc_state := Executing\<rparr>)"
| step_pending: "lc_produced s \<Longrightarrow> lc_state s = Executing \<Longrightarrow>
    lifecycle_step s (MarkPending, now) (s\<lparr>lc_state := PendingReconciliation\<rparr>)"
| step_reconcile: "lc_produced s \<Longrightarrow> lc_state s = PendingReconciliation \<Longrightarrow> settles s results \<Longrightarrow>
    lifecycle_step s (Reconcile results, now) (s\<lparr>lc_state := outcome results\<rparr>)"
| step_expire: "lc_produced s \<Longrightarrow> lc_state s = Approved \<Longrightarrow> lc_approval s = Some app \<Longrightarrow>
    \<not> later_than (apr_expiresAt app) now \<Longrightarrow>
    lifecycle_step s (Expire, now) (s\<lparr>lc_state := Expired\<rparr>)"

inductive_cases lifecycle_stepE: "lifecycle_step s a t"

inductive_simps lifecycle_step_simps:
  "lifecycle_step s (Validate, now) t" "lifecycle_step s (Block, now) t" "lifecycle_step s (MakeReady, now) t"
  "lifecycle_step s (Approve app, now) t" "lifecycle_step s (BeginExecution, now) t"
  "lifecycle_step s (MarkPending, now) t" "lifecycle_step s (Reconcile results, now) t"
  "lifecycle_step s (Expire, now) t"

text \<open>Keys that are new and different; the second form skips the absent ones.\<close>

definition new_keys :: "('r \<Rightarrow> 'k) \<Rightarrow> 'r list \<Rightarrow> 'r list \<Rightarrow> bool" where
  "new_keys f seen rs \<longleftrightarrow> distinct (map f rs) \<and> f ` set rs \<inter> f ` set seen = {}"

definition new_some_keys :: "('r \<Rightarrow> 'k option) \<Rightarrow> 'r list \<Rightarrow> 'r list \<Rightarrow> bool" where
  "new_some_keys f seen rs \<longleftrightarrow> distinct (filter (\<lambda>x. x \<noteq> None) (map f rs)) \<and>
     (\<forall>r \<in> set rs. f r \<noteq> None \<longrightarrow> f r \<notin> f ` set seen)"

lemma new_keys_simps [simp]:
  "new_keys f seen []" "new_keys f seen (r # rs) \<longleftrightarrow> f r \<notin> f ` set seen \<and> new_keys f (r # seen) rs"
  by (auto simp: new_keys_def)

lemma new_some_keys_simps [simp]:
  "new_some_keys f seen []"
  "new_some_keys f seen (r # rs) \<longleftrightarrow> (f r \<noteq> None \<longrightarrow> f r \<notin> f ` set seen) \<and> new_some_keys f (r # seen) rs"
proof -
  show "new_some_keys f seen (r # rs) \<longleftrightarrow> (f r \<noteq> None \<longrightarrow> f r \<notin> f ` set seen) \<and> new_some_keys f (r # seen) rs"
    unfolding new_some_keys_def by (cases "f r") (auto simp: image_iff)
qed (simp add: new_some_keys_def)

definition settled_result :: "lifecycle_state \<Rightarrow> reconciliation_result \<Rightarrow> bool" where
  "settled_result s r \<longleftrightarrow> rr_produced r \<and> rr_planHash r = lc_planHash s \<and> rr_intentId r \<in> set (lc_intentIds s) \<and>
     rr_status r \<in> {RecReconciled, RecPartial, RecFailed}"

lemma check_results_Ok:
  "check_results s seen rs = Inr () \<longleftrightarrow> list_all (settled_result s) rs \<and> new_keys rr_intentId seen rs \<and>
    new_keys rr_attemptId seen rs \<and> new_keys rr_clientOrderId seen rs \<and> new_some_keys rr_exchangeOrderId seen rs"
proof (induction rs arbitrary: seen)
  case Nil
  then show ?case by simp
next
  case (Cons r rs)
  have head: "check_results s seen (r # rs) = Inr () \<longleftrightarrow> settled_result s r \<and> rr_intentId r \<notin> rr_intentId ` set seen \<and>
      rr_attemptId r \<notin> rr_attemptId ` set seen \<and> rr_clientOrderId r \<notin> rr_clientOrderId ` set seen \<and>
      (rr_exchangeOrderId r \<noteq> None \<longrightarrow> rr_exchangeOrderId r \<notin> rr_exchangeOrderId ` set seen) \<and>
      check_results s (r # seen) rs = Inr ()"
    unfolding check_results.simps settled_result_def is_produced_reconciliation_result_def
    by (cases "rr_status r"; simp split: if_split del: not_None_eq; argo)
  show ?case
    unfolding head Cons.IH new_keys_simps new_some_keys_simps list.pred_inject by argo
qed

lemma reconciliation_state_Ok: "reconciliation_state s results = Inr name \<longleftrightarrow> settles s results \<and> name = outcome results"
proof -
  have name: "(if list_all (\<lambda>r. rr_status r = RecReconciled) results then Inr Reconciled
      else if list_all (\<lambda>r. rr_status r = RecFailed) results then Inr Failed else Inr Partial) = (Inr name :: lifecycle_name result)
      \<longleftrightarrow> name = outcome results"
    by (auto simp: outcome_def list_all_iff)
  have checked: "check_results s [] results = Inr () \<longleftrightarrow>
      (\<forall>r \<in> set results. rr_produced r \<and> rr_planHash r = lc_planHash s \<and> rr_status r \<in> {RecReconciled, RecPartial, RecFailed}) \<and>
      set (map rr_intentId results) \<subseteq> set (lc_intentIds s) \<and> distinct (map rr_intentId results) \<and>
      distinct (map rr_attemptId results) \<and> distinct (map rr_clientOrderId results) \<and>
      distinct (filter (\<lambda>x. x \<noteq> None) (map rr_exchangeOrderId results))"
    unfolding check_results_Ok new_keys_def new_some_keys_def settled_result_def list_all_iff by auto
  have cover: "length results = length (lc_intentIds s) \<and> set (map rr_intentId results) \<subseteq> set (lc_intentIds s) \<and>
      distinct (map rr_intentId results) \<and> card (set (map rr_intentId results)) = card (set (lc_intentIds s)) \<longleftrightarrow>
      mset (map rr_intentId results) = mset (lc_intentIds s) \<and> distinct (lc_intentIds s)" (is "?l \<longleftrightarrow> ?r")
  proof
    assume l: ?l
    then have "set (map rr_intentId results) = set (lc_intentIds s)" by (intro card_subset_eq) auto
    moreover have "distinct (lc_intentIds s)"
      using l distinct_card [of "map rr_intentId results"] by (intro card_distinct) simp
    ultimately show ?r using l set_eq_iff_mset_eq_distinct by blast
  next
    assume r: ?r
    then have "distinct (map rr_intentId results)" "set (map rr_intentId results) = set (lc_intentIds s)"
      using mset_eq_imp_distinct_iff mset_eq_setD by blast+
    moreover have "length results = length (lc_intentIds s)"
      using r mset_eq_length [of "map rr_intentId results" "lc_intentIds s"] by simp
    ultimately show ?l by simp
  qed
  have "reconciliation_state s results = Inr name \<longleftrightarrow>
      length results = length (lc_intentIds s) \<and> check_results s [] results = Inr () \<and>
      card (set (map rr_intentId results)) = card (set (lc_intentIds s)) \<and> name = outcome results"
    unfolding reconciliation_state_def name [symmetric] by (auto simp: rbind_Ok_iff)
  then show ?thesis
    unfolding settles_def checked using cover by blast
qed

lemma transition_step: "transition_lifecycle s a now = Inr t \<longleftrightarrow> lifecycle_step s (a, now) t"
proof -
  have upd: "produced_state s name app = s\<lparr>lc_state := name, lc_approval := app\<rparr>" if "lc_produced s" for name app
    using that by (cases s) (simp add: produced_state_def mark_lifecycle_state_def)
  have fresh: "require_fresh_evidence evs now = Inr xs \<longleftrightarrow> xs = evs \<and> (\<forall>e \<in> set evs. is_evidence_fresh e now)" for evs xs
    by (rule require_fresh_Ok)
  show ?thesis
  proof (cases "lc_produced s")
    case False
    then show ?thesis
      by (auto simp: transition_lifecycle_def is_produced_lifecycle_state_def elim: lifecycle_stepE)
  next
    case True
    then show ?thesis
    proof (cases a)
      case (Reconcile results)
      then show ?thesis using True
        by (auto simp: transition_lifecycle_def is_produced_lifecycle_state_def lifecycle_step_simps upd rbind_Ok_iff
            reconciliation_state_Ok)
    qed (cases "lc_state s"; cases "lc_approval s"; auto simp: transition_lifecycle_def is_produced_lifecycle_state_def
        lifecycle_step_simps upd rbind_Ok_iff fresh)+
  qed
qed

subsection \<open>Runs\<close>

fun phase :: "lifecycle_name \<Rightarrow> nat" where
  "phase Draft = 0"
| "phase Validated = 1"
| "phase ReadyForApproval = 2"
| "phase Approved = 3"
| "phase Executing = 4"
| "phase PendingReconciliation = 5"
| "phase _ = 6"

definition lifecycle_identity :: "lifecycle_state \<Rightarrow> string \<times> string list \<times> evidence_ref list \<times> bool" where
  "lifecycle_identity s = (lc_planHash s, lc_intentIds s, lc_evidence s, lc_produced s)"

interpretation lifecycle: phased_machine lifecycle_step "phase \<circ> lc_state" 6 lifecycle_identity
proof
  fix s a t
  assume "lifecycle_step s a t"
  then show "(phase \<circ> lc_state) s < (phase \<circ> lc_state) t" "lifecycle_identity t = lifecycle_identity s"
    by (auto elim!: lifecycle_stepE simp: lifecycle_identity_def outcome_def)
next
  show "(phase \<circ> lc_state) s \<le> 6" for s by (cases "lc_state s") simp_all
qed

text \<open>The transitions of one plan, each with the instant at which it is tried.\<close>

primrec run_lifecycle :: "lifecycle_state \<Rightarrow> (lifecycle_transition \<times> string) list \<Rightarrow> lifecycle_state result" where
  "run_lifecycle s [] = Ok s"
| "run_lifecycle s (x # xs) = rbind (transition_lifecycle s (fst x) (snd x)) (\<lambda>t. run_lifecycle t xs)"

lemma run_lifecycle_run: "run_lifecycle s xs = Inr t \<longleftrightarrow> lifecycle.run s xs t"
proof (induction xs arbitrary: s)
  case Nil
  then show ?case by (auto intro: lifecycle.run_Nil elim: lifecycle.run.cases)
next
  case (Cons x xs)
  then show ?case
    by (auto simp: rbind_Ok_iff transition_step intro: lifecycle.run_Cons elim: lifecycle.run.cases)
qed

lemma run_lifecycle_append:
  "run_lifecycle s (xs @ ys) = rbind (run_lifecycle s xs) (\<lambda>t. run_lifecycle t ys)"
proof (induction xs arbitrary: s)
  case (Cons x xs)
  then show ?case by (cases "transition_lifecycle s (fst x) (snd x)") simp_all
qed simp

subsection \<open>Approval before execution\<close>

definition past_approval :: "lifecycle_name set" where
  "past_approval = {Executing, PendingReconciliation, Reconciled, Partial, Failed}"

text \<open>What the history of a state says about its approval.\<close>

definition approved_history ::
  "string \<Rightarrow> evidence_ref list \<Rightarrow> (lifecycle_transition \<times> string) list \<Rightarrow> lifecycle_state \<Rightarrow> bool" where
  "approved_history h evidence xs s \<longleftrightarrow>
     (lc_state s = Approved \<longrightarrow> (\<exists>ys app n a. xs = ys @ [(Approve app, n)] \<and>
       validate_approval app h n = Ok a \<and> lc_approval s = Some a)) \<and>
     (lc_state s \<in> past_approval \<longrightarrow> (\<exists>ys app n m zs a. xs = ys @ (Approve app, n) # (BeginExecution, m) # zs \<and>
       validate_approval app h n = Ok a \<and> is_ok (validate_approval a h m) \<and>
       (\<forall>e \<in> set evidence. is_evidence_fresh e m) \<and> lc_approval s = Some a))"

lemma approved_history_step:
  assumes "approved_history h evidence xs s" "lifecycle_step s x t" "lc_planHash s = h" "lc_evidence s = evidence"
  shows "approved_history h evidence (xs @ [x]) t"
  using assms(2)
proof (cases rule: lifecycle_step.cases)
  case (step_begin app now valid)
  then obtain ys app' n where "xs = ys @ [(Approve app', n)]" "validate_approval app' h n = Inr app"
    using assms(1) by (auto simp: approved_history_def)
  then have "xs @ [x] = ys @ (Approve app', n) # (BeginExecution, now) # [] \<and> validate_approval app' h n = Inr app \<and>
      is_ok (validate_approval app h now) \<and> (\<forall>e \<in> set evidence. is_evidence_fresh e now) \<and> lc_approval t = Some app"
    using step_begin assms(3,4) by simp
  then have "\<exists>ys app n m zs a. xs @ [x] = ys @ (Approve app, n) # (BeginExecution, m) # zs \<and>
      validate_approval app h n = Inr a \<and> is_ok (validate_approval a h m) \<and>
      (\<forall>e \<in> set evidence. is_evidence_fresh e m) \<and> lc_approval t = Some a" by blast
  moreover have "lc_state t = Executing" using step_begin by simp
  ultimately show ?thesis unfolding approved_history_def by simp
next
  case (step_pending now)
  then show ?thesis using assms(1) by (fastforce simp: approved_history_def past_approval_def)
next
  case (step_reconcile results now)
  then show ?thesis using assms(1) by (fastforce simp: approved_history_def past_approval_def outcome_def)
qed (use assms in \<open>auto simp: approved_history_def past_approval_def\<close>)

lemma run_approved_history:
  assumes "run_lifecycle s0 xs = Inr s" "lc_state s0 = Draft"
  shows "approved_history (lc_planHash s0) (lc_evidence s0) xs s"
  using assms(1)
proof (induction xs arbitrary: s rule: rev_induct)
  case Nil
  then show ?case using assms(2) by (auto simp: approved_history_def past_approval_def)
next
  case (snoc x xs)
  then obtain r where r: "run_lifecycle s0 xs = Inr r" "lifecycle_step r x s"
    by (auto simp: run_lifecycle_append rbind_Ok_iff transition_step)
  have "lifecycle_identity r = lifecycle_identity s0"
    using lifecycle.run_keeps r(1) by (simp add: run_lifecycle_run)
  then show ?case
    using approved_history_step [OF snoc.IH [OF r(1)] r(2)] by (simp add: lifecycle_identity_def)
qed

lemma create_lifecycle_state_Ok:
  "create_lifecycle_state plan = Inr s \<Longrightarrow> lc_state s = Draft \<and> lc_planHash s = ep_materialHash plan \<and>
    lc_evidence s = pc_evidence (pm_candidate (ep_material plan)) \<and> lc_approval s = None \<and> lc_produced s \<and>
    lc_intentIds s = intent_ids (pc_orderIntents (pm_candidate (ep_material plan)))"
  by (auto simp: create_lifecycle_state_def rbind_Ok_iff mark_lifecycle_state_def Let_def split: if_split_asm)

lemma lifecycle_completes:
  assumes "create_lifecycle_state plan = Ok s0" "readable_approval app" "apr_planHash app = ep_materialHash plan"
    and "instant now n" "approval_opens app \<le> n" "n < approval_closes app"
    and "\<forall>e \<in> set (pc_evidence (pm_candidate (ep_material plan))). is_evidence_fresh e now"
    and "settles s0 results"
  shows "\<exists>s. run_lifecycle s0 [(Validate, now), (MakeReady, now), (Approve app, now), (BeginExecution, now),
      (MarkPending, now), (Reconcile results, now)] = Ok s \<and> lc_state s = outcome results"
proof -
  note s0 = create_lifecycle_state_Ok [OF assms(1)]
  have valid: "validate_approval app (lc_planHash s0) now = Inr app"
    using validate_approval_eq [OF assms(2,4)] assms(3,5,6) s0 by simp
  have fresh: "require_fresh_evidence (lc_evidence s0) now = Inr (lc_evidence s0)"
    using assms(7) s0 by (simp add: require_fresh_Ok)
  have settled: "settles (produced_state s0 PendingReconciliation (Some app)) results"
    using assms(8) by (simp add: settles_def produced_state_def mark_lifecycle_state_def)
  have outcome: "reconciliation_state (produced_state s0 PendingReconciliation (Some app)) results = Inr (outcome results)"
    using settled by (simp add: reconciliation_state_Ok)
  have chain: "produced_state (produced_state s0 name x) name' y = produced_state s0 name' y"
    "lc_state (produced_state s0 name x) = name" "lc_approval (produced_state s0 name x) = x"
    "lc_planHash (produced_state s0 name x) = lc_planHash s0" "lc_evidence (produced_state s0 name x) = lc_evidence s0"
    "is_produced_lifecycle_state (produced_state s0 name x)" "is_produced_lifecycle_state s0" for name name' x y
    using s0 by (simp_all add: produced_state_def mark_lifecycle_state_def is_produced_lifecycle_state_def)
  have moves: "transition_lifecycle s0 Validate now = Inr (produced_state s0 Validated None)"
    "transition_lifecycle (produced_state s0 Validated None) MakeReady now = Inr (produced_state s0 ReadyForApproval None)"
    "transition_lifecycle (produced_state s0 ReadyForApproval None) (Approve app) now =
      Inr (produced_state s0 Approved (Some app))"
    "transition_lifecycle (produced_state s0 Approved (Some app)) BeginExecution now =
      Inr (produced_state s0 Executing (Some app))"
    "transition_lifecycle (produced_state s0 Executing (Some app)) MarkPending now =
      Inr (produced_state s0 PendingReconciliation (Some app))"
    "transition_lifecycle (produced_state s0 PendingReconciliation (Some app)) (Reconcile results) now =
      Inr (produced_state s0 (outcome results) (Some app))"
    using s0 assms(3) valid fresh by (simp_all add: transition_lifecycle_def chain outcome)
  show ?thesis by (simp add: moves chain)
qed

subsection \<open>Properties\<close>

text \<open>
  Claim C25: \<open>transitionLifecycle\<close> performs exactly the steps of the relation: it returns a state if
  and only if the transition leads there from the current state at that instant, and its errors
  are all other transitions.
\<close>

theorem transition_refines_relation:
  "transition_lifecycle s a now = Ok t \<longleftrightarrow> lifecycle_step s (a, now) t"
  by (rule transition_step)

text \<open>
  Claim C23: a lifecycle ends: no sequence of transitions is longer than six, whatever state it
  starts in, and a reconciled, partial, failed, blocked or expired plan refuses every transition.
\<close>

theorem lifecycle_ends:
  "(run_lifecycle s xs = Ok t \<longrightarrow> length xs \<le> 6 - phase (lc_state s)) \<and>
   (lc_state s \<in> {Reconciled, Partial, Failed, Blocked, Expired} \<longrightarrow> transition_lifecycle s a now \<noteq> Ok t)"
  using lifecycle.run_length [of s xs t] lifecycle.top_stuck [of s "(a, now)" t]
  by (auto simp: run_lifecycle_run transition_step)

text \<open>
  Whatever happens to a plan's lifecycle, its hash, its intents and its evidence stay
  those of the plan.
\<close>

theorem lifecycle_identity_invariant:
  assumes "create_lifecycle_state plan = Ok s0" "run_lifecycle s0 xs = Ok s"
  shows "lc_planHash s = ep_materialHash plan \<and> lc_evidence s = pc_evidence (pm_candidate (ep_material plan)) \<and>
    lc_intentIds s = intent_ids (pc_orderIntents (pm_candidate (ep_material plan))) \<and> is_produced_lifecycle_state s"
  using create_lifecycle_state_Ok [OF assms(1)] lifecycle.run_keeps assms(2)
  by (auto simp: run_lifecycle_run lifecycle_identity_def is_produced_lifecycle_state_def)

text \<open>
  Claim C1: a plan that is executing, or got beyond, was approved immediately before execution began:
  by an approval of this very plan that was in its window when it was given and again when
  execution began, at which moment all of the plan's evidence was fresh.
\<close>

theorem executing_requires_valid_approval:
  assumes "create_lifecycle_state plan = Ok s0" "run_lifecycle s0 xs = Ok s" "lc_state s \<in> past_approval"
  shows "\<exists>ys app n m zs a. xs = ys @ (Approve app, n) # (BeginExecution, m) # zs \<and>
    validate_approval app (ep_materialHash plan) n = Ok a \<and> apr_planHash a = ep_materialHash plan \<and>
    is_ok (validate_approval a (ep_materialHash plan) m) \<and>
    (\<forall>e \<in> set (pc_evidence (pm_candidate (ep_material plan))). is_evidence_fresh e m) \<and> lc_approval s = Some a"
  using run_approved_history [OF assms(2)] create_lifecycle_state_Ok [OF assms(1)] assms(3)
  unfolding approved_history_def using validate_approval_Ok by metis

text \<open>
  Claim C24: the lifecycle can always be completed: a produced plan with evidence that is fresh when
  execution begins, a readable approval of its hash in its window, and results that settle its
  intents lead from \<open>DRAFT\<close> to the outcome of those results.
\<close>

theorem lifecycle_can_complete:
  assumes "create_lifecycle_state plan = Ok s0" "readable_approval app" "apr_planHash app = ep_materialHash plan"
    and "instant now n" "approval_opens app \<le> n" "n < approval_closes app"
    and "\<forall>e \<in> set (pc_evidence (pm_candidate (ep_material plan))). is_evidence_fresh e now"
    and "settles s0 results"
  shows "\<exists>s. run_lifecycle s0 [(Validate, now), (MakeReady, now), (Approve app, now), (BeginExecution, now),
      (MarkPending, now), (Reconcile results, now)] = Ok s \<and> lc_state s = outcome results"
  by (rule lifecycle_completes [OF assms])

definition sample_plan_approval :: "string \<Rightarrow> approval" where
  "sample_plan_approval hash = sample_approval\<lparr>apr_planHash := hash\<rparr>"

definition sample_plan_result :: "string \<Rightarrow> string \<Rightarrow> string \<Rightarrow> reconciliation_result" where
  "sample_plan_result hash leg suffix = \<lparr>rr_attemptId = ''at-'' @ suffix, rr_intentId = leg, rr_planHash = hash,
     rr_clientOrderId = ''c-'' @ suffix, rr_status = RecReconciled, rr_observedAt = ''2024-01-01T00:00:30.000Z'',
     rr_exchangeOrderId = Some (''x-'' @ suffix), rr_produced = True\<rparr>"

definition sample_transitions :: "string \<Rightarrow> (lifecycle_transition \<times> string) list" where
  "sample_transitions hash = map (\<lambda>a. (a, ''2024-01-01T00:00:00.000Z''))
     [Validate, MakeReady, Approve (sample_plan_approval hash), BeginExecution, MarkPending,
      Reconcile [sample_plan_result hash ''leg-1'' ''1'', sample_plan_result hash ''leg-2'' ''2'']]"

text \<open>A plan whose lifecycle can start, with an approval and results for it.\<close>

lemma sample_lifecycle_start:
  obtains plan s0 where "create_lifecycle_state (plan :: sdec execution_plan) = Ok s0"
    "readable_approval (sample_plan_approval (ep_materialHash plan))"
    "\<forall>e \<in> set (pc_evidence (pm_candidate (ep_material plan))). is_evidence_fresh e ''2024-01-01T00:00:00.000Z''"
    "settles s0 [sample_plan_result (ep_materialHash plan) ''leg-1'' ''1'', sample_plan_result (ep_materialHash plan) ''leg-2'' ''2'']"
proof -
  obtain d plan where "create_execution_plan ref_lib (JStr ''plan/v1'')
      \<lparr>pm_candidate = sample_candidate, pm_riskDecision = d\<rparr> JUndef = Ok plan"
    using sample_plan_created by blast
  note plan = create_execution_plan_Ok [OF this]
  have hash: "hash_text (ep_materialHash plan)"
    using plan(1) host.hash_canonical_text [OF ref_host] by (auto simp: wf_plan_def Let_def)
  have evidence: "pc_evidence sample_candidate \<noteq> []" by (simp add: sample_candidate_def sample_risk_evidence_def)
  obtain s0 where s0: "create_lifecycle_state plan = Inr s0"
    using plan(1,2) hash evidence
    by (simp add: create_lifecycle_state_def is_produced_execution_plan_def wf_plan_def Let_def)
  have ids: "intent_ids (pc_orderIntents sample_candidate) = [''leg-1'', ''leg-2'']" by code_simp
  have "readable_approval (sample_plan_approval (ep_materialHash plan))"
    using sample_approval_readable hash
    by (simp add: readable_approval_def wf_approval_def sample_plan_approval_def approval_opens_def approval_closes_def)
  moreover have "\<forall>e \<in> set (pc_evidence (pm_candidate (ep_material plan))). is_evidence_fresh e ''2024-01-01T00:00:00.000Z''"
  proof -
    have "\<forall>e \<in> set sample_risk_evidence. is_evidence_fresh e ''2024-01-01T00:00:00.000Z''" by code_simp
    then show ?thesis using plan(2) by (simp add: sample_candidate_def)
  qed
  moreover have "settles s0 [sample_plan_result (ep_materialHash plan) ''leg-1'' ''1'',
      sample_plan_result (ep_materialHash plan) ''leg-2'' ''2'']"
    using create_lifecycle_state_Ok [OF s0] plan(2) ids by (simp add: settles_def sample_plan_result_def)
  ultimately show thesis using that [OF s0] by blast
qed

lemma sample_approval_window:
  "approval_opens (sample_plan_approval h) = 1704067200000" "approval_closes (sample_plan_approval h) = 1704067230000"
  using instant_date_parse [OF sample_instants(1)] instant_date_parse [OF sample_instants(2)]
  by (simp_all add: approval_opens_def approval_closes_def sample_plan_approval_def sample_approval_def)

lemma sample_lifecycle:
  obtains plan s0 s where "create_lifecycle_state (plan :: sdec execution_plan) = Ok s0"
    "run_lifecycle s0 (sample_transitions (ep_materialHash plan)) = Ok s" "lc_state s = Reconciled"
proof -
  obtain plan s0 where start: "create_lifecycle_state (plan :: sdec execution_plan) = Ok s0"
    "readable_approval (sample_plan_approval (ep_materialHash plan))"
    "\<forall>e \<in> set (pc_evidence (pm_candidate (ep_material plan))). is_evidence_fresh e ''2024-01-01T00:00:00.000Z''"
    "settles s0 [sample_plan_result (ep_materialHash plan) ''leg-1'' ''1'', sample_plan_result (ep_materialHash plan) ''leg-2'' ''2'']"
    by (rule sample_lifecycle_start)
  have "apr_planHash (sample_plan_approval (ep_materialHash plan)) = ep_materialHash plan"
    by (simp add: sample_plan_approval_def)
  from lifecycle_completes [OF start(1,2) this sample_instants(1) _ _ start(3,4)] show thesis
    using that start(1) by (auto simp: sample_approval_window sample_transitions_def outcome_def sample_plan_result_def)
qed

theorem lifecycle_ends_witness:
  "\<exists>(plan :: sdec execution_plan) s t. run_lifecycle s (sample_transitions (ep_materialHash plan)) = Ok t \<and>
    length (sample_transitions (ep_materialHash plan)) \<le> 6 - phase (lc_state s) \<and> transition_lifecycle t Block ''2024-01-01T00:00:00.000Z'' \<noteq> Ok t"
proof -
  obtain plan s0 s where r: "run_lifecycle s0 (sample_transitions (ep_materialHash (plan :: sdec execution_plan))) = Ok s"
    "lc_state s = Reconciled"
    using sample_lifecycle by blast
  show ?thesis using r lifecycle_ends [of s0 _ s] lifecycle_ends [of s _ s Block "''2024-01-01T00:00:00.000Z''"] by blast
qed

theorem lifecycle_identity_invariant_witness:
  "\<exists>(plan :: sdec execution_plan) s0 s. run_lifecycle s0 (sample_transitions (ep_materialHash plan)) = Ok s \<and>
    lc_planHash s = ep_materialHash plan"
proof -
  obtain plan s0 s where r: "create_lifecycle_state (plan :: sdec execution_plan) = Ok s0"
    "run_lifecycle s0 (sample_transitions (ep_materialHash plan)) = Ok s"
    using sample_lifecycle by blast
  then show ?thesis using lifecycle_identity_invariant [OF r] by blast
qed

theorem executing_requires_valid_approval_witness:
  "\<exists>(plan :: sdec execution_plan) s0 s a. run_lifecycle s0 (sample_transitions (ep_materialHash plan)) = Ok s \<and>
    lc_approval s = Some a \<and> apr_planHash a = ep_materialHash plan"
proof -
  obtain plan s0 s where r: "create_lifecycle_state (plan :: sdec execution_plan) = Ok s0"
    "run_lifecycle s0 (sample_transitions (ep_materialHash plan)) = Ok s" "lc_state s = Reconciled"
    using sample_lifecycle by blast
  have "lc_state s \<in> past_approval" using r(3) by (simp add: past_approval_def)
  from executing_requires_valid_approval [OF r(1,2) this] r(2) show ?thesis by blast
qed

theorem lifecycle_can_complete_witness:
  "\<exists>(plan :: sdec execution_plan) s0 s. create_lifecycle_state plan = Ok s0 \<and>
    run_lifecycle s0 (sample_transitions (ep_materialHash plan)) = Ok s \<and> lc_state s = Reconciled"
proof -
  obtain plan s0 where start: "create_lifecycle_state (plan :: sdec execution_plan) = Ok s0"
    "readable_approval (sample_plan_approval (ep_materialHash plan))"
    "\<forall>e \<in> set (pc_evidence (pm_candidate (ep_material plan))). is_evidence_fresh e ''2024-01-01T00:00:00.000Z''"
    "settles s0 [sample_plan_result (ep_materialHash plan) ''leg-1'' ''1'', sample_plan_result (ep_materialHash plan) ''leg-2'' ''2'']"
    by (rule sample_lifecycle_start)
  have "apr_planHash (sample_plan_approval (ep_materialHash plan)) = ep_materialHash plan"
    by (simp add: sample_plan_approval_def)
  from lifecycle_can_complete [OF start(1,2) this sample_instants(1) _ _ start(3,4)] show ?thesis
    using start(1) by (auto simp: sample_approval_window sample_transitions_def outcome_def sample_plan_result_def)
qed

end
