(* ===== verification/Artifact.thy ===== *)
theory Artifact
  imports Json Accounting Lifecycle
begin

text \<open>
  \<open>domain/identity/canonical-artifact.ts\<close>: artifacts as canonical text with its hash. A table of
  schemas says which fields each kind of artifact has; encoding checks the schema and
  serializes, decoding parses the text, restores tagged decimals, checks the schema and demands
  that the result serializes to the very same text; rehydration runs the kind's constructor.

  Some kinds are checked and built by modules that are not modelled (review artifacts, account,
  analytics and liquidation evidence, the operator's records): \<open>foreign\<close> is a parameter that stands
  for those functions, by name. Paths in messages are left out. An own field \<open>__proto__\<close> of a parsed
  object is lost when the decoded copy is filled, as it is assigned, not defined.

  Shown here: whatever is encoded under a structural schema decodes to the same data (decimals
  by value, fields in canonical order), and every accepted envelope is the encoding of what it
  decodes to, so an envelope can neither be altered nor written in a second way.
\<close>

subsection \<open>Schemas\<close>

datatype schema =
    LeafSchema
  | ArraySchema "schema option"
  | ObjectSchema "string list" "string list" "(string \<times> schema) list" bool
  | ValidatedSchema string
  | VersionedSchema "(string \<times> schema) list"

text \<open>\<open>object(keys)\<close> and \<open>object(keys, children)\<close>: every key is required.\<close>

abbreviation closed :: "string list \<Rightarrow> schema" where
  "closed names \<equiv> ObjectSchema names names [] False"

abbreviation record_schema :: "string list \<Rightarrow> (string \<times> schema) list \<Rightarrow> schema" where
  "record_schema names children \<equiv> ObjectSchema names names children False"

definition evidence_schema :: schema where
  "evidence_schema =
     closed [''kind'', ''schemaVersion'', ''producer'', ''sourceId'', ''asOf'', ''validForMs'',
        ''contentHash'']"

definition scope_schema :: schema where
  "scope_schema =
     closed [''exchange'', ''environment'', ''category'', ''positionMode'']"

definition constraints_schema :: schema where
  "constraints_schema =
     ObjectSchema [''instrument'', ''version'', ''priceTickSize'', ''quantityStep'', ''minQuantity'',
        ''minNotional'', ''minPrice'', ''maxPrice'', ''maxLimitQuantity'']
       [''instrument'', ''version'', ''priceTickSize'', ''quantityStep'', ''minQuantity'']
       [] False"

definition strategy_schema :: schema where
  "strategy_schema =
     closed [''strategyId'', ''version'', ''cadence'', ''maxOrderNotional'', ''requiresProtection'']"

definition position_schema :: schema where
  "position_schema =
     ObjectSchema [''instrument'', ''side'', ''quantity'', ''entryPrice'']
       [''instrument'', ''side'', ''quantity'']
       [] False"

definition owned_order_schema :: schema where
  "owned_order_schema =
     closed [''clientOrderId'', ''instrument'', ''side'', ''quantity'']"

definition market_snapshot_schema :: schema where
  "market_snapshot_schema =
     record_schema [''snapshotId'', ''instrument'', ''scope'', ''asOf'', ''bid'', ''ask'', ''last'',
        ''constraints'', ''evidence'']
       [(''scope'', scope_schema),
        (''constraints'', constraints_schema),
        (''evidence'', (ArraySchema (Some evidence_schema)))]"

definition market_evidence_budget_schema :: schema where
  "market_evidence_budget_schema =
     closed [''pages'', ''maxPages'', ''rows'', ''maxRows'', ''retries'', ''maxRetries'']"

definition market_evidence_diagnostic_schema :: schema where
  "market_evidence_diagnostic_schema =
     ObjectSchema [''code'', ''operation'', ''endpoint'', ''symbol'', ''series'', ''sourceTimestamp'',
        ''budget'']
       [''code'', ''operation'', ''endpoint'']
       [(''budget'', market_evidence_budget_schema)] False"

definition market_evidence_source_schema :: schema where
  "market_evidence_source_schema =
     closed [''exchange'', ''environment'', ''origin'', ''category'']"

definition market_evidence_instrument_schema :: schema where
  "market_evidence_instrument_schema =
     ObjectSchema [''symbol'', ''status'', ''contractType'', ''baseCoin'', ''quoteCoin'', ''settleCoin'',
        ''constraints'', ''fundingInterval'', ''sourceTimestamp'']
       [''symbol'', ''status'', ''contractType'', ''baseCoin'', ''quoteCoin'', ''settleCoin'',
        ''constraints'', ''fundingInterval'']
       [(''constraints'', constraints_schema)] False"

definition market_evidence_ticker_schema :: schema where
  "market_evidence_ticker_schema =
     ObjectSchema [''observedAt'', ''bid'', ''ask'', ''last'', ''markPrice'', ''indexPrice'', ''fundingRate'',
        ''openInterest'', ''volume24h'', ''turnover24h'']
       [''observedAt'', ''bid'', ''ask'', ''last'']
       [] False"

definition ohlcv_observation_schema :: schema where
  "ohlcv_observation_schema =
     closed [''timestamp'', ''open'', ''high'', ''low'', ''close'', ''volume'', ''turnover'', ''closed'']"

definition ohlcv_series_schema :: schema where
  "ohlcv_series_schema =
     record_schema [''interval'', ''observations'']
       [(''observations'', (ArraySchema (Some ohlcv_observation_schema)))]"

definition funding_observation_schema :: schema where
  "funding_observation_schema =
     closed [''timestamp'', ''rate'']"

definition open_interest_observation_schema :: schema where
  "open_interest_observation_schema =
     closed [''timestamp'', ''openInterest'']"

definition open_interest_series_schema :: schema where
  "open_interest_series_schema =
     record_schema [''interval'', ''observations'']
       [(''observations'', (ArraySchema (Some open_interest_observation_schema)))]"

definition market_evidence_symbol_schema :: schema where
  "market_evidence_symbol_schema =
     ObjectSchema [''symbol'', ''instrument'', ''ticker'', ''ohlcv'', ''funding'', ''openInterest'',
        ''diagnostics'']
       [''symbol'', ''ohlcv'', ''funding'', ''openInterest'', ''diagnostics'']
       [(''instrument'', market_evidence_instrument_schema),
        (''ticker'', market_evidence_ticker_schema),
        (''ohlcv'', (ArraySchema (Some ohlcv_series_schema))),
        (''funding'', (ArraySchema (Some funding_observation_schema))),
        (''openInterest'', (ArraySchema (Some open_interest_series_schema))),
        (''diagnostics'', (ArraySchema (Some market_evidence_diagnostic_schema)))] False"

definition market_evidence_bundle_schema :: schema where
  "market_evidence_bundle_schema =
     record_schema [''runId'', ''schemaVersion'', ''producer'', ''universeVersion'', ''universe'',
        ''collectionStartedAt'', ''collectionEndedAt'', ''bundleCutoff'', ''source'', ''status'',
        ''symbols'', ''diagnostics'', ''evidence'']
       [(''source'', market_evidence_source_schema),
        (''universe'', (ArraySchema None)),
        (''symbols'', (ArraySchema (Some market_evidence_symbol_schema))),
        (''diagnostics'', (ArraySchema (Some market_evidence_diagnostic_schema))),
        (''evidence'', (ArraySchema (Some evidence_schema)))]"

definition liquidation_evidence_market_identity_schema :: schema where
  "liquidation_evidence_market_identity_schema =
     closed [''runId'', ''universeVersion'', ''bundleCutoff'', ''contentHash'']"

definition liquidation_observation_schema :: schema where
  "liquidation_observation_schema =
     closed [''timestamp'', ''longUsd'', ''shortUsd'']"

definition liquidation_constituent_schema :: schema where
  "liquidation_constituent_schema =
     record_schema [''providerSymbol'', ''exchange'', ''symbolOnExchange'', ''baseAsset'', ''quoteAsset'',
        ''isPerpetual'', ''marginType'', ''expireAt'', ''notionalDenominatedIn'', ''observations'']
       [(''observations'', (ArraySchema (Some liquidation_observation_schema)))]"

definition liquidation_hourly_aggregate_schema :: schema where
  "liquidation_hourly_aggregate_schema =
     closed [''timestamp'', ''longUsd'', ''shortUsd'', ''totalUsd'', ''observedConstituents'',
        ''expectedConstituents'', ''complete'']"

definition liquidation_window_schema :: schema where
  "liquidation_window_schema =
     closed [''hours'', ''from'', ''to'', ''longUsd'', ''shortUsd'', ''totalUsd'',
        ''observedConstituentBuckets'', ''expectedConstituentBuckets'', ''complete'']"

definition liquidation_target_schema :: schema where
  "liquidation_target_schema =
     record_schema [''asset'', ''constituents'', ''hourlyAggregates'', ''windows'']
       [(''constituents'', (ArraySchema (Some liquidation_constituent_schema))),
        (''hourlyAggregates'', (ArraySchema (Some liquidation_hourly_aggregate_schema))),
        (''windows'', (ArraySchema (Some liquidation_window_schema)))]"

definition liquidation_diagnostic_schema :: schema where
  "liquidation_diagnostic_schema =
     ObjectSchema [''code'', ''operation'', ''asset'', ''providerSymbol'', ''bucketTimestamp'']
       [''code'', ''operation'']
       [] False"

definition liquidation_evidence_bundle_v1_schema :: schema where
  "liquidation_evidence_bundle_v1_schema =
     record_schema [''runId'', ''schemaVersion'', ''producer'', ''provider'', ''policyVersion'',
        ''collectionStartedAt'', ''collectionEndedAt'', ''bundleCutoff'', ''marketEvidence'',
        ''coverageProof'', ''historyProof'', ''status'', ''targets'', ''diagnostics'']
       [(''marketEvidence'', liquidation_evidence_market_identity_schema),
        (''targets'', (ArraySchema (Some liquidation_target_schema))),
        (''diagnostics'', (ArraySchema (Some liquidation_diagnostic_schema)))]"

definition liquidation_evidence_bundle_v2_validation_schema :: schema where
  "liquidation_evidence_bundle_v2_validation_schema =
     ValidatedSchema ''createLiquidationEvidenceBundleV2''"

definition liquidation_evidence_bundle_v3_validation_schema :: schema where
  "liquidation_evidence_bundle_v3_validation_schema =
     ValidatedSchema ''createLiquidationEvidenceBundleV3''"

definition liquidation_evidence_bundle_schema :: schema where
  "liquidation_evidence_bundle_schema =
     VersionedSchema
       [(''liquidation-evidence/v1'', liquidation_evidence_bundle_v1_schema),
        (''liquidation-evidence/v2'', liquidation_evidence_bundle_v2_validation_schema),
        (''liquidation-evidence/v3'', liquidation_evidence_bundle_v3_validation_schema)]"

definition analytics_feature_outcome_schema :: schema where
  "analytics_feature_outcome_schema =
     ObjectSchema [''requestId'', ''status'', ''reasonCodes'', ''kind'', ''symbol'', ''interval'', ''asset'',
        ''window'', ''coverageProof'', ''historyProof'', ''value'']
       [''requestId'', ''status'', ''reasonCodes'', ''kind'']
       [(''reasonCodes'', (ArraySchema None)),
        (''window'', (ObjectSchema [''from'', ''to'', ''observationCount'', ''cadenceMs'', ''hours'',
            ''observedConstituentBuckets'', ''expectedConstituentBuckets'', ''complete'']
           [''from'', ''to'']
           [] True)),
        (''value'', (ObjectSchema [''type'', ''percent'', ''atr'', ''normalizedPercent'', ''recentPercent'',
            ''referencePercent'', ''ratio'', ''relation'', ''change'', ''longUsd'', ''shortUsd'',
            ''totalUsd'', ''imbalance'', ''unit'']
           [''type'']
           [] True))] True"

definition analytics_input_identity_schema :: schema where
  "analytics_input_identity_schema =
     ObjectSchema [''runId'', ''universeVersion'', ''bundleCutoff'', ''marketContentHash'',
        ''marketBundleHash'', ''liquidationRunId'', ''liquidationUniverseVersion'',
        ''liquidationBundleCutoff'', ''liquidationMarketContentHash'', ''liquidationBundleHash'',
        ''liquidationEvidenceSchemaVersion'', ''compatibility'', ''reasonCodes'']
       [''runId'', ''universeVersion'', ''bundleCutoff'', ''marketContentHash'',
        ''marketBundleHash'', ''compatibility'', ''reasonCodes'']
       [(''reasonCodes'', (ArraySchema None))] False"

definition analytics_external_evidence_schema :: schema where
  "analytics_external_evidence_schema =
     ObjectSchema [''family'', ''schemaVersion'', ''modelVersion'', ''direction'', ''score'', ''confidence'',
        ''trapType'', ''reasons'', ''subscores'', ''scenarioLikelihoods'', ''horizon'',
        ''confirmationSignals'', ''invalidationSignals'', ''provenance'', ''inputManifestHash'',
        ''inputEvidenceRefs'', ''marketEvidenceHash'', ''liquidationEvidenceHash'', ''asOf'',
        ''validForMs'', ''generatedAt'', ''contentHash'']
       [''family'', ''schemaVersion'', ''modelVersion'', ''provenance'', ''inputManifestHash'',
        ''inputEvidenceRefs'', ''asOf'', ''validForMs'', ''contentHash'']
       [(''reasons'', (ArraySchema None)),
        (''subscores'', (ObjectSchema []
           []
           [] True)),
        (''scenarioLikelihoods'', (closed [''continuation'', ''reversal'', ''squeeze'', ''range''])),
        (''confirmationSignals'', (ArraySchema None)),
        (''invalidationSignals'', (ArraySchema None)),
        (''provenance'', (ObjectSchema [''producer'', ''sourceId'', ''modelName'', ''migration'']
           [''producer'', ''sourceId'', ''modelName'']
           [(''migration'', (closed [''migrationId'', ''sourceFamily'', ''sourceSchemaVersion'', ''sourceModelVersion'',
                ''sourceContentHash'']))] False)),
        (''inputEvidenceRefs'', (ArraySchema (Some (ObjectSchema [''kind'', ''schemaVersion'', ''producer'', ''sourceId'', ''contentHash'',
              ''runContext'']
             [''kind'', ''schemaVersion'', ''producer'', ''sourceId'', ''contentHash'']
             [(''runContext'', (closed [''runId'', ''universeVersion'', ''bundleCutoff'']))] False))))] True"

definition analytics_evidence_bundle_schema :: schema where
  "analytics_evidence_bundle_schema =
     record_schema [''schemaVersion'', ''featuresVersion'', ''inputIdentity'', ''profile'', ''profileHash'',
        ''priceFeatures'', ''derivativeFeatures'', ''externalOutcomes'', ''externalEvidence'',
        ''sufficiency'', ''contentHash'']
       [(''inputIdentity'', analytics_input_identity_schema),
        (''profile'', (record_schema [''schemaVersion'', ''features'', ''externalEvidence'']
           [(''features'', (ArraySchema (Some (ObjectSchema []
                 []
                 [] True)))),
            (''externalEvidence'', (ArraySchema (Some (closed [''family'', ''required'']))))])),
        (''priceFeatures'', (ArraySchema (Some analytics_feature_outcome_schema))),
        (''derivativeFeatures'', (ArraySchema (Some analytics_feature_outcome_schema))),
        (''externalOutcomes'', (ArraySchema (Some (record_schema [''requestId'', ''status'', ''reasonCodes'']
             [(''reasonCodes'', (ArraySchema None))])))),
        (''externalEvidence'', (ArraySchema (Some analytics_external_evidence_schema))),
        (''sufficiency'', (record_schema [''status'', ''reasonCodes'']
           [(''reasonCodes'', (ArraySchema None))]))]"

definition account_snapshot_schema :: schema where
  "account_snapshot_schema =
     record_schema [''snapshotId'', ''accountScope'', ''scope'', ''asOf'', ''availableBalance'', ''positions'',
        ''ownedOrders'', ''evidence'']
       [(''scope'', scope_schema),
        (''positions'', (ArraySchema (Some position_schema))),
        (''ownedOrders'', (ArraySchema (Some owned_order_schema))),
        (''evidence'', (ArraySchema (Some evidence_schema)))]"

definition capability_requirement_schema :: schema where
  "capability_requirement_schema =
     record_schema [''capability'', ''scope'']
       [(''scope'', scope_schema)]"

definition capability_schema :: schema where
  "capability_schema =
     record_schema [''capability'', ''status'', ''observedAt'', ''source'', ''evidence'', ''scope'']
       [(''evidence'', evidence_schema),
        (''scope'', scope_schema)]"

definition normalization_schema :: schema where
  "normalization_schema =
     closed [''price'', ''quantity'', ''constraintVersion'']"

definition protection_schema :: schema where
  "protection_schema =
     ObjectSchema [''stopLoss'', ''takeProfit'']
       []
       [] False"

definition order_intent_schema :: schema where
  "order_intent_schema =
     ObjectSchema [''intentId'', ''instrument'', ''orderType'', ''side'', ''positionEffect'', ''price'',
        ''quantity'', ''notional'', ''normalization'', ''protection'']
       [''intentId'', ''instrument'', ''orderType'', ''side'', ''positionEffect'', ''price'',
        ''quantity'', ''notional'', ''normalization'']
       [(''normalization'', normalization_schema),
        (''protection'', protection_schema)] False"

definition risk_decision_schema :: schema where
  "risk_decision_schema =
     record_schema [''decisionId'', ''inputHash'', ''intentIds'', ''status'', ''reasonCodes'', ''asOf'',
        ''evidence'', ''requiredCapabilities'']
       [(''evidence'', (ArraySchema (Some evidence_schema))),
        (''requiredCapabilities'', (ArraySchema (Some capability_requirement_schema)))]"

definition material_schema :: schema where
  "material_schema =
     record_schema [''strategy'', ''marketSnapshot'', ''accountSnapshot'', ''evidence'',
        ''desiredCurrentDiff'', ''orderIntents'', ''requiredCapabilities'', ''executionScope'',
        ''riskDecision'']
       [(''strategy'', strategy_schema),
        (''marketSnapshot'', market_snapshot_schema),
        (''accountSnapshot'', account_snapshot_schema),
        (''evidence'', (ArraySchema (Some evidence_schema))),
        (''desiredCurrentDiff'', (ObjectSchema []
           []
           [] True)),
        (''orderIntents'', (ArraySchema (Some order_intent_schema))),
        (''requiredCapabilities'', (ArraySchema (Some capability_requirement_schema))),
        (''executionScope'', scope_schema),
        (''riskDecision'', risk_decision_schema)]"

definition presentation_schema :: schema where
  "presentation_schema =
     ObjectSchema [''generatedAt'', ''comment'']
       [''generatedAt'']
       [] False"

definition approval_schema :: schema where
  "approval_schema =
     ObjectSchema [''approvalId'', ''planHash'', ''actor'', ''approvedAt'', ''expiresAt'', ''note'']
       [''approvalId'', ''planHash'', ''actor'', ''approvedAt'', ''expiresAt'']
       [] False"

definition lifecycle_schema :: schema where
  "lifecycle_schema =
     ObjectSchema [''state'', ''planHash'', ''intentIds'', ''evidence'', ''approval'']
       [''state'', ''planHash'', ''intentIds'', ''evidence'']
       [(''evidence'', (ArraySchema (Some evidence_schema))),
        (''approval'', approval_schema)] False"

definition attempt_schema :: schema where
  "attempt_schema =
     ObjectSchema [''attemptId'', ''planHash'', ''intentId'', ''clientOrderId'', ''submittedAt'',
        ''acknowledgement'', ''terminalStatus'', ''exchangeOrderId'']
       [''attemptId'', ''planHash'', ''intentId'', ''clientOrderId'', ''submittedAt'',
        ''acknowledgement'', ''terminalStatus'']
       [] False"

definition exchange_order_schema :: schema where
  "exchange_order_schema =
     ObjectSchema [''exchangeOrderId'', ''clientOrderId'', ''instrument'', ''side'', ''requestedQuantity'',
        ''filledQuantity'', ''status'', ''observedAt'', ''source'', ''parentOrderLinkId'',
        ''providerOrderLinkId'', ''providerStopOrderType'', ''providerTpslMode'', ''triggerBy'',
        ''takeProfitTriggerBy'', ''providerCreatedAt'', ''providerUpdatedAt'', ''averagePrice'',
        ''protectionType'', ''category'', ''orderType'', ''price'', ''timeInForce'', ''takeProfit'',
        ''stopLoss'', ''reduceOnly'', ''positionIdx'']
       [''exchangeOrderId'', ''clientOrderId'', ''instrument'', ''side'', ''requestedQuantity'',
        ''filledQuantity'', ''status'', ''observedAt'', ''source'']
       [] False"

definition reconciliation_schema :: schema where
  "reconciliation_schema =
     ObjectSchema [''attemptId'', ''intentId'', ''planHash'', ''clientOrderId'', ''status'', ''observedAt'',
        ''exchangeOrderId'']
       [''attemptId'', ''intentId'', ''planHash'', ''clientOrderId'', ''status'', ''observedAt'']
       [] False"

definition fill_schema :: schema where
  "fill_schema =
     closed [''fillId'', ''attemptId'', ''exchangeOrderId'', ''instrument'', ''side'', ''quantity'',
        ''price'', ''executedAt'', ''source'']"

definition fee_schema :: schema where
  "fee_schema =
     closed [''feeId'', ''amount'', ''currency'', ''kind'', ''chargedAt'', ''source'']"

definition funding_schema :: schema where
  "funding_schema =
     closed [''fundingId'', ''amount'', ''currency'', ''occurredAt'', ''source'']"

definition ledger_entry_schema :: schema where
  "ledger_entry_schema =
     closed [''entryId'', ''kind'', ''amount'', ''currency'', ''occurredAt'', ''source'',
        ''referenceId'']"

definition clearance_evidence_schema :: schema where
  "clearance_evidence_schema =
     closed [''evidenceVersion'', ''actor'', ''source'', ''timestamp'', ''reason'',
        ''affectedLineageRevision'', ''affectedReconciliationRevision'']"

definition quality_assessment_schema :: schema where
  "quality_assessment_schema =
     ObjectSchema [''schemaVersion'', ''qualityGate'', ''profileVersion'', ''profileHash'',
        ''evaluationTime'', ''bundleCutoff'', ''findings'', ''dispositions'', ''appliedPenalties'',
        ''evidenceConfidence'', ''contentHash'']
       [''schemaVersion'', ''qualityGate'', ''profileVersion'', ''profileHash'',
        ''evaluationTime'', ''bundleCutoff'', ''findings'', ''dispositions'', ''appliedPenalties'',
        ''contentHash'']
       [(''findings'', (ArraySchema (Some (ObjectSchema [''role'', ''reasonCode'', ''blocking'', ''confidenceImpactGroup'']
             [''role'', ''reasonCode'', ''blocking'']
             [] False)))),
        (''dispositions'', (ArraySchema (Some (ObjectSchema [''role'', ''disposition'', ''contentHash'', ''bundleHash'', ''admission'']
             [''role'', ''disposition'']
             [(''admission'', (closed [''issuer'', ''artifactHash'']))] False)))),
        (''appliedPenalties'', (ArraySchema (Some (closed [''confidenceImpactGroup'', ''penalty'']))))] False"

definition artifact_schemas :: "(string \<times> schema) list" where
  "artifact_schemas =
     [(''prepared-daily-plan'', (ValidatedSchema ''rehydratePreparedDailyPlan'')),
      (''shadow-market-report'', (ValidatedSchema ''rehydrateShadowMarketReport'')),
      (''prepared-plan-approval'', (ValidatedSchema ''rehydratePreparedPlanApproval'')),
      (''operator-mainnet-execution-test'', (ValidatedSchema ''rehydrateOperatorMainnetTestPlan'')),
      (''operator-mainnet-execution-approval'', (ValidatedSchema ''rehydrateOperatorMainnetTestApproval'')),
      (''operator-mainnet-trade-command-receipt'', (ValidatedSchema ''rehydrateOperatorMainnetTradeCommandReceipt'')),
      (''operator-mainnet-trade-command-binding'', (ValidatedSchema ''rehydrateOperatorMainnetTradeCommandBinding'')),
      (''account-evidence-bundle'', (ValidatedSchema ''createAccountEvidenceBundle'')),
      (''daily-decision-plan'', (ObjectSchema [''schemaVersion'', ''planId'', ''decisionId'', ''inputSeed'', ''inputIdentity'',
           ''inputs'', ''decision'', ''contentHash'', ''candidateLegs'', ''orderIntents'',
           ''reductionFraction'']
          [''schemaVersion'', ''planId'', ''decisionId'', ''inputSeed'', ''inputIdentity'',
           ''inputs'', ''decision'', ''contentHash'']
          [(''inputIdentity'', (ObjectSchema []
              []
              [] True)),
           (''inputs'', (ObjectSchema [''market'', ''analytics'', ''liquidation'', ''assessment'', ''symbol'',
               ''allocation'', ''decisionPolicy'', ''planningPolicy'']
              [''market'', ''analytics'', ''assessment'', ''symbol'', ''allocation'',
               ''decisionPolicy'', ''planningPolicy'']
              [(''market'', market_evidence_bundle_schema),
               (''analytics'', analytics_evidence_bundle_schema),
               (''liquidation'', liquidation_evidence_bundle_schema),
               (''assessment'', quality_assessment_schema),
               (''decisionPolicy'', (ObjectSchema []
                  []
                  [] True)),
               (''planningPolicy'', (ObjectSchema []
                  []
                  [] True))] False)),
           (''decision'', (ObjectSchema []
              []
              [] True)),
           (''candidateLegs'', (ArraySchema (Some (ObjectSchema []
                []
                [] True)))),
           (''orderIntents'', (ArraySchema (Some order_intent_schema)))] False)),
      (''data-quality-assessment'', quality_assessment_schema),
      (''evidence-ref'', evidence_schema),
      (''instrument-constraints'', constraints_schema),
      (''strategy-config'', strategy_schema),
      (''capability-observation'', capability_schema),
      (''market-snapshot'', market_snapshot_schema),
      (''market-evidence-bundle'', market_evidence_bundle_schema),
      (''liquidation-evidence-bundle'', liquidation_evidence_bundle_schema),
      (''analytics-evidence-bundle'', analytics_evidence_bundle_schema),
      (''portfolio-risk-preflight'', (ValidatedSchema ''rehydratePortfolioRiskPreflight'')),
      (''account-snapshot'', account_snapshot_schema),
      (''order-intent'', order_intent_schema),
      (''risk-decision'', risk_decision_schema),
      (''execution-plan'', (ObjectSchema [''planId'', ''identityVersion'', ''materialHash'', ''material'', ''presentation'']
          [''planId'', ''identityVersion'', ''materialHash'', ''material'']
          [(''material'', material_schema),
           (''presentation'', presentation_schema)] False)),
      (''approval'', approval_schema),
      (''lifecycle-state'', lifecycle_schema),
      (''execution-attempt'', attempt_schema),
      (''exchange-order'', exchange_order_schema),
      (''reconciliation-result'', reconciliation_schema),
      (''fill'', fill_schema),
      (''fee'', fee_schema),
      (''funding'', funding_schema),
      (''ledger-entry'', ledger_entry_schema),
      (''clearance-evidence'', clearance_evidence_schema)]"

definition artifact_failure :: "'a result" where
  "artifact_failure = Fail INVALID_VALUE"

definition select_version :: "(string \<times> schema) list \<Rightarrow> 'd jsval \<Rightarrow> schema option" where
  "select_version versions value =
     (if is_record value then (case get value ''schemaVersion'' of JStr s \<Rightarrow> map_of versions s | _ \<Rightarrow> None) else None)"

lemma schema_entry_size: "(k, s) \<in> set children \<Longrightarrow> size s < Suc (size_list (size_prod (\<lambda>_. 0) size) children)"
  by (induction children) (auto simp: less_Suc_eq_le intro: order.trans)

lemma selected_size: "select_version versions value = Some s \<Longrightarrow> size s < Suc (size_list (size_prod (\<lambda>_. 0) size) versions)"
  by (auto simp: select_version_def intro: schema_entry_size dest!: map_of_SomeD split: jsval.splits if_splits)

type_synonym 'd validators = "string \<Rightarrow> 'd jsval \<Rightarrow> 'd jsval result"

text \<open>The first failing check decides. Under \<open>VersionedSchema\<close> the selected schema checks the value.\<close>

function validate_shape :: "'d validators \<Rightarrow> schema \<Rightarrow> 'd jsval \<Rightarrow> unit result" where
  "validate_shape foreign (ValidatedSchema name) value = rbind (foreign name value) (\<lambda>_. Ok ())"
| "validate_shape foreign (VersionedSchema versions) value =
     (case select_version versions value of
        None \<Rightarrow> Fail UNSUPPORTED_CONTRACT | Some selected \<Rightarrow> validate_shape foreign selected value)"
| "validate_shape foreign LeafSchema value =
     (case value of
        JDec d \<Rightarrow> Ok () | JNull \<Rightarrow> Ok () | JStr s \<Rightarrow> Ok () | JBool b \<Rightarrow> Ok ()
      | JInt n \<Rightarrow> if is_safe_integer n then Ok () else artifact_failure
      | _ \<Rightarrow> artifact_failure)"
| "validate_shape foreign (ArraySchema item) value =
     (case value of
        JArr xs \<Rightarrow>
          (case item of None \<Rightarrow> Ok ()
           | Some s \<Rightarrow> rbind (traverse (validate_shape foreign s) xs) (\<lambda>_. Ok ()))
      | _ \<Rightarrow> artifact_failure)"
| "validate_shape foreign (ObjectSchema names mandatory children isOpen) value =
     (if is_decimal_value value \<or> \<not> is_record value then artifact_failure
      else if \<not> (\<forall>key \<in> set mandatory. has_key value key) then artifact_failure
      else if \<not> isOpen \<and> \<not> (\<forall>key \<in> set (keys value). key \<in> set names) then artifact_failure
      else rbind (traverse (\<lambda>child. if has_key value (fst child)
             then validate_shape foreign (snd child) (get value (fst child)) else Ok ()) children) (\<lambda>_. Ok ()))"
  by pat_completeness auto
termination
proof (relation "measure (\<lambda>(foreign, s, x). size s)")
  show "((foreign, selected, x), foreign, VersionedSchema versions, x) \<in> measure (\<lambda>(foreign, s, x). size s)"
    if "select_version versions x = Some selected" for foreign :: "'d validators" and versions and x :: "'d jsval" and selected
    using selected_size [OF that] by simp
  show "((foreign, snd child, get x (fst child)), foreign, ObjectSchema names mandatory children isOpen, x)
      \<in> measure (\<lambda>(foreign, s, x). size s)"
    if "child \<in> set children"
    for foreign :: "'d validators" and names mandatory children isOpen and x :: "'d jsval" and child
    using that schema_entry_size [of "fst child" "snd child" children] by simp
qed auto

fun validate_artifact_value :: "'d validators \<Rightarrow> schema \<Rightarrow> 'd jsval \<Rightarrow> 'd jsval result" where
  "validate_artifact_value foreign (ValidatedSchema name) value = foreign name value"
| "validate_artifact_value foreign (VersionedSchema versions) value =
     (case select_version versions value of
        None \<Rightarrow> Fail UNSUPPORTED_CONTRACT
      | Some (ValidatedSchema name) \<Rightarrow> foreign name value
      | Some selected \<Rightarrow> rbind (validate_shape foreign selected value) (\<lambda>_. Ok value))"
| "validate_artifact_value foreign s value = rbind (validate_shape foreign s value) (\<lambda>_. Ok value)"

subsection \<open>Encoding and decoding\<close>

record artifact_envelope =
  en_artifactKind :: string
  en_schemaVersion :: string
  en_canonicalJson :: string
  en_canonicalHash :: string

definition envelope_js :: "artifact_envelope \<Rightarrow> 'd jsval" where
  "envelope_js e = JObj
     [(''artifactKind'', JStr (en_artifactKind e)), (''schemaVersion'', JStr (en_schemaVersion e)),
      (''canonicalJson'', JStr (en_canonicalJson e)), (''canonicalHash'', JStr (en_canonicalHash e))]"

function decode_value :: "'d lib \<Rightarrow> 'd jsval \<Rightarrow> 'd jsval result" where
  "decode_value L (JArr xs) = rbind (traverse (decode_value L) xs) (\<lambda>ys. Ok (JArr ys))"
| "decode_value L (JObj kvs) =
     (if ''$decimal'' \<in> set (map fst kvs) then
        (case kvs of
           [(k, JStr s)] \<Rightarrow> rbind (dec_from_string L (JStr s)) (\<lambda>d. Ok (JDec d))
         | _ \<Rightarrow> artifact_failure)
      else
        rbind (traverse (\<lambda>e. rbind (decode_value L (snd e)) (\<lambda>x. Ok (fst e, x))) kvs) (\<lambda>es.
        Ok (JObj (filter (\<lambda>e. fst e \<noteq> ''__proto__'') es))))"
| "decode_value L (JDec d) = Ok (JObj [])"
| "decode_value L JNull = Ok JNull"
| "decode_value L JUndef = Ok JUndef"
| "decode_value L JFloat = Ok JFloat"
| "decode_value L (JBool b) = Ok (JBool b)"
| "decode_value L (JInt n) = Ok (JInt n)"
| "decode_value L (JStr s) = Ok (JStr s)"
  by pat_completeness auto
termination
proof (relation "measure (\<lambda>(L, v). size v)")
  show "((L, snd e), L, JObj kvs) \<in> measure (\<lambda>(L, v). size v)" if "e \<in> set kvs" for L :: "'d lib" and kvs e
    using that entry_size [of "fst e" "snd e" kvs] by simp
qed (auto simp: less_Suc_eq_le size_list_estimation')

definition canonicalize_artifact_payload :: "'d lib \<Rightarrow> 'd jsval \<Rightarrow> string result" where
  "canonicalize_artifact_payload L value = rbind (decode_value L value) (canonical_serialize L)"

definition hash_canonical_text :: "'d lib \<Rightarrow> string \<Rightarrow> string" where
  "hash_canonical_text L value = ''sha256:'' @ sha256_hex L value"

definition encode_canonical_artifact ::
  "'d lib \<Rightarrow> 'd validators \<Rightarrow> string \<Rightarrow> 'd jsval \<Rightarrow> artifact_envelope result" where
  "encode_canonical_artifact L foreign kind value =
     need_some UNSUPPORTED_CONTRACT (map_of artifact_schemas kind) (\<lambda>s.
     rbind (validate_artifact_value foreign s value) (\<lambda>validated.
     rbind (canonical_serialize L validated) (\<lambda>canonical.
     Ok \<lparr>en_artifactKind = kind, en_schemaVersion = ''artifact/v1'', en_canonicalJson = canonical,
         en_canonicalHash = hash_canonical_text L canonical\<rparr>)))"

definition decode_canonical_artifact ::
  "'d lib \<Rightarrow> 'd validators \<Rightarrow> 'd jsval \<Rightarrow> string option \<Rightarrow> 'd jsval result" where
  "decode_canonical_artifact L foreign input expectedKind =
     guard INVALID_VALUE (is_record input) (
     guard INVALID_VALUE
       ((\<forall>key \<in> set (keys input). key \<in> {''artifactKind'', ''schemaVersion'', ''canonicalJson'', ''canonicalHash''}) \<and>
        length (keys input) = 4) (
     need_some UNSUPPORTED_CONTRACT (case get input ''artifactKind'' of JStr kind \<Rightarrow>
         map_option (\<lambda>s. (kind, s)) (map_of artifact_schemas kind) | _ \<Rightarrow> None) (\<lambda>(artifactKind, s).
     guard INVALID_VALUE (expectedKind = None \<or> expectedKind = Some artifactKind) (
     guard UNSUPPORTED_CONTRACT (get input ''schemaVersion'' = JStr ''artifact/v1'') (
     need_some INVALID_VALUE (case get input ''canonicalJson'' of JStr text \<Rightarrow> Some text | _ \<Rightarrow> None) (\<lambda>canonicalJson.
     rbind (require_hash (get input ''canonicalHash'') ''canonicalHash'') (\<lambda>parsedHash.
     guard INVALID_VALUE (parsedHash = hash_canonical_text L canonicalJson) (
     need_some INVALID_VALUE (json_parse canonicalJson) (\<lambda>parsed.
     rbind (decode_value L parsed) (\<lambda>decoded.
     rbind (validate_artifact_value foreign s decoded) (\<lambda>validated.
     guard INVALID_VALUE (canonical_serialize L validated = Ok canonicalJson) (
     Ok validated))))))))))))"

subsection \<open>Rehydration\<close>

function to_constructor_input :: "'d lib \<Rightarrow> 'd jsval \<Rightarrow> 'd jsval" where
  "to_constructor_input L (JDec d) = JStr (dec_to_string L d)"
| "to_constructor_input L (JArr xs) = JArr (map (to_constructor_input L) xs)"
| "to_constructor_input L (JObj kvs) = JObj (map (\<lambda>e. (fst e, to_constructor_input L (snd e)))
     (filter (\<lambda>e. fst e \<noteq> ''__proto__'') kvs))"
| "to_constructor_input L JNull = JNull"
| "to_constructor_input L JUndef = JUndef"
| "to_constructor_input L JFloat = JFloat"
| "to_constructor_input L (JBool b) = JBool b"
| "to_constructor_input L (JInt n) = JInt n"
| "to_constructor_input L (JStr s) = JStr s"
  by pat_completeness auto
termination
proof (relation "measure (\<lambda>(L, v). size v)")
  show "((L, snd e), L, JObj kvs) \<in> measure (\<lambda>(L, v). size v)"
    if "e \<in> set (filter (\<lambda>e. fst e \<noteq> ''__proto__'') kvs)" for L :: "'d lib" and kvs e
    using that entry_size [of "fst e" "snd e" kvs] by simp
qed (auto simp: less_Suc_eq_le size_list_estimation')

definition parse_plan_requirement :: "'d jsval \<Rightarrow> capability_requirement result" where
  "parse_plan_requirement item =
     guard INVALID_VALUE (is_record item) (
     need INVALID_VALUE (require_identifier (get item ''capability'') ''capability'') (\<lambda>capability.
     need INVALID_VALUE (parse_capability_scope (get item ''scope'')) (\<lambda>scope.
     Ok \<lparr>rq_capability = capability, rq_scope = scope\<rparr>)))"

definition rehydrate_execution_plan :: "'d lib \<Rightarrow> 'd jsval \<Rightarrow> 'd execution_plan result" where
  "rehydrate_execution_plan L value =
     guard INVALID_VALUE (is_record value) (
     let material = get value ''material'' in
     guard INVALID_VALUE (is_record material) (
     guard INVALID_VALUE (case get value ''identityVersion'' of JStr s \<Rightarrow> True | _ \<Rightarrow> False) (
     rbind (create_strategy_config L (to_constructor_input L (get material ''strategy''))) (\<lambda>strategy.
     rbind (create_market_snapshot L (to_constructor_input L (get material ''marketSnapshot''))) (\<lambda>marketSnapshot.
     rbind (create_account_snapshot L (to_constructor_input L (get material ''accountSnapshot''))) (\<lambda>accountSnapshot.
     guard INVALID_VALUE (is_array (get material ''evidence'')) (
     rbind (traverse (\<lambda>item. create_evidence_ref (to_constructor_input L item)) (elements (get material ''evidence''))) (\<lambda>evidence.
     guard INVALID_VALUE (is_array (get material ''orderIntents'')) (
     rbind (traverse (create_order_intent L) (elements (get material ''orderIntents''))) (\<lambda>orderIntents.
     rbind (rehydrate_risk_decision (get material ''riskDecision'')) (\<lambda>riskDecision.
     need INVALID_VALUE (parse_capability_scope (get material ''executionScope'')) (\<lambda>executionScope.
     guard INVALID_VALUE (is_array (get material ''requiredCapabilities'')) (
     rbind (traverse parse_plan_requirement (elements (get material ''requiredCapabilities''))) (\<lambda>requiredCapabilities.
     guard INVALID_VALUE (is_record (get material ''desiredCurrentDiff'')) (
     rbind (create_execution_plan L (get value ''identityVersion'')
       \<lparr>pm_candidate = \<lparr>pc_strategy = strategy, pc_marketSnapshot = marketSnapshot, pc_accountSnapshot = accountSnapshot,
          pc_evidence = evidence, pc_desiredCurrentDiff = get material ''desiredCurrentDiff'',
          pc_orderIntents = map order_intent_to_js orderIntents, pc_requiredCapabilities = requiredCapabilities,
          pc_executionScope = executionScope\<rparr>,
        pm_riskDecision = riskDecision\<rparr>
       (to_constructor_input L (get value ''presentation''))) (\<lambda>plan.
     guard PLAN_HASH_MISMATCH (get value ''planId'' = JStr (ep_planId plan) \<and>
       get value ''materialHash'' = JStr (ep_materialHash plan)) (
     Ok plan)))))))))))))))))"

datatype 'd rehydrated =
    EvidenceArtifact evidence_ref
  | ConstraintsArtifact "'d instrument_constraints"
  | StrategyArtifact "'d strategy_config"
  | CapabilityArtifact capability_observation
  | MarketArtifact "'d market_snapshot"
  | AccountArtifact "'d account_snapshot"
  | IntentArtifact "'d order_intent"
  | RiskArtifact risk_decision
  | PlanArtifact "'d execution_plan"
  | ApprovalArtifact approval
  | LifecycleArtifact lifecycle_state
  | AttemptArtifact execution_attempt
  | OrderArtifact "'d exchange_order"
  | ReconciliationArtifact reconciliation_result
  | FillArtifact "'d fill"
  | FeeArtifact "'d fee"
  | FundingArtifact "'d funding"
  | LedgerArtifact "'d ledger_entry"
  | ClearanceArtifact clearance_evidence
  | ForeignArtifact "'d jsval"

text \<open>The constructors of the kinds that are not modelled, and whether they take decimals as text.\<close>

definition foreign_constructors :: "(string \<times> string \<times> bool) list" where
  "foreign_constructors =
     [(''prepared-daily-plan'', ''rehydratePreparedDailyPlan'', False),
      (''shadow-market-report'', ''rehydrateShadowMarketReport'', False),
      (''prepared-plan-approval'', ''rehydratePreparedPlanApproval'', False),
      (''operator-mainnet-execution-test'', ''rehydrateOperatorMainnetTestPlan'', False),
      (''operator-mainnet-execution-approval'', ''rehydrateOperatorMainnetTestApproval'', False),
      (''operator-mainnet-trade-command-receipt'', ''rehydrateOperatorMainnetTradeCommandReceipt'', False),
      (''operator-mainnet-trade-command-binding'', ''rehydrateOperatorMainnetTradeCommandBinding'', False),
      (''account-evidence-bundle'', ''createAccountEvidenceBundle'', False),
      (''daily-decision-plan'', ''rehydrateDailyDecisionPlan'', False),
      (''data-quality-assessment'', ''rehydrateDataQualityAssessment'', False),
      (''market-evidence-bundle'', ''createMarketEvidenceBundle'', True),
      (''liquidation-evidence-bundle'', ''rehydrateLiquidationEvidenceBundle'', False),
      (''analytics-evidence-bundle'', ''rehydrateAnalyticsEvidenceBundle'', False),
      (''portfolio-risk-preflight'', ''rehydratePortfolioRiskPreflight'', False)]"

definition rehydrate_artifact ::
  "'d lib \<Rightarrow> 'd validators \<Rightarrow> string \<Rightarrow> 'd jsval \<Rightarrow> 'd rehydrated result" where
  "rehydrate_artifact L foreign kind envelope =
     rbind (decode_canonical_artifact L foreign envelope (Some kind)) (\<lambda>decoded.
     let input = to_constructor_input L decoded in
     if kind = ''evidence-ref'' then rbind (create_evidence_ref input) (Ok \<circ> EvidenceArtifact)
     else if kind = ''instrument-constraints'' then rbind (create_instrument_constraints L input) (Ok \<circ> ConstraintsArtifact)
     else if kind = ''strategy-config'' then rbind (create_strategy_config L input) (Ok \<circ> StrategyArtifact)
     else if kind = ''capability-observation'' then rbind (create_capability_observation input) (Ok \<circ> CapabilityArtifact)
     else if kind = ''market-snapshot'' then rbind (create_market_snapshot L input) (Ok \<circ> MarketArtifact)
     else if kind = ''account-snapshot'' then rbind (create_account_snapshot L input) (Ok \<circ> AccountArtifact)
     else if kind = ''order-intent'' then rbind (create_order_intent L decoded) (Ok \<circ> IntentArtifact)
     else if kind = ''risk-decision'' then rbind (rehydrate_risk_decision decoded) (Ok \<circ> RiskArtifact)
     else if kind = ''execution-plan'' then rbind (rehydrate_execution_plan L decoded) (Ok \<circ> PlanArtifact)
     else if kind = ''approval'' then rbind (create_approval input) (Ok \<circ> ApprovalArtifact)
     else if kind = ''lifecycle-state'' then rbind (rehydrate_lifecycle_state input) (Ok \<circ> LifecycleArtifact)
     else if kind = ''execution-attempt'' then rbind (create_execution_attempt input) (Ok \<circ> AttemptArtifact)
     else if kind = ''exchange-order'' then rbind (create_exchange_order L input) (Ok \<circ> OrderArtifact)
     else if kind = ''reconciliation-result'' then rbind (rehydrate_reconciliation_result input) (Ok \<circ> ReconciliationArtifact)
     else if kind = ''fill'' then rbind (create_fill L input) (Ok \<circ> FillArtifact)
     else if kind = ''fee'' then rbind (create_fee L input) (Ok \<circ> FeeArtifact)
     else if kind = ''funding'' then rbind (create_funding L input) (Ok \<circ> FundingArtifact)
     else if kind = ''ledger-entry'' then rbind (create_ledger_entry L input) (Ok \<circ> LedgerArtifact)
     else if kind = ''clearance-evidence'' then rbind (create_clearance_evidence input) (Ok \<circ> ClearanceArtifact)
     else if kind = ''analytics-evidence-bundle'' \<and> is_record decoded \<and>
       get decoded ''schemaVersion'' \<noteq> JStr ''analytics-evidence/v1'' then Fail UNSUPPORTED_CONTRACT
     else
       need_some UNSUPPORTED_CONTRACT (map_of foreign_constructors kind) (\<lambda>(name, textual).
       rbind (foreign name (if textual then input else decoded)) (Ok \<circ> ForeignArtifact)))"

subsection \<open>Decoding gives the data back\<close>

text \<open>No object of the value has a field \<open>__proto__\<close>.\<close>

fun proto_free :: "'d jsval \<Rightarrow> bool" where
  "proto_free (JArr xs) \<longleftrightarrow> (\<forall>x \<in> set xs. proto_free x)"
| "proto_free (JObj kvs) \<longleftrightarrow> ''__proto__'' \<notin> set (map fst kvs) \<and> (\<forall>e \<in> set kvs. proto_free (snd e))"
| "proto_free v \<longleftrightarrow> True"

fun decodable :: "'d lib \<Rightarrow> cval \<Rightarrow> bool" where
  "decodable L (CDec s) \<longleftrightarrow> (\<exists>d. s = dec_to_string L d)"
| "decodable L (CInt n) \<longleftrightarrow> is_safe_integer n"
| "decodable L (CArr cs) \<longleftrightarrow> (\<forall>c \<in> set cs. decodable L c)"
| "decodable L (CObj es) \<longleftrightarrow> sorted (map fst es) \<and> distinct (map fst es) \<and> ''$decimal'' \<notin> set (map fst es) \<and>
     ''__proto__'' \<notin> set (map fst es) \<and> (\<forall>e \<in> set es. decodable L (snd e))"
| "decodable L c \<longleftrightarrow> True"

lemma abstract_decodable: "serializable v \<Longrightarrow> proto_free v \<Longrightarrow> decodable L (abstract_value L v)"
proof (induction L v rule: abstract_value.induct)
  case (9 L kvs)
  then show ?case by (auto simp: comp_def distinct_map)
qed auto

lemma abstract_distinct_keys: "serializable v \<Longrightarrow> distinct_keys (abstract_value L v)"
proof (induction L v rule: abstract_value.induct)
  case (9 L kvs)
  then show ?case by (auto simp: comp_def distinct_map)
qed auto

context big_decimal
begin

lemma decode_json_of:
  "decodable L c \<Longrightarrow> \<exists>w. decode_value L (json_of c) = Ok w \<and> abstract_value L w = c \<and> serializable w"
proof (induction c)
  case (CDec s)
  then obtain d where "s = dec_to_string L d" by auto
  moreover obtain d' where "dec_from_string L (JStr (dec_to_string L d)) = Ok d'" "v d' = v d" using from_to_string by blast
  ultimately show ?case by (intro exI [of _ "JDec d'"]) (simp add: to_string_eq_iff)
next
  case (CArr cs)
  then have "\<forall>c \<in> set cs. \<exists>w. decode_value L (json_of c) = Ok w \<and> abstract_value L w = c \<and> serializable w" by simp
  then obtain f where f: "\<forall>c \<in> set cs. decode_value L (json_of c) = Ok (f c) \<and> abstract_value L (f c) = c \<and> serializable (f c)"
    by (auto simp: bchoice_iff)
  then have "traverse (decode_value L) (map json_of cs) = Ok (map f cs)"
    by (auto simp: traverse_Ok_iff list_all2_conv_all_nth)
  moreover have "map (abstract_value L \<circ> f) cs = cs" using f by (auto intro: map_idI)
  ultimately show ?case using f by (intro exI [of _ "JArr (map f cs)"]) auto
next
  case (CObj es)
  then have "\<forall>e \<in> set es. \<exists>w. decode_value L (json_of (snd e)) = Ok w \<and> abstract_value L w = snd e \<and> serializable w"
    by (fastforce simp: snds.simps)
  then obtain f where f: "\<forall>e \<in> set es. decode_value L (json_of (snd e)) = Ok (f e) \<and> abstract_value L (f e) = snd e \<and> serializable (f e)"
    by (auto simp: bchoice_iff)
  define fields where "fields = map (\<lambda>e. (fst e, f e)) es"
  have keys: "map fst fields = map fst es" by (simp add: fields_def comp_def)
  have "traverse (\<lambda>e. rbind (decode_value L (snd e)) (\<lambda>x. Ok (fst e, x))) (map (\<lambda>e. (fst e, json_of (snd e))) es) = Ok fields"
    using f by (auto simp: traverse_Ok_iff list_all2_conv_all_nth fields_def)
  moreover have "filter (\<lambda>e. fst e \<noteq> ''__proto__'') fields = fields"
    using CObj(2) by (auto simp: filter_id_conv fields_def image_iff)
  ultimately have "decode_value L (json_of (CObj es)) = Ok (JObj fields)" using CObj(2) by (simp add: comp_def)
  moreover have "sort_key fst fields = fields" using CObj(2) keys by (intro sort_key_id_if_sorted) simp
  moreover have "map (\<lambda>e. (fst e, abstract_value L (f e))) es = es" using f by (auto intro: map_idI)
  ultimately show ?case using f CObj(2) keys
    by (intro exI [of _ "JObj fields"]) (auto simp: fields_def comp_def)
qed auto

end


subsection \<open>The schema looks at the data only\<close>

fun structural :: "schema \<Rightarrow> bool" where
  "structural LeafSchema \<longleftrightarrow> True"
| "structural (ArraySchema item) \<longleftrightarrow> (case item of None \<Rightarrow> True | Some s \<Rightarrow> structural s)"
| "structural (ObjectSchema names mandatory children isOpen) \<longleftrightarrow> (\<forall>child \<in> set children. structural (snd child))"
| "structural (ValidatedSchema name) \<longleftrightarrow> False"
| "structural (VersionedSchema versions) \<longleftrightarrow> (\<forall>version \<in> set versions. structural (snd version))"

definition same_data :: "'d lib \<Rightarrow> 'd jsval \<Rightarrow> 'd jsval \<Rightarrow> bool" where
  "same_data L v w \<longleftrightarrow> serializable v \<and> serializable w \<and> abstract_value L v = abstract_value L w"

lemma same_sym: "same_data L v w \<Longrightarrow> same_data L w v"
  by (simp add: same_data_def)

lemma map_of_values: "map_of (map (\<lambda>e. (fst e, f (snd e))) kvs) k = map_option f (map_of kvs k)"
  by (induction kvs) auto

lemma abstract_map:
  assumes "distinct (map fst kvs)"
  shows "map_of (map (\<lambda>e. (fst e, abstract_value L (snd e))) (sort_key fst kvs)) k = map_option (abstract_value L) (map_of kvs k)"
proof -
  have "distinct (map fst (sort_key fst kvs))" using assms by (simp add: distinct_map)
  then have "map_of (sort_key fst kvs) = map_of kvs"
    using assms map_of_inject_set [of "sort_key fst kvs" kvs] by simp
  then show ?thesis by (simp add: map_of_values)
qed

lemma same_cases:
  assumes "same_data L v w"
  shows "(\<exists>kvs les. v = JObj kvs \<and> w = JObj les \<and> fst ` set kvs = fst ` set les) \<or>
    (\<exists>xs ys. v = JArr xs \<and> w = JArr ys \<and> list_all2 (same_data L) xs ys) \<or>
    (\<exists>d d'. v = JDec d \<and> w = JDec d') \<or> v = w \<and> v \<in> {JNull, JUndef} \<union> range JBool \<union> range JInt \<union> range JStr"
proof (cases v)
  case (JObj kvs)
  then obtain les where w: "w = JObj les" using assms by (cases w) (auto simp: same_data_def)
  have "map fst (sort_key fst kvs) = map fst (sort_key fst les)"
    using assms by (auto simp: same_data_def JObj w dest!: arg_cong [where f = "map fst"] simp: comp_def)
  then have "set (map fst (sort_key fst kvs)) = set (map fst (sort_key fst les))" by simp
  then show ?thesis using JObj w by auto
next
  case (JArr xs)
  then obtain ys where w: "w = JArr ys" using assms by (cases w) (auto simp: same_data_def)
  then have "map (abstract_value L) xs = map (abstract_value L) ys" using assms JArr by (simp add: same_data_def)
  moreover have "\<forall>x \<in> set xs. serializable x" "\<forall>y \<in> set ys. serializable y" using assms JArr w by (simp_all add: same_data_def)
  ultimately have "list_all2 (same_data L) xs ys"
    by (auto simp: same_data_def list_all2_conv_all_nth list_eq_iff_nth_eq)
  then show ?thesis using JArr w by simp
qed (use assms in \<open>cases w; auto simp: same_data_def\<close>)+

lemma same_get:
  assumes "same_data L (JObj kvs) (JObj les)" "key \<in> fst ` set kvs"
  shows "same_data L (get (JObj kvs) key) (get (JObj les) key)"
proof -
  have d: "distinct (map fst kvs)" "distinct (map fst les)" using assms(1) by (simp_all add: same_data_def)
  have "map_option (abstract_value L) (map_of kvs key) = map_option (abstract_value L) (map_of les key)"
    using assms(1) abstract_map [OF d(1), of L key] abstract_map [OF d(2), of L key] by (simp add: same_data_def)
  moreover obtain x where x: "map_of kvs key = Some x" using assms(2) by (metis not_None_eq map_of_eq_None_iff)
  ultimately obtain y where y: "map_of les key = Some y" "abstract_value L x = abstract_value L y"
    by (cases "map_of les key") auto
  then show ?thesis using assms(1) x by (auto simp: same_data_def dest!: map_of_SomeD)
qed

lemma traverse_same:
  "list_all2 R xs ys \<Longrightarrow> (\<And>x y. x \<in> set xs \<Longrightarrow> R x y \<Longrightarrow> f x = g y) \<Longrightarrow> traverse f xs = traverse g ys"
  by (induction rule: list_all2_induct) auto

lemma same_version: "same_data L v w \<Longrightarrow> select_version versions v = select_version versions w"
proof (cases "\<exists>kvs les. v = JObj kvs \<and> w = JObj les")
  case True
  assume s: "same_data L v w"
  from True obtain kvs les where o: "v = JObj kvs" "w = JObj les" by blast
  show ?thesis
  proof (cases "''schemaVersion'' \<in> fst ` set kvs")
    case True
    from same_get [OF s [unfolded o] this] show ?thesis
      using same_cases by (fastforce simp: select_version_def o split: jsval.splits dest!: same_cases)
  next
    case False
    moreover from this have "''schemaVersion'' \<notin> fst ` set les" using same_cases [OF s] by (auto simp: o)
    ultimately have "map_of kvs ''schemaVersion'' = None" "map_of les ''schemaVersion'' = None" by (simp_all add: map_of_eq_None_iff)
    then show ?thesis by (simp add: select_version_def o)
  qed
next
  case False
  assume "same_data L v w"
  then show ?thesis using False by (auto simp: select_version_def dest!: same_cases)
qed

lemma same_shape: "structural s \<Longrightarrow> same_data L v w \<Longrightarrow> validate_shape foreign s v = validate_shape foreign s w"
proof (induction foreign s v arbitrary: w rule: validate_shape.induct)
  case (2 foreign versions v)
  show ?case
  proof (cases "select_version versions v")
    case (Some selected)
    then have "structural selected"
      using 2(2) by (auto simp: select_version_def dest!: map_of_SomeD split: jsval.splits if_splits)
    then show ?thesis using Some 2(1,3) same_version [OF 2(3), of versions] by simp
  qed (use same_version [OF 2(3), of versions] in simp)
next
  case (3 foreign v)
  then show ?case by (auto dest!: same_cases)
next
  case (4 foreign item v)
  show ?case
  proof (cases "\<exists>xs ys. v = JArr xs \<and> w = JArr ys \<and> list_all2 (same_data L) xs ys")
    case True
    then obtain xs ys where "v = JArr xs" "w = JArr ys" "list_all2 (same_data L) xs ys" by blast
    then show ?thesis using 4 by (auto intro!: arg_cong [where f = "\<lambda>r. rbind r _"] traverse_same split: option.splits)
  next
    case False
    then show ?thesis using 4(3) by (auto dest!: same_cases)
  qed
next
  case (5 foreign names mandatory children isOpen v)
  show ?case
  proof (cases "\<exists>kvs les. v = JObj kvs \<and> w = JObj les \<and> fst ` set kvs = fst ` set les")
    case True
    then obtain kvs les where o: "v = JObj kvs" "w = JObj les" "fst ` set kvs = fst ` set les" by blast
    have k: "set (keys v) = set (keys w)" using o by simp
    have same: "is_decimal_value v = is_decimal_value w" "is_record v = is_record w" "has_key v = has_key w"
      "(\<forall>key \<in> set (keys v). key \<in> set names) = (\<forall>key \<in> set (keys w). key \<in> set names)"
      using o k by (simp_all add: fun_eq_iff)
    show ?thesis
    proof (cases "(\<forall>key \<in> set mandatory. has_key w key) \<and> (isOpen \<or> (\<forall>key \<in> set (keys w). key \<in> set names))")
      case guards: True
      have "traverse (\<lambda>child. if has_key w (fst child) then validate_shape foreign (snd child) (get v (fst child)) else Ok ()) children =
        traverse (\<lambda>child. if has_key w (fst child) then validate_shape foreign (snd child) (get w (fst child)) else Ok ()) children"
      proof (rule traverse_cong [OF refl])
        fix child assume c: "child \<in> set children"
        show "(if has_key w (fst child) then validate_shape foreign (snd child) (get v (fst child)) else Ok ()) =
          (if has_key w (fst child) then validate_shape foreign (snd child) (get w (fst child)) else Ok ())"
        proof (cases "has_key w (fst child)")
          case True
          have "validate_shape foreign (snd child) (get v (fst child)) = validate_shape foreign (snd child) (get w (fst child))"
          proof (rule 5(1))
            show "same_data L (get v (fst child)) (get w (fst child))"
              using same_get [OF 5(3) [unfolded o(1,2)], of "fst child"] True o by simp
            show "\<not> (is_decimal_value v \<or> \<not> is_record v)" using o by simp
            show "\<not> \<not> (\<forall>key \<in> set mandatory. has_key v key)" "\<not> (\<not> isOpen \<and> \<not> (\<forall>key \<in> set (keys v). key \<in> set names))"
              "has_key v (fst child)" using guards True by (simp_all only: same) blast+
          qed (use 5(2) c in simp_all)
          then show ?thesis using True by simp
        qed simp
      qed
      then show ?thesis by (simp only: validate_shape.simps same)
    next
      case False
      then show ?thesis by (simp only: validate_shape.simps same) auto
    qed
  next
    case False
    then show ?thesis using 5(3) by (auto dest!: same_cases)
  qed
qed simp


subsection \<open>Round trips\<close>

lemma structural_value:
  "structural s \<Longrightarrow> validate_artifact_value foreign s value = rbind (validate_shape foreign s value) (\<lambda>_. Ok value)"
proof (cases s)
  case (VersionedSchema versions)
  assume st: "structural s"
  show ?thesis
  proof (cases "select_version versions value")
    case (Some selected)
    then have "structural selected"
      using st VersionedSchema by (auto simp: select_version_def dest!: map_of_SomeD split: jsval.splits if_splits)
    then show ?thesis by (cases selected) (simp_all add: VersionedSchema Some)
  qed (simp add: VersionedSchema)
qed simp_all

lemma encode_Ok_iff:
  assumes "map_of artifact_schemas kind = Some s" "structural s"
  shows "encode_canonical_artifact L foreign kind value = Ok e \<longleftrightarrow>
    validate_shape foreign s value = Ok () \<and> serializable value \<and>
    e = \<lparr>en_artifactKind = kind, en_schemaVersion = ''artifact/v1'', en_canonicalJson = render (abstract_value L value),
      en_canonicalHash = hash_canonical_text L (render (abstract_value L value))\<rparr>"
  using assms
  by (auto simp: encode_canonical_artifact_def structural_value rbind_Ok_iff canonical_serialize_refines)

definition readable_envelope :: "'d jsval \<Rightarrow> artifact_envelope \<Rightarrow> bool" where
  "readable_envelope input e \<longleftrightarrow>
     is_record input \<and> length (keys input) = 4 \<and>
     get input ''artifactKind'' = JStr (en_artifactKind e) \<and> get input ''schemaVersion'' = JStr (en_schemaVersion e) \<and>
     get input ''canonicalJson'' = JStr (en_canonicalJson e) \<and> get input ''canonicalHash'' = JStr (en_canonicalHash e)"

lemma decode_Ok_encodes:
  assumes "decode_canonical_artifact L foreign input expected = Ok v"
  obtains e s where "readable_envelope input e" "map_of artifact_schemas (en_artifactKind e) = Some s"
    "expected = None \<or> expected = Some (en_artifactKind e)"
    "structural s \<Longrightarrow> encode_canonical_artifact L foreign (en_artifactKind e) v = Ok e"
proof -
  obtain kind s body hash parsed decoded where d: "is_record input" "length (keys input) = 4"
    "get input ''artifactKind'' = JStr kind" "map_of artifact_schemas kind = Some s"
    "expected = None \<or> expected = Some kind" "get input ''schemaVersion'' = JStr ''artifact/v1''"
    "get input ''canonicalJson'' = JStr body" "get input ''canonicalHash'' = JStr hash"
    "hash = hash_canonical_text L body" "json_parse body = Some parsed" "decode_value L parsed = Ok decoded"
    "validate_artifact_value foreign s decoded = Ok v" "canonical_serialize L v = Ok body"
    using assms
    by (auto simp: decode_canonical_artifact_def need_some_def rbind_Ok_iff guard_def require_hash_Ok
        split: if_splits jsval.splits option.splits prod.splits)
  show thesis
  proof (rule that [of "\<lparr>en_artifactKind = kind, en_schemaVersion = ''artifact/v1'', en_canonicalJson = body,
      en_canonicalHash = hash\<rparr>" s])
    assume "structural s"
    then have "validate_artifact_value foreign s v = Ok v"
      using d(12) by (auto simp: structural_value rbind_Ok_iff)
    then show "encode_canonical_artifact L foreign (en_artifactKind \<lparr>en_artifactKind = kind, en_schemaVersion = ''artifact/v1'',
        en_canonicalJson = body, en_canonicalHash = hash\<rparr>) v = Ok \<lparr>en_artifactKind = kind, en_schemaVersion = ''artifact/v1'',
        en_canonicalJson = body, en_canonicalHash = hash\<rparr>"
      using d by (simp add: encode_canonical_artifact_def)
  qed (use d in \<open>simp_all add: readable_envelope_def\<close>)
qed

context host
begin

lemma hash_text_canonical: "hash_text (hash_canonical_text L text)"
  by (auto simp: hash_canonical_text_def hash_text_def sha_length sha_hex)

lemma decode_encoded_value:
  assumes "map_of artifact_schemas kind = Some s" "structural s" "encode_canonical_artifact L foreign kind value = Ok e"
    "decode_value L (json_of (abstract_value L value)) = Ok w" "abstract_value L w = abstract_value L value" "serializable w"
    "expected = None \<or> expected = Some kind"
  shows "decode_canonical_artifact L foreign (envelope_js e) expected = Ok w"
proof -
  have e: "validate_shape foreign s value = Ok ()" "serializable value"
    "e = \<lparr>en_artifactKind = kind, en_schemaVersion = ''artifact/v1'', en_canonicalJson = render (abstract_value L value),
      en_canonicalHash = hash_canonical_text L (render (abstract_value L value))\<rparr>"
    using assms(3) [unfolded encode_Ok_iff [OF assms(1,2)]] by blast+
  have same: "same_data L value w" using assms(5,6) e(2) by (simp add: same_data_def)
  have "validate_artifact_value foreign s w = Ok w"
    using e(1) same_shape [OF assms(2) same, of foreign] by (simp add: structural_value [OF assms(2)])
  moreover have "canonical_serialize L w = Ok (render (abstract_value L value))"
    using assms(5,6) by (simp add: canonical_serialize_refines)
  moreover have "json_parse (render (abstract_value L value)) = Some (json_of (abstract_value L value) :: 'a jsval)"
    by (rule json_parse_rendered [OF abstract_distinct_keys [OF e(2)]])
  ultimately show ?thesis
    using assms(1,4,7) by (simp add: decode_canonical_artifact_def e(3) envelope_js_def hash_text_canonical)
qed

lemma decode_encoded:
  assumes "map_of artifact_schemas kind = Some s" "structural s" "encode_canonical_artifact L foreign kind value = Ok e"
    "proto_free value" "expected = None \<or> expected = Some kind"
  shows "\<exists>w. decode_canonical_artifact L foreign (envelope_js e) expected = Ok w \<and> same_data L value w"
proof -
  have plain: "serializable value" using assms(3) [unfolded encode_Ok_iff [OF assms(1,2)]] by blast
  obtain w where "decode_value L (json_of (abstract_value L value)) = Ok w" "abstract_value L w = abstract_value L value"
    "serializable w"
    using decode_json_of [OF abstract_decodable [OF plain assms(4)]] by blast
  then show ?thesis
    using decode_encoded_value [OF assms(1-3), of w] assms(5) plain by (auto simp: same_data_def)
qed

end


text \<open>Claim C13: what the artifact guard encodes it decodes to the same data, and what it decodes is exactly what it encodes.  For every artifact kind
whose schema is structural (it calls no constructor of a part outside the model), an envelope \<open>encodeCanonicalArtifact\<close> made of a
value without \<open>__proto__\<close> fields is accepted by \<open>decodeCanonicalArtifact\<close>, through the parse of its JSON text, the schema, and the
comparison of hash and canonical bytes, and gives a value with the same data; and every input \<open>decodeCanonicalArtifact\<close> accepts carries, field
by field, the envelope that encoding the decoded value gives: no second text or hash stands for the same artifact.\<close>

theorem artifact_round_trip:
  assumes "host L vl" "map_of artifact_schemas kind = Some s" "structural s"
  shows "(encode_canonical_artifact L foreign kind value = Ok e \<and> proto_free value \<longrightarrow>
      (\<exists>w. decode_canonical_artifact L foreign (envelope_js e) (Some kind) = Ok w \<and> same_data L value w)) \<and>
    (decode_canonical_artifact L foreign input (Some kind) = Ok v \<longrightarrow>
      (\<exists>e. readable_envelope input e \<and> en_artifactKind e = kind \<and> encode_canonical_artifact L foreign kind v = Ok e))"
proof (intro conjI impI)
  assume "encode_canonical_artifact L foreign kind value = Ok e \<and> proto_free value"
  then show "\<exists>w. decode_canonical_artifact L foreign (envelope_js e) (Some kind) = Ok w \<and> same_data L value w"
    using host.decode_encoded [OF assms] by blast
next
  assume "decode_canonical_artifact L foreign input (Some kind) = Ok v"
  then show "\<exists>e. readable_envelope input e \<and> en_artifactKind e = kind \<and> encode_canonical_artifact L foreign kind v = Ok e"
  proof (rule decode_Ok_encodes)
    fix e s'
    assume e: "readable_envelope input e" "map_of artifact_schemas (en_artifactKind e) = Some s'"
      "Some kind = None \<or> Some kind = Some (en_artifactKind e)"
      "structural s' \<Longrightarrow> encode_canonical_artifact L foreign (en_artifactKind e) v = Ok e"
    then have "en_artifactKind e = kind" "s' = s" using assms(2) by auto
    then show ?thesis using e(1,4) assms(3) by blast
  qed
qed

theorem artifact_round_trip_witness:
  "\<exists>e w. encode_canonical_artifact ref_lib (\<lambda>_ _. Fail INVALID_VALUE) ''evidence-ref'' (evidence_to_js sample_evidence) = Ok e \<and>
     decode_canonical_artifact ref_lib (\<lambda>_ _. Fail INVALID_VALUE) (envelope_js e) (Some ''evidence-ref'') = Ok w \<and>
     same_data ref_lib (evidence_to_js sample_evidence) w"
proof -
  let ?v = "evidence_to_js sample_evidence :: sdec jsval"
  let ?f = "\<lambda>_ _. Fail INVALID_VALUE :: sdec jsval result"
  have schema: "map_of artifact_schemas ''evidence-ref'' = Some evidence_schema" "structural evidence_schema"
    by (simp_all add: artifact_schemas_def evidence_schema_def)
  have "\<exists>e. encode_canonical_artifact ref_lib ?f ''evidence-ref'' ?v = Ok e"
    unfolding encode_Ok_iff [OF schema]
    by (simp add: evidence_schema_def evidence_to_js_def sample_evidence_def is_safe_integer_def)
  then obtain e where "encode_canonical_artifact ref_lib ?f ''evidence-ref'' ?v = Ok e" by blast
  moreover have "proto_free ?v" by (simp add: evidence_to_js_def)
  ultimately show ?thesis
    using artifact_round_trip [OF ref_host schema, of ?f ?v e undefined undefined] by blast
qed

text \<open>The kinds the round trip does not speak of.\<close>

lemma validated_kinds:
  "map fst (filter (\<lambda>k. \<not> structural (snd k)) artifact_schemas) =
     [''prepared-daily-plan'', ''shadow-market-report'', ''prepared-plan-approval'', ''operator-mainnet-execution-test'',
      ''operator-mainnet-execution-approval'', ''operator-mainnet-trade-command-receipt'',
      ''operator-mainnet-trade-command-binding'', ''account-evidence-bundle'', ''daily-decision-plan'',
      ''liquidation-evidence-bundle'', ''portfolio-risk-preflight'']"
  by code_simp

text \<open>The schema of an order intent does not know the take-profit policy that \<open>createOrderIntent\<close> accepts: such an intent has no
artifact.\<close>

lemma take_profit_policy_not_encoded:
  assumes "has_key (get value ''protection'') ''takeProfitPolicy''" "is_record (get value ''protection'')"
  shows "encode_canonical_artifact L foreign ''order-intent'' value \<noteq> Ok e"
proof
  assume encoded: "encode_canonical_artifact L foreign ''order-intent'' value = Ok e"
  have schema: "map_of artifact_schemas ''order-intent'' = Some order_intent_schema"
    by (simp add: artifact_schemas_def)
  have "structural order_intent_schema"
    by (simp add: order_intent_schema_def protection_schema_def normalization_schema_def)
  then have "validate_shape foreign order_intent_schema value = Ok ()"
    using encoded encode_Ok_iff [OF schema] by blast
  moreover have "has_key value ''protection''"
    using assms by (cases "value") (auto dest!: map_of_SomeD split: option.splits intro!: image_eqI)
  ultimately have "\<exists>u. validate_shape foreign protection_schema (get value ''protection'') = Ok u"
    by (auto simp: order_intent_schema_def rbind_Ok_iff artifact_failure_def split: if_splits)
  moreover have "\<not> (\<forall>key \<in> set (keys (get value ''protection'')). key \<in> set [''stopLoss'', ''takeProfit''])"
  proof
    assume "\<forall>key \<in> set (keys (get value ''protection'')). key \<in> set [''stopLoss'', ''takeProfit'']"
    moreover have "''takeProfitPolicy'' \<in> set (keys (get value ''protection''))"
      using assms by (cases "get value ''protection''") simp_all
    ultimately show False by fastforce
  qed
  ultimately show False by (simp add: protection_schema_def artifact_failure_def split: if_splits)
qed

end
