(* ===== verification/Ledger.thy ===== *)
theory Ledger
  imports Authority Binding Artifact "HOL-Library.AList"
begin

text \<open>
  The journal of a run in \<open>adapters/sqlite/execution-store.ts\<close>: a lineage owns a plan and its
  approval, an intent of the plan is owned before anything is sent, an attempt records a
  dispatch, a binding the exchange's identity for it, and a reconciliation what became of it.

  A table is the list of its rows in order of insertion; an \<open>INSERT\<close> checks the unique keys and
  the references of the table (\<open>adapters/sqlite/migrations/002\<close>, \<open>004\<close>, \<open>005\<close>) and throws when one
  fails, and a query returns the first row that matches. The \<open>CHECK\<close> constraints on the environment,
  the mode and the enumerated columns hold for every row the operations build, and are left
  out. \<open>foreign\<close> stands for the artifact constructors that are not modelled. Failures of
  \<open>BEGIN\<close> and \<open>COMMIT\<close> and the readings of the trusted clock are arguments, as in \<open>Authority\<close>.
\<close>

subsection \<open>The store\<close>

record store =
  st_authority :: database
  st_artifacts :: "row list"
  st_lineages :: "row list"
  st_approvals :: "row list"
  st_intents :: "row list"
  st_attempts :: "row list"
  st_bindings :: "row list"
  st_reconciliations :: "row list"

definition empty_store :: store where
  "empty_store = \<lparr>st_authority = empty_database, st_artifacts = [], st_lineages = [], st_approvals = [],
     st_intents = [], st_attempts = [], st_bindings = [], st_reconciliations = []\<rparr>"

definition on_authority :: "(database \<Rightarrow> 'a sql_outcome \<times> database) \<Rightarrow> store \<Rightarrow> 'a sql_outcome \<times> store" where
  "on_authority f st = (let (outcome, db) = f (st_authority st) in (outcome, st\<lparr>st_authority := db\<rparr>))"

definition scope_columns :: "persistence_scope \<Rightarrow> (string \<times> row) list" where
  "scope_columns scope =
     [(''exchange'', JStr (ps_exchange scope)), (''environment'', JStr (ps_environment scope)),
      (''account_id'', JStr (ps_accountId scope)), (''category'', JStr (ps_category scope)),
      (''position_mode'', JStr (ps_positionMode scope))]"

text \<open>\<open>SCOPE_WHERE\<close>\<close>

definition in_scope :: "persistence_scope \<Rightarrow> row \<Rightarrow> bool" where
  "in_scope scope row \<longleftrightarrow>
     get row ''exchange'' = JStr (ps_exchange scope) \<and> get row ''environment'' = JStr (ps_environment scope) \<and>
     get row ''account_id'' = JStr (ps_accountId scope) \<and> get row ''category'' = JStr (ps_category scope) \<and>
     get row ''position_mode'' = JStr (ps_positionMode scope)"

definition scope_keys :: "string list" where
  "scope_keys = [''exchange'', ''environment'', ''account_id'', ''category'', ''position_mode'']"

definition same_key :: "string list \<Rightarrow> row \<Rightarrow> row \<Rightarrow> bool" where
  "same_key key a b \<longleftrightarrow> (\<forall>field \<in> set key. get a field = get b field)"

text \<open>\<open>references\<close>: a column, the table it refers to and the column there.\<close>

definition insert_row ::
  "string list list \<Rightarrow> (string \<times> row list \<times> string) list \<Rightarrow> row \<Rightarrow> row list \<Rightarrow> (row list \<Rightarrow> store) \<Rightarrow> store
     \<Rightarrow> unit sql_outcome \<times> store" where
  "insert_row uniques references new rows put st =
     (if \<exists>key \<in> set uniques. \<exists>other \<in> set rows. same_key key new other
      then (Raised (Thrown_error ''UNIQUE constraint failed''), st)
      else if \<exists>(column, table, key) \<in> set references. \<forall>other \<in> set table. get other key \<noteq> get new column
      then (Raised (Thrown_error ''FOREIGN KEY constraint failed''), st)
      else (Returned (Ok ()), put (rows @ [new])))"

definition optional_column :: "string option \<Rightarrow> row" where
  "optional_column x = (case x of None \<Rightarrow> JNull | Some s \<Rightarrow> JStr s)"

definition stored_hash :: "row \<Rightarrow> string \<Rightarrow> string result" where
  "stored_hash row field =
     rbind (stored_string row field) (\<lambda>value.
     need PERSISTENCE_INTEGRITY (require_hash (JStr value :: row) field) (\<lambda>parsed. Ok parsed))"

definition conflict_failure :: "'a result" where
  "conflict_failure = Fail PERSISTENCE_CONFLICT"

text \<open>Constant columns of a \<open>SELECT\<close>.\<close>

definition with_columns :: "(string \<times> row) list \<Rightarrow> row \<Rightarrow> row" where
  "with_columns extra row = (case row of JObj kvs \<Rightarrow> JObj (extra @ kvs) | _ \<Rightarrow> row)"

subsection \<open>Reading rows\<close>

record lineage_record =
  ln_lineageId :: string
  ln_runId :: string
  ln_planId :: string
  ln_planHash :: string
  ln_scope :: persistence_scope
  ln_createdAt :: string

record owned_intent_record =
  ow_intentRecordId :: string
  ow_lineageId :: string
  ow_intentId :: string
  ow_planHash :: string
  ow_clientOrderId :: string
  ow_preparedAt :: string

record attempt_record =
  ar_lineageId :: string
  ar_attempt :: execution_attempt
  ar_dispatchedAt :: string

record reconciliation_record =
  rc_lineageId :: string
  rc_result :: reconciliation_result
  rc_recordedAt :: string

definition scope_from_plan :: "'d execution_plan \<Rightarrow> persistence_scope result" where
  "scope_from_plan plan =
     (let candidate = pm_candidate (ep_material plan);
          executionScope = pc_executionScope candidate; accountScope = ac_scope (pc_accountSnapshot candidate) in
      guard PERSISTENCE_ENVIRONMENT
        (executionScope = accountScope \<and> is_environment (sc_environment executionScope)) (
      rbind (require_safe_text (JStr (ac_accountScope (pc_accountSnapshot candidate)) :: row) ''accountScope'') (\<lambda>accountId.
      Ok \<lparr>ps_exchange = sc_exchange executionScope, ps_environment = sc_environment executionScope,
          ps_accountId = accountId, ps_category = sc_category executionScope,
          ps_positionMode = position_mode_text (sc_positionMode executionScope)\<rparr>)))"

definition envelope_from_row :: "row \<Rightarrow> string \<Rightarrow> artifact_envelope result" where
  "envelope_from_row row expectedKind =
     need PERSISTENCE_INTEGRITY (stored_string row ''artifact_kind'') (\<lambda>artifactKind.
     need PERSISTENCE_INTEGRITY (stored_string row ''schema_version'') (\<lambda>schemaVersion.
     need PERSISTENCE_INTEGRITY (stored_string row ''canonical_json'') (\<lambda>canonicalJson.
     need PERSISTENCE_INTEGRITY (stored_hash row ''canonical_hash'') (\<lambda>canonicalHash.
     guard PERSISTENCE_INTEGRITY (artifactKind = expectedKind) (
     Ok \<lparr>en_artifactKind = expectedKind, en_schemaVersion = schemaVersion, en_canonicalJson = canonicalJson,
         en_canonicalHash = canonicalHash\<rparr>)))))"

definition lineage_row :: "store \<Rightarrow> persistence_scope \<Rightarrow> string \<Rightarrow> row option" where
  "lineage_row st scope lineageId =
     find (\<lambda>row. in_scope scope row \<and> get row ''lineage_id'' = JStr lineageId) (st_lineages st)"

definition lineage_from_row :: "row \<Rightarrow> persistence_scope \<Rightarrow> lineage_record result" where
  "lineage_from_row row scope =
     need PERSISTENCE_INTEGRITY (stored_identifier row ''lineage_id'') (\<lambda>lineageId.
     need PERSISTENCE_INTEGRITY (stored_identifier row ''run_id'') (\<lambda>runId.
     need PERSISTENCE_INTEGRITY (stored_identifier row ''plan_id'') (\<lambda>planId.
     need PERSISTENCE_INTEGRITY (stored_hash row ''plan_hash'') (\<lambda>planHash.
     need PERSISTENCE_INTEGRITY (stored_timestamp row ''created_at'') (\<lambda>createdAt.
     Ok \<lparr>ln_lineageId = lineageId, ln_runId = runId, ln_planId = planId, ln_planHash = planHash,
         ln_scope = scope, ln_createdAt = createdAt\<rparr>)))))"

definition owned_intent_row :: "store \<Rightarrow> persistence_scope \<Rightarrow> string \<Rightarrow> string \<Rightarrow> row option" where
  "owned_intent_row st scope lineageId intentId =
     find (\<lambda>row. in_scope scope row \<and> get row ''lineage_id'' = JStr lineageId \<and> get row ''intent_id'' = JStr intentId)
       (st_intents st)"

definition owned_intent_from_row :: "row \<Rightarrow> owned_intent_record result" where
  "owned_intent_from_row row =
     need PERSISTENCE_INTEGRITY (stored_identifier row ''intent_record_id'') (\<lambda>intentRecordId.
     need PERSISTENCE_INTEGRITY (stored_identifier row ''lineage_id'') (\<lambda>lineageId.
     need PERSISTENCE_INTEGRITY (stored_identifier row ''intent_id'') (\<lambda>intentId.
     need PERSISTENCE_INTEGRITY (stored_hash row ''plan_hash'') (\<lambda>planHash.
     need PERSISTENCE_INTEGRITY (stored_identifier row ''client_order_id'') (\<lambda>clientOrderId.
     need PERSISTENCE_INTEGRITY (stored_timestamp row ''prepared_at'') (\<lambda>preparedAt.
     Ok \<lparr>ow_intentRecordId = intentRecordId, ow_lineageId = lineageId, ow_intentId = intentId,
         ow_planHash = planHash, ow_clientOrderId = clientOrderId, ow_preparedAt = preparedAt\<rparr>))))))"

text \<open>
  The joins: \<open>lineage_id\<close> and \<open>artifact_id\<close> are primary keys, and the only \<open>INSERT\<close> into \<open>approvals\<close>
  adds one row per lineage, so each join has at most one row, found table by table.
\<close>

definition plan_row :: "store \<Rightarrow> persistence_scope \<Rightarrow> string \<Rightarrow> row option" where
  "plan_row st scope lineageId =
     (case lineage_row st scope lineageId of None \<Rightarrow> None
      | Some l \<Rightarrow> find (\<lambda>a. get a ''artifact_id'' = get l ''plan_id'' \<and> in_scope scope a) (st_artifacts st))"

definition read_plan ::
  "'d lib \<Rightarrow> 'd validators \<Rightarrow> store \<Rightarrow> persistence_scope \<Rightarrow> string \<Rightarrow> 'd execution_plan option result" where
  "read_plan L foreign st scope lineageId =
     (case plan_row st scope lineageId of None \<Rightarrow> Ok None
      | Some row \<Rightarrow>
          rbind (envelope_from_row row ''execution-plan'') (\<lambda>envelope.
          (case rehydrate_artifact L foreign ''execution-plan'' (envelope_js envelope) of
             Inr (PlanArtifact plan) \<Rightarrow> Ok (Some plan)
           | _ \<Rightarrow> persistence_failure)))"

definition approval_row :: "store \<Rightarrow> persistence_scope \<Rightarrow> string \<Rightarrow> row option" where
  "approval_row st scope lineageId =
     (case lineage_row st scope lineageId of None \<Rightarrow> None
      | Some l \<Rightarrow>
          (case find (\<lambda>p. get p ''lineage_id'' = get l ''lineage_id'') (st_approvals st) of None \<Rightarrow> None
           | Some p \<Rightarrow> find (\<lambda>a. get a ''artifact_id'' = get p ''approval_id'' \<and> in_scope scope a) (st_artifacts st)))"

definition approval_from_row :: "'d lib \<Rightarrow> 'd validators \<Rightarrow> row \<Rightarrow> approval result" where
  "approval_from_row L foreign row =
     rbind (envelope_from_row row ''approval'') (\<lambda>envelope.
     (case rehydrate_artifact L foreign ''approval'' (envelope_js envelope) of
        Inr (ApprovalArtifact approval) \<Rightarrow> Ok approval
      | _ \<Rightarrow> persistence_failure))"

definition read_approval ::
  "'d lib \<Rightarrow> 'd validators \<Rightarrow> store \<Rightarrow> persistence_scope \<Rightarrow> string \<Rightarrow> approval option result" where
  "read_approval L foreign st scope lineageId =
     (case approval_row st scope lineageId of None \<Rightarrow> Ok None
      | Some row \<Rightarrow> map_result (approval_from_row L foreign row) Some)"

definition attempt_from_row :: "'d lib \<Rightarrow> 'd validators \<Rightarrow> row \<Rightarrow> attempt_record result" where
  "attempt_from_row L foreign row =
     need PERSISTENCE_INTEGRITY (stored_identifier row ''lineage_id'') (\<lambda>lineageId.
     need PERSISTENCE_INTEGRITY (stored_timestamp row ''dispatched_at'') (\<lambda>dispatchedAt.
     need PERSISTENCE_INTEGRITY (envelope_from_row row ''execution-attempt'') (\<lambda>envelope.
     (case rehydrate_artifact L foreign ''execution-attempt'' (envelope_js envelope) of
        Inr (AttemptArtifact attempt) \<Rightarrow>
          guard PERSISTENCE_INTEGRITY (is_produced_execution_attempt attempt) (
          Ok \<lparr>ar_lineageId = lineageId, ar_attempt = attempt, ar_dispatchedAt = dispatchedAt\<rparr>)
      | _ \<Rightarrow> persistence_failure))))"

definition reconciliation_from_row :: "'d lib \<Rightarrow> 'd validators \<Rightarrow> row \<Rightarrow> reconciliation_record result" where
  "reconciliation_from_row L foreign row =
     need PERSISTENCE_INTEGRITY (stored_identifier row ''lineage_id'') (\<lambda>lineageId.
     need PERSISTENCE_INTEGRITY (stored_timestamp row ''recorded_at'') (\<lambda>recordedAt.
     need PERSISTENCE_INTEGRITY (envelope_from_row row ''reconciliation-result'') (\<lambda>envelope.
     (case rehydrate_artifact L foreign ''reconciliation-result'' (envelope_js envelope) of
        Inr (ReconciliationArtifact r) \<Rightarrow>
          guard PERSISTENCE_INTEGRITY (is_produced_reconciliation_result r) (
          Ok \<lparr>rc_lineageId = lineageId, rc_result = r, rc_recordedAt = recordedAt\<rparr>)
      | _ \<Rightarrow> persistence_failure))))"

definition text_column :: "row \<Rightarrow> string \<Rightarrow> 'd jsval" where
  "text_column row field = (case get row field of JStr s \<Rightarrow> JStr s | _ \<Rightarrow> JNull)"

text \<open>The columns \<open>side\<close> and \<open>position_mode\<close> go to the constructor as they are; anything but a text fails there.\<close>

definition identity_binding_from_row :: "'d lib \<Rightarrow> row \<Rightarrow> 'd identity_binding result" where
  "identity_binding_from_row L row =
     need PERSISTENCE_INTEGRITY (traverse (stored_identifier row)
       [''binding_id'', ''lineage_id'', ''attempt_id'', ''intent_id'', ''client_order_id'', ''instrument'',
        ''exchange_order_id'', ''exchange'', ''category'']) (\<lambda>identifiers.
     need PERSISTENCE_INTEGRITY (stored_hash row ''plan_hash'') (\<lambda>planHash.
     need PERSISTENCE_INTEGRITY (traverse (stored_string row)
       [''environment'', ''account_id'', ''requested_quantity'']) (\<lambda>texts.
     need PERSISTENCE_INTEGRITY (stored_timestamp row ''bound_at'') (\<lambda>boundAt.
     need PERSISTENCE_INTEGRITY (create_identity_binding L (JObj
       [(''bindingId'', text_column row ''binding_id''), (''lineageId'', text_column row ''lineage_id''),
        (''attemptId'', text_column row ''attempt_id''), (''intentId'', text_column row ''intent_id''),
        (''planHash'', text_column row ''plan_hash''), (''boundAt'', JStr boundAt),
        (''exchangeOrderId'', text_column row ''exchange_order_id''),
        (''clientOrderId'', text_column row ''client_order_id''), (''instrument'', text_column row ''instrument''),
        (''side'', text_column row ''side''), (''requestedQuantity'', text_column row ''requested_quantity''),
        (''ownershipContext'', JObj
          [(''exchange'', text_column row ''exchange''), (''environment'', text_column row ''environment''),
           (''accountId'', text_column row ''account_id''), (''category'', text_column row ''category''),
           (''positionMode'', text_column row ''position_mode''), (''lineageId'', text_column row ''lineage_id''),
           (''intentId'', text_column row ''intent_id''), (''attemptId'', text_column row ''attempt_id'')])])) (\<lambda>binding.
     guard PERSISTENCE_INTEGRITY (is_produced_identity_binding binding) (Ok binding))))))"

definition identity_binding_row :: "store \<Rightarrow> persistence_scope \<Rightarrow> string \<Rightarrow> string \<Rightarrow> row option" where
  "identity_binding_row st scope lineageId attemptId =
     find (\<lambda>row. in_scope scope row \<and> get row ''lineage_id'' = JStr lineageId \<and> get row ''attempt_id'' = JStr attemptId)
       (st_bindings st)"

subsection \<open>Storing artifacts\<close>

definition artifact_row ::
  "persistence_scope \<Rightarrow> string \<Rightarrow> artifact_envelope \<Rightarrow> string option \<Rightarrow> string \<Rightarrow> row" where
  "artifact_row scope artifactId envelope materialHash createdAt = JObj
     ((''artifact_id'', JStr artifactId) # scope_columns scope @
      [(''artifact_kind'', JStr (en_artifactKind envelope)), (''schema_version'', JStr (en_schemaVersion envelope)),
       (''canonical_json'', JStr (en_canonicalJson envelope)), (''canonical_hash'', JStr (en_canonicalHash envelope)),
       (''material_hash'', optional_column materialHash), (''created_at'', JStr createdAt)])"

definition insert_artifact ::
  "persistence_scope \<Rightarrow> string \<Rightarrow> artifact_envelope \<Rightarrow> string option \<Rightarrow> string \<Rightarrow> store \<Rightarrow> unit sql_outcome \<times> store" where
  "insert_artifact scope artifactId envelope materialHash createdAt st =
     (case find (\<lambda>row. get row ''artifact_id'' = JStr artifactId) (st_artifacts st) of
        Some existing \<Rightarrow>
          if \<not> in_scope scope existing then (Returned conflict_failure, st)
          else if get existing ''artifact_kind'' = JStr (en_artifactKind envelope) \<and>
             get existing ''schema_version'' = JStr (en_schemaVersion envelope) \<and>
             get existing ''canonical_json'' = JStr (en_canonicalJson envelope) \<and>
             get existing ''canonical_hash'' = JStr (en_canonicalHash envelope) \<and>
             (if get existing ''material_hash'' = JNull then JUndef else get existing ''material_hash'') =
               (case materialHash of None \<Rightarrow> JUndef | Some h \<Rightarrow> JStr h)
          then (Returned (Ok ()), st) else (Returned conflict_failure, st)
      | None \<Rightarrow> insert_row [[''artifact_id'']] [] (artifact_row scope artifactId envelope materialHash createdAt)
          (st_artifacts st) (\<lambda>rows. st\<lparr>st_artifacts := rows\<rparr>) st)"

subsection \<open>Preparing a lineage\<close>

definition presentation_js :: "plan_presentation \<Rightarrow> 'd jsval" where
  "presentation_js p = JObj ((''generatedAt'', JStr (pp_generatedAt p)) # opt_field ''comment'' (map_option JStr (pp_comment p)))"

definition execution_plan_js :: "'d execution_plan \<Rightarrow> 'd jsval" where
  "execution_plan_js plan = JObj
     ([(''planId'', JStr (ep_planId plan)), (''identityVersion'', JStr (ep_identityVersion plan)),
       (''materialHash'', JStr (ep_materialHash plan)),
       (''material'', JObj (candidate_fields (pm_candidate (ep_material plan)) @
          [(''riskDecision'', risk_decision_to_js (pm_riskDecision (ep_material plan)))]))]
      @ opt_field ''presentation'' (map_option presentation_js (ep_presentation plan)))"

definition approval_js :: "approval \<Rightarrow> 'd jsval" where
  "approval_js a = JObj
     ([(''approvalId'', JStr (apr_approvalId a)), (''planHash'', JStr (apr_planHash a)),
       (''actor'', JStr (apr_actor a)), (''approvedAt'', JStr (apr_approvedAt a)),
       (''expiresAt'', JStr (apr_expiresAt a))] @ opt_field ''note'' (map_option JStr (apr_note a)))"

record 'd lineage_request =
  lnq_scope :: persistence_scope
  lnq_runId :: string
  lnq_plan :: "'d execution_plan"
  lnq_approval :: row
  lnq_preparedAt :: string

record prepared_lineage =
  pl_lineageId :: string
  pl_runId :: string
  pl_preparedAt :: string
  pl_approval :: approval
  pl_planArtifact :: artifact_envelope
  pl_approvalArtifact :: artifact_envelope

definition validate_lineage_request ::
  "'d lib \<Rightarrow> 'd validators \<Rightarrow> persistence_scope \<Rightarrow> 'd lineage_request \<Rightarrow> prepared_lineage result" where
  "validate_lineage_request L foreign scope request =
     guard PERSISTENCE_ENVIRONMENT (persistence_scopes_equal (lnq_scope request) scope) (
     guard INVALID_PLAN (is_produced_execution_plan (lnq_plan request)) (
     need PERSISTENCE_INTEGRITY (scope_from_plan (lnq_plan request)) (\<lambda>planScope.
     need PERSISTENCE_INTEGRITY (require_identifier (JStr (lnq_runId request) :: row) ''runId'') (\<lambda>runId.
     need PERSISTENCE_INTEGRITY (parse_utc_timestamp (JStr (lnq_preparedAt request) :: row)) (\<lambda>preparedAt.
     need PERSISTENCE_INTEGRITY (create_approval (lnq_approval request)) (\<lambda>approval.
     guard PERSISTENCE_ENVIRONMENT (persistence_scopes_equal planScope scope) (
     rbind (validate_approval approval (ep_materialHash (lnq_plan request)) preparedAt) (\<lambda>_.
     need PERSISTENCE_INTEGRITY
       (encode_canonical_artifact L foreign ''execution-plan'' (execution_plan_js (lnq_plan request))) (\<lambda>planArtifact.
     need PERSISTENCE_INTEGRITY (encode_canonical_artifact L foreign ''approval'' (approval_js approval)) (\<lambda>approvalArtifact.
     Ok \<lparr>pl_lineageId = deterministic_id L ''lineage'' (ep_materialHash (lnq_plan request)), pl_runId = runId,
         pl_preparedAt = preparedAt, pl_approval = approval, pl_planArtifact = planArtifact,
         pl_approvalArtifact = approvalArtifact\<rparr>))))))))))"

definition lineage_js :: "persistence_scope \<Rightarrow> string \<Rightarrow> string \<Rightarrow> string \<Rightarrow> string \<Rightarrow> string \<Rightarrow> row" where
  "lineage_js scope lineageId runId planId planHash createdAt = JObj
     ([(''lineage_id'', JStr lineageId), (''run_id'', JStr runId), (''plan_id'', JStr planId),
       (''plan_hash'', JStr planHash)] @ scope_columns scope @
      [(''created_at'', JStr createdAt), (''status'', JStr ''PREPARED'')])"

definition approval_columns :: "string \<Rightarrow> approval \<Rightarrow> row" where
  "approval_columns lineageId a = JObj
     [(''approval_id'', JStr (apr_approvalId a)), (''lineage_id'', JStr lineageId), (''plan_hash'', JStr (apr_planHash a)),
      (''actor'', JStr (apr_actor a)), (''approved_at'', JStr (apr_approvedAt a)),
      (''expires_at'', JStr (apr_expiresAt a)), (''note'', optional_column (apr_note a))]"

definition insert_lineage :: "row \<Rightarrow> store \<Rightarrow> unit sql_outcome \<times> store" where
  "insert_lineage new st = insert_row [[''lineage_id''], scope_keys @ [''plan_hash'']] [] new (st_lineages st)
     (\<lambda>rows. st\<lparr>st_lineages := rows\<rparr>) st"

definition insert_approval :: "row \<Rightarrow> store \<Rightarrow> unit sql_outcome \<times> store" where
  "insert_approval new st = insert_row [[''approval_id'']] [(''lineage_id'', st_lineages st, ''lineage_id'')] new
     (st_approvals st) (\<lambda>rows. st\<lparr>st_approvals := rows\<rparr>) st"

definition prepare_lineage_within ::
  "persistence_scope \<Rightarrow> 'd execution_plan \<Rightarrow> prepared_lineage \<Rightarrow> store \<Rightarrow> lineage_record sql_outcome \<times> store" where
  "prepare_lineage_within scope plan p st =
     (case lineage_row st scope (pl_lineageId p) of
        Some existing \<Rightarrow>
          sql_bind (sql_pure (lineage_from_row existing scope) st) (\<lambda>parsed st.
          if ln_runId parsed \<noteq> pl_runId p then (Returned (Fail DUPLICATE_LINEAGE), st)
          else (Returned (Ok parsed), st))
      | None \<Rightarrow>
          sql_bind (insert_artifact scope (ep_planId plan) (pl_planArtifact p) (Some (ep_materialHash plan)) (pl_preparedAt p) st) (\<lambda>_ st.
          sql_bind (insert_artifact scope (apr_approvalId (pl_approval p)) (pl_approvalArtifact p)
            (Some (apr_planHash (pl_approval p))) (pl_preparedAt p) st) (\<lambda>_ st.
          sql_bind (insert_lineage (lineage_js scope (pl_lineageId p) (pl_runId p) (ep_planId plan) (ep_materialHash plan)
            (pl_preparedAt p)) st) (\<lambda>_ st.
          sql_bind (insert_approval (approval_columns (pl_lineageId p) (pl_approval p)) st) (\<lambda>_ st.
          (Returned (Ok \<lparr>ln_lineageId = pl_lineageId p, ln_runId = pl_runId p, ln_planId = ep_planId plan,
             ln_planHash = ep_materialHash plan, ln_scope = scope, ln_createdAt = pl_preparedAt p\<rparr>), st))))))"

definition prepare_lineage ::
  "'d lib \<Rightarrow> 'd validators \<Rightarrow> sql_faults \<Rightarrow> persistence_scope \<Rightarrow> 'd lineage_request \<Rightarrow> store
     \<Rightarrow> lineage_record result \<times> store" where
  "prepare_lineage L foreign faults scope request st =
     (case validate_lineage_request L foreign scope request of
        Inl e \<Rightarrow> (Inl e, st)
      | Inr p \<Rightarrow> run_in_transaction faults (prepare_lineage_within scope (lnq_plan request) p) PERSISTENCE_CONFLICT st)"

subsection \<open>Owning an intent\<close>

record intent_request =
  inq_authority :: lease_authority
  inq_lineageId :: string
  inq_intentId :: string
  inq_planHash :: string
  inq_clientOrderId :: string
  inq_now :: string
  inq_preparedAt :: string

definition validate_intent_request :: "intent_request \<Rightarrow> intent_request result" where
  "validate_intent_request request =
     need PERSISTENCE_INTEGRITY (require_identifier (JStr (inq_lineageId request) :: row) ''lineageId'') (\<lambda>lineageId.
     need PERSISTENCE_INTEGRITY (require_identifier (JStr (inq_intentId request) :: row) ''intentId'') (\<lambda>intentId.
     need PERSISTENCE_INTEGRITY (require_hash (JStr (inq_planHash request) :: row) ''planHash'') (\<lambda>planHash.
     need PERSISTENCE_INTEGRITY (require_identifier (JStr (inq_clientOrderId request) :: row) ''clientOrderId'') (\<lambda>clientOrderId.
     need PERSISTENCE_INTEGRITY (parse_utc_timestamp (JStr (inq_now request) :: row)) (\<lambda>now.
     need PERSISTENCE_INTEGRITY (parse_utc_timestamp (JStr (inq_preparedAt request) :: row)) (\<lambda>preparedAt.
     Ok \<lparr>inq_authority = inq_authority request, inq_lineageId = lineageId, inq_intentId = intentId,
         inq_planHash = planHash, inq_clientOrderId = clientOrderId, inq_now = now, inq_preparedAt = preparedAt\<rparr>))))))"

definition intent_js :: "persistence_scope \<Rightarrow> owned_intent_record \<Rightarrow> row" where
  "intent_js scope r = JObj
     ([(''intent_record_id'', JStr (ow_intentRecordId r)), (''lineage_id'', JStr (ow_lineageId r)),
       (''intent_id'', JStr (ow_intentId r)), (''plan_hash'', JStr (ow_planHash r)),
       (''client_order_id'', JStr (ow_clientOrderId r))] @ scope_columns scope @
      [(''prepared_at'', JStr (ow_preparedAt r)), (''status'', JStr ''OWNED'')])"

definition insert_intent :: "row \<Rightarrow> store \<Rightarrow> unit sql_outcome \<times> store" where
  "insert_intent new st = insert_row
     [[''intent_record_id''], [''lineage_id'', ''intent_id''], scope_keys @ [''client_order_id'']]
     [(''lineage_id'', st_lineages st, ''lineage_id'')] new (st_intents st) (\<lambda>rows. st\<lparr>st_intents := rows\<rparr>) st"

definition has_intent :: "'d execution_plan \<Rightarrow> string \<Rightarrow> bool" where
  "has_intent plan intentId \<longleftrightarrow>
     (\<exists>i \<in> set (pc_orderIntents (pm_candidate (ep_material plan))). get i ''intentId'' = JStr intentId)"

text \<open>The checks between the HALT state and the client order id.\<close>

definition check_new_intent ::
  "'d lib \<Rightarrow> 'd validators \<Rightarrow> store \<Rightarrow> persistence_scope \<Rightarrow> intent_request \<Rightarrow> lease_row \<Rightarrow> clock_reading \<Rightarrow> unit result" where
  "check_new_intent L foreign st scope request current clock =
     rbind (halt_row (st_authority st) scope) (\<lambda>halt.
     guard HALT_ACTIVE (\<not> hs_active halt) (
     guard UNRESOLVED_STATE (\<not> lr_reconciliationRequired current) (
     rbind (read_plan L foreign st scope (inq_lineageId request)) (\<lambda>plan.
     need_some PERSISTENCE_CONFLICT plan (\<lambda>plan.
     guard PERSISTENCE_CONFLICT (ep_materialHash plan = inq_planHash request) (
     guard PERSISTENCE_CONFLICT (has_intent plan (inq_intentId request)) (
     rbind (trusted_now clock) (\<lambda>currentTime.
     rbind (read_approval L foreign st scope (inq_lineageId request)) (\<lambda>approval.
     need_some PERSISTENCE_INTEGRITY approval (\<lambda>approval.
     rbind (validate_approval approval (ep_materialHash plan) currentTime) (\<lambda>_.
     Ok ())))))))))))"

definition conflicting_intent :: string where
  "conflicting_intent = ''conflicting owned intent identity''"

definition conflicting_client :: string where
  "conflicting_client = ''conflicting client order identity''"

definition prepare_owned_intent_within ::
  "'d lib \<Rightarrow> 'd validators \<Rightarrow> persistence_scope \<Rightarrow> intent_request \<Rightarrow> clock_reading \<Rightarrow> clock_reading \<Rightarrow> store
     \<Rightarrow> owned_intent_record sql_outcome \<times> store" where
  "prepare_owned_intent_within L foreign scope request clock clock2 st =
     sql_bind (sql_pure (assert_current_authority (st_authority st) scope (inq_authority request) clock) st) (\<lambda>current st.
     sql_bind (sql_pure (need_some PERSISTENCE_CONFLICT (lineage_row st scope (inq_lineageId request)) Ok) st) (\<lambda>lineage st.
     sql_bind (sql_pure (stored_identifier lineage ''run_id'') st) (\<lambda>lineageOwner st.
     if lineageOwner \<noteq> la_ownerRunId (inq_authority request) then (Returned (Fail RUN_LEASE_LOST), st)
     else (case owned_intent_row st scope (inq_lineageId request) (inq_intentId request) of
       Some existing \<Rightarrow>
         sql_bind (sql_pure (owned_intent_from_row existing) st) (\<lambda>parsed st.
         if ow_planHash parsed = inq_planHash request \<and> ow_clientOrderId parsed = inq_clientOrderId request
         then (Returned (Ok parsed), st)
         else on_authority (append_conflict_after_halt L scope conflicting_intent (inq_now request)) st)
     | None \<Rightarrow>
         sql_bind (sql_pure (check_new_intent L foreign st scope request current clock2) st) (\<lambda>_ st.
         (case find (\<lambda>row. in_scope scope row \<and> get row ''client_order_id'' = JStr (inq_clientOrderId request)) (st_intents st) of
           Some sameClient \<Rightarrow>
             sql_bind (sql_pure (owned_intent_from_row sameClient) st) (\<lambda>_ st.
             on_authority (append_conflict_after_halt L scope conflicting_client (inq_now request)) st)
         | None \<Rightarrow>
             let new = \<lparr>ow_intentRecordId = deterministic_id L ''intent'' (inq_lineageId request @ CHR '':'' # inq_intentId request),
               ow_lineageId = inq_lineageId request, ow_intentId = inq_intentId request, ow_planHash = inq_planHash request,
               ow_clientOrderId = inq_clientOrderId request, ow_preparedAt = inq_preparedAt request\<rparr> in
             sql_bind (insert_intent (intent_js scope new) st) (\<lambda>_ st.
             (Returned (Ok new), st))))))))"

definition prepare_owned_intent ::
  "'d lib \<Rightarrow> 'd validators \<Rightarrow> sql_faults \<Rightarrow> persistence_scope \<Rightarrow> intent_request \<Rightarrow> clock_reading \<Rightarrow> clock_reading \<Rightarrow> store
     \<Rightarrow> owned_intent_record result \<times> store" where
  "prepare_owned_intent L foreign faults scope request clock clock2 st =
     (case validate_intent_request request of
        Inl e \<Rightarrow> (Inl e, st)
      | Inr parsed \<Rightarrow>
          run_in_transaction faults (prepare_owned_intent_within L foreign scope parsed clock clock2) PERSISTENCE_CONFLICT st)"

subsection \<open>Recording attempts\<close>

definition acknowledgement_text :: "acknowledgement \<Rightarrow> string" where
  "acknowledgement_text a = (case a of AckPending \<Rightarrow> ''pending'' | AckAccepted \<Rightarrow> ''accepted'' | AckRejected \<Rightarrow> ''rejected'')"

definition terminal_status_text :: "terminal_status \<Rightarrow> string" where
  "terminal_status_text t =
     (case t of TermUnverified \<Rightarrow> ''unverified'' | TermOpen \<Rightarrow> ''open'' | TermFilled \<Rightarrow> ''filled''
      | TermCancelled \<Rightarrow> ''cancelled'' | TermRejected \<Rightarrow> ''rejected'')"

definition attempt_js :: "execution_attempt \<Rightarrow> 'd jsval" where
  "attempt_js a = JObj
     ([(''attemptId'', JStr (at_attemptId a)), (''planHash'', JStr (at_planHash a)), (''intentId'', JStr (at_intentId a)),
       (''clientOrderId'', JStr (at_clientOrderId a)), (''submittedAt'', JStr (at_submittedAt a)),
       (''acknowledgement'', JStr (acknowledgement_text (at_acknowledgement a))),
       (''terminalStatus'', JStr (terminal_status_text (at_terminalStatus a)))]
      @ opt_field ''exchangeOrderId'' (map_option JStr (at_exchangeOrderId a)))"

record attempt_request =
  atq_authority :: lease_authority
  atq_lineageId :: string
  atq_attempt :: execution_attempt
  atq_dispatchedAt :: string

text \<open>\<open>COALESCE(MAX(column), 0) + 1\<close> over the rows of a lineage; the numbers of a table are positive.\<close>

definition next_number :: "string \<Rightarrow> string \<Rightarrow> row list \<Rightarrow> int" where
  "next_number column lineageId rows =
     foldr (\<lambda>row n. case get row column of JInt m \<Rightarrow> max m n | _ \<Rightarrow> n)
       (filter (\<lambda>row. get row ''lineage_id'' = JStr lineageId) rows) 0 + 1"

definition attempt_columns ::
  "string \<Rightarrow> row \<Rightarrow> int \<Rightarrow> execution_attempt \<Rightarrow> string \<Rightarrow> artifact_envelope \<Rightarrow> row" where
  "attempt_columns lineageId intentRecordId attemptNumber a dispatchedAt envelope = JObj
     [(''attempt_id'', JStr (at_attemptId a)), (''lineage_id'', JStr lineageId), (''intent_record_id'', intentRecordId),
      (''attempt_number'', JInt attemptNumber), (''plan_hash'', JStr (at_planHash a)), (''intent_id'', JStr (at_intentId a)),
      (''client_order_id'', JStr (at_clientOrderId a)), (''dispatched_at'', JStr dispatchedAt),
      (''submitted_at'', JStr (at_submittedAt a)), (''acknowledgement'', JStr (acknowledgement_text (at_acknowledgement a))),
      (''terminal_status'', JStr (terminal_status_text (at_terminalStatus a))),
      (''exchange_order_id'', optional_column (at_exchangeOrderId a)),
      (''canonical_json'', JStr (en_canonicalJson envelope)), (''canonical_hash'', JStr (en_canonicalHash envelope))]"

definition insert_attempt :: "row \<Rightarrow> store \<Rightarrow> unit sql_outcome \<times> store" where
  "insert_attempt new st = insert_row [[''attempt_id''], [''lineage_id'', ''attempt_number'']]
     [(''lineage_id'', st_lineages st, ''lineage_id''), (''intent_record_id'', st_intents st, ''intent_record_id'')] new
     (st_attempts st) (\<lambda>rows. st\<lparr>st_attempts := rows\<rparr>) st"

definition attempt_selection :: "row \<Rightarrow> row" where
  "attempt_selection = with_columns [(''artifact_kind'', JStr ''execution-attempt''), (''schema_version'', JStr ''artifact/v1'')]"

text \<open>The dispatch falls into the time the approval of the lineage was valid.\<close>

definition dispatch_authorized :: "approval \<Rightarrow> string \<Rightarrow> bool" where
  "dispatch_authorized a submittedAt \<longleftrightarrow>
     \<not> later_than (apr_approvedAt a) submittedAt \<and> \<not> not_after (apr_expiresAt a) submittedAt"

text \<open>The plan and the approval an attempt is bound to.\<close>

definition committed_authority ::
  "'d lib \<Rightarrow> 'd validators \<Rightarrow> store \<Rightarrow> persistence_scope \<Rightarrow> string \<Rightarrow> execution_attempt \<Rightarrow> unit result" where
  "committed_authority L foreign st scope lineageId attempt =
     rbind (read_plan L foreign st scope lineageId) (\<lambda>plan.
     need_some PERSISTENCE_CONFLICT plan (\<lambda>plan.
     guard PERSISTENCE_CONFLICT (ep_materialHash plan = at_planHash attempt) (
     rbind (read_approval L foreign st scope lineageId) (\<lambda>approval.
     need_some PERSISTENCE_INTEGRITY approval (\<lambda>approval.
     guard PLAN_EXPIRED (dispatch_authorized approval (at_submittedAt attempt)) (
     Ok ()))))))"

definition conflicting_attempt :: string where
  "conflicting_attempt = ''conflicting execution attempt identity''"

definition owning_intent :: "store \<Rightarrow> persistence_scope \<Rightarrow> string \<Rightarrow> execution_attempt \<Rightarrow> row option" where
  "owning_intent st scope lineageId attempt =
     find (\<lambda>row. in_scope scope row \<and> get row ''lineage_id'' = JStr lineageId \<and>
       get row ''intent_id'' = JStr (at_intentId attempt) \<and> get row ''plan_hash'' = JStr (at_planHash attempt) \<and>
       get row ''client_order_id'' = JStr (at_clientOrderId attempt)) (st_intents st)"

definition append_attempt_within ::
  "'d lib \<Rightarrow> 'd validators \<Rightarrow> persistence_scope \<Rightarrow> attempt_request \<Rightarrow> string \<Rightarrow> artifact_envelope \<Rightarrow> clock_reading \<Rightarrow> store
     \<Rightarrow> attempt_record sql_outcome \<times> store" where
  "append_attempt_within L foreign scope request dispatchedAt envelope clock st =
     (let attempt = atq_attempt request; lineageId = atq_lineageId request in
      sql_bind (sql_pure (assert_current_authority (st_authority st) scope (atq_authority request) clock) st) (\<lambda>_ st.
      sql_bind (sql_pure (need_some PERSISTENCE_CONFLICT (lineage_row st scope lineageId) Ok) st) (\<lambda>lineage st.
      (case find (\<lambda>row. get row ''attempt_id'' = JStr (at_attemptId attempt)) (st_attempts st) of
         Some existing \<Rightarrow>
           sql_bind (sql_pure (need PERSISTENCE_INTEGRITY (stored_hash existing ''canonical_hash'') (\<lambda>existingHash.
             need PERSISTENCE_INTEGRITY (stored_identifier existing ''lineage_id'') (\<lambda>existingLineage.
             Ok (existingHash, existingLineage)))) st) (\<lambda>(existingHash, existingLineage) st.
           if existingLineage = lineageId \<and> existingHash = en_canonicalHash envelope
           then (Returned (attempt_from_row L foreign (attempt_selection existing)), st)
           else on_authority (append_conflict_after_halt L scope conflicting_attempt dispatchedAt) st)
       | None \<Rightarrow>
           sql_bind (sql_pure (need_some PERSISTENCE_CONFLICT (owning_intent st scope lineageId attempt) Ok) st) (\<lambda>intent st.
           sql_bind (sql_pure (committed_authority L foreign st scope lineageId attempt) st) (\<lambda>_ st.
           sql_bind (insert_artifact scope (at_attemptId attempt) envelope (Some (at_planHash attempt)) dispatchedAt st) (\<lambda>_ st.
           let attemptNumber = next_number ''attempt_number'' lineageId (st_attempts st) in
           if \<not> is_safe_integer attemptNumber then (Returned persistence_failure, st)
           else
             sql_bind (insert_attempt (attempt_columns lineageId (get intent ''intent_record_id'') attemptNumber attempt
               dispatchedAt envelope) st) (\<lambda>_ st.
             (Returned (Ok \<lparr>ar_lineageId = lineageId, ar_attempt = attempt, ar_dispatchedAt = dispatchedAt\<rparr>), st)))))))))"

definition append_attempt ::
  "'d lib \<Rightarrow> 'd validators \<Rightarrow> sql_faults \<Rightarrow> persistence_scope \<Rightarrow> attempt_request \<Rightarrow> clock_reading \<Rightarrow> store
     \<Rightarrow> attempt_record result \<times> store" where
  "append_attempt L foreign faults scope request clock st =
     (case need PERSISTENCE_INTEGRITY (validate_timestamp (JStr (atq_dispatchedAt request)) ''dispatchedAt'') (\<lambda>dispatchedAt.
        guard PERSISTENCE_INTEGRITY (is_produced_execution_attempt (atq_attempt request)) (
        rbind (encode_canonical_artifact L foreign ''execution-attempt'' (attempt_js (atq_attempt request))) (\<lambda>envelope.
        Ok (dispatchedAt, envelope)))) of
        Inl e \<Rightarrow> (Inl e, st)
      | Inr (dispatchedAt, envelope) \<Rightarrow>
          run_in_transaction faults (append_attempt_within L foreign scope request dispatchedAt envelope clock)
            PERSISTENCE_CONFLICT st)"

subsection \<open>Binding exchange identities\<close>

text \<open>\<open>candidates\<close> is the request's list, or the single \<open>candidate\<close>, or none.\<close>

record 'd binding_request =
  bq_authority :: lease_authority
  bq_lineageId :: string
  bq_attemptId :: string
  bq_planHash :: "string option"
  bq_intentId :: "string option"
  bq_clientOrderId :: "string option"
  bq_candidates :: "'d jsval list option"
  bq_candidate :: "'d jsval option"
  bq_boundAt :: string

datatype 'd binding_outcome = Bound "'d identity_binding" bool | Unbound

definition distinct_candidates :: "'d lib \<Rightarrow> 'd binding_candidate list \<Rightarrow> (string \<times> 'd binding_candidate) list" where
  "distinct_candidates L candidates =
     foldl (\<lambda>m c. AList.update (identity_binding_candidate_key L c) c m) [] candidates"

record attempt_identity =
  ai_lineageId :: string
  ai_attemptId :: string
  ai_planHash :: string
  ai_intentId :: string
  ai_clientOrderId :: string
  ai_exchangeOrderId :: "string option"
  ai_submittedAt :: string

definition attempt_identity_from_row :: "row \<Rightarrow> attempt_identity result" where
  "attempt_identity_from_row row =
     need PERSISTENCE_INTEGRITY (stored_identifier row ''lineage_id'') (\<lambda>lineageId.
     need PERSISTENCE_INTEGRITY (stored_identifier row ''attempt_id'') (\<lambda>attemptId.
     need PERSISTENCE_INTEGRITY (stored_hash row ''plan_hash'') (\<lambda>planHash.
     need PERSISTENCE_INTEGRITY (stored_identifier row ''intent_id'') (\<lambda>intentId.
     need PERSISTENCE_INTEGRITY (stored_identifier row ''client_order_id'') (\<lambda>clientOrderId.
     need PERSISTENCE_INTEGRITY (stored_optional_string row ''exchange_order_id'') (\<lambda>exchangeOrderId.
     need PERSISTENCE_INTEGRITY (stored_timestamp row ''submitted_at'') (\<lambda>submittedAt.
     Ok \<lparr>ai_lineageId = lineageId, ai_attemptId = attemptId, ai_planHash = planHash, ai_intentId = intentId,
         ai_clientOrderId = clientOrderId, ai_exchangeOrderId = exchangeOrderId, ai_submittedAt = submittedAt\<rparr>)))))))"

text \<open>The attempts joined with the lineages of the scope.\<close>

definition scoped_attempt :: "store \<Rightarrow> persistence_scope \<Rightarrow> (row \<Rightarrow> bool) \<Rightarrow> row option" where
  "scoped_attempt st scope P =
     find (\<lambda>row. P row \<and> (\<exists>l \<in> set (st_lineages st). in_scope scope l \<and> get l ''lineage_id'' = get row ''lineage_id''))
       (st_attempts st)"

text \<open>
  The attempt a binding is for and its intent in the committed plan, under an approval that
  covered the dispatch.
\<close>

definition bound_attempt ::
  "'d lib \<Rightarrow> 'd validators \<Rightarrow> store \<Rightarrow> persistence_scope \<Rightarrow> 'd binding_request \<Rightarrow> (attempt_identity \<times> 'd jsval) result" where
  "bound_attempt L foreign st scope request =
     need_some PERSISTENCE_CONFLICT (lineage_row st scope (bq_lineageId request)) (\<lambda>lineage.
     need_some PERSISTENCE_CONFLICT (scoped_attempt st scope (\<lambda>row.
       get row ''lineage_id'' = JStr (bq_lineageId request) \<and> get row ''attempt_id'' = JStr (bq_attemptId request))) (\<lambda>row.
     rbind (attempt_identity_from_row row) (\<lambda>a.
     guard PERSISTENCE_CONFLICT
       (ai_lineageId a = bq_lineageId request \<and> ai_attemptId a = bq_attemptId request \<and>
        (bq_planHash request = None \<or> bq_planHash request = Some (ai_planHash a)) \<and>
        (bq_intentId request = None \<or> bq_intentId request = Some (ai_intentId a)) \<and>
        (bq_clientOrderId request = None \<or> bq_clientOrderId request = Some (ai_clientOrderId a))) (
     rbind (read_plan L foreign st scope (bq_lineageId request)) (\<lambda>plan.
     need_some PERSISTENCE_INTEGRITY plan (\<lambda>plan.
     need_some PERSISTENCE_CONFLICT (find (\<lambda>i. get i ''intentId'' = JStr (ai_intentId a))
       (pc_orderIntents (pm_candidate (ep_material plan)))) (\<lambda>intent.
     guard PERSISTENCE_CONFLICT (ai_planHash a = ep_materialHash plan) (
     rbind (read_approval L foreign st scope (bq_lineageId request)) (\<lambda>approval.
     need_some PERSISTENCE_INTEGRITY approval (\<lambda>approval.
     guard PLAN_EXPIRED (dispatch_authorized approval (ai_submittedAt a)) (
     Ok (a, intent))))))))))))"

text \<open>
  A rehydrated intent has a decimal quantity. The client order id is also compared with the one
  stored for the intent.
\<close>

definition candidate_matches ::
  "'d lib \<Rightarrow> store \<Rightarrow> persistence_scope \<Rightarrow> attempt_identity \<Rightarrow> 'd jsval \<Rightarrow> 'd binding_candidate \<Rightarrow> bool" where
  "candidate_matches L st scope a intent candidate \<longleftrightarrow>
     (let context = bc_ownershipContext candidate in
      oc_exchange context = ps_exchange scope \<and> oc_environment context = ps_environment scope \<and>
      oc_accountId context = ps_accountId scope \<and> oc_category context = ps_category scope \<and>
      position_mode_text (oc_positionMode context) = ps_positionMode scope \<and>
      oc_lineageId context = Some (ai_lineageId a) \<and> oc_intentId context = Some (ai_intentId a) \<and>
      oc_attemptId context = Some (ai_attemptId a) \<and>
      bc_clientOrderId candidate = ai_clientOrderId a \<and>
      (case owned_intent_row st scope (ai_lineageId a) (ai_intentId a) of None \<Rightarrow> False
       | Some row \<Rightarrow> get row ''client_order_id'' = JStr (bc_clientOrderId candidate)) \<and>
      get intent ''instrument'' = JStr (bc_instrument candidate) \<and>
      get intent ''side'' = JStr (order_side_text (bc_side candidate)) \<and>
      (case decimal_of (get intent ''quantity'') of None \<Rightarrow> False
       | Some q \<Rightarrow> dec_compare L (bc_requestedQuantity candidate) q = 0) \<and>
      (ai_exchangeOrderId a = None \<or> ai_exchangeOrderId a = Some (bc_exchangeOrderId candidate)))"

definition candidate_js :: "'d binding_candidate \<Rightarrow> (string \<times> 'd jsval) list" where
  "candidate_js c =
     [(''exchangeOrderId'', JStr (bc_exchangeOrderId c)), (''clientOrderId'', JStr (bc_clientOrderId c)),
      (''instrument'', JStr (bc_instrument c)), (''side'', JStr (order_side_text (bc_side c))),
      (''requestedQuantity'', JDec (bc_requestedQuantity c)), (''ownershipContext'', context_to_js (bc_ownershipContext c))]"

definition binding_input :: "'d lib \<Rightarrow> attempt_identity \<Rightarrow> string \<Rightarrow> 'd binding_candidate \<Rightarrow> 'd jsval" where
  "binding_input L a boundAt candidate = JObj
     ([(''bindingId'', JStr (deterministic_id L ''identity-binding''
         (ai_lineageId a @ CHR '':'' # ai_attemptId a @ CHR '':'' # bc_exchangeOrderId candidate))),
       (''lineageId'', JStr (ai_lineageId a)), (''attemptId'', JStr (ai_attemptId a)), (''intentId'', JStr (ai_intentId a)),
       (''planHash'', JStr (ai_planHash a)), (''boundAt'', JStr boundAt)] @ candidate_js candidate)"

definition binding_columns :: "'d lib \<Rightarrow> persistence_scope \<Rightarrow> 'd identity_binding \<Rightarrow> row" where
  "binding_columns L scope b = JObj
     ([(''binding_id'', JStr (ib_bindingId b)), (''lineage_id'', JStr (ib_lineageId b)),
       (''attempt_id'', JStr (ib_attemptId b)), (''intent_id'', JStr (ib_intentId b)), (''plan_hash'', JStr (ib_planHash b)),
       (''client_order_id'', JStr (bc_clientOrderId (ib_candidate b))), (''instrument'', JStr (bc_instrument (ib_candidate b))),
       (''side'', JStr (order_side_text (bc_side (ib_candidate b)))),
       (''requested_quantity'', JStr (dec_to_string L (bc_requestedQuantity (ib_candidate b)))),
       (''exchange_order_id'', JStr (bc_exchangeOrderId (ib_candidate b)))]
      @ scope_columns scope @ [(''bound_at'', JStr (ib_boundAt b))])"

definition insert_binding :: "row \<Rightarrow> store \<Rightarrow> unit sql_outcome \<times> store" where
  "insert_binding new st = insert_row
     [[''binding_id''], [''lineage_id'', ''attempt_id''], scope_keys @ [''client_order_id''], scope_keys @ [''exchange_order_id'']]
     [(''lineage_id'', st_lineages st, ''lineage_id''), (''attempt_id'', st_attempts st, ''attempt_id'')] new
     (st_bindings st) (\<lambda>rows. st\<lparr>st_bindings := rows\<rparr>) st"

definition late_conflict :: string where
  "late_conflict = ''conflicting late exchange identity''"

definition late_ambiguous :: string where
  "late_ambiguous = ''ambiguous late exchange identity''"

definition identity_owned :: string where
  "identity_owned = ''exchange identity is already owned''"

text \<open>The attempt has a binding already: the same evidence, or none, is answered with it.\<close>

definition rebind ::
  "'d lib \<Rightarrow> persistence_scope \<Rightarrow> row \<Rightarrow> 'd binding_candidate list \<Rightarrow> string \<Rightarrow> store \<Rightarrow> 'd binding_outcome sql_outcome \<times> store" where
  "rebind L scope row candidates boundAt st =
     sql_bind (sql_pure (identity_binding_from_row L row) st) (\<lambda>existing st.
     (case distinct_candidates L candidates of
        [] \<Rightarrow> (Returned (Ok (Bound existing True)), st)
      | [(k, c)] \<Rightarrow>
          if identity_binding_candidates_equal L c (identity_binding_candidate_from_binding existing)
          then (Returned (Ok (Bound existing True)), st)
          else on_authority (append_conflict_after_halt L scope late_conflict boundAt) st
      | _ \<Rightarrow> on_authority (append_conflict_after_halt L scope late_conflict boundAt) st))"

definition bind_candidate ::
  "'d lib \<Rightarrow> persistence_scope \<Rightarrow> attempt_identity \<Rightarrow> 'd jsval \<Rightarrow> 'd binding_candidate \<Rightarrow> string \<Rightarrow> store
     \<Rightarrow> 'd binding_outcome sql_outcome \<times> store" where
  "bind_candidate L scope a intent candidate boundAt st =
     (if \<not> candidate_matches L st scope a intent candidate then (Returned (Fail OWNERSHIP_MISMATCH), st)
      else if find (\<lambda>row. in_scope scope row \<and> get row ''exchange_order_id'' = JStr (bc_exchangeOrderId candidate))
        (st_bindings st) \<noteq> None
      then on_authority (append_conflict_after_halt L scope identity_owned boundAt) st
      else
        sql_bind (sql_pure (need PERSISTENCE_INTEGRITY (create_identity_binding L (binding_input L a boundAt candidate)) (\<lambda>b.
          guard PERSISTENCE_INTEGRITY (is_produced_identity_binding b) (Ok b))) st) (\<lambda>b st.
        sql_bind (insert_binding (binding_columns L scope b) st) (\<lambda>_ st.
        (Returned (Ok (Bound b False)), st))))"

definition append_identity_binding_within ::
  "'d lib \<Rightarrow> 'd validators \<Rightarrow> persistence_scope \<Rightarrow> 'd binding_request \<Rightarrow> 'd binding_candidate list \<Rightarrow> clock_reading \<Rightarrow> store
     \<Rightarrow> 'd binding_outcome sql_outcome \<times> store" where
  "append_identity_binding_within L foreign scope request candidates clock st =
     sql_bind (sql_pure (assert_current_authority (st_authority st) scope (bq_authority request) clock) st) (\<lambda>_ st.
     sql_bind (sql_pure (bound_attempt L foreign st scope request) st) (\<lambda>(a, intent) st.
     (case identity_binding_row st scope (bq_lineageId request) (bq_attemptId request) of
        Some row \<Rightarrow> rebind L scope row candidates (bq_boundAt request) st
      | None \<Rightarrow>
          (case distinct_candidates L candidates of
             [] \<Rightarrow> (Returned (Ok Unbound), st)
           | [(k, candidate)] \<Rightarrow> bind_candidate L scope a intent candidate (bq_boundAt request) st
           | _ \<Rightarrow> on_authority (append_conflict_after_halt L scope late_ambiguous (bq_boundAt request)) st))))"

definition validate_binding_request ::
  "'d lib \<Rightarrow> 'd binding_request \<Rightarrow> ('d binding_request \<times> 'd binding_candidate list) result" where
  "validate_binding_request L request =
     need PERSISTENCE_INTEGRITY (require_identifier (JStr (bq_lineageId request) :: row) ''lineageId'') (\<lambda>lineageId.
     need PERSISTENCE_INTEGRITY (require_identifier (JStr (bq_attemptId request) :: row) ''attemptId'') (\<lambda>attemptId.
     need PERSISTENCE_INTEGRITY (validate_timestamp (JStr (bq_boundAt request)) ''boundAt'') (\<lambda>boundAt.
     need OWNERSHIP_MISMATCH (traverse (create_identity_binding_candidate L)
       (case bq_candidates request of Some cs \<Rightarrow> cs
        | None \<Rightarrow> (case bq_candidate request of None \<Rightarrow> [] | Some c \<Rightarrow> [c]))) (\<lambda>candidates.
     Ok (request\<lparr>bq_lineageId := lineageId, bq_attemptId := attemptId, bq_boundAt := boundAt\<rparr>, candidates)))))"

definition append_identity_binding ::
  "'d lib \<Rightarrow> 'd validators \<Rightarrow> sql_faults \<Rightarrow> persistence_scope \<Rightarrow> 'd binding_request \<Rightarrow> clock_reading \<Rightarrow> store
     \<Rightarrow> 'd binding_outcome result \<times> store" where
  "append_identity_binding L foreign faults scope request clock st =
     (case validate_binding_request L request of
        Inl e \<Rightarrow> (Inl e, st)
      | Inr (parsed, candidates) \<Rightarrow>
          run_in_transaction faults (append_identity_binding_within L foreign scope parsed candidates clock)
            PERSISTENCE_CONFLICT st)"

subsection \<open>Recording reconciliations\<close>

record reconciliation_request =
  rq_authority :: lease_authority
  rq_lineageId :: string
  rq_result :: reconciliation_result
  rq_recordedAt :: string

record attempt_owner =
  aw_attemptId :: string
  aw_lineageId :: string
  aw_planHash :: string
  aw_intentId :: string
  aw_clientOrderId :: string
  aw_exchangeOrderId :: "string option"

definition attempt_owner_from_row :: "row \<Rightarrow> attempt_owner result" where
  "attempt_owner_from_row row =
     need PERSISTENCE_INTEGRITY (stored_identifier row ''attempt_id'') (\<lambda>attemptId.
     need PERSISTENCE_INTEGRITY (stored_identifier row ''lineage_id'') (\<lambda>lineageId.
     need PERSISTENCE_INTEGRITY (stored_hash row ''plan_hash'') (\<lambda>planHash.
     need PERSISTENCE_INTEGRITY (stored_identifier row ''intent_id'') (\<lambda>intentId.
     need PERSISTENCE_INTEGRITY (stored_identifier row ''client_order_id'') (\<lambda>clientOrderId.
     need PERSISTENCE_INTEGRITY (stored_optional_string row ''exchange_order_id'') (\<lambda>persisted.
     need PERSISTENCE_INTEGRITY (case persisted of None \<Rightarrow> Ok None
       | Some x \<Rightarrow> map_result (require_identifier (JStr x :: row) ''exchangeOrderId'') Some) (\<lambda>exchangeOrderId.
     Ok \<lparr>aw_attemptId = attemptId, aw_lineageId = lineageId, aw_planHash = planHash, aw_intentId = intentId,
         aw_clientOrderId = clientOrderId, aw_exchangeOrderId = exchangeOrderId\<rparr>)))))))"

definition owner_conflict :: string where
  "owner_conflict = ''conflicting reconciliation ownership''"

definition binding_conflict :: string where
  "binding_conflict = ''conflicting reconciliation binding''"

definition order_conflict :: string where
  "order_conflict = ''conflicting reconciliation exchange order''"

definition unproven_conflict :: string where
  "unproven_conflict = ''reconciled result lacks exchange proof''"

definition review_reason :: "reconciliation_status \<Rightarrow> string" where
  "review_reason status = ''reconciliation status '' @ reconciliation_status_text status @ '' requires review''"

text \<open>
  The order the journal knows for the attempt; \<open>Inl\<close> names the HALT a contradiction raises.
\<close>

definition effective_exchange_order ::
  "'d lib \<Rightarrow> store \<Rightarrow> persistence_scope \<Rightarrow> attempt_owner \<Rightarrow> reconciliation_result \<Rightarrow> (string + string option) result" where
  "effective_exchange_order L st scope owner r =
     (case identity_binding_row st scope (aw_lineageId owner) (rr_attemptId r) of
        None \<Rightarrow> Ok (Inr (aw_exchangeOrderId owner))
      | Some row \<Rightarrow>
          rbind (identity_binding_from_row L row) (\<lambda>b.
          Ok (if ib_planHash b = rr_planHash r \<and> ib_intentId b = rr_intentId r \<and>
                bc_clientOrderId (ib_candidate b) = rr_clientOrderId r
              then Inr (case aw_exchangeOrderId owner of Some x \<Rightarrow> Some x
                | None \<Rightarrow> Some (bc_exchangeOrderId (ib_candidate b)))
              else Inl binding_conflict)))"

definition reconciliation_verdict ::
  "'d lib \<Rightarrow> store \<Rightarrow> persistence_scope \<Rightarrow> string \<Rightarrow> attempt_owner \<Rightarrow> reconciliation_result \<Rightarrow> string option result" where
  "reconciliation_verdict L st scope lineageId owner r =
     (if \<not> (aw_attemptId owner = rr_attemptId r \<and> aw_lineageId owner = lineageId \<and> aw_planHash owner = rr_planHash r \<and>
          aw_intentId owner = rr_intentId r \<and> aw_clientOrderId owner = rr_clientOrderId r)
      then Ok (Some owner_conflict)
      else
        rbind (effective_exchange_order L st scope owner r) (\<lambda>effective.
        Ok (case effective of Inl reason \<Rightarrow> Some reason
          | Inr exchangeOrderId \<Rightarrow>
              if rr_exchangeOrderId r \<noteq> None \<and> rr_exchangeOrderId r \<noteq> exchangeOrderId then Some order_conflict
              else if rr_status r = RecReconciled \<and> (rr_exchangeOrderId r = None \<or> exchangeOrderId = None)
              then Some unproven_conflict
              else None)))"

definition reconciliation_columns ::
  "'d lib \<Rightarrow> string \<Rightarrow> reconciliation_result \<Rightarrow> string \<Rightarrow> artifact_envelope \<Rightarrow> int \<Rightarrow> row" where
  "reconciliation_columns L lineageId r recordedAt envelope revision = JObj
     [(''reconciliation_id'', JStr (deterministic_id L ''reconciliation'' (lineageId @ CHR '':'' # en_canonicalHash envelope))),
      (''lineage_id'', JStr lineageId), (''attempt_id'', JStr (rr_attemptId r)), (''intent_id'', JStr (rr_intentId r)),
      (''plan_hash'', JStr (rr_planHash r)), (''client_order_id'', JStr (rr_clientOrderId r)),
      (''status'', JStr (reconciliation_status_text (rr_status r))), (''recorded_at'', JStr recordedAt),
      (''observed_at'', JStr (rr_observedAt r)), (''exchange_order_id'', optional_column (rr_exchangeOrderId r)),
      (''canonical_json'', JStr (en_canonicalJson envelope)), (''canonical_hash'', JStr (en_canonicalHash envelope)),
      (''revision'', JInt revision)]"

definition insert_reconciliation :: "row \<Rightarrow> store \<Rightarrow> unit sql_outcome \<times> store" where
  "insert_reconciliation new st = insert_row [[''reconciliation_id''], [''lineage_id'', ''revision'']]
     [(''lineage_id'', st_lineages st, ''lineage_id''), (''attempt_id'', st_attempts st, ''attempt_id'')] new
     (st_reconciliations st) (\<lambda>rows. st\<lparr>st_reconciliations := rows\<rparr>) st"

definition reconciliation_selection :: "row \<Rightarrow> row" where
  "reconciliation_selection =
     with_columns [(''artifact_kind'', JStr ''reconciliation-result''), (''schema_version'', JStr ''artifact/v1'')]"

definition needs_review :: "reconciliation_status \<Rightarrow> bool" where
  "needs_review status \<longleftrightarrow> status = RecPending \<or> status = RecPartial \<or> status = RecUnresolved"

definition record_reconciliation ::
  "'d lib \<Rightarrow> persistence_scope \<Rightarrow> string \<Rightarrow> reconciliation_result \<Rightarrow> string \<Rightarrow> artifact_envelope \<Rightarrow> store
     \<Rightarrow> reconciliation_record sql_outcome \<times> store" where
  "record_reconciliation L scope lineageId r recordedAt envelope st =
     sql_bind (insert_artifact scope (deterministic_id L ''reconciliation-artifact'' (lineageId @ CHR '':'' # en_canonicalHash envelope))
       envelope (Some (rr_planHash r)) recordedAt st) (\<lambda>_ st.
     let revision = next_number ''revision'' lineageId (st_reconciliations st) in
     if \<not> is_safe_integer revision then (Returned persistence_failure, st)
     else
       sql_bind (insert_reconciliation (reconciliation_columns L lineageId r recordedAt envelope revision) st) (\<lambda>_ st.
       sql_bind (if needs_review (rr_status r)
          then sql_bind (on_authority (raise_halt_within L scope (review_reason (rr_status r)) recordedAt None) st)
            (\<lambda>_ st. (Returned (Ok ()), st))
          else (Returned (Ok ()), st)) (\<lambda>_ st.
       (Returned (Ok \<lparr>rc_lineageId = lineageId, rc_result = r, rc_recordedAt = recordedAt\<rparr>), st))))"

definition append_reconciliation_within ::
  "'d lib \<Rightarrow> 'd validators \<Rightarrow> persistence_scope \<Rightarrow> reconciliation_request \<Rightarrow> string \<Rightarrow> artifact_envelope \<Rightarrow> clock_reading
     \<Rightarrow> store \<Rightarrow> reconciliation_record sql_outcome \<times> store" where
  "append_reconciliation_within L foreign scope request recordedAt envelope clock st =
     (let r = rq_result request; lineageId = rq_lineageId request in
      sql_bind (sql_pure (assert_current_authority (st_authority st) scope (rq_authority request) clock) st) (\<lambda>_ st.
      sql_bind (sql_pure (need_some PERSISTENCE_CONFLICT (lineage_row st scope lineageId) (\<lambda>_.
        need_some PERSISTENCE_CONFLICT (scoped_attempt st scope (\<lambda>row. get row ''attempt_id'' = JStr (rr_attemptId r))) (\<lambda>row.
        rbind (attempt_owner_from_row row) (\<lambda>owner.
        reconciliation_verdict L st scope lineageId owner r)))) st) (\<lambda>verdict st.
      (case verdict of
         Some reason \<Rightarrow> on_authority (append_conflict_after_halt L scope reason recordedAt) st
       | None \<Rightarrow>
           (case find (\<lambda>row. get row ''lineage_id'' = JStr lineageId \<and>
               get row ''canonical_hash'' = JStr (en_canonicalHash envelope)) (st_reconciliations st) of
              Some duplicate \<Rightarrow> (Returned (reconciliation_from_row L foreign (reconciliation_selection duplicate)), st)
            | None \<Rightarrow> record_reconciliation L scope lineageId r recordedAt envelope st)))))"

definition append_reconciliation ::
  "'d lib \<Rightarrow> 'd validators \<Rightarrow> sql_faults \<Rightarrow> persistence_scope \<Rightarrow> reconciliation_request \<Rightarrow> clock_reading \<Rightarrow> store
     \<Rightarrow> reconciliation_record result \<times> store" where
  "append_reconciliation L foreign faults scope request clock st =
     (case need PERSISTENCE_INTEGRITY (validate_timestamp (JStr (rq_recordedAt request)) ''recordedAt'') (\<lambda>recordedAt.
        guard PERSISTENCE_INTEGRITY (is_produced_reconciliation_result (rq_result request)) (
        rbind (encode_canonical_artifact L foreign ''reconciliation-result'' (reconciliation_to_js (rq_result request))) (\<lambda>envelope.
        Ok (recordedAt, envelope)))) of
        Inl e \<Rightarrow> (Inl e, st)
      | Inr (recordedAt, envelope) \<Rightarrow>
          run_in_transaction faults (append_reconciliation_within L foreign scope request recordedAt envelope clock)
            PERSISTENCE_CONFLICT st)"

end
