(* ===== verification/Journal.thy ===== *)
theory Journal
  imports Authority
begin

text \<open>
  The account behind the journal of \<open>Authority\<close>: an abstract machine with one lease and one HALT
  state, the proof that every operation on the tables is one of its steps (or changes nothing),
  and what follows for any sequence of operations by any number of runs: a lease that was taken
  over stays fenced off from its old holder, and the log tells the whole history of the HALT.
\<close>

subsection \<open>The abstract machine\<close>

record account_lease =
  al_owner :: string
  al_epoch :: int
  al_expiry :: int
  al_pending :: bool

record account =
  ac_lease :: "account_lease option"
  ac_halted :: bool
  ac_revision :: int

text \<open>What happens to an account, with the instant on the trusted clock where it matters.\<close>

datatype account_event =
    Granted string int int
  | Taken_over string int int
  | Renewed int int
  | Released int
  | Halt_raised
  | Cleared int
  | Operator_cleared

inductive account_step :: "account \<Rightarrow> account_event \<Rightarrow> account \<Rightarrow> bool" where
  granted: "ac_lease a = None \<Longrightarrow> now < expiry \<Longrightarrow>
    account_step a (Granted owner now expiry)
      (a\<lparr>ac_lease := Some \<lparr>al_owner = owner, al_epoch = 1, al_expiry = expiry, al_pending = False\<rparr>\<rparr>)"
| taken_over: "ac_lease a = Some l \<Longrightarrow> al_expiry l \<le> now \<Longrightarrow> now < expiry \<Longrightarrow>
    account_step a (Taken_over owner now expiry)
      (a\<lparr>ac_lease := Some \<lparr>al_owner = owner, al_epoch = al_epoch l + 1, al_expiry = expiry, al_pending = True\<rparr>,
         ac_halted := True, ac_revision := ac_revision a + 1\<rparr>)"
| renewed: "ac_lease a = Some l \<Longrightarrow> now < al_expiry l \<Longrightarrow>
    account_step a (Renewed now expiry) (a\<lparr>ac_lease := Some (l\<lparr>al_expiry := expiry\<rparr>)\<rparr>)"
| released: "ac_lease a = Some l \<Longrightarrow> now < al_expiry l \<Longrightarrow> \<not> al_pending l \<Longrightarrow>
    account_step a (Released now) (a\<lparr>ac_lease := None\<rparr>)"
| halt_raised: "account_step a Halt_raised (a\<lparr>ac_halted := True, ac_revision := ac_revision a + 1\<rparr>)"
| cleared: "ac_lease a = Some l \<Longrightarrow> now < al_expiry l \<Longrightarrow> ac_halted a \<Longrightarrow>
    account_step a (Cleared now)
      (a\<lparr>ac_lease := Some (l\<lparr>al_pending := False\<rparr>), ac_halted := False, ac_revision := ac_revision a + 1\<rparr>)"
| operator_cleared: "ac_halted a \<Longrightarrow>
    account_step a Operator_cleared (a\<lparr>ac_halted := False, ac_revision := ac_revision a + 1\<rparr>)"

inductive_cases account_step_cases: "account_step a ev b"

inductive_simps account_step_simps:
  "account_step a (Granted owner now expiry) b"
  "account_step a (Taken_over owner now expiry) b"
  "account_step a (Renewed now expiry) b"
  "account_step a (Released now) b"
  "account_step a Halt_raised b"
  "account_step a (Cleared now) b"
  "account_step a Operator_cleared b"

inductive account_run :: "account \<Rightarrow> account_event list \<Rightarrow> account \<Rightarrow> bool" where
  stay: "account_run a [] a"
| step: "account_step a ev b \<Longrightarrow> account_run b evs c \<Longrightarrow> account_run a (ev # evs) c"

lemma account_run_append: "account_run a evs b \<Longrightarrow> account_run b evs' c \<Longrightarrow> account_run a (evs @ evs') c"
  by (induction rule: account_run.induct) (auto intro: account_run.intros)

text \<open>A pending lease stays pending, and its epoch only grows, until it is cleared.\<close>

lemma pending_persists:
  assumes "account_run a evs b" "\<forall>now. Cleared now \<notin> set evs" "ac_lease a = Some l" "al_pending l"
  shows "\<exists>m. ac_lease b = Some m \<and> al_pending m \<and> al_epoch l \<le> al_epoch m"
  using assms
proof (induction arbitrary: l rule: account_run.induct)
  case (stay a)
  then show ?case by simp
next
  case (step a ev b evs c)
  have "\<exists>m. ac_lease b = Some m \<and> al_pending m \<and> al_epoch l \<le> al_epoch m"
    using step.hyps(1) step.prems by (cases rule: account_step.cases) auto
  then obtain m where m: "ac_lease b = Some m" "al_pending m" "al_epoch l \<le> al_epoch m" by blast
  then obtain k where "ac_lease c = Some k" "al_pending k" "al_epoch m \<le> al_epoch k"
    using step.IH [OF _ m(1,2)] step.prems(1) by auto
  then show ?case using m(3) by auto
qed

text \<open>The events that are in the HALT log.\<close>

definition halt_events :: "account_event list \<Rightarrow> nat" where
  "halt_events evs = length (filter (\<lambda>ev. case ev of Granted owner n x \<Rightarrow> False | Renewed n x \<Rightarrow> False
     | Released n \<Rightarrow> False | _ \<Rightarrow> True) evs)"

lemma run_revision: "account_run a evs b \<Longrightarrow> ac_revision b = ac_revision a + int (halt_events evs)"
  by (induction rule: account_run.induct) (auto simp: halt_events_def elim!: account_step.cases)

subsection \<open>From the tables to the account\<close>

definition instant_ms :: "string \<Rightarrow> int" where
  "instant_ms t = (case timestamp_to_epoch_ms t of Some e \<Rightarrow> e | None \<Rightarrow> 0)"

definition account_of :: "database \<Rightarrow> persistence_scope \<Rightarrow> account" where
  "account_of db scope =
     \<lparr>ac_lease = (case lease_row_of db scope of
        Inr (Some l) \<Rightarrow> Some \<lparr>al_owner = lr_ownerRunId l, al_epoch = lr_epoch l,
          al_expiry = instant_ms (lr_expiresAt l), al_pending = lr_reconciliationRequired l\<rparr>
      | _ \<Rightarrow> None),
      ac_halted = (case halt_row db scope of Inr h \<Rightarrow> hs_active h | Inl e \<Rightarrow> False),
      ac_revision = (case halt_row db scope of Inr h \<Rightarrow> hs_revision h | Inl e \<Rightarrow> 0)\<rparr>"

text \<open>The clock is sane when it reads an instant of the years 1970 to 9999, a day before their end.\<close>

definition last_epoch :: int where
  "last_epoch = 253402300799999"

definition sane_clock :: "clock_reading \<Rightarrow> bool" where
  "sane_clock clock \<longleftrightarrow> (\<forall>t. trusted_now clock = Inr t \<longrightarrow>
     (\<exists>e. instant t e \<and> 0 \<le> e \<and> e + MAX_LEASE_TTL_MS \<le> last_epoch))"

lemma readable_epoch:
  assumes "instant t e" "0 \<le> e" "e \<le> last_epoch"
  shows "readable_instant t"
proof -
  define d where "d = e div ms_per_day"
  have d: "0 \<le> d" "d \<le> 2932896"
    using assms(2,3) zdiv_mono1 [of e last_epoch ms_per_day]
    by (simp_all add: d_def ms_per_day_def last_epoch_def pos_imp_zdiv_nonneg_iff)
  have edge: "day_from_year 1970 = 0" "day_from_year 10000 = 2932897" by code_simp+
  have "0 \<le> year_from_day d"
  proof (rule ccontr)
    assume "\<not> 0 \<le> year_from_day d"
    then have "day_from_year (year_from_day d + 1) \<le> day_from_year 1970" by (intro day_from_year_mono) simp
    then show False using year_from_day_bounds(2) [of d] d(1) edge(1) by simp
  qed
  moreover have "year_from_day d \<le> 9999"
  proof (rule ccontr)
    assume "\<not> year_from_day d \<le> 9999"
    then have "day_from_year 10000 \<le> day_from_year (year_from_day d)" by (intro day_from_year_mono) simp
    then show False using year_from_day_bounds(1) [of d] d(2) edge(2) by simp
  qed
  ultimately show ?thesis using assms(1) unfolding readable_instant_def d_def by blast
qed

lemma instant_ms: "instant t e \<Longrightarrow> instant_ms t = e"
  by (simp add: instant_ms_def instant_epoch)

lemma account_of_halt_logged:
  assumes "halt_logged scope active db db'" "db_leases db' = db_leases db"
  shows "account_of db' scope = (account_of db scope)\<lparr>ac_halted := active, ac_revision := ac_revision (account_of db scope) + 1\<rparr>"
    and "authority_scope_values other \<noteq> authority_scope_values scope \<Longrightarrow> account_of db' other = account_of db other"
proof -
  show "account_of db' scope = (account_of db scope)\<lparr>ac_halted := active, ac_revision := ac_revision (account_of db scope) + 1\<rparr>"
    using assms by (auto simp: halt_logged_def account_of_def lease_row_of_def)
  assume "authority_scope_values other \<noteq> authority_scope_values scope"
  then show "account_of db' other = account_of db other"
    using assms by (auto simp: halt_logged_def account_of_def lease_row_of_def halt_row_def)
qed

subsection \<open>Writing the lease\<close>

text \<open>An operation advances its account by one event, and leaves every other account alone.\<close>

definition advances :: "persistence_scope \<Rightarrow> account_event \<Rightarrow> database \<Rightarrow> database \<Rightarrow> bool" where
  "advances scope ev db db' \<longleftrightarrow> wf_database db' \<and> account_step (account_of db scope) ev (account_of db' scope) \<and>
     (\<forall>other. authority_scope_values other \<noteq> authority_scope_values scope \<longrightarrow> account_of db' other = account_of db other)"

lemma lease_change:
  assumes "wf_database db" "db' = db\<lparr>db_leases := (db_leases db)(authority_scope_values scope := entry)\<rparr>"
    "\<And>row. entry = Some row \<Longrightarrow> wf_lease (authority_scope_values scope) row"
  shows "wf_database db'" "halt_row db' other = halt_row db other"
    "authority_scope_values other \<noteq> authority_scope_values scope \<Longrightarrow> account_of db' other = account_of db other"
    "account_of db' scope = (account_of db scope)\<lparr>ac_lease := ac_lease (account_of db' scope)\<rparr>"
proof -
  have halts: "halt_row db' other = halt_row db other" for other by (simp add: assms(2) halt_row_def)
  then show "halt_row db' other = halt_row db other" .
  have "log_ok db'"
    using assms(1) unfolding wf_database_def log_ok_def halts account_events_def by (simp add: assms(2))
  then show "wf_database db'"
    using assms(1,3) unfolding wf_database_def by (auto simp: assms(2))
  have "authority_scope_values other \<noteq> authority_scope_values scope \<Longrightarrow> lease_row_of db' other = lease_row_of db other"
    by (simp add: lease_row_of_def assms(2))
  then show "authority_scope_values other \<noteq> authority_scope_values scope \<Longrightarrow> account_of db' other = account_of db other"
    by (simp add: account_of_def halts)
  show "account_of db' scope = (account_of db scope)\<lparr>ac_lease := ac_lease (account_of db' scope)\<rparr>"
    by (simp add: account_of_def halts)
qed

lemma wf_lease_js:
  "authority_scope_values sc = key \<Longrightarrow> safe_identifier ownerRunId \<Longrightarrow> is_safe_integer epoch \<Longrightarrow> 1 \<le> epoch \<Longrightarrow>
    readable_instant acquiredAt \<Longrightarrow> readable_instant expiresAt \<Longrightarrow>
    wf_lease key (lease_js sc ownerRunId epoch acquiredAt expiresAt pending)"
  unfolding wf_lease_def by blast

lemma lease_written:
  assumes "wf_database db" "authority_scope_values sc = authority_scope_values scope"
    "db' = db\<lparr>db_leases := (db_leases db)(authority_scope_values scope \<mapsto> lease_js sc ow ep ac ex pe)\<rparr>"
    "safe_identifier ow" "is_safe_integer ep" "1 \<le> ep" "readable_instant ac" "readable_instant ex"
  shows "wf_database db'"
    "account_of db' scope = (account_of db scope)\<lparr>ac_lease := Some \<lparr>al_owner = ow, al_epoch = ep,
      al_expiry = instant_ms ex, al_pending = pe\<rparr>\<rparr>"
    "authority_scope_values other \<noteq> authority_scope_values scope \<Longrightarrow> account_of db' other = account_of db other"
proof -
  note c = lease_change [OF assms(1) assms(3)]
  have wf: "wf_lease (authority_scope_values scope) row" if "Some (lease_js sc ow ep ac ex pe) = Some row" for row
    using that assms by (auto intro!: wf_lease_js)
  show "wf_database db'" using c(1) wf by simp
  show "authority_scope_values other \<noteq> authority_scope_values scope \<Longrightarrow> account_of db' other = account_of db other"
    using c(3) wf by simp
  have "lease_row_of db' scope = Inr (Some \<lparr>lr_ownerRunId = ow, lr_epoch = ep, lr_acquiredAt = ac,
      lr_expiresAt = ex, lr_reconciliationRequired = pe\<rparr>)"
    using lease_row_of_js [of db' scope sc ow ep ac ex pe] assms by simp
  then have "ac_lease (account_of db' scope) = Some \<lparr>al_owner = ow, al_epoch = ep, al_expiry = instant_ms ex, al_pending = pe\<rparr>"
    by (simp add: account_of_def)
  then show "account_of db' scope = (account_of db scope)\<lparr>ac_lease := Some \<lparr>al_owner = ow, al_epoch = ep,
      al_expiry = instant_ms ex, al_pending = pe\<rparr>\<rparr>"
    using c(4) wf by simp
qed

text \<open>The lease an account holds, as read.\<close>

lemma account_lease_read:
  "lease_row_of db scope = Inr (Some l) \<Longrightarrow> ac_lease (account_of db scope) = Some \<lparr>al_owner = lr_ownerRunId l,
     al_epoch = lr_epoch l, al_expiry = instant_ms (lr_expiresAt l), al_pending = lr_reconciliationRequired l\<rparr>"
  "lease_row_of db scope = Inr None \<Longrightarrow> ac_lease (account_of db scope) = None"
  by (simp_all add: account_of_def)

lemma readable_ms: "readable_instant t \<Longrightarrow> instant t (instant_ms t)"
  by (auto simp: readable_instant_def instant_ms)

lemma validate_lease_request_Ok:
  assumes "validate_lease_request request scope t = Inr vals" "instant t e"
  shows "lv_now vals = t" "lv_ownerRunId vals = lq_ownerRunId request" "safe_identifier (lv_ownerRunId vals)"
    "instant (lv_expiresAt vals) (e + lq_ttlMs request)" "1 \<le> lq_ttlMs request" "lq_ttlMs request \<le> MAX_LEASE_TTL_MS"
    "0 \<le> e + lq_ttlMs request"
  using assms timestamp_from_epoch_ms_Ok [of "e + lq_ttlMs request"]
  by (auto simp: validate_lease_request_def need_Ok_iff rbind_Ok_iff instant_epoch result_simps simp del: parser_simps)

lemma sane_request:
  assumes "trusted_now clock = Inr t" "validate_lease_request request scope t = Inr vals" "sane_clock clock"
  obtains e where "instant t e" "readable_instant t" "readable_instant (lv_expiresAt vals)" "lv_now vals = t"
    "instant_ms (lv_expiresAt vals) = e + lq_ttlMs request" "1 \<le> lq_ttlMs request" "lq_ttlMs request \<le> MAX_LEASE_TTL_MS"
    "lv_ownerRunId vals = lq_ownerRunId request" "safe_identifier (lv_ownerRunId vals)"
proof -
  obtain e where e: "instant t e" "0 \<le> e" "e + MAX_LEASE_TTL_MS \<le> last_epoch"
    using assms(1,3) by (auto simp: sane_clock_def)
  note v = validate_lease_request_Ok [OF assms(2) e(1)]
  have "readable_instant t" using readable_epoch [OF e(1,2)] e(3) by (simp add: MAX_LEASE_TTL_MS_def)
  moreover have "readable_instant (lv_expiresAt vals)"
    using readable_epoch [OF v(4)] v(6,7) e(3) by simp
  ultimately show ?thesis using that [of e] e(1) v instant_ms [OF v(4)] by simp
qed

subsection \<open>Every operation is a step\<close>

lemma set_columns_lease [simp]:
  "set_columns (lease_js sc ow ep ac ex pe) [(''owner_run_id'', JStr ow'), (''epoch'', JInt ep'),
     (''acquired_at'', JStr ac'), (''expires_at'', JStr ex'), (''reconciliation_required'', JInt 1)] =
   lease_js sc ow' ep' ac' ex' True"
  "set_columns (lease_js sc ow ep ac ex pe) [(''expires_at'', JStr ex')] = lease_js sc ow ep ac ex' pe"
  "set_columns (lease_js sc ow ep ac ex pe) [(''reconciliation_required'', JInt 0)] = lease_js sc ow ep ac ex False"
  by (simp_all add: set_columns_def lease_js_def)

lemma held_by_js [simp]: "held_by ow ep (lease_js sc ow' ep' ac ex pe) \<longleftrightarrow> ow' = ow \<and> ep' = ep"
  by (simp add: held_by_def lease_js_def)

lemma validate_authority_iff:
  "validate_authority a = Inr b \<longleftrightarrow> b = a \<and> safe_identifier (la_ownerRunId a) \<and> is_safe_integer (la_epoch a) \<and> 1 \<le> la_epoch a"
  by (cases a) (auto simp: validate_authority_def guard_def)

lemma assert_current_iff:
  "assert_current_authority db scope authority clock = Inr l \<longleftrightarrow>
     validate_authority authority = Inr authority \<and> lease_row_of db scope = Inr (Some l) \<and>
     (\<exists>t. trusted_now clock = Inr t \<and> \<not> is_at_or_after t (lr_expiresAt l)) \<and>
     la_ownerRunId authority = lr_ownerRunId l \<and> la_epoch authority = lr_epoch l"
proof (cases "validate_authority authority")
  case (Inl e)
  then show ?thesis by (simp add: assert_current_authority_def)
next
  case (Inr a)
  then have "a = authority" by (simp add: validate_authority_iff)
  then show ?thesis using Inr
    by (cases "lease_row_of db scope"; cases "trusted_now clock")
      (auto simp: assert_current_authority_def guard_def split: option.splits if_splits)
qed

lemma held_lease:
  assumes "assert_current_authority db scope authority clock = Inr l" "wf_database db" "sane_clock clock"
  obtains sc now where "db_leases db (authority_scope_values scope) =
      Some (lease_js sc (lr_ownerRunId l) (lr_epoch l) (lr_acquiredAt l) (lr_expiresAt l) (lr_reconciliationRequired l))"
    "authority_scope_values sc = authority_scope_values scope" "lease_row_of db scope = Inr (Some l)"
    "safe_identifier (lr_ownerRunId l)" "is_safe_integer (lr_epoch l)" "1 \<le> lr_epoch l"
    "readable_instant (lr_acquiredAt l)" "readable_instant (lr_expiresAt l)"
    "now < instant_ms (lr_expiresAt l)" "trusted_now clock = Inr (to_iso_string now)"
    "la_ownerRunId authority = lr_ownerRunId l" "la_epoch authority = lr_epoch l"
proof -
  from assms(1) obtain t where t: "lease_row_of db scope = Inr (Some l)" "trusted_now clock = Inr t"
    "\<not> is_at_or_after t (lr_expiresAt l)" "la_ownerRunId authority = lr_ownerRunId l" "la_epoch authority = lr_epoch l"
    unfolding assert_current_iff by blast
  obtain e where e: "instant t e" using assms(3) t(2) by (auto simp: sane_clock_def)
  show ?thesis
  proof (rule wf_lease_read [OF assms(2), of scope])
    assume "lease_row_of db scope = Inr None"
    then show thesis using t(1) by simp
  next
    fix sc k
    assume k: "db_leases db (authority_scope_values scope) =
        Some (lease_js sc (lr_ownerRunId k) (lr_epoch k) (lr_acquiredAt k) (lr_expiresAt k) (lr_reconciliationRequired k))"
      "authority_scope_values sc = authority_scope_values scope" "lease_row_of db scope = Inr (Some k)"
      "safe_identifier (lr_ownerRunId k)" "is_safe_integer (lr_epoch k)" "1 \<le> lr_epoch k"
      "readable_instant (lr_acquiredAt k)" "readable_instant (lr_expiresAt k)"
    then have "k = l" using t(1) by simp
    moreover have "e < instant_ms (lr_expiresAt l)"
      using t(3) e readable_ms [OF k(8)] \<open>k = l\<close> by (auto simp: instant_at_or_after)
    ultimately show thesis using that [of sc e] k t e by (simp add: instant_def)
  qed
qed

lemma not_committed [simp]: "raise_halt_within L scope reason t ev db \<noteq> (Committed r, db')"
  "insert_halt_event e db \<noteq> (Committed u, db')" "insert_lease scope row db \<noteq> (Committed u, db')"
  using raise_halt_within_commits [of L scope reason t ev db] insert_halt_event_commits [of e db]
  by (auto simp: never_commits_def insert_lease_def simp del: raise_halt_within_commits insert_halt_event_commits)

lemma acquire_advances:
  assumes "acquire_lease_within L scope request clock db = (Returned (Inr st), db')" "wf_database db" "sane_clock clock"
  shows "\<exists>e. trusted_now clock = Inr (to_iso_string e) \<and> 1 \<le> lq_ttlMs request \<and> lq_ttlMs request \<le> MAX_LEASE_TTL_MS \<and>
    advances scope (if ac_lease (account_of db scope) = None
      then Granted (lq_ownerRunId request) e (e + lq_ttlMs request)
      else Taken_over (lq_ownerRunId request) e (e + lq_ttlMs request)) db db'"
proof -
  from assms(1) obtain t vals existing where t: "trusted_now clock = Inr t" "validate_lease_request request scope t = Inr vals"
    "lease_row_of db scope = Inr existing"
    by (auto simp: acquire_lease_within_def sql_bind_Returned rbind_Ok_iff split: if_splits option.splits)
  obtain e where e: "instant t e" "readable_instant t" "readable_instant (lv_expiresAt vals)" "lv_now vals = t"
    "instant_ms (lv_expiresAt vals) = e + lq_ttlMs request" "1 \<le> lq_ttlMs request" "lq_ttlMs request \<le> MAX_LEASE_TTL_MS"
    "lv_ownerRunId vals = lq_ownerRunId request" "safe_identifier (lv_ownerRunId vals)"
    using sane_request [OF t(1,2) assms(3)] by metis
  have "advances scope (if ac_lease (account_of db scope) = None
      then Granted (lq_ownerRunId request) e (e + lq_ttlMs request)
      else Taken_over (lq_ownerRunId request) e (e + lq_ttlMs request)) db db'"
  proof (cases existing)
    case None
    have "db' = db\<lparr>db_leases := (db_leases db)(authority_scope_values scope \<mapsto>
        lease_js scope (lv_ownerRunId vals) 1 (lv_now vals) (lv_expiresAt vals) False)\<rparr>"
      using assms(1) t None
      by (auto simp: acquire_lease_within_def sql_bind_Returned insert_lease_def split: if_splits)
    note w = lease_written [OF assms(2) refl this e(9)]
    have w: "wf_database db'" "account_of db' scope = (account_of db scope)\<lparr>ac_lease := Some
        \<lparr>al_owner = lq_ownerRunId request, al_epoch = 1, al_expiry = e + lq_ttlMs request, al_pending = False\<rparr>\<rparr>"
      "authority_scope_values other \<noteq> authority_scope_values scope \<Longrightarrow> account_of db' other = account_of db other" for other
      using w e by (simp_all add: is_safe_integer_def)
    moreover have "ac_lease (account_of db scope) = None" using account_lease_read(2) t(3) None by simp
    moreover from this have "account_step (account_of db scope) (Granted (lq_ownerRunId request) e (e + lq_ttlMs request))
        (account_of db' scope)"
      unfolding w(2) using e(6) by (intro account_step.granted) auto
    ultimately show ?thesis by (simp add: advances_def)
  next
    case (Some l)
    obtain sc where sc: "db_leases db (authority_scope_values scope) = Some (lease_js sc (lr_ownerRunId l) (lr_epoch l)
        (lr_acquiredAt l) (lr_expiresAt l) (lr_reconciliationRequired l))"
      "authority_scope_values sc = authority_scope_values scope" "readable_instant (lr_expiresAt l)" "1 \<le> lr_epoch l"
      using wf_lease_read [OF assms(2), of scope] t(3) Some by (metis old.sum.inject(2) option.inject option.distinct(1))
    define db1 where "db1 = db\<lparr>db_leases := (db_leases db)(authority_scope_values scope \<mapsto>
        lease_js sc (lv_ownerRunId vals) (lr_epoch l + 1) (lv_now vals) (lv_expiresAt vals) True)\<rparr>"
    have run: "is_at_or_after t (lr_expiresAt l)" "is_safe_integer (lr_epoch l + 1)"
      "\<exists>h. raise_halt_within L scope takeover_reason t None db1 = (Returned (Inr h), db')"
      using assms(1) t Some sc(1) e(4)
      by (auto simp: acquire_lease_within_def sql_bind_Returned update_lease_def db1_def Let_def split: if_splits)
    then obtain h where h: "raise_halt_within L scope takeover_reason t None db1 = (Returned (Inr h), db')" by blast
    have w: "wf_database db1" "account_of db1 scope = (account_of db scope)\<lparr>ac_lease := Some
        \<lparr>al_owner = lq_ownerRunId request, al_epoch = lr_epoch l + 1, al_expiry = e + lq_ttlMs request, al_pending = True\<rparr>\<rparr>"
      "authority_scope_values other \<noteq> authority_scope_values scope \<Longrightarrow> account_of db1 other = account_of db other" for other
      using lease_written [OF assms(2) sc(2) db1_def e(9) run(2)] e sc(4) by simp_all
    note r = raise_effect [OF h w(1)]
    note a = account_of_halt_logged [OF r(2,3)]
    have old: "ac_lease (account_of db scope) = Some \<lparr>al_owner = lr_ownerRunId l, al_epoch = lr_epoch l,
        al_expiry = instant_ms (lr_expiresAt l), al_pending = lr_reconciliationRequired l\<rparr>"
      using account_lease_read(1) t(3) Some by simp
    have "instant_ms (lr_expiresAt l) \<le> e" using run(1) e(1) readable_ms [OF sc(3)] by (simp add: instant_at_or_after)
    then have "account_step (account_of db scope) (Taken_over (lq_ownerRunId request) e (e + lq_ttlMs request))
        (account_of db' scope)"
      using account_step.taken_over [OF old, of e "e + lq_ttlMs request" "lq_ownerRunId request"] e(6)
      unfolding a(1) w(2) by simp
    then show ?thesis using r(1) a(2) w(3) old by (simp add: advances_def)
  qed
  then show ?thesis using e t(1) by (auto simp: instant_def)
qed

lemma renew_advances:
  assumes "renew_lease_within scope request authority clock clock2 db = (Returned (Inr st), db')" "wf_database db"
    "sane_clock clock" "sane_clock clock2"
  shows "\<exists>now expiry. advances scope (Renewed now expiry) db db'"
proof -
  from assms(1) obtain t vals parsed l where t: "trusted_now clock = Inr t" "validate_lease_request request scope t = Inr vals"
    "assert_current_authority db scope parsed clock2 = Inr l"
    and db': "db' = update_lease scope (held_by (la_ownerRunId parsed) (la_epoch parsed)) [(''expires_at'', JStr (lv_expiresAt vals))] db"
    by (auto simp: renew_lease_within_def sql_bind_Returned rbind_Ok_iff Let_def)
  obtain sc now where l: "db_leases db (authority_scope_values scope) =
      Some (lease_js sc (lr_ownerRunId l) (lr_epoch l) (lr_acquiredAt l) (lr_expiresAt l) (lr_reconciliationRequired l))"
    "authority_scope_values sc = authority_scope_values scope" "lease_row_of db scope = Inr (Some l)"
    "safe_identifier (lr_ownerRunId l)" "is_safe_integer (lr_epoch l)" "1 \<le> lr_epoch l"
    "readable_instant (lr_acquiredAt l)" "now < instant_ms (lr_expiresAt l)"
    "la_ownerRunId parsed = lr_ownerRunId l" "la_epoch parsed = lr_epoch l"
    by (rule held_lease [OF t(3) assms(2,4)]) (rule that)
  obtain e where e: "readable_instant (lv_expiresAt vals)" using sane_request [OF t(1,2) assms(3)] by metis
  have new: "db' = db\<lparr>db_leases := (db_leases db)(authority_scope_values scope \<mapsto>
      lease_js sc (lr_ownerRunId l) (lr_epoch l) (lr_acquiredAt l) (lv_expiresAt vals) (lr_reconciliationRequired l))\<rparr>"
    by (simp add: db' update_lease_def l)
  note w = lease_written [OF assms(2) l(2) new l(4-7) e]
  have "account_step (account_of db scope) (Renewed now (instant_ms (lv_expiresAt vals))) (account_of db' scope)"
    unfolding w(2) using account_step.renewed [OF account_lease_read(1) [OF l(3)], of now] l(8) by simp
  then show ?thesis using w(1,3) unfolding advances_def by blast
qed

lemma release_advances:
  assumes "release_lease_within scope authority clock clock2 db = (Returned (Inr u), db')" "wf_database db" "sane_clock clock2"
  shows "\<exists>now. advances scope (Released now) db db'"
proof -
  from assms(1) obtain l where t: "assert_current_authority db scope authority clock2 = Inr l" "\<not> lr_reconciliationRequired l"
    and db': "db' = delete_lease scope (la_ownerRunId authority) (la_epoch authority) db"
    by (auto simp: release_lease_within_def sql_bind_Returned split: if_splits)
  obtain sc now where l: "db_leases db (authority_scope_values scope) =
      Some (lease_js sc (lr_ownerRunId l) (lr_epoch l) (lr_acquiredAt l) (lr_expiresAt l) (lr_reconciliationRequired l))"
    "lease_row_of db scope = Inr (Some l)" "now < instant_ms (lr_expiresAt l)"
    "la_ownerRunId authority = lr_ownerRunId l" "la_epoch authority = lr_epoch l"
    by (rule held_lease [OF t(1) assms(2,3)]) (rule that)
  have new: "db' = db\<lparr>db_leases := (db_leases db)(authority_scope_values scope := None)\<rparr>"
    by (simp add: db' delete_lease_def l)
  note w = lease_change [OF assms(2) new]
  have "lease_row_of db' scope = Inr None" by (simp add: new lease_row_of_def)
  then have "account_of db' scope = (account_of db scope)\<lparr>ac_lease := None\<rparr>"
    using w(4) account_lease_read(2) [of db' scope] by simp
  then have "account_step (account_of db scope) (Released now) (account_of db' scope)"
    using account_step.released [OF account_lease_read(1) [OF l(2)], of now] l(3) t(2) by simp
  then show ?thesis using w(1,3) unfolding advances_def by auto
qed

lemma halt_advances:
  assumes "halt_logged scope active db db'" "db_leases db' = db_leases db" "wf_database db'"
    "active \<or> ac_halted (account_of db scope)"
  shows "advances scope (if active then Halt_raised else Operator_cleared) db db'"
proof -
  note a = account_of_halt_logged [OF assms(1,2)]
  have "account_step (account_of db scope) (if active then Halt_raised else Operator_cleared) (account_of db' scope)"
    unfolding a(1) using assms(4) by (cases active) (simp_all add: account_step.halt_raised account_step.operator_cleared)
  then show ?thesis using assms(3) a(2) unfolding advances_def by blast
qed

lemma raise_advances:
  "raise_halt_within L scope reason t ev db = (Returned (Inr h), db') \<Longrightarrow> wf_database db \<Longrightarrow> advances scope Halt_raised db db'"
  using raise_effect [of L scope reason t ev db h db'] halt_advances [of scope True db db'] by simp

lemma operator_clear_advances:
  assumes "clear_operator_halt_within L scope n reason t ev db = (Returned (Inr h'), db')" "wf_database db"
  shows "advances scope Operator_cleared db db'"
proof -
  from assms(1) obtain h u where h: "halt_row db scope = Inr h" "hs_active h" "is_safe_integer (hs_revision h + 1)"
    "insert_halt_event (halt_event_js (halt_event_id L scope (hs_revision h + 1) reason) scope (hs_revision h + 1) False reason t (Some ev))
      (update_halt_cleared scope (hs_revision h) (hs_revision h + 1) db) = (Returned (Inr u), db')"
    by (auto simp: clear_operator_halt_within_def sql_bind_Returned need_Ok_iff Let_def split: if_splits)
  note c = clear_effect [OF assms(2) h]
  have "ac_halted (account_of db scope)" using h by (simp add: account_of_def)
  then show ?thesis using halt_advances [OF c(2,3,1)] by simp
qed

lemma clear_advances:
  assumes "clear_halt_within L scope authority evidence artifact n clock journal db = (Returned (Inr st), db')"
    "wf_database db" "sane_clock clock" "is_safe_integer (ac_revision (account_of db scope) + 1)"
  shows "\<exists>now. advances scope (Cleared now) db db'"
proof -
  obtain canonicalJson canonicalHash where art: "artifact = (canonicalJson, canonicalHash)" by (cases artifact)
  from assms(1) obtain l h u db2 where c: "assert_current_authority db scope authority clock = Inr l"
    "halt_row db scope = Inr h" "hs_active h"
    "insert_halt_event (halt_event_js (deterministic_id L ''halt-clearance'' canonicalHash) scope (hs_revision h + 1) False
        (ce_reason evidence) (ce_timestamp evidence) (Some canonicalJson))
      (update_halt_cleared scope (hs_revision h) (hs_revision h + 1) db) = (Returned (Inr u), db2)"
    "db' = update_lease scope (held_by (lr_ownerRunId l) (lr_epoch l)) [(''reconciliation_required'', JInt 0)] db2"
    by (auto simp: clear_halt_within_def clear_halt_checks_def clear_halt_writes_def art sql_bind_Returned rbind_Ok_iff
        need_Ok_iff Let_def)
  obtain sc now where l: "db_leases db (authority_scope_values scope) =
      Some (lease_js sc (lr_ownerRunId l) (lr_epoch l) (lr_acquiredAt l) (lr_expiresAt l) (lr_reconciliationRequired l))"
    "authority_scope_values sc = authority_scope_values scope" "lease_row_of db scope = Inr (Some l)"
    "safe_identifier (lr_ownerRunId l)" "is_safe_integer (lr_epoch l)" "1 \<le> lr_epoch l"
    "readable_instant (lr_acquiredAt l)" "readable_instant (lr_expiresAt l)" "now < instant_ms (lr_expiresAt l)"
    by (rule held_lease [OF c(1) assms(2,3)]) (rule that)
  have safe: "is_safe_integer (hs_revision h + 1)" using assms(4) c(2) by (simp add: account_of_def)
  note e = clear_effect [OF assms(2) c(2,3) safe c(4)]
  note a = account_of_halt_logged [OF e(2,3)]
  have new: "db' = db2\<lparr>db_leases := (db_leases db2)(authority_scope_values scope \<mapsto>
      lease_js sc (lr_ownerRunId l) (lr_epoch l) (lr_acquiredAt l) (lr_expiresAt l) False)\<rparr>"
    by (simp add: c(5) update_lease_def l(1) e(3))
  note w = lease_written [OF e(1) l(2) new l(4-8)]
  have "ac_halted (account_of db scope)" using c(2,3) by (simp add: account_of_def)
  then have "account_step (account_of db scope) (Cleared now) (account_of db' scope)"
    using account_step.cleared [OF account_lease_read(1) [OF l(3)], of now] l(9)
    unfolding w(2) a(1) by (cases "account_of db scope") simp
  then show ?thesis using w(1,3) a(2) unfolding advances_def by auto
qed

subsection \<open>Any sequence of operations\<close>

text \<open>
  The operations of the journal with their arguments and clock readings. The operator's
  clearance and the committed conflict run in transactions of their callers.
\<close>

datatype store_operation =
    Acquire lease_request clock_reading
  | Renew lease_request lease_authority clock_reading clock_reading
  | Release lease_authority clock_reading clock_reading
  | Raise_halt lease_authority string string clock_reading
  | Clear_halt lease_authority row "(string \<times> string) result" int clock_reading "unit sql_outcome"
  | Clear_operator_halt int string string string
  | Append_conflict string string

definition forget :: "'a result \<times> database \<Rightarrow> unit result \<times> database" where
  "forget out = (case out of (r, db) \<Rightarrow> (map_result r (\<lambda>_. ()), db))"

fun perform ::
  "'d lib \<Rightarrow> sql_faults \<Rightarrow> persistence_scope \<Rightarrow> store_operation \<Rightarrow> database \<Rightarrow> unit result \<times> database" where
  "perform L faults scope (Acquire request clock) db = forget (acquire_lease L faults scope request clock db)"
| "perform L faults scope (Renew request authority clock clock2) db =
     forget (renew_lease faults scope request authority clock clock2 db)"
| "perform L faults scope (Release authority clock clock2) db = forget (release_lease faults scope authority clock clock2 db)"
| "perform L faults scope (Raise_halt authority reason recordedAt clock) db =
     forget (raise_halt L faults scope authority reason recordedAt clock db)"
| "perform L faults scope (Clear_halt authority evidence artifact expected clock journal) db =
     forget (clear_halt L faults scope authority evidence artifact expected clock journal db)"
| "perform L faults scope (Clear_operator_halt expected reason recordedAt evidenceJson) db =
     forget (run_in_transaction faults (clear_operator_halt_within L scope expected reason recordedAt evidenceJson)
       PERSISTENCE_CONFLICT db)"
| "perform L faults scope (Append_conflict reason recordedAt) db =
     forget (run_in_transaction faults (append_conflict_after_halt L scope reason recordedAt :: database \<Rightarrow> unit sql_outcome \<times> database)
       PERSISTENCE_CONFLICT db)"

text \<open>Sane arguments: clocks within the calendar, and a rest of \<open>clearHalt\<close> that does not commit.\<close>

fun sane_operation :: "store_operation \<Rightarrow> bool" where
  "sane_operation (Acquire request clock) \<longleftrightarrow> sane_clock clock"
| "sane_operation (Renew request authority clock clock2) \<longleftrightarrow> sane_clock clock \<and> sane_clock clock2"
| "sane_operation (Release authority clock clock2) \<longleftrightarrow> sane_clock clock2"
| "sane_operation (Clear_halt authority evidence artifact expected clock journal) \<longleftrightarrow>
     sane_clock clock \<and> (\<forall>r. journal \<noteq> Committed r)"
| "sane_operation _ \<longleftrightarrow> True"

text \<open>The events an operation can cause.\<close>

fun causes :: "store_operation \<Rightarrow> account_event \<Rightarrow> bool" where
  "causes (Acquire request clock) ev \<longleftrightarrow>
     (\<exists>now. ev \<in> {Granted (lq_ownerRunId request) now (now + lq_ttlMs request),
       Taken_over (lq_ownerRunId request) now (now + lq_ttlMs request)} \<and>
       1 \<le> lq_ttlMs request \<and> lq_ttlMs request \<le> MAX_LEASE_TTL_MS)"
| "causes (Renew request authority clock clock2) ev \<longleftrightarrow> (\<exists>now expiry. ev = Renewed now expiry)"
| "causes (Release authority clock clock2) ev \<longleftrightarrow> (\<exists>now. ev = Released now)"
| "causes (Raise_halt authority reason recordedAt clock) ev \<longleftrightarrow> ev = Halt_raised"
| "causes (Clear_halt authority evidence artifact expected clock journal) ev \<longleftrightarrow> (\<exists>now. ev = Cleared now)"
| "causes (Clear_operator_halt expected reason recordedAt evidenceJson) ev \<longleftrightarrow> ev = Operator_cleared"
| "causes (Append_conflict reason recordedAt) ev \<longleftrightarrow> ev = Halt_raised"

lemma transaction_advances:
  assumes "run_in_transaction faults operation code db = (r, db')" "never_commits (operation db)"
    "\<And>x d. operation db = (Returned (Inr x), d) \<Longrightarrow> P d"
  shows "db' = db \<or> P db'"
  using assms by (auto simp: run_in_transaction_def never_commits_def is_ok_iff
      split: option.splits sql_outcome.splits prod.splits if_splits)

lemma performed_step:
  assumes "perform L faults scope op db = (r, db')" "wf_database db" "sane_operation op"
    "is_safe_integer (ac_revision (account_of db scope) + 1)"
  shows "db' = db \<or> (\<exists>ev. causes op ev \<and> advances scope ev db db')"
proof (cases op)
  case (Acquire request clock)
  then obtain st where "run_in_transaction faults (acquire_lease_within L scope request clock) PERSISTENCE_CONFLICT db = (st, db')"
    using assms(1) by (auto simp: forget_def acquire_lease_def split: prod.splits)
  then show ?thesis
  proof (rule transaction_advances)
    fix x d assume run: "acquire_lease_within L scope request clock db = (Returned (Inr x), d)"
    have "sane_clock clock" using assms(3) Acquire by simp
    from acquire_advances [OF run assms(2) this] Acquire show "\<exists>ev. causes op ev \<and> advances scope ev db d"
      by (cases "ac_lease (account_of db scope) = None") force+
  qed simp
next
  case (Renew request authority clock clock2)
  then obtain st where "run_in_transaction faults (renew_lease_within scope request authority clock clock2) PERSISTENCE_CONFLICT db = (st, db')"
    using assms(1) by (auto simp: forget_def renew_lease_def split: prod.splits)
  then show ?thesis
    by (rule transaction_advances) (use assms(2,3) Renew in \<open>auto dest!: renew_advances\<close>)
next
  case (Release authority clock clock2)
  then show ?thesis
  proof (cases "validate_authority authority")
    case (Inl e)
    then show ?thesis using assms(1) Release by (simp add: forget_def release_lease_def)
  next
    case (Inr parsed)
    then obtain st where "run_in_transaction faults (release_lease_within scope parsed clock clock2) PERSISTENCE_CONFLICT db = (st, db')"
      using assms(1) Release by (auto simp: forget_def release_lease_def split: prod.splits)
    then show ?thesis
      by (rule transaction_advances) (use assms(2,3) Release in \<open>auto dest!: release_advances\<close>)
  qed
next
  case (Raise_halt authority reason recordedAt clock)
  then show ?thesis
  proof (cases "validate_timestamp (JStr recordedAt) ''recordedAt''")
    case (Inl e)
    then show ?thesis using assms(1) Raise_halt by (simp add: forget_def raise_halt_def)
  next
    case (Inr t)
    then obtain st where "run_in_transaction faults (raise_halt_under L scope authority reason t clock) PERSISTENCE_CONFLICT db = (st, db')"
      using assms(1) Raise_halt by (auto simp: forget_def raise_halt_def split: prod.splits)
    then show ?thesis
      by (rule transaction_advances)
        (use assms(2) Raise_halt in \<open>auto simp: raise_halt_under_def sql_bind_Returned dest: raise_advances\<close>)
  qed
next
  case (Clear_halt authority evidence artifact expected clock journal)
  then show ?thesis
  proof (cases "need PERSISTENCE_INTEGRITY
      (require_finite_integer (JInt expected :: row) ''expectedHaltRevision'' 0) (\<lambda>expected.
      need PERSISTENCE_INTEGRITY (create_clearance_evidence evidence) (\<lambda>evidence.
      rbind artifact (\<lambda>encoded. Ok (expected, evidence, encoded))))")
    case (Inl e)
    then show ?thesis using assms(1) Clear_halt by (simp add: forget_def clear_halt_def)
  next
    case (Inr parsed)
    then obtain n ev enc where parsed: "parsed = (n, ev, enc)" by (cases parsed)
    then obtain st where "run_in_transaction faults (clear_halt_within L scope authority ev enc n clock journal)
        PERSISTENCE_CONFLICT db = (st, db')"
      using assms(1) Clear_halt Inr by (auto simp: forget_def clear_halt_def split: prod.splits)
    then show ?thesis
      by (rule transaction_advances)
        (use assms(2-4) Clear_halt in \<open>auto intro!: clear_commits dest!: clear_advances\<close>)
  qed
next
  case (Clear_operator_halt expected reason recordedAt evidenceJson)
  then obtain st where "run_in_transaction faults (clear_operator_halt_within L scope expected reason recordedAt evidenceJson)
      PERSISTENCE_CONFLICT db = (st, db')"
    using assms(1) by (auto simp: forget_def split: prod.splits)
  then show ?thesis
    by (rule transaction_advances) (use assms(2) Clear_operator_halt in \<open>auto dest: operator_clear_advances\<close>)
next
  case (Append_conflict reason recordedAt)
  then obtain st :: "unit result" where run: "run_in_transaction faults (append_conflict_after_halt L scope reason recordedAt)
      PERSISTENCE_CONFLICT db = (st, db')"
    using assms(1) by (auto simp: forget_def split: prod.splits)
  then show ?thesis
  proof (cases rule: run_in_transaction_cases)
    case (committed)
    then show ?thesis using assms(2) Append_conflict
      by (auto simp: append_conflict_after_halt_def sql_bind_Committed dest: raise_advances)
  next
    case (returned x)
    then show ?thesis by (auto simp: append_conflict_after_halt_def sql_bind_Returned)
  qed auto
qed

text \<open>The operations of all runs on one database, in the order in which their transactions commit.\<close>

inductive journal_run :: "'d lib \<Rightarrow> database \<Rightarrow> (persistence_scope \<times> store_operation) list \<Rightarrow> database \<Rightarrow> bool"
  for L where
  idle: "journal_run L db [] db"
| perform: "perform L faults scope op db = (r, db1) \<Longrightarrow> sane_operation op \<Longrightarrow>
    is_safe_integer (ac_revision (account_of db scope) + 1) \<Longrightarrow> journal_run L db1 ops db2 \<Longrightarrow>
    journal_run L db ((scope, op) # ops) db2"

inductive_cases journal_run_idle: "journal_run L db [] db'"
inductive_cases journal_run_perform: "journal_run L db (x # ops) db'"

text \<open>Two scopes of the same account see the same lease and HALT state.\<close>

lemma account_of_same:
  assumes "authority_scope_values scope = authority_scope_values scope'"
  shows "account_of db scope = account_of db scope'"
proof -
  have "lease_row_of db scope = lease_row_of db scope'" using row_of_account [of db scope db scope'] assms by simp
  moreover have "halt_row db scope' = Inr (h\<lparr>hs_scope := scope'\<rparr>)" if "halt_row db scope = Inr h" for h
    using halt_of_account [of db scope db scope' h] assms that by simp
  moreover have "halt_row db scope = Inr (h\<lparr>hs_scope := scope\<rparr>)" if "halt_row db scope' = Inr h" for h
    using halt_of_account [of db scope' db scope h] assms that by simp
  ultimately show ?thesis
    by (cases "halt_row db scope"; cases "halt_row db scope'") (auto simp: account_of_def)
qed

lemma journal_refines:
  assumes "journal_run L db ops db'" "wf_database db"
  shows "wf_database db' \<and> (\<exists>evs. account_run (account_of db scope) evs (account_of db' scope) \<and>
    (\<forall>ev \<in> set evs. \<exists>(s, op) \<in> set ops. authority_scope_values s = authority_scope_values scope \<and> causes op ev))"
  using assms
proof (induction rule: journal_run.induct)
  case (idle db)
  then show ?case using account_run.stay by fastforce
next
  case (perform faults s op db r db1 ops db2)
  let ?same = "authority_scope_values s = authority_scope_values scope"
  from performed_step [OF perform.hyps(1) perform.prems perform.hyps(2,3)]
  consider "db1 = db" | ev where "causes op ev" "advances s ev db db1" by blast
  then show ?case
  proof cases
    case 1
    then show ?thesis using perform.IH perform.prems by fastforce
  next
    case 2
    then have wf: "wf_database db1" by (simp add: advances_def)
    then obtain evs where evs: "wf_database db2" "account_run (account_of db1 scope) evs (account_of db2 scope)"
      "\<forall>ev \<in> set evs. \<exists>(s, op) \<in> set ops. authority_scope_values s = authority_scope_values scope \<and> causes op ev"
      using perform.IH by blast
    show ?thesis
    proof (cases ?same)
      case True
      then have "account_step (account_of db scope) ev (account_of db1 scope)"
        using 2(2) account_of_same [OF True] by (simp add: advances_def)
      then have "account_run (account_of db scope) (ev # evs) (account_of db2 scope)"
        using evs(2) by (rule account_run.step)
      then show ?thesis using evs(1,3) True 2(1) by fastforce
    next
      case False
      then have "account_of db1 scope = account_of db scope" using 2(2) by (auto simp: advances_def)
      then show ?thesis using evs by fastforce
    qed
  qed
qed

lemma empty_database_wf [simp]: "wf_database empty_database"
  by (simp add: wf_database_def empty_database_def log_ok_def halt_row_def account_events_def)

subsection \<open>Taking a lease\<close>

lemma log_revisions:
  assumes "wf_database db" "halt_row db scope = Inr h" "e \<in> set (db_halt_events db)"
    "get e ''exchange'' = JStr (ps_exchange scope)" "get e ''environment'' = JStr (ps_environment scope)"
    "get e ''account_id'' = JStr (ps_accountId scope)"
  shows "\<exists>n. get e ''revision'' = JInt n \<and> 1 \<le> n \<and> n \<le> hs_revision h"
proof -
  have "e \<in> set (account_events db scope)"
    using assms(3-6) by (simp add: account_events_def event_account_def authority_scope_values_def)
  then have "get e ''revision'' \<in> set (map (\<lambda>e. get e ''revision'') (account_events db scope))" by simp
  also have "map (\<lambda>e. get e ''revision'') (account_events db scope) = map JInt [1..hs_revision h]"
    using assms(1,2) by (simp add: wf_database_def log_ok_def)
  finally show ?thesis by auto
qed

text \<open>Raising a HALT works when its event id is new, its reason printable and its instant readable.\<close>

lemma raise_halt_total:
  assumes "wf_database db" "halt_row db scope = Inr h" "is_safe_integer (hs_revision h + 1)" "safe_text reason"
    "readable_instant t"
    "\<forall>e \<in> set (db_halt_events db). get e ''event_id'' \<noteq> JStr (halt_event_id L scope (hs_revision h + 1) reason)"
  shows "\<exists>h' db'. raise_halt_within L scope reason t ev db = (Returned (Inr h'), db')"
proof -
  let ?n = "hs_revision h + 1"
  let ?event = "halt_event_js (halt_event_id L scope ?n reason) scope ?n True reason t ev"
  let ?row = "halt_js scope True ?n (Some reason) (Some t) True"
  let ?db1 = "db\<lparr>db_halts := (db_halts db)(authority_scope_values scope \<mapsto> ?row)\<rparr>"
  let ?db2 = "?db1\<lparr>db_halt_events := db_halt_events db @ [?event]\<rparr>"
  have "\<not> event_clashes ?event other" if "other \<in> set (db_halt_events db)" for other
  proof
    assume "event_clashes ?event other"
    then consider "get other ''event_id'' = JStr (halt_event_id L scope ?n reason)"
      | "get other ''exchange'' = JStr (ps_exchange scope)" "get other ''environment'' = JStr (ps_environment scope)"
        "get other ''account_id'' = JStr (ps_accountId scope)" "get other ''revision'' = JInt ?n"
      by (auto simp: event_clashes_def halt_event_js_def)
    then show False
      using assms(6) that log_revisions [OF assms(1,2) that] by cases auto
  qed
  then have "insert_halt_event ?event ?db1 = (Returned (Inr ()), ?db2)" by (simp add: insert_halt_event_def)
  moreover have "\<exists>h'. halt_row ?db2 scope = Inr h'"
    using halt_row_js [of ?db2 scope scope True ?n "Some reason" "Some t" True] wf_halt_facts(1) [OF assms(1,2)]
      assms(3,5) by (auto simp: readable_parse)
  ultimately show ?thesis using assms(2-4) by (auto simp: raise_halt_within_def Let_def)
qed

lemma acquire_total:
  assumes wf: "wf_database db" and now: "trusted_now clock = Inr t" "sane_clock clock"
    and request: "persistence_scopes_equal (lq_scope request) scope" "safe_identifier (lq_ownerRunId request)"
      "is_ok (parse_utc_timestamp (JStr (lq_now request) :: row))" "1 \<le> lq_ttlMs request" "lq_ttlMs request \<le> MAX_LEASE_TTL_MS"
    and free: "\<And>l. lease_row_of db scope = Inr (Some l) \<Longrightarrow>
      is_at_or_after t (lr_expiresAt l) \<and> is_safe_integer (lr_epoch l + 1)"
    and fresh: "is_safe_integer (ac_revision (account_of db scope) + 1)"
      "\<forall>e \<in> set (db_halt_events db). get e ''event_id'' \<noteq>
        JStr (halt_event_id L scope (ac_revision (account_of db scope) + 1) takeover_reason)"
  shows "\<exists>st db'. acquire_lease_within L scope request clock db = (Returned (Inr st), db')"
proof -
  obtain e where e: "instant t e" "0 \<le> e" "e + MAX_LEASE_TTL_MS \<le> last_epoch"
    using now by (auto simp: sane_clock_def)
  obtain n where n: "parse_utc_timestamp (JStr (lq_now request) :: row) = Inr n" using request(3) by (auto simp: is_ok_iff)
  have bounds: "is_safe_integer (lq_ttlMs request)" "is_safe_integer (e + lq_ttlMs request)" "e + lq_ttlMs request \<le> max_time"
    using request(4,5) e(2,3) by (simp_all add: is_safe_integer_def MAX_LEASE_TTL_MS_def last_epoch_def max_time_def)
  define vals where "vals = \<lparr>lv_ownerRunId = lq_ownerRunId request, lv_now = t,
      lv_expiresAt = to_iso_string (e + lq_ttlMs request), lv_ttlMs = lq_ttlMs request\<rparr>"
  have vals: "validate_lease_request request scope t = Inr vals"
    using request n bounds e by (simp add: validate_lease_request_def instant_epoch timestamp_from_epoch_ms_def vals_def)
  have "1 \<le> lq_ttlMs request" by (rule request(4))
  obtain e2 where e2: "readable_instant t" "readable_instant (lv_expiresAt vals)" "lv_now vals = t"
    "safe_identifier (lv_ownerRunId vals)"
    using sane_request [OF now(1) vals now(2)] by metis
  show ?thesis
  proof (rule wf_lease_read [OF wf, of scope])
    assume "db_leases db (authority_scope_values scope) = None" "lease_row_of db scope = Inr None"
    then show ?thesis by (simp add: acquire_lease_within_def now(1) vals insert_lease_def)
  next
    fix sc l
    assume l: "db_leases db (authority_scope_values scope) =
        Some (lease_js sc (lr_ownerRunId l) (lr_epoch l) (lr_acquiredAt l) (lr_expiresAt l) (lr_reconciliationRequired l))"
      "authority_scope_values sc = authority_scope_values scope" "lease_row_of db scope = Inr (Some l)"
      "safe_identifier (lr_ownerRunId l)" "is_safe_integer (lr_epoch l)" "1 \<le> lr_epoch l"
    define db1 where "db1 = db\<lparr>db_leases := (db_leases db)(authority_scope_values scope \<mapsto>
        lease_js sc (lv_ownerRunId vals) (lr_epoch l + 1) (lv_now vals) (lv_expiresAt vals) True)\<rparr>"
    note w = lease_written [OF wf l(2) db1_def e2(4)]
    have wf1: "wf_database db1" using w(1) free [OF l(3)] l(6) e2 by simp
    obtain h where h: "halt_row db scope = Inr h" using wf_halt_read [OF wf, of scope] by metis
    have h1: "halt_row db1 scope = Inr h" using h by (simp add: db1_def halt_row_def)
    have rev: "ac_revision (account_of db scope) = hs_revision h" using h by (simp add: account_of_def)
    have "safe_text takeover_reason" by code_simp
    then obtain h' db' where raised: "raise_halt_within L scope takeover_reason t None db1 = (Returned (Inr h'), db')"
      using raise_halt_total [OF wf1 h1, of takeover_reason t L None] fresh rev e2(1) by (auto simp: db1_def)
    have "update_lease scope (\<lambda>_. True) [(''owner_run_id'', JStr (lv_ownerRunId vals)), (''epoch'', JInt (lr_epoch l + 1)),
        (''acquired_at'', JStr (lv_now vals)), (''expires_at'', JStr (lv_expiresAt vals)),
        (''reconciliation_required'', JInt 1)] db = db1"
      by (simp add: update_lease_def l(1) db1_def)
    then show ?thesis
      using free [OF l(3)] raised by (simp add: acquire_lease_within_def now(1) vals l(3) e2(3) Let_def)
  qed
qed

text \<open>What a successful acquisition returns is what the table then says.\<close>

lemma truncate_lease_state [simp]: "lease_row.truncate (lease_state_of scope row) = row"
  "lr_ownerRunId (lease_state_of scope row) = lr_ownerRunId row"
  "lr_epoch (lease_state_of scope row) = lr_epoch row" "lr_expiresAt (lease_state_of scope row) = lr_expiresAt row"
  "lr_reconciliationRequired (lease_state_of scope row) = lr_reconciliationRequired row"
  by (simp_all add: lease_state_of_def lease_row.defs lease_state.defs)

lemma acquire_result:
  assumes "acquire_lease_within L scope request clock db = (Returned (Inr st), db')" "wf_database db" "sane_clock clock"
  shows "lease_row_of db' scope = Inr (Some (lease_row.truncate st)) \<and> lr_ownerRunId st = lq_ownerRunId request"
proof -
  from assms(1) obtain t vals existing where t: "trusted_now clock = Inr t" "validate_lease_request request scope t = Inr vals"
    "lease_row_of db scope = Inr existing"
    by (auto simp: acquire_lease_within_def sql_bind_Returned rbind_Ok_iff split: if_splits option.splits)
  obtain e where e: "readable_instant t" "readable_instant (lv_expiresAt vals)" "lv_now vals = t"
    "lv_ownerRunId vals = lq_ownerRunId request" "safe_identifier (lv_ownerRunId vals)"
    using sane_request [OF t(1,2) assms(3)] by metis
  show ?thesis
  proof (cases existing)
    case None
    then show ?thesis
      using assms(1) t e lease_row_of_js [of db' scope scope "lv_ownerRunId vals" 1 t "lv_expiresAt vals" False]
      by (auto simp: acquire_lease_within_def sql_bind_Returned insert_lease_def is_safe_integer_def split: if_splits)
  next
    case (Some l)
    obtain sc where sc: "db_leases db (authority_scope_values scope) = Some (lease_js sc (lr_ownerRunId l) (lr_epoch l)
        (lr_acquiredAt l) (lr_expiresAt l) (lr_reconciliationRequired l))"
      "authority_scope_values sc = authority_scope_values scope" "readable_instant (lr_expiresAt l)" "1 \<le> lr_epoch l"
      using wf_lease_read [OF assms(2), of scope] t(3) Some by (metis old.sum.inject(2) option.inject option.distinct(1))
    define db1 where "db1 = db\<lparr>db_leases := (db_leases db)(authority_scope_values scope \<mapsto>
        lease_js sc (lv_ownerRunId vals) (lr_epoch l + 1) (lv_now vals) (lv_expiresAt vals) True)\<rparr>"
    have run: "is_safe_integer (lr_epoch l + 1)"
      "\<exists>h. raise_halt_within L scope takeover_reason t None db1 = (Returned (Inr h), db')"
      "st = lease_state_of scope \<lparr>lr_ownerRunId = lv_ownerRunId vals, lr_epoch = lr_epoch l + 1,
         lr_acquiredAt = lv_now vals, lr_expiresAt = lv_expiresAt vals, lr_reconciliationRequired = True\<rparr>"
      using assms(1) t Some sc(1) e(3)
      by (auto simp: acquire_lease_within_def sql_bind_Returned update_lease_def db1_def Let_def split: if_splits)
    then obtain h where h: "raise_halt_within L scope takeover_reason t None db1 = (Returned (Inr h), db')" by blast
    have "wf_database db1" using lease_written(1) [OF assms(2) sc(2) db1_def e(5) run(1)] e sc(4) by simp
    from raise_effect(3) [OF h this] have "db_leases db' (authority_scope_values scope) =
        Some (lease_js sc (lv_ownerRunId vals) (lr_epoch l + 1) t (lv_expiresAt vals) True)"
      by (simp add: db1_def e(3))
    from lease_row_of_js [OF this] show ?thesis using run(1,3) e sc(4) by simp
  qed
qed

subsection \<open>What any sequence of operations keeps\<close>

lemma acquire_lease_run:
  "acquire_lease L faults scope request clock db = (Inr st, db') \<longleftrightarrow>
     begin_throws faults = None \<and> commit_throws faults = None \<and>
     acquire_lease_within L scope request clock db = (Returned (Inr st), db')"
  using acquire_commits [of L scope request clock db]
  by (auto simp: acquire_lease_def run_in_transaction_def never_commits_def
      split: option.splits sql_outcome.splits prod.splits if_splits simp del: acquire_commits)

text \<open>Claim C6: any sequence of lease and HALT operations, by any number of runs and through any
  faults of the transactions, takes a fresh journal to a well-formed one, and every account moves by steps
  of the abstract machine that its own operations caused: granted at epoch 1, taken over only after expiry with the next
  epoch and a HALT, renewed and cleared only while current, released only when nothing is pending.\<close>

theorem journal_refines_account:
  assumes "journal_run L empty_database ops db"
  shows "wf_database db \<and> (\<exists>evs. account_run \<lparr>ac_lease = None, ac_halted = False, ac_revision = 0\<rparr> evs (account_of db scope) \<and>
    (\<forall>ev \<in> set evs. \<exists>(s, operation) \<in> set ops. authority_scope_values s = authority_scope_values scope \<and> causes operation ev))"
proof -
  have "account_of empty_database scope = \<lparr>ac_lease = None, ac_halted = False, ac_revision = 0\<rparr>"
    by (simp add: account_of_def lease_row_of_def halt_row_def empty_database_def)
  then show ?thesis using journal_refines [OF assms empty_database_wf, of scope] by simp
qed

lemma fenced:
  assumes "wf_database db" "ac_lease (account_of db scope) = Some m" "al_pending m" "epoch < al_epoch m"
  shows "la_epoch authority \<le> epoch \<Longrightarrow> assert_current_authority db scope authority clock \<noteq> Inr l"
    and "\<exists>e. release_lease faults scope authority clock clock2 db = (Inl e, db)"
proof -
  obtain sc k where k: "lease_row_of db scope = Inr (Some k)" "lr_epoch k = al_epoch m" "lr_reconciliationRequired k"
    by (rule wf_lease_read [OF assms(1), of scope]) (use assms(2,3) in \<open>auto simp: account_of_def\<close>)
  show "la_epoch authority \<le> epoch \<Longrightarrow> assert_current_authority db scope authority clock \<noteq> Inr l"
    using k assms(4) by (auto simp: assert_current_iff)
  have "\<exists>e. run_in_transaction faults (release_lease_within scope parsed clock clock2) PERSISTENCE_CONFLICT db = (Inl e, db)" for parsed
  proof (cases "run_in_transaction faults (release_lease_within scope parsed clock clock2) PERSISTENCE_CONFLICT db")
    case (Pair r d)
    have "r \<noteq> Inr u" for u
    proof
      assume "r = Inr u"
      with Pair have "release_lease_within scope parsed clock clock2 db = (Returned (Inr u), d) \<or>
          release_lease_within scope parsed clock clock2 db = (Committed (Inr u), d)"
        by (intro run_in_transaction_ok) simp
      moreover have "release_lease_within scope parsed clock clock2 db \<noteq> (Committed (Inr u), d)"
        using release_commits [of scope parsed clock clock2 db] unfolding never_commits_def by (metis fst_conv)
      ultimately show False using k by (auto simp: release_lease_within_def sql_bind_Returned assert_current_iff)
    qed
    then obtain e where "r = Inl e" by (cases r) auto
    then show ?thesis using Pair by (auto dest: failed_transaction_unchanged [OF _ release_commits])
  qed
  then show "\<exists>e. release_lease faults scope authority clock clock2 db = (Inl e, db)"
    by (auto simp: release_lease_def split: sum.splits)
qed

lemma journal_pending:
  assumes "journal_run L db ops db'" "wf_database db" "ac_lease (account_of db scope) = Some l" "al_pending l"
    "\<forall>(s, operation) \<in> set ops. authority_scope_values s = authority_scope_values scope \<longrightarrow>
       (\<forall>au ev ar n cl jo. operation \<noteq> Clear_halt au ev ar n cl jo)"
  shows "wf_database db' \<and> (\<exists>m. ac_lease (account_of db' scope) = Some m \<and> al_pending m \<and> al_epoch l \<le> al_epoch m)"
proof -
  obtain evs where evs: "wf_database db'" "account_run (account_of db scope) evs (account_of db' scope)"
    "\<forall>ev \<in> set evs. \<exists>(s, op) \<in> set ops. authority_scope_values s = authority_scope_values scope \<and> causes op ev"
    using journal_refines [OF assms(1,2)] by blast
  have "\<not> causes op (Cleared now)" if "\<forall>au ev ar n cl jo. op \<noteq> Clear_halt au ev ar n cl jo" for op now
    using that by (cases op) auto
  then have "\<forall>now. Cleared now \<notin> set evs" using evs(3) assms(5) by fastforce
  from pending_persists [OF evs(2) this assms(3,4)] evs(1) show ?thesis by blast
qed

text \<open>Claim C7: taking over a lease needs its expiry, moves to the next epoch and raises a HALT; and
  until the HALT is cleared against the account, whatever else happens, the old holder and every
  holder before it are refused and nobody can release the lease.\<close>

theorem takeover_fences_old_holder:
  assumes "wf_database db" "sane_clock clock" "acquire_lease L faults scope request clock db = (Inr st, db1)"
    "ac_lease (account_of db scope) = Some old" "journal_run L db1 ops db2"
    "\<forall>(s, operation) \<in> set ops. authority_scope_values s = authority_scope_values scope \<longrightarrow>
       (\<forall>au ev ar n cl jo. operation \<noteq> Clear_halt au ev ar n cl jo)"
  shows "(\<exists>now. trusted_now clock = Inr (to_iso_string now) \<and> al_expiry old \<le> now) \<and>
    lr_epoch st = al_epoch old + 1 \<and> lr_reconciliationRequired st \<and>
    ac_halted (account_of db1 scope) \<and> ac_revision (account_of db1 scope) = ac_revision (account_of db scope) + 1 \<and>
    (la_epoch authority \<le> al_epoch old \<longrightarrow> \<not> is_ok (assert_current_authority db2 scope authority later)) \<and>
    (\<exists>e. release_lease faults' scope anyone later later2 db2 = (Inl e, db2))"
proof -
  have run: "acquire_lease_within L scope request clock db = (Returned (Inr st), db1)"
    using assms(3) by (simp add: acquire_lease_run)
  obtain e where e: "trusted_now clock = Inr (to_iso_string e)" and adv:
    "advances scope (Taken_over (lq_ownerRunId request) e (e + lq_ttlMs request)) db db1"
    using acquire_advances [OF run assms(1,2)] assms(4) by auto
  then have wf1: "wf_database db1" and step: "al_expiry old \<le> e"
    "account_of db1 scope = (account_of db scope)\<lparr>ac_lease := Some \<lparr>al_owner = lq_ownerRunId request,
       al_epoch = al_epoch old + 1, al_expiry = e + lq_ttlMs request, al_pending = True\<rparr>,
       ac_halted := True, ac_revision := ac_revision (account_of db scope) + 1\<rparr>"
    using assms(4) by (auto simp: advances_def account_step_simps)
  have st: "lr_epoch st = al_epoch old + 1" "lr_reconciliationRequired st"
    using acquire_result [OF run assms(1,2)] step(2)
    by (auto simp: account_of_def lease_row.defs)
  obtain m where m: "wf_database db2" "ac_lease (account_of db2 scope) = Some m" "al_pending m" "al_epoch old + 1 \<le> al_epoch m"
    using journal_pending [OF assms(5) wf1 _ _ assms(6)] step(2) by auto
  note f = fenced [OF m(1-3), of "al_epoch old"]
  show ?thesis using e st step f m(4) by (auto simp: is_ok_iff)
qed

definition sample_scope_p :: persistence_scope where
  "sample_scope_p = \<lparr>ps_exchange = ''bybit'', ps_environment = ''demo'', ps_accountId = ''account-1'',
     ps_category = ''linear'', ps_positionMode = ''one-way''\<rparr>"

definition sample_request :: lease_request where
  "sample_request = \<lparr>lq_scope = sample_scope_p, lq_ownerRunId = ''run-2'', lq_now = ''2024-01-01T00:00:00.000Z'', lq_ttlMs = 60000\<rparr>"

definition sample_clock :: clock_reading where
  "sample_clock = Some (JStr ''2024-01-01T00:00:30.000Z'')"

definition sample_leased :: database where
  "sample_leased = empty_database\<lparr>db_leases := [authority_scope_values sample_scope_p \<mapsto>
     lease_js sample_scope_p ''run-1'' 1 ''2024-01-01T00:00:00.000Z'' ''2024-01-01T00:00:30.000Z'' False]\<rparr>"

lemma sample_clock_now: "trusted_now sample_clock = Inr ''2024-01-01T00:00:30.000Z''" "sane_clock sample_clock"
proof -
  show now: "trusted_now sample_clock = Inr ''2024-01-01T00:00:30.000Z''"
    using readable_parse [OF sample_instant_readable_later] by (simp add: trusted_now_def sample_clock_def)
  show "sane_clock sample_clock"
    unfolding sane_clock_def now using sample_instants(2)
    by (auto simp: MAX_LEASE_TTL_MS_def last_epoch_def intro!: exI [of _ 1704067230000])
qed

lemma sample_request_ok: "persistence_scopes_equal (lq_scope sample_request) sample_scope_p" "safe_identifier (lq_ownerRunId sample_request)"
  "is_ok (parse_utc_timestamp (JStr (lq_now sample_request) :: row))" "1 \<le> lq_ttlMs sample_request"
  "lq_ttlMs sample_request \<le> MAX_LEASE_TTL_MS"
proof -
  show "safe_identifier (lq_ownerRunId sample_request)" by code_simp
  show "is_ok (parse_utc_timestamp (JStr (lq_now sample_request) :: row))"
    by (simp add: sample_request_def is_ok_iff readable_parse sample_instant_readable)
qed (simp_all add: sample_request_def persistence_scopes_equal_def MAX_LEASE_TTL_MS_def)

lemma sample_leased_facts: "wf_database sample_leased"
  "account_of sample_leased sample_scope_p = \<lparr>ac_lease = Some \<lparr>al_owner = ''run-1'', al_epoch = 1,
     al_expiry = 1704067230000, al_pending = False\<rparr>, ac_halted = False, ac_revision = 0\<rparr>"
  "lease_row_of sample_leased sample_scope_p = Inr (Some \<lparr>lr_ownerRunId = ''run-1'', lr_epoch = 1,
     lr_acquiredAt = ''2024-01-01T00:00:00.000Z'', lr_expiresAt = ''2024-01-01T00:00:30.000Z'', lr_reconciliationRequired = False\<rparr>)"
proof -
  have id: "safe_identifier ''run-1''" by code_simp
  have eq: "sample_leased = empty_database\<lparr>db_leases := (db_leases empty_database)(authority_scope_values sample_scope_p \<mapsto>
     lease_js sample_scope_p ''run-1'' 1 ''2024-01-01T00:00:00.000Z'' ''2024-01-01T00:00:30.000Z'' False)\<rparr>"
    by (simp add: sample_leased_def empty_database_def)
  note w = lease_written [OF empty_database_wf refl eq id _ _ sample_instant_readable sample_instant_readable_later]
  show "wf_database sample_leased" using w(1) by (simp add: is_safe_integer_def)
  show "account_of sample_leased sample_scope_p = \<lparr>ac_lease = Some \<lparr>al_owner = ''run-1'', al_epoch = 1,
     al_expiry = 1704067230000, al_pending = False\<rparr>, ac_halted = False, ac_revision = 0\<rparr>"
    using w(2) instant_ms [OF sample_instants(2)]
    by (simp add: is_safe_integer_def account_of_def lease_row_of_def halt_row_def empty_database_def)
  show "lease_row_of sample_leased sample_scope_p = Inr (Some \<lparr>lr_ownerRunId = ''run-1'', lr_epoch = 1,
     lr_acquiredAt = ''2024-01-01T00:00:00.000Z'', lr_expiresAt = ''2024-01-01T00:00:30.000Z'', lr_reconciliationRequired = False\<rparr>)"
    using lease_row_of_js [of sample_leased sample_scope_p sample_scope_p "''run-1''" 1 "''2024-01-01T00:00:00.000Z''"
        "''2024-01-01T00:00:30.000Z''" False] id sample_instant_readable sample_instant_readable_later
    by (simp add: sample_leased_def is_safe_integer_def)
qed

lemma sample_takeover: "\<exists>st db'. acquire_lease ref_lib no_faults sample_scope_p sample_request sample_clock sample_leased = (Inr st, db')"
proof -
  have late: "is_at_or_after ''2024-01-01T00:00:30.000Z'' ''2024-01-01T00:00:30.000Z''"
    using instant_at_or_after [OF sample_instants(2) sample_instants(2)] by simp
  have none: "db_halt_events sample_leased = []" by (simp add: sample_leased_def empty_database_def)
  show ?thesis
    unfolding acquire_lease_run
    using acquire_total [OF sample_leased_facts(1) sample_clock_now sample_request_ok, of ref_lib]
      sample_leased_facts(2,3) late none by (auto simp: no_faults_def is_safe_integer_def)
qed

theorem takeover_fences_old_holder_witness:
  "\<exists>st db. acquire_lease ref_lib no_faults sample_scope_p sample_request sample_clock sample_leased = (Inr st, db) \<and>
     lr_epoch st = 2 \<and> ac_halted (account_of db sample_scope_p) \<and>
     \<not> is_ok (assert_current_authority db sample_scope_p \<lparr>la_ownerRunId = ''run-1'', la_epoch = 1\<rparr> sample_clock)"
proof -
  obtain st db where run: "acquire_lease ref_lib no_faults sample_scope_p sample_request sample_clock sample_leased = (Inr st, db)"
    using sample_takeover by blast
  from takeover_fences_old_holder [OF sample_leased_facts(1) sample_clock_now(2) run _ journal_run.idle,
      of _ "\<lparr>la_ownerRunId = ''run-1'', la_epoch = 1\<rparr>" sample_clock] run sample_leased_facts(2)
  show ?thesis by auto
qed

theorem journal_refines_account_witness:
  "\<exists>db. journal_run ref_lib empty_database [(sample_scope_p, Acquire sample_request sample_clock)] db \<and>
     wf_database db \<and> ac_lease (account_of db sample_scope_p) \<noteq> None"
proof -
  have empty: "db_halt_events empty_database = []" "lease_row_of empty_database sample_scope_p = Inr None"
    "account_of empty_database sample_scope_p = \<lparr>ac_lease = None, ac_halted = False, ac_revision = 0\<rparr>"
    by (simp_all add: account_of_def lease_row_of_def halt_row_def empty_database_def)
  obtain st db where within: "acquire_lease_within ref_lib sample_scope_p sample_request sample_clock empty_database = (Returned (Inr st), db)"
    using acquire_total [OF empty_database_wf sample_clock_now sample_request_ok, of ref_lib] empty
    by (auto simp: is_safe_integer_def)
  then have acq: "acquire_lease ref_lib no_faults sample_scope_p sample_request sample_clock empty_database = (Inr st, db)"
    by (simp add: acquire_lease_run no_faults_def)
  have run: "journal_run ref_lib empty_database [(sample_scope_p, Acquire sample_request sample_clock)] db"
    using acq sample_clock_now(2) empty(3)
    by (intro journal_run.perform [of _ no_faults _ _ _ "Ok ()" db] journal_run.idle) (simp_all add: forget_def map_result_def is_safe_integer_def)
  have "ac_lease (account_of db sample_scope_p) \<noteq> None"
    using acquire_result [OF within empty_database_wf sample_clock_now(2)] by (auto simp: account_of_def)
  then show ?thesis using run journal_refines_account [OF run, of sample_scope_p] by blast
qed

text \<open>A conflicting append to an empty journal.\<close>

definition sample_conflict :: store_operation where
  "sample_conflict = Append_conflict ''duplicate reconciliation'' ''2024-01-01T00:00:30.000Z''"

lemma sample_conflict_run:
  "\<exists>h db. raise_halt_within ref_lib sample_scope_p ''duplicate reconciliation'' ''2024-01-01T00:00:30.000Z'' None empty_database =
     (Returned (Inr h), db) \<and>
     perform ref_lib no_faults sample_scope_p sample_conflict empty_database = (Fail PERSISTENCE_CONFLICT, db) \<and>
     (\<exists>h'. halt_row db sample_scope_p = Inr h' \<and> hs_active h' \<and> hs_revision h' = 1)"
proof -
  have empty: "db_halt_events empty_database = []" "halt_row empty_database sample_scope_p =
      Inr \<lparr>hs_scope = sample_scope_p, hs_active = False, hs_revision = 0, hs_reason = None, hs_raisedAt = None,
        hs_reconciliationRequired = False\<rparr>"
    by (simp_all add: halt_row_def empty_database_def)
  have "safe_text ''duplicate reconciliation''" by code_simp
  then obtain h db where h: "raise_halt_within ref_lib sample_scope_p ''duplicate reconciliation'' ''2024-01-01T00:00:30.000Z''
      None empty_database = (Returned (Inr h), db)"
    using raise_halt_total [OF empty_database_wf empty(2) _ _ sample_instant_readable_later,
        of "''duplicate reconciliation''" ref_lib None] empty(1)
    by (auto simp: is_safe_integer_def)
  moreover have "perform ref_lib no_faults sample_scope_p sample_conflict empty_database = (Fail PERSISTENCE_CONFLICT, db)"
    using h by (simp add: sample_conflict_def append_conflict_after_halt_def run_in_transaction_def no_faults_def
        forget_def map_result_def)
  moreover obtain h' where "halt_row db sample_scope_p = Inr h'" "hs_active h'" "hs_revision h' = 1"
    using raise_effect(2) [OF h empty_database_wf] empty(2) by (auto simp: halt_logged_def)
  ultimately show ?thesis by blast
qed

text \<open>Claim C14: after any sequence of operations the HALT log of an account holds exactly its
  revisions, from 1 to the current one in order, and the account is halted exactly when the last entry
  says so; so no change of the HALT state is lost or recorded twice, and the operations of the account were at
  least as many.\<close>

theorem halt_log_complete:
  assumes "journal_run L empty_database ops db" "halt_row db scope = Inr h"
  shows "map (\<lambda>e. get e ''revision'') (account_events db scope) = map JInt [1..hs_revision h] \<and>
    (hs_active h \<longleftrightarrow> account_events db scope \<noteq> [] \<and> get (last (account_events db scope)) ''active'' = JInt 1)"
  using journal_refines [OF assms(1) empty_database_wf, of scope] assms(2) by (simp add: wf_database_def log_ok_def)

theorem halt_log_complete_witness:
  "\<exists>db. journal_run ref_lib empty_database [(sample_scope_p, sample_conflict)] db \<and>
     map (\<lambda>e. get e ''revision'') (account_events db sample_scope_p) = [JInt 1]"
proof -
  obtain h db where h: "perform ref_lib no_faults sample_scope_p sample_conflict empty_database = (Fail PERSISTENCE_CONFLICT, db)"
    "halt_row db sample_scope_p = Inr h" "hs_revision h = 1"
    using sample_conflict_run by blast
  have run: "journal_run ref_lib empty_database [(sample_scope_p, sample_conflict)] db"
    by (rule journal_run.perform [OF h(1) _ _ journal_run.idle])
      (simp_all add: sample_conflict_def account_of_def halt_row_def empty_database_def is_safe_integer_def)
  then show ?thesis using halt_log_complete [OF run h(2)] h(3) by auto
qed

lemma forget_fails: "forget out = (Inl e, db') \<longleftrightarrow> out = (Inl e, db')"
  by (cases out; cases "fst out") (auto simp: forget_def map_result_def)

text \<open>Claim C15: an operation that fails leaves the journal as it was, except the conflict of an append:
  that one fails with \<open>PERSISTENCE_CONFLICT\<close> and still commits the HALT it raised.\<close>

theorem failure_leaves_journal:
  assumes "perform L faults scope operation db = (Inl e, db')" "sane_operation operation" "wf_database db"
  shows "db' = db \<or> (\<exists>reason recordedAt. operation = Append_conflict reason recordedAt \<and>
    e = DomainError PERSISTENCE_CONFLICT None \<and> ac_halted (account_of db' scope) \<and>
    ac_revision (account_of db' scope) = ac_revision (account_of db scope) + 1)"
proof (cases operation)
  case (Append_conflict reason recordedAt)
  then have "run_in_transaction faults (append_conflict_after_halt L scope reason recordedAt :: database \<Rightarrow> unit sql_outcome \<times> database)
      PERSISTENCE_CONFLICT db = (Inl e, db')"
    using assms(1) by (simp add: forget_fails)
  then show ?thesis
  proof (cases rule: run_in_transaction_cases)
    case committed
    then obtain h where h: "raise_halt_within L scope reason recordedAt None db = (Returned (Inr h), db')"
      "e = DomainError PERSISTENCE_CONFLICT None"
      by (auto simp: append_conflict_after_halt_def sql_bind_Committed)
    have "advances scope Halt_raised db db'" using raise_advances [OF h(1) assms(3)] .
    then show ?thesis using Append_conflict h(2) by (auto simp: advances_def account_step_simps)
  qed auto
next
  case (Clear_halt authority evidence artifact expected clock journal)
  then show ?thesis
    using assms(1,2)
    by (auto simp: forget_fails clear_halt_def split: sum.splits prod.splits
        dest!: failed_transaction_unchanged [OF _ clear_commits])
qed (use assms(1) in \<open>auto simp: forget_fails acquire_lease_def renew_lease_def release_lease_def raise_halt_def
      split: sum.splits dest!: failed_transaction_unchanged\<close>)

theorem failure_leaves_journal_witness:
  "\<exists>db. perform ref_lib no_faults sample_scope_p sample_conflict empty_database = (Fail PERSISTENCE_CONFLICT, db) \<and>
     ac_halted (account_of db sample_scope_p)"
proof -
  obtain h db where h: "perform ref_lib no_faults sample_scope_p sample_conflict empty_database = (Fail PERSISTENCE_CONFLICT, db)"
    "halt_row db sample_scope_p = Inr h" "hs_active h"
    using sample_conflict_run by blast
  have "halt_row empty_database sample_scope_p \<noteq> Inr h"
    using h(3) by (auto simp: halt_row_def empty_database_def)
  then show ?thesis
    using failure_leaves_journal [OF h(1)] h(1,2) by (auto simp: sample_conflict_def)
qed

text \<open>A free or expired lease can be acquired by any run with a valid request, and
  the new holder's authority is then current until the lease expires.\<close>

theorem free_lease_can_be_acquired:
  assumes "wf_database db" "sane_clock clock" "trusted_now clock = Inr t"
    and "persistence_scopes_equal (lq_scope request) scope" "safe_identifier (lq_ownerRunId request)"
      "is_ok (parse_utc_timestamp (JStr (lq_now request) :: row))" "1 \<le> lq_ttlMs request" "lq_ttlMs request \<le> MAX_LEASE_TTL_MS"
    and "\<And>l. lease_row_of db scope = Inr (Some l) \<Longrightarrow> is_at_or_after t (lr_expiresAt l) \<and> is_safe_integer (lr_epoch l + 1)"
    and "is_safe_integer (ac_revision (account_of db scope) + 1)"
      "\<forall>e \<in> set (db_halt_events db). get e ''event_id'' \<noteq>
        JStr (halt_event_id L scope (ac_revision (account_of db scope) + 1) takeover_reason)"
  shows "\<exists>st db'. acquire_lease L no_faults scope request clock db = (Inr st, db') \<and>
    (\<forall>later s. trusted_now later = Inr s \<longrightarrow>
      is_ok (assert_current_authority db' scope \<lparr>la_ownerRunId = lq_ownerRunId request, la_epoch = lr_epoch st\<rparr> later) =
      (\<not> is_at_or_after s (lr_expiresAt st)))"
proof -
  obtain st db' where within: "acquire_lease_within L scope request clock db = (Returned (Inr st), db')"
    using acquire_total [OF assms(1,3,2) assms(4-8) assms(9,10,11)] by blast
  then have acq: "acquire_lease L no_faults scope request clock db = (Inr st, db')"
    by (simp add: acquire_lease_run no_faults_def)
  have wf: "wf_database db'" using acquire_advances [OF within assms(1,2)] by (auto simp: advances_def)
  note r = acquire_result [OF within assms(1,2)]
  obtain l where l: "lease_row_of db' scope = Inr (Some l)" "lr_ownerRunId st = lr_ownerRunId l" "lr_epoch st = lr_epoch l"
    "lr_expiresAt st = lr_expiresAt l" "lr_ownerRunId l = lq_ownerRunId request"
    using r by (intro that [of "lease_row.truncate st"]) (auto simp: lease_row.defs)
  have "is_safe_integer (lr_epoch l)" "1 \<le> lr_epoch l" "safe_identifier (lr_ownerRunId l)"
    by (rule wf_lease_read [OF wf, of scope], use l(1) in simp, use l(1) in simp)+
  then have "\<And>later s. trusted_now later = Inr s \<Longrightarrow>
      is_ok (assert_current_authority db' scope \<lparr>la_ownerRunId = lq_ownerRunId request, la_epoch = lr_epoch st\<rparr> later) =
      (\<not> is_at_or_after s (lr_expiresAt st))"
    using l by (auto simp: is_ok_iff assert_current_iff validate_authority_iff)
  then show ?thesis using acq by blast
qed

theorem free_lease_can_be_acquired_witness:
  "\<exists>st db'. acquire_lease ref_lib no_faults sample_scope_p sample_request sample_clock sample_leased = (Inr st, db')"
proof -
  have late: "is_at_or_after ''2024-01-01T00:00:30.000Z'' ''2024-01-01T00:00:30.000Z''"
    using instant_at_or_after [OF sample_instants(2) sample_instants(2)] by simp
  have none: "db_halt_events sample_leased = []" by (simp add: sample_leased_def empty_database_def)
  show ?thesis
    using free_lease_can_be_acquired [OF sample_leased_facts(1) sample_clock_now(2,1) sample_request_ok, of ref_lib]
      sample_leased_facts(2,3) late none by (fastforce simp: is_safe_integer_def)
qed

end
