(* ===== verification/Ownership.thy ===== *)
theory Ownership
  imports Ledger Journal
begin

text \<open>
  What the journal of \<open>adapters/sqlite/execution-store.ts\<close> keeps: its tables only grow, their keys stay
  unique, and every row rests on the rows before it. An owned intent is an intent of the
  committed plan, an attempt belongs to an owned intent and to the time of the approval, a
  binding to an attempt, and a \<open>RECONCILED\<close> result to an order the journal knows. Each operation
  is shown to keep this for whatever it does: succeed, fail, or commit a HALT with a failure.
\<close>

subsection \<open>Tables only grow\<close>

definition extends :: "store \<Rightarrow> store \<Rightarrow> bool" where
  "extends st s \<longleftrightarrow> (\<exists>as ls ps os ts bs rs.
     st_artifacts s = st_artifacts st @ as \<and> st_lineages s = st_lineages st @ ls \<and> st_approvals s = st_approvals st @ ps \<and>
     st_intents s = st_intents st @ os \<and> st_attempts s = st_attempts st @ ts \<and> st_bindings s = st_bindings st @ bs \<and>
     st_reconciliations s = st_reconciliations st @ rs)"

lemma extends_refl [simp]: "extends st st"
  by (simp add: extends_def)

lemma extends_trans: "extends a b \<Longrightarrow> extends b c \<Longrightarrow> extends a c"
  by (fastforce simp: extends_def)

lemma extends_updates [simp]:
  "extends st (st\<lparr>st_authority := db\<rparr>)" "extends st (st\<lparr>st_artifacts := st_artifacts st @ as\<rparr>)"
  "extends st (st\<lparr>st_lineages := st_lineages st @ ls\<rparr>)" "extends st (st\<lparr>st_approvals := st_approvals st @ ps\<rparr>)"
  "extends st (st\<lparr>st_intents := st_intents st @ os\<rparr>)" "extends st (st\<lparr>st_attempts := st_attempts st @ ts\<rparr>)"
  "extends st (st\<lparr>st_bindings := st_bindings st @ bs\<rparr>)" "extends st (st\<lparr>st_reconciliations := st_reconciliations st @ rs\<rparr>)"
  by (simp_all add: extends_def)

lemma extends_rows:
  assumes "extends st s"
  shows "set (st_lineages st) \<subseteq> set (st_lineages s)" "set (st_intents st) \<subseteq> set (st_intents s)"
    "set (st_attempts st) \<subseteq> set (st_attempts s)" "set (st_bindings st) \<subseteq> set (st_bindings s)"
    "set (st_reconciliations st) \<subseteq> set (st_reconciliations s)"
  using assms by (auto simp: extends_def)

lemma find_append: "find P (xs @ ys) = (case find P xs of Some x \<Rightarrow> Some x | None \<Rightarrow> find P ys)"
  by (induction xs) auto

lemma find_Some: "find P xs = Some x \<Longrightarrow> x \<in> set xs \<and> P x"
  by (auto simp: find_Some_iff)

lemma lineage_row_grows: "extends st s \<Longrightarrow> lineage_row st scope lin = Some l \<Longrightarrow> lineage_row s scope lin = Some l"
  by (auto simp: extends_def lineage_row_def find_append)

lemma plan_row_grows: "extends st s \<Longrightarrow> plan_row st scope lin = Some a \<Longrightarrow> plan_row s scope lin = Some a"
  using lineage_row_grows [of st s scope lin]
  by (auto simp: plan_row_def extends_def find_append split: option.splits)

lemma approval_row_grows: "extends st s \<Longrightarrow> approval_row st scope lin = Some a \<Longrightarrow> approval_row s scope lin = Some a"
  using lineage_row_grows [of st s scope lin]
  by (auto simp: approval_row_def extends_def find_append split: option.splits)

lemma read_plan_grows:
  "extends st s \<Longrightarrow> read_plan L foreign st scope lin = Inr (Some p) \<Longrightarrow> read_plan L foreign s scope lin = Inr (Some p)"
  using plan_row_grows [of st s scope lin] by (auto simp: read_plan_def split: option.splits)

lemma read_approval_grows:
  "extends st s \<Longrightarrow> read_approval L foreign st scope lin = Inr (Some p) \<Longrightarrow> read_approval L foreign s scope lin = Inr (Some p)"
  using approval_row_grows [of st s scope lin] by (auto simp: read_approval_def split: option.splits)


subsection \<open>What the rows stand for\<close>

text \<open>No two rows of a table agree on a unique key.\<close>

definition keyed :: "string list list \<Rightarrow> row list \<Rightarrow> bool" where
  "keyed uniques rows \<longleftrightarrow> sorted_wrt (\<lambda>a b. \<forall>key \<in> set uniques. \<not> same_key key b a) rows"

definition intent_keys :: "string list list" where
  "intent_keys = [[''intent_record_id''], [''lineage_id'', ''intent_id''], scope_keys @ [''client_order_id'']]"

definition attempt_keys :: "string list list" where
  "attempt_keys = [[''attempt_id''], [''lineage_id'', ''attempt_number'']]"

definition binding_keys :: "string list list" where
  "binding_keys = [[''binding_id''], [''lineage_id'', ''attempt_id''], scope_keys @ [''client_order_id''],
     scope_keys @ [''exchange_order_id'']]"

definition reconciliation_keys :: "string list list" where
  "reconciliation_keys = [[''reconciliation_id''], [''lineage_id'', ''revision'']]"

definition agree :: "string list \<Rightarrow> row \<Rightarrow> row \<Rightarrow> bool" where
  "agree columns a b \<longleftrightarrow> (\<forall>column \<in> set columns. get a column = get b column)"

text \<open>An owned intent is an intent of the plan of its lineage, which an approval of that very plan covers.\<close>

definition intent_justified :: "'d lib \<Rightarrow> 'd validators \<Rightarrow> store \<Rightarrow> row \<Rightarrow> bool" where
  "intent_justified L foreign st r \<longleftrightarrow> (\<exists>scope lin name plan a.
     in_scope scope r \<and> get r ''lineage_id'' = JStr lin \<and> get r ''intent_id'' = JStr name \<and>
     read_plan L foreign st scope lin = Ok (Some plan) \<and> get r ''plan_hash'' = JStr (ep_materialHash plan) \<and>
     has_intent plan name \<and> read_approval L foreign st scope lin = Ok (Some a) \<and> apr_planHash a = ep_materialHash plan)"

text \<open>An attempt belongs to an owned intent, and its dispatch to the time of the lineage's approval.\<close>

definition attempt_justified :: "'d lib \<Rightarrow> 'd validators \<Rightarrow> store \<Rightarrow> row \<Rightarrow> bool" where
  "attempt_justified L foreign st r \<longleftrightarrow> (\<exists>i \<in> set (st_intents st). \<exists>scope lin a t.
     agree [''lineage_id'', ''intent_id'', ''plan_hash'', ''client_order_id'', ''intent_record_id''] r i \<and>
     in_scope scope i \<and> get i ''lineage_id'' = JStr lin \<and>
     read_approval L foreign st scope lin = Ok (Some a) \<and> get r ''submitted_at'' = JStr t \<and> dispatch_authorized a t)"

text \<open>A binding belongs to an attempt, whose own exchange order it does not contradict.\<close>

definition binding_justified :: "store \<Rightarrow> row \<Rightarrow> bool" where
  "binding_justified st r \<longleftrightarrow> (\<exists>t \<in> set (st_attempts st).
     agree [''lineage_id'', ''attempt_id'', ''intent_id'', ''plan_hash'', ''client_order_id''] r t \<and>
     (\<forall>x. get t ''exchange_order_id'' = JStr x \<longrightarrow> get r ''exchange_order_id'' = JStr x))"

text \<open>A result belongs to an attempt, and \<open>RECONCILED\<close> names the order the journal knows for it.\<close>

definition reconciliation_justified :: "store \<Rightarrow> row \<Rightarrow> bool" where
  "reconciliation_justified st r \<longleftrightarrow> (\<exists>t \<in> set (st_attempts st).
     agree [''lineage_id'', ''attempt_id'', ''intent_id'', ''plan_hash'', ''client_order_id''] r t \<and>
     (get r ''status'' = JStr ''RECONCILED'' \<longrightarrow> (\<exists>x. get r ''exchange_order_id'' = JStr x \<and>
        (get t ''exchange_order_id'' = JStr x \<or>
         (\<exists>b \<in> set (st_bindings st). agree [''lineage_id'', ''attempt_id''] r b \<and> get b ''exchange_order_id'' = JStr x)))))"

definition wf_store :: "'d lib \<Rightarrow> 'd validators \<Rightarrow> store \<Rightarrow> bool" where
  "wf_store L foreign st \<longleftrightarrow>
     keyed intent_keys (st_intents st) \<and> keyed attempt_keys (st_attempts st) \<and> keyed binding_keys (st_bindings st) \<and>
     keyed reconciliation_keys (st_reconciliations st) \<and>
     (\<forall>r \<in> set (st_intents st). intent_justified L foreign st r) \<and>
     (\<forall>r \<in> set (st_attempts st). attempt_justified L foreign st r) \<and>
     (\<forall>r \<in> set (st_bindings st). binding_justified st r) \<and>
     (\<forall>r \<in> set (st_reconciliations st). reconciliation_justified st r)"

lemma justified_grows:
  assumes "extends st s"
  shows "intent_justified L foreign st r \<Longrightarrow> intent_justified L foreign s r"
    and "attempt_justified L foreign st r \<Longrightarrow> attempt_justified L foreign s r"
    and "binding_justified st r \<Longrightarrow> binding_justified s r"
    and "reconciliation_justified st r \<Longrightarrow> reconciliation_justified s r"
proof -
  note grows = read_plan_grows [OF assms] read_approval_grows [OF assms]
  note rows = extends_rows [OF assms]
  show "intent_justified L foreign st r \<Longrightarrow> intent_justified L foreign s r"
    unfolding intent_justified_def using grows by blast
  show "attempt_justified L foreign st r \<Longrightarrow> attempt_justified L foreign s r"
    unfolding attempt_justified_def using grows rows(2) by (meson subsetD)
  show "binding_justified st r \<Longrightarrow> binding_justified s r"
    unfolding binding_justified_def using rows(3) by blast
  show "reconciliation_justified st r \<Longrightarrow> reconciliation_justified s r"
    unfolding reconciliation_justified_def using rows(3,4) by (meson subsetD)
qed

text \<open>The state after a step extends the state before, and stays well-formed.\<close>

definition safe_after :: "'d lib \<Rightarrow> 'd validators \<Rightarrow> store \<Rightarrow> store \<Rightarrow> bool" where
  "safe_after L foreign st s \<longleftrightarrow> extends st s \<and> (wf_store L foreign st \<longrightarrow> wf_store L foreign s)"

lemma safe_refl [simp]: "safe_after L foreign st st"
  by (simp add: safe_after_def)

lemma safe_trans: "safe_after L foreign a b \<Longrightarrow> safe_after L foreign b c \<Longrightarrow> safe_after L foreign a c"
  by (auto simp: safe_after_def intro: extends_trans)

lemma safe_same_rows:
  assumes "extends st s" "st_intents s = st_intents st" "st_attempts s = st_attempts st" "st_bindings s = st_bindings st"
    "st_reconciliations s = st_reconciliations st"
  shows "safe_after L foreign st s"
  using assms justified_grows(1,2) [OF assms(1), of L foreign] justified_grows(3,4) [OF assms(1)]
  by (auto simp: safe_after_def wf_store_def)

lemma safe_then:
  assumes "safe_after L foreign st s" "extends s s'" "st_intents s' = st_intents s" "st_attempts s' = st_attempts s"
    "st_bindings s' = st_bindings s" "st_reconciliations s' = st_reconciliations s"
  shows "safe_after L foreign st s'"
  using safe_trans [OF assms(1) safe_same_rows [OF assms(2-6)]] .

lemma keyed_append: "keyed uniques (rows @ [r]) \<longleftrightarrow> keyed uniques rows \<and> (\<forall>key \<in> set uniques. \<forall>a \<in> set rows. \<not> same_key key r a)"
  by (auto simp: keyed_def sorted_wrt_append)

lemma safe_intent:
  assumes "intent_justified L foreign st r" "\<forall>key \<in> set intent_keys. \<forall>a \<in> set (st_intents st). \<not> same_key key r a"
  shows "safe_after L foreign st (st\<lparr>st_intents := st_intents st @ [r]\<rparr>)"
  using assms justified_grows(1,2) [of st "st\<lparr>st_intents := st_intents st @ [r]\<rparr>" L foreign] justified_grows(3,4) [of st "st\<lparr>st_intents := st_intents st @ [r]\<rparr>"]
  by (auto simp: safe_after_def wf_store_def keyed_append)

lemma safe_attempt:
  assumes "attempt_justified L foreign st r" "\<forall>key \<in> set attempt_keys. \<forall>a \<in> set (st_attempts st). \<not> same_key key r a"
  shows "safe_after L foreign st (st\<lparr>st_attempts := st_attempts st @ [r]\<rparr>)"
  using assms justified_grows(1,2) [of st "st\<lparr>st_attempts := st_attempts st @ [r]\<rparr>" L foreign] justified_grows(3,4) [of st "st\<lparr>st_attempts := st_attempts st @ [r]\<rparr>"]
  by (auto simp: safe_after_def wf_store_def keyed_append)

lemma safe_binding:
  assumes "binding_justified st r" "\<forall>key \<in> set binding_keys. \<forall>a \<in> set (st_bindings st). \<not> same_key key r a"
  shows "safe_after L foreign st (st\<lparr>st_bindings := st_bindings st @ [r]\<rparr>)"
  using assms justified_grows(1,2) [of st "st\<lparr>st_bindings := st_bindings st @ [r]\<rparr>" L foreign] justified_grows(3,4) [of st "st\<lparr>st_bindings := st_bindings st @ [r]\<rparr>"]
  by (auto simp: safe_after_def wf_store_def keyed_append)

lemma safe_reconciliation:
  assumes "reconciliation_justified st r" "\<forall>key \<in> set reconciliation_keys. \<forall>a \<in> set (st_reconciliations st). \<not> same_key key r a"
  shows "safe_after L foreign st (st\<lparr>st_reconciliations := st_reconciliations st @ [r]\<rparr>)"
  using assms justified_grows(1,2) [of st "st\<lparr>st_reconciliations := st_reconciliations st @ [r]\<rparr>" L foreign] justified_grows(3,4) [of st "st\<lparr>st_reconciliations := st_reconciliations st @ [r]\<rparr>"]
  by (auto simp: safe_after_def wf_store_def keyed_append)


subsection \<open>Steps of a transaction\<close>

lemma state_bind:
  assumes "Q (snd step)" "\<And>x s. step = (Returned (Inr x), s) \<or> step = (Committed (Inr x), s) \<Longrightarrow> Q s \<Longrightarrow> Q (snd (rest x s))"
  shows "Q (snd (sql_bind step rest))"
  using assms by (cases step; cases "fst step") (auto simp: sql_bind_def split: sum.splits)

lemma state_pure:
  assumes "Q st" "\<And>x. r = Inr x \<Longrightarrow> Q (snd (rest x st))"
  shows "Q (snd (sql_bind (sql_pure r st) rest))"
  using assms by (cases r) simp_all

lemma state_transaction:
  assumes "Q st" "Q (snd (operation st))"
  shows "Q (snd (run_in_transaction faults operation code st))"
  using assms by (auto simp: run_in_transaction_def split: option.splits sql_outcome.splits prod.splits)

lemma authority_state: "snd (on_authority f st) = st\<lparr>st_authority := snd (f (st_authority st))\<rparr>"
  by (simp add: on_authority_def split: prod.splits)

lemma safe_authority [simp]: "safe_after L foreign st (snd (on_authority f st))"
  by (simp add: authority_state safe_same_rows)

lemma insert_row_state:
  "snd (insert_row uniques references new rows put st) =
     (if fst (insert_row uniques references new rows put st) = Returned (Inr ()) then put (rows @ [new]) else st)"
  by (simp add: insert_row_def)

lemma insert_row_Ok:
  "insert_row uniques references new rows put st = (Returned (Inr x), s) \<longleftrightarrow>
     s = put (rows @ [new]) \<and> (\<forall>key \<in> set uniques. \<forall>other \<in> set rows. \<not> same_key key new other) \<and>
     \<not> (\<exists>(column, table, key) \<in> set references. \<forall>other \<in> set table. get other key \<noteq> get new column)"
  by (auto simp: insert_row_def)

lemma insert_artifact_safe [simp]: "safe_after L foreign st (snd (insert_artifact scope name e h t st))"
  by (auto simp: insert_artifact_def insert_row_state split: option.splits intro: safe_same_rows)


subsection \<open>Every operation keeps the journal well-formed\<close>

lemma prepare_lineage_safe: "safe_after L foreign st (snd (prepare_lineage L' foreign' faults scope request st))"
proof -
  let ?Q = "safe_after L foreign st"
  have insert: "?Q s \<Longrightarrow> ?Q (snd (insert_lineage r s))" "?Q s \<Longrightarrow> ?Q (snd (insert_approval r s))" for r s
    by (auto simp: insert_lineage_def insert_approval_def insert_row_state intro: safe_then)
  have artifact: "?Q s \<Longrightarrow> ?Q (snd (insert_artifact scope name e h t s))" for name e h t s
    by (rule safe_trans [OF _ insert_artifact_safe])
  have within: "?Q (snd (prepare_lineage_within scope plan p st))" for plan :: "'b execution_plan" and p
    unfolding prepare_lineage_within_def
    by (cases "lineage_row st scope (pl_lineageId p)") (auto intro!: state_bind [where Q = ?Q] state_pure [where Q = ?Q] insert artifact)
  show ?thesis
    unfolding prepare_lineage_def
    by (auto intro!: state_transaction [where Q = ?Q] within split: sum.splits)
qed

lemma in_scope_columns: "in_scope scope (JObj kvs) \<longleftrightarrow>
    map_of kvs ''exchange'' = Some (JStr (ps_exchange scope)) \<and> map_of kvs ''environment'' = Some (JStr (ps_environment scope)) \<and>
    map_of kvs ''account_id'' = Some (JStr (ps_accountId scope)) \<and> map_of kvs ''category'' = Some (JStr (ps_category scope)) \<and>
    map_of kvs ''position_mode'' = Some (JStr (ps_positionMode scope))"
  by (auto simp: in_scope_def split: option.splits)

lemma intent_js_columns:
  "in_scope scope (intent_js scope r)" "get (intent_js scope r) ''lineage_id'' = JStr (ow_lineageId r)"
  "get (intent_js scope r) ''intent_id'' = JStr (ow_intentId r)" "get (intent_js scope r) ''plan_hash'' = JStr (ow_planHash r)"
  "get (intent_js scope r) ''client_order_id'' = JStr (ow_clientOrderId r)"
  "get (intent_js scope r) ''intent_record_id'' = JStr (ow_intentRecordId r)"
  "get (intent_js scope r) ''prepared_at'' = JStr (ow_preparedAt r)"
  by (simp_all add: intent_js_def scope_columns_def in_scope_columns)

lemma check_new_intent_Ok:
  "check_new_intent L foreign st scope request current clock = Inr u \<longleftrightarrow>
     (\<exists>h plan a t. halt_row (st_authority st) scope = Ok h \<and> \<not> hs_active h \<and> \<not> lr_reconciliationRequired current \<and>
        read_plan L foreign st scope (inq_lineageId request) = Ok (Some plan) \<and> ep_materialHash plan = inq_planHash request \<and>
        has_intent plan (inq_intentId request) \<and> trusted_now clock = Ok t \<and>
        read_approval L foreign st scope (inq_lineageId request) = Ok (Some a) \<and>
        is_ok (validate_approval a (ep_materialHash plan) t))"
  by (auto simp: check_new_intent_def rbind_Ok_iff need_Ok_iff is_ok_iff)

lemma validated_hash: "is_ok (validate_approval a h t) \<Longrightarrow> apr_planHash a = h"
  by (auto simp: validate_approval_def is_ok_iff rbind_Ok_iff approval_to_js_def create_approval_def need_Ok_iff
      require_hash_Ok simp del: parser_simps split: if_splits)

lemma prepare_intent_safe: "safe_after L foreign st (snd (prepare_owned_intent L foreign faults scope request clock clock2 st))"
proof -
  let ?Q = "safe_after L foreign st"
  have new: "?Q (snd (insert_intent (intent_js scope \<lparr>ow_intentRecordId = name, ow_lineageId = inq_lineageId request,
      ow_intentId = inq_intentId request, ow_planHash = inq_planHash request,
      ow_clientOrderId = inq_clientOrderId request, ow_preparedAt = inq_preparedAt request\<rparr>) st))" (is "?Q (snd (insert_intent ?new st))")
    if "check_new_intent L foreign st scope request current clock2 = Inr u" for request current u name
  proof -
    have "intent_justified L foreign st ?new"
      using that validated_hash by (auto simp: intent_justified_def check_new_intent_Ok intent_js_columns) (metis intent_js_columns(1))
    then show ?thesis
      by (auto simp: insert_intent_def insert_row_state insert_row_def intent_keys_def split: if_splits intro!: safe_intent)
  qed
  have within: "?Q (snd (prepare_owned_intent_within L foreign scope request clock clock2 st))" for request
    unfolding prepare_owned_intent_within_def
    by (auto simp: Let_def intro!: state_pure [where Q = ?Q] state_bind [where Q = ?Q] new split: option.splits)
  show ?thesis
    unfolding prepare_owned_intent_def
    by (auto intro!: state_transaction [where Q = ?Q] within split: sum.splits)
qed


lemma stored_string_Ok: "stored_string row field = Inr x \<longleftrightarrow> get row field = JStr x"
  by (auto simp: stored_string_def persistence_failure_def split: jsval.splits)

lemma stored_identifier_Ok: "stored_identifier row field = Inr x \<longleftrightarrow> get row field = JStr x \<and> safe_identifier x"
  by (auto simp: stored_identifier_def rbind_Ok_iff need_Ok_iff stored_string_Ok require_identifier_Ok simp del: parser_simps)

lemma stored_hash_Ok: "stored_hash row field = Inr x \<longleftrightarrow> get row field = JStr x \<and> hash_text x"
  by (auto simp: stored_hash_def rbind_Ok_iff need_Ok_iff stored_string_Ok require_hash_Ok simp del: parser_simps)

lemma stored_optional_Ok: "stored_optional_string row field = Inr x \<longleftrightarrow>
    (case x of None \<Rightarrow> get row field \<in> {JNull, JUndef} | Some s \<Rightarrow> get row field = JStr s)"
  by (auto simp: stored_optional_string_def persistence_failure_def split: jsval.splits option.splits)

lemmas stored_Ok = stored_string_Ok stored_identifier_Ok stored_hash_Ok stored_optional_Ok

lemma append_attempt_safe: "safe_after L foreign st (snd (append_attempt L foreign faults scope request clock st))"
proof -
  let ?Q = "safe_after L foreign st"
  let ?a = "atq_attempt request" and ?lin = "atq_lineageId request"
  have new: "?Q (snd (insert_attempt (attempt_columns ?lin (get i ''intent_record_id'') n ?a t e) s))"
    if owning: "owning_intent st scope ?lin ?a = Some i" and committed: "committed_authority L foreign st scope ?lin ?a = Inr u"
      and safe: "?Q s" for i u n t e s
  proof -
    have "i \<in> set (st_intents st) \<and> in_scope scope i \<and> get i ''lineage_id'' = JStr ?lin \<and> get i ''intent_id'' = JStr (at_intentId ?a) \<and>
        get i ''plan_hash'' = JStr (at_planHash ?a) \<and> get i ''client_order_id'' = JStr (at_clientOrderId ?a)"
      using find_Some [OF owning [unfolded owning_intent_def]] by blast
    moreover obtain a where "read_approval L foreign st scope ?lin = Inr (Some a)" "dispatch_authorized a (at_submittedAt ?a)"
      using committed by (auto simp: committed_authority_def rbind_Ok_iff need_Ok_iff)
    ultimately have "attempt_justified L foreign st (attempt_columns ?lin (get i ''intent_record_id'') n ?a t e)"
      unfolding attempt_justified_def agree_def
      by (rule_tac bexI [of _ i], rule_tac exI [of _ scope], rule_tac exI [of _ ?lin], rule_tac exI [of _ a],
          rule_tac exI [of _ "at_submittedAt ?a"]) (simp_all add: attempt_columns_def)
    then have "attempt_justified L foreign s (attempt_columns ?lin (get i ''intent_record_id'') n ?a t e)"
      using justified_grows(2) safe by (auto simp: safe_after_def)
    then show ?thesis
      by (auto simp: insert_attempt_def insert_row_state insert_row_def attempt_keys_def safe split: if_splits
        intro!: safe_trans [OF safe safe_attempt])
  qed
  have within: "?Q (snd (append_attempt_within L foreign scope request t e clock st))" for t e
    unfolding append_attempt_within_def
    by (auto simp: Let_def need_Ok_iff intro!: state_pure [where Q = ?Q] state_bind [where Q = ?Q] new split: option.splits prod.splits)
  show ?thesis
    unfolding append_attempt_def
    by (auto intro!: state_transaction [where Q = ?Q] within split: sum.splits prod.splits)
qed

lemma binding_created:
  assumes "create_identity_binding L (binding_input L a t c) = Inr b"
  shows "ib_lineageId b = ai_lineageId a" "ib_attemptId b = ai_attemptId a" "ib_intentId b = ai_intentId a"
    "ib_planHash b = ai_planHash a" "bc_clientOrderId (ib_candidate b) = bc_clientOrderId c"
    "bc_exchangeOrderId (ib_candidate b) = bc_exchangeOrderId c"
  using assms
  by (auto simp: create_identity_binding_def create_identity_binding_candidate_def binding_input_def candidate_js_def
      need_Ok_iff require_identifier_Ok require_hash_Ok simp del: parser_simps split: if_splits)

lemma attempt_identity_Ok:
  assumes "attempt_identity_from_row row = Inr a"
  shows "get row ''lineage_id'' = JStr (ai_lineageId a)" "get row ''attempt_id'' = JStr (ai_attemptId a)"
    "get row ''intent_id'' = JStr (ai_intentId a)" "get row ''plan_hash'' = JStr (ai_planHash a)"
    "get row ''client_order_id'' = JStr (ai_clientOrderId a)"
    "get row ''exchange_order_id'' = JStr x \<Longrightarrow> ai_exchangeOrderId a = Some x"
proof -
  obtain q t where "stored_identifier row ''lineage_id'' = Inr (ai_lineageId a)" "stored_identifier row ''attempt_id'' = Inr (ai_attemptId a)"
    "stored_hash row ''plan_hash'' = Inr (ai_planHash a)" "stored_identifier row ''intent_id'' = Inr (ai_intentId a)"
    "stored_identifier row ''client_order_id'' = Inr (ai_clientOrderId a)"
    "stored_optional_string row ''exchange_order_id'' = Inr (ai_exchangeOrderId a)"
    using assms by (auto simp: attempt_identity_from_row_def need_Ok_iff)
  then show "get row ''lineage_id'' = JStr (ai_lineageId a)" "get row ''attempt_id'' = JStr (ai_attemptId a)"
    "get row ''intent_id'' = JStr (ai_intentId a)" "get row ''plan_hash'' = JStr (ai_planHash a)"
    "get row ''client_order_id'' = JStr (ai_clientOrderId a)"
    "get row ''exchange_order_id'' = JStr x \<Longrightarrow> ai_exchangeOrderId a = Some x"
    by (simp_all add: stored_Ok split: option.splits)
qed

lemma append_binding_safe: "safe_after L foreign st (snd (append_identity_binding L foreign faults scope request clock st))"
proof -
  let ?Q = "safe_after L foreign st"
  have new: "?Q (snd (insert_binding (binding_columns L scope b) st))"
    if bound: "bound_attempt L foreign st scope request = Inr (a, intent)" and matches: "candidate_matches L st scope a intent c"
      and created: "create_identity_binding L (binding_input L a t c) = Inr b" for request a intent c t b
  proof -
    obtain row where row: "row \<in> set (st_attempts st)" "attempt_identity_from_row row = Inr a"
      using bound by (auto simp: bound_attempt_def scoped_attempt_def need_Ok_iff rbind_Ok_iff dest!: find_Some)
    have "bc_clientOrderId c = ai_clientOrderId a"
      "ai_exchangeOrderId a = None \<or> ai_exchangeOrderId a = Some (bc_exchangeOrderId c)"
      using matches by (simp_all add: candidate_matches_def Let_def)
    then have "binding_justified st (binding_columns L scope b)"
      unfolding binding_justified_def agree_def using row(1) binding_created [OF created] attempt_identity_Ok [OF row(2)]
      by (intro bexI [of _ row]) (auto simp: binding_columns_def)
    then show ?thesis
      by (auto simp: insert_binding_def insert_row_state insert_row_def binding_keys_def split: if_splits intro!: safe_binding)
  qed
  have bind: "?Q (snd (bind_candidate L scope a intent c t st))"
    if "bound_attempt L foreign st scope request = Inr (a, intent)" for request a intent c t
    unfolding bind_candidate_def
    by (auto simp: need_Ok_iff intro!: state_pure [where Q = ?Q] state_bind [where Q = ?Q] new [OF that])
  have again: "?Q (snd (rebind L scope row cs t st))" for row cs t
    unfolding rebind_def
    by (auto intro!: state_pure [where Q = ?Q] split: list.splits)
  have within: "?Q (snd (append_identity_binding_within L foreign scope request cs clock st))" for request cs
    unfolding append_identity_binding_within_def
    by (auto intro!: state_pure [where Q = ?Q] again bind split: option.splits list.splits prod.splits)
  show ?thesis
    unfolding append_identity_binding_def
    by (auto intro!: state_transaction [where Q = ?Q] within split: sum.splits prod.splits)
qed


lemma attempt_owner_Ok:
  assumes "attempt_owner_from_row row = Inr a"
  shows "get row ''attempt_id'' = JStr (aw_attemptId a)" "get row ''lineage_id'' = JStr (aw_lineageId a)"
    "get row ''plan_hash'' = JStr (aw_planHash a)" "get row ''intent_id'' = JStr (aw_intentId a)"
    "get row ''client_order_id'' = JStr (aw_clientOrderId a)"
    "aw_exchangeOrderId a = Some x \<Longrightarrow> get row ''exchange_order_id'' = JStr x"
proof -
  obtain q where q: "stored_identifier row ''attempt_id'' = Inr (aw_attemptId a)" "stored_identifier row ''lineage_id'' = Inr (aw_lineageId a)"
    "stored_hash row ''plan_hash'' = Inr (aw_planHash a)" "stored_identifier row ''intent_id'' = Inr (aw_intentId a)"
    "stored_identifier row ''client_order_id'' = Inr (aw_clientOrderId a)" "stored_optional_string row ''exchange_order_id'' = Inr q"
    "(case q of None \<Rightarrow> Ok None | Some x \<Rightarrow> map_result (require_identifier (JStr x :: row) ''exchangeOrderId'') Some) =
       Inr (aw_exchangeOrderId a)"
    using assms by (auto simp: attempt_owner_from_row_def need_Ok_iff)
  from q(1-5) show "get row ''attempt_id'' = JStr (aw_attemptId a)" "get row ''lineage_id'' = JStr (aw_lineageId a)"
    "get row ''plan_hash'' = JStr (aw_planHash a)" "get row ''intent_id'' = JStr (aw_intentId a)"
    "get row ''client_order_id'' = JStr (aw_clientOrderId a)"
    by (simp_all add: stored_Ok)
  show "get row ''exchange_order_id'' = JStr x" if "aw_exchangeOrderId a = Some x"
    using q(6,7) that
    by (auto simp: stored_Ok map_result_def require_identifier_Ok simp del: parser_simps split: option.splits sum.splits)
qed

lemma binding_from_row_order:
  assumes "identity_binding_from_row L row = Inr b"
  shows "get row ''exchange_order_id'' = JStr (bc_exchangeOrderId (ib_candidate b))"
proof -
  obtain ids t where ids: "traverse (stored_identifier row) [''binding_id'', ''lineage_id'', ''attempt_id'', ''intent_id'', ''client_order_id'',
      ''instrument'', ''exchange_order_id'', ''exchange'', ''category''] = Inr ids"
    using assms by (auto simp: identity_binding_from_row_def need_Ok_iff)
  then obtain x where x: "get row ''exchange_order_id'' = JStr x"
    by (auto simp: rbind_Ok_iff stored_Ok)
  moreover have "bc_exchangeOrderId (ib_candidate b) = x"
    using assms x
    by (auto simp: identity_binding_from_row_def need_Ok_iff create_identity_binding_def create_identity_binding_candidate_def
        text_column_def require_identifier_Ok simp del: parser_simps traverse.simps split: if_splits)
  ultimately show ?thesis by simp
qed

text \<open>A result without contradiction agrees with its attempt, and \<open>RECONCILED\<close> with the known order.\<close>

lemma verdict_None:
  assumes "reconciliation_verdict L st scope lin owner r = Inr None"
  shows "aw_attemptId owner = rr_attemptId r" "aw_lineageId owner = lin" "aw_planHash owner = rr_planHash r"
    "aw_intentId owner = rr_intentId r" "aw_clientOrderId owner = rr_clientOrderId r"
    "rr_status r = RecReconciled \<Longrightarrow> \<exists>x. rr_exchangeOrderId r = Some x \<and>
       (aw_exchangeOrderId owner = Some x \<or>
        (\<exists>b \<in> set (st_bindings st). get b ''lineage_id'' = JStr lin \<and> get b ''attempt_id'' = JStr (rr_attemptId r) \<and>
           get b ''exchange_order_id'' = JStr x))"
proof -
  show same: "aw_attemptId owner = rr_attemptId r" "aw_lineageId owner = lin" "aw_planHash owner = rr_planHash r"
    "aw_intentId owner = rr_intentId r" "aw_clientOrderId owner = rr_clientOrderId r"
    using assms by (auto simp: reconciliation_verdict_def split: if_splits)
  show "\<exists>x. rr_exchangeOrderId r = Some x \<and> (aw_exchangeOrderId owner = Some x \<or>
        (\<exists>b \<in> set (st_bindings st). get b ''lineage_id'' = JStr lin \<and> get b ''attempt_id'' = JStr (rr_attemptId r) \<and>
           get b ''exchange_order_id'' = JStr x))" if reconciled: "rr_status r = RecReconciled"
  proof -
    obtain known where known: "effective_exchange_order L st scope owner r = Inr (Inr known)"
      "\<not> (rr_exchangeOrderId r \<noteq> None \<and> rr_exchangeOrderId r \<noteq> known)" "\<not> (rr_exchangeOrderId r = None \<or> known = None)"
    proof (cases "effective_exchange_order L st scope owner r")
      case (Inr effective)
      then show ?thesis using assms reconciled same that
        by (cases effective) (simp_all add: reconciliation_verdict_def split: if_split_asm)
    qed (use assms same in \<open>simp add: reconciliation_verdict_def\<close>)
    then obtain x where x: "effective_exchange_order L st scope owner r = Inr (Inr (Some x))" "rr_exchangeOrderId r = Some x"
      by auto
    show ?thesis
    proof (cases "identity_binding_row st scope lin (rr_attemptId r)")
      case None
      then show ?thesis using x same by (simp add: effective_exchange_order_def)
    next
      case (Some row)
      then have row: "row \<in> set (st_bindings st)" "get row ''lineage_id'' = JStr lin" "get row ''attempt_id'' = JStr (rr_attemptId r)"
        by (auto simp: identity_binding_row_def dest!: find_Some)
      show ?thesis
      proof (cases "aw_exchangeOrderId owner")
        case None
        then have "get row ''exchange_order_id'' = JStr x"
          using x(1) Some same(2) binding_from_row_order
          by (fastforce simp: effective_exchange_order_def rbind_Ok_iff split: if_splits)
        then show ?thesis using row x(2) by blast
      next
        case (Some y)
        then show ?thesis using x \<open>identity_binding_row st scope lin (rr_attemptId r) = Some row\<close> same(2)
          by (auto simp: effective_exchange_order_def rbind_Ok_iff split: if_splits)
      qed
    qed
  qed
qed

lemma status_text_reconciled: "reconciliation_status_text s = ''RECONCILED'' \<longleftrightarrow> s = RecReconciled"
  by (cases s) (simp_all add: reconciliation_status_text_def)

lemma append_reconciliation_safe: "safe_after L foreign st (snd (append_reconciliation L foreign faults scope request clock st))"
proof -
  let ?Q = "safe_after L foreign st"
  let ?r = "rq_result request" and ?lin = "rq_lineageId request"
  have row: "reconciliation_justified st (reconciliation_columns L ?lin ?r t e n)"
    if attempt: "scoped_attempt st scope (\<lambda>row. get row ''attempt_id'' = JStr (rr_attemptId ?r)) = Some row"
      and owner: "attempt_owner_from_row row = Inr owner"
      and verdict: "reconciliation_verdict L st scope ?lin owner ?r = Inr None" for row owner t e n
  proof -
    have "row \<in> set (st_attempts st)" using attempt by (auto simp: scoped_attempt_def dest!: find_Some)
    then show ?thesis
      using attempt_owner_Ok [OF owner] verdict_None [OF verdict]
      by (intro reconciliation_justified_def [THEN iffD2] bexI [of _ row] conjI impI)
        (auto simp: agree_def reconciliation_columns_def status_text_reconciled optional_column_def)
  qed
  have recorded: "?Q (snd (record_reconciliation L scope ?lin ?r t e st))"
    if justified: "\<And>n. reconciliation_justified st (reconciliation_columns L ?lin ?r t e n)" for t e
  proof -
    have insert: "?Q (snd (insert_reconciliation (reconciliation_columns L ?lin ?r t e n) s))" if "?Q s" for n s
    proof -
      have "reconciliation_justified s (reconciliation_columns L ?lin ?r t e n)"
        using justified_grows(4) justified that by (auto simp: safe_after_def)
      then show ?thesis
        by (auto simp: insert_reconciliation_def insert_row_state insert_row_def reconciliation_keys_def that split: if_splits
          intro!: safe_trans [OF that safe_reconciliation])
    qed
    have halt: "?Q (snd (on_authority f s))" if "?Q s" for s and f :: "database \<Rightarrow> halt_state sql_outcome \<times> database"
      by (rule safe_trans [OF that safe_authority])
    show ?thesis
      unfolding record_reconciliation_def
      by (auto simp: Let_def intro!: state_bind [where Q = ?Q] insert halt)
  qed
  have within: "?Q (snd (append_reconciliation_within L foreign scope request t e clock st))" for t e
    unfolding append_reconciliation_within_def
    by (auto simp: Let_def need_Ok_iff rbind_Ok_iff intro!: state_pure [where Q = ?Q] recorded row split: option.splits)
  show ?thesis
    unfolding append_reconciliation_def
    by (auto intro!: state_transaction [where Q = ?Q] within split: sum.splits prod.splits)
qed

end
