(* ===== verification/JournalExample.thy ===== *)
theory JournalExample
  imports Ledger
begin

text \<open>
  A run of the journal on concrete values, which the witnesses of its properties use: a plan is
  prepared with its approval, its one intent owned under a lease, the attempt recorded, and its
  result reconciled. The artifacts are the ones \<open>encodeCanonicalArtifact\<close> makes, and the plan
  and the approval are read back from them. Every library function is the reference one,
  except that the digest is constant: a digest of these texts would be slow to evaluate.
\<close>

subsection \<open>The plan\<close>

definition zero_lib :: "sdec lib" where
  "zero_lib = ref_lib\<lparr>sha256_hex := \<lambda>_. replicate 64 CHR ''0''\<rparr>"
definition zero_hash :: string where "zero_hash = ''sha256:'' @ replicate 64 CHR ''0''"
definition run_candidate :: "sdec plan_candidate" where
  "run_candidate = \<lparr>pc_strategy = \<lparr>st_strategyId = ''daily'', st_version = ''v1'', st_maxOrderNotional = SDec 100 0,
       st_requiresProtection = False\<rparr>,
     pc_marketSnapshot = sample_market\<lparr>mk_constraints := sample_constraints\<lparr>ic_minNotional := None, ic_minPrice := None, ic_maxPrice := None\<rparr>\<rparr>,
     pc_accountSnapshot = sample_account\<lparr>ac_positions := []\<rparr>, pc_evidence = [], pc_desiredCurrentDiff = JObj [],
     pc_orderIntents = [order_intent_to_js (sample_intent\<lparr>oi_protection := None\<rparr>)], pc_requiredCapabilities = [],
     pc_executionScope = sample_scope\<rparr>"
definition run_decision :: risk_decision where
  "run_decision = \<lparr>rk_decisionId = ''risk-1'', rk_inputHash = zero_hash, rk_intentIds = [''leg-1''], rk_status = RiskPass,
     rk_reasonCodes = [], rk_asOf = ''2024-01-01T00:00:00.000Z'', rk_evidence = [], rk_requiredCapabilities = [], rk_produced = True\<rparr>"
definition run_plan :: "sdec execution_plan" where
  "run_plan = \<lparr>ep_planId = ''plan-'' @ replicate 16 CHR ''0'', ep_identityVersion = ''plan/v1'', ep_materialHash = zero_hash,
     ep_material = \<lparr>pm_candidate = run_candidate, pm_riskDecision = run_decision\<rparr>, ep_presentation = None, ep_produced = True\<rparr>"

definition run_value :: "sdec jsval" where
  "run_value = JObj
  [(''identityVersion'', JStr ''plan/v1''),
   (''material'',
    JObj
     [(''accountSnapshot'',
       JObj
        [(''accountScope'', JStr ''main''),
         (''asOf'', JStr ''2024-01-01T00:00:00.000Z''),
         (''availableBalance'', JDec (SDec 1000 0)),
         (''evidence'',
          JArr
           [JObj
             [(''asOf'', JStr ''2024-01-01T00:00:00.000Z''),
              (''contentHash'',
               JStr
                ''sha256:aaaaaaaaaaaaaaaaaaaaaaaaaaaaaaaaaaaaaaaaaaaaaaaaaaaaaaaaaaaaaaaa''),
              (''kind'', JStr ''account-snapshot''),
              (''producer'', JStr ''probe''),
              (''schemaVersion'', JStr ''v1''),
              (''sourceId'', JStr ''source-1''),
              (''validForMs'', JInt 60000)]]),
         (''ownedOrders'', JArr []), (''positions'', JArr []),
         (''scope'',
          JObj
           [(''category'', JStr ''linear''),
            (''environment'', JStr ''mainnet''),
            (''exchange'', JStr ''bybit''),
            (''positionMode'', JStr ''one-way'')]),
         (''snapshotId'', JStr ''a-1'')]),
      (''desiredCurrentDiff'', JObj []), (''evidence'', JArr []),
      (''executionScope'',
       JObj
        [(''category'', JStr ''linear''),
         (''environment'', JStr ''mainnet''),
         (''exchange'', JStr ''bybit''),
         (''positionMode'', JStr ''one-way'')]),
      (''marketSnapshot'',
       JObj
        [(''asOf'', JStr ''2024-01-01T00:00:00.000Z''),
         (''ask'', JDec (SDec 400005 1)), (''bid'', JDec (SDec 40000 0)),
         (''constraints'',
          JObj
           [(''instrument'', JStr ''BTCUSDT''),
            (''minQuantity'', JDec (SDec 1 3)),
            (''priceTickSize'', JDec (SDec 5 1)),
            (''quantityStep'', JDec (SDec 1 3)),
            (''version'', JStr ''instrument-constraints/v1'')]),
         (''evidence'',
          JArr
           [JObj
             [(''asOf'', JStr ''2024-01-01T00:00:00.000Z''),
              (''contentHash'',
               JStr
                ''sha256:aaaaaaaaaaaaaaaaaaaaaaaaaaaaaaaaaaaaaaaaaaaaaaaaaaaaaaaaaaaaaaaa''),
              (''kind'', JStr ''market-snapshot''),
              (''producer'', JStr ''probe''),
              (''schemaVersion'', JStr ''v1''),
              (''sourceId'', JStr ''source-1''),
              (''validForMs'', JInt 60000)]]),
         (''instrument'', JStr ''BTCUSDT''),
         (''last'', JDec (SDec 40000 0)),
         (''scope'',
          JObj
           [(''category'', JStr ''linear''),
            (''environment'', JStr ''mainnet''),
            (''exchange'', JStr ''bybit''),
            (''positionMode'', JStr ''one-way'')]),
         (''snapshotId'', JStr ''m-1'')]),
      (''orderIntents'',
       JArr
        [JObj
          [(''instrument'', JStr ''BTCUSDT''),
           (''intentId'', JStr ''leg-1''),
           (''normalization'',
            JObj
             [(''constraintVersion'', JStr ''instrument-constraints/v1''),
              (''price'', JStr ''floor''), (''quantity'', JStr ''floor'')]),
           (''notional'', JDec (SDec 399995 4)),
           (''orderType'', JStr ''limit''),
           (''positionEffect'', JStr ''open''),
           (''price'', JDec (SDec 399995 1)),
           (''quantity'', JDec (SDec 1 3)), (''side'', JStr ''buy'')]]),
      (''requiredCapabilities'', JArr []),
      (''riskDecision'',
       JObj
        [(''asOf'', JStr ''2024-01-01T00:00:00.000Z''),
         (''decisionId'', JStr ''risk-1''), (''evidence'', JArr []),
         (''inputHash'',
          JStr
           ''sha256:0000000000000000000000000000000000000000000000000000000000000000''),
         (''intentIds'', JArr [JStr ''leg-1'']), (''reasonCodes'', JArr []),
         (''requiredCapabilities'', JArr []), (''status'', JStr ''pass'')]),
      (''strategy'',
       JObj
        [(''cadence'', JStr ''daily''),
         (''maxOrderNotional'', JDec (SDec 100 0)),
         (''requiresProtection'', JBool False),
         (''strategyId'', JStr ''daily''), (''version'', JStr ''v1'')])]),
   (''materialHash'',
    JStr
     ''sha256:0000000000000000000000000000000000000000000000000000000000000000''),
   (''planId'', JStr ''plan-0000000000000000'')]"

lemma zero_host: "host zero_lib sval"
proof -
  have "list_all is_hex (replicate n CHR ''0'')" for n by (induction n) (simp_all add: is_hex_def is_digit_def)
  then show ?thesis
    using ref_host by (simp add: host_def host_axioms_def big_decimal_def zero_lib_def)
qed

lemma zero_digest [simp]: "sha256_hex zero_lib s = replicate 64 CHR ''0''" "hash_canonical_text zero_lib s = zero_hash"
  by (simp_all add: zero_lib_def zero_hash_def hash_canonical_text_def)

lemma zero_hash_canonical: "serializable v \<Longrightarrow> hash_canonical zero_lib v = Ok zero_hash"
  by (simp add: hash_canonical_def canonical_serialize_refines zero_lib_def zero_hash_def)

lemma run_decoded: "decode_value zero_lib (json_of (abstract_value zero_lib (execution_plan_js run_plan))) = Ok run_value"
  by code_simp

lemma run_candidate_hash: "hash_plan_candidate zero_lib run_candidate = Ok zero_hash"
  unfolding hash_plan_candidate_def by (rule zero_hash_canonical) code_simp

lemma run_material_hash:
  "hash_canonical zero_lib (material_projection ''plan/v1'' (ep_material run_plan)) = Ok zero_hash"
  by (rule zero_hash_canonical) code_simp

lemma run_strategy: "create_strategy_config zero_lib (to_constructor_input zero_lib (get (get run_value ''material'') ''strategy'')) = Ok (pc_strategy run_candidate)"
  by code_simp
lemma run_market: "create_market_snapshot zero_lib (to_constructor_input zero_lib (get (get run_value ''material'') ''marketSnapshot'')) = Ok (pc_marketSnapshot run_candidate)"
  by code_simp
lemma run_account: "create_account_snapshot zero_lib (to_constructor_input zero_lib (get (get run_value ''material'') ''accountSnapshot'')) = Ok (pc_accountSnapshot run_candidate)"
  by code_simp
lemma run_intents: "rbind (traverse (create_order_intent zero_lib) (elements (get (get run_value ''material'') ''orderIntents''))) (\<lambda>is. Ok (map order_intent_to_js is)) = Ok (pc_orderIntents run_candidate)"
  by code_simp
lemma run_risk: "rehydrate_risk_decision (get (get run_value ''material'') ''riskDecision'') = Ok run_decision"
  by code_simp

lemma run_created:
  "create_execution_plan zero_lib (JStr ''plan/v1'') (ep_material run_plan) JUndef = Ok run_plan"
proof -
  have "traverse (\<lambda>i. require_identifier (get i ''intentId'') ''intentId'') (pc_orderIntents run_candidate) = Ok [''leg-1'']"
    "list_all is_record (pc_orderIntents run_candidate)" "is_record (pc_desiredCurrentDiff run_candidate)"
    "require_safe_text (JStr ''plan/v1'' :: sdec jsval) ''identityVersion'' = Ok ''plan/v1''"
    "take 16 (drop 7 zero_hash) = replicate 16 CHR ''0''"
    by code_simp+
  then show ?thesis
    using run_candidate_hash run_material_hash
    by (simp add: create_execution_plan_def run_plan_def run_decision_def is_produced_risk_decision_def mark_execution_plan_def)
qed

lemma run_rehydrated: "rehydrate_execution_plan zero_lib run_value = Ok run_plan"
proof -
  let ?m = "get run_value ''material''"
  obtain "is" where intents: "traverse (create_order_intent zero_lib) (elements (get ?m ''orderIntents'')) = Ok is"
    "map order_intent_to_js is = pc_orderIntents run_candidate"
    using run_intents by (auto simp: rbind_Ok_iff)
  have parts: "is_record run_value" "get run_value ''identityVersion'' = JStr ''plan/v1''" "get run_value ''planId'' = JStr (ep_planId run_plan)"
    "get run_value ''materialHash'' = JStr (ep_materialHash run_plan)" "to_constructor_input zero_lib (get run_value ''presentation'') = JUndef"
    "is_record ?m" "get ?m ''evidence'' = JArr []" "is_array (get ?m ''orderIntents'')" "get ?m ''requiredCapabilities'' = JArr []"
    "get ?m ''desiredCurrentDiff'' = JObj []" "parse_capability_scope (get ?m ''executionScope'') = Ok sample_scope"
    by code_simp+
  have "\<lparr>pm_candidate = \<lparr>pc_strategy = pc_strategy run_candidate, pc_marketSnapshot = pc_marketSnapshot run_candidate,
      pc_accountSnapshot = pc_accountSnapshot run_candidate, pc_evidence = [], pc_desiredCurrentDiff = JObj [],
      pc_orderIntents = pc_orderIntents run_candidate, pc_requiredCapabilities = [], pc_executionScope = sample_scope\<rparr>,
     pm_riskDecision = run_decision\<rparr> = ep_material run_plan"
    by (simp add: run_plan_def run_candidate_def)
  then show ?thesis
    using parts run_strategy run_market run_account intents run_risk run_created
    by (simp add: rehydrate_execution_plan_def)
qed

subsection \<open>The artifacts\<close>

definition no_foreign :: "sdec validators" where
  "no_foreign = (\<lambda>_ _. Fail INVALID_VALUE)"

definition run_approval :: approval where
  "run_approval = \<lparr>apr_approvalId = ''approval-1'', apr_planHash = zero_hash, apr_actor = ''operator'',
     apr_approvedAt = ''2024-01-01T00:00:00.000Z'', apr_expiresAt = ''2024-01-01T01:00:00.000Z'', apr_note = None\<rparr>"

definition run_attempt :: execution_attempt where
  "run_attempt = \<lparr>at_attemptId = ''attempt-1'', at_planHash = zero_hash, at_intentId = ''leg-1'', at_clientOrderId = ''client-1'',
     at_submittedAt = ''2024-01-01T00:10:00.000Z'', at_acknowledgement = AckAccepted, at_terminalStatus = TermOpen,
     at_exchangeOrderId = Some ''order-1'', at_produced = True\<rparr>"

definition run_result :: "reconciliation_status \<Rightarrow> reconciliation_result" where
  "run_result status = \<lparr>rr_attemptId = ''attempt-1'', rr_intentId = ''leg-1'', rr_planHash = zero_hash, rr_clientOrderId = ''client-1'',
     rr_status = status, rr_observedAt = ''2024-01-01T00:11:00.000Z'', rr_exchangeOrderId = Some ''order-1'', rr_produced = True\<rparr>"

definition run_envelope :: "string \<Rightarrow> sdec jsval \<Rightarrow> artifact_envelope" where
  "run_envelope kind v = \<lparr>en_artifactKind = kind, en_schemaVersion = ''artifact/v1'',
     en_canonicalJson = render (abstract_value zero_lib v), en_canonicalHash = zero_hash\<rparr>"

lemma run_encoded:
  assumes "map_of artifact_schemas kind = Some s" "structural s" "validate_shape no_foreign s v = Ok ()" "serializable v"
  shows "encode_canonical_artifact zero_lib no_foreign kind v = Ok (run_envelope kind v)"
  using assms(3,4) unfolding encode_Ok_iff [OF assms(1,2)] by (simp add: run_envelope_def)

lemma run_decodes:
  assumes "map_of artifact_schemas kind = Some s" "structural s" "validate_shape no_foreign s v = Ok ()" "serializable v"
    "proto_free v" "decode_value zero_lib (json_of (abstract_value zero_lib v)) = Ok w"
  shows "decode_canonical_artifact zero_lib no_foreign (envelope_js (run_envelope kind v)) (Some kind) = Ok w"
proof -
  obtain w' where "decode_value zero_lib (json_of (abstract_value zero_lib v)) = Ok w'"
    "abstract_value zero_lib w' = abstract_value zero_lib v" "serializable w'"
    using big_decimal.decode_json_of [OF host.axioms(1) [OF zero_host] abstract_decodable [OF assms(4,5)]] by blast
  then show ?thesis
    using host.decode_encoded_value [OF zero_host assms(1,2) run_encoded [OF assms(1-4)]] assms(6) by simp
qed

definition plan_schema :: schema where
  "plan_schema = the (map_of artifact_schemas ''execution-plan'')"

lemma run_schemas:
  "map_of artifact_schemas ''execution-plan'' = Some plan_schema" "map_of artifact_schemas ''approval'' = Some approval_schema"
  "map_of artifact_schemas ''execution-attempt'' = Some attempt_schema"
  "map_of artifact_schemas ''reconciliation-result'' = Some reconciliation_schema"
  "structural plan_schema" "structural approval_schema" "structural attempt_schema" "structural reconciliation_schema"
  by code_simp+

lemma run_plan_shape:
  "validate_shape no_foreign plan_schema (execution_plan_js run_plan) = Ok ()" "serializable (execution_plan_js run_plan)"
  "proto_free (execution_plan_js run_plan)"
  by code_simp+

lemma run_approval_shape:
  "validate_shape no_foreign approval_schema (approval_js run_approval) = Ok ()" "serializable (approval_js run_approval :: sdec jsval)"
  "proto_free (approval_js run_approval :: sdec jsval)"
  by code_simp+

lemma run_attempt_shape:
  "validate_shape no_foreign attempt_schema (attempt_js run_attempt) = Ok ()" "serializable (attempt_js run_attempt :: sdec jsval)"
  by code_simp+

lemma run_result_shape:
  "validate_shape no_foreign reconciliation_schema (reconciliation_to_js (run_result s)) = Ok ()"
  "serializable (reconciliation_to_js (run_result s) :: sdec jsval)"
  by (cases s; code_simp)+

subsection \<open>Preparing the lineage\<close>

definition run_scope :: persistence_scope where
  "run_scope = \<lparr>ps_exchange = ''bybit'', ps_environment = ''mainnet'', ps_accountId = ''main'', ps_category = ''linear'',
     ps_positionMode = ''one-way''\<rparr>"

definition run_request :: "sdec lineage_request" where
  "run_request = \<lparr>lnq_scope = run_scope, lnq_runId = ''run-1'', lnq_plan = run_plan, lnq_approval = approval_js run_approval,
     lnq_preparedAt = ''2024-01-01T00:05:00.000Z''\<rparr>"

definition run_lineage_id :: string where
  "run_lineage_id = ''lineage-'' @ replicate 40 CHR ''0''"

definition run_database :: database where
  "run_database = empty_database\<lparr>db_leases := [authority_scope_values run_scope \<mapsto>
     lease_js run_scope ''run-1'' 1 ''2024-01-01T00:05:00.000Z'' ''2024-01-01T00:35:00.000Z'' False]\<rparr>"

definition run_artifacts :: "row list" where
  "run_artifacts = [artifact_row run_scope (ep_planId run_plan) (run_envelope ''execution-plan'' (execution_plan_js run_plan))
     (Some zero_hash) ''2024-01-01T00:05:00.000Z'',
   artifact_row run_scope ''approval-1'' (run_envelope ''approval'' (approval_js run_approval)) (Some zero_hash)
     ''2024-01-01T00:05:00.000Z'']"

definition prepared_store :: store where
  "prepared_store = empty_store\<lparr>st_artifacts := run_artifacts,
     st_lineages := [lineage_js run_scope run_lineage_id ''run-1'' (ep_planId run_plan) zero_hash ''2024-01-01T00:05:00.000Z''],
     st_approvals := [approval_columns run_lineage_id run_approval]\<rparr>"

lemma run_validated:
  "validate_lineage_request zero_lib no_foreign run_scope run_request = Ok
     \<lparr>pl_lineageId = run_lineage_id, pl_runId = ''run-1'', pl_preparedAt = ''2024-01-01T00:05:00.000Z'', pl_approval = run_approval,
      pl_planArtifact = run_envelope ''execution-plan'' (execution_plan_js run_plan),
      pl_approvalArtifact = run_envelope ''approval'' (approval_js run_approval)\<rparr>"
proof -
  have checks: "persistence_scopes_equal run_scope run_scope" "is_produced_execution_plan run_plan" "scope_from_plan run_plan = Ok run_scope"
    "require_identifier (JStr ''run-1'' :: row) ''runId'' = Ok ''run-1''"
    "parse_utc_timestamp (JStr ''2024-01-01T00:05:00.000Z'' :: row) = Ok ''2024-01-01T00:05:00.000Z''"
    "create_approval (approval_js run_approval :: row) = Ok run_approval"
    "validate_approval run_approval zero_hash ''2024-01-01T00:05:00.000Z'' = Ok run_approval" "ep_materialHash run_plan = zero_hash"
    "''lineage-'' @ take 40 (replicate 64 CHR ''0'') = run_lineage_id"
    by code_simp+
  show ?thesis
    using run_encoded [OF run_schemas(1,5) run_plan_shape(1,2)] run_encoded [OF run_schemas(2,6) run_approval_shape(1,2)] checks
    by (simp add: validate_lineage_request_def run_request_def deterministic_id_def)
qed

lemma run_lineage_prepared:
  "prepare_lineage zero_lib no_foreign no_faults run_scope run_request empty_store =
     (Ok \<lparr>ln_lineageId = run_lineage_id, ln_runId = ''run-1'', ln_planId = ep_planId run_plan, ln_planHash = zero_hash,
        ln_scope = run_scope, ln_createdAt = ''2024-01-01T00:05:00.000Z''\<rparr>, prepared_store)"
proof -
  have ids: "ep_planId run_plan \<noteq> ''approval-1''" "ep_materialHash run_plan = zero_hash" "lnq_plan run_request = run_plan"
    by code_simp+
  show ?thesis
    using ids
    by (simp add: prepare_lineage_def run_validated run_in_transaction_no_faults prepare_lineage_within_def lineage_row_def
        empty_store_def insert_artifact_def insert_row_def artifact_row_def insert_lineage_def insert_approval_def same_key_def
        lineage_js_def scope_columns_def prepared_store_def run_artifacts_def approval_columns_def run_approval_def)
qed

lemma run_rows:
  "plan_row prepared_store run_scope run_lineage_id = Some (artifact_row run_scope (ep_planId run_plan)
     (run_envelope ''execution-plan'' (execution_plan_js run_plan)) (Some zero_hash) ''2024-01-01T00:05:00.000Z'')"
  "approval_row prepared_store run_scope run_lineage_id = Some (artifact_row run_scope ''approval-1''
     (run_envelope ''approval'' (approval_js run_approval)) (Some zero_hash) ''2024-01-01T00:05:00.000Z'')"
proof -
  have ids: "ep_planId run_plan \<noteq> ''approval-1''" by code_simp
  show "plan_row prepared_store run_scope run_lineage_id = Some (artifact_row run_scope (ep_planId run_plan)
     (run_envelope ''execution-plan'' (execution_plan_js run_plan)) (Some zero_hash) ''2024-01-01T00:05:00.000Z'')"
  "approval_row prepared_store run_scope run_lineage_id = Some (artifact_row run_scope ''approval-1''
     (run_envelope ''approval'' (approval_js run_approval)) (Some zero_hash) ''2024-01-01T00:05:00.000Z'')"
    using ids
    by (simp_all add: plan_row_def approval_row_def lineage_row_def prepared_store_def lineage_js_def scope_columns_def in_scope_def
      artifact_row_def run_artifacts_def approval_columns_def run_approval_def)
qed

lemma run_envelope_read:
  "envelope_from_row (artifact_row scope name (run_envelope kind v) h t) kind = Ok (run_envelope kind v)"
proof -
  have "hash_text zero_hash" by code_simp
  then show ?thesis
    by (simp add: envelope_from_row_def artifact_row_def run_envelope_def stored_string_def stored_hash_def scope_columns_def)
qed

lemma run_plan_read: "read_plan zero_lib no_foreign prepared_store run_scope run_lineage_id = Ok (Some run_plan)"
  using run_decodes [OF run_schemas(1,5) run_plan_shape run_decoded] run_rehydrated
  by (simp add: read_plan_def run_rows(1) run_envelope_read rehydrate_artifact_def)

lemma run_approval_read: "read_approval zero_lib no_foreign prepared_store run_scope run_lineage_id = Ok (Some run_approval)"
proof -
  define decoded where "decoded = decode_value zero_lib (json_of (abstract_value zero_lib (approval_js run_approval)))"
  have "rbind decoded (\<lambda>w. create_approval (to_constructor_input zero_lib w)) = Ok run_approval"
    unfolding decoded_def by code_simp
  then obtain w where "decode_value zero_lib (json_of (abstract_value zero_lib (approval_js run_approval))) = Ok w"
    "create_approval (to_constructor_input zero_lib w) = Ok run_approval"
    by (auto simp: decoded_def rbind_Ok_iff)
  then show ?thesis
    using run_decodes [OF run_schemas(2,6) run_approval_shape]
    by (simp add: read_approval_def approval_from_row_def run_rows(2) run_envelope_read rehydrate_artifact_def map_result_def)
qed

subsection \<open>Owning the intent\<close>

definition run_authority :: lease_authority where
  "run_authority = \<lparr>la_ownerRunId = ''run-1'', la_epoch = 1\<rparr>"

definition run_clock :: clock_reading where
  "run_clock = Some (JStr ''2024-01-01T00:06:00.000Z'')"

definition run_intent :: intent_request where
  "run_intent = \<lparr>inq_authority = run_authority, inq_lineageId = run_lineage_id, inq_intentId = ''leg-1'', inq_planHash = zero_hash,
     inq_clientOrderId = ''client-1'', inq_now = ''2024-01-01T00:06:00.000Z'', inq_preparedAt = ''2024-01-01T00:06:00.000Z''\<rparr>"

definition run_owned :: owned_intent_record where
  "run_owned = \<lparr>ow_intentRecordId = ''intent-'' @ replicate 40 CHR ''0'', ow_lineageId = run_lineage_id, ow_intentId = ''leg-1'',
     ow_planHash = zero_hash, ow_clientOrderId = ''client-1'', ow_preparedAt = ''2024-01-01T00:06:00.000Z''\<rparr>"

definition leased_store :: store where
  "leased_store = prepared_store\<lparr>st_authority := run_database\<rparr>"

definition owned_store :: store where
  "owned_store = leased_store\<lparr>st_intents := [intent_js run_scope run_owned]\<rparr>"

lemma run_reads:
  "read_plan zero_lib no_foreign (prepared_store\<lparr>st_authority := db, st_intents := is\<rparr>) run_scope run_lineage_id = Ok (Some run_plan)"
  "read_approval zero_lib no_foreign (prepared_store\<lparr>st_authority := db, st_intents := is\<rparr>) run_scope run_lineage_id =
     Ok (Some run_approval)"
  using run_plan_read run_approval_read
  by (simp_all add: read_plan_def plan_row_def read_approval_def approval_row_def lineage_row_def cong: option.case_cong)

lemma leased_authority: "st_authority leased_store = run_database"
  by (simp add: leased_store_def)

lemma run_checks:
  "assert_current_authority run_database run_scope run_authority run_clock =
     Ok \<lparr>lr_ownerRunId = ''run-1'', lr_epoch = 1, lr_acquiredAt = ''2024-01-01T00:05:00.000Z'',
       lr_expiresAt = ''2024-01-01T00:35:00.000Z'', lr_reconciliationRequired = False\<rparr>"
  "halt_row run_database run_scope = Ok \<lparr>hs_scope = run_scope, hs_active = False, hs_revision = 0, hs_reason = None,
     hs_raisedAt = None, hs_reconciliationRequired = False\<rparr>"
  "validate_intent_request run_intent = Ok run_intent"
  "trusted_now run_clock = Ok ''2024-01-01T00:06:00.000Z''"
  "validate_approval run_approval zero_hash ''2024-01-01T00:06:00.000Z'' = Ok run_approval" "ep_materialHash run_plan = zero_hash"
  "has_intent run_plan ''leg-1''"
  by code_simp+

lemma run_lineage_row:
  "lineage_row (prepared_store\<lparr>st_authority := db, st_intents := is\<rparr>) run_scope run_lineage_id =
     Some (lineage_js run_scope run_lineage_id ''run-1'' (ep_planId run_plan) zero_hash ''2024-01-01T00:05:00.000Z'')"
  by (simp add: lineage_row_def prepared_store_def lineage_js_def scope_columns_def in_scope_def)

lemma run_intent_fields:
  "inq_authority run_intent = run_authority" "inq_lineageId run_intent = run_lineage_id" "inq_intentId run_intent = ''leg-1''"
  "inq_planHash run_intent = zero_hash" "inq_clientOrderId run_intent = ''client-1''" "inq_now run_intent = ''2024-01-01T00:06:00.000Z''"
  "inq_preparedAt run_intent = ''2024-01-01T00:06:00.000Z''" "la_ownerRunId run_authority = ''run-1''"
  by (simp_all add: run_intent_def run_authority_def)

lemma run_intent_owned:
  "prepare_owned_intent zero_lib no_foreign no_faults run_scope run_intent run_clock run_clock leased_store = (Ok run_owned, owned_store)"
proof -
  have owner: "stored_identifier (lineage_js run_scope run_lineage_id ''run-1'' (ep_planId run_plan) zero_hash
      ''2024-01-01T00:05:00.000Z'') ''run_id'' = Ok ''run-1''"
    by code_simp
  have checked: "check_new_intent zero_lib no_foreign leased_store run_scope run_intent \<lparr>lr_ownerRunId = ''run-1'', lr_epoch = 1,
      lr_acquiredAt = ''2024-01-01T00:05:00.000Z'', lr_expiresAt = ''2024-01-01T00:35:00.000Z'', lr_reconciliationRequired = False\<rparr>
      run_clock = Ok ()"
    using run_reads [of "[]" run_database] run_checks leased_authority
    by (simp add: check_new_intent_def leased_store_def prepared_store_def empty_store_def run_intent_fields)
  have store: "leased_store = prepared_store\<lparr>st_authority := run_database, st_intents := []\<rparr>" "st_intents leased_store = []"
    by (simp_all add: leased_store_def prepared_store_def empty_store_def)
  have new: "\<lparr>ow_intentRecordId = deterministic_id zero_lib ''intent'' (run_lineage_id @ CHR '':'' # ''leg-1''), ow_lineageId = run_lineage_id,
      ow_intentId = ''leg-1'', ow_planHash = zero_hash, ow_clientOrderId = ''client-1'', ow_preparedAt = ''2024-01-01T00:06:00.000Z''\<rparr> = run_owned"
    by (simp add: deterministic_id_def run_owned_def)
  have reference: "\<exists>other \<in> set (st_lineages leased_store). get other ''lineage_id'' = get (intent_js run_scope run_owned) ''lineage_id''"
    by (simp add: store(1) prepared_store_def lineage_js_def scope_columns_def intent_js_def run_owned_def)
  have "prepare_owned_intent_within zero_lib no_foreign run_scope run_intent run_clock run_clock leased_store = (Returned (Ok run_owned), owned_store)"
    using checked owner leased_authority run_checks(1,3) run_lineage_row [of "[]" run_database, folded store(1)] store(2) new reference
    by (simp add: prepare_owned_intent_within_def run_intent_fields owned_intent_row_def insert_intent_def insert_row_def owned_store_def)
  then show ?thesis
    by (simp add: prepare_owned_intent_def run_in_transaction_no_faults run_checks(3))
qed

subsection \<open>Recording the attempt\<close>

definition dispatch_request :: attempt_request where
  "dispatch_request = \<lparr>atq_authority = run_authority, atq_lineageId = run_lineage_id, atq_attempt = run_attempt,
     atq_dispatchedAt = ''2024-01-01T00:10:00.000Z''\<rparr>"

definition dispatch_clock :: clock_reading where
  "dispatch_clock = Some (JStr ''2024-01-01T00:10:00.000Z'')"

definition dispatched_store :: store where
  "dispatched_store = owned_store\<lparr>
     st_artifacts := run_artifacts @ [artifact_row run_scope ''attempt-1'' (run_envelope ''execution-attempt'' (attempt_js run_attempt))
       (Some zero_hash) ''2024-01-01T00:10:00.000Z''],
     st_attempts := [attempt_columns run_lineage_id (JStr (ow_intentRecordId run_owned)) 1 run_attempt ''2024-01-01T00:10:00.000Z''
       (run_envelope ''execution-attempt'' (attempt_js run_attempt))]\<rparr>"

lemma run_attempt_checks:
  "assert_current_authority run_database run_scope run_authority dispatch_clock =
     Ok \<lparr>lr_ownerRunId = ''run-1'', lr_epoch = 1, lr_acquiredAt = ''2024-01-01T00:05:00.000Z'',
       lr_expiresAt = ''2024-01-01T00:35:00.000Z'', lr_reconciliationRequired = False\<rparr>"
  "validate_timestamp (JStr ''2024-01-01T00:10:00.000Z'') ''dispatchedAt'' = Ok ''2024-01-01T00:10:00.000Z''"
  "is_produced_execution_attempt run_attempt" "dispatch_authorized run_approval (at_submittedAt run_attempt)"
  "at_planHash run_attempt = zero_hash" "at_attemptId run_attempt = ''attempt-1''" "at_intentId run_attempt = ''leg-1''"
  "at_clientOrderId run_attempt = ''client-1''" "ep_planId run_plan \<noteq> ''attempt-1''" "is_safe_integer 1"
  by code_simp+

lemma run_dispatch_fields:
  "atq_authority dispatch_request = run_authority" "atq_lineageId dispatch_request = run_lineage_id"
  "atq_attempt dispatch_request = run_attempt" "atq_dispatchedAt dispatch_request = ''2024-01-01T00:10:00.000Z''"
  by (simp_all add: dispatch_request_def)

lemma owned_store_eq:
  "owned_store = prepared_store\<lparr>st_authority := run_database, st_intents := [intent_js run_scope run_owned]\<rparr>"
  by (simp add: owned_store_def leased_store_def)

lemma owned_store_rows:
  "st_authority owned_store = run_database" "st_intents owned_store = [intent_js run_scope run_owned]" "st_attempts owned_store = []"
  "st_reconciliations owned_store = []" "st_bindings owned_store = []" "st_artifacts owned_store = run_artifacts"
  "st_lineages owned_store = st_lineages prepared_store"
  by (simp_all add: owned_store_eq prepared_store_def empty_store_def)

lemma insert_new_artifact:
  assumes "find (\<lambda>row. get row ''artifact_id'' = JStr name) (st_artifacts st) = None"
  shows "insert_artifact scope name e h t st =
    (Returned (Ok ()), st\<lparr>st_artifacts := st_artifacts st @ [artifact_row scope name e h t]\<rparr>)"
proof -
  have "get (artifact_row scope name e h t) ''artifact_id'' = JStr name" by (simp add: artifact_row_def)
  moreover have "\<forall>other \<in> set (st_artifacts st). get other ''artifact_id'' \<noteq> JStr name" using assms by (auto simp: find_None_iff)
  ultimately show ?thesis using assms by (auto simp add: insert_artifact_def insert_row_def same_key_def)
qed

lemma run_dispatched:
  "append_attempt zero_lib no_foreign no_faults run_scope dispatch_request dispatch_clock owned_store =
     (Ok \<lparr>ar_lineageId = run_lineage_id, ar_attempt = run_attempt, ar_dispatchedAt = ''2024-01-01T00:10:00.000Z''\<rparr>, dispatched_store)"
proof -
  let ?e = "run_envelope ''execution-attempt'' (attempt_js run_attempt)"
  have encoded: "encode_canonical_artifact zero_lib no_foreign ''execution-attempt'' (attempt_js run_attempt) = Ok ?e"
    by (rule run_encoded [OF run_schemas(3,7) run_attempt_shape])
  have committed: "committed_authority zero_lib no_foreign owned_store run_scope run_lineage_id run_attempt = Ok ()"
    using run_reads [of "[intent_js run_scope run_owned]" run_database, folded owned_store_eq] run_attempt_checks run_checks(6)
    by (simp add: committed_authority_def)
  have owning: "owning_intent owned_store run_scope run_lineage_id run_attempt = Some (intent_js run_scope run_owned)"
    using run_attempt_checks
    by (simp add: owning_intent_def owned_store_rows intent_js_def run_owned_def in_scope_def scope_columns_def)
  have free: "find (\<lambda>row. get row ''artifact_id'' = JStr ''attempt-1'') run_artifacts = None"
    using run_attempt_checks(9) by (simp add: run_artifacts_def artifact_row_def scope_columns_def)
  note artifact = insert_new_artifact [of "''attempt-1''" owned_store run_scope ?e "Some zero_hash" "''2024-01-01T00:10:00.000Z''",
    unfolded owned_store_rows, OF free]
  have references: "\<exists>other \<in> set (st_lineages prepared_store). get other ''lineage_id'' = JStr run_lineage_id"
    "get (intent_js run_scope run_owned) ''intent_record_id'' = JStr (ow_intentRecordId run_owned)"
    by (simp_all add: prepared_store_def lineage_js_def scope_columns_def intent_js_def)
  have "append_attempt_within zero_lib no_foreign run_scope dispatch_request ''2024-01-01T00:10:00.000Z'' ?e dispatch_clock owned_store =
      (Returned (Ok \<lparr>ar_lineageId = run_lineage_id, ar_attempt = run_attempt, ar_dispatchedAt = ''2024-01-01T00:10:00.000Z''\<rparr>),
       dispatched_store)"
    using committed owning artifact references run_attempt_checks run_lineage_row [of "[intent_js run_scope run_owned]" run_database, folded owned_store_eq]
    by (simp add: append_attempt_within_def run_dispatch_fields owned_store_rows insert_attempt_def insert_row_def next_number_def
        attempt_columns_def dispatched_store_def)
  then show ?thesis
    using encoded run_attempt_checks
    by (simp add: append_attempt_def run_dispatch_fields run_in_transaction_no_faults)
qed

subsection \<open>Recording its result\<close>

definition result_request :: "reconciliation_status \<Rightarrow> reconciliation_request" where
  "result_request status = \<lparr>rq_authority = run_authority, rq_lineageId = run_lineage_id, rq_result = run_result status,
     rq_recordedAt = ''2024-01-01T00:11:00.000Z''\<rparr>"

definition run_record :: "reconciliation_status \<Rightarrow> reconciliation_record" where
  "run_record status = \<lparr>rc_lineageId = run_lineage_id, rc_result = run_result status, rc_recordedAt = ''2024-01-01T00:11:00.000Z''\<rparr>"

definition reconciled_store :: "reconciliation_status \<Rightarrow> store" where
  "reconciled_store status = dispatched_store\<lparr>
     st_artifacts := st_artifacts dispatched_store @ [artifact_row run_scope (''reconciliation-artifact-'' @ replicate 40 CHR ''0'')
       (run_envelope ''reconciliation-result'' (reconciliation_to_js (run_result status))) (Some zero_hash) ''2024-01-01T00:11:00.000Z''],
     st_reconciliations := [reconciliation_columns zero_lib run_lineage_id (run_result status) ''2024-01-01T00:11:00.000Z''
       (run_envelope ''reconciliation-result'' (reconciliation_to_js (run_result status))) 1]\<rparr>"

lemma run_result_checks:
  "validate_timestamp (JStr ''2024-01-01T00:11:00.000Z'') ''recordedAt'' = Ok ''2024-01-01T00:11:00.000Z''"
  "ep_planId run_plan \<noteq> ''reconciliation-artifact-'' @ replicate 40 CHR ''0''"
  by code_simp+

lemma run_result_fields:
  "rq_authority (result_request s) = run_authority" "rq_lineageId (result_request s) = run_lineage_id"
  "rq_result (result_request s) = run_result s" "rq_recordedAt (result_request s) = ''2024-01-01T00:11:00.000Z''"
  "rr_attemptId (run_result s) = ''attempt-1''" "rr_intentId (run_result s) = ''leg-1''" "rr_planHash (run_result s) = zero_hash"
  "rr_clientOrderId (run_result s) = ''client-1''" "rr_status (run_result s) = s" "rr_exchangeOrderId (run_result s) = Some ''order-1''"
  "rr_produced (run_result s)"
  by (simp_all add: result_request_def run_result_def)

lemma dispatched_rows:
  "st_authority dispatched_store = run_database" "st_reconciliations dispatched_store = []" "st_bindings dispatched_store = []"
  "st_lineages dispatched_store = st_lineages prepared_store"
  "st_intents dispatched_store = [intent_js run_scope run_owned]"
  by (simp_all add: dispatched_store_def owned_store_rows)

definition run_owner :: attempt_owner where
  "run_owner = \<lparr>aw_attemptId = ''attempt-1'', aw_lineageId = run_lineage_id, aw_planHash = zero_hash, aw_intentId = ''leg-1'',
     aw_clientOrderId = ''client-1'', aw_exchangeOrderId = Some ''order-1''\<rparr>"

lemma run_attempt_owner:
  "attempt_owner_from_row (attempt_columns run_lineage_id (JStr (ow_intentRecordId run_owned)) n run_attempt t e) = Ok run_owner"
proof -
  have "safe_identifier ''attempt-1''" "safe_identifier run_lineage_id" "hash_text zero_hash" "safe_identifier ''leg-1''"
    "safe_identifier ''client-1''" "safe_identifier ''order-1''"
    by code_simp+
  then show ?thesis
    by (simp add: attempt_owner_from_row_def attempt_columns_def run_attempt_def stored_identifier_def stored_hash_def
        stored_optional_string_def stored_string_def map_result_def run_owner_def optional_column_def)
qed

lemma run_recorded:
  "record_reconciliation zero_lib run_scope run_lineage_id (run_result s) ''2024-01-01T00:11:00.000Z''
     (run_envelope ''reconciliation-result'' (reconciliation_to_js (run_result s))) dispatched_store =
   sql_bind (if needs_review s
      then sql_bind (on_authority (raise_halt_within zero_lib run_scope (review_reason s) ''2024-01-01T00:11:00.000Z'' None)
        (reconciled_store s)) (\<lambda>_ st. (Returned (Ok ()), st))
      else (Returned (Ok ()), reconciled_store s)) (\<lambda>_ st. (Returned (Ok (run_record s)), st))"
proof -
  let ?e = "run_envelope ''reconciliation-result'' (reconciliation_to_js (run_result s))"
  let ?id = "''reconciliation-artifact-'' @ replicate 40 CHR ''0''"
  have free: "find (\<lambda>row. get row ''artifact_id'' = JStr ?id) (st_artifacts dispatched_store) = None"
    using run_result_checks(2)
    by (simp add: dispatched_store_def run_artifacts_def artifact_row_def scope_columns_def)
  let ?row = "reconciliation_columns zero_lib run_lineage_id (run_result s) ''2024-01-01T00:11:00.000Z'' ?e 1"
  let ?st = "dispatched_store\<lparr>st_artifacts := st_artifacts dispatched_store @ [artifact_row run_scope ?id ?e (Some zero_hash)
    ''2024-01-01T00:11:00.000Z'']\<rparr>"
  have "\<exists>other \<in> set (st_lineages prepared_store). get other ''lineage_id'' = get ?row ''lineage_id''"
    "\<exists>other \<in> set (st_attempts dispatched_store). get other ''attempt_id'' = get ?row ''attempt_id''"
    using run_attempt_checks
    by (simp_all add: prepared_store_def lineage_js_def scope_columns_def dispatched_store_def attempt_columns_def
        reconciliation_columns_def run_result_fields)
  then have row: "insert_reconciliation ?row ?st = (Returned (Ok ()), reconciled_store s)"
    by (simp add: insert_reconciliation_def insert_row_def dispatched_rows reconciled_store_def)
  have "deterministic_id zero_lib ''reconciliation-artifact'' x = ?id" for x
    by (simp add: deterministic_id_def)
  then show ?thesis
    using insert_new_artifact [OF free, of run_scope ?e "Some zero_hash" "''2024-01-01T00:11:00.000Z''"] row run_attempt_checks(10)
    by (simp add: record_reconciliation_def run_result_fields dispatched_rows next_number_def run_record_def)
qed

lemma run_reconciled_within:
  "append_reconciliation_within zero_lib no_foreign run_scope (result_request s) ''2024-01-01T00:11:00.000Z''
     (run_envelope ''reconciliation-result'' (reconciliation_to_js (run_result s))) dispatch_clock dispatched_store =
   record_reconciliation zero_lib run_scope run_lineage_id (run_result s) ''2024-01-01T00:11:00.000Z''
     (run_envelope ''reconciliation-result'' (reconciliation_to_js (run_result s))) dispatched_store"
proof -
  have row: "lineage_row dispatched_store run_scope run_lineage_id \<noteq> None"
    using run_lineage_row [of "[]" run_database] by (simp add: lineage_row_def dispatched_rows)
  have attempt: "scoped_attempt dispatched_store run_scope (\<lambda>row. get row ''attempt_id'' = JStr ''attempt-1'') =
      Some (attempt_columns run_lineage_id (JStr (ow_intentRecordId run_owned)) 1 run_attempt ''2024-01-01T00:10:00.000Z''
       (run_envelope ''execution-attempt'' (attempt_js run_attempt)))"
    using run_attempt_checks(6)
    by (simp add: scoped_attempt_def dispatched_store_def attempt_columns_def owned_store_rows prepared_store_def lineage_js_def
        scope_columns_def in_scope_def)
  have "reconciliation_verdict zero_lib dispatched_store run_scope run_lineage_id run_owner (run_result s) = Ok None"
    by (simp add: reconciliation_verdict_def run_owner_def run_result_fields effective_exchange_order_def identity_binding_row_def dispatched_rows)
  then show ?thesis
    using row attempt run_attempt_checks(1) run_attempt_owner
    by (auto simp: append_reconciliation_within_def run_result_fields dispatched_rows Let_def)
qed

lemma run_reconciled:
  assumes "record_reconciliation zero_lib run_scope run_lineage_id (run_result s) ''2024-01-01T00:11:00.000Z''
     (run_envelope ''reconciliation-result'' (reconciliation_to_js (run_result s))) dispatched_store = (Returned (Ok x), st)"
  shows "append_reconciliation zero_lib no_foreign no_faults run_scope (result_request s) dispatch_clock dispatched_store = (Ok x, st)"
proof -
  have "encode_canonical_artifact zero_lib no_foreign ''reconciliation-result'' (reconciliation_to_js (run_result s)) =
      Ok (run_envelope ''reconciliation-result'' (reconciliation_to_js (run_result s)))"
    by (rule run_encoded [OF run_schemas(4,8) run_result_shape])
  then show ?thesis
    using assms run_result_checks(1)
    by (simp add: append_reconciliation_def run_result_fields is_produced_reconciliation_result_def run_in_transaction_no_faults
        run_reconciled_within)
qed

lemma run_settled:
  "append_reconciliation zero_lib no_foreign no_faults run_scope (result_request RecReconciled) dispatch_clock dispatched_store =
     (Ok (run_record RecReconciled), reconciled_store RecReconciled)"
  by (rule run_reconciled) (simp add: run_recorded needs_review_def)

lemma run_pending:
  "\<exists>db. append_reconciliation zero_lib no_foreign no_faults run_scope (result_request RecPending) dispatch_clock dispatched_store =
     (Ok (run_record RecPending), (reconciled_store RecPending)\<lparr>st_authority := db\<rparr>)"
proof -
  have "case raise_halt_within zero_lib run_scope (review_reason RecPending) ''2024-01-01T00:11:00.000Z'' None run_database of
      (Returned (Inr h), db) \<Rightarrow> True | _ \<Rightarrow> False"
    by code_simp
  then obtain h db where "raise_halt_within zero_lib run_scope (review_reason RecPending) ''2024-01-01T00:11:00.000Z'' None run_database =
      (Returned (Inr h), db)"
    by (auto split: prod.splits sql_outcome.splits sum.splits)
  then have "on_authority (raise_halt_within zero_lib run_scope (review_reason RecPending) ''2024-01-01T00:11:00.000Z'' None)
      (reconciled_store RecPending) = (Returned (Inr h), (reconciled_store RecPending)\<lparr>st_authority := db\<rparr>)"
    by (simp add: on_authority_def reconciled_store_def dispatched_rows)
  then have "append_reconciliation zero_lib no_foreign no_faults run_scope (result_request RecPending) dispatch_clock dispatched_store =
     (Ok (run_record RecPending), (reconciled_store RecPending)\<lparr>st_authority := db\<rparr>)"
    by (intro run_reconciled) (simp add: run_recorded needs_review_def)
  then show ?thesis ..
qed

end
