(* ===== verification/JournalRuns.thy ===== *)
theory JournalRuns
  imports Ownership JournalExample
begin

subsection \<open>Reachable journals\<close>

text \<open>What a journal can become: any sequence of its operations, and of lease and HALT operations in between.\<close>

inductive journal_reachable :: "'d lib \<Rightarrow> 'd validators \<Rightarrow> store \<Rightarrow> bool" for L foreign where
  opened: "journal_reachable L foreign empty_store"
| authority: "journal_reachable L foreign st \<Longrightarrow> journal_reachable L foreign (st\<lparr>st_authority := db\<rparr>)"
| lineage: "journal_reachable L foreign st \<Longrightarrow> prepare_lineage L foreign faults scope rq st = (r, s) \<Longrightarrow> journal_reachable L foreign s"
| intent: "journal_reachable L foreign st \<Longrightarrow> prepare_owned_intent L foreign faults scope irq clock clock2 st = (ir, s) \<Longrightarrow>
    journal_reachable L foreign s"
| attempt: "journal_reachable L foreign st \<Longrightarrow> append_attempt L foreign faults scope arq clock st = (ar, s) \<Longrightarrow>
    journal_reachable L foreign s"
| binding: "journal_reachable L foreign st \<Longrightarrow> append_identity_binding L foreign faults scope brq clock st = (br, s) \<Longrightarrow>
    journal_reachable L foreign s"
| reconciliation: "journal_reachable L foreign st \<Longrightarrow> append_reconciliation L foreign faults scope rrq clock st = (rr, s) \<Longrightarrow>
    journal_reachable L foreign s"

lemma wf_empty_store: "wf_store L foreign empty_store"
  by (simp add: wf_store_def empty_store_def keyed_def)

lemma reachable_wf: "journal_reachable L foreign st \<Longrightarrow> wf_store L foreign st"
proof (induction rule: journal_reachable.induct)
  case opened
  show ?case by (rule wf_empty_store)
next
  case (authority st db)
  have "safe_after L foreign st (st\<lparr>st_authority := db\<rparr>)" by (intro safe_same_rows) simp_all
  then show ?case using authority by (simp add: safe_after_def)
next
  case (lineage st faults scope rq r s)
  then show ?case using prepare_lineage_safe [of L foreign st L foreign faults scope rq] by (simp add: safe_after_def)
next
  case (intent st faults scope irq clock clock2 ir s)
  then show ?case using prepare_intent_safe [of L foreign st faults scope irq clock clock2] by (simp add: safe_after_def)
next
  case (attempt st faults scope arq clock ar s)
  then show ?case using append_attempt_safe [of L foreign st faults scope arq clock] by (simp add: safe_after_def)
next
  case (binding st faults scope brq clock br s)
  then show ?case using append_binding_safe [of L foreign st faults scope brq clock] by (simp add: safe_after_def)
next
  case (reconciliation st faults scope rrq clock rr s)
  then show ?case using append_reconciliation_safe [of L foreign st faults scope rrq clock] by (simp add: safe_after_def)
qed

text \<open>The run of \<open>JournalExample\<close> is reachable.\<close>

lemma run_reachable:
  "journal_reachable zero_lib no_foreign leased_store" "journal_reachable zero_lib no_foreign dispatched_store"
  "journal_reachable zero_lib no_foreign (reconciled_store RecReconciled)"
proof -
  show leased: "journal_reachable zero_lib no_foreign leased_store"
    unfolding leased_store_def
    by (rule journal_reachable.authority, rule journal_reachable.lineage [OF journal_reachable.opened run_lineage_prepared])
  show dispatched: "journal_reachable zero_lib no_foreign dispatched_store"
    by (rule journal_reachable.attempt [OF journal_reachable.intent [OF leased run_intent_owned] run_dispatched])
  show "journal_reachable zero_lib no_foreign (reconciled_store RecReconciled)"
    by (rule journal_reachable.reconciliation [OF dispatched run_settled])
qed

lemma in_scope_unique: "in_scope scope r \<Longrightarrow> in_scope scope' r \<Longrightarrow> scope = scope'"
  by (cases scope; cases scope') (simp add: in_scope_def)

definition identified :: "string list \<Rightarrow> row list \<Rightarrow> bool" where
  "identified key rows \<longleftrightarrow> (\<forall>i < length rows. \<forall>j < length rows. same_key key (rows ! i) (rows ! j) \<longrightarrow> i = j)"

lemma same_key_sym: "same_key key a b \<Longrightarrow> same_key key b a"
  by (simp add: same_key_def)

lemma keyed_identified: "keyed uniques rows \<Longrightarrow> key \<in> set uniques \<Longrightarrow> identified key rows"
  unfolding keyed_def identified_def sorted_wrt_iff_nth_less
  by (metis linorder_neqE_nat same_key_sym)

text \<open>
  Claim C3: nothing is recorded as dispatched that was not authorized. In every reachable journal, an
  attempt belongs to an intent that was owned before it, with the same lineage, plan hash and
  client order id; that intent is one of the committed plan the lineage reads back, the plan
  hash is the plan's own, and the lineage's approval is for that plan and was valid at the
  instant of the dispatch.
\<close>

theorem dispatch_is_authorized:
  assumes "journal_reachable L foreign st" "t \<in> set (st_attempts st)"
  shows "\<exists>i \<in> set (st_intents st). \<exists>scope lin name plan a submitted.
    agree [''lineage_id'', ''intent_id'', ''plan_hash'', ''client_order_id'', ''intent_record_id''] t i \<and> in_scope scope i \<and>
    get i ''lineage_id'' = JStr lin \<and> get i ''intent_id'' = JStr name \<and>
    read_plan L foreign st scope lin = Ok (Some plan) \<and> get i ''plan_hash'' = JStr (ep_materialHash plan) \<and> has_intent plan name \<and>
    read_approval L foreign st scope lin = Ok (Some a) \<and> apr_planHash a = ep_materialHash plan \<and>
    get t ''submitted_at'' = JStr submitted \<and> dispatch_authorized a submitted"
proof -
  note wf = reachable_wf [OF assms(1)]
  obtain i scope lin a submitted where i: "i \<in> set (st_intents st)"
    "agree [''lineage_id'', ''intent_id'', ''plan_hash'', ''client_order_id'', ''intent_record_id''] t i" "in_scope scope i"
    "get i ''lineage_id'' = JStr lin" "read_approval L foreign st scope lin = Ok (Some a)"
    "get t ''submitted_at'' = JStr submitted" "dispatch_authorized a submitted"
    using wf assms(2) by (auto simp: wf_store_def attempt_justified_def)
  moreover obtain scope' lin' name plan a' where "in_scope scope' i" "get i ''lineage_id'' = JStr lin'" "get i ''intent_id'' = JStr name"
    "read_plan L foreign st scope' lin' = Ok (Some plan)" "get i ''plan_hash'' = JStr (ep_materialHash plan)" "has_intent plan name"
    "read_approval L foreign st scope' lin' = Ok (Some a')" "apr_planHash a' = ep_materialHash plan"
    using wf i(1) by (auto simp: wf_store_def intent_justified_def)
  ultimately show ?thesis using in_scope_unique [OF i(3)] by (metis jsval.inject(3) option.inject sum.inject(2))
qed

theorem dispatch_is_authorized_witness:
  "\<exists>t \<in> set (st_attempts dispatched_store). \<exists>i \<in> set (st_intents dispatched_store). \<exists>a.
     get t ''client_order_id'' = JStr ''client-1'' \<and> get i ''client_order_id'' = JStr ''client-1'' \<and>
     dispatch_authorized a ''2024-01-01T00:10:00.000Z''"
proof -
  let ?t = "attempt_columns run_lineage_id (JStr (ow_intentRecordId run_owned)) 1 run_attempt ''2024-01-01T00:10:00.000Z''
       (run_envelope ''execution-attempt'' (attempt_js run_attempt))"
  have t: "?t \<in> set (st_attempts dispatched_store)" "get ?t ''client_order_id'' = JStr ''client-1''"
    "get ?t ''submitted_at'' = JStr ''2024-01-01T00:10:00.000Z''"
    by (simp_all add: dispatched_store_def attempt_columns_def run_attempt_def)
  show ?thesis
    using dispatch_is_authorized [OF run_reachable(2) t(1)] t by (auto simp: agree_def)
qed


text \<open>
  Claim C9: the identities a journal hands out are used once. In every reachable journal, a client order
  id belongs to one owned intent of its scope and an intent of a lineage is owned once; an
  attempt id names one attempt; an attempt has at most one binding, and an exchange order id is
  bound at most once in its scope.
\<close>

theorem journal_identities_unique:
  assumes "journal_reachable L foreign st"
  shows "identified (scope_keys @ [''client_order_id'']) (st_intents st) \<and> identified [''lineage_id'', ''intent_id''] (st_intents st) \<and>
    identified [''attempt_id''] (st_attempts st) \<and> identified [''lineage_id'', ''attempt_id''] (st_bindings st) \<and>
    identified (scope_keys @ [''exchange_order_id'']) (st_bindings st)"
  using reachable_wf [OF assms] unfolding wf_store_def
  by (auto intro!: keyed_identified simp: intent_keys_def attempt_keys_def binding_keys_def)

theorem journal_identities_unique_witness:
  "identified (scope_keys @ [''client_order_id'']) (st_intents dispatched_store) \<and> st_intents dispatched_store \<noteq> []"
  using journal_identities_unique [OF run_reachable(2)] by (simp add: dispatched_rows)


text \<open>
  Claim C5: a result is recorded as \<open>RECONCILED\<close> only with exchange proof. In every reachable journal
  each reconciliation belongs to a recorded attempt of the same intent, plan and client order
  id, and a \<open>RECONCILED\<close> one names an exchange order that the attempt itself carries or that is
  bound to it.
\<close>

theorem reconciled_has_exchange_proof:
  assumes "journal_reachable L foreign st" "r \<in> set (st_reconciliations st)"
  shows "\<exists>t \<in> set (st_attempts st).
    agree [''lineage_id'', ''attempt_id'', ''intent_id'', ''plan_hash'', ''client_order_id''] r t \<and>
    (get r ''status'' = JStr ''RECONCILED'' \<longrightarrow> (\<exists>x. get r ''exchange_order_id'' = JStr x \<and>
       (get t ''exchange_order_id'' = JStr x \<or>
        (\<exists>b \<in> set (st_bindings st). agree [''lineage_id'', ''attempt_id''] r b \<and> get b ''exchange_order_id'' = JStr x))))"
  using reachable_wf [OF assms(1)] assms(2) unfolding wf_store_def reconciliation_justified_def by blast

theorem reconciled_has_exchange_proof_witness:
  "\<exists>t \<in> set (st_attempts (reconciled_store RecReconciled)). get t ''exchange_order_id'' = JStr ''order-1''"
proof -
  let ?r = "reconciliation_columns zero_lib run_lineage_id (run_result RecReconciled) ''2024-01-01T00:11:00.000Z''
       (run_envelope ''reconciliation-result'' (reconciliation_to_js (run_result RecReconciled))) 1"
  have r: "?r \<in> set (st_reconciliations (reconciled_store RecReconciled))" "get ?r ''status'' = JStr ''RECONCILED''"
    "get ?r ''exchange_order_id'' = JStr ''order-1''" "st_bindings (reconciled_store RecReconciled) = []"
    by (simp_all add: reconciled_store_def dispatched_rows reconciliation_columns_def run_result_fields optional_column_def)
      (simp add: reconciliation_status_text_def)
  show ?thesis
    using reconciled_has_exchange_proof [OF run_reachable(3) r(1)] r by auto
qed



subsection \<open>Failures\<close>

text \<open>The only failure that is committed is a conflict, and all it writes is the HALT it raised.\<close>

definition conflict_halt :: "'d lib \<Rightarrow> store \<Rightarrow> store \<Rightarrow> bool" where
  "conflict_halt L st s \<longleftrightarrow> (\<exists>scope reason t h db.
     raise_halt_within L scope reason t None (st_authority st) = (Returned (Ok h), db) \<and> s = st\<lparr>st_authority := db\<rparr>)"

definition commits_conflict :: "'d lib \<Rightarrow> store \<Rightarrow> 'a sql_outcome \<times> store \<Rightarrow> bool" where
  "commits_conflict L st step \<longleftrightarrow>
     (\<forall>r. fst step = Committed r \<longrightarrow> r = Fail PERSISTENCE_CONFLICT \<and> conflict_halt L st (snd step))"

lemma commits_never: "never_commits step \<Longrightarrow> commits_conflict L st step"
  by (simp add: commits_conflict_def never_commits_def)

lemma commits_returned [simp]: "commits_conflict L st (Returned r, s)"
  by (simp add: commits_conflict_def)

lemma commits_pure [intro!]:
  "(\<And>x. r = Inr x \<Longrightarrow> commits_conflict L st (rest x st)) \<Longrightarrow> commits_conflict L st (sql_bind (sql_pure r st) rest)"
  by (cases r) (auto simp: commits_conflict_def)

lemma commits_append [simp]: "commits_conflict L st (on_authority (append_conflict_after_halt L scope reason t) st)"
proof -
  have "append_conflict_after_halt L scope reason t (st_authority st) = (Committed r, db) \<Longrightarrow>
      r = Fail PERSISTENCE_CONFLICT \<and> (\<exists>h. raise_halt_within L scope reason t None (st_authority st) = (Returned (Ok h), db))"
    for r :: "'b result" and db
    using raise_halt_within_commits [of L scope reason t None "st_authority st"]
    by (auto simp: append_conflict_after_halt_def sql_bind_Committed never_commits_def)
  then show ?thesis
    by (fastforce simp: commits_conflict_def conflict_halt_def on_authority_def split: prod.splits)
qed

lemma commits_bind [intro]:
  "never_commits step \<Longrightarrow> (\<And>x s. never_commits (rest x s)) \<Longrightarrow> commits_conflict L st (sql_bind step rest)"
  by (rule commits_never [OF never_commits_bind])

lemma insert_never [simp]: "never_commits (insert_row uniques references new rows put st)"
  by (simp add: never_commits_def insert_row_def)

lemma inserts_never [simp]:
  "never_commits (insert_artifact scope name e h t st)" "never_commits (insert_lineage r st)" "never_commits (insert_approval r st)"
  "never_commits (insert_intent r st)" "never_commits (insert_attempt r st)" "never_commits (insert_binding r st)"
  "never_commits (insert_reconciliation r st)"
  by (auto simp: insert_artifact_def insert_lineage_def insert_approval_def insert_intent_def insert_attempt_def
      insert_binding_def insert_reconciliation_def conflict_failure_def split: option.splits)

lemma raise_never [simp]: "never_commits (on_authority (raise_halt_within L scope reason t ev) st)"
  using raise_halt_within_commits [of L scope reason t ev "st_authority st"]
  by (auto simp: never_commits_def on_authority_def split: prod.splits)

lemma record_never [simp]: "never_commits (record_reconciliation L scope lin r t e st)"
  by (auto simp: record_reconciliation_def Let_def persistence_failure_def)

lemma transaction_failure:
  assumes "run_in_transaction faults operation code st = (Inl e, s)" "commits_conflict L st (operation st)"
  shows "s = st \<or> e = DomainError PERSISTENCE_CONFLICT None \<and> conflict_halt L st s"
  using assms
  by (auto simp: run_in_transaction_def commits_conflict_def is_ok_iff
      split: option.splits sql_outcome.splits prod.splits if_splits)

lemma prepare_lineage_failure:
  assumes "prepare_lineage L foreign faults scope rq st = (Inl e, s)"
  shows "s = st"
proof (cases "validate_lineage_request L foreign scope rq")
  case (Inr p)
  have "never_commits (prepare_lineage_within scope (lnq_plan rq) p st)"
    by (auto simp: prepare_lineage_within_def split: option.splits)
  then show ?thesis using assms Inr failed_transaction_unchanged by (fastforce simp: prepare_lineage_def)
qed (use assms in \<open>simp add: prepare_lineage_def\<close>)

lemma prepare_intent_failure:
  assumes "prepare_owned_intent L foreign faults scope rq clock clock2 st = (Inl e, s)"
  shows "s = st \<or> e = DomainError PERSISTENCE_CONFLICT None \<and> conflict_halt L st s"
proof (cases "validate_intent_request rq")
  case (Inr p)
  have "commits_conflict L st (prepare_owned_intent_within L foreign scope p clock clock2 st)"
    unfolding prepare_owned_intent_within_def
    by (auto simp: Let_def intro!: commits_bind split: option.splits)
  then show ?thesis using assms Inr by (auto simp: prepare_owned_intent_def dest!: transaction_failure)
qed (use assms in \<open>simp add: prepare_owned_intent_def\<close>)

lemma append_attempt_failure:
  assumes "append_attempt L foreign faults scope rq clock st = (Inl e, s)"
  shows "s = st \<or> e = DomainError PERSISTENCE_CONFLICT None \<and> conflict_halt L st s"
proof -
  have "commits_conflict L st (append_attempt_within L foreign scope rq t en clock st)" for t en
    unfolding append_attempt_within_def
    by (auto simp: Let_def persistence_failure_def intro!: commits_bind split: option.splits)
  then show ?thesis using assms by (auto simp: append_attempt_def dest!: transaction_failure split: sum.splits)
qed

lemma append_binding_failure:
  assumes "append_identity_binding L foreign faults scope rq clock st = (Inl e, s)"
  shows "s = st \<or> e = DomainError PERSISTENCE_CONFLICT None \<and> conflict_halt L st s"
proof -
  have "commits_conflict L st (rebind L scope row cs t st)" for row cs t
    unfolding rebind_def by (auto intro: commits_never split: list.splits)
  moreover have "commits_conflict L st (bind_candidate L scope a i c t st)" for a i c t
    unfolding bind_candidate_def by (auto intro!: commits_bind)
  ultimately have "commits_conflict L st (append_identity_binding_within L foreign scope p cs clock st)" for p cs
    unfolding append_identity_binding_within_def
    by (auto intro: commits_never split: option.splits list.splits prod.splits)
  then show ?thesis using assms by (auto simp: append_identity_binding_def dest!: transaction_failure split: sum.splits)
qed

lemma append_reconciliation_failure:
  assumes "append_reconciliation L foreign faults scope rq clock st = (Inl e, s)"
  shows "s = st \<or> e = DomainError PERSISTENCE_CONFLICT None \<and> conflict_halt L st s"
proof -
  have "commits_conflict L st (append_reconciliation_within L foreign scope rq t en clock st)" for t en
    unfolding append_reconciliation_within_def
    by (auto simp: Let_def intro!: commits_never [OF record_never] split: option.splits)
  then show ?thesis using assms by (auto simp: append_reconciliation_def dest!: transaction_failure split: sum.splits)
qed


subsection \<open>Results that need review\<close>

lemma transaction_success:
  assumes "run_in_transaction faults operation code st = (Inr x, s)" "commits_conflict L st (operation st)"
  shows "operation st = (Returned (Inr x), s)"
  using run_in_transaction_ok [OF assms(1)] assms(2) by (auto simp: commits_conflict_def)

lemma bind_success:
  assumes "sql_bind step rest = (Returned (Inr x), s)" "never_commits step"
  obtains y s' where "step = (Returned (Inr y), s')" "rest y s' = (Returned (Inr x), s)"
  using assms by (auto simp: sql_bind_Returned never_commits_def)

lemma pure_success:
  "sql_bind (sql_pure r st) rest = (Returned (Inr x), s) \<longleftrightarrow> (\<exists>y. r = Inr y \<and> rest y st = (Returned (Inr x), s))"
  by (cases r) auto

lemma raised_active:
  assumes "raise_halt_within L scope reason t ev db = (Returned (Inr h'), db')"
  shows "halt_row db' scope = Inr h' \<and> hs_active h'"
proof -
  let ?halted = "\<lambda>h :: halt_state. db\<lparr>db_halts := (db_halts db)(authority_scope_values scope \<mapsto>
        halt_js scope True (hs_revision h + 1) (Some reason) (Some t) True)\<rparr>"
  let ?event = "\<lambda>h :: halt_state. halt_event_js (halt_event_id L scope (hs_revision h + 1) reason) scope (hs_revision h + 1) True reason t ev"
  obtain h :: halt_state where "sql_bind (insert_halt_event (?event h) (?halted h)) (\<lambda>_ db. (Returned (halt_row db scope), db)) = (Returned (Inr h'), db')"
    using assms unfolding raise_halt_within_def pure_success
    by (auto simp: Let_def persistence_failure_def require_safe_text_Ok simp del: parser_simps split: if_splits)
  then obtain u db2 where ins: "insert_halt_event (?event h) (?halted h) = (Returned (Inr u), db2)"
    and read: "(Returned (halt_row db2 scope), db2) = (Returned (Inr h'), db')"
    by (rule bind_success) simp_all
  have "db_halts db' (authority_scope_values scope) = Some (halt_js scope True (hs_revision h + 1) (Some reason) (Some t) True)"
    using ins read by (auto simp: insert_halt_event_def split: if_splits)
  moreover have "halt_row db' scope = Inr h'" using read by auto
  ultimately show ?thesis using halt_js_read [of db' scope h' scope True "hs_revision h + 1" "Some reason" t True] by simp
qed

lemma conflict_not_success: "on_authority (append_conflict_after_halt L scope reason t) st \<noteq> (Returned (Inr x), s)"
proof
  assume "on_authority (append_conflict_after_halt L scope reason t) st = (Returned (Inr x), s)"
  then have "\<exists>db. append_conflict_after_halt L scope reason t (st_authority st) = (Returned (Inr x), db)"
    by (auto simp: on_authority_def split: prod.splits)
  then show False by (auto simp: append_conflict_after_halt_def sql_bind_Returned)
qed

lemma intent_run:
  assumes "prepare_owned_intent L foreign faults scope request clock clock2 st = (Inr x, s)"
  obtains parsed where "validate_intent_request request = Inr parsed" "inq_authority parsed = inq_authority request"
    "prepare_owned_intent_within L foreign scope parsed clock clock2 st = (Returned (Inr x), s)"
proof -
  obtain parsed where parsed: "validate_intent_request request = Inr parsed"
    "run_in_transaction faults (prepare_owned_intent_within L foreign scope parsed clock clock2) PERSISTENCE_CONFLICT st = (Inr x, s)"
    using assms(1) by (auto simp: prepare_owned_intent_def split: sum.splits)
  have "commits_conflict L st (prepare_owned_intent_within L foreign scope parsed clock clock2 st)"
    unfolding prepare_owned_intent_within_def
    by (auto simp: Let_def intro!: commits_bind split: option.splits)
  from transaction_success [OF parsed(2) this] show thesis
    using parsed(1) by (intro that) (auto simp: validate_intent_request_def need_Ok_iff)
qed

lemma intent_new:
  assumes "prepare_owned_intent_within L foreign scope p clock clock2 st = (Returned (Inr x), s)"
    "owned_intent_row st scope (inq_lineageId p) (inq_intentId p) = None"
  obtains current where "assert_current_authority (st_authority st) scope (inq_authority p) clock = Inr current"
    "check_new_intent L foreign st scope p current clock2 = Inr ()" "s = st\<lparr>st_intents := st_intents st @ [intent_js scope x]\<rparr>"
    "x = \<lparr>ow_intentRecordId = deterministic_id L ''intent'' (inq_lineageId p @ CHR '':'' # inq_intentId p),
      ow_lineageId = inq_lineageId p, ow_intentId = inq_intentId p, ow_planHash = inq_planHash p,
      ow_clientOrderId = inq_clientOrderId p, ow_preparedAt = inq_preparedAt p\<rparr>"
proof -
  define new where "new = \<lparr>ow_intentRecordId = deterministic_id L ''intent'' (inq_lineageId p @ CHR '':'' # inq_intentId p),
      ow_lineageId = inq_lineageId p, ow_intentId = inq_intentId p, ow_planHash = inq_planHash p,
      ow_clientOrderId = inq_clientOrderId p, ow_preparedAt = inq_preparedAt p\<rparr>"
  let ?client = "find (\<lambda>row. in_scope scope row \<and> get row ''client_order_id'' = JStr (inq_clientOrderId p)) (st_intents st)"
  obtain current where current: "assert_current_authority (st_authority st) scope (inq_authority p) clock = Inr current"
    "check_new_intent L foreign st scope p current clock2 = Inr ()"
    and rest: "(case ?client of
        Some c \<Rightarrow> sql_bind (sql_pure (owned_intent_from_row c) st) (\<lambda>_ st.
          on_authority (append_conflict_after_halt L scope conflicting_client (inq_now p)) st)
      | None \<Rightarrow> sql_bind (insert_intent (intent_js scope new) st) (\<lambda>_ st. (Returned (Ok new), st))) = (Returned (Inr x), s)"
    using assms unfolding prepare_owned_intent_within_def Let_def new_def by (auto simp: pure_success split: if_split_asm)
  have insert: "sql_bind (insert_intent (intent_js scope new) st) (\<lambda>_ st. (Returned (Ok new), st)) = (Returned (Inr x), s)"
    using rest by (auto simp: pure_success conflict_not_success split: option.splits)
  then have "s = st\<lparr>st_intents := st_intents st @ [intent_js scope new]\<rparr> \<and> x = new"
    by (rule bind_success) (auto simp: insert_intent_def insert_row_Ok)
  with current show thesis using that new_def by blast
qed

lemma intent_known:
  assumes "prepare_owned_intent_within L foreign scope p clock clock2 st = (Returned (Inr x), s)"
    "owned_intent_row st scope (inq_lineageId p) (inq_intentId p) = Some row"
  shows "s = st \<and> owned_intent_from_row row = Inr x \<and> ow_planHash x = inq_planHash p \<and> ow_clientOrderId x = inq_clientOrderId p"
  using assms unfolding prepare_owned_intent_within_def pure_success
  by (auto simp: conflict_not_success pure_success split: if_splits)

lemma intent_success:
  assumes "prepare_owned_intent L foreign faults scope request clock clock2 st = (Inr x, s)" "s \<noteq> st"
  obtains parsed current where "inq_authority parsed = inq_authority request"
    "assert_current_authority (st_authority st) scope (inq_authority request) clock = Inr current"
    "check_new_intent L foreign st scope parsed current clock2 = Inr ()"
    "s = st\<lparr>st_intents := st_intents st @ [intent_js scope x]\<rparr>"
    "ow_lineageId x = inq_lineageId parsed" "ow_intentId x = inq_intentId parsed" "ow_planHash x = inq_planHash parsed"
proof -
  obtain p where p: "inq_authority p = inq_authority request"
    "prepare_owned_intent_within L foreign scope p clock clock2 st = (Returned (Inr x), s)"
    by (rule intent_run [OF assms(1)])
  then have "owned_intent_row st scope (inq_lineageId p) (inq_intentId p) = None"
    using assms(2) intent_known by (cases "owned_intent_row st scope (inq_lineageId p) (inq_intentId p)") blast+
  then obtain current where "assert_current_authority (st_authority st) scope (inq_authority p) clock = Inr current"
    "check_new_intent L foreign st scope p current clock2 = Inr ()" "s = st\<lparr>st_intents := st_intents st @ [intent_js scope x]\<rparr>"
    "x = \<lparr>ow_intentRecordId = deterministic_id L ''intent'' (inq_lineageId p @ CHR '':'' # inq_intentId p),
      ow_lineageId = inq_lineageId p, ow_intentId = inq_intentId p, ow_planHash = inq_planHash p,
      ow_clientOrderId = inq_clientOrderId p, ow_preparedAt = inq_preparedAt p\<rparr>"
    by (rule intent_new [OF p(2)])
  then show thesis using p(1) by (intro that [of p current]) simp_all
qed

lemma recorded_halts:
  assumes "record_reconciliation L scope lin r t e st = (Returned (Inr x), s)" "needs_review (rr_status r)"
  shows "\<exists>h. halt_row (st_authority s) scope = Inr h \<and> hs_active h"
proof -
  let ?halt = "\<lambda>s. sql_bind (on_authority (raise_halt_within L scope (review_reason (rr_status r)) t None) s) (\<lambda>_ st. (Returned (Ok ()), st))"
  from assms(1) obtain s1 y where "?halt s1 = (Returned (Inr y), s)"
    unfolding record_reconciliation_def
  proof (rule bind_success)
    fix y s0
    assume "(let revision = next_number ''revision'' lin (st_reconciliations s0) in
       if \<not> is_safe_integer revision then (Returned persistence_failure, s0)
       else sql_bind (insert_reconciliation (reconciliation_columns L lin r t e revision) s0) (\<lambda>_ st.
         sql_bind (if needs_review (rr_status r) then ?halt st else (Returned (Ok ()), st)) (\<lambda>_ st.
         (Returned (Ok \<lparr>rc_lineageId = lin, rc_result = r, rc_recordedAt = t\<rparr>), st)))) = (Returned (Inr x), s)"
    then have "sql_bind (insert_reconciliation (reconciliation_columns L lin r t e (next_number ''revision'' lin (st_reconciliations s0))) s0)
        (\<lambda>_ st. sql_bind (?halt st) (\<lambda>_ st.
         (Returned (Ok \<lparr>rc_lineageId = lin, rc_result = r, rc_recordedAt = t\<rparr>), st))) = (Returned (Inr x), s)"
      using assms(2) by (simp add: Let_def persistence_failure_def split: if_splits)
    then show thesis
    proof (rule bind_success)
      fix y s1
      assume "sql_bind (?halt s1) (\<lambda>_ st. (Returned (Ok \<lparr>rc_lineageId = lin, rc_result = r, rc_recordedAt = t\<rparr>), st)) = (Returned (Inr x), s)"
      then show thesis by (rule bind_success) (auto intro: that)
    qed simp
  qed simp
  then obtain h where "on_authority (raise_halt_within L scope (review_reason (rr_status r)) t None) s1 = (Returned (Inr h), s)"
    by (rule bind_success) auto
  then obtain db where "raise_halt_within L scope (review_reason (rr_status r)) t None (st_authority s1) = (Returned (Inr h), db)"
    "s = s1\<lparr>st_authority := db\<rparr>"
    by (auto simp: on_authority_def split: prod.splits)
  then show ?thesis using raised_active by fastforce
qed

lemma reconciliation_success:
  assumes "append_reconciliation L foreign faults scope rq clock st = (Inr x, s)"
  shows "s = st \<or> (\<exists>t e. record_reconciliation L scope (rq_lineageId rq) (rq_result rq) t e st = (Returned (Inr x), s))"
proof -
  obtain t e where run: "run_in_transaction faults (append_reconciliation_within L foreign scope rq t e clock) PERSISTENCE_CONFLICT st = (Inr x, s)"
    using assms by (auto simp: append_reconciliation_def split: sum.splits)
  have commits: "commits_conflict L st (append_reconciliation_within L foreign scope rq t e clock st)"
    unfolding append_reconciliation_within_def
    by (auto simp: Let_def intro!: commits_never [OF record_never] split: option.splits)
  show ?thesis
    using transaction_success [OF run commits] unfolding append_reconciliation_within_def Let_def pure_success
    by (auto simp: conflict_not_success split: option.splits)
qed


text \<open>
  Claim C11: an operation of the journal that fails changes nothing, with one exception: a conflict with
  committed history commits the HALT it raises, and only that. So a failed call never leaves half
  of its rows behind, whatever fails: validation, the authority, a constraint of a table, \<open>BEGIN\<close>
  or \<open>COMMIT\<close>.
\<close>

theorem journal_failure_is_atomic:
  "(prepare_lineage L foreign faults scope lrq st = (Inl e, s) \<longrightarrow> s = st) \<and>
   (prepare_owned_intent L foreign faults scope irq clock clock2 st = (Inl e, s) \<or>
    append_attempt L foreign faults scope arq clock st = (Inl e, s) \<or>
    append_identity_binding L foreign faults scope brq clock st = (Inl e, s) \<or>
    append_reconciliation L foreign faults scope rrq clock st = (Inl e, s) \<longrightarrow>
      s = st \<or> e = DomainError PERSISTENCE_CONFLICT None \<and> conflict_halt L st s)"
  using prepare_lineage_failure prepare_intent_failure append_attempt_failure append_binding_failure
    append_reconciliation_failure by metis

theorem journal_failure_is_atomic_witness:
  "\<exists>s. prepare_owned_intent zero_lib no_foreign no_faults run_scope (run_intent\<lparr>inq_clientOrderId := ''client-2''\<rparr>) run_clock run_clock
      owned_store = (Fail PERSISTENCE_CONFLICT, s) \<and> s \<noteq> owned_store \<and> conflict_halt zero_lib owned_store s"
proof -
  let ?request = "run_intent\<lparr>inq_clientOrderId := ''client-2''\<rparr>"
  have "case append_conflict_after_halt zero_lib run_scope conflicting_intent ''2024-01-01T00:06:00.000Z'' run_database of
      (Committed (Inl e), db) \<Rightarrow> e = DomainError PERSISTENCE_CONFLICT None \<and> db_halt_events db \<noteq> []
    | (Committed (Inr (u :: owned_intent_record)), db) \<Rightarrow> False | _ \<Rightarrow> False"
    by code_simp
  then obtain db where halt: "append_conflict_after_halt zero_lib run_scope conflicting_intent ''2024-01-01T00:06:00.000Z'' run_database =
      (Committed (Fail PERSISTENCE_CONFLICT :: owned_intent_record result), db)" "db_halt_events db \<noteq> []"
    by (auto split: prod.splits sql_outcome.splits sum.splits)
  have valid: "validate_intent_request ?request = Ok ?request" "stored_identifier (lineage_js run_scope run_lineage_id ''run-1''
      (ep_planId run_plan) zero_hash ''2024-01-01T00:05:00.000Z'') ''run_id'' = Ok ''run-1''"
    "owned_intent_from_row (intent_js run_scope run_owned) = Ok run_owned" "ow_clientOrderId run_owned \<noteq> ''client-2''"
    "db_halt_events run_database = []"
    by code_simp+
  have found: "owned_intent_row owned_store run_scope run_lineage_id ''leg-1'' = Some (intent_js run_scope run_owned)"
    by (simp add: owned_intent_row_def owned_store_rows intent_js_def run_owned_def in_scope_def scope_columns_def)
  have "prepare_owned_intent_within zero_lib no_foreign run_scope ?request run_clock run_clock owned_store =
      (Committed (Fail PERSISTENCE_CONFLICT), owned_store\<lparr>st_authority := db\<rparr>)"
    using found valid halt(1) run_checks(1) run_lineage_row [of "[intent_js run_scope run_owned]" run_database, folded owned_store_eq]
    by (simp add: prepare_owned_intent_within_def run_intent_fields owned_store_rows on_authority_def)
  then have failed: "prepare_owned_intent zero_lib no_foreign no_faults run_scope ?request run_clock run_clock owned_store =
      (Fail PERSISTENCE_CONFLICT, owned_store\<lparr>st_authority := db\<rparr>)"
    by (simp add: prepare_owned_intent_def valid(1) run_in_transaction_def no_faults_def)
  have new: "owned_store\<lparr>st_authority := db\<rparr> \<noteq> owned_store"
    using halt(2) valid(5) owned_store_rows(1) by (metis store.select_convs(1) store.surjective store.update_convs(1))
  show ?thesis
    using failed new journal_failure_is_atomic [of zero_lib no_foreign no_faults run_scope _ owned_store _ _ ?request run_clock run_clock] by blast
qed

text \<open>
  Claim C4: only an authorized caller owns a new intent. When \<open>prepareOwnedIntent\<close> succeeds and has changed
  the journal, the caller holds the account's lease, the trusted clock is before its expiry and
  no takeover is unreconciled; the account's HALT is not active; the committed plan of the
  lineage has the requested hash and contains the requested intent; the committed approval
  validates for that plan at the trusted time; and the one change is the row of the returned
  record.
\<close>

theorem new_intent_authorized:
  assumes "prepare_owned_intent L foreign faults scope request clock clock2 st = (Inr x, s)" "s \<noteq> st"
  shows "\<exists>lease h plan a now later. lease_row_of (st_authority st) scope = Ok (Some lease) \<and>
    la_ownerRunId (inq_authority request) = lr_ownerRunId lease \<and> la_epoch (inq_authority request) = lr_epoch lease \<and>
    trusted_now clock = Ok now \<and> \<not> is_at_or_after now (lr_expiresAt lease) \<and> \<not> lr_reconciliationRequired lease \<and>
    halt_row (st_authority st) scope = Ok h \<and> \<not> hs_active h \<and>
    read_plan L foreign st scope (ow_lineageId x) = Ok (Some plan) \<and> ep_materialHash plan = ow_planHash x \<and> has_intent plan (ow_intentId x) \<and>
    read_approval L foreign st scope (ow_lineageId x) = Ok (Some a) \<and> trusted_now clock2 = Ok later \<and>
    is_ok (validate_approval a (ow_planHash x) later) \<and> s = st\<lparr>st_intents := st_intents st @ [intent_js scope x]\<rparr>"
  using assms
proof (rule intent_success)
  fix parsed lease
  assume "inq_authority parsed = inq_authority request"
    "assert_current_authority (st_authority st) scope (inq_authority request) clock = Inr lease"
    "check_new_intent L foreign st scope parsed lease clock2 = Inr ()"
    and row: "s = st\<lparr>st_intents := st_intents st @ [intent_js scope x]\<rparr>"
    and x: "ow_lineageId x = inq_lineageId parsed" "ow_intentId x = inq_intentId parsed" "ow_planHash x = inq_planHash parsed"
  then show ?thesis
    unfolding assert_current_iff check_new_intent_Ok x row by metis
qed

theorem new_intent_authorized_witness:
  "\<exists>lease h. lease_row_of (st_authority leased_store) run_scope = Ok (Some lease) \<and> \<not> lr_reconciliationRequired lease \<and>
     halt_row (st_authority leased_store) run_scope = Ok h \<and> \<not> hs_active h \<and> has_intent run_plan ''leg-1'' \<and> owned_store \<noteq> leased_store"
proof -
  have "st_intents owned_store \<noteq> st_intents leased_store"
    by (simp add: owned_store_rows leased_store_def prepared_store_def empty_store_def)
  then have new: "owned_store \<noteq> leased_store" by auto
  show ?thesis using new_intent_authorized [OF run_intent_owned new] new run_checks(7) by blast
qed

text \<open>
  Claim C10: an unsettled result stops the account. When a new reconciliation with the status
  \<open>PENDING\<close>, \<open>PARTIAL\<close> or \<open>UNRESOLVED\<close> has been recorded, the account's HALT is active, and no call of
  \<open>prepareOwnedIntent\<close> on that journal owns a new intent: one that succeeds has changed nothing.
\<close>

theorem review_blocks_new_intents:
  assumes "append_reconciliation L foreign faults scope rq clock st = (Inr x, s)" "s \<noteq> st"
    "needs_review (rr_status (rq_result rq))"
  shows "(\<exists>h. halt_row (st_authority s) scope = Inr h \<and> hs_active h) \<and>
    (prepare_owned_intent L foreign faults' scope irq clock' clock2 s = (Inr y, s') \<longrightarrow> s' = s)"
proof (intro conjI impI)
  show halted: "\<exists>h. halt_row (st_authority s) scope = Inr h \<and> hs_active h"
    using reconciliation_success [OF assms(1)] assms(2,3) recorded_halts by blast
  assume again: "prepare_owned_intent L foreign faults' scope irq clock' clock2 s = (Inr y, s')"
  show "s' = s"
  proof (rule ccontr)
    assume "s' \<noteq> s"
    with again obtain parsed current where "check_new_intent L foreign s scope parsed current clock2 = Inr ()"
      by (rule intent_success) blast
    then show False using halted by (auto simp: check_new_intent_Ok)
  qed
qed

theorem review_blocks_new_intents_witness:
  "\<exists>s. append_reconciliation zero_lib no_foreign no_faults run_scope (result_request RecPending) dispatch_clock dispatched_store =
      (Ok (run_record RecPending), s) \<and> s \<noteq> dispatched_store \<and> (\<exists>h. halt_row (st_authority s) run_scope = Inr h \<and> hs_active h) \<and>
      (\<forall>irq y s'. prepare_owned_intent zero_lib no_foreign no_faults run_scope irq run_clock run_clock s = (Inr y, s') \<longrightarrow> s' = s)"
proof -
  obtain db where pending: "append_reconciliation zero_lib no_foreign no_faults run_scope (result_request RecPending) dispatch_clock
      dispatched_store = (Ok (run_record RecPending), (reconciled_store RecPending)\<lparr>st_authority := db\<rparr>)"
    using run_pending by blast
  have "st_reconciliations (reconciled_store RecPending) \<noteq> st_reconciliations dispatched_store"
    by (simp add: reconciled_store_def dispatched_rows)
  then have new: "(reconciled_store RecPending)\<lparr>st_authority := db\<rparr> \<noteq> dispatched_store"
    by (metis store.select_convs(8) store.surjective store.update_convs(1))
  have review: "needs_review (rr_status (rq_result (result_request RecPending)))"
    by (simp add: run_result_fields needs_review_def)
  show ?thesis
    using pending new review_blocks_new_intents [OF pending new review] by blast
qed


subsection \<open>Replays\<close>

lemma hex_alphanumeric: "is_hex c \<Longrightarrow> is_alphanumeric c"
  by (auto simp: is_hex_def is_alphanumeric_def is_digit_def)

lemma deterministic_intent_id:
  assumes "host L v"
  shows "safe_identifier (deterministic_id L ''intent'' s)"
proof -
  have "\<forall>c \<in> set (take 40 (sha256_hex L s)). is_alphanumeric c"
    using host.sha_hex [OF assms, of s] hex_alphanumeric by (auto simp: list_all_iff dest: in_set_takeD)
  then show ?thesis
    using host.sha_length [OF assms, of s]
    by (auto simp: deterministic_id_def safe_identifier_def list_all_iff is_alphanumeric_def)
qed

lemma intent_js_read:
  assumes "safe_identifier (ow_intentRecordId r)" "safe_identifier (ow_lineageId r)" "safe_identifier (ow_intentId r)"
    "hash_text (ow_planHash r)" "safe_identifier (ow_clientOrderId r)" "readable_instant (ow_preparedAt r)"
  shows "owned_intent_from_row (intent_js scope r) = Inr r"
proof -
  have "stored_identifier (intent_js scope r) ''intent_record_id'' = Inr (ow_intentRecordId r)"
    "stored_identifier (intent_js scope r) ''lineage_id'' = Inr (ow_lineageId r)"
    "stored_identifier (intent_js scope r) ''intent_id'' = Inr (ow_intentId r)"
    "stored_hash (intent_js scope r) ''plan_hash'' = Inr (ow_planHash r)"
    "stored_identifier (intent_js scope r) ''client_order_id'' = Inr (ow_clientOrderId r)"
    using assms by (simp_all add: stored_Ok intent_js_columns)
  moreover have "stored_timestamp (intent_js scope r) ''prepared_at'' = Inr (ow_preparedAt r)"
    using assms(6) by (simp add: stored_timestamp_def stored_string_def intent_js_columns readable_parse)
  ultimately show ?thesis by (simp add: owned_intent_from_row_def)
qed

text \<open>
  Claim C12: owning an intent is idempotent. When \<open>prepareOwnedIntent\<close> has succeeded, whether it owned the
  intent or found it owned, the same request succeeds again at any later time its authority is
  current, returns the same record, and changes nothing; neither the HALT state nor the expiry of
  the approval matters any more. (The instant must read back: \<open>instant_reparsed_iff_four_digit_year\<close>.)
\<close>

theorem intent_replay:
  assumes "host L v" "prepare_owned_intent L foreign faults scope request clock clock2 st = (Inr x, s)"
    "assert_current_authority (st_authority s) scope (inq_authority request) clock' = Inr current"
    "readable_instant (ow_preparedAt x)"
  shows "prepare_owned_intent L foreign no_faults scope request clock' clock2' s = (Inr x, s)"
proof -
  obtain parsed where parsed: "validate_intent_request request = Inr parsed" "inq_authority parsed = inq_authority request"
    and run: "prepare_owned_intent_within L foreign scope parsed clock clock2 st = (Returned (Inr x), s)"
    by (rule intent_run [OF assms(2)])
  obtain l where lineage: "lineage_row st scope (inq_lineageId parsed) = Some l"
    "stored_identifier l ''run_id'' = Inr (la_ownerRunId (inq_authority request))"
    using run parsed(2) by (auto simp: prepare_owned_intent_within_def pure_success need_Ok_iff split: if_splits)
  have valid: "safe_identifier (inq_lineageId parsed)" "safe_identifier (inq_intentId parsed)" "hash_text (inq_planHash parsed)"
    "safe_identifier (inq_clientOrderId parsed)"
    using parsed(1)
    by (auto simp: validate_intent_request_def need_Ok_iff require_identifier_Ok require_hash_Ok simp del: parser_simps)
  have "lineage_row s scope (inq_lineageId parsed) = Some l \<and>
      (\<exists>row. owned_intent_row s scope (inq_lineageId parsed) (inq_intentId parsed) = Some row \<and> owned_intent_from_row row = Inr x \<and>
        ow_planHash x = inq_planHash parsed \<and> ow_clientOrderId x = inq_clientOrderId parsed)"
  proof (cases "owned_intent_row st scope (inq_lineageId parsed) (inq_intentId parsed)")
    case (Some row)
    then show ?thesis using intent_known [OF run Some] lineage(1) by simp
  next
    case None
    then obtain current where s: "s = st\<lparr>st_intents := st_intents st @ [intent_js scope x]\<rparr>"
      and x: "x = \<lparr>ow_intentRecordId = deterministic_id L ''intent'' (inq_lineageId parsed @ CHR '':'' # inq_intentId parsed),
        ow_lineageId = inq_lineageId parsed, ow_intentId = inq_intentId parsed, ow_planHash = inq_planHash parsed,
        ow_clientOrderId = inq_clientOrderId parsed, ow_preparedAt = inq_preparedAt parsed\<rparr>"
      by (rule intent_new [OF run])
    have "owned_intent_row s scope (inq_lineageId parsed) (inq_intentId parsed) = Some (intent_js scope x)"
      using None by (simp add: owned_intent_row_def s find_append intent_js_columns) (simp add: x)
    moreover have "owned_intent_from_row (intent_js scope x) = Inr x"
      using assms(4) valid deterministic_intent_id [OF assms(1)] by (intro intent_js_read) (simp_all add: x)
    moreover have "lineage_row s scope (inq_lineageId parsed) = Some l" using lineage(1) by (simp add: lineage_row_def s)
    ultimately show ?thesis by (simp add: x)
  qed
  then have "prepare_owned_intent_within L foreign scope parsed clock' clock2' s = (Returned (Inr x), s)"
    using assms(3) lineage(2) by (auto simp: prepare_owned_intent_within_def parsed(2))
  then show ?thesis by (simp add: prepare_owned_intent_def parsed(1) run_in_transaction_no_faults)
qed

theorem intent_replay_witness:
  "prepare_owned_intent zero_lib no_foreign no_faults run_scope run_intent dispatch_clock None owned_store = (Ok run_owned, owned_store)"
proof -
  have "parse_utc_timestamp (JStr (ow_preparedAt run_owned) :: row) = Inr (ow_preparedAt run_owned)"
    "date_parse (ow_preparedAt run_owned) = Some 1704067560000" "0 \<le> (1704067560000 :: int) \<and> 1704067560000 \<le> last_epoch"
    by code_simp+
  then have readable: "readable_instant (ow_preparedAt run_owned)"
    using parse_instant readable_epoch by (metis option.inject)
  have "assert_current_authority (st_authority owned_store) run_scope (inq_authority run_intent) dispatch_clock =
     Inr \<lparr>lr_ownerRunId = ''run-1'', lr_epoch = 1, lr_acquiredAt = ''2024-01-01T00:05:00.000Z'',
       lr_expiresAt = ''2024-01-01T00:35:00.000Z'', lr_reconciliationRequired = False\<rparr>"
    using run_attempt_checks(1) by (simp add: owned_store_rows run_intent_fields)
  then show ?thesis by (rule intent_replay [OF zero_host run_intent_owned _ readable])
qed


end
