(* ===== verification/HistoryFacts.thy ===== *)
theory HistoryFacts
  imports Execution
begin

text \<open>
  \<open>domain/accounting/history-source-fact.ts\<close>: one row of the provider's history (an order, an
  execution, a closed position or a transaction) as a normalized record with a content hash. The
  record keeps the provider's fields as texts, booleans and \<open>null\<close>, so it is a JavaScript object
  here as well; the fields that follow are lists of their names with the parser of each.

  Shown here: a created fact is accepted again unchanged, and its content hash is the hash of
  its fields without the time of collection.
\<close>

subsection \<open>Fields\<close>

text \<open>A parser of a field returns the stored value, or \<open>None\<close> for \<open>undefined\<close>.\<close>

type_synonym 'd field_parser = "'d jsval \<Rightarrow> 'd jsval option"

definition HISTORY_SOURCE_FACT_SCHEMA :: string where
  "HISTORY_SOURCE_FACT_SCHEMA = ''bybit-history-source-fact/v1''"

definition safe_provider_text :: "'d field_parser" where
  "safe_provider_text value =
     (case value of JNull \<Rightarrow> Some JNull
      | JStr s \<Rightarrow> if 256 < length s \<or> list_ex is_control s then None else Some (if s = [] then JNull else JStr s)
      | _ \<Rightarrow> None)"

definition fact_identifier :: "'d field_parser" where
  "fact_identifier value = (case require_identifier value ''history source identity'' of Inr s \<Rightarrow> Some (JStr s) | Inl e \<Rightarrow> None)"

definition fact_decimal :: "'d lib \<Rightarrow> 'd field_parser" where
  "fact_decimal L value =
     (case value of JNull \<Rightarrow> Some JNull
      | _ \<Rightarrow> (case dec_from_string L value of Inr d \<Rightarrow> Some (JStr (dec_to_string L d)) | Inl e \<Rightarrow> None))"

definition fact_time :: "'d field_parser" where
  "fact_time value = (case parse_utc_timestamp value of Inr t \<Rightarrow> Some (JStr t) | Inl e \<Rightarrow> None)"

definition valid_bool :: "'d field_parser" where
  "valid_bool value = (case value of JNull \<Rightarrow> Some JNull | JBool b \<Rightarrow> Some (JBool b) | _ \<Rightarrow> None)"

text \<open>The field is neither \<open>null\<close> nor \<open>undefined\<close>.\<close>

definition not_null :: "'d field_parser \<Rightarrow> 'd field_parser" where
  "not_null parse value = (case parse value of Some JNull \<Rightarrow> None | r \<Rightarrow> r)"

text \<open>\<open>those\<close> of HOL fails with the first field that does.\<close>

definition parse_fields :: "(string \<times> 'd field_parser) list \<Rightarrow> 'd jsval \<Rightarrow> (string \<times> 'd jsval) list option" where
  "parse_fields specs input = those (map (\<lambda>(name, parse). map_option (Pair name) (parse (get input name))) specs)"

definition valid_fee_detail :: "'d lib \<Rightarrow> 'd field_parser" where
  "valid_fee_detail L entry =
     (if \<not> is_record entry then None
      else map_option JObj (parse_fields [(''currency'', fact_identifier), (''amount'', not_null (fact_decimal L))] entry))"

definition valid_fee_details :: "'d lib \<Rightarrow> 'd field_parser" where
  "valid_fee_details L value =
     (if \<not> is_array value \<or> 100 < length (elements value) then None
      else map_option JArr (those (map (valid_fee_detail L) (elements value))))"

subsection \<open>Facts\<close>

definition common_fields :: "(string \<times> 'd field_parser) list" where
  "common_fields =
     [(''providerEventTime'', fact_time),
      (''providerRevisionTime'', \<lambda>v. if v = JNull then Some JNull else fact_time v)]"

definition order_fields :: "'d lib \<Rightarrow> (string \<times> 'd field_parser) list" where
  "order_fields L =
     [(''category'', fact_identifier), (''symbol'', fact_identifier), (''orderId'', fact_identifier),
      (''side'', not_null safe_provider_text), (''orderType'', not_null safe_provider_text),
      (''orderStatus'', not_null safe_provider_text), (''qty'', not_null (fact_decimal L)),
      (''price'', not_null (fact_decimal L)), (''feeDetails'', valid_fee_details L),
      (''orderLinkId'', safe_provider_text), (''parentOrderLinkId'', safe_provider_text),
      (''timeInForce'', safe_provider_text), (''avgPrice'', fact_decimal L), (''cumExecQty'', fact_decimal L),
      (''cumExecValue'', fact_decimal L), (''cumExecFee'', fact_decimal L), (''leavesQty'', fact_decimal L),
      (''leavesValue'', fact_decimal L), (''createType'', safe_provider_text), (''cancelType'', safe_provider_text),
      (''rejectReason'', safe_provider_text), (''tpslMode'', safe_provider_text), (''tpTriggerBy'', safe_provider_text),
      (''slTriggerBy'', safe_provider_text), (''triggerBy'', safe_provider_text), (''triggerPrice'', fact_decimal L),
      (''takeProfit'', fact_decimal L), (''stopLoss'', fact_decimal L), (''stopOrderType'', safe_provider_text),
      (''marketUnit'', safe_provider_text), (''isLeverage'', safe_provider_text), (''blockTradeId'', safe_provider_text),
      (''reduceOnly'', valid_bool), (''closeOnTrigger'', valid_bool), (''positionIdx'', safe_provider_text)]"

definition execution_fields :: "'d lib \<Rightarrow> (string \<times> 'd field_parser) list" where
  "execution_fields L =
     [(''category'', fact_identifier), (''symbol'', fact_identifier), (''orderId'', fact_identifier),
      (''execId'', fact_identifier), (''side'', not_null safe_provider_text), (''execType'', not_null safe_provider_text),
      (''execPrice'', not_null (fact_decimal L)), (''execQty'', not_null (fact_decimal L)),
      (''orderLinkId'', safe_provider_text), (''orderPrice'', fact_decimal L), (''orderQty'', fact_decimal L),
      (''execValue'', fact_decimal L), (''execFee'', fact_decimal L), (''execFeeV2'', fact_decimal L),
      (''feeCurrency'', safe_provider_text), (''feeRate'', fact_decimal L), (''execPnl'', fact_decimal L),
      (''closedSize'', fact_decimal L), (''isMaker'', valid_bool), (''seq'', safe_provider_text),
      (''leavesQty'', fact_decimal L), (''markPrice'', fact_decimal L), (''indexPrice'', fact_decimal L),
      (''underlyingPrice'', fact_decimal L), (''createType'', safe_provider_text), (''blockTradeId'', safe_provider_text),
      (''extraFees'', safe_provider_text)]"

definition closed_pnl_fields :: "'d lib \<Rightarrow> (string \<times> 'd field_parser) list" where
  "closed_pnl_fields L =
     [(''category'', fact_identifier), (''symbol'', fact_identifier), (''orderId'', fact_identifier),
      (''side'', not_null safe_provider_text), (''orderType'', not_null safe_provider_text),
      (''execType'', not_null safe_provider_text),
      (''qty'', fact_decimal L), (''orderPrice'', fact_decimal L), (''closedSize'', fact_decimal L),
      (''cumEntryValue'', fact_decimal L), (''avgEntryPrice'', fact_decimal L), (''cumExitValue'', fact_decimal L),
      (''avgExitPrice'', fact_decimal L), (''closedPnl'', fact_decimal L), (''openFee'', fact_decimal L),
      (''closeFee'', fact_decimal L), (''fundingFee'', fact_decimal L), (''fillCount'', fact_decimal L),
      (''leverage'', fact_decimal L)]"

definition transaction_fields :: "'d lib \<Rightarrow> (string \<times> 'd field_parser) list" where
  "transaction_fields L =
     [(''transactionId'', fact_identifier), (''category'', safe_provider_text), (''symbol'', safe_provider_text),
      (''side'', safe_provider_text), (''currency'', safe_provider_text), (''type'', safe_provider_text),
      (''transSubType'', safe_provider_text), (''qty'', fact_decimal L), (''size'', fact_decimal L),
      (''tradePrice'', fact_decimal L), (''cashFlow'', fact_decimal L), (''funding'', fact_decimal L),
      (''fee'', fact_decimal L), (''feeRate'', fact_decimal L), (''change'', fact_decimal L),
      (''bonusChange'', fact_decimal L), (''cashBalance'', fact_decimal L), (''tradeId'', safe_provider_text),
      (''orderId'', safe_provider_text), (''orderLinkId'', safe_provider_text), (''displayType'', safe_provider_text),
      (''extraFees'', safe_provider_text)]"

text \<open>Kind, source and fields of the four kinds of facts.\<close>

definition fact_kinds :: "'d lib \<Rightarrow> (string \<times> string \<times> (string \<times> 'd field_parser) list) list" where
  "fact_kinds L =
     [(''order'', ''order-history'', order_fields L), (''execution'', ''executions'', execution_fields L),
      (''closed-pnl'', ''closed-pnl'', closed_pnl_fields L), (''transaction'', ''transaction-log'', transaction_fields L)]"

definition grouping_key :: "'d jsval \<Rightarrow> 'd jsval" where
  "grouping_key core = JObj
     [(''category'', get core ''category''), (''symbol'', get core ''symbol''), (''orderId'', get core ''orderId''),
      (''createdTime'', get core ''providerEventTime'')]"

text \<open>What is hashed: everything but the time of collection.\<close>

definition fact_core :: "'d lib \<Rightarrow> 'd jsval \<Rightarrow> 'd jsval option" where
  "fact_core L input =
     (case find (\<lambda>(kind, source, specs). get input ''factKind'' = JStr kind \<and> get input ''source'' = JStr source) (fact_kinds L) of
        None \<Rightarrow> None
      | Some (kind, source, specs) \<Rightarrow>
          (case parse_fields (common_fields @ specs) input of None \<Rightarrow> None
           | Some parsed \<Rightarrow>
               let core = [(''factKind'', JStr kind), (''source'', JStr source)] @ parsed in
               Some (JObj (core @ (if kind = ''closed-pnl'' then [(''groupingKey'', grouping_key (JObj core))] else [])))))"

definition create_history_source_fact :: "'d lib \<Rightarrow> 'd jsval \<Rightarrow> 'd jsval result" where
  "create_history_source_fact L input =
     guard INVALID_VALUE (is_record input) (
     need_some INVALID_VALUE (fact_time (get input ''collectedAt'')) (\<lambda>collectedAt.
     need_some INVALID_VALUE (fact_core L input) (\<lambda>core.
     need INVALID_VALUE (hash_canonical L core) (\<lambda>hash.
     Ok (JObj ((''schemaVersion'', JStr HISTORY_SOURCE_FACT_SCHEMA) #
       (case core of JObj kvs \<Rightarrow> kvs | _ \<Rightarrow> []) @
       [(''collectedAt'', collectedAt), (''contentHash'', JStr hash)]))))))"


subsection \<open>A fact read again\<close>

text \<open>A parser that accepts what it returned, unchanged.\<close>

definition normalizes :: "'d field_parser \<Rightarrow> bool" where
  "normalizes parse \<longleftrightarrow> (\<forall>value w. parse value = Some w \<longrightarrow> parse w = Some w)"

named_theorems normalizing \<open>the parsers of fields normalize\<close>

lemma normalizes_text [normalizing]: "normalizes safe_provider_text"
  by (auto simp: normalizes_def safe_provider_text_def split: jsval.splits if_splits)

lemma normalizes_identifier [normalizing]: "normalizes fact_identifier"
  by (auto simp: normalizes_def fact_identifier_def require_identifier_Ok simp del: parser_simps split: sum.splits)
    (auto simp: require_identifier_def require_string_def split: jsval.splits if_splits)

lemma normalizes_bool [normalizing]: "normalizes valid_bool"
  by (auto simp: normalizes_def valid_bool_def split: jsval.splits)

lemma normalizes_not_null [normalizing]: "normalizes p \<Longrightarrow> normalizes (not_null p)"
  by (auto simp: normalizes_def not_null_def split: option.splits jsval.splits)

lemma those_Some_iff: "those xs = Some ys \<longleftrightarrow> xs = map Some ys"
proof (induction xs arbitrary: ys)
  case (Cons x xs)
  then show ?case by (cases x; cases ys) auto
qed auto

text \<open>What a list of fields returns: their names in order, and the parsed value of each.\<close>

lemma parse_fields_Some_iff:
  "parse_fields specs input = Some kvs \<longleftrightarrow>
     list_all2 (\<lambda>spec kv. fst kv = fst spec \<and> snd spec (get input (fst spec)) = Some (snd kv)) specs kvs"
proof -
  have "map (\<lambda>(name, parse). map_option (Pair name) (parse (get input name))) specs = map Some kvs \<longleftrightarrow>
      list_all2 (\<lambda>spec kv. map_option (Pair (fst spec)) (snd spec (get input (fst spec))) = Some kv) specs kvs"
    by (auto simp: list_all2_conv_all_nth list_eq_iff_nth_eq split_beta)
  moreover have "map_option (Pair name) r = Some kv \<longleftrightarrow> fst kv = name \<and> r = Some (snd kv)" for name r and kv :: "string \<times> 'a jsval"
    by (cases r; cases kv) auto
  ultimately show ?thesis by (simp add: parse_fields_def those_Some_iff)
qed

lemma parse_fields_names: "parse_fields specs input = Some kvs \<Longrightarrow> map fst kvs = map fst specs"
  by (auto simp: parse_fields_Some_iff list_all2_conv_all_nth list_eq_iff_nth_eq)

lemma parse_fields_again:
  assumes "parse_fields specs input = Some kvs"
    "\<And>spec w. spec \<in> set specs \<Longrightarrow> snd spec (get input (fst spec)) = Some w \<Longrightarrow> get obj (fst spec) = w \<Longrightarrow> snd spec w = Some w"
    "\<forall>kv \<in> set kvs. get obj (fst kv) = snd kv"
  shows "parse_fields specs obj = Some kvs"
  using assms unfolding parse_fields_Some_iff list_all2_conv_all_nth by (metis nth_mem)

lemma parse_fields_normal:
  assumes "parse_fields specs input = Some kvs" "\<forall>spec \<in> set specs. normalizes (snd spec)"
    "\<forall>kv \<in> set kvs. get obj (fst kv) = snd kv"
  shows "parse_fields specs obj = Some kvs"
  using assms(2,3) by (intro parse_fields_again [OF assms(1)]) (auto simp: normalizes_def)

lemma found_member: "find P xs = Some x \<Longrightarrow> x \<in> set xs \<and> P x"
  by (induction xs) (auto split: if_splits)

lemma get_distinct: "distinct (map fst kvs) \<Longrightarrow> kv \<in> set kvs \<Longrightarrow> get (JObj kvs) (fst kv) = snd kv"
  by (cases kv) (auto dest: map_of_is_SomeI)

context big_decimal
begin

lemma normalizes_decimal [normalizing]: "normalizes (fact_decimal L)"
  unfolding normalizes_def
proof (intro allI impI)
  fix "value" w
  assume w: "fact_decimal L value = Some w"
  show "fact_decimal L w = Some w"
  proof (cases "value = JNull")
    case True
    then show ?thesis using w by (auto simp: fact_decimal_def)
  next
    case False
    then obtain d where "w = JStr (dec_to_string L d)"
      using w by (auto simp: fact_decimal_def split: jsval.splits sum.splits)
    moreover obtain d' where "dec_from_string L (JStr (dec_to_string L d)) = Inr d'" "v d' = v d" using from_to_string by blast
    ultimately show ?thesis by (simp add: fact_decimal_def to_string_eq_iff)
  qed
qed

lemma normalizes_fee_detail: "normalizes (valid_fee_detail L)"
  unfolding normalizes_def
proof (intro allI impI)
  fix "value" w
  let ?specs = "[(''currency'', fact_identifier), (''amount'', not_null (fact_decimal L))]"
  assume "valid_fee_detail L value = Some w"
  then obtain kvs where kvs: "parse_fields ?specs value = Some kvs" "w = JObj kvs"
    by (auto simp: valid_fee_detail_def split: if_splits)
  have "distinct (map fst kvs)" using parse_fields_names [OF kvs(1)] by simp
  then have "parse_fields ?specs w = Some kvs"
    using kvs by (intro parse_fields_normal [OF kvs(1)]) (auto simp: normalizing intro: get_distinct)
  then show "valid_fee_detail L w = Some w" by (simp add: valid_fee_detail_def kvs(2))
qed

lemma normalizes_fee_details [normalizing]: "normalizes (valid_fee_details L)"
  unfolding normalizes_def
proof (intro allI impI)
  fix "value" w
  assume "valid_fee_details L value = Some w"
  then obtain ws where ws: "map (valid_fee_detail L) (elements value) = map Some ws" "w = JArr ws" "length (elements value) \<le> 100"
    by (auto simp: valid_fee_details_def those_Some_iff split: if_splits)
  have "map (valid_fee_detail L) ws = map Some ws"
    using ws(1) normalizes_fee_detail unfolding normalizes_def
    by (metis (mono_tags, lifting) list_eq_iff_nth_eq length_map nth_map)
  moreover have "length ws \<le> 100" using ws(1,3) map_eq_imp_length_eq by metis
  ultimately show "valid_fee_details L w = Some w" by (simp add: valid_fee_details_def ws(2) those_Some_iff)
qed

lemma fact_kinds_normalize: "(kind, source, specs) \<in> set (fact_kinds L) \<Longrightarrow> \<forall>spec \<in> set specs. normalizes (snd spec)"
  by (auto simp: fact_kinds_def order_fields_def execution_fields_def closed_pnl_fields_def transaction_fields_def normalizing)

end

lemma find_fact_kind:
  "(kind, source, specs) \<in> set (fact_kinds L) \<Longrightarrow> get value ''factKind'' = JStr kind \<Longrightarrow> get value ''source'' = JStr source \<Longrightarrow>
    find (\<lambda>(kind, source, specs). get value ''factKind'' = JStr kind \<and> get value ''source'' = JStr source) (fact_kinds L) =
      Some (kind, source, specs)"
  by (auto simp: fact_kinds_def)

lemma fact_names:
  "(kind, source, specs) \<in> set (fact_kinds L) \<Longrightarrow>
    distinct ([''schemaVersion'', ''factKind'', ''source''] @ map fst (common_fields @ specs) @ [''groupingKey'', ''collectedAt'', ''contentHash''])"
  by (auto simp: fact_kinds_def order_fields_def execution_fields_def closed_pnl_fields_def transaction_fields_def common_fields_def)

lemma fact_core_cases:
  assumes "fact_core L input = Some core"
  obtains kind source specs parsed where "(kind, source, specs) \<in> set (fact_kinds L)"
    "parse_fields (common_fields @ specs) input = Some parsed"
    "core = (let core = [(''factKind'', JStr kind), (''source'', JStr source)] @ parsed in
       JObj (core @ (if kind = ''closed-pnl'' then [(''groupingKey'', grouping_key (JObj core))] else [])))"
  using assms by (auto simp: fact_core_def Let_def dest!: found_member split: option.splits prod.splits)

lemma fact_core_eq:
  "(kind, source, specs) \<in> set (fact_kinds L) \<Longrightarrow> get value ''factKind'' = JStr kind \<Longrightarrow> get value ''source'' = JStr source \<Longrightarrow>
    parse_fields (common_fields @ specs) value = Some parsed \<Longrightarrow>
    fact_core L value = Some (let core = [(''factKind'', JStr kind), (''source'', JStr source)] @ parsed in
       JObj (core @ (if kind = ''closed-pnl'' then [(''groupingKey'', grouping_key (JObj core))] else [])))"
  unfolding fact_core_def by (subst find_fact_kind) (assumption | simp)+

lemma stored_time: "fact_time value = Some w \<Longrightarrow> (\<And>t. w = JStr t \<Longrightarrow> readable_instant t) \<Longrightarrow> fact_time w = Some w"
  by (auto simp: fact_time_def readable_parse split: sum.splits)

context big_decimal
begin

lemma fact_specs_again:
  assumes kind: "(kind, source, specs) \<in> set (fact_kinds L)" and spec: "spec \<in> set (common_fields @ specs)"
    and w: "snd spec value = Some w"
    and readable: "\<And>t. fst spec \<in> {''providerEventTime'', ''providerRevisionTime''} \<Longrightarrow> w = JStr t \<Longrightarrow> readable_instant t"
  shows "snd spec w = Some w"
proof (cases "spec \<in> set specs")
  case True
  then show ?thesis using fact_kinds_normalize [OF kind] w by (auto simp: normalizes_def)
next
  case False
  then have "spec \<in> set common_fields" using spec by simp
  then show ?thesis
    using w readable by (auto simp: common_fields_def stored_time split: if_splits)
qed

lemma created_fact:
  assumes "create_history_source_fact L input = Ok row"
    "\<forall>field \<in> {''providerEventTime'', ''providerRevisionTime'', ''collectedAt''}. \<forall>t. get row field = JStr t \<longrightarrow> readable_instant t"
  shows "create_history_source_fact L row = Ok row \<and>
    (\<exists>kvs collected hash. row = JObj ((''schemaVersion'', JStr HISTORY_SOURCE_FACT_SCHEMA) # kvs @
        [(''collectedAt'', collected), (''contentHash'', JStr hash)]) \<and> hash_canonical L (JObj kvs) = Ok hash)"
proof -
  obtain collected core hash where c: "fact_time (get input ''collectedAt'') = Some collected" "fact_core L input = Some core"
    "hash_canonical L core = Ok hash"
    "row = JObj ((''schemaVersion'', JStr HISTORY_SOURCE_FACT_SCHEMA) #
       (case core of JObj kvs \<Rightarrow> kvs | _ \<Rightarrow> []) @ [(''collectedAt'', collected), (''contentHash'', JStr hash)])"
    using assms(1) by (auto simp: create_history_source_fact_def need_Ok_iff)
  obtain kind source specs parsed where k: "(kind, source, specs) \<in> set (fact_kinds L)"
    "parse_fields (common_fields @ specs) input = Some parsed"
    "core = (let core = [(''factKind'', JStr kind), (''source'', JStr source)] @ parsed in
       JObj (core @ (if kind = ''closed-pnl'' then [(''groupingKey'', grouping_key (JObj core))] else [])))"
    by (rule fact_core_cases [OF c(2)])
  define tail where "tail = (if kind = ''closed-pnl''
    then [(''groupingKey'', grouping_key (JObj ([(''factKind'', JStr kind), (''source'', JStr source)] @ parsed)))] else [])"
  define kvs where "kvs = [(''factKind'', JStr kind), (''source'', JStr source)] @ parsed @ tail"
  have core: "core = JObj kvs" using k(3) by (simp add: kvs_def tail_def Let_def)
  have row: "row = JObj ((''schemaVersion'', JStr HISTORY_SOURCE_FACT_SCHEMA) # kvs @ [(''collectedAt'', collected), (''contentHash'', JStr hash)])"
    using c(4) core by simp
  have names: "distinct (map fst ((''schemaVersion'', JStr HISTORY_SOURCE_FACT_SCHEMA) # kvs @ [(''collectedAt'', collected), (''contentHash'', JStr hash)]))"
    using fact_names [OF k(1)] parse_fields_names [OF k(2)] by (auto simp: kvs_def tail_def)
  have field: "get row name = w" if "(name, w) \<in> set kvs \<or> (name, w) = (''collectedAt'', collected)" for name w
    using get_distinct [OF names, of "(name, w)"] that by (auto simp: row)
  have kind: "get row ''factKind'' = JStr kind" "get row ''source'' = JStr source" "get row ''collectedAt'' = collected"
    by (auto intro!: field simp: kvs_def)
  have "parse_fields (common_fields @ specs) row = Some parsed"
  proof (rule parse_fields_again [OF k(2)])
    show "\<forall>kv \<in> set parsed. get row (fst kv) = snd kv" by (auto intro!: field simp: kvs_def)
    fix spec w
    assume "spec \<in> set (common_fields @ specs)" "snd spec (get input (fst spec)) = Some w" "get row (fst spec) = w"
    then show "snd spec w = Some w" using assms(2) by (auto intro: fact_specs_again [OF k(1)])
  qed
  from fact_core_eq [OF k(1) kind(1,2) this] have again: "fact_core L row = Some core" by (simp add: k(3))
  have "fact_time collected = Some collected"
    by (rule stored_time [OF c(1)]) (use assms(2) kind(3) in blast)
  then have "create_history_source_fact L row = Ok row"
    using again c(3,4) kind(3) by (simp add: create_history_source_fact_def)
  then show ?thesis using row c(3) core by blast
qed

end

text \<open>
  Claim C19: a history fact is a normal form. What \<open>createHistorySourceFact\<close> returns it accepts again,
  unchanged, and the content hash it carries is the hash of the fact without its schema version,
  its time of collection and the hash itself. (Its instants must read back:
  \<open>instant_reparsed_iff_four_digit_year\<close>.)
\<close>

theorem history_fact_normal:
  assumes "host L v" "create_history_source_fact L input = Ok row"
    "\<forall>field \<in> {''providerEventTime'', ''providerRevisionTime'', ''collectedAt''}. \<forall>t. get row field = JStr t \<longrightarrow> readable_instant t"
  shows "create_history_source_fact L row = Ok row \<and>
    (\<exists>kvs collected hash. row = JObj ((''schemaVersion'', JStr HISTORY_SOURCE_FACT_SCHEMA) # kvs @
        [(''collectedAt'', collected), (''contentHash'', JStr hash)]) \<and> hash_canonical L (JObj kvs) = Ok hash)"
  using assms(2,3) by (rule big_decimal.created_fact [OF host.axioms(1) [OF assms(1)]])

definition sample_transaction :: "sdec jsval" where
  "sample_transaction = JObj
     [(''factKind'', JStr ''transaction''), (''source'', JStr ''transaction-log''),
      (''providerEventTime'', JStr ''2024-01-01T00:00:00.000Z''), (''providerRevisionTime'', JNull),
      (''collectedAt'', JStr ''2024-01-01T00:00:30.000Z''), (''transactionId'', JStr ''tx-1''),
      (''category'', JStr ''linear''), (''symbol'', JStr ''BTCUSDT''), (''side'', JStr []), (''currency'', JStr ''USDT''),
      (''type'', JStr ''SETTLEMENT''), (''transSubType'', JNull), (''qty'', JStr ''0.10''), (''size'', JNull),
      (''tradePrice'', JNull), (''cashFlow'', JStr ''0''), (''funding'', JStr ''-0.250''), (''fee'', JNull),
      (''feeRate'', JNull), (''change'', JStr ''-0.25''), (''bonusChange'', JNull), (''cashBalance'', JNull),
      (''tradeId'', JNull), (''orderId'', JNull), (''orderLinkId'', JNull), (''displayType'', JNull), (''extraFees'', JNull)]"

theorem history_fact_normal_witness:
  "\<exists>row. create_history_source_fact ref_lib sample_transaction = Ok row \<and> create_history_source_fact ref_lib row = Ok row \<and>
    get row ''funding'' = JStr ''-0.25'' \<and> get row ''side'' = JNull"
proof -
  have core: "case fact_core ref_lib sample_transaction of None \<Rightarrow> False
    | Some core \<Rightarrow> serializable core \<and> get core ''funding'' = JStr ''-0.25'' \<and> get core ''side'' = JNull \<and>
        get core ''providerEventTime'' = JStr ''2024-01-01T00:00:00.000Z'' \<and> get core ''providerRevisionTime'' = JNull \<and>
        \<not> has_key core ''collectedAt'' \<and> (case core of JObj kvs \<Rightarrow> True | _ \<Rightarrow> False)"
    by code_simp
  then obtain kvs where kvs: "fact_core ref_lib sample_transaction = Some (JObj kvs)" "serializable (JObj kvs)"
    "get (JObj kvs) ''funding'' = JStr ''-0.25''" "get (JObj kvs) ''side'' = JNull"
    "get (JObj kvs) ''providerEventTime'' = JStr ''2024-01-01T00:00:00.000Z''" "get (JObj kvs) ''providerRevisionTime'' = JNull"
    "\<not> has_key (JObj kvs) ''collectedAt''"
    by (auto split: option.splits jsval.splits)
  have time: "fact_time (get sample_transaction ''collectedAt'') = Some (JStr ''2024-01-01T00:00:30.000Z'')" "is_record sample_transaction"
    by code_simp+
  obtain hash where hash: "hash_canonical ref_lib (JObj kvs) = Ok hash" using kvs(2) by (simp add: hash_canonical_Ok)
  define row where "row = JObj ((''schemaVersion'', JStr HISTORY_SOURCE_FACT_SCHEMA) # kvs @
    [(''collectedAt'', JStr ''2024-01-01T00:00:30.000Z''), (''contentHash'', JStr hash)])"
  have get: "get row name = get (JObj kvs) name" if "get (JObj kvs) name \<noteq> JUndef" "name \<noteq> ''schemaVersion''" for name
    using that by (auto simp: row_def map_add_def split: option.splits)
  have collected: "get row ''collectedAt'' = JStr ''2024-01-01T00:00:30.000Z''"
    using kvs(7) by (auto simp: row_def map_add_def rev_image_eqI dest!: map_of_SomeD split: option.splits)
  have specs: "get row ''providerEventTime'' = JStr ''2024-01-01T00:00:00.000Z''" "get row ''providerRevisionTime'' = JNull"
    "get row ''funding'' = JStr ''-0.25''" "get row ''side'' = JNull"
    using kvs(3-6) get by simp_all
  have created: "create_history_source_fact ref_lib sample_transaction = Ok row"
    by (simp add: create_history_source_fact_def time kvs(1) hash row_def)
  have "\<forall>field \<in> {''providerEventTime'', ''providerRevisionTime'', ''collectedAt''}. \<forall>t. get row field = JStr t \<longrightarrow> readable_instant t"
    using specs collected sample_instant_readable sample_instant_readable_later by auto
  from history_fact_normal [OF ref_host created this] show ?thesis using created specs by blast
qed

end
