(* ===== verification/Attribution.thy ===== *)
theory Attribution
  imports HistoryFacts Authority Json "HOL-Library.AList"
begin

text \<open>
  \<open>application/history-attribution.ts\<close>: which of the trader's own orders a row of the provider's
  history belongs to, and the amounts of money it carries. An order of the trader is a lineage: a
  client order id with the exchange orders and executions its records name. A row belongs to a
  lineage only by an identifier they share, or as an execution of an order that does.

  Facts are the normalized objects of \<open>HistoryFacts\<close>. The snapshots hold what the code reads of
  them. \<open>collate\<close> stands for \<open>localeCompare\<close>, which depends on the locale; it only decides the
  order of ambiguous candidates. A \<open>Map\<close> is an association list in order of insertion.

  Shown here: the ownership of each row is decided exactly by the lineages that share an
  identifier with it, and an ambiguous or missing owner is never guessed.
\<close>

subsection \<open>Observations\<close>

datatype history_source = OrderHistory | Executions | ClosedPnl | TransactionLog

record history_scope =
  hsc_exchange :: string
  hsc_environment :: string
  hsc_accountId :: string

record 'd stored_observation =
  ob_observationId :: string
  ob_scope :: history_scope
  ob_source :: history_source
  ob_eventIdentity :: string
  ob_contentHash :: string
  ob_canonicalHash :: string
  ob_providerEventTime :: string
  ob_providerRevisionTime :: "string option"
  ob_collectedAt :: string
  ob_fact :: "'d jsval"

text \<open>A field of a fact that is a text or \<open>null\<close>.\<close>

definition fact_text :: "'d jsval \<Rightarrow> string \<Rightarrow> string option" where
  "fact_text row name = (case get row name of JStr s \<Rightarrow> Some s | _ \<Rightarrow> None)"

definition fact_kind :: "'d stored_observation \<Rightarrow> string" where
  "fact_kind ob = (case fact_text (ob_fact ob) ''factKind'' of Some s \<Rightarrow> s | None \<Rightarrow> [])"

subsection \<open>Money\<close>

datatype money_kind =
    OrderCumulativeFee | OrderFeeDetail | ExecutionFee | ExecutionFeeV2 | ExecutionPnl | ClosedPosition
  | OpenFee | CloseFee | FundingFee | CashFlow | FundingAmount | FeeAmount | ChangeAmount | BonusChange | CashBalance

datatype money_field = AmountField | CurrencyField

record history_money =
  mc_component :: money_kind
  mc_amount :: "string option"
  mc_currency :: "string option"
  mc_complete :: bool
  mc_unknownFields :: "money_field list"
  mc_observationId :: string
  mc_source :: history_source
  mc_factKind :: string
  mc_field :: string

definition money_component :: "'d stored_observation \<Rightarrow> string \<Rightarrow> money_kind \<Rightarrow> string option \<Rightarrow> string option \<Rightarrow> history_money" where
  "money_component ob name component amt currency =
     (let unknown = (if amt = None then [AmountField] else []) @ (if currency = None then [CurrencyField] else []) in
      \<lparr>mc_component = component, mc_amount = amt, mc_currency = currency, mc_complete = (unknown = []),
       mc_unknownFields = unknown, mc_observationId = ob_observationId ob, mc_source = ob_source ob,
       mc_factKind = fact_kind ob, mc_field = name\<rparr>)"

text \<open>\<open>/fund/iu\<close>\<close>

definition mentions_funding :: "string \<Rightarrow> bool" where
  "mentions_funding s = list_ex (\<lambda>i. take 4 (drop i (map lower_char s)) = ''fund'') [0..<length s]"

definition optional_money :: "'d stored_observation \<Rightarrow> string \<Rightarrow> money_kind \<Rightarrow> string option \<Rightarrow> history_money list" where
  "optional_money ob name component currency =
     (case fact_text (ob_fact ob) name of None \<Rightarrow> []
      | Some s \<Rightarrow> [money_component ob name component (Some s) currency])"

definition transaction_money :: "'d stored_observation \<Rightarrow> string \<Rightarrow> money_kind \<Rightarrow> history_money list" where
  "transaction_money ob name component =
     (let row = ob_fact ob; amt = fact_text row name;
          text_of = (\<lambda>n. case fact_text row n of Some s \<Rightarrow> s | None \<Rightarrow> []);
          expected = name = ''funding'' \<and> mentions_funding (text_of ''type'' @ CHR '' '' # text_of ''transSubType'') in
      if amt \<noteq> None \<or> expected then [money_component ob name component amt (fact_text row ''currency'')] else [])"

definition history_money_components :: "'d stored_observation \<Rightarrow> history_money list" where
  "history_money_components ob =
     (let row = ob_fact ob; text = fact_text row in
      if fact_kind ob = ''order'' then
        optional_money ob ''cumExecFee'' OrderCumulativeFee None @
        map (\<lambda>detail. money_component ob ''feeDetails'' OrderFeeDetail (fact_text detail ''amount'') (fact_text detail ''currency''))
          (elements (get row ''feeDetails''))
      else if fact_kind ob = ''execution'' then
        [money_component ob ''execFee'' ExecutionFee (text ''execFee'') (text ''feeCurrency'')] @
        optional_money ob ''execFeeV2'' ExecutionFeeV2 (text ''feeCurrency'') @
        optional_money ob ''execPnl'' ExecutionPnl None
      else if fact_kind ob = ''closed-pnl'' then
        [money_component ob ''closedPnl'' ClosedPosition (text ''closedPnl'') None,
         money_component ob ''openFee'' OpenFee (text ''openFee'') None,
         money_component ob ''closeFee'' CloseFee (text ''closeFee'') None,
         money_component ob ''fundingFee'' FundingFee (text ''fundingFee'') None]
      else
        concat (map (\<lambda>(name, component). transaction_money ob name component)
          [(''cashFlow'', CashFlow), (''funding'', FundingAmount), (''fee'', FeeAmount), (''change'', ChangeAmount),
           (''bonusChange'', BonusChange), (''cashBalance'', CashBalance)]))"

subsection \<open>Lineages\<close>

datatype lineage_kind = OperatorTest | PreparedLeg

definition lineage_kind_text :: "lineage_kind \<Rightarrow> string" where
  "lineage_kind_text k = (case k of OperatorTest \<Rightarrow> ''operator-mainnet-test'' | PreparedLeg \<Rightarrow> ''prepared-leg'')"

record lineage =
  hl_kind :: lineage_kind
  hl_sourceId :: string
  hl_scope :: persistence_scope
  hl_clientOrderId :: string
  hl_exchangeOrderIds :: "string list"
  hl_executionIds :: "string list"

record operator_reconciliation =
  or_sourceId :: string
  or_canonicalJson :: string
  or_canonicalHash :: string

record operator_snapshot =
  os_sourceId :: string
  os_scope :: persistence_scope
  os_planHash :: string
  os_clientOrderId :: string
  os_planContentHash :: string
  os_planClientOrderId :: string
  os_planAccountIdentityHash :: string
  os_intentSourceId :: string
  os_intentOperation :: string
  os_attemptExchangeOrderId :: "string option"
  os_reconciliations :: "operator_reconciliation list"

record protection_evidence =
  pe_sourceId :: string
  pe_parentExchangeOrderId :: string
  pe_childExchangeOrderIds :: "string list"
  pe_entryExecutionIds :: "string list"
  pe_exitExecutionIds :: "string list"

record prepared_reconciliation =
  pr_sourceId :: string
  pr_exchangeOrderId :: "string option"
  pr_protectionEvidence :: "protection_evidence option"

record prepared_snapshot =
  pq_sourceId :: string
  pq_lineageScope :: persistence_scope
  pq_clientOrderId :: string
  pq_intentSourceId :: string
  pq_intentOperation :: string
  pq_intentClientOrderId :: string
  pq_intentExchangeOrderId :: "string option"
  pq_reconciliations :: "prepared_reconciliation list"

text \<open>An identifier that is there and not empty.\<close>

definition truthy_text :: "string option \<Rightarrow> string list" where
  "truthy_text x = (case x of Some s \<Rightarrow> if s = [] then [] else [s] | None \<Rightarrow> [])"

definition text_member :: "string \<Rightarrow> 'd jsval \<Rightarrow> string list" where
  "text_member name value = (if is_record value then (case get value name of JStr s \<Rightarrow> [s] | _ \<Rightarrow> []) else [])"

definition array_members :: "('d jsval \<Rightarrow> string list) \<Rightarrow> 'd jsval \<Rightarrow> string list" where
  "array_members member value = (if is_array value then concat (map member (elements value)) else [])"

text \<open>The order and execution ids of one stored reconciliation, when its text and hash agree.\<close>

definition recorded_ids :: "'d lib \<Rightarrow> string \<Rightarrow> operator_reconciliation \<Rightarrow> string list \<times> string list" where
  "recorded_ids L sourceId r =
     (if or_sourceId r \<noteq> sourceId then ([], [])
      else (case json_parse (or_canonicalJson r) :: 'd jsval option of None \<Rightarrow> ([], [])
        | Some decoded \<Rightarrow>
            let evidence = get decoded ''evidence'' in
            if hash_canonical L decoded \<noteq> Ok (or_canonicalHash r) \<or> \<not> is_record decoded \<or>
              get decoded ''schemaVersion'' \<noteq> JStr ''operator-mainnet-test-reconciliation/v1'' \<or>
              get decoded ''sourceId'' \<noteq> JStr sourceId \<or> \<not> is_record evidence \<or>
              get evidence ''schemaVersion'' \<noteq> JStr ''operator-mainnet-test-status-evidence/v1''
            then ([], [])
            else
              (text_member ''exchangeOrderId'' (get evidence ''parent'') @
               array_members (text_member ''exchangeOrderId'') (get evidence ''tpChildren''),
               array_members (text_member ''executionId'') (get evidence ''entryFills'') @
               array_members (\<lambda>v. case v of JStr s \<Rightarrow> [s] | _ \<Rightarrow> []) (get evidence ''tpExitExecutionIds''))))"

definition operator_lineage :: "'d lib \<Rightarrow> operator_snapshot \<Rightarrow> lineage option" where
  "operator_lineage L s =
     (if os_sourceId s \<noteq> os_intentSourceId s \<or> os_intentOperation s \<noteq> ''CREATE'' \<or> os_planHash s \<noteq> os_planContentHash s \<or>
        os_clientOrderId s \<noteq> os_planClientOrderId s \<or> os_planAccountIdentityHash s \<noteq> ps_accountId (os_scope s)
      then None
      else
        let recorded = map (recorded_ids L (os_sourceId s)) (os_reconciliations s) in
        Some \<lparr>hl_kind = OperatorTest, hl_sourceId = os_sourceId s, hl_scope = os_scope s, hl_clientOrderId = os_clientOrderId s,
          hl_exchangeOrderIds = truthy_text (os_attemptExchangeOrderId s) @ concat (map fst recorded),
          hl_executionIds = concat (map snd recorded)\<rparr>)"

definition prepared_leg_lineage :: "prepared_snapshot \<Rightarrow> lineage option" where
  "prepared_leg_lineage s =
     (if pq_intentSourceId s \<noteq> pq_sourceId s \<or> pq_intentOperation s \<noteq> ''create'' \<or> pq_intentClientOrderId s \<noteq> pq_clientOrderId s
      then None
      else
        let own = filter (\<lambda>r. pr_sourceId r = pq_sourceId s) (pq_reconciliations s);
            protections = filter (\<lambda>p. pe_sourceId p = pq_sourceId s) (concat (map (\<lambda>r. case pr_protectionEvidence r of
              None \<Rightarrow> [] | Some p \<Rightarrow> [p]) own)) in
        Some \<lparr>hl_kind = PreparedLeg, hl_sourceId = pq_sourceId s, hl_scope = pq_lineageScope s, hl_clientOrderId = pq_clientOrderId s,
          hl_exchangeOrderIds = truthy_text (pq_intentExchangeOrderId s) @ concat (map (\<lambda>r. truthy_text (pr_exchangeOrderId r)) own) @
            concat (map (\<lambda>p. pe_parentExchangeOrderId p # pe_childExchangeOrderIds p) protections),
          hl_executionIds = concat (map (\<lambda>p. pe_entryExecutionIds p @ pe_exitExecutionIds p) protections)\<rparr>)"

definition usable_scope :: "persistence_scope \<Rightarrow> history_scope \<Rightarrow> bool" where
  "usable_scope scope history \<longleftrightarrow>
     ps_exchange scope = hsc_exchange history \<and> ps_environment scope = hsc_environment history \<and>
     ps_accountId scope = hsc_accountId history \<and> ps_exchange scope = ''bybit''"

subsection \<open>Ownership\<close>

datatype ownership_match = ByClientOrderId | ByExchangeOrderId | ByExecutionId | ByParentOrderLink | ByLinkedChildOrder

record ownership_evidence =
  oe_sourceKind :: lineage_kind
  oe_sourceId :: string
  oe_matchedBy :: ownership_match
  oe_observationId :: "string option"
  oe_exchangeOrderId :: "string option"

datatype ownership =
    Matched lineage_kind string "ownership_evidence list"
  | Unmatched
  | Ambiguous "(lineage_kind \<times> string) list" "ownership_evidence list"

definition evidence_of :: "lineage \<Rightarrow> ownership_match \<Rightarrow> string option \<Rightarrow> string option \<Rightarrow> ownership_evidence" where
  "evidence_of l by observationId exchangeOrderId =
     \<lparr>oe_sourceKind = hl_kind l, oe_sourceId = hl_sourceId l, oe_matchedBy = by, oe_observationId = observationId,
      oe_exchangeOrderId = exchangeOrderId\<rparr>"

type_synonym matches = "(string \<times> lineage \<times> ownership_evidence list) list"

definition lineage_key :: "lineage \<Rightarrow> string" where
  "lineage_key l = lineage_kind_text (hl_kind l) @ CHR '':'' # hl_sourceId l"

definition merge_match :: "lineage \<Rightarrow> ownership_evidence \<Rightarrow> matches \<Rightarrow> matches" where
  "merge_match l reference matches =
     (case map_of matches (lineage_key l) of
        Some (existing, refs) \<Rightarrow> AList.update (lineage_key l) (existing, refs @ [reference]) matches
      | None \<Rightarrow> matches @ [(lineage_key l, l, [reference])])"

text \<open>The reasons a row has to belong to a lineage, in the order the code finds them.\<close>

definition order_proofs :: "'d jsval \<Rightarrow> lineage \<Rightarrow> ownership_evidence list" where
  "order_proofs row l =
     (let orderId = fact_text row ''orderId'';
          link = (\<lambda>name. fact_text row name = Some (hl_clientOrderId l)) in
      (if \<exists>x \<in> set (hl_exchangeOrderIds l). orderId = Some x then [evidence_of l ByExchangeOrderId None orderId] else []) @
      (if link ''orderLinkId'' then [evidence_of l ByClientOrderId None orderId] else []) @
      (if link ''parentOrderLinkId'' \<and> hl_exchangeOrderIds l \<noteq> [] then [evidence_of l ByParentOrderLink None orderId] else []))"

definition fact_proofs :: "'d stored_observation \<Rightarrow> lineage \<Rightarrow> ownership_evidence list" where
  "fact_proofs ob l =
     (let row = ob_fact ob; orderId = fact_text row ''orderId'';
          by_order = (if \<exists>x \<in> set (hl_exchangeOrderIds l). orderId = Some x then [evidence_of l ByExchangeOrderId None orderId] else []);
          link = fact_text row ''orderLinkId'' = Some (hl_clientOrderId l) in
      if fact_kind ob = ''execution'' then
        by_order @
        (if \<exists>x \<in> set (hl_executionIds l). fact_text row ''execId'' = Some x then [evidence_of l ByExecutionId None orderId] else []) @
        (if link then [evidence_of l ByClientOrderId None orderId] else [])
      else if fact_kind ob = ''closed-pnl'' then by_order
      else by_order @ (if link then [evidence_of l ByClientOrderId None None] else []))"

definition collect_matches :: "(lineage \<Rightarrow> ownership_evidence list) \<Rightarrow> lineage list \<Rightarrow> matches" where
  "collect_matches proofs lineages = fold (\<lambda>l. fold (merge_match l) (proofs l)) lineages []"

text \<open>\<open>Array.prototype.sort\<close>: stable, by a comparison function.\<close>

fun insert_sorted :: "('a \<Rightarrow> 'a \<Rightarrow> int) \<Rightarrow> 'a \<Rightarrow> 'a list \<Rightarrow> 'a list" where
  "insert_sorted compare x [] = [x]"
| "insert_sorted compare x (y # ys) = (if compare x y \<le> 0 then x # y # ys else y # insert_sorted compare x ys)"

definition stable_sort :: "('a \<Rightarrow> 'a \<Rightarrow> int) \<Rightarrow> 'a list \<Rightarrow> 'a list" where
  "stable_sort compare xs = foldr (insert_sorted compare) xs []"

definition resolve_matches :: "(string \<Rightarrow> string \<Rightarrow> int) \<Rightarrow> matches \<Rightarrow> ownership" where
  "resolve_matches collate matches =
     (case stable_sort (\<lambda>a b. collate (lineage_key (fst a)) (lineage_key (fst b))) (map snd matches) of
        [] \<Rightarrow> Unmatched
      | [(l, refs)] \<Rightarrow> Matched (hl_kind l) (hl_sourceId l) refs
      | candidates \<Rightarrow> Ambiguous (map (\<lambda>(l, refs). (hl_kind l, hl_sourceId l)) candidates) (concat (map snd candidates)))"

definition find_lineage :: "lineage list \<Rightarrow> lineage_kind \<times> string \<Rightarrow> lineage option" where
  "find_lineage lineages key = find (\<lambda>l. hl_kind l = fst key \<and> hl_sourceId l = snd key) lineages"

text \<open>An execution also belongs to what its order belongs to.\<close>

definition linked_matches :: "lineage list \<Rightarrow> string option \<Rightarrow> ownership option \<Rightarrow> matches \<Rightarrow> matches" where
  "linked_matches lineages orderId parent matches =
     (case parent of
        Some (Matched kind sourceId refs) \<Rightarrow>
          (case find_lineage lineages (kind, sourceId) of None \<Rightarrow> matches
           | Some l \<Rightarrow>
               let observationId = (case find (\<lambda>ref. truthy_text (oe_observationId ref) \<noteq> []) refs of
                 Some ref \<Rightarrow> oe_observationId ref | None \<Rightarrow> None) in
               merge_match l (evidence_of l ByLinkedChildOrder observationId orderId) matches)
      | Some (Ambiguous candidates refs) \<Rightarrow>
          fold (\<lambda>key matches. case find_lineage lineages key of None \<Rightarrow> matches
            | Some l \<Rightarrow> merge_match l (evidence_of l ByLinkedChildOrder None orderId) matches) candidates matches
      | _ \<Rightarrow> matches)"

definition order_ownership :: "(string \<Rightarrow> string \<Rightarrow> int) \<Rightarrow> lineage list \<Rightarrow> 'd jsval \<Rightarrow> ownership" where
  "order_ownership collate lineages row = resolve_matches collate (collect_matches (order_proofs row) lineages)"

definition fact_matches ::
  "(string \<Rightarrow> string \<Rightarrow> int) \<Rightarrow> 'd stored_observation \<Rightarrow> lineage list \<Rightarrow> (string \<times> ownership) list \<Rightarrow> ownership" where
  "fact_matches collate ob lineages orders =
     (if fact_kind ob = ''order'' then order_ownership collate lineages (ob_fact ob)
      else
        let direct = collect_matches (fact_proofs ob) lineages; orderId = fact_text (ob_fact ob) ''orderId'' in
        resolve_matches collate
          (if fact_kind ob = ''execution''
           then linked_matches lineages orderId (case orderId of None \<Rightarrow> None | Some x \<Rightarrow> map_of orders x) direct
           else direct))"

subsection \<open>The projection\<close>

definition fact_order_id :: "'d stored_observation \<Rightarrow> string" where
  "fact_order_id ob = (case fact_text (ob_fact ob) ''orderId'' of Some s \<Rightarrow> s | None \<Rightarrow> [])"

definition order_resolutions ::
  "(string \<Rightarrow> string \<Rightarrow> int) \<Rightarrow> lineage list \<Rightarrow> 'd stored_observation list \<Rightarrow> (string \<times> ownership) list" where
  "order_resolutions collate lineages observations =
     fold (\<lambda>ob m. AList.update (fact_order_id ob) (order_ownership collate lineages (ob_fact ob)) m)
       (filter (\<lambda>ob. fact_kind ob = ''order'') observations) []"

definition parent_linked :: "ownership \<Rightarrow> bool" where
  "parent_linked ownership =
     (case ownership of Matched kind sourceId refs \<Rightarrow> \<exists>ref \<in> set refs. oe_matchedBy ref = ByParentOrderLink | _ \<Rightarrow> False)"

definition order_observation_ids ::
  "(string \<Rightarrow> string \<Rightarrow> int) \<Rightarrow> lineage list \<Rightarrow> 'd stored_observation list \<Rightarrow> (string \<times> string) list" where
  "order_observation_ids collate lineages observations =
     fold (\<lambda>ob m. if parent_linked (order_ownership collate lineages (ob_fact ob))
         then AList.update (fact_order_id ob) (ob_observationId ob) m else m)
       (filter (\<lambda>ob. fact_kind ob = ''order'') observations) []"

definition orders_by_exchange_id :: "(string \<times> string) list \<Rightarrow> (string \<times> ownership) list \<Rightarrow> (string \<times> ownership) list" where
  "orders_by_exchange_id ids resolutions =
     map (\<lambda>(orderId, ownership). (orderId,
       case (ownership, truthy_text (map_of ids orderId)) of
         (Matched kind sourceId refs, [observationId]) \<Rightarrow>
           Matched kind sourceId (refs @ map (\<lambda>ref. ref\<lparr>oe_observationId := Some observationId\<rparr>) refs)
       | _ \<Rightarrow> ownership)) resolutions"

record 'd attributed =
  ah_observation :: "'d stored_observation"
  ah_ownership :: ownership
  ah_moneyComponents :: "history_money list"
  ah_complete :: bool

record attribution_input =
  hi_operatorSources :: "operator_snapshot list"
  hi_preparedSources :: "prepared_snapshot list"

definition valid_lineages :: "'d lib \<Rightarrow> 'd stored_observation list \<Rightarrow> attribution_input \<Rightarrow> lineage list" where
  "valid_lineages L observations input =
     (case observations of [] \<Rightarrow> []
      | ob # obs \<Rightarrow> filter (\<lambda>l. usable_scope (hl_scope l) (ob_scope ob))
          (List.map_filter (operator_lineage L) (hi_operatorSources input) @
           List.map_filter prepared_leg_lineage (hi_preparedSources input)))"

definition attribute_history_observations ::
  "'d lib \<Rightarrow> (string \<Rightarrow> string \<Rightarrow> int) \<Rightarrow> 'd stored_observation list \<Rightarrow> attribution_input \<Rightarrow> 'd attributed list result" where
  "attribute_history_observations L collate observations input =
     (let scopes = remdups (map (\<lambda>ob. join_with [CHR 0x00]
        [hsc_exchange (ob_scope ob), hsc_environment (ob_scope ob), hsc_accountId (ob_scope ob)]) observations) in
      guard INVALID_VALUE (length scopes \<le> 1) (
      let lineages = valid_lineages L observations input;
          resolutions = order_resolutions collate lineages observations;
          orders = orders_by_exchange_id (order_observation_ids collate lineages observations) resolutions in
      Ok (map (\<lambda>ob.
        let money = history_money_components ob in
        \<lparr>ah_observation = ob,
         ah_ownership =
           (if fact_kind ob = ''order''
            then (case map_of resolutions (fact_order_id ob) of Some ownership \<Rightarrow> ownership | None \<Rightarrow> Unmatched)
            else fact_matches collate ob lineages orders),
         ah_moneyComponents = money, ah_complete = list_all mc_complete money\<rparr>) observations)))"

subsection \<open>Ownership is decided by shared identifiers\<close>

text \<open>An order shares an identifier with a lineage, or is the child of one whose own orders are known.\<close>

definition order_linked :: "'d jsval \<Rightarrow> lineage \<Rightarrow> bool" where
  "order_linked row l \<longleftrightarrow>
     (\<exists>x \<in> set (hl_exchangeOrderIds l). get row ''orderId'' = JStr x) \<or> get row ''orderLinkId'' = JStr (hl_clientOrderId l) \<or>
     get row ''parentOrderLinkId'' = JStr (hl_clientOrderId l) \<and> hl_exchangeOrderIds l \<noteq> []"

text \<open>A closed position names only its order, an execution also its own id and its link.\<close>

definition row_linked :: "'d stored_observation \<Rightarrow> lineage \<Rightarrow> bool" where
  "row_linked ob l \<longleftrightarrow>
     (\<exists>x \<in> set (hl_exchangeOrderIds l). get (ob_fact ob) ''orderId'' = JStr x) \<or>
     (fact_kind ob = ''execution'' \<and> (\<exists>x \<in> set (hl_executionIds l). get (ob_fact ob) ''execId'' = JStr x)) \<or>
     (fact_kind ob \<noteq> ''closed-pnl'' \<and> get (ob_fact ob) ''orderLinkId'' = JStr (hl_clientOrderId l))"

definition owner :: "lineage \<Rightarrow> lineage_kind \<times> string" where
  "owner l = (hl_kind l, hl_sourceId l)"

fun owners :: "ownership \<Rightarrow> (lineage_kind \<times> string) set" where
  "owners (Matched kind sourceId refs) = {(kind, sourceId)}"
| "owners Unmatched = {}"
| "owners (Ambiguous candidates refs) = set candidates"

text \<open>Several candidates are several different ones.\<close>

fun candid :: "ownership \<Rightarrow> bool" where
  "candid (Ambiguous candidates refs) \<longleftrightarrow> distinct candidates \<and> 2 \<le> length candidates"
| "candid _ \<longleftrightarrow> True"

text \<open>The last observation of an order, which decides for all of them.\<close>

definition last_order :: "'d stored_observation list \<Rightarrow> string \<Rightarrow> 'd stored_observation option" where
  "last_order observations orderId = find (\<lambda>ob. fact_kind ob = ''order'' \<and> fact_order_id ob = orderId) (rev observations)"

definition order_owners :: "lineage list \<Rightarrow> 'd stored_observation list \<Rightarrow> string \<Rightarrow> (lineage_kind \<times> string) set" where
  "order_owners lineages observations orderId =
     (case last_order observations orderId of None \<Rightarrow> {}
      | Some order \<Rightarrow> owner ` {l \<in> set lineages. order_linked (ob_fact order) l})"

definition linked_owners_of :: "lineage list \<Rightarrow> 'd stored_observation list \<Rightarrow> 'd stored_observation \<Rightarrow> (lineage_kind \<times> string) set" where
  "linked_owners_of lineages observations ob =
     (case fact_text (ob_fact ob) ''orderId'' of None \<Rightarrow> {} | Some orderId \<Rightarrow> order_owners lineages observations orderId)"

lemma fact_text_iff [simp]: "fact_text row name = Some s \<longleftrightarrow> get row name = JStr s"
  by (simp add: fact_text_def split: jsval.splits)

lemma order_proofs_iff: "order_proofs row l \<noteq> [] \<longleftrightarrow> order_linked row l"
  by (auto simp: order_proofs_def order_linked_def Let_def)

lemma fact_proofs_iff: "fact_proofs ob l \<noteq> [] \<longleftrightarrow> row_linked ob l"
  by (auto simp: fact_proofs_def row_linked_def Let_def)

lemma lineage_key_owner: "lineage_key l = lineage_key l' \<longleftrightarrow> owner l = owner l'"
  by (cases "hl_kind l"; cases "hl_kind l'") (auto simp: lineage_key_def owner_def lineage_kind_text_def)

lemma update_set: "distinct (map fst m) \<Longrightarrow> set (AList.update k v m) = insert (k, v) {e \<in> set m. fst e \<noteq> k}"
  by (induction m) (auto simp: image_iff)

definition wf_matches :: "lineage list \<Rightarrow> matches \<Rightarrow> bool" where
  "wf_matches lineages m \<longleftrightarrow> distinct (map fst m) \<and> (\<forall>(k, l, refs) \<in> set m. l \<in> set lineages \<and> lineage_key l = k)"

definition match_owners :: "matches \<Rightarrow> (lineage_kind \<times> string) set" where
  "match_owners m = (\<lambda>e. owner (fst (snd e))) ` set m"

lemma merge_match_set:
  assumes "wf_matches lineages m" "l \<in> set lineages"
  obtains l' refs where "set (merge_match l r m) = insert (lineage_key l, l', refs) {e \<in> set m. fst e \<noteq> lineage_key l}"
    "l' \<in> set lineages" "lineage_key l' = lineage_key l" "distinct (map fst (merge_match l r m))"
proof (cases "map_of m (lineage_key l)")
  case None
  then have "merge_match l r m = m @ [(lineage_key l, l, [r])]" "\<forall>e \<in> set m. fst e \<noteq> lineage_key l"
    using None by (simp add: merge_match_def, auto simp: map_of_eq_None_iff image_iff)
  then show thesis
    using assms by (intro that [of l "[r]"]) (auto simp: wf_matches_def)
next
  case (Some e)
  obtain l' refs where e: "e = (l', refs)" by (cases e)
  have "(lineage_key l, l', refs) \<in> set m" using map_of_SomeD [OF Some] e by simp
  then show thesis
    using assms Some e
    by (intro that [of l' "refs @ [r]"]) (auto simp: merge_match_def wf_matches_def update_set distinct_update)
qed

lemma merge_match_owners:
  assumes "wf_matches lineages m" "l \<in> set lineages"
  shows "wf_matches lineages (merge_match l r m) \<and> match_owners (merge_match l r m) = insert (owner l) (match_owners m)"
proof -
  obtain l' refs where m: "set (merge_match l r m) = insert (lineage_key l, l', refs) {e \<in> set m. fst e \<noteq> lineage_key l}"
    "l' \<in> set lineages" "lineage_key l' = lineage_key l" "distinct (map fst (merge_match l r m))"
    by (rule merge_match_set [OF assms])
  have same: "owner (fst (snd e)) = owner l" if "e \<in> set m" "fst e = lineage_key l" for e
    using that assms(1) by (cases e) (auto simp: wf_matches_def lineage_key_owner [symmetric])
  have "match_owners (merge_match l r m) = insert (owner l) ((\<lambda>e. owner (fst (snd e))) ` {e \<in> set m. fst e \<noteq> lineage_key l})"
    using m(3) by (simp add: match_owners_def m(1) lineage_key_owner)
  also have "\<dots> = insert (owner l) (match_owners m)"
    unfolding match_owners_def using same by (auto simp: image_iff)
  finally show ?thesis using m assms(1) by (auto simp: wf_matches_def)
qed

lemma fold_merge_owners:
  "wf_matches lineages m \<Longrightarrow> l \<in> set lineages \<Longrightarrow>
    wf_matches lineages (fold (merge_match l) refs m) \<and>
    match_owners (fold (merge_match l) refs m) = (if refs = [] then match_owners m else insert (owner l) (match_owners m))"
proof (induction refs arbitrary: m)
  case (Cons r refs)
  then show ?case using merge_match_owners [OF Cons.prems, of r] by auto
qed simp

lemma collect_matches_owners:
  assumes "set ls \<subseteq> set lineages" "wf_matches lineages m"
  shows "wf_matches lineages (fold (\<lambda>l. fold (merge_match l) (proofs l)) ls m) \<and>
    match_owners (fold (\<lambda>l. fold (merge_match l) (proofs l)) ls m) = match_owners m \<union> owner ` {l \<in> set ls. proofs l \<noteq> []}"
  using assms
proof (induction ls arbitrary: m)
  case (Cons l ls)
  have step: "wf_matches lineages (fold (merge_match l) (proofs l) m)"
    "match_owners (fold (merge_match l) (proofs l) m) = (if proofs l = [] then match_owners m else insert (owner l) (match_owners m))"
    using fold_merge_owners [OF Cons.prems(2), of l "proofs l"] Cons.prems(1) by auto
  have "{l' \<in> set (l # ls). proofs l' \<noteq> []} = (if proofs l = [] then {} else {l}) \<union> {l' \<in> set ls. proofs l' \<noteq> []}" by auto
  then show ?case using Cons.IH [OF _ step(1)] Cons.prems(1) step(2) by auto
qed simp

lemma collected:
  "wf_matches lineages (collect_matches proofs lineages)"
  "match_owners (collect_matches proofs lineages) = owner ` {l \<in> set lineages. proofs l \<noteq> []}"
  using collect_matches_owners [of lineages lineages "[]" proofs]
  by (auto simp: collect_matches_def wf_matches_def match_owners_def)

lemma stable_sort_mset [simp]: "mset (stable_sort compare xs) = mset xs"
proof -
  have "mset (insert_sorted compare x ys) = add_mset x (mset ys)" for x ys
    by (induction ys) auto
  then show ?thesis by (induction xs) (auto simp: stable_sort_def)
qed

lemma resolved:
  assumes "wf_matches lineages m"
  shows "owners (resolve_matches collate m) = match_owners m \<and> candid (resolve_matches collate m)"
proof -
  define cs where "cs = stable_sort (\<lambda>a b. collate (lineage_key (fst a)) (lineage_key (fst b))) (map snd m)"
  have mset: "mset cs = mset (map snd m)" by (simp add: cs_def)
  have owners: "owner ` fst ` set cs = match_owners m"
    using mset_eq_setD [OF mset] by (auto simp: match_owners_def image_image)
  have "distinct (map (\<lambda>e. lineage_key (fst (snd e))) m)"
    using assms by (auto simp: wf_matches_def distinct_map inj_on_def split_beta)
  then have "distinct (map (\<lambda>e. owner (fst (snd e))) m)"
    by (auto simp: distinct_map inj_on_def lineage_key_owner)
  then have unique: "distinct (map (owner \<circ> fst) cs)"
    using mset_eq_imp_distinct_iff [of "map (owner \<circ> fst) cs" "map (owner \<circ> fst) (map snd m)"] mset
    by (simp add: multiset.map_comp comp_def)
  have "map (\<lambda>(l, refs). (hl_kind l, hl_sourceId l)) cs = map (owner \<circ> fst) cs"
    by (auto simp: owner_def)
  with unique have distinct: "distinct (map (\<lambda>(l, refs). (hl_kind l, hl_sourceId l)) cs)" by (simp only:)
  consider "cs = []" | e where "cs = [e]" | e1 e2 es where "cs = e1 # e2 # es"
    by (metis list.exhaust)
  then show ?thesis
  proof cases
    case 1
    then show ?thesis using owners by (simp add: resolve_matches_def cs_def [symmetric])
  next
    case 2
    then show ?thesis
      using owners by (cases e) (simp add: resolve_matches_def cs_def [symmetric] owner_def)
  next
    case 3
    have image: "set (map (\<lambda>(l, refs). (hl_kind l, hl_sourceId l)) cs) = owner ` fst ` set cs"
      by (force simp: owner_def)
    have "resolve_matches collate m =
      Ambiguous (map (\<lambda>(l, refs). (hl_kind l, hl_sourceId l)) cs) (concat (map snd cs))"
      unfolding resolve_matches_def cs_def [symmetric] 3 by (cases e1) simp
    then show ?thesis
      using owners distinct image 3 by (simp only: owners.simps candid.simps, simp)
  qed
qed

lemma order_resolved:
  "owners (order_ownership collate lineages row) = owner ` {l \<in> set lineages. order_linked row l} \<and>
   candid (order_ownership collate lineages row)"
  unfolding order_ownership_def using resolved [OF collected(1)] by (simp add: collected(2) order_proofs_iff)

lemma found_lineage:
  assumes "key \<in> owner ` set lineages"
  obtains l where "find_lineage lineages key = Some l" "l \<in> set lineages" "owner l = key"
proof -
  from assms have "find_lineage lineages key \<noteq> None"
    by (auto simp: find_lineage_def find_None_iff owner_def)
  then obtain l where l: "find_lineage lineages key = Some l" by auto
  then show thesis
    using that [OF l] found_member [OF l [unfolded find_lineage_def]] by (auto simp: owner_def prod_eq_iff)
qed

lemma linked_owners:
  assumes "wf_matches lineages m" "\<And>parent. linked = Some parent \<Longrightarrow> owners parent \<subseteq> owner ` set lineages"
  shows "wf_matches lineages (linked_matches lineages orderId linked m) \<and>
    match_owners (linked_matches lineages orderId linked m) = match_owners m \<union> (case linked of None \<Rightarrow> {} | Some parent \<Rightarrow> owners parent)"
proof (cases linked)
  case None
  then show ?thesis using assms(1) by (simp add: linked_matches_def)
next
  case (Some parent)
  let ?step = "\<lambda>key m. case find_lineage lineages key of None \<Rightarrow> m
            | Some l \<Rightarrow> merge_match l (evidence_of l ByLinkedChildOrder None orderId) m"
  have steps: "set keys \<subseteq> owner ` set lineages \<Longrightarrow> wf_matches lineages m \<Longrightarrow>
      wf_matches lineages (fold ?step keys m) \<and> match_owners (fold ?step keys m) = match_owners m \<union> set keys" for keys m
  proof (induction keys arbitrary: m)
    case (Cons key keys)
    then have "key \<in> owner ` set lineages" by simp
    then obtain l where "find_lineage lineages key = Some l" "l \<in> set lineages" "owner l = key" by (rule found_lineage)
    then show ?case using Cons merge_match_owners [OF Cons.prems(2), of l "evidence_of l ByLinkedChildOrder None orderId"] by auto
  qed simp
  show ?thesis
  proof (cases parent)
    case (Matched kind sourceId refs)
    then have "(kind, sourceId) \<in> owner ` set lineages" using assms(2) [OF Some] by simp
    then obtain l where "find_lineage lineages (kind, sourceId) = Some l" "l \<in> set lineages" "owner l = (kind, sourceId)"
      by (rule found_lineage)
    then show ?thesis using merge_match_owners [OF assms(1)] by (auto simp: linked_matches_def Some Matched Let_def)
  next
    case Unmatched
    then show ?thesis using assms(1) by (simp add: linked_matches_def Some)
  next
    case (Ambiguous candidates refs)
    then have "set candidates \<subseteq> owner ` set lineages" using assms(2) [OF Some] by simp
    then show ?thesis using steps [OF _ assms(1)] by (simp add: linked_matches_def Some Ambiguous)
  qed
qed

lemma resolutions_last:
  "map_of (order_resolutions collate lineages observations) orderId =
     map_option (\<lambda>ob. order_ownership collate lineages (ob_fact ob)) (last_order observations orderId)"
proof (induction observations rule: rev_induct)
  case (snoc ob observations)
  then show ?case by (auto simp: order_resolutions_def last_order_def update_conv')
qed (simp add: order_resolutions_def last_order_def)

lemma by_exchange_id:
  "map_option owners (map_of (orders_by_exchange_id ids resolutions) orderId) = map_option owners (map_of resolutions orderId)"
  by (induction resolutions)
    (auto simp: orders_by_exchange_id_def split: ownership.splits list.splits)

lemma fact_matches_owners:
  assumes "fact_kind ob \<noteq> ''order''"
    and linked: "\<And>orderId. (case map_of orders orderId of None \<Rightarrow> {} | Some parent \<Rightarrow> owners parent) =
      order_owners lineages observations orderId"
  shows "candid (fact_matches collate ob lineages orders) \<and> owners (fact_matches collate ob lineages orders) =
    owner ` {l \<in> set lineages. row_linked ob l} \<union>
      (if fact_kind ob = ''execution'' then linked_owners_of lineages observations ob else {})"
proof -
  let ?direct = "collect_matches (fact_proofs ob) lineages"
  let ?orderId = "fact_text (ob_fact ob) ''orderId''"
  let ?parent = "case ?orderId of None \<Rightarrow> None | Some x \<Rightarrow> map_of orders x"
  have known: "order_owners lineages observations orderId \<subseteq> owner ` set lineages" for orderId
    by (auto simp: order_owners_def split: option.splits)
  have parent: "(case ?parent of None \<Rightarrow> {} | Some o1 \<Rightarrow> owners o1) = linked_owners_of lineages observations ob"
    unfolding linked_owners_of_def by (cases ?orderId) (simp_all only: option.case linked)
  moreover have "linked_owners_of lineages observations ob \<subseteq> owner ` set lineages"
    using known by (auto simp: linked_owners_of_def split: option.splits)
  ultimately have "owners o1 \<subseteq> owner ` set lineages" if "?parent = Some o1" for o1 using that by simp
  note merged = linked_owners [OF collected(1), where linked = ?parent, OF this]
  have all: "wf_matches lineages (linked_matches lineages ?orderId ?parent ?direct)"
    "match_owners (linked_matches lineages ?orderId ?parent ?direct) = match_owners ?direct \<union> linked_owners_of lineages observations ob"
    using merged unfolding parent by blast+
  have direct: "match_owners ?direct = owner ` {l \<in> set lineages. row_linked ob l}"
    by (simp add: collected(2) fact_proofs_iff)
  show ?thesis
  proof (cases "fact_kind ob = ''execution''")
    case True
    then have "fact_matches collate ob lineages orders = resolve_matches collate (linked_matches lineages ?orderId ?parent ?direct)"
      by (simp add: fact_matches_def Let_def)
    then show ?thesis using resolved [OF all(1), of collate] all(2) direct True by simp
  next
    case False
    then have "fact_matches collate ob lineages orders = resolve_matches collate ?direct"
      using assms(1) by (simp add: fact_matches_def Let_def)
    then show ?thesis using resolved [OF collected(1) [of lineages "fact_proofs ob"], of collate] direct False by simp
  qed
qed

text \<open>
  Claim C16: a row is attributed by shared identifiers and nothing else. In the projection each observation
  is owned exactly by the lineages of its account that share an identifier with it, an order by
  those its last observation shares one with, and an execution also by those of its order. No
  such lineage means unmatched, one means matched to it, and several are all reported as
  candidates, none of them chosen.
\<close>

theorem attribution_exact:
  assumes "attribute_history_observations L collate observations input = Ok rows"
  defines "lineages \<equiv> valid_lineages L observations input"
  shows "map ah_observation rows = observations \<and> (\<forall>row \<in> set rows.
    let ob = ah_observation row in
    candid (ah_ownership row) \<and> ah_moneyComponents row = history_money_components ob \<and>
    owners (ah_ownership row) =
      (if fact_kind ob = ''order'' then order_owners lineages observations (fact_order_id ob)
       else owner ` {l \<in> set lineages. row_linked ob l} \<union>
         (if fact_kind ob = ''execution'' then linked_owners_of lineages observations ob else {})))"
proof -
  define resolutions where "resolutions = order_resolutions collate lineages observations"
  define orders where "orders = orders_by_exchange_id (order_observation_ids collate lineages observations) resolutions"
  define own where "own ob = (if fact_kind ob = ''order''
     then (case map_of resolutions (fact_order_id ob) of Some ownership \<Rightarrow> ownership | None \<Rightarrow> Unmatched)
     else fact_matches collate ob lineages orders)" for ob :: "'a stored_observation"
  have rows: "rows = map (\<lambda>ob. \<lparr>ah_observation = ob, ah_ownership = own ob,
      ah_moneyComponents = history_money_components ob, ah_complete = list_all mc_complete (history_money_components ob)\<rparr>) observations"
    using assms(1)
    unfolding own_def orders_def resolutions_def lineages_def
    by (simp add: attribute_history_observations_def Let_def guard_def split: if_splits)
  have resolved_owners: "(case map_of resolutions orderId of None \<Rightarrow> {} | Some o1 \<Rightarrow> owners o1) = order_owners lineages observations orderId"
    for orderId
    using order_resolved [of collate lineages]
    by (auto simp: resolutions_def resolutions_last order_owners_def split: option.splits)
  have linked: "(case map_of orders orderId of None \<Rightarrow> {} | Some o1 \<Rightarrow> owners o1) = order_owners lineages observations orderId" for orderId
    using by_exchange_id [of "order_observation_ids collate lineages observations" resolutions orderId] resolved_owners [of orderId]
    by (auto simp: orders_def split: option.splits)
  have owned: "candid (own ob) \<and> owners (own ob) =
      (if fact_kind ob = ''order'' then order_owners lineages observations (fact_order_id ob)
       else owner ` {l \<in> set lineages. row_linked ob l} \<union>
         (if fact_kind ob = ''execution'' then linked_owners_of lineages observations ob else {}))" for ob
  proof (cases "fact_kind ob = ''order''")
    case True
    have "candid (own ob)"
      using True order_resolved [of collate lineages]
      by (auto simp: own_def resolutions_def resolutions_last split: option.splits)
    then show ?thesis using True resolved_owners [of "fact_order_id ob"] by (auto simp: own_def split: option.splits)
  next
    case False
    then show ?thesis using fact_matches_owners [OF False linked] by (simp add: own_def)
  qed
  show ?thesis using owned by (auto simp: rows Let_def comp_def)
qed

subsection \<open>A concrete history\<close>

definition sample_row :: "string \<Rightarrow> history_source \<Rightarrow> (string \<times> sdec jsval) list \<Rightarrow> sdec stored_observation" where
  "sample_row observationId source kvs =
     \<lparr>ob_observationId = observationId,
      ob_scope = \<lparr>hsc_exchange = ''bybit'', hsc_environment = ''mainnet'', hsc_accountId = ''account''\<rparr>,
      ob_source = source, ob_eventIdentity = observationId, ob_contentHash = [], ob_canonicalHash = [],
      ob_providerEventTime = ''2024-01-01T00:00:00.000Z'', ob_providerRevisionTime = None,
      ob_collectedAt = ''2024-01-01T00:00:30.000Z'', ob_fact = JObj kvs\<rparr>"

definition sample_history :: "sdec stored_observation list" where
  "sample_history =
     [sample_row ''order'' OrderHistory [(''factKind'', JStr ''order''), (''orderId'', JStr ''o-1''),
        (''orderLinkId'', JStr ''client-1''), (''parentOrderLinkId'', JNull), (''cumExecFee'', JNull), (''feeDetails'', JArr [])],
      sample_row ''fill'' Executions [(''factKind'', JStr ''execution''), (''orderId'', JStr ''o-1''), (''execId'', JStr ''e-1''),
        (''orderLinkId'', JNull), (''execFee'', JStr ''0.1''), (''feeCurrency'', JStr ''USDT''), (''execFeeV2'', JNull), (''execPnl'', JNull)],
      sample_row ''closed'' ClosedPnl [(''factKind'', JStr ''closed-pnl''), (''orderId'', JStr ''o-2''), (''closedPnl'', JStr ''1''),
        (''openFee'', JNull), (''closeFee'', JNull), (''fundingFee'', JNull)]]"

definition sample_leg :: prepared_snapshot where
  "sample_leg =
     \<lparr>pq_sourceId = ''leg-1'', pq_lineageScope = \<lparr>ps_exchange = ''bybit'', ps_environment = ''mainnet'', ps_accountId = ''account'',
        ps_category = ''linear'', ps_positionMode = ''one-way''\<rparr>,
      pq_clientOrderId = ''client-1'', pq_intentSourceId = ''leg-1'', pq_intentOperation = ''create'',
      pq_intentClientOrderId = ''client-1'', pq_intentExchangeOrderId = None, pq_reconciliations = []\<rparr>"

theorem attribution_exact_witness:
  "\<exists>entry fill closed. attribute_history_observations ref_lib (\<lambda>_ _. 0) sample_history
      \<lparr>hi_operatorSources = [], hi_preparedSources = [sample_leg]\<rparr> = Ok [entry, fill, closed] \<and>
    owners (ah_ownership entry) = {(PreparedLeg, ''leg-1'')} \<and> owners (ah_ownership fill) = {(PreparedLeg, ''leg-1'')} \<and>
    owners (ah_ownership closed) = {}"
proof -
  let ?input = "\<lparr>hi_operatorSources = [], hi_preparedSources = [sample_leg]\<rparr>"
  let ?run = "attribute_history_observations ref_lib (\<lambda>_ _. 0) sample_history ?input"
  let ?ls = "valid_lineages ref_lib sample_history ?input"
  have "case ?run of Ok rows \<Rightarrow> True | Inl e \<Rightarrow> False" by code_simp
  then obtain rows where rows: "?run = Ok rows" by (cases ?run) auto
  have linked: "order_owners ?ls sample_history (fact_order_id (sample_history ! 0)) = {(PreparedLeg, ''leg-1'')} \<and>
      linked_owners_of ?ls sample_history (sample_history ! 1) = {(PreparedLeg, ''leg-1'')}"
    by code_simp
  have direct: "owner ` {l \<in> set ?ls. row_linked (sample_history ! 1) l} = {}"
    "owner ` {l \<in> set ?ls. row_linked (sample_history ! 2) l} = {}"
    by code_simp+
  have kinds: "map fact_kind sample_history = [''order'', ''execution'', ''closed-pnl'']" "length sample_history = 3"
    by code_simp+
  note exact = attribution_exact [OF rows]
  then have "length rows = 3" using kinds(2) by (metis length_map)
  then obtain entry fill closed where three: "rows = [entry, fill, closed]"
    by (auto simp: numeral_3_eq_3 length_Suc_conv)
  then have history: "sample_history = [ah_observation entry, ah_observation fill, ah_observation closed]" using exact by simp
  have ob: "ah_observation entry = sample_history ! 0" "ah_observation fill = sample_history ! 1"
    "ah_observation closed = sample_history ! 2"
    by (subst history, simp)+
  have kind: "fact_kind (ah_observation entry) = ''order''" "fact_kind (ah_observation fill) = ''execution''"
    "fact_kind (ah_observation closed) = ''closed-pnl''"
    using kinds(1) unfolding history by simp_all
  show ?thesis
    using exact rows linked kind unfolding three by (simp add: Let_def ob direct del: image_is_empty One_nat_def)
qed

end
