(* ===== verification/HistoryCoverage.thy ===== *)
theory HistoryCoverage
  imports Attribution
begin

text \<open>
  \<open>application/history-coverage.ts\<close>: what the stored history of an account does not cover. Each
  source has checkpoints, windows of time that were read with some status. The projection sorts
  them, reports the stretches no window covers, the windows not read to their end, and the amounts
  of money the rows leave open. Times are milliseconds, so windows of integers touch when one
  begins right after the other ends.

  Shown here: the unqueried stretches are exactly the uncovered times between the first and the last
  window, and the projection is free of gaps exactly when everything was read.
\<close>

subsection \<open>Checkpoints and gaps\<close>

datatype coverage_status = Paging | Partial | Traversed | Unavailable

record window =
  hw_fromMs :: int
  hw_toMs :: int

record checkpoint =
  cp_scope :: history_scope
  cp_source :: history_source
  cp_window :: window
  cp_filterHash :: string
  cp_status :: coverage_status
  cp_rowCount :: int
  cp_insertedCount :: int
  cp_duplicateCount :: int
  cp_conflictCount :: int
  cp_reasonCode :: "string option"

record coverage_window =
  cw_window :: window
  cw_status :: coverage_status
  cw_reasonCode :: "string option"
  cw_rowCount :: int
  cw_insertedCount :: int
  cw_duplicateCount :: int
  cw_conflictCount :: int

datatype stream_status = StreamMissing | StreamRead coverage_status

record stream_coverage =
  sc_source :: history_source
  sc_status :: stream_status
  sc_windows :: "coverage_window list"

datatype coverage_gap =
    HistoryExpired history_source window string
  | HistoryUnavailable history_source window string
  | CoverageIncomplete history_source string window coverage_status
  | UnqueriedWindow history_source "string list" window
  | StreamCoverageMissing history_source
  | OpeningBalanceUnknown
  | UnknownCurrency string money_kind "string option"
  | UnknownAmount string money_kind "string option"
  | FundingAmountUnknown string money_kind
  | FundingNotObserved

datatype funding_state = FundingObserved | FundingUnknown | FundingMissing

record funding_item =
  fe_observationId :: string
  fe_component :: money_kind
  fe_amount :: "string option"
  fe_currency :: "string option"

record history_coverage =
  hc_scope :: history_scope
  hc_streams :: "stream_coverage list"
  hc_moneyComponents :: "history_money list"
  hc_funding :: funding_state
  hc_fundingEvidence :: "funding_item list"
  hc_gaps :: "coverage_gap list"

definition HISTORY_READ_SOURCES :: "history_source list" where
  "HISTORY_READ_SOURCES = [OrderHistory, Executions, ClosedPnl, TransactionLog]"

definition source_status :: "checkpoint list \<Rightarrow> stream_status" where
  "source_status rows =
     (if rows = [] then StreamMissing
      else if list_ex (\<lambda>c. cp_status c = Unavailable) rows then StreamRead Unavailable
      else if list_ex (\<lambda>c. cp_status c = Partial) rows then StreamRead Partial
      else if list_ex (\<lambda>c. cp_status c = Paging) rows then StreamRead Paging
      else StreamRead Traversed)"

definition known_expired :: "string option \<Rightarrow> bool" where
  "known_expired reason \<longleftrightarrow> reason = Some ''HISTORY_EXPIRED'' \<or> reason = Some ''RETENTION_EXPIRED''"

subsection \<open>Sources\<close>

abbreviation from_ms :: "checkpoint \<Rightarrow> int" where "from_ms c \<equiv> hw_fromMs (cp_window c)"
abbreviation to_ms :: "checkpoint \<Rightarrow> int" where "to_ms c \<equiv> hw_toMs (cp_window c)"

definition compare_windows :: "checkpoint \<Rightarrow> checkpoint \<Rightarrow> int" where
  "compare_windows a b = (if from_ms a - from_ms b \<noteq> 0 then from_ms a - from_ms b else to_ms a - to_ms b)"

definition compare_chronology :: "(string \<Rightarrow> string \<Rightarrow> int) \<Rightarrow> checkpoint \<Rightarrow> checkpoint \<Rightarrow> int" where
  "compare_chronology collate a b =
     (if compare_windows a b \<noteq> 0 then compare_windows a b else collate (cp_filterHash a) (cp_filterHash b))"

definition add_hash :: "string \<Rightarrow> string list \<Rightarrow> string list" where
  "add_hash hash hashes = (if hash \<in> set hashes then hashes else hashes @ [hash])"

text \<open>
  The scan over the checkpoints in the order of their windows: the time covered so far, and the
  filters of the windows that end there.
\<close>

fun unqueried :: "history_source \<Rightarrow> int option \<Rightarrow> string list \<Rightarrow> checkpoint list \<Rightarrow> coverage_gap list" where
  "unqueried source through hashes [] = []"
| "unqueried source None hashes (c # cs) = unqueried source (Some (to_ms c)) [cp_filterHash c] cs"
| "unqueried source (Some covered) hashes (c # cs) =
     (if from_ms c > covered + 1 then
        UnqueriedWindow source (sort (add_hash (cp_filterHash c) hashes)) \<lparr>hw_fromMs = covered + 1, hw_toMs = from_ms c - 1\<rparr>
          # unqueried source (Some (to_ms c)) [cp_filterHash c] cs
      else if to_ms c > covered then unqueried source (Some (to_ms c)) [cp_filterHash c] cs
      else if to_ms c = covered then unqueried source (Some covered) (add_hash (cp_filterHash c) hashes) cs
      else unqueried source (Some covered) hashes cs)"

definition status_gaps :: "history_source \<Rightarrow> checkpoint \<Rightarrow> coverage_gap list" where
  "status_gaps source c =
     (case cp_status c of
        Unavailable \<Rightarrow>
          (case cp_reasonCode c of
             Some reason \<Rightarrow> if known_expired (Some reason) then [HistoryExpired source (cp_window c) reason]
               else [HistoryUnavailable source (cp_window c) reason]
           | None \<Rightarrow> [HistoryUnavailable source (cp_window c) ''UNAVAILABLE''])
      | Partial \<Rightarrow> [CoverageIncomplete source (cp_filterHash c) (cp_window c) Partial]
      | Paging \<Rightarrow> [CoverageIncomplete source (cp_filterHash c) (cp_window c) Paging]
      | Traversed \<Rightarrow> [])"

definition coverage_window_of :: "checkpoint \<Rightarrow> coverage_window" where
  "coverage_window_of c =
     \<lparr>cw_window = cp_window c, cw_status = cp_status c, cw_reasonCode = cp_reasonCode c, cw_rowCount = cp_rowCount c,
      cw_insertedCount = cp_insertedCount c, cw_duplicateCount = cp_duplicateCount c, cw_conflictCount = cp_conflictCount c\<rparr>"

definition source_coverage ::
  "(string \<Rightarrow> string \<Rightarrow> int) \<Rightarrow> checkpoint list \<Rightarrow> history_source \<Rightarrow> stream_coverage \<times> coverage_gap list" where
  "source_coverage collate checkpoints source =
     (let selected = stable_sort compare_windows (filter (\<lambda>c. cp_source c = source) checkpoints);
          chronological = stable_sort (compare_chronology collate) selected in
      (\<lparr>sc_source = source, sc_status = source_status selected, sc_windows = map coverage_window_of selected\<rparr>,
       (if selected = [] then [StreamCoverageMissing source] else []) @
       unqueried source None [] chronological @
       concat (map (status_gaps source) selected)))"

subsection \<open>Money\<close>

definition is_funding :: "history_money \<Rightarrow> bool" where
  "is_funding m \<longleftrightarrow> mc_component m = FundingAmount \<or> mc_component m = FundingFee"

definition money_gaps :: "history_money \<Rightarrow> coverage_gap list" where
  "money_gaps m =
     (if CurrencyField \<in> set (mc_unknownFields m)
      then [UnknownCurrency (mc_observationId m) (mc_component m) (mc_amount m)] else []) @
     (if AmountField \<in> set (mc_unknownFields m)
      then (if is_funding m then [FundingAmountUnknown (mc_observationId m) (mc_component m)]
            else [UnknownAmount (mc_observationId m) (mc_component m) (mc_currency m)])
      else [])"

definition funding_item_of :: "history_money \<Rightarrow> funding_item" where
  "funding_item_of m =
     \<lparr>fe_observationId = mc_observationId m, fe_component = mc_component m, fe_amount = mc_amount m, fe_currency = mc_currency m\<rparr>"

definition project_history_coverage ::
  "(string \<Rightarrow> string \<Rightarrow> int) \<Rightarrow> history_scope \<Rightarrow> checkpoint list \<Rightarrow> 'd stored_observation list \<Rightarrow> history_coverage result" where
  "project_history_coverage collate scope checkpoints observations =
     guard INVALID_VALUE (list_all (\<lambda>c. cp_scope c = scope) checkpoints \<and> list_all (\<lambda>ob. ob_scope ob = scope) observations) (
     let read_sources = map (source_coverage collate checkpoints) HISTORY_READ_SOURCES;
         money = concat (map history_money_components observations);
         funding = map funding_item_of (filter is_funding money);
         observed = list_ex (\<lambda>e. fe_amount e \<noteq> None \<and> fe_currency e \<noteq> None) funding in
     Ok \<lparr>hc_scope = scope, hc_streams = map fst read_sources, hc_moneyComponents = money,
       hc_funding = (if observed then FundingObserved else if funding \<noteq> [] then FundingUnknown else FundingMissing),
       hc_fundingEvidence = funding,
       hc_gaps = concat (map snd read_sources) @ concat (map money_gaps money) @
         (if funding = [] then [FundingNotObserved] else []) @ [OpeningBalanceUnknown]\<rparr>)"

subsection \<open>The unqueried stretches\<close>

definition covered :: "checkpoint list \<Rightarrow> int \<Rightarrow> bool" where
  "covered cs t \<longleftrightarrow> (\<exists>c \<in> set cs. from_ms c \<le> t \<and> t \<le> to_ms c)"

definition wf_windows :: "checkpoint list \<Rightarrow> bool" where
  "wf_windows cs \<longleftrightarrow> (\<forall>c \<in> set cs. from_ms c \<le> to_ms c)"

text \<open>After one window has ended and before another begins.\<close>

definition between_windows :: "checkpoint list \<Rightarrow> int \<Rightarrow> bool" where
  "between_windows cs t \<longleftrightarrow> (\<exists>c \<in> set cs. to_ms c < t) \<and> (\<exists>c \<in> set cs. t < from_ms c)"

definition reported_unqueried :: "coverage_gap list \<Rightarrow> history_source \<Rightarrow> int \<Rightarrow> bool" where
  "reported_unqueried gaps source t \<longleftrightarrow>
     (\<exists>hashes w. UnqueriedWindow source hashes w \<in> set gaps \<and> hw_fromMs w \<le> t \<and> t \<le> hw_toMs w)"

lemma reported_simps [simp]:
  "\<not> reported_unqueried [] source t"
  "reported_unqueried (UnqueriedWindow source hashes w # gaps) source t \<longleftrightarrow>
     hw_fromMs w \<le> t \<and> t \<le> hw_toMs w \<or> reported_unqueried gaps source t"
  "reported_unqueried (gaps @ gaps') source t \<longleftrightarrow> reported_unqueried gaps source t \<or> reported_unqueried gaps' source t"
  by (auto simp: reported_unqueried_def)

lemma covered_simps [simp]:
  "\<not> covered [] t"
  "covered (c # cs) t \<longleftrightarrow> from_ms c \<le> t \<and> t \<le> to_ms c \<or> covered cs t"
  by (simp_all add: covered_def)

lemma not_yet_covered: "\<forall>c' \<in> set cs. from_ms c \<le> from_ms c' \<Longrightarrow> t < from_ms c \<Longrightarrow> \<not> covered cs t"
  by (force simp: covered_def)

lemma unqueried_from:
  assumes "sorted_wrt (\<lambda>a b. from_ms a \<le> from_ms b) cs" "wf_windows cs"
  shows "reported_unqueried (unqueried source (Some k) hashes cs) source t \<longleftrightarrow>
    k < t \<and> (\<exists>c \<in> set cs. t < from_ms c) \<and> \<not> covered cs t"
  using assms
proof (induction cs arbitrary: k hashes)
  case (Cons c cs)
  then have later: "\<forall>c' \<in> set cs. from_ms c \<le> from_ms c'" and wf: "from_ms c \<le> to_ms c" "wf_windows cs"
    and sorted: "sorted_wrt (\<lambda>a b. from_ms a \<le> from_ms b) cs"
    by (auto simp: wf_windows_def)
  note step = Cons.IH [OF sorted wf(2)]
  show ?case
  proof (cases "t < from_ms c")
    case True
    then have "\<not> covered cs t" by (rule not_yet_covered [OF later])
    moreover have "\<not> to_ms c < t" using True wf(1) by linarith
    ultimately show ?thesis using True by (simp add: step add1_zle_eq)
  next
    case False
    then have split: "k < t \<and> (\<exists>c' \<in> set (c # cs). t < from_ms c') \<and> \<not> covered (c # cs) t \<longleftrightarrow>
      k < t \<and> to_ms c < t \<and> (\<exists>c' \<in> set cs. t < from_ms c') \<and> \<not> covered cs t" by auto
    show ?thesis
      unfolding split using False wf(1) by (cases "\<exists>c' \<in> set cs. t < from_ms c'"; simp add: step; linarith)
  qed
qed simp

lemma unqueried_exact:
  assumes "sorted_wrt (\<lambda>a b. from_ms a \<le> from_ms b) cs" "wf_windows cs"
  shows "reported_unqueried (unqueried source None [] cs) source t \<longleftrightarrow> between_windows cs t \<and> \<not> covered cs t"
proof (cases cs)
  case (Cons c rest)
  then have "sorted_wrt (\<lambda>a b. from_ms a \<le> from_ms b) rest" "wf_windows rest" "from_ms c \<le> to_ms c"
    and later: "\<forall>c' \<in> set rest. from_ms c \<le> from_ms c' \<and> from_ms c' \<le> to_ms c'"
    using assms by (auto simp: wf_windows_def)
  then have "reported_unqueried (unqueried source None [] cs) source t \<longleftrightarrow>
      to_ms c < t \<and> (\<exists>c' \<in> set rest. t < from_ms c') \<and> \<not> covered rest t"
    using unqueried_from [of rest source "to_ms c" "[cp_filterHash c]" t] by (simp add: Cons)
  also have "\<dots> \<longleftrightarrow> between_windows cs t \<and> \<not> covered cs t"
  proof -
    have first: "to_ms c < t" if "c' \<in> set cs" "to_ms c' < t" "\<not> covered cs t" for c'
      using that later \<open>from_ms c \<le> to_ms c\<close> by (fastforce simp: Cons)
    show ?thesis
    proof (cases "to_ms c < t")
      case True
      then show ?thesis using \<open>from_ms c \<le> to_ms c\<close> by (auto simp: Cons between_windows_def)
    next
      case False
      then have "\<not> (between_windows cs t \<and> \<not> covered cs t)" using first by (auto simp: between_windows_def)
      then show ?thesis using False by simp
    qed
  qed
  finally show ?thesis .
qed (simp add: between_windows_def)

lemma unqueried_gap:
  assumes "g \<in> set (unqueried source through hashes cs)"
  shows "\<exists>hs w. g = UnqueriedWindow source hs w \<and> hw_fromMs w \<le> hw_toMs w"
  using assms by (induction source through hashes cs rule: unqueried.induct) (auto split: if_splits)

lemma unqueried_none: "unqueried source through hashes cs = [] \<longleftrightarrow> (\<forall>t. \<not> reported_unqueried (unqueried source through hashes cs) source t)"
proof
  assume none: "\<forall>t. \<not> reported_unqueried (unqueried source through hashes cs) source t"
  show "unqueried source through hashes cs = []"
  proof (rule ccontr)
    assume "unqueried source through hashes cs \<noteq> []"
    then obtain g where g: "g \<in> set (unqueried source through hashes cs)" by fastforce
    then show False using unqueried_gap [OF g] none by (auto simp: reported_unqueried_def)
  qed
qed simp

subsection \<open>Sorting by window\<close>

lemma insert_sorted_wrt:
  assumes "\<And>a b. a \<in> A \<Longrightarrow> b \<in> A \<Longrightarrow> compare a b \<le> 0 \<Longrightarrow> P a b" "\<And>a b. a \<in> A \<Longrightarrow> b \<in> A \<Longrightarrow> \<not> compare a b \<le> 0 \<Longrightarrow> P b a"
    and trans: "transp_on A P" and "sorted_wrt P xs" "set xs \<subseteq> A" "x \<in> A"
  shows "sorted_wrt P (insert_sorted compare x xs)"
  using assms(4,5)
proof (induction xs)
  case (Cons y ys)
  have members: "set (insert_sorted compare x zs) = insert x (set zs)" for zs by (induction zs) auto
  have "P x z" if "P x y" "z \<in> set ys" for z
    using that Cons.prems assms(6) by (intro transp_onD [OF trans, of x y z]) auto
  then show ?case
    using Cons assms(1) [of x y] assms(2) [of x y] assms(6) by (auto simp: members)
qed simp

lemma stable_sort_wrt:
  assumes "\<And>a b. a \<in> A \<Longrightarrow> b \<in> A \<Longrightarrow> compare a b \<le> 0 \<Longrightarrow> P a b" "\<And>a b. a \<in> A \<Longrightarrow> b \<in> A \<Longrightarrow> \<not> compare a b \<le> 0 \<Longrightarrow> P b a"
    "transp_on A P" "set xs \<subseteq> A"
  shows "sorted_wrt P (stable_sort compare xs)"
  using assms(4)
proof (induction xs)
  case (Cons x xs)
  then have "set (stable_sort compare xs) \<subseteq> A" using mset_eq_setD [OF stable_sort_mset, of compare xs] by simp
  then show ?case
    using Cons insert_sorted_wrt [OF assms(1-3), where xs = "stable_sort compare xs" and x = x] by (simp add: stable_sort_def)
qed (simp add: stable_sort_def)

lemma stable_sort_set [simp]: "set (stable_sort compare xs) = set xs"
  by (rule mset_eq_setD) simp

lemma chronological: "sorted_wrt (\<lambda>a b. from_ms a \<le> from_ms b) (stable_sort (compare_chronology collate) cs)"
  by (rule stable_sort_wrt [where A = UNIV])
    (auto simp: compare_chronology_def compare_windows_def transp_on_def split: if_splits)

subsection \<open>The projection\<close>

abbreviation own_checkpoints :: "checkpoint list \<Rightarrow> history_source \<Rightarrow> checkpoint list" where
  "own_checkpoints checkpoints source \<equiv> filter (\<lambda>c. cp_source c = source) checkpoints"

lemma source_unqueried:
  assumes "wf_windows (own_checkpoints checkpoints source)"
  shows "reported_unqueried (unqueried source None [] (stable_sort (compare_chronology collate)
      (stable_sort compare_windows (own_checkpoints checkpoints source)))) source t \<longleftrightarrow>
    between_windows (own_checkpoints checkpoints source) t \<and> \<not> covered (own_checkpoints checkpoints source) t"
  unfolding between_windows_def covered_def
  by (subst unqueried_exact [OF chronological])
    (use assms in \<open>simp_all add: wf_windows_def between_windows_def covered_def del: set_filter\<close>)

lemma status_gaps_none: "status_gaps source c = [] \<longleftrightarrow> cp_status c = Traversed"
  by (simp add: status_gaps_def split: coverage_status.splits option.splits)

lemma not_unqueried:
  "UnqueriedWindow source hashes w \<notin> set (status_gaps source' c)"
  "UnqueriedWindow source hashes w \<notin> set (money_gaps m)"
  by (simp_all add: status_gaps_def money_gaps_def split: coverage_status.splits option.splits)

lemma source_reported:
  "reported_unqueried (snd (source_coverage collate checkpoints source')) source t \<longleftrightarrow>
     source' = source \<and> reported_unqueried (unqueried source None []
       (stable_sort (compare_chronology collate) (stable_sort compare_windows (own_checkpoints checkpoints source)))) source t"
  by (auto simp: reported_unqueried_def source_coverage_def Let_def not_unqueried dest: unqueried_gap)

lemma read_sources [simp]: "set HISTORY_READ_SOURCES = UNIV"
  using history_source.exhaust by (auto simp: HISTORY_READ_SOURCES_def)

lemma reported_concat: "reported_unqueried (concat gs) source t \<longleftrightarrow> (\<exists>g \<in> set gs. reported_unqueried g source t)"
  by (auto simp: reported_unqueried_def)

lemma projected_gaps:
  assumes "project_history_coverage collate scope checkpoints observations = Ok cov"
  defines "money \<equiv> concat (map history_money_components observations)"
  shows "hc_gaps cov = concat (map (snd \<circ> source_coverage collate checkpoints) HISTORY_READ_SOURCES) @
      concat (map money_gaps money) @ (if filter is_funding money = [] then [FundingNotObserved] else []) @ [OpeningBalanceUnknown]"
    "hc_funding cov = FundingObserved \<longleftrightarrow> (\<exists>m \<in> set money. is_funding m \<and> mc_amount m \<noteq> None \<and> mc_currency m \<noteq> None)"
  using assms(1)
  by (auto simp: project_history_coverage_def guard_def Let_def money_def funding_item_of_def list_ex_iff split: if_splits)

definition wf_money :: "history_money \<Rightarrow> bool" where
  "wf_money m \<longleftrightarrow> mc_complete m = (mc_amount m \<noteq> None \<and> mc_currency m \<noteq> None) \<and>
     (AmountField \<in> set (mc_unknownFields m) \<longleftrightarrow> mc_amount m = None) \<and>
     (CurrencyField \<in> set (mc_unknownFields m) \<longleftrightarrow> mc_currency m = None)"

lemma money_component_wf: "wf_money (money_component ob name component amt currency)"
  by (simp add: wf_money_def money_component_def)

lemma history_money_wf: "m \<in> set (history_money_components ob) \<Longrightarrow> wf_money m"
  by (auto simp: history_money_components_def optional_money_def transaction_money_def money_component_wf Let_def
      split: if_splits option.splits)

lemma money_gaps_none: "wf_money m \<Longrightarrow> money_gaps m = [] \<longleftrightarrow> mc_complete m"
  by (auto simp: money_gaps_def wf_money_def)

text \<open>
  Claim C18: the unqueried stretches are exact. For every source and every millisecond, some gap of
  the projection reports that time as never queried just when no window of the source contains it
  although one window of the source has ended before it and another begins after it.
\<close>

theorem unqueried_windows_exact:
  assumes "project_history_coverage collate scope checkpoints observations = Ok cov"
    "wf_windows (own_checkpoints checkpoints source)"
  shows "reported_unqueried (hc_gaps cov) source t \<longleftrightarrow>
    between_windows (own_checkpoints checkpoints source) t \<and> \<not> covered (own_checkpoints checkpoints source) t"
proof -
  have "\<not> reported_unqueried (concat (map money_gaps money)) source t" for money
    by (simp add: reported_concat reported_unqueried_def not_unqueried)
  moreover have "\<not> reported_unqueried [OpeningBalanceUnknown] source t" "\<not> reported_unqueried [FundingNotObserved] source t"
    by (simp_all add: reported_unqueried_def)
  ultimately have "reported_unqueried (hc_gaps cov) source t \<longleftrightarrow>
      (\<exists>source'. reported_unqueried (snd (source_coverage collate checkpoints source')) source t)"
    by (simp add: projected_gaps [OF assms(1)] reported_concat)
  then show ?thesis by (simp add: source_reported source_unqueried [OF assms(2)])
qed

text \<open>
  Claim C17: the projection reports nothing but the opening balance, which it never knows, exactly
  when the history is complete: every source has windows, all of them were read to their end and
  they leave no time between them uncovered; every amount of money is known with its currency; and
  some funding was observed.
\<close>

theorem coverage_complete_iff:
  assumes "project_history_coverage collate scope checkpoints observations = Ok cov" "wf_windows checkpoints"
  shows "hc_gaps cov = [OpeningBalanceUnknown] \<longleftrightarrow>
    (\<forall>source. let own = own_checkpoints checkpoints source in
       own \<noteq> [] \<and> (\<forall>c \<in> set own. cp_status c = Traversed) \<and> (\<forall>t. between_windows own t \<longrightarrow> covered own t)) \<and>
    (\<forall>ob \<in> set observations. list_all mc_complete (history_money_components ob)) \<and> hc_funding cov = FundingObserved"
proof -
  let ?money = "concat (map history_money_components observations)"
  have wf: "wf_windows (own_checkpoints checkpoints source)" for source using assms(2) by (simp add: wf_windows_def)
  have empty: "stable_sort compare xs = [] \<longleftrightarrow> xs = []" for compare and xs :: "checkpoint list"
    using stable_sort_set [of compare xs] by (metis set_empty)
  have source: "snd (source_coverage collate checkpoints source) = [] \<longleftrightarrow>
      own_checkpoints checkpoints source \<noteq> [] \<and> (\<forall>c \<in> set (own_checkpoints checkpoints source). cp_status c = Traversed) \<and>
      (\<forall>t. between_windows (own_checkpoints checkpoints source) t \<longrightarrow> covered (own_checkpoints checkpoints source) t)" for source
    unfolding source_coverage_def Let_def snd_conv append_is_Nil_conv unqueried_none source_unqueried [OF wf]
    by (auto simp: empty status_gaps_none simp del: filter_empty_conv)
  have money: "concat (map money_gaps ?money) = [] \<longleftrightarrow> (\<forall>ob \<in> set observations. list_all mc_complete (history_money_components ob))"
    using money_gaps_none [OF history_money_wf] by (auto simp: list_all_iff)
  have funding: "filter is_funding ?money \<noteq> [] \<longleftrightarrow> hc_funding cov = FundingObserved"
    if "\<forall>ob \<in> set observations. list_all mc_complete (history_money_components ob)"
    unfolding projected_gaps(2) [OF assms(1)] using that history_money_wf
    by (fastforce simp: filter_empty_conv wf_money_def list_all_iff)
  have tail: "xs @ ys @ zs @ [z] = [z] \<longleftrightarrow> xs = [] \<and> ys = [] \<and> zs = []" for xs ys zs :: "coverage_gap list" and z by auto
  have "hc_gaps cov = [OpeningBalanceUnknown] \<longleftrightarrow>
      (\<forall>source. snd (source_coverage collate checkpoints source) = []) \<and>
      concat (map money_gaps ?money) = [] \<and> filter is_funding ?money \<noteq> []"
    unfolding projected_gaps(1) [OF assms(1)] tail by (auto simp del: filter_empty_conv)
  then show ?thesis unfolding source money Let_def using funding by blast
qed

subsection \<open>Concrete coverage\<close>

definition sample_history_scope :: history_scope where
  "sample_history_scope = \<lparr>hsc_exchange = ''bybit'', hsc_environment = ''mainnet'', hsc_accountId = ''account''\<rparr>"

definition sample_window :: "history_source \<Rightarrow> int \<Rightarrow> int \<Rightarrow> checkpoint" where
  "sample_window source first final =
     \<lparr>cp_scope = sample_history_scope, cp_source = source, cp_window = \<lparr>hw_fromMs = first, hw_toMs = final\<rparr>,
      cp_filterHash = ''filter'', cp_status = Traversed, cp_rowCount = 0, cp_insertedCount = 0, cp_duplicateCount = 0,
      cp_conflictCount = 0, cp_reasonCode = None\<rparr>"

definition sample_funding :: "sdec stored_observation" where
  "sample_funding = sample_row ''tx'' TransactionLog
     [(''factKind'', JStr ''transaction''), (''currency'', JStr ''USDT''), (''funding'', JStr ''-0.25'')]"

theorem unqueried_windows_exact_witness:
  "\<exists>cov. project_history_coverage (\<lambda>_ _. 0) sample_history_scope [sample_window Executions 0 10, sample_window Executions 20 30]
      [sample_funding] = Ok cov \<and>
    reported_unqueried (hc_gaps cov) Executions 15 \<and> \<not> reported_unqueried (hc_gaps cov) Executions 20"
proof -
  let ?cs = "[sample_window Executions 0 10, sample_window Executions 20 30]"
  have "case project_history_coverage (\<lambda>_ _. 0) sample_history_scope ?cs [sample_funding] of Ok cov \<Rightarrow> True | Inl e \<Rightarrow> False"
    by code_simp
  then obtain cov where cov: "project_history_coverage (\<lambda>_ _. 0) sample_history_scope ?cs [sample_funding] = Ok cov"
    by (auto split: sum.splits)
  have "wf_windows (own_checkpoints ?cs Executions)" by (simp add: wf_windows_def sample_window_def)
  from unqueried_windows_exact [OF cov this] show ?thesis
    using cov by (auto simp: between_windows_def sample_window_def)
qed

theorem coverage_complete_iff_witness:
  "\<exists>cov. project_history_coverage (\<lambda>_ _. 0) sample_history_scope
      [sample_window OrderHistory 0 10, sample_window Executions 0 10, sample_window ClosedPnl 0 10, sample_window TransactionLog 0 10]
      [sample_funding] = Ok cov \<and> hc_gaps cov = [OpeningBalanceUnknown]"
proof -
  let ?cs = "[sample_window OrderHistory 0 10, sample_window Executions 0 10, sample_window ClosedPnl 0 10,
    sample_window TransactionLog 0 10]"
  have "case project_history_coverage (\<lambda>_ _. 0) sample_history_scope ?cs [sample_funding] of
      Ok cov \<Rightarrow> hc_funding cov = FundingObserved | Inl e \<Rightarrow> False"
    by code_simp
  then obtain cov where cov: "project_history_coverage (\<lambda>_ _. 0) sample_history_scope ?cs [sample_funding] = Ok cov"
    "hc_funding cov = FundingObserved"
    by (auto split: sum.splits)
  have "own_checkpoints ?cs source = [sample_window source 0 10]" for source
    by (cases source) (simp_all add: sample_window_def)
  moreover have "list_all mc_complete (history_money_components sample_funding)" by code_simp
  moreover have "wf_windows ?cs" by (simp add: wf_windows_def sample_window_def)
  ultimately show ?thesis
    using coverage_complete_iff [OF cov(1)] cov by (simp add: Let_def between_windows_def sample_window_def)
qed

end
