(* ===== verification/Spec2Isabelle.thy ===== *)
theory Spec2Isabelle
  imports Grid MarketSeries Capacity JournalRuns HistoryCoverage
begin

text \<open>
  A model of the domain core and the journal of a risk-gated daily trader (\<open>src/src\<close>): how
  evidence and policies become a decision, the decision an order grid, the grid a risk-checked
  and approved plan, the plan a sequence of orders that a journal owns and reconciles, and what
  the provider's history says about them afterwards.

  How the parts interact. Everything that enters the core is an \<open>unknown\<close> JavaScript value; a
  boundary parser turns it into a frozen record or fails with an error code. Prices, quantities
  and weights are decimals with exact arithmetic, and records are identified by the hash of their
  canonical bytes. A decision policy weighs observations into one of three recommendations;
  \<open>ADD_LONG\<close> is compiled into a ladder of limit buys, normalized to the exchange's grids;
  \<open>evaluateRisk\<close> checks the candidate against market, account, strategy and capabilities, and
  the portfolio gates check what it would leave the account exposed to; a plan binds the
  candidate's hash to the passed decision; an approval binds an actor to the plan hash for a
  while; the lifecycle begins execution under a valid approval and ends in the state that the
  reconciliation of its attempts shows. The journal records all this under the lease of an
  account: the plan and its approval, each intent before its dispatch, each attempt, the identity
  the exchange gave it, and each result; an unsettled result or a takeover raises a HALT that
  stops the account. The rows of the provider's history are attributed to the journal's orders.

  Theories, in import order, and the files they translate (under \<open>src/src\<close>):

  \<^item> \<open>Prelude\<close>: \<open>domain/shared/errors.ts\<close>, \<open>result.ts\<close>, JavaScript values, shared lemmas.
  \<^item> \<open>Host\<close>: the decimal library and the hash function as locales \<open>big_decimal\<close> and \<open>host\<close>, with
    one exact rational instance that evaluates.
  \<^item> \<open>Decimals\<close>: \<open>domain/shared/decimal.ts\<close>. Text and value, exact rounding to steps.
  \<^item> \<open>TimeModel\<close>: \<open>domain/shared/time.ts\<close>. Calendar arithmetic and canonical instants.
  \<^item> \<open>Validation\<close>: \<open>domain/shared/validation.ts\<close>, \<open>domain/planning/planning-validation.ts\<close>.
  \<^item> \<open>Canonical\<close>: \<open>domain/identity/canonical-serialization.ts\<close>. Bytes determine data.
  \<^item> \<open>Evidence\<close>: \<open>domain/evidence/evidence-ref.ts\<close>, \<open>domain/capabilities\<close>. Freshness, trust.
  \<^item> \<open>Market\<close>: \<open>domain/market/snapshots.ts\<close>, \<open>instrument-constraints.ts\<close>, \<open>strategy-config.ts\<close>.
  \<^item> \<open>Orders\<close>: \<open>domain/planning/order-intent.ts\<close>, \<open>normalize-order-intent.ts\<close>. Grids, minimums.
  \<^item> \<open>Policies\<close>: \<open>domain/planning/decision-policy.ts\<close>, \<open>planning-policy.ts\<close>.
  \<^item> \<open>Decision\<close>: \<open>domain/planning/daily-decision.ts\<close>, refining a decision over rationals.
  \<^item> \<open>Grid\<close>: \<open>domain/planning/daily-entry-grid.ts\<close>. Every leg within its bounds.
  \<^item> \<open>Risk\<close>: \<open>domain/risk/risk-decision.ts\<close>, refining an acceptability predicate over rationals.
  \<^item> \<open>Plan\<close>: \<open>domain/planning/execution-plan.ts\<close>. What a plan binds and what identifies it.
  \<^item> \<open>Execution\<close>: approvals, attempts, exchange orders and reconciliation (\<open>domain/execution\<close>).
  \<^item> \<open>Lifecycle\<close>: \<open>domain/execution/lifecycle.ts\<close> as a function and as an inductive relation:
    safety of every run, its length, and that a run can complete.
  \<^item> \<open>MarketSeries\<close>: \<open>domain/market/market-series-normalization.ts\<close>, \<open>market-evidence-windows.ts\<close>.
    Which observations a series keeps and when it is complete.
  \<^item> \<open>PortfolioEvidence\<close>: \<open>domain/risk/portfolio-risk-policy.ts\<close>, \<open>-diagnostics.ts\<close>, \<open>-evidence.ts\<close>.
  \<^item> \<open>Exposure\<close>: \<open>domain/risk/portfolio-risk-projection.ts\<close>, refining a valuation over rationals;
    its loops are instances of the locale \<open>valued_step\<close>.
  \<^item> \<open>Capacity\<close>: \<open>domain/risk/portfolio-risk-capacity.ts\<close>, \<open>portfolio-risk-economics.ts\<close>. What a
    passed gate promises.
  \<^item> \<open>Authority\<close>: \<open>adapters/sqlite/transaction.ts\<close>, \<open>sqlite-helpers.ts\<close>, \<open>sqlite-authority.ts\<close> and the
    lease and HALT operations of \<open>execution-store.ts\<close>, on tables.
  \<^item> \<open>Journal\<close>: the abstract account those operations implement; fencing of old holders, the log.
  \<^item> \<open>Json\<close>: \<open>JSON.parse\<close> of the standard library, and that it reads canonical bytes back.
  \<^item> \<open>Accounting\<close>: \<open>domain/accounting/fill.ts\<close>, \<open>fee.ts\<close>, \<open>funding.ts\<close>, \<open>ledger-entry.ts\<close>.
  \<^item> \<open>Artifact\<close>: \<open>domain/identity/canonical-artifact.ts\<close>. Schemas, encoding, decoding, round trip.
  \<^item> \<open>Binding\<close>: \<open>domain/execution/identity-binding.ts\<close>.
  \<^item> \<open>Ledger\<close>: the operations of \<open>adapters/sqlite/execution-store.ts\<close> on lineages, intents, attempts,
    bindings and reconciliations, as transactions on the rows of their tables.
  \<^item> \<open>Ownership\<close>: the invariant of those tables, kept by every operation; \<open>JournalExample\<close>: a run on
    concrete values; \<open>JournalRuns\<close>: what holds for every sequence of operations.
  \<^item> \<open>HistoryFacts\<close>: \<open>domain/accounting/history-source-fact.ts\<close>. Rows of the provider's history.
  \<^item> \<open>Attribution\<close>: \<open>application/history-attribution.ts\<close>. Which order owns a row.
  \<^item> \<open>HistoryCoverage\<close>: \<open>application/history-coverage.ts\<close>. Which time and money is left open.
\<close>

text \<open>
  Conventions. A fallible function returns \<open>error + value\<close>; \<open>Fail\<close> and \<open>Ok\<close> are the two sides, and
  every early return of the code is a branch. What the repository calls and does not contain is a
  parameter: the decimal library and the digest (\<open>L\<close>, with the locale \<open>host\<close> stating the
  documented behaviour; \<open>v\<close> maps a decimal to the rational it stands for), the Unicode
  normalization of \<open>serialize_value\<close> (\<open>nfc\<close>), \<open>localeCompare\<close> (\<open>collate\<close>) and the constructors of
  artifacts that are not modelled (\<open>foreign\<close>). Readings of the clock and failures of \<open>BEGIN\<close> and
  \<open>COMMIT\<close> are arguments. Every specification that is stated over rationals is an own definition
  (\<open>decide\<close>, \<open>acceptable\<close>, \<open>position_exposure\<close>, \<open>earns_edge\<close>, ...), never a function of the code.

  Integers of the code are safe integers or milliseconds and stay \<open>int\<close>; where the code checks
  \<open>Number.isSafeInteger\<close> so does the model. Texts are Latin-1; a text that is validated is
  normalized by \<open>nfc_latin1\<close>, the identity on these characters, while the serializer is
  proved for every normalization, collisions of keys included. Quotients are cut to 1000
  digits as \<open>big.js\<close> is configured (\<open>DECIMAL_DP\<close>); the theorems on rounding say where that shows.

  Bounds and fuel. The one recursion with fuel is the JSON parser: \<open>json_fuel\<close> is twice the length
  of the text and one, and \<open>json_fuel_free\<close> shows that more makes no difference, each call consuming
  a character or passing to a smaller grammar rule. All other loops are structural
  recursions or folds over lists, so every function of the model is total.

  Not modelled. The transport and response mapping of the exchange and data adapters, the command
  line, the keychain and the SQLite stores apart from the execution store only move data; ports
  are interfaces. \<open>squareRoot\<close> of the decimals is used by none of the modelled code. The guard on live JavaScript objects (proxies, getters, prototypes, cycles)
  has no counterpart among values. The evidence bundles, quality assessments and review
  artifacts that embed them, and the operator's mainnet flow built on those, are left out; where the
  modelled code takes them, it takes the typed records or the parameter \<open>foreign\<close>. Message texts,
  freezing and the content hashes that name inputs in the results of the portfolio gates are left
  out as well.
\<close>

end
